(* ===== verification/Prelude.thy ===== *)
theory Prelude
  imports Main "HOL-Library.Word" "HOL-Library.Monad_Syntax" "HOL-Library.Char_ord"
    "HOL-Library.List_Lexorder"
begin

text \<open>
  Shared vocabulary of the development: the machine integers and strings of the Go sources, the
  result type of code that may panic, decimal rendering (\<open>strconv.Itoa\<close>), the UTF-8 bytes of the
  non-ASCII symbols that occur in step names and messages, and the generic lemmas on options,
  lists and words that the component theories use.

  A Go panic (an explicit \<open>panic\<close>, a nil dereference, an index out of range) is the value
  \<open>None\<close> of \<open>'a option\<close>; a Go function that cannot panic has a plain result type.
\<close>

subsection \<open>Collections of facts\<close>

named_theorems res_simps \<open>inversion of option-monad computations\<close>
named_theorems engine_simps \<open>field equations of the transition engine's helpers\<close>
named_theorems ctx_simps \<open>field equations of updates of the datamesh contexts\<close>
named_theorems unat_simps \<open>reading byte and bitset arithmetic as nat\<close>

subsection \<open>Machine types\<close>

type_synonym u8 = "8 word"
type_synonym u16 = "16 word"
type_synonym u32 = "32 word"
type_synonym u64 = "64 word"

subsection \<open>The option monad as Go control flow\<close>

lemma bind_Some_iff [res_simps]:
  "(Option.bind m f = Some y) \<longleftrightarrow> (\<exists>x. m = Some x \<and> f x = Some y)"
  by (cases m) auto

lemma bind_None_iff [res_simps]:
  "(Option.bind m f = None) \<longleftrightarrow> (m = None \<or> (\<exists>x. m = Some x \<and> f x = None))"
  by (cases m) auto

text \<open>\<open>panicUnless c\<close> is the guard form \<open>if !c { panic(...) }\<close>.\<close>

definition panicUnless :: "bool \<Rightarrow> unit option" where
  "panicUnless c = (if c then Some () else None)"

lemma panicUnless_Some [simp]: "(panicUnless c = Some u) \<longleftrightarrow> c"
  by (simp add: panicUnless_def)

lemma panicUnless_None [simp]: "(panicUnless c = None) \<longleftrightarrow> \<not> c"
  by (simp add: panicUnless_def)

lemma panicUnless_True [simp]: "panicUnless True = Some ()"
  by (simp add: panicUnless_def)

text \<open>Reading a slice element: Go panics out of range.\<close>

definition index :: "'a list \<Rightarrow> nat \<Rightarrow> 'a option" where
  "index xs i = (if i < length xs then Some (xs ! i) else None)"

lemma index_Some_iff [simp]: "(index xs i = Some x) \<longleftrightarrow> i < length xs \<and> x = xs ! i"
  by (auto simp: index_def)

lemma index_None_iff [simp]: "(index xs i = None) \<longleftrightarrow> length xs \<le> i"
  by (auto simp: index_def)

subsection \<open>Decimal rendering\<close>

definition digit_char :: "nat \<Rightarrow> char" where
  "digit_char d = char_of (48 + d)"

fun nat_digits :: "nat \<Rightarrow> string" where
  "nat_digits n = (if n < 10 then [digit_char n] else nat_digits (n div 10) @ [digit_char (n mod 10)])"

declare nat_digits.simps [simp del]

text \<open>\<open>strconv.Itoa\<close>, \<open>strconv.FormatInt(_, 10)\<close> and the verb \<open>%d\<close>.\<close>

definition itoa :: "int \<Rightarrow> string" where
  "itoa i = (if i < 0 then CHR ''-'' # nat_digits (nat (- i)) else nat_digits (nat i))"

lemma nat_digits_nonempty: "nat_digits n \<noteq> []"
  by (subst nat_digits.simps) simp

lemma nat_digits_small: "n < 10 \<Longrightarrow> nat_digits n = [digit_char n]"
  by (subst nat_digits.simps) simp

lemma nat_digits_two:
  assumes "10 \<le> n" and "n < 100"
  shows "nat_digits n = [digit_char (n div 10), digit_char (n mod 10)]"
  using assms by (subst nat_digits.simps) (simp add: nat_digits_small)

subsection \<open>UTF-8 symbols of step names and messages\<close>

definition sym_arrow :: string where "sym_arrow = [CHR 0xE2, CHR 0x86, CHR 0x92]"
definition sym_up :: string where "sym_up = [CHR 0xE2, CHR 0x86, CHR 0x91]"
definition sym_down :: string where "sym_down = [CHR 0xE2, CHR 0x86, CHR 0x93]"
definition sym_none :: string where "sym_none = [CHR 0xE2, CHR 0x88, CHR 0x85]"
definition sym_new :: string where "sym_new = [CHR 0xE2, CHR 0x9C, CHR 0xA6]"
definition sym_gone :: string where "sym_gone = [CHR 0xE2, CHR 0x9C, CHR 0x95]"
definition sym_dash :: string where "sym_dash = [CHR 0xE2, CHR 0x80, CHR 0x94]"

text \<open>\<open>"a \<rightarrow> b"\<close>, the shape of most step names.\<close>

definition arrow :: "string \<Rightarrow> string \<Rightarrow> string" where
  "arrow a b = a @ '' '' @ sym_arrow @ '' '' @ b"

subsection \<open>Strings\<close>

text \<open>\<open>strings.Join\<close>.\<close>

fun join :: "string \<Rightarrow> string list \<Rightarrow> string" where
  "join sep [] = []"
| "join sep [x] = x"
| "join sep (x # y # xs) = x @ sep @ join sep (y # xs)"

text \<open>\<open>strings.ToLower\<close> on ASCII strings.\<close>

definition to_lower_char :: "char \<Rightarrow> char" where
  "to_lower_char c = (if 65 \<le> (of_char c :: nat) \<and> (of_char c :: nat) \<le> 90
     then char_of (of_char c + 32 :: nat) else c)"

definition to_lower :: "string \<Rightarrow> string" where
  "to_lower s = map to_lower_char s"

text \<open>The verb \<open>%q\<close> on strings without characters that need escaping.\<close>

definition quoted :: "string \<Rightarrow> string" where
  "quoted s = CHR 0x22 # s @ [CHR 0x22]"

subsection \<open>Lists\<close>

text \<open>\<open>slices.Delete(s, i, i+1)\<close>.\<close>

definition delete_at :: "nat \<Rightarrow> 'a list \<Rightarrow> 'a list" where
  "delete_at i xs = take i xs @ drop (Suc i) xs"

lemma length_delete_at: "i < length xs \<Longrightarrow> length (delete_at i xs) = length xs - 1"
  by (simp add: delete_at_def)

lemma set_delete_at: "set (delete_at i xs) \<subseteq> set xs"
  by (auto simp: delete_at_def dest: in_set_takeD in_set_dropD)

lemma delete_at_decomp:
  assumes "i < length xs"
  shows "xs = take i xs @ xs ! i # drop (Suc i) xs"
  using assms by (simp add: id_take_nth_drop)

lemma distinct_delete_at: "distinct xs \<Longrightarrow> distinct (delete_at i xs)"
  unfolding delete_at_def
  by (metis distinct_append distinct_take distinct_drop le_SucI order_refl
      set_take_disj_set_drop_if_distinct)

lemma set_delete_at_distinct:
  assumes "distinct xs" and "i < length xs"
  shows "set (delete_at i xs) = set xs - {xs ! i}"
proof -
  have "distinct (take i xs @ xs ! i # drop (Suc i) xs)"
    using assms delete_at_decomp by metis
  moreover have "set xs = set (take i xs @ xs ! i # drop (Suc i) xs)"
    using assms(2) delete_at_decomp by metis
  ultimately show ?thesis by (auto simp: delete_at_def)
qed

lemma map_delete_at: "map f (delete_at i xs) = delete_at i (map f xs)"
  by (simp add: delete_at_def take_map drop_map)

lemma sorted_wrt_delete_at:
  assumes "sorted_wrt R xs"
  shows "sorted_wrt R (delete_at i xs)"
proof (cases "i < length xs")
  case True
  have "sorted_wrt R (take i xs @ xs ! i # drop (Suc i) xs)"
    using assms True delete_at_decomp by metis
  then show ?thesis by (auto simp: delete_at_def sorted_wrt_append)
next
  case False
  then show ?thesis using assms by (simp add: delete_at_def)
qed

lemma sum_list_delete_at:
  fixes f :: "'a \<Rightarrow> nat"
  assumes "i < length xs"
  shows "sum_list (map f xs) = f (xs ! i) + sum_list (map f (delete_at i xs))"
proof -
  have "sum_list (map f xs) = sum_list (map f (take i xs @ xs ! i # drop (Suc i) xs))"
    using assms delete_at_decomp by metis
  then show ?thesis by (simp add: delete_at_def)
qed

text \<open>Counting the elements of a list that satisfy a predicate.\<close>

abbreviation countp :: "('a \<Rightarrow> bool) \<Rightarrow> 'a list \<Rightarrow> nat" where
  "countp P xs \<equiv> length (filter P xs)"

lemma countp_list_update:
  assumes "i < length xs"
  shows "countp P (xs[i := y]) + (if P (xs ! i) then 1 else 0)
       = countp P xs + (if P y then 1 else 0)"
proof -
  have "countp P xs = countp P (take i xs @ xs ! i # drop (Suc i) xs)"
    using delete_at_decomp [OF assms] by simp
  then have "countp P xs = countp P (take i xs) + (if P (xs ! i) then 1 else 0) + countp P (drop (Suc i) xs)"
    by simp
  moreover have "countp P (xs[i := y])
      = countp P (take i xs) + (if P y then 1 else 0) + countp P (drop (Suc i) xs)"
    using assms by (simp add: upd_conv_take_nth_drop)
  ultimately show ?thesis by simp
qed

subsection \<open>Bytes as naturals\<close>

lemma unat_u8_bound: "unat (x :: u8) < 256"
  using unsigned_less [of x] by simp

lemma unat_u8_add [unat_simps]: "unat (x + y :: u8) = (unat x + unat y) mod 256"
  by (simp add: unat_word_ariths)

lemma unat_u8_sub_ge: "y \<le> x \<Longrightarrow> unat (x - y :: u8) = unat x - unat y"
  by (rule unat_sub)

lemma unat_u8_of_nat [unat_simps]: "unat (of_nat n :: u8) = n mod 256"
  by (simp add: unat_of_nat)

lemma unat_u8_div [unat_simps]: "unat (x div y :: u8) = unat x div unat y"
  by (rule unat_div)

lemma unat_u8_mod [unat_simps]: "unat (x mod y :: u8) = unat x mod unat y"
  by (rule unat_mod)

lemma u8_le_iff [unat_simps]: "(x :: u8) \<le> y \<longleftrightarrow> unat x \<le> unat y"
  by (rule word_le_nat_alt)

lemma u8_less_iff [unat_simps]: "(x :: u8) < y \<longleftrightarrow> unat x < unat y"
  by (rule word_less_nat_alt)

lemma u8_eq_iff: "(x :: u8) = y \<longleftrightarrow> unat x = unat y"
  by (simp add: word_unat_eq_iff)

end
