(* ===== verification/Idset.thy ===== *)
theory Idset
  imports Prelude
begin

text \<open>
  The package \<open>images/controller/internal/idset\<close>: sets of replica IDs (0--31) packed into a
  \<open>uint32\<close>. Every operation is the bit operation of the source on a 32-bit word; the iterator
  \<open>All\<close> is the list of IDs it yields. The abstraction \<open>ids\<close> reads a bitset as a set of
  naturals; the lemmas show that each operation is the set operation it is named after, and the
  locale \<open>id_collection\<close> states the contract the other components rely on.
\<close>

unbundle bit_operations_syntax

subsection \<open>The functions of math/bits\<close>

definition OnesCount32 :: "u32 \<Rightarrow> nat" where
  "OnesCount32 x = length (filter (bit x) [0..<32])"

definition TrailingZeros32 :: "u32 \<Rightarrow> nat" where
  "TrailingZeros32 x = length (takeWhile (\<lambda>i. \<not> bit x i) [0..<32])"

definition LeadingZeros32 :: "u32 \<Rightarrow> nat" where
  "LeadingZeros32 x = length (takeWhile (\<lambda>i. \<not> bit x i) (rev [0..<32]))"

subsection \<open>IDSet\<close>

type_synonym IDSet = u32

definition IDSet_full :: IDSet where
  "IDSet_full = 0xFFFFFFFF"

definition IDSet_Contains :: "IDSet \<Rightarrow> u8 \<Rightarrow> bool" where
  "IDSet_Contains s i \<longleftrightarrow> s AND push_bit (unat i) 1 \<noteq> 0"

definition IDSet_Add :: "u8 \<Rightarrow> IDSet \<Rightarrow> IDSet" where
  "IDSet_Add i s = s OR push_bit (unat i) 1"

definition IDSet_Remove :: "u8 \<Rightarrow> IDSet \<Rightarrow> IDSet" where
  "IDSet_Remove i s = s AND NOT (push_bit (unat i) 1)"

definition IDSet_Of :: "u8 list \<Rightarrow> IDSet" where
  "IDSet_Of xs = foldl (\<lambda>s i. s OR push_bit (unat i) 1) 0 xs"

definition IDSet_IsEmpty :: "IDSet \<Rightarrow> bool" where
  "IDSet_IsEmpty s \<longleftrightarrow> s = 0"

definition IDSet_Len :: "IDSet \<Rightarrow> nat" where
  "IDSet_Len s = OnesCount32 s"

definition IDSet_Min :: "IDSet \<Rightarrow> u8" where
  "IDSet_Min s = of_nat (TrailingZeros32 s)"

definition IDSet_Max :: "IDSet \<Rightarrow> u8" where
  "IDSet_Max s = word_of_int (31 - int (LeadingZeros32 s))"

definition IDSet_MinMissing :: "IDSet \<Rightarrow> u8 \<times> bool" where
  "IDSet_MinMissing s = (let inv = NOT s in
     if inv = 0 then (0, False) else (of_nat (TrailingZeros32 inv), True))"

subsection \<open>Bit facts\<close>

definition ids :: "IDSet \<Rightarrow> nat set" where
  "ids s = {n. bit s n}"

lemma in_ids [simp]: "n \<in> ids s \<longleftrightarrow> bit s n"
  by (simp add: ids_def)

lemma ids_bounded: "n \<in> ids s \<Longrightarrow> n < 32"
  using bit_imp_le_length [of s n] by simp

lemma finite_ids [simp]: "finite (ids s)"
  by (rule finite_subset [of _ "{..<32}"]) (auto dest: ids_bounded)

lemma ids_inject: "ids s = ids t \<longleftrightarrow> s = t"
  by (auto intro!: bit_eqI simp: ids_def)

lemma bit_single [simp]: "bit (2 ^ n :: u32) m \<longleftrightarrow> m = n \<and> n < 32"
  by (auto simp: bit_exp_iff possible_bit_word)

lemma ids_0 [simp]: "ids 0 = {}"
  by (simp add: ids_def)

lemma ids_single: "n < 32 \<Longrightarrow> ids (2 ^ n) = {n}"
  by (auto simp: ids_def)

lemma ids_and: "ids (s AND t) = ids s \<inter> ids t"
  by (auto simp: ids_def bit_and_iff)

lemma ids_or: "ids (s OR t) = ids s \<union> ids t"
  by (auto simp: ids_def bit_or_iff)

lemma ids_xor: "ids (s XOR t) = (ids s - ids t) \<union> (ids t - ids s)"
  by (auto simp: ids_def bit_xor_iff)

lemma ids_not: "ids (NOT s) = {..<32} - ids s"
  by (auto simp: bit_not_iff dest: bit_imp_le_length)

lemma ids_and_not: "ids (s AND NOT t) = ids s - ids t"
  by (auto simp: ids_and ids_not dest: ids_bounded bit_imp_le_length)

lemma ids_empty_iff: "ids s = {} \<longleftrightarrow> s = 0"
  using ids_inject [of s 0] by simp

lemma ids_eq_filter: "ids s = set (filter (bit s) [0..<32])"
  using ids_bounded [of _ s] by auto

lemma OnesCount32_card: "OnesCount32 s = card (ids s)"
proof -
  have "card (set (filter (bit s) [0..<32])) = length (filter (bit s) [0..<32])"
    by (rule distinct_card) simp
  then show ?thesis by (simp add: OnesCount32_def ids_eq_filter)
qed

text \<open>A scan that stops at the first element satisfying \<open>P\<close>.\<close>

lemma takeWhile_upt_first:
  assumes "P m" and "m < n" and "\<And>k. k < m \<Longrightarrow> \<not> P k"
  shows "length (takeWhile (\<lambda>i. \<not> P i) [0..<n]) = m"
proof -
  have split: "[0..<n] = [0..<m] @ m # [Suc m..<n]"
    using assms(2) by (metis le0 less_imp_le_nat upt_add_eq_append upt_conv_Cons le_add_diff_inverse add_0)
  have "takeWhile (\<lambda>i. \<not> P i) [0..<n] = [0..<m]"
    unfolding split using assms(1,3) by (subst takeWhile_append2) auto
  then show ?thesis by simp
qed

lemma TrailingZeros32_Min:
  assumes "s \<noteq> 0"
  shows "TrailingZeros32 s = Min (ids s)"
proof -
  have ne: "ids s \<noteq> {}" using assms by (simp add: ids_empty_iff)
  have "Min (ids s) \<in> ids s" using ne by (intro Min_in) auto
  moreover from this have "Min (ids s) < 32" by (rule ids_bounded)
  moreover have "\<And>k. k < Min (ids s) \<Longrightarrow> \<not> bit s k"
    using ne by (meson Min_le finite_ids in_ids not_le)
  ultimately show ?thesis
    unfolding TrailingZeros32_def by (intro takeWhile_upt_first) auto
qed

lemma TrailingZeros32_0: "TrailingZeros32 0 = 32"
  by (simp add: TrailingZeros32_def takeWhile_eq_all_conv [THEN iffD2])

lemma bit_TrailingZeros32:
  assumes "s \<noteq> 0"
  shows "bit s (TrailingZeros32 s)" and "TrailingZeros32 s < 32"
proof -
  have "Min (ids s) \<in> ids s" using assms by (intro Min_in) (auto simp: ids_empty_iff)
  then show "bit s (TrailingZeros32 s)" and "TrailingZeros32 s < 32"
    using ids_bounded by (auto simp: TrailingZeros32_Min [OF assms])
qed

lemma ids_clear_lowest:
  assumes "s \<noteq> 0"
  shows "ids (s AND NOT (push_bit (TrailingZeros32 s) 1)) = ids s - {Min (ids s)}"
  using bit_TrailingZeros32(2) [OF assms]
  by (simp add: ids_and_not ids_single TrailingZeros32_Min [OF assms])

lemma card_clear_lowest:
  assumes "s \<noteq> 0"
  shows "card (ids (s AND NOT (push_bit (TrailingZeros32 s) 1))) < card (ids s)"
  unfolding ids_clear_lowest [OF assms]
  using assms by (intro card_Diff1_less Min_in) (auto simp: ids_empty_iff)

subsection \<open>Iteration\<close>

text \<open>\<open>All\<close>: the loop clears the lowest set bit and yields its position until none is left.\<close>

function IDSet_All :: "IDSet \<Rightarrow> u8 list" where
  "IDSet_All x = (if x = 0 then [] else
     (let i = TrailingZeros32 x in of_nat i # IDSet_All (x AND NOT (push_bit i 1))))"
  by pat_completeness auto
termination
  by (relation "measure (\<lambda>x. card (ids x))") (simp_all add: card_clear_lowest del: push_bit_of_1)

declare IDSet_All.simps [simp del]

definition IDSet_AppendTo :: "IDSet \<Rightarrow> u8 list \<Rightarrow> u8 list" where
  "IDSet_AppendTo s dst = foldl (\<lambda>d i. d @ [i]) dst (IDSet_All s)"

text \<open>\<open>idStr\<close> is the table of the decimal renderings of 0--31.\<close>

definition idStr :: "string list" where
  "idStr = [''0'', ''1'', ''2'', ''3'', ''4'', ''5'', ''6'', ''7'', ''8'', ''9'',
    ''10'', ''11'', ''12'', ''13'', ''14'', ''15'', ''16'', ''17'', ''18'', ''19'',
    ''20'', ''21'', ''22'', ''23'', ''24'', ''25'', ''26'', ''27'', ''28'', ''29'',
    ''30'', ''31'']"

text \<open>The loop of \<open>AppendString\<close> with its flag \<open>first\<close>.\<close>

function AppendString_loop :: "u32 \<Rightarrow> bool \<Rightarrow> string \<Rightarrow> string" where
  "AppendString_loop x first buf = (if x = 0 then buf else
     (let buf = (if \<not> first then buf @ '', '' else buf);
          i = TrailingZeros32 x;
          buf = buf @ ''#'';
          buf = buf @ idStr ! i
      in AppendString_loop (x AND NOT (push_bit i 1)) False buf))"
  by pat_completeness auto
termination
  by (relation "measure (\<lambda>(x, f, b). card (ids x))") (simp_all add: card_clear_lowest del: push_bit_of_1)

declare AppendString_loop.simps [simp del]

definition IDSet_AppendString :: "IDSet \<Rightarrow> string \<Rightarrow> string" where
  "IDSet_AppendString s buf = AppendString_loop s True buf"

definition IDSet_String :: "IDSet \<Rightarrow> string" where
  "IDSet_String s = (if s = 0 then '''' else IDSet_AppendString s [])"

subsection \<open>Set algebra\<close>

definition IDSet_Union :: "IDSet \<Rightarrow> IDSet \<Rightarrow> IDSet" where
  "IDSet_Union s t = s OR t"

definition IDSet_Intersect :: "IDSet \<Rightarrow> IDSet \<Rightarrow> IDSet" where
  "IDSet_Intersect s t = s AND t"

definition IDSet_Difference :: "IDSet \<Rightarrow> IDSet \<Rightarrow> IDSet" where
  "IDSet_Difference s t = s AND NOT t"

definition IDSet_SymDiff :: "IDSet \<Rightarrow> IDSet \<Rightarrow> IDSet" where
  "IDSet_SymDiff s t = s XOR t"

definition IDSet_IsSubsetOf :: "IDSet \<Rightarrow> IDSet \<Rightarrow> bool" where
  "IDSet_IsSubsetOf s t \<longleftrightarrow> s AND NOT t = 0"

definition IDSet_Equals :: "IDSet \<Rightarrow> IDSet \<Rightarrow> bool" where
  "IDSet_Equals s t \<longleftrightarrow> s = t"

definition IDSet_Overlaps :: "IDSet \<Rightarrow> IDSet \<Rightarrow> bool" where
  "IDSet_Overlaps s t \<longleftrightarrow> s AND t \<noteq> 0"

definition IDSet_IsDisjointWith :: "IDSet \<Rightarrow> IDSet \<Rightarrow> bool" where
  "IDSet_IsDisjointWith s t \<longleftrightarrow> s AND t = 0"

subsection \<open>Helpers for collections\<close>

text \<open>The item's \<open>ID()\<close> method is the argument \<open>idOf\<close>.\<close>

definition FromAll :: "('a \<Rightarrow> u8) \<Rightarrow> 'a list \<Rightarrow> IDSet" where
  "FromAll idOf items = foldl (\<lambda>s x. IDSet_Add (idOf x) s) 0 items"

definition FromWhere :: "('a \<Rightarrow> u8) \<Rightarrow> 'a list \<Rightarrow> ('a \<Rightarrow> bool) \<Rightarrow> IDSet" where
  "FromWhere idOf items pred = foldl (\<lambda>s x. if pred x then IDSet_Add (idOf x) s else s) 0 items"

definition FromFunc :: "'a list \<Rightarrow> ('a \<Rightarrow> u8 \<times> bool) \<Rightarrow> IDSet" where
  "FromFunc items fn = foldl (\<lambda>s x. case fn x of (i, ok) \<Rightarrow> if ok then IDSet_Add i s else s) 0 items"

subsection \<open>Every operation is its set operation\<close>

lemma ids_Add [simp]: "unat i < 32 \<Longrightarrow> ids (IDSet_Add i s) = insert (unat i) (ids s)"
  by (simp add: IDSet_Add_def ids_or ids_single)

lemma ids_Remove [simp]: "ids (IDSet_Remove i s) = ids s - {unat i}"
  by (cases "unat i < 32") (auto simp: IDSet_Remove_def ids_and_not ids_single dest: ids_bounded)

lemma Contains_iff [simp]: "IDSet_Contains s i \<longleftrightarrow> unat i \<in> ids s"
  using ids_bounded [of "unat i" s]
  by (auto simp: IDSet_Contains_def ids_and simp flip: ids_empty_iff)

lemma IsEmpty_iff [simp]: "IDSet_IsEmpty s \<longleftrightarrow> ids s = {}"
  by (simp add: IDSet_IsEmpty_def ids_empty_iff)

lemma Len_card [simp]: "IDSet_Len s = card (ids s)"
  by (simp add: IDSet_Len_def OnesCount32_card)

lemma ids_Union [simp]: "ids (IDSet_Union s t) = ids s \<union> ids t"
  by (simp add: IDSet_Union_def ids_or)

lemma ids_Intersect [simp]: "ids (IDSet_Intersect s t) = ids s \<inter> ids t"
  by (simp add: IDSet_Intersect_def ids_and)

lemma ids_Difference [simp]: "ids (IDSet_Difference s t) = ids s - ids t"
  by (simp add: IDSet_Difference_def ids_and_not)

lemma ids_SymDiff [simp]: "ids (IDSet_SymDiff s t) = (ids s - ids t) \<union> (ids t - ids s)"
  by (simp add: IDSet_SymDiff_def ids_xor)

lemma IsSubsetOf_iff [simp]: "IDSet_IsSubsetOf s t \<longleftrightarrow> ids s \<subseteq> ids t"
  using ids_empty_iff [of "s AND NOT t"] by (auto simp: IDSet_IsSubsetOf_def ids_and_not)

lemma Equals_iff [simp]: "IDSet_Equals s t \<longleftrightarrow> ids s = ids t"
  by (simp add: IDSet_Equals_def ids_inject)

lemma Overlaps_iff [simp]: "IDSet_Overlaps s t \<longleftrightarrow> ids s \<inter> ids t \<noteq> {}"
  using ids_empty_iff [of "s AND t"] by (auto simp: IDSet_Overlaps_def ids_and)

lemma IsDisjointWith_iff [simp]: "IDSet_IsDisjointWith s t \<longleftrightarrow> ids s \<inter> ids t = {}"
  using ids_empty_iff [of "s AND t"] by (auto simp: IDSet_IsDisjointWith_def ids_and)

subsection \<open>The contract of an ID collection\<close>

text \<open>
  What the engine, the tracker and the confirm callbacks rely on: an abstraction to sets that
  insertion, deletion and membership respect for valid IDs. The client lemma is the loop they all
  share: folding insertion over the matching items of a slice.
\<close>

locale id_collection =
  fixes empty :: 's
    and add :: "u8 \<Rightarrow> 's \<Rightarrow> 's"
    and remove :: "u8 \<Rightarrow> 's \<Rightarrow> 's"
    and contains :: "'s \<Rightarrow> u8 \<Rightarrow> bool"
    and abs :: "'s \<Rightarrow> nat set"
  assumes abs_empty: "abs empty = {}"
    and abs_add: "unat i < 32 \<Longrightarrow> abs (add i s) = insert (unat i) (abs s)"
    and abs_remove: "abs (remove i s) = abs s - {unat i}"
    and abs_contains: "contains s i \<longleftrightarrow> unat i \<in> abs s"
begin

lemma abs_fold_add_where:
  assumes "\<And>x. x \<in> set xs \<Longrightarrow> P x \<Longrightarrow> unat (f x) < 32"
  shows "abs (foldl (\<lambda>s x. if P x then add (f x) s else s) s xs)
       = abs s \<union> {unat (f x) | x. x \<in> set xs \<and> P x}"
  using assms
proof (induction xs arbitrary: s)
  case Nil
  then show ?case by simp
next
  case (Cons a xs)
  have "abs (if P a then add (f a) s else s) = abs s \<union> {unat (f x) | x. x = a \<and> P x}"
    using Cons.prems by (auto simp: abs_add)
  with Cons show ?case by auto
qed

lemma contains_add_self: "unat i < 32 \<Longrightarrow> contains (add i s) i"
  by (simp add: abs_contains abs_add)

lemma contains_remove_self: "\<not> contains (remove i s) i"
  by (simp add: abs_contains abs_remove)

lemma contains_remove_other: "i \<noteq> j \<Longrightarrow> contains (remove i s) j = contains s j"
  by (auto simp: abs_contains abs_remove word_unat_eq_iff)

end

interpretation bits: id_collection "0 :: IDSet" IDSet_Add IDSet_Remove IDSet_Contains ids
  by unfold_locales auto

lemma ids_FromAll:
  assumes "\<And>x. x \<in> set items \<Longrightarrow> unat (f x) < 32"
  shows "ids (FromAll f items) = (\<lambda>x. unat (f x)) ` set items"
  using bits.abs_fold_add_where [of items "\<lambda>_. True" f 0] assms
  by (auto simp: FromAll_def)

lemma ids_FromWhere:
  assumes "\<And>x. x \<in> set items \<Longrightarrow> P x \<Longrightarrow> unat (f x) < 32"
  shows "ids (FromWhere f items P) = {unat (f x) | x. x \<in> set items \<and> P x}"
  using bits.abs_fold_add_where [of items P f 0] assms
  by (auto simp: FromWhere_def)

lemma ids_Of:
  assumes "\<And>i. i \<in> set xs \<Longrightarrow> unat i < 32"
  shows "ids (IDSet_Of xs) = unat ` set xs"
  using ids_FromAll [of xs "\<lambda>i. i"] assms
  by (simp add: IDSet_Of_def FromAll_def IDSet_Add_def)

lemma ids_Of_single [simp]: "unat i < 32 \<Longrightarrow> ids (IDSet_Of [i]) = {unat i}"
  using ids_Of [of "[i]"] by simp

subsection \<open>Iteration order and extrema\<close>

lemma IDSet_All_sorted: "map unat (IDSet_All s) = sorted_list_of_set (ids s)"
proof (induction s rule: IDSet_All.induct)
  case (1 s)
  show ?case
  proof (cases "s = 0")
    case True
    then show ?thesis by (simp add: IDSet_All.simps)
  next
    case False
    let ?i = "TrailingZeros32 s"
    have ne: "ids s \<noteq> {}" using False by (simp add: ids_empty_iff)
    have lt: "?i < 32" by (rule bit_TrailingZeros32(2) [OF False])
    have "map unat (IDSet_All (s AND NOT (push_bit ?i 1)))
        = sorted_list_of_set (ids s - {Min (ids s)})"
      using 1 [OF False refl] ids_clear_lowest [OF False] by simp
    moreover have "unat (of_nat ?i :: u8) = Min (ids s)"
      using lt by (simp add: unat_of_nat TrailingZeros32_Min [OF False])
    ultimately show ?thesis
      using ne False
      by (subst IDSet_All.simps) (simp add: Let_def sorted_list_of_set_nonempty del: push_bit_of_1)
  qed
qed

lemma set_IDSet_All: "unat ` set (IDSet_All s) = ids s"
proof -
  have "set (map unat (IDSet_All s)) = set (sorted_list_of_set (ids s))"
    by (simp only: IDSet_All_sorted)
  then show ?thesis by simp
qed

lemma in_IDSet_All: "i \<in> set (IDSet_All s) \<longleftrightarrow> unat i \<in> ids s"
  using set_IDSet_All [of s] by (metis image_iff word_unat_eq_iff)

lemma length_IDSet_All: "length (IDSet_All s) = IDSet_Len s"
proof -
  have "length (map unat (IDSet_All s)) = length (sorted_list_of_set (ids s))"
    by (simp only: IDSet_All_sorted)
  then show ?thesis by simp
qed

lemma AppendTo_append: "IDSet_AppendTo s dst = dst @ IDSet_All s"
proof -
  have "foldl (\<lambda>d i. d @ [i]) dst xs = dst @ xs" for xs :: "u8 list"
    by (induction xs arbitrary: dst) auto
  then show ?thesis by (simp add: IDSet_AppendTo_def)
qed

lemma IDSet_Min_nonempty:
  assumes "ids s \<noteq> {}"
  shows "unat (IDSet_Min s) = Min (ids s)"
proof -
  have s: "s \<noteq> 0" using assms by (simp add: ids_empty_iff)
  show ?thesis
    using bit_TrailingZeros32(2) [OF s] by (simp add: IDSet_Min_def unat_of_nat TrailingZeros32_Min [OF s])
qed

lemma MinMissing_spec:
  "IDSet_MinMissing s = (if ids s = {..<32} then (0, False)
     else (of_nat (Min ({..<32} - ids s)), True))"
proof -
  have "NOT s = 0 \<longleftrightarrow> {..<32} - ids s = {}"
    by (simp only: ids_empty_iff [symmetric] ids_not)
  also have "\<dots> \<longleftrightarrow> ids s = {..<32}"
    using ids_bounded [of _ s] by auto
  finally have iff: "NOT s = 0 \<longleftrightarrow> ids s = {..<32}" .
  show ?thesis
    by (auto simp: IDSet_MinMissing_def Let_def iff TrailingZeros32_Min ids_not)
qed

lemma LeadingZeros32_Max:
  assumes "s \<noteq> 0"
  shows "LeadingZeros32 s = 31 - Max (ids s)" and "Max (ids s) < 32"
proof -
  let ?m = "Max (ids s)"
  have mem: "?m \<in> ids s" using assms by (intro Max_in) (auto simp: ids_empty_iff)
  then show lt: "?m < 32" by (rule ids_bounded)
  have above: "\<And>k. ?m < k \<Longrightarrow> \<not> bit s k"
    by (metis Max_ge finite_ids in_ids not_le)
  have "[0..<32] = [0..<?m] @ ?m # [Suc ?m..<32]"
    using lt by (metis le0 less_imp_le_nat upt_add_eq_append upt_conv_Cons le_add_diff_inverse add_0)
  then have "rev [0..<32] = rev [Suc ?m..<32] @ ?m # rev [0..<?m]" by simp
  then have "takeWhile (\<lambda>i. \<not> bit s i) (rev [0..<32]) = rev [Suc ?m..<32]"
    using mem above by (simp only:) (subst takeWhile_append2, auto)
  then show "LeadingZeros32 s = 31 - ?m"
    by (simp add: LeadingZeros32_def)
qed

lemma IDSet_Max_nonempty:
  assumes "ids s \<noteq> {}"
  shows "unat (IDSet_Max s) = Max (ids s)"
proof -
  have s: "s \<noteq> 0" using assms by (simp add: ids_empty_iff)
  have "31 - int (LeadingZeros32 s) = int (Max (ids s))"
    using LeadingZeros32_Max [OF s] by simp
  then have "IDSet_Max s = of_nat (Max (ids s))"
    by (simp add: IDSet_Max_def)
  then show ?thesis
    using LeadingZeros32_Max(2) [OF s] by (simp add: unat_of_nat)
qed

subsection \<open>Properties\<close>

text \<open>The bitset operations are the set operations of their names: membership, insertion and
  removal of a valid ID, union, intersection, difference, subset, overlap, cardinality, and
  iteration in ascending order without repetition.\<close>

theorem idset_refines_sets:
  assumes "unat i < 32"
  shows "(IDSet_Contains s i \<longleftrightarrow> unat i \<in> ids s)
    \<and> ids (IDSet_Add i s) = insert (unat i) (ids s)
    \<and> ids (IDSet_Remove i s) = ids s - {unat i}
    \<and> ids (IDSet_Union s t) = ids s \<union> ids t
    \<and> ids (IDSet_Intersect s t) = ids s \<inter> ids t
    \<and> ids (IDSet_Difference s t) = ids s - ids t
    \<and> (IDSet_IsSubsetOf s t \<longleftrightarrow> ids s \<subseteq> ids t)
    \<and> (IDSet_Overlaps s t \<longleftrightarrow> ids s \<inter> ids t \<noteq> {})
    \<and> IDSet_Len s = card (ids s)
    \<and> map unat (IDSet_All s) = sorted_list_of_set (ids s)"
  using assms by (simp add: IDSet_All_sorted)

theorem idset_refines_sets_witness:
  "unat (3 :: u8) < 32 \<and> ids (IDSet_Add 3 5) = insert 3 (ids 5)
    \<and> (IDSet_Contains 5 3 \<longleftrightarrow> 3 \<in> ids 5)"
proof -
  have h: "unat (3 :: u8) < 32" by simp
  show ?thesis using h idset_refines_sets [OF h, of 5] by simp
qed

text \<open>On a non-empty set \<open>Min\<close> and \<open>Max\<close> return the least and the greatest member, and
  \<open>MinMissing\<close> the least ID below 32 that is absent. On the empty set \<open>Min\<close> returns 32 and
  \<open>Max\<close> wraps to 255, two values that are not IDs: neither panics, as their comments say.\<close>

theorem idset_extrema:
  "(if ids s = {} then IDSet_Min s = 32 \<and> IDSet_Max s = 255
    else unat (IDSet_Min s) = Min (ids s) \<and> unat (IDSet_Max s) = Max (ids s))
   \<and> IDSet_MinMissing s = (if ids s = {..<32} then (0, False)
       else (of_nat (Min ({..<32} - ids s)), True))"
proof -
  have "LeadingZeros32 0 = 32"
    by (simp add: LeadingZeros32_def takeWhile_eq_all_conv [THEN iffD2])
  then have "IDSet_Min 0 = 32 \<and> IDSet_Max 0 = 255"
    by (simp add: IDSet_Min_def IDSet_Max_def TrailingZeros32_0)
  then show ?thesis
    by (simp add: IDSet_Min_nonempty IDSet_Max_nonempty MinMissing_spec ids_empty_iff)
qed

end
