(* ===== verification/Api_Types.thy ===== *)
theory Api_Types
  imports Idset
begin

text \<open>
  The API types of \<open>api/v1alpha1\<close> the datamesh machinery works on, and the helpers that package
  defines on them: replica and member types, the layout formulas, transitions with their steps,
  replica names and their IDs, DRBD states and status conditions (\<open>api/objutilv1\<close>).

  Go enumerations are strings: each becomes a datatype with one constructor per declared
  constant and one constructor for any other string (the zero value is the empty string).
  Timestamps are integers, a \<open>*metav1.Time\<close> is an \<open>int option\<close>; a \<open>resource.Quantity\<close> is its 64-bit
  value.
\<close>

unbundle bit_operations_syntax

subsection \<open>Replica and member types\<close>

datatype ReplicaType =
    RT_Diskful | RT_TieBreaker | RT_ShadowDiskful | RT_Access | RT_Other string

datatype DatameshMemberType =
    MT_Diskful | MT_LiminalDiskful | MT_ShadowDiskful | MT_LiminalShadowDiskful
  | MT_TieBreaker | MT_Access | MT_Other string

text \<open>The string behind each constant; an \<open>Other\<close> value is a string that is none of them.\<close>

fun ReplicaType_String :: "ReplicaType \<Rightarrow> string" where
  "ReplicaType_String RT_Diskful = ''Diskful''"
| "ReplicaType_String RT_TieBreaker = ''TieBreaker''"
| "ReplicaType_String RT_ShadowDiskful = ''ShadowDiskful''"
| "ReplicaType_String RT_Access = ''Access''"
| "ReplicaType_String (RT_Other s) = s"

fun DatameshMemberType_String :: "DatameshMemberType \<Rightarrow> string" where
  "DatameshMemberType_String MT_Diskful = ''Diskful''"
| "DatameshMemberType_String MT_LiminalDiskful = ''LiminalDiskful''"
| "DatameshMemberType_String MT_ShadowDiskful = ''ShadowDiskful''"
| "DatameshMemberType_String MT_LiminalShadowDiskful = ''LiminalShadowDiskful''"
| "DatameshMemberType_String MT_TieBreaker = ''TieBreaker''"
| "DatameshMemberType_String MT_Access = ''Access''"
| "DatameshMemberType_String (MT_Other s) = s"

text \<open>The conversion \<open>DatameshMemberType(t)\<close> of a replica type.\<close>

fun memberTypeOf :: "ReplicaType \<Rightarrow> DatameshMemberType" where
  "memberTypeOf RT_Diskful = MT_Diskful"
| "memberTypeOf RT_TieBreaker = MT_TieBreaker"
| "memberTypeOf RT_ShadowDiskful = MT_ShadowDiskful"
| "memberTypeOf RT_Access = MT_Access"
| "memberTypeOf (RT_Other s) =
     (if s = ''LiminalDiskful'' then MT_LiminalDiskful
      else if s = ''LiminalShadowDiskful'' then MT_LiminalShadowDiskful else MT_Other s)"

fun IsVoter :: "DatameshMemberType \<Rightarrow> bool" where
  "IsVoter MT_Diskful = True"
| "IsVoter MT_LiminalDiskful = True"
| "IsVoter _ = False"

fun HasBackingVolume :: "DatameshMemberType \<Rightarrow> bool" where
  "HasBackingVolume MT_Diskful = True"
| "HasBackingVolume MT_ShadowDiskful = True"
| "HasBackingVolume _ = False"

fun NeedsBackingVolume :: "DatameshMemberType \<Rightarrow> bool" where
  "NeedsBackingVolume MT_Diskful = True"
| "NeedsBackingVolume MT_LiminalDiskful = True"
| "NeedsBackingVolume MT_ShadowDiskful = True"
| "NeedsBackingVolume MT_LiminalShadowDiskful = True"
| "NeedsBackingVolume _ = False"

text \<open>\<open>ToLiminal\<close> panics for types without a liminal variant.\<close>

fun ToLiminal :: "DatameshMemberType \<Rightarrow> DatameshMemberType option" where
  "ToLiminal MT_Diskful = Some MT_LiminalDiskful"
| "ToLiminal MT_ShadowDiskful = Some MT_LiminalShadowDiskful"
| "ToLiminal _ = None"

fun ConnectsToAllPeers :: "DatameshMemberType \<Rightarrow> bool" where
  "ConnectsToAllPeers MT_Diskful = True"
| "ConnectsToAllPeers MT_LiminalDiskful = True"
| "ConnectsToAllPeers MT_ShadowDiskful = True"
| "ConnectsToAllPeers MT_LiminalShadowDiskful = True"
| "ConnectsToAllPeers _ = False"

subsection \<open>Configuration and intended layout\<close>

datatype Topology = TopologyIgnored | TopologyZonal | TopologyTransZonal | Topology_Other string
datatype VolumeAccess =
    VolumeAccessLocal | VolumeAccessEventuallyLocal | VolumeAccessPreferablyLocal
  | VolumeAccessAny | VolumeAccess_Other string

record ReplicatedVolumeConfiguration =
  ReplicatedStoragePoolName :: string
  cfg_Topology :: Topology
  FailuresToTolerate :: u8
  GuaranteedMinimumDataRedundancy :: u8
  cfg_VolumeAccess :: VolumeAccess

text \<open>Go's \<open>int\<close> is 64 bits wide; the arguments are bytes, so the sums cannot wrap.\<close>

definition IntendedDiskfulCount :: "u8 \<Rightarrow> u8 \<Rightarrow> int" where
  "IntendedDiskfulCount ftt gmdr = uint ftt + uint gmdr + 1"

definition TieBreakersForDiskful :: "int \<Rightarrow> int \<Rightarrow> int" where
  "TieBreakersForDiskful diskful ftt =
     (if diskful > 0 \<and> diskful mod 2 = 0 \<and> ftt = diskful div 2 then 1 else 0)"

definition IntendedLayout :: "ReplicatedVolumeConfiguration \<Rightarrow> int \<times> int" where
  "IntendedLayout c =
     (let diskful = IntendedDiskfulCount (FailuresToTolerate c) (GuaranteedMinimumDataRedundancy c)
      in (diskful, TieBreakersForDiskful diskful (uint (FailuresToTolerate c))))"

text \<open>\<open>QuorumMinimumRedundancy\<close> is byte arithmetic: it wraps for GMDR 255.\<close>

definition cfg_QuorumMinimumRedundancy :: "ReplicatedVolumeConfiguration \<Rightarrow> u8" where
  "cfg_QuorumMinimumRedundancy c = GuaranteedMinimumDataRedundancy c + 1"

subsection \<open>Transitions\<close>

datatype TransitionType =
    TT_Formation | TT_AddReplica | TT_Attach | TT_ChangeQuorum | TT_ChangeReplicaType
  | TT_ChangeSystemNetworks | TT_Detach | TT_DisableMultiattach | TT_EnableMultiattach
  | TT_ForceDetach | TT_ForceRemoveReplica | TT_RemoveReplica | TT_RepairNetworkAddresses
  | TT_ResizeVolume | TT_Other string

fun TransitionType_String :: "TransitionType \<Rightarrow> string" where
  "TransitionType_String TT_Formation = ''Formation''"
| "TransitionType_String TT_AddReplica = ''AddReplica''"
| "TransitionType_String TT_Attach = ''Attach''"
| "TransitionType_String TT_ChangeQuorum = ''ChangeQuorum''"
| "TransitionType_String TT_ChangeReplicaType = ''ChangeReplicaType''"
| "TransitionType_String TT_ChangeSystemNetworks = ''ChangeSystemNetworks''"
| "TransitionType_String TT_Detach = ''Detach''"
| "TransitionType_String TT_DisableMultiattach = ''DisableMultiattach''"
| "TransitionType_String TT_EnableMultiattach = ''EnableMultiattach''"
| "TransitionType_String TT_ForceDetach = ''ForceDetach''"
| "TransitionType_String TT_ForceRemoveReplica = ''ForceRemoveReplica''"
| "TransitionType_String TT_RemoveReplica = ''RemoveReplica''"
| "TransitionType_String TT_RepairNetworkAddresses = ''RepairNetworkAddresses''"
| "TransitionType_String TT_ResizeVolume = ''ResizeVolume''"
| "TransitionType_String (TT_Other s) = s"

datatype TransitionGroup =
    G_Formation | G_VotingMembership | G_NonVotingMembership | G_Quorum | G_Attachment
  | G_Multiattach | G_Network | G_Resize | G_Emergency | G_Other string

datatype StepStatus = Pending | Active | Completed | StepStatus_Other string

record TransitionStep =
  s_Name :: string
  s_Status :: StepStatus
  s_DatameshRevision :: int
  s_StartedAt :: "int option"
  s_CompletedAt :: "int option"
  s_Message :: string

record Transition =
  t_Type :: TransitionType
  t_ReplicaName :: string
  t_ReplicaType :: ReplicaType
  t_FromReplicaType :: ReplicaType
  t_ToReplicaType :: ReplicaType
  t_FromSystemNetworkNames :: "string list"
  t_ToSystemNetworkNames :: "string list"
  t_Group :: TransitionGroup
  t_PlanID :: string
  t_Steps :: "TransitionStep list"

definition emptyStep :: TransitionStep where
  "emptyStep = \<lparr> s_Name = [], s_Status = StepStatus_Other [], s_DatameshRevision = 0,
     s_StartedAt = None, s_CompletedAt = None, s_Message = [] \<rparr>"

definition emptyTransition :: Transition where
  "emptyTransition = \<lparr> t_Type = TT_Other [], t_ReplicaName = [], t_ReplicaType = RT_Other [],
     t_FromReplicaType = RT_Other [], t_ToReplicaType = RT_Other [], t_FromSystemNetworkNames = [],
     t_ToSystemNetworkNames = [], t_Group = G_Other [], t_PlanID = [], t_Steps = [] \<rparr>"

text \<open>\<open>CurrentStep\<close>, \<open>IsCompleted\<close> and \<open>StartedAt\<close> (the zero time is \<open>None\<close>).\<close>

definition CurrentStep :: "Transition \<Rightarrow> TransitionStep option" where
  "CurrentStep t = find (\<lambda>s. s_Status s \<noteq> Completed) (t_Steps t)"

definition IsCompleted :: "Transition \<Rightarrow> bool" where
  "IsCompleted t = list_all (\<lambda>s. s_Status s = Completed) (t_Steps t)"

definition StartedAt :: "Transition \<Rightarrow> int option" where
  "StartedAt t = (case t_Steps t of [] \<Rightarrow> None | s # _ \<Rightarrow> s_StartedAt s)"

subsection \<open>Replica names and IDs\<close>

text \<open>\<open>idFromName\<close> reads the last two bytes; it panics on names shorter than two bytes. A byte of
  the name enters as an 8-bit word.\<close>

definition byteAt :: "string \<Rightarrow> nat \<Rightarrow> u8" where
  "byteAt s i = of_char (s ! i)"

definition isDigitMask :: "u8 \<Rightarrow> u8" where
  "isDigitMask prev = 1 XOR ucast (drop_bit 8 ((ucast prev :: u16) + 246))"

definition idFromName :: "string \<Rightarrow> u8 option" where
  "idFromName name =
     (let l = length name in
      if l < 2 then None
      else let last = byteAt name (l - 1) - 48;
               prev = byteAt name (l - 2) - 48
           in Some (last + prev * 10 * isDigitMask prev))"

definition idSuffixes :: "string list" where
  "idSuffixes = map (\<lambda>n. CHR ''-'' # nat_digits n) [0..<32]"

definition FormatReplicatedVolumeReplicaName :: "string \<Rightarrow> u8 \<Rightarrow> string option" where
  "FormatReplicatedVolumeReplicaName rvName i =
     (if i > 31 then None else Some (rvName @ idSuffixes ! unat i))"

text \<open>\<open>t.ReplicaID()\<close> panics when the name is empty.\<close>

definition ReplicaID :: "Transition \<Rightarrow> u8 option" where
  "ReplicaID t = (if t_ReplicaName t = [] then None else idFromName (t_ReplicaName t))"

subsection \<open>Status conditions\<close>

datatype ConditionStatus = ConditionTrue | ConditionFalse | ConditionUnknown

record Condition =
  c_Type :: string
  c_Status :: ConditionStatus
  c_ObservedGeneration :: int
  c_Reason :: string
  c_Message :: string
  c_LastTransitionTime :: "int option"

text \<open>\<open>meta.FindStatusCondition\<close> and \<open>dmte.findCondition\<close>: the first condition of the type.\<close>

definition findCondition :: "Condition list \<Rightarrow> string \<Rightarrow> Condition option" where
  "findCondition conditions condType = find (\<lambda>c. c_Type c = condType) conditions"

text \<open>The fluent checker \<open>StatusConditionChecker\<close>; \<open>c_Generation\<close> stands for the object's generation.\<close>

record StatusConditionChecker =
  chk_Generation :: int
  chk_cond :: "Condition option"
  chk_result :: bool

definition StatusCondition :: "Condition list \<Rightarrow> int \<Rightarrow> string \<Rightarrow> StatusConditionChecker" where
  "StatusCondition conditions generation condType =
     (let cond = findCondition conditions condType
      in \<lparr> chk_Generation = generation, chk_cond = cond, chk_result = (cond \<noteq> None) \<rparr>)"

definition chk_and :: "(Condition \<Rightarrow> bool) \<Rightarrow> StatusConditionChecker \<Rightarrow> StatusConditionChecker" where
  "chk_and P c = (if chk_result c
     then c \<lparr> chk_result := (case chk_cond c of None \<Rightarrow> False | Some x \<Rightarrow> P x) \<rparr> else c)"

definition chk_Absent :: "StatusConditionChecker \<Rightarrow> StatusConditionChecker" where
  "chk_Absent c = c \<lparr> chk_result := (chk_cond c = None) \<rparr>"

definition chk_StatusEqual :: "ConditionStatus \<Rightarrow> StatusConditionChecker \<Rightarrow> StatusConditionChecker" where
  "chk_StatusEqual status = chk_and (\<lambda>x. c_Status x = status)"

definition chk_IsTrue :: "StatusConditionChecker \<Rightarrow> StatusConditionChecker" where
  "chk_IsTrue = chk_StatusEqual ConditionTrue"

definition chk_IsFalse :: "StatusConditionChecker \<Rightarrow> StatusConditionChecker" where
  "chk_IsFalse = chk_StatusEqual ConditionFalse"

definition chk_ReasonEqual :: "string \<Rightarrow> StatusConditionChecker \<Rightarrow> StatusConditionChecker" where
  "chk_ReasonEqual reason = chk_and (\<lambda>x. c_Reason x = reason)"

definition chk_ReasonNotEqual :: "string \<Rightarrow> StatusConditionChecker \<Rightarrow> StatusConditionChecker" where
  "chk_ReasonNotEqual reason = chk_and (\<lambda>x. c_Reason x \<noteq> reason)"

definition chk_MessageEqual :: "string \<Rightarrow> StatusConditionChecker \<Rightarrow> StatusConditionChecker" where
  "chk_MessageEqual message = chk_and (\<lambda>x. c_Message x = message)"

definition chk_MessageContains :: "string \<Rightarrow> StatusConditionChecker \<Rightarrow> StatusConditionChecker" where
  "chk_MessageContains substr = chk_and (\<lambda>x. list_ex (\<lambda>i. take (length substr) (drop i (c_Message x)) = substr)
     [0..<Suc (length (c_Message x))])"

definition chk_ObservedGenerationCurrent :: "StatusConditionChecker \<Rightarrow> StatusConditionChecker" where
  "chk_ObservedGenerationCurrent c = chk_and (\<lambda>x. c_ObservedGeneration x = chk_Generation c) c"

abbreviation chk_Eval :: "StatusConditionChecker \<Rightarrow> bool" where
  "chk_Eval c \<equiv> chk_result c"

definition ConditionSemanticallyEqual :: "Condition option \<Rightarrow> Condition option \<Rightarrow> bool" where
  "ConditionSemanticallyEqual a b = (case (a, b) of
       (Some x, Some y) \<Rightarrow> c_Type x = c_Type y \<and> c_Status x = c_Status y \<and> c_Reason x = c_Reason y
          \<and> c_Message x = c_Message y \<and> c_ObservedGeneration x = c_ObservedGeneration y
     | (None, None) \<Rightarrow> True
     | _ \<Rightarrow> False)"

subsection \<open>DRBD states\<close>

type_synonym DiskState = string
type_synonym ReplicationState = string
type_synonym ConnectionState = string

definition DiskStateUpToDate :: DiskState where "DiskStateUpToDate = ''UpToDate''"
definition ConnectionStateConnected :: ConnectionState where "ConnectionStateConnected = ''Connected''"

definition diskStates :: "DiskState list" where
  "diskStates = [''Diskless'', ''Attaching'', ''Detaching'', ''Failed'', ''Negotiating'',
     ''Inconsistent'', ''Outdated'', ''DUnknown'', ''Consistent'', ''UpToDate'']"

definition replicationStates :: "ReplicationState list" where
  "replicationStates = [''Off'', ''Established'', ''StartingSyncS'', ''StartingSyncT'', ''WFBitMapS'',
     ''WFBitMapT'', ''WFSyncUUID'', ''SyncSource'', ''SyncTarget'', ''PausedSyncS'', ''PausedSyncT'',
     ''VerifyS'', ''VerifyT'', ''Ahead'', ''Behind'', ''Unknown'']"

definition connectionStates :: "ConnectionState list" where
  "connectionStates = [''StandAlone'', ''Disconnecting'', ''Unconnected'', ''Timeout'', ''BrokenPipe'',
     ''NetworkFailure'', ''ProtocolError'', ''Connecting'', ''TearDown'', ''Connected'', ''Unknown'']"

definition ParseDiskState :: "string \<Rightarrow> DiskState" where
  "ParseDiskState s = (if s \<in> set diskStates then s else [])"

definition ParseReplicationState :: "string \<Rightarrow> ReplicationState" where
  "ParseReplicationState s = (if s \<in> set replicationStates then s else [])"

definition ParseConnectionState :: "string \<Rightarrow> ConnectionState" where
  "ParseConnectionState s = (if s \<in> set connectionStates then s else [])"

definition IsSyncingState :: "ReplicationState \<Rightarrow> bool" where
  "IsSyncingState s = (s \<in> set [''SyncSource'', ''SyncTarget'', ''StartingSyncS'', ''StartingSyncT'',
     ''PausedSyncS'', ''PausedSyncT'', ''WFBitMapS'', ''WFBitMapT'', ''WFSyncUUID''])"

subsection \<open>Objects\<close>

record DRBDAddress =
  IPv4 :: string
  Port :: nat

record AddressStatus =
  SystemNetworkName :: string
  Address :: DRBDAddress

record BackingVolumeStatus =
  bv_Size :: "u64 option"
  bv_State :: DiskState
  bv_LVMVolumeGroupName :: string
  bv_LVMVolumeGroupThinPoolName :: string

record PeerStatus =
  p_Name :: string
  p_Type :: ReplicaType
  p_ConnectionEstablishedOn :: "string list"
  p_ConnectionState :: ConnectionState
  p_BackingVolumeState :: DiskState
  p_ReplicationState :: ReplicationState
  p_Attached :: bool

datatype RequestOperation =
    Join | Leave | ForceLeave | OpForceDetach | ChangeRole | ChangeBackingVolume | Op_Other string

record MembershipRequest =
  rq_Operation :: RequestOperation
  rq_Type :: ReplicaType
  rq_LVMVolumeGroupName :: string
  rq_ThinPoolName :: string

definition MembershipRequest_Equals :: "MembershipRequest option \<Rightarrow> MembershipRequest option \<Rightarrow> bool" where
  "MembershipRequest_Equals t other = (case (t, other) of
       (Some a, Some b) \<Rightarrow> rq_Operation a = rq_Operation b \<and> rq_Type a = rq_Type b
          \<and> rq_LVMVolumeGroupName a = rq_LVMVolumeGroupName b \<and> rq_ThinPoolName a = rq_ThinPoolName b
     | (None, None) \<Rightarrow> True
     | _ \<Rightarrow> False)"

record ReplicaAttachment =
  att_DevicePath :: string
  att_IOSuspended :: bool
  att_InUse :: bool

text \<open>The fields of \<open>ReplicatedVolumeReplica\<close> that the controllers read. \<open>rvr_Deleting\<close> says that
  \<open>DeletionTimestamp\<close> is set.\<close>

record RVR =
  rvr_Name :: string
  rvr_Generation :: int
  rvr_Deleting :: bool
  rvr_ReplicatedVolumeName :: string
  rvr_NodeName :: string
  rvr_Type :: ReplicaType
  rvr_Conditions :: "Condition list"
  rvr_Addresses :: "AddressStatus list"
  rvr_BackingVolume :: "BackingVolumeStatus option"
  rvr_DatameshRevision :: int
  rvr_Attachment :: "ReplicaAttachment option"
  rvr_Quorum :: "bool option"
  rvr_Peers :: "PeerStatus list"
  rvr_CreationTimestamp :: int
  rvr_Finalizers :: "string list"
  rvr_LVMVolumeGroupName :: string
  rvr_LVMVolumeGroupThinPoolName :: string
  rvr_DatameshRequest :: "MembershipRequest option"
  rvr_DatameshRevisionObservedByAgent :: int
  rvr_Size :: "u64 option"

definition emptyRVR :: RVR where
  "emptyRVR = \<lparr> rvr_Name = [], rvr_Generation = 0, rvr_Deleting = False, rvr_ReplicatedVolumeName = [],
     rvr_NodeName = [], rvr_Type = RT_Other [], rvr_Conditions = [], rvr_Addresses = [],
     rvr_BackingVolume = None, rvr_DatameshRevision = 0, rvr_Attachment = None, rvr_Quorum = None,
     rvr_Peers = [], rvr_CreationTimestamp = 0, rvr_Finalizers = [], rvr_LVMVolumeGroupName = [],
     rvr_LVMVolumeGroupThinPoolName = [], rvr_DatameshRequest = None,
     rvr_DatameshRevisionObservedByAgent = 0, rvr_Size = None \<rparr>"

record RVA =
  rva_NodeName :: string
  rva_CreationTimestamp :: int
  rva_Deleting :: bool
  rva_Name :: string
  rva_Generation :: int
  rva_ReplicatedVolumeName :: string
  rva_Finalizers :: "string list"
  rva_Labels :: "(string \<times> string) list"
  rva_Conditions :: "Condition list"
  rva_Phase :: string
  rva_Message :: string
  rva_DevicePath :: string
  rva_IOSuspended :: "bool option"
  rva_InUse :: "bool option"

record DatameshMember =
  m_Name :: string
  m_Type :: DatameshMemberType
  m_NodeName :: string
  m_Zone :: string
  m_Addresses :: "AddressStatus list"
  m_LVMVolumeGroupName :: string
  m_LVMVolumeGroupThinPoolName :: string
  m_Attached :: bool

record ReplicaRequest =
  rr_Name :: string
  rr_Message :: string
  rr_Request :: MembershipRequest
  rr_FirstObservedAt :: int

record EligibleNodeLVG =
  lvg_Name :: string
  lvg_ThinPoolName :: string
  lvg_Unschedulable :: bool
  lvg_Ready :: bool

record EligibleNode =
  en_NodeName :: string
  en_ZoneName :: string
  en_Unschedulable :: bool
  en_NodeReady :: bool
  en_AgentReady :: bool
  en_LVMVolumeGroups :: "EligibleNodeLVG list"

subsection \<open>Choosing a replica name\<close>

text \<open>\<open>reserved |= 1 << id\<close>; the name is chosen from the lowest free bit. \<open>None\<close> is the panic of
  \<open>idFromName\<close> on a name that is too short, \<open>Some None\<close> the result false.\<close>

fun reservedIDs :: "string \<Rightarrow> RVR list \<Rightarrow> u32 \<Rightarrow> u32 option" where
  "reservedIDs rvName [] reserved = Some reserved"
| "reservedIDs rvName (r # rs) reserved =
     (if rvr_ReplicatedVolumeName r \<noteq> rvName then reservedIDs rvName rs reserved
      else do { i \<leftarrow> idFromName (rvr_Name r);
                reservedIDs rvName rs (reserved OR push_bit (unat i) 1) })"

definition ChooseNewName :: "RVR \<Rightarrow> RVR list \<Rightarrow> (bool \<times> RVR) option" where
  "ChooseNewName rvr otherRVRs = do {
     reserved \<leftarrow> reservedIDs (rvr_ReplicatedVolumeName rvr) otherRVRs 0;
     let free = NOT reserved;
     if free = 0 then Some (False, rvr)
     else do {
       name \<leftarrow> FormatReplicatedVolumeReplicaName (rvr_ReplicatedVolumeName rvr) (of_nat (TrailingZeros32 free));
       Some (True, rvr \<lparr> rvr_Name := name \<rparr>) } }"

definition IsValidID :: "u8 \<Rightarrow> bool" where
  "IsValidID i \<longleftrightarrow> i \<ge> 0 \<and> i \<le> 31"

subsection \<open>Lemmas on names\<close>

definition idOfBytes :: "char \<Rightarrow> char \<Rightarrow> u8" where
  "idOfBytes a b = (of_char b - 48) + (of_char a - 48) * 10 * isDigitMask (of_char a - 48)"

lemma idFromName_two: "idFromName (p @ [a, b]) = Some (idOfBytes a b)"
  by (simp add: idFromName_def byteAt_def idOfBytes_def Let_def nth_append)

lemma idFromName_cons: "idFromName (c # p @ [a, b]) = Some (idOfBytes a b)"
  using idFromName_two [of "c # p"] by simp

lemma idOfBytes_one: "n < 10 \<Longrightarrow> idOfBytes (CHR ''-'') (digit_char n) = of_nat n"
proof -
  assume "n < 10"
  then have "n \<in> set [0..<10]" by simp
  moreover have "\<forall>n \<in> set [0..<10]. idOfBytes (CHR ''-'') (digit_char n) = of_nat n"
    by code_simp
  ultimately show ?thesis by blast
qed

lemma idOfBytes_two:
  assumes "10 \<le> n" "n < 32"
  shows "idOfBytes (digit_char (n div 10)) (digit_char (n mod 10)) = of_nat n"
proof -
  have "n \<in> set [10..<32]" using assms by (simp only: set_upt atLeastLessThan_iff)
  moreover have "\<forall>n \<in> set [10..<32]. idOfBytes (digit_char (n div 10)) (digit_char (n mod 10)) = of_nat n"
    by code_simp
  ultimately show ?thesis by blast
qed

lemma idFromName_suffix:
  assumes "n < 32"
  shows "idFromName (p @ CHR ''-'' # nat_digits n) = Some (of_nat n)"
proof (cases "n < 10")
  case True
  then show ?thesis by (simp add: nat_digits_small idFromName_two idOfBytes_one)
next
  case False
  then show ?thesis
    using assms idFromName_two [of "p @ [CHR ''-'']"]
    by (simp add: nat_digits_two idOfBytes_two)
qed

lemma idFromName_Format:
  assumes "i \<le> 31"
  shows "\<exists>name. FormatReplicatedVolumeReplicaName rvName i = Some name \<and> idFromName name = Some i"
proof -
  have n: "unat i < 32" using assms by (simp add: word_le_nat_alt)
  then show ?thesis
    using assms idFromName_suffix [OF n]
    by (simp add: FormatReplicatedVolumeReplicaName_def idSuffixes_def not_less)
qed

text \<open>The IDs the other replicas of the volume occupy.\<close>

definition usedIDs :: "string \<Rightarrow> RVR list \<Rightarrow> nat set" where
  "usedIDs rvName rs = {unat i |i. \<exists>r \<in> set rs. rvr_ReplicatedVolumeName r = rvName
     \<and> idFromName (rvr_Name r) = Some i}"

lemma reservedIDs_spec:
  assumes "\<forall>r \<in> set rs. rvr_ReplicatedVolumeName r = rvName \<longrightarrow>
             (\<exists>i. idFromName (rvr_Name r) = Some i \<and> i \<le> 31)"
  shows "\<exists>acc'. reservedIDs rvName rs acc = Some acc' \<and> ids acc' = ids acc \<union> usedIDs rvName rs"
  using assms
proof (induction rs arbitrary: acc)
  case Nil
  then show ?case by (simp add: usedIDs_def)
next
  case (Cons r rs)
  show ?case
  proof (cases "rvr_ReplicatedVolumeName r = rvName")
    case False
    then have "usedIDs rvName (r # rs) = usedIDs rvName rs" by (auto simp: usedIDs_def)
    then show ?thesis using Cons False by simp
  next
    case True
    then obtain i where i: "idFromName (rvr_Name r) = Some i" "i \<le> 31" using Cons.prems by auto
    have n: "unat i < 32" using i(2) by (simp add: word_le_nat_alt)
    have "usedIDs rvName (r # rs) = insert (unat i) (usedIDs rvName rs)"
      using True i by (auto simp: usedIDs_def)
    then show ?thesis
      using Cons.IH [of "acc OR push_bit (unat i) 1"] Cons.prems True i n
      by (auto simp: ids_or push_bit_of_1 ids_single)
  qed
qed

lemma usedIDs_bounded:
  assumes "\<forall>r \<in> set rs. rvr_ReplicatedVolumeName r = rvName \<longrightarrow>
             (\<exists>i. idFromName (rvr_Name r) = Some i \<and> i \<le> 31)"
  shows "usedIDs rvName rs \<subseteq> {..<32}"
  using assms by (fastforce simp: usedIDs_def word_le_nat_alt)

subsection \<open>Properties\<close>

text \<open>C33: Formatting a replica name and reading its ID back gives the same ID, for every valid ID and
  every volume name; the branch-free digit test of \<open>idFromName\<close> never confuses the dash of a
  one-digit suffix with a digit.\<close>

theorem replica_name_roundtrip:
  "(\<forall>rvName i. i \<le> 31 \<longrightarrow> (\<exists>name. FormatReplicatedVolumeReplicaName rvName i = Some name
        \<and> idFromName name = Some i))
   \<and> (\<forall>rvName i. i > 31 \<longrightarrow> FormatReplicatedVolumeReplicaName rvName i = None)"
  using idFromName_Format by (auto simp: FormatReplicatedVolumeReplicaName_def)

theorem replica_name_roundtrip_witness:
  "FormatReplicatedVolumeReplicaName ''pvc-7'' 15 = Some ''pvc-7-15'' \<and> idFromName ''pvc-7-15'' = Some 15"
proof -
  have "FormatReplicatedVolumeReplicaName ''pvc-7'' 15 = Some ''pvc-7-15''" by code_simp
  moreover have "\<exists>name. FormatReplicatedVolumeReplicaName ''pvc-7'' 15 = Some name \<and> idFromName name = Some 15"
    using replica_name_roundtrip by (auto simp: word_le_nat_alt)
  ultimately show ?thesis by simp
qed

text \<open>\<open>ChooseNewName\<close> does not panic when the replicas of the same volume have valid names. It
  returns false exactly when all 32 IDs are taken, and otherwise gives the replica the lowest ID
  that no other replica of the volume has, changing nothing but its name.\<close>

theorem ChooseNewName_correct:
  assumes "\<forall>r \<in> set others. rvr_ReplicatedVolumeName r = rvr_ReplicatedVolumeName rvr \<longrightarrow>
             (\<exists>i. idFromName (rvr_Name r) = Some i \<and> i \<le> 31)"
  shows "\<exists>ok r'. ChooseNewName rvr others = Some (ok, r')
     \<and> ok = (usedIDs (rvr_ReplicatedVolumeName rvr) others \<noteq> {..<32})
     \<and> (\<exists>name. r' = rvr \<lparr> rvr_Name := name \<rparr>)
     \<and> (ok \<longrightarrow> idFromName (rvr_Name r') =
                Some (of_nat (Min ({..<32} - usedIDs (rvr_ReplicatedVolumeName rvr) others))))"
proof -
  let ?rv = "rvr_ReplicatedVolumeName rvr"
  let ?used = "usedIDs ?rv others"
  obtain res where res: "reservedIDs ?rv others 0 = Some res" "ids res = ?used"
    using reservedIDs_spec [OF assms, of 0] by auto
  have sub: "?used \<subseteq> {..<32}" by (rule usedIDs_bounded [OF assms])
  have free: "NOT res = 0 \<longleftrightarrow> ?used = {..<32}"
    using sub by (simp only: ids_empty_iff [symmetric] ids_not res(2)) auto
  show ?thesis
  proof (cases "?used = {..<32}")
    case True
    then show ?thesis
      using res free by (auto simp: ChooseNewName_def intro!: exI [of _ "rvr_Name rvr"])
  next
    case False
    then have nz: "NOT res \<noteq> 0" using free by simp
    have tz: "TrailingZeros32 (NOT res) = Min ({..<32} - ?used)"
      using TrailingZeros32_Min [OF nz] res(2) by (simp add: ids_not)
    have "TrailingZeros32 (NOT res) < 32" by (rule bit_TrailingZeros32(2) [OF nz])
    then have "(of_nat (TrailingZeros32 (NOT res)) :: u8) \<le> 31"
      by (simp add: word_le_nat_alt unat_of_nat)
    then obtain name where "FormatReplicatedVolumeReplicaName ?rv (of_nat (TrailingZeros32 (NOT res))) = Some name"
      "idFromName name = Some (of_nat (TrailingZeros32 (NOT res)))"
      using idFromName_Format by blast
    then show ?thesis
      using res nz False tz by (auto simp: ChooseNewName_def Let_def)
  qed
qed

theorem ChooseNewName_correct_witness:
  "\<exists>r'. ChooseNewName (emptyRVR \<lparr> rvr_ReplicatedVolumeName := ''v'' \<rparr>)
      [emptyRVR \<lparr> rvr_ReplicatedVolumeName := ''v'', rvr_Name := ''v-0'' \<rparr>] = Some (True, r')
    \<and> idFromName (rvr_Name r') = Some 1"
proof -
  let ?o = "emptyRVR \<lparr> rvr_ReplicatedVolumeName := ''v'', rvr_Name := ''v-0'' \<rparr>"
  let ?r = "emptyRVR \<lparr> rvr_ReplicatedVolumeName := ''v'' \<rparr>"
  have id0: "idFromName ''v-0'' = Some 0" by code_simp
  then have h: "\<forall>r \<in> set [?o]. rvr_ReplicatedVolumeName r = rvr_ReplicatedVolumeName ?r \<longrightarrow>
      (\<exists>i. idFromName (rvr_Name r) = Some i \<and> i \<le> 31)" by (simp add: word_le_nat_alt)
  have used: "usedIDs ''v'' [?o] = {0}" using id0 by (auto simp: usedIDs_def)
  have "({..<32} :: nat set) \<noteq> {0}" by (metis lessThan_iff singletonD zero_neq_numeral one_neq_zero one_less_numeral_iff semiring_norm(76))
  moreover have "Min ({..<32} - {0 :: nat}) = 1" by (rule Min_eqI) auto
  ultimately show ?thesis
    using ChooseNewName_correct [OF h] used by (auto simp: emptyRVR_def)
qed

end
