(* ===== verification/Dmte_Plan.thy ===== *)
theory Dmte_Plan
  imports Api_Types
begin

text \<open>
  The static part of the transition engine \<open>rv_controller/dmte\<close>: the callback types, steps and
  their builders (\<open>step.go\<close>), plans and \<open>PlanBuilder\<close> with its validation (\<open>plan.go\<close>), the
  registry (\<open>registry.go\<close>), the adapters (\<open>adapt.go\<close>) and dispatch decisions (\<open>types.go\<close>).

  The engine is polymorphic, as in the source: \<open>'g\<close> is the global context with everything
  reachable from it, \<open>'r\<close> the non-nil values of the replica context pointer type (the zero \<open>R\<close> is
  \<open>None\<close> of \<open>'r option\<close>). Callbacks mutate the contexts through pointers: here they return the new
  \<open>'g\<close>. Transitions are shared by pointer between the engine and the contexts, so they live in
  a store that every callback can read.
\<close>

subsection \<open>Types\<close>

type_synonym PlanID = string

datatype Scope = GlobalScope | ReplicaScope

text \<open>Pointers to transitions: elements of the slice given to \<open>NewEngine\<close>, heap objects allocated by
  \<open>createTransition\<close>, and elements of the array that \<open>Finalize\<close> may reallocate.\<close>

datatype tptr = Orig nat | New nat | Grown nat

type_synonym tstore = "tptr \<Rightarrow> Transition"

record GuardResult =
  Blocked :: bool
  gr_Message :: string
  gr_Details :: "string option"

record ConfirmResult =
  MustConfirm :: IDSet
  Confirmed :: IDSet

definition guardPass :: GuardResult where
  "guardPass = \<lparr> Blocked = False, gr_Message = [], gr_Details = None \<rparr>"

definition guardBlock :: "string \<Rightarrow> GuardResult" where
  "guardBlock msg = \<lparr> Blocked = True, gr_Message = msg, gr_Details = None \<rparr>"

definition guardBlockWith :: "string \<Rightarrow> string \<Rightarrow> GuardResult" where
  "guardBlockWith msg details = \<lparr> Blocked = True, gr_Message = msg, gr_Details = Some details \<rparr>"

lemma guard_simps [simp]:
  "\<not> Blocked guardPass" "Blocked (guardBlock m)" "Blocked (guardBlockWith m d)"
  by (simp_all add: guardPass_def guardBlock_def guardBlockWith_def)

type_synonym ('g, 'r) ReplicaGuardFunc = "tstore \<Rightarrow> 'g \<Rightarrow> 'r option \<Rightarrow> (GuardResult \<times> 'g) option"
type_synonym 'g GlobalGuardFunc = "tstore \<Rightarrow> 'g \<Rightarrow> (GuardResult \<times> 'g) option"
type_synonym ('g, 'r) ReplicaOnCompleteFunc = "tstore \<Rightarrow> 'g \<Rightarrow> 'r option \<Rightarrow> 'g option"
type_synonym 'g GlobalOnCompleteFunc = "tstore \<Rightarrow> 'g \<Rightarrow> 'g option"
type_synonym ('g, 'r) ReplicaInitFunc = "tstore \<Rightarrow> 'g \<Rightarrow> 'r option \<Rightarrow> Transition \<Rightarrow> Transition option"
type_synonym 'g GlobalInitFunc = "tstore \<Rightarrow> 'g \<Rightarrow> Transition \<Rightarrow> Transition option"
type_synonym ('g, 'r) ReplicaApplyFunc = "tstore \<Rightarrow> 'g \<Rightarrow> 'r option \<Rightarrow> (bool \<times> 'g) option"
type_synonym 'g GlobalApplyFunc = "tstore \<Rightarrow> 'g \<Rightarrow> (bool \<times> 'g) option"
type_synonym ('g, 'r) ReplicaConfirmFunc = "tstore \<Rightarrow> 'g \<Rightarrow> 'r option \<Rightarrow> int \<Rightarrow> ConfirmResult option"
type_synonym 'g GlobalConfirmFunc = "tstore \<Rightarrow> 'g \<Rightarrow> int \<Rightarrow> ConfirmResult option"
type_synonym ('g, 'r) SkipErrorFunc = "'g \<Rightarrow> 'r option \<Rightarrow> u8 \<Rightarrow> Condition \<Rightarrow> bool"

text \<open>The interfaces the engine calls: the context provider with the methods of the replica context,
  the slot accessors and the tracker.\<close>

record ('g, 'r) ContextProvider =
  cp_Replica :: "'g \<Rightarrow> u8 \<Rightarrow> 'r option option"
  rc_Name :: "'g \<Rightarrow> 'r \<Rightarrow> string"
  rc_Exists :: "'g \<Rightarrow> 'r \<Rightarrow> bool"
  rc_Generation :: "'g \<Rightarrow> 'r \<Rightarrow> int"
  rc_Conditions :: "'g \<Rightarrow> 'r \<Rightarrow> Condition list"

record ('g, 'r) ReplicaSlotAccessor =
  GetActiveTransition :: "'g \<Rightarrow> 'r \<Rightarrow> tptr option"
  SetActiveTransition :: "'r \<Rightarrow> tptr option \<Rightarrow> 'g \<Rightarrow> 'g"
  SetStatus :: "'r \<Rightarrow> string \<Rightarrow> string option \<Rightarrow> 'g \<Rightarrow> 'g"

text \<open>The tracker's methods get the pointer and what it points to; \<open>CanAdmit\<close> gets a stub on the
  stack. All may panic (\<open>ReplicaID\<close> on an unnamed transition).\<close>

record 'g Tracker =
  trk_Add :: "tptr \<Rightarrow> Transition \<Rightarrow> 'g \<Rightarrow> 'g option"
  trk_Remove :: "Transition \<Rightarrow> 'g \<Rightarrow> 'g option"
  trk_CanAdmit :: "Transition \<Rightarrow> 'g \<Rightarrow> (bool \<times> string \<times> string option) option"

subsection \<open>Steps\<close>

record ('g, 'r) step =
  st_name :: string
  st_scope :: Scope
  globalApply :: "'g GlobalApplyFunc option"
  globalConfirm :: "'g GlobalConfirmFunc option"
  st_globalOnComplete :: "'g GlobalOnCompleteFunc option"
  replicaApply :: "('g, 'r) ReplicaApplyFunc option"
  replicaConfirm :: "('g, 'r) ReplicaConfirmFunc option"
  st_replicaOnComplete :: "('g, 'r) ReplicaOnCompleteFunc option"
  st_details :: "string option"
  diagnosticConditionTypes :: "string list"
  diagnosticSkipError :: "('g, 'r) SkipErrorFunc option"

text \<open>Calling a nil callback panics.\<close>

definition step_apply :: "('g, 'r) step \<Rightarrow> ('g, 'r) ReplicaApplyFunc" where
  "step_apply s ts g rctx = (case st_scope s of
       GlobalScope \<Rightarrow> do { f \<leftarrow> globalApply s; f ts g }
     | ReplicaScope \<Rightarrow> do { f \<leftarrow> replicaApply s; f ts g rctx })"

definition step_confirm :: "('g, 'r) step \<Rightarrow> ('g, 'r) ReplicaConfirmFunc" where
  "step_confirm s ts g rctx stepRevision = (case st_scope s of
       GlobalScope \<Rightarrow> do { f \<leftarrow> globalConfirm s; f ts g stepRevision }
     | ReplicaScope \<Rightarrow> do { f \<leftarrow> replicaConfirm s; f ts g rctx stepRevision })"

definition step_callOnComplete :: "('g, 'r) step \<Rightarrow> ('g, 'r) ReplicaOnCompleteFunc" where
  "step_callOnComplete s ts g rctx = (case st_scope s of
       GlobalScope \<Rightarrow> (case st_globalOnComplete s of None \<Rightarrow> Some g | Some f \<Rightarrow> f ts g)
     | ReplicaScope \<Rightarrow> (case st_replicaOnComplete s of None \<Rightarrow> Some g | Some f \<Rightarrow> f ts g rctx))"

record ('g, 'r) ReplicaStepBuilder =
  rb_name :: string
  rb_applyFn :: "('g, 'r) ReplicaApplyFunc option"
  rb_confirmFn :: "('g, 'r) ReplicaConfirmFunc option"
  rb_onCompleteFn :: "('g, 'r) ReplicaOnCompleteFunc option"
  rb_details :: "string option"
  rb_diagnosticConditionTypes :: "string list"
  rb_diagnosticSkipError :: "('g, 'r) SkipErrorFunc option"

definition ReplicaStep :: "string \<Rightarrow> ('g, 'r) ReplicaApplyFunc option \<Rightarrow> ('g, 'r) ReplicaConfirmFunc option
    \<Rightarrow> ('g, 'r) ReplicaStepBuilder option" where
  "ReplicaStep name applyF confirmF =
     (if name = [] \<or> Option.is_none applyF \<or> Option.is_none confirmF then None
      else Some \<lparr> rb_name = name, rb_applyFn = applyF, rb_confirmFn = confirmF, rb_onCompleteFn = None,
        rb_details = None, rb_diagnosticConditionTypes = [], rb_diagnosticSkipError = None \<rparr>)"

definition replica_build :: "('g, 'r) ReplicaStepBuilder \<Rightarrow> ('g, 'r) step" where
  "replica_build b = \<lparr> st_name = rb_name b, st_scope = ReplicaScope, globalApply = None,
     globalConfirm = None, st_globalOnComplete = None, replicaApply = rb_applyFn b,
     replicaConfirm = rb_confirmFn b, st_replicaOnComplete = rb_onCompleteFn b,
     st_details = rb_details b, diagnosticConditionTypes = rb_diagnosticConditionTypes b,
     diagnosticSkipError = rb_diagnosticSkipError b \<rparr>"

record 'g GlobalStepBuilder =
  gb_name :: string
  gb_applyFn :: "'g GlobalApplyFunc option"
  gb_confirmFn :: "'g GlobalConfirmFunc option"
  gb_onCompleteFn :: "'g GlobalOnCompleteFunc option"
  gb_details :: "string option"
  gb_diagnosticConditionTypes :: "string list"

definition GlobalStep :: "string \<Rightarrow> 'g GlobalApplyFunc option \<Rightarrow> 'g GlobalConfirmFunc option
    \<Rightarrow> 'g GlobalStepBuilder option" where
  "GlobalStep name applyF confirmF =
     (if name = [] \<or> Option.is_none applyF \<or> Option.is_none confirmF then None
      else Some \<lparr> gb_name = name, gb_applyFn = applyF, gb_confirmFn = confirmF, gb_onCompleteFn = None,
        gb_details = None, gb_diagnosticConditionTypes = [] \<rparr>)"

definition buildGlobalStep :: "'g GlobalStepBuilder \<Rightarrow> ('g, 'r) step" where
  "buildGlobalStep b = \<lparr> st_name = gb_name b, st_scope = GlobalScope, globalApply = gb_applyFn b,
     globalConfirm = gb_confirmFn b, st_globalOnComplete = gb_onCompleteFn b, replicaApply = None,
     replicaConfirm = None, st_replicaOnComplete = None, st_details = gb_details b,
     diagnosticConditionTypes = gb_diagnosticConditionTypes b, diagnosticSkipError = None \<rparr>"

subsection \<open>Adapters\<close>

definition AdaptGlobalApply :: "'g GlobalApplyFunc \<Rightarrow> ('g, 'r) ReplicaApplyFunc" where
  "AdaptGlobalApply fn = (\<lambda>ts g _. fn ts g)"

definition AdaptGlobalConfirm :: "'g GlobalConfirmFunc \<Rightarrow> ('g, 'r) ReplicaConfirmFunc" where
  "AdaptGlobalConfirm fn = (\<lambda>ts g _ stepRevision. fn ts g stepRevision)"

definition AdaptGlobalOnComplete :: "'g GlobalOnCompleteFunc \<Rightarrow> ('g, 'r) ReplicaOnCompleteFunc" where
  "AdaptGlobalOnComplete fn = (\<lambda>ts g _. fn ts g)"

definition AdaptApplyToOnComplete :: "'g GlobalApplyFunc \<Rightarrow> 'g GlobalOnCompleteFunc" where
  "AdaptApplyToOnComplete fn = (\<lambda>ts g. map_option snd (fn ts g))"

text \<open>The loops of the combinators: every function runs, the results are or-ed.\<close>

fun ComposeGlobalApply :: "'g GlobalApplyFunc list \<Rightarrow> 'g GlobalApplyFunc" where
  "ComposeGlobalApply [] ts g = Some (False, g)"
| "ComposeGlobalApply (fn # fns) ts g = do {
     (c, g1) \<leftarrow> fn ts g;
     (c', g2) \<leftarrow> ComposeGlobalApply fns ts g1;
     Some (c \<or> c', g2) }"

fun ComposeReplicaApply :: "('g, 'r) ReplicaApplyFunc list \<Rightarrow> ('g, 'r) ReplicaApplyFunc" where
  "ComposeReplicaApply [] ts g rctx = Some (False, g)"
| "ComposeReplicaApply (fn # fns) ts g rctx = do {
     (c, g1) \<leftarrow> fn ts g rctx;
     (c', g2) \<leftarrow> ComposeReplicaApply fns ts g1 rctx;
     Some (c \<or> c', g2) }"

text \<open>\<open>SetChanged\<close> on a field given by its getter and setter.\<close>

definition SetChanged :: "('s \<Rightarrow> 'a) \<Rightarrow> ('a \<Rightarrow> 's \<Rightarrow> 's) \<Rightarrow> 'a \<Rightarrow> 's \<Rightarrow> bool \<times> 's" where
  "SetChanged get put val s = (if get s = val then (False, s) else (True, put val s))"

subsection \<open>Plans\<close>

type_synonym ReplicaSlotID = nat

definition MaxReplicaSlots :: ReplicaSlotID where "MaxReplicaSlots = 2"

record ('g, 'r) plan =
  pl_scope :: Scope
  pl_transitionType :: TransitionType
  pl_group :: TransitionGroup
  displayName :: string
  pl_slot :: ReplicaSlotID
  cancelActiveOnCreate :: bool
  replicaGuards :: "('g, 'r) ReplicaGuardFunc list"
  globalGuards :: "'g GlobalGuardFunc list"
  replicaInit :: "('g, 'r) ReplicaInitFunc option"
  globalInit :: "'g GlobalInitFunc option"
  steps :: "('g, 'r) step list"
  pl_replicaOnComplete :: "('g, 'r) ReplicaOnCompleteFunc option"
  pl_globalOnComplete :: "'g GlobalOnCompleteFunc option"

definition plan_callOnComplete :: "('g, 'r) plan \<Rightarrow> ('g, 'r) ReplicaOnCompleteFunc" where
  "plan_callOnComplete p ts g rctx = (case pl_scope p of
       GlobalScope \<Rightarrow> (case pl_globalOnComplete p of None \<Rightarrow> Some g | Some f \<Rightarrow> f ts g)
     | ReplicaScope \<Rightarrow> (case pl_replicaOnComplete p of None \<Rightarrow> Some g | Some f \<Rightarrow> f ts g rctx))"

definition callInit :: "('g, 'r) plan \<Rightarrow> ('g, 'r) ReplicaInitFunc" where
  "callInit p ts g rctx t = (case pl_scope p of
       GlobalScope \<Rightarrow> (case globalInit p of None \<Rightarrow> Some t | Some f \<Rightarrow> f ts g t)
     | ReplicaScope \<Rightarrow> (case replicaInit p of None \<Rightarrow> Some t | Some f \<Rightarrow> f ts g rctx t))"

text \<open>Guards run in order up to the first that blocks.\<close>

fun firstBlocking :: "('g \<Rightarrow> (GuardResult \<times> 'g) option) list \<Rightarrow> 'g \<Rightarrow> (GuardResult \<times> 'g) option" where
  "firstBlocking [] g = Some (guardPass, g)"
| "firstBlocking (f # fs) g = do {
     (res, g1) \<leftarrow> f g;
     if Blocked res then Some (res, g1) else firstBlocking fs g1 }"

definition evaluateGuards :: "('g, 'r) plan \<Rightarrow> ('g, 'r) ReplicaGuardFunc" where
  "evaluateGuards p ts g rctx = (case pl_scope p of
       GlobalScope \<Rightarrow> firstBlocking (map (\<lambda>f g. f ts g) (globalGuards p)) g
     | ReplicaScope \<Rightarrow> firstBlocking (map (\<lambda>f g. f ts g rctx) (replicaGuards p)) g)"

subsection \<open>Registry and plan builder\<close>

type_synonym registryKey = "TransitionType \<times> PlanID"

record ('g, 'r) Registry =
  replicaSlotAccessors :: "('g, 'r) ReplicaSlotAccessor option list"
  plans :: "(registryKey \<times> ('g, 'r) plan) list"

definition NewRegistry :: "unit \<Rightarrow> ('g, 'r) Registry" where
  "NewRegistry u = \<lparr> replicaSlotAccessors = replicate MaxReplicaSlots None, plans = [] \<rparr>"

definition RegisterReplicaSlot :: "ReplicaSlotID \<Rightarrow> ('g, 'r) ReplicaSlotAccessor option
    \<Rightarrow> ('g, 'r) Registry \<Rightarrow> ('g, 'r) Registry option" where
  "RegisterReplicaSlot i accessor reg =
     (if Option.is_none accessor \<or> i \<ge> MaxReplicaSlots \<or> \<not> Option.is_none (replicaSlotAccessors reg ! i) then None
      else Some (reg \<lparr> replicaSlotAccessors := (replicaSlotAccessors reg)[i := accessor] \<rparr>))"

definition reg_get :: "('g, 'r) Registry \<Rightarrow> TransitionType \<Rightarrow> PlanID \<Rightarrow> ('g, 'r) plan option" where
  "reg_get reg tt planID = map_of (plans reg) (tt, planID)"

definition replicaSlotAccessor :: "('g, 'r) Registry \<Rightarrow> ReplicaSlotID \<Rightarrow> ('g, 'r) ReplicaSlotAccessor option" where
  "replicaSlotAccessor reg i = (if i \<ge> MaxReplicaSlots then None else replicaSlotAccessors reg ! i)"

definition PlanStepCount :: "('g, 'r) Registry \<Rightarrow> TransitionType \<Rightarrow> PlanID \<Rightarrow> nat" where
  "PlanStepCount reg tt planID = (case reg_get reg tt planID of None \<Rightarrow> 0 | Some p \<Rightarrow> length (steps p))"

definition MaxPlanStepCount :: "('g, 'r) Registry \<Rightarrow> TransitionType \<Rightarrow> nat" where
  "MaxPlanStepCount reg tt = fold (\<lambda>(key, p) m. if fst key = tt \<and> length (steps p) > m
     then length (steps p) else m) (plans reg) 0"

text \<open>The arguments of the variadic \<open>Guards\<close> and \<open>Steps\<close> and of \<open>Init\<close> and \<open>OnComplete\<close> have
  type \<open>any\<close>: the dynamic types are the constructors, any other type is \<open>RawOther\<close>.\<close>

datatype ('g, 'r) rawStep =
    RawReplicaStep "('g, 'r) ReplicaStepBuilder" | RawGlobalStep "'g GlobalStepBuilder" | RawStepOther
datatype ('r, 'f) raw = RawReplica 'r | RawGlobal 'f | RawOther

record ('g, 'r) PlanBuilder =
  b_key :: registryKey
  b_p :: "('g, 'r) plan"
  rawSteps :: "('g, 'r) rawStep list"
  rawGuards :: "(('g, 'r) ReplicaGuardFunc, 'g GlobalGuardFunc) raw list"
  rawInit :: "(('g, 'r) ReplicaInitFunc, 'g GlobalInitFunc) raw option"
  rawOnComplete :: "(('g, 'r) ReplicaOnCompleteFunc, 'g GlobalOnCompleteFunc) raw option"

record RegisteredTransition =
  rt_transitionType :: TransitionType
  rt_scope :: Scope
  rt_slot :: ReplicaSlotID

definition ReplicaTransition :: "TransitionType \<Rightarrow> ReplicaSlotID \<Rightarrow> RegisteredTransition" where
  "ReplicaTransition tt slot = \<lparr> rt_transitionType = tt, rt_scope = ReplicaScope, rt_slot = slot \<rparr>"

definition GlobalTransition :: "TransitionType \<Rightarrow> RegisteredTransition" where
  "GlobalTransition tt = \<lparr> rt_transitionType = tt, rt_scope = GlobalScope, rt_slot = 0 \<rparr>"

definition Plan :: "RegisteredTransition \<Rightarrow> PlanID \<Rightarrow> ('g, 'r) PlanBuilder" where
  "Plan rt planID = \<lparr> b_key = (rt_transitionType rt, planID),
     b_p = \<lparr> pl_scope = rt_scope rt, pl_transitionType = rt_transitionType rt, pl_group = G_Other [],
       displayName = [], pl_slot = rt_slot rt, cancelActiveOnCreate = False, replicaGuards = [],
       globalGuards = [], replicaInit = None, globalInit = None, steps = [],
       pl_replicaOnComplete = None, pl_globalOnComplete = None \<rparr>,
     rawSteps = [], rawGuards = [], rawInit = None, rawOnComplete = None \<rparr>"

text \<open>The builder's methods.\<close>

definition PB_Group :: "TransitionGroup \<Rightarrow> ('g, 'r) PlanBuilder \<Rightarrow> ('g, 'r) PlanBuilder" where
  "PB_Group g b = b \<lparr> b_p := (b_p b) \<lparr> pl_group := g \<rparr> \<rparr>"

definition PB_DisplayName :: "string \<Rightarrow> ('g, 'r) PlanBuilder \<Rightarrow> ('g, 'r) PlanBuilder" where
  "PB_DisplayName name b = b \<lparr> b_p := (b_p b) \<lparr> displayName := name \<rparr> \<rparr>"

definition PB_Guards :: "(('g, 'r) ReplicaGuardFunc, 'g GlobalGuardFunc) raw list \<Rightarrow> ('g, 'r) PlanBuilder
    \<Rightarrow> ('g, 'r) PlanBuilder" where
  "PB_Guards gs b = b \<lparr> rawGuards := rawGuards b @ gs \<rparr>"

definition PB_Steps :: "('g, 'r) rawStep list \<Rightarrow> ('g, 'r) PlanBuilder \<Rightarrow> ('g, 'r) PlanBuilder" where
  "PB_Steps ss b = b \<lparr> rawSteps := rawSteps b @ ss \<rparr>"

definition PB_OnComplete :: "(('g, 'r) ReplicaOnCompleteFunc, 'g GlobalOnCompleteFunc) raw option
    \<Rightarrow> ('g, 'r) PlanBuilder \<Rightarrow> ('g, 'r) PlanBuilder" where
  "PB_OnComplete f b = b \<lparr> rawOnComplete := f \<rparr>"

definition PB_Init :: "(('g, 'r) ReplicaInitFunc, 'g GlobalInitFunc) raw option
    \<Rightarrow> ('g, 'r) PlanBuilder \<Rightarrow> ('g, 'r) PlanBuilder" where
  "PB_Init f b = b \<lparr> rawInit := f \<rparr>"

definition PB_CancelActiveOnCreate :: "bool \<Rightarrow> ('g, 'r) PlanBuilder \<Rightarrow> ('g, 'r) PlanBuilder" where
  "PB_CancelActiveOnCreate v b = b \<lparr> b_p := (b_p b) \<lparr> cancelActiveOnCreate := v \<rparr> \<rparr>"

text \<open>\<open>planIDRegexp\<close>: \<open>^[a-z0-9]+(-[a-z0-9]+)*/v[1-9][0-9]*$\<close>.\<close>

definition isDigitChar :: "char \<Rightarrow> bool" where
  "isDigitChar c = (48 \<le> (of_char c :: nat) \<and> (of_char c :: nat) \<le> 57)"

definition isLowerAlnum :: "char \<Rightarrow> bool" where
  "isLowerAlnum c = (isDigitChar c \<or> (97 \<le> (of_char c :: nat) \<and> (of_char c :: nat) \<le> 122))"

fun planNameOK :: "bool \<Rightarrow> string \<Rightarrow> bool" where
  "planNameOK inSegment [] = inSegment"
| "planNameOK inSegment (c # cs) =
     (if isLowerAlnum c then planNameOK True cs
      else c = CHR ''-'' \<and> inSegment \<and> planNameOK False cs)"

definition planIDMatch :: "PlanID \<Rightarrow> bool" where
  "planIDMatch s = (planNameOK False (takeWhile (\<lambda>c. c \<noteq> CHR ''/'') s) \<and>
     (case dropWhile (\<lambda>c. c \<noteq> CHR ''/'') s of
        slash # v # d # ds \<Rightarrow> v = CHR ''v'' \<and> isDigitChar d \<and> d \<noteq> CHR ''0'' \<and> list_all isDigitChar ds
      | _ \<Rightarrow> False))"

fun build_steps :: "Scope \<Rightarrow> ('g, 'r) rawStep list \<Rightarrow> ('g, 'r) step list option" where
  "build_steps scope [] = Some []"
| "build_steps scope (RawReplicaStep b # raws) =
     (if scope = GlobalScope then None
      else do { ss \<leftarrow> build_steps scope raws; Some (replica_build b # ss) })"
| "build_steps scope (RawGlobalStep b # raws) =
     do { ss \<leftarrow> build_steps scope raws; Some (buildGlobalStep b # ss) }"
| "build_steps scope (RawStepOther # raws) = None"

fun replicaRaws :: "('f, 'h) raw list \<Rightarrow> 'f list option" where
  "replicaRaws [] = Some []"
| "replicaRaws (RawReplica f # raws) = do { fs \<leftarrow> replicaRaws raws; Some (f # fs) }"
| "replicaRaws (_ # raws) = None"

fun globalRaws :: "('f, 'h) raw list \<Rightarrow> 'h list option" where
  "globalRaws [] = Some []"
| "globalRaws (RawGlobal f # raws) = do { fs \<leftarrow> globalRaws raws; Some (f # fs) }"
| "globalRaws (_ # raws) = None"

text \<open>\<open>Build\<close> validates in the order of the source; any failure is the panic.\<close>

definition Build_plan :: "('g, 'r) PlanBuilder \<Rightarrow> ('g, 'r) plan option" where
  "Build_plan b = do {
     let p = b_p b;
     panicUnless (planIDMatch (snd (b_key b)));
     panicUnless (pl_group p \<noteq> G_Other []);
     panicUnless (length (rawSteps b) \<noteq> 0);
     ss \<leftarrow> build_steps (pl_scope p) (rawSteps b);
     let p = p \<lparr> steps := ss \<rparr>;
     p \<leftarrow> (case pl_scope p of
         ReplicaScope \<Rightarrow> do { fs \<leftarrow> replicaRaws (rawGuards b); Some (p \<lparr> replicaGuards := fs \<rparr>) }
       | GlobalScope \<Rightarrow> do { fs \<leftarrow> globalRaws (rawGuards b); Some (p \<lparr> globalGuards := fs \<rparr>) });
     p \<leftarrow> (case (rawInit b, pl_scope p) of
         (None, _) \<Rightarrow> Some p
       | (Some (RawReplica f), ReplicaScope) \<Rightarrow> Some (p \<lparr> replicaInit := Some f \<rparr>)
       | (Some (RawGlobal f), GlobalScope) \<Rightarrow> Some (p \<lparr> globalInit := Some f \<rparr>)
       | _ \<Rightarrow> None);
     p \<leftarrow> (case (rawOnComplete b, pl_scope p) of
         (None, _) \<Rightarrow> Some p
       | (Some (RawReplica f), ReplicaScope) \<Rightarrow> Some (p \<lparr> pl_replicaOnComplete := Some f \<rparr>)
       | (Some (RawGlobal f), GlobalScope) \<Rightarrow> Some (p \<lparr> pl_globalOnComplete := Some f \<rparr>)
       | _ \<Rightarrow> None);
     panicUnless (\<not> (cancelActiveOnCreate p \<and> pl_scope p = GlobalScope));
     Some p }"

definition Build :: "('g, 'r) PlanBuilder \<Rightarrow> ('g, 'r) Registry \<Rightarrow> ('g, 'r) Registry option" where
  "Build b reg = do {
     p \<leftarrow> Build_plan b;
     panicUnless (Option.is_none (reg_get reg (fst (b_key b)) (snd (b_key b))));
     Some (reg \<lparr> plans := plans reg @ [(b_key b, p)] \<rparr>) }"

subsection \<open>Dispatch decisions\<close>

record 'r DispatchDecision =
  d_replicaCtx :: "'r option"
  d_transitionType :: TransitionType
  d_planID :: PlanID
  d_replicaSlot :: ReplicaSlotID
  d_message :: string
  d_details :: "string option"

definition DispatchReplica :: "'r \<Rightarrow> TransitionType \<Rightarrow> PlanID \<Rightarrow> 'r DispatchDecision" where
  "DispatchReplica rctx tt planID = \<lparr> d_replicaCtx = Some rctx, d_transitionType = tt, d_planID = planID,
     d_replicaSlot = 0, d_message = [], d_details = None \<rparr>"

definition DispatchGlobal :: "TransitionType \<Rightarrow> PlanID \<Rightarrow> 'r DispatchDecision" where
  "DispatchGlobal tt planID = \<lparr> d_replicaCtx = None, d_transitionType = tt, d_planID = planID,
     d_replicaSlot = 0, d_message = [], d_details = None \<rparr>"

definition NoDispatch :: "'r \<Rightarrow> ReplicaSlotID \<Rightarrow> string \<Rightarrow> string option \<Rightarrow> 'r DispatchDecision" where
  "NoDispatch rctx slot msg details = \<lparr> d_replicaCtx = Some rctx, d_transitionType = TT_Other [],
     d_planID = [], d_replicaSlot = slot, d_message = msg, d_details = details \<rparr>"

text \<open>A dispatcher is a generator: its body runs up to the next decision, the engine processes that
  decision, then the body continues on the contexts the engine left behind. A dispatcher is a list
  of phases; a phase looks at the contexts when the loop reaches it and gives the loop bodies it
  iterates over; each body is run when its turn comes and yields at most one decision.\<close>

type_synonym ('g, 'r) dispatchBody = "tstore \<Rightarrow> 'g \<Rightarrow> 'r DispatchDecision option option"
type_synonym ('g, 'r) DispatchFunc = "(tstore \<Rightarrow> 'g \<Rightarrow> ('g, 'r) dispatchBody list) list"

end
