(* ===== verification/Datamesh_Context.thy ===== *)
theory Datamesh_Context
  imports Dmte_Plan
begin

text \<open>
  \<open>datamesh/context.go\<close>: the global context with its per-replica contexts, their construction from
  the API objects (\<open>buildContexts\<close>), the accessors the engine uses and the write-back functions.

  A \<open>*ReplicaContext\<close> is an index into \<open>allReplicas\<close>. Its \<open>member\<close> pointer either points into
  \<open>rv.Status.Datamesh.Members\<close> or at a heap object of its own; no two contexts share a member, so the
  context keeps the value it points to together with the slice index (\<open>rx_memberPtr\<close>, \<open>None\<close> for a
  heap object). The memo of \<open>getEligibleNode\<close> is not kept: what it caches does not change during a
  reconciliation. \<open>RSP\<close> is an interface the caller implements: a record of its two methods.
\<close>

subsection \<open>Types\<close>

record FeatureFlags =
  ff_ShadowDiskful :: bool

record RSP =
  FindEligibleNode :: "string \<Rightarrow> EligibleNode option"
  GetSystemNetworkNames :: "string list"

record datameshContext =
  quorum :: u8
  quorumMinimumRedundancy :: u8
  multiattach :: bool
  systemNetworkNames :: "string list"
  dm_size :: u64

record ReplicaContext =
  rx_id :: u8
  rx_name :: string
  rx_nodeName :: string
  rx_rvr :: "RVR option"
  rx_member :: "DatameshMember option"
  rx_memberPtr :: "nat option"
  rx_rvas :: "RVA list"
  rx_membershipRequest :: "ReplicaRequest option"
  rx_requestPtr :: nat
  rx_membershipTransition :: "tptr option"
  rx_attachmentTransition :: "tptr option"
  rx_membershipMessage :: string
  rx_attachmentConditionMessage :: string
  rx_attachmentConditionReason :: string

record globalContext =
  deletionTimestamp :: "int option"
  configuration :: ReplicatedVolumeConfiguration
  datamesh :: datameshContext
  datameshRevision :: int
  baselineGMDR :: u8
  g_size :: u64
  maxAttachments :: u8
  replicatedStorageClassName :: string
  g_rsp :: "RSP option"
  features :: FeatureFlags
  changeSystemNetworksTransition :: "tptr option"
  replicas :: "nat option list"
  allReplicas :: "ReplicaContext list"
  quorumSatisfied :: "bool option"
  quorumDiagnostic :: string
  hasFormationTransition :: bool
  hasQuorumTransition :: bool
  hasMultiattachTransition :: bool
  hasNetworkTransition :: bool
  hasResizeTransition :: bool
  diskGainingMembershipTransitions :: IDSet
  votingMembershipTransitions :: IDSet
  nonVotingMembershipTransitions :: IDSet
  attachmentTransitions :: IDSet
  emergencyTransitions :: IDSet
  potentiallyAttached :: IDSet

type_synonym rctx = nat

text \<open>A fresh element of \<open>allReplicas\<close>, as step 1 of \<open>buildContexts\<close> allocates it.\<close>

definition newReplicaContext :: "u8 \<Rightarrow> ReplicaContext" where
  "newReplicaContext i = \<lparr> rx_id = i, rx_name = [], rx_nodeName = [], rx_rvr = None, rx_member = None,
     rx_memberPtr = None, rx_rvas = [], rx_membershipRequest = None, rx_requestPtr = 0,
     rx_membershipTransition = None, rx_attachmentTransition = None, rx_membershipMessage = [],
     rx_attachmentConditionMessage = [], rx_attachmentConditionReason = [] \<rparr>"

text \<open>The context a pointer refers to. A pointer always refers to an element; the last branch is there to
  make the function total.\<close>

definition rcAt :: "globalContext \<Rightarrow> rctx \<Rightarrow> ReplicaContext" where
  "rcAt g i = (if i < length (allReplicas g) then allReplicas g ! i else newReplicaContext 0)"

definition updRC :: "rctx \<Rightarrow> (ReplicaContext \<Rightarrow> ReplicaContext) \<Rightarrow> globalContext \<Rightarrow> globalContext" where
  "updRC i f g = g \<lparr> allReplicas := (allReplicas g)[i := f (allReplicas g ! i)] \<rparr>"

text \<open>The API object: the fields of \<open>ReplicatedVolume\<close> the controllers read and write.\<close>

record Datamesh =
  ds_Quorum :: u8
  ds_QuorumMinimumRedundancy :: u8
  ds_Multiattach :: bool
  ds_SystemNetworkNames :: "string list"
  ds_Size :: u64
  ds_Members :: "DatameshMember list"
  ds_SharedSecret :: string
  ds_SharedSecretAlg :: string

type_synonym i8 = "8 word"

record EffectiveLayout =
  el_FailuresToTolerate :: "i8 option"
  el_GuaranteedMinimumDataRedundancy :: "i8 option"
  el_TotalVoters :: i8
  el_ReachableVoters :: i8
  el_UpToDateVoters :: i8
  el_TotalTieBreakers :: i8
  el_ReachableTieBreakers :: i8
  el_StaleAgents :: i8
  el_Message :: string

datatype ConfigurationMode = ConfigurationModeAuto | ConfigurationModeManual | ConfigurationMode_Other string

record RV =
  rv_DeletionTimestamp :: "int option"
  rv_Spec_Size :: u64
  rv_Spec_MaxAttachments :: "u8 option"
  rv_Spec_ReplicatedStorageClassName :: string
  rv_Configuration :: "ReplicatedVolumeConfiguration option"
  rv_DatameshRevision :: int
  rv_Datamesh :: Datamesh
  rv_BaselineGMDR :: u8
  rv_DatameshReplicaRequests :: "ReplicaRequest list"
  rv_DatameshTransitions :: "Transition list"
  rv_EffectiveLayout :: EffectiveLayout
  rv_Name :: string
  rv_Generation :: int
  rv_Finalizers :: "string list"
  rv_Labels :: "(string \<times> string) list"
  rv_Annotations :: "(string \<times> string) list"
  rv_Spec_ConfigurationMode :: ConfigurationMode
  rv_Spec_ManualConfiguration :: "ReplicatedVolumeConfiguration option"
  rv_ConfigurationGeneration :: int
  rv_ConfigurationObservedGeneration :: int
  rv_Conditions :: "Condition list"
  rv_MembershipLayout :: "string option"
  rv_Size :: "u64 option"

subsection \<open>Conditions the package reads\<close>

definition rvr_Condition :: "RVR \<Rightarrow> string \<Rightarrow> StatusConditionChecker" where
  "rvr_Condition r condType = StatusCondition (rvr_Conditions r) (rvr_Generation r) condType"

definition computeQuorumCheck :: "globalContext \<Rightarrow> bool \<times> string" where
  "computeQuorumCheck gctx =
     (let voters = filter (\<lambda>rc. (case rx_member rc of None \<Rightarrow> False | Some m \<Rightarrow> IsVoter (m_Type m))
                             \<and> rx_rvr rc \<noteq> None) (allReplicas gctx);
          agentNotReady = (\<lambda>rc. chk_Eval (chk_ReasonEqual ''AgentNotReady''
             (rvr_Condition (the (rx_rvr rc)) ''Ready'')));
          hasQuorum = (\<lambda>rc. \<not> agentNotReady rc \<and> rvr_Quorum (the (rx_rvr rc)) = Some True);
          voterAgentNotReady = FromWhere rx_id voters agentNotReady;
          noQuorum = FromWhere rx_id voters (\<lambda>rc. \<not> agentNotReady rc)
      in if list_ex hasQuorum voters then (True, [])
         else if \<not> IDSet_IsEmpty noQuorum \<and> \<not> IDSet_IsEmpty voterAgentNotReady
         then (False, ''no quorum on ['' @ IDSet_String noQuorum @ '']; agent not ready on [''
                 @ IDSet_String voterAgentNotReady @ '']'')
         else if \<not> IDSet_IsEmpty noQuorum then (False, ''no quorum on ['' @ IDSet_String noQuorum @ '']'')
         else if \<not> IDSet_IsEmpty voterAgentNotReady
         then (False, ''agent not ready on ['' @ IDSet_String voterAgentNotReady @ '']'')
         else (False, ''no voter members''))"

text \<open>The lazily computed value is cached for the rest of the cycle.\<close>

definition isQuorumSatisfied :: "globalContext \<Rightarrow> bool \<times> globalContext" where
  "isQuorumSatisfied gctx = (case quorumSatisfied gctx of
       Some ok \<Rightarrow> (ok, gctx)
     | None \<Rightarrow> (let (ok, diag) = computeQuorumCheck gctx
                in (ok, gctx \<lparr> quorumSatisfied := Some ok, quorumDiagnostic := diag \<rparr>)))"

subsection \<open>Accessors\<close>

definition getEligibleNode :: "globalContext \<Rightarrow> ReplicaContext \<Rightarrow> EligibleNode option" where
  "getEligibleNode gctx rc = (case g_rsp gctx of
       None \<Rightarrow> None
     | Some rsp \<Rightarrow> if rx_nodeName rc = [] then None else FindEligibleNode rsp (rx_nodeName rc))"

definition hasActiveRVA :: "ReplicaContext \<Rightarrow> bool" where
  "hasActiveRVA rc = list_ex (\<lambda>rva. \<not> rva_Deleting rva) (rx_rvas rc)"

text \<open>Times count from Go's zero time, the result for a context without an active RVA.\<close>

definition zeroTime :: int where "zeroTime = 0"

definition earliestActiveRVATimestamp :: "ReplicaContext \<Rightarrow> int" where
  "earliestActiveRVATimestamp rc = (case find (\<lambda>rva. \<not> rva_Deleting rva) (rx_rvas rc) of
       None \<Rightarrow> zeroTime | Some rva \<Rightarrow> rva_CreationTimestamp rva)"

definition provider_Replica :: "globalContext \<Rightarrow> u8 \<Rightarrow> rctx option option" where
  "provider_Replica gctx i = index (replicas gctx) (unat i)"

text \<open>\<open>Generation\<close> and \<open>Conditions\<close> dereference \<open>rvr\<close>; the engine calls them only when \<open>Exists\<close>
  returned true.\<close>

definition provider :: "(globalContext, rctx) ContextProvider" where
  "provider = \<lparr> cp_Replica = provider_Replica,
     rc_Name = (\<lambda>g r. rx_name (rcAt g r)),
     rc_Exists = (\<lambda>g r. rx_rvr (rcAt g r) \<noteq> None),
     rc_Generation = (\<lambda>g r. rvr_Generation (the (rx_rvr (rcAt g r)))),
     rc_Conditions = (\<lambda>g r. rvr_Conditions (the (rx_rvr (rcAt g r)))) \<rparr>"

subsection \<open>buildContexts\<close>

definition newGlobalContext :: "RV \<Rightarrow> ReplicatedVolumeConfiguration \<Rightarrow> RSP option \<Rightarrow> FeatureFlags \<Rightarrow> globalContext" where
  "newGlobalContext rv cfg rsp feat = (let ds = rv_Datamesh rv in
     \<lparr> deletionTimestamp = rv_DeletionTimestamp rv,
       configuration = cfg,
       datamesh = \<lparr> quorum = ds_Quorum ds, quorumMinimumRedundancy = ds_QuorumMinimumRedundancy ds,
         multiattach = ds_Multiattach ds, systemNetworkNames = ds_SystemNetworkNames ds,
         dm_size = ds_Size ds \<rparr>,
       datameshRevision = rv_DatameshRevision rv,
       baselineGMDR = rv_BaselineGMDR rv,
       g_size = rv_Spec_Size rv,
       maxAttachments = (case rv_Spec_MaxAttachments rv of None \<Rightarrow> 1 | Some n \<Rightarrow> n),
       replicatedStorageClassName = rv_Spec_ReplicatedStorageClassName rv,
       g_rsp = rsp, features = feat, changeSystemNetworksTransition = None,
       replicas = replicate 32 None, allReplicas = [],
       quorumSatisfied = None, quorumDiagnostic = [],
       hasFormationTransition = False, hasQuorumTransition = False, hasMultiattachTransition = False,
       hasNetworkTransition = False, hasResizeTransition = False,
       diskGainingMembershipTransitions = 0, votingMembershipTransitions = 0,
       nonVotingMembershipTransitions = 0, attachmentTransitions = 0, emergencyTransitions = 0,
       potentiallyAttached = 0 \<rparr>)"

text \<open>The IDs of all sources that carry one.\<close>

definition idsOfNames :: "string list \<Rightarrow> u8 list option" where
  "idsOfNames names = those (map idFromName names)"

definition knownIDs :: "RV \<Rightarrow> RVR list \<Rightarrow> IDSet option" where
  "knownIDs rv rvrs = do {
     a \<leftarrow> idsOfNames (map rvr_Name rvrs);
     b \<leftarrow> idsOfNames (map m_Name (ds_Members (rv_Datamesh rv)));
     c \<leftarrow> idsOfNames (map rr_Name (rv_DatameshReplicaRequests rv));
     d \<leftarrow> idsOfNames (filter (\<lambda>n. n \<noteq> []) (map t_ReplicaName (rv_DatameshTransitions rv)));
     Some (IDSet_Union (IDSet_Union (IDSet_Union (IDSet_Of a) (IDSet_Of b)) (IDSet_Of c)) (IDSet_Of d)) }"

text \<open>Step 1: one context per known ID, in the order of the IDs.\<close>

definition indexByID :: "u8 list \<Rightarrow> nat option list" where
  "indexByID xs = fold (\<lambda>(idx, i) reps. reps[unat i := Some idx]) (enumerate 0 xs) (replicate 32 None)"

text \<open>Step 2: \<open>gctx.replicas[x.ID()]\<close> and an update through the pointer.\<close>

definition atID :: "string \<Rightarrow> (ReplicaContext \<Rightarrow> ReplicaContext) \<Rightarrow> globalContext \<Rightarrow> globalContext option" where
  "atID name f g = do {
     i \<leftarrow> idFromName name;
     p \<leftarrow> index (replicas g) (unat i);
     r \<leftarrow> p;
     Some (updRC r f g) }"

fun populateRVRs :: "RVR list \<Rightarrow> globalContext \<Rightarrow> globalContext option" where
  "populateRVRs [] g = Some g"
| "populateRVRs (rvr # rvrs) g = do {
     g' \<leftarrow> atID (rvr_Name rvr) (\<lambda>rc. rc \<lparr> rx_rvr := Some rvr, rx_nodeName := rvr_NodeName rvr,
              rx_name := rvr_Name rvr \<rparr>) g;
     populateRVRs rvrs g' }"

fun populateMembers :: "nat \<Rightarrow> DatameshMember list \<Rightarrow> globalContext \<Rightarrow> globalContext option" where
  "populateMembers i [] g = Some g"
| "populateMembers i (m # ms) g = do {
     g' \<leftarrow> atID (m_Name m) (\<lambda>rc. rc \<lparr> rx_member := Some m, rx_memberPtr := Some i,
              rx_nodeName := (if rx_nodeName rc = [] then m_NodeName m else rx_nodeName rc),
              rx_name := (if rx_name rc = [] then m_Name m else rx_name rc) \<rparr>) g;
     populateMembers (Suc i) ms g' }"

fun populateRequests :: "nat \<Rightarrow> ReplicaRequest list \<Rightarrow> globalContext \<Rightarrow> globalContext option" where
  "populateRequests i [] g = Some g"
| "populateRequests i (req # reqs) g = do {
     g' \<leftarrow> atID (rr_Name req) (\<lambda>rc. rc \<lparr> rx_membershipRequest := Some req, rx_requestPtr := i,
              rx_name := (if rx_name rc = [] then rr_Name req else rx_name rc) \<rparr>) g;
     populateRequests (Suc i) reqs g' }"

text \<open>Step 3: maximal runs of RVAs with the same node name.\<close>

function groupRVAs :: "RVA list \<Rightarrow> (string \<times> RVA list) list" where
  "groupRVAs [] = []"
| "groupRVAs (rva # rvas) = (rva_NodeName rva, rva # takeWhile (\<lambda>x. rva_NodeName x = rva_NodeName rva) rvas)
     # groupRVAs (dropWhile (\<lambda>x. rva_NodeName x = rva_NodeName rva) rvas)"
  by pat_completeness auto
termination
  by (relation "measure length") (simp_all add: le_imp_less_Suc length_dropWhile_le)

definition assignRVAs :: "string \<times> RVA list \<Rightarrow> ReplicaContext list \<Rightarrow> ReplicaContext list" where
  "assignRVAs grp rcs = (let i = length (takeWhile (\<lambda>rc. rx_nodeName rc \<noteq> fst grp) rcs)
     in if i < length rcs then rcs[i := (rcs ! i) \<lparr> rx_rvas := snd grp \<rparr>]
        else rcs @ [(newReplicaContext 0) \<lparr> rx_nodeName := fst grp, rx_rvas := snd grp \<rparr>])"

text \<open>The slice was allocated with room for one orphan: a second one moves it. With no known ID the
  saved pointer is nil, so the first orphan counts as a move, too.\<close>

definition backingMoved :: "nat \<Rightarrow> nat \<Rightarrow> bool" where
  "backingMoved known len \<longleftrightarrow> len > 0 \<and> (known = 0 \<or> len > known + 1)"

definition rebuildIndex :: "ReplicaContext list \<Rightarrow> nat option list" where
  "rebuildIndex rcs = fold (\<lambda>(idx, rc) reps. if rx_name rc \<noteq> [] then reps[unat (rx_id rc) := Some idx] else reps)
     (enumerate 0 rcs) (replicate 32 None)"

definition buildContexts :: "RV \<Rightarrow> RSP option \<Rightarrow> RVR list \<Rightarrow> RVA list \<Rightarrow> FeatureFlags \<Rightarrow> globalContext option" where
  "buildContexts rv rsp rvrs rvas feat = do {
     cfg \<leftarrow> rv_Configuration rv;
     known \<leftarrow> knownIDs rv rvrs;
     let g = (newGlobalContext rv cfg rsp feat) \<lparr> allReplicas := map newReplicaContext (IDSet_All known),
               replicas := indexByID (IDSet_All known) \<rparr>;
     g \<leftarrow> populateRVRs rvrs g;
     g \<leftarrow> populateMembers 0 (ds_Members (rv_Datamesh rv)) g;
     g \<leftarrow> populateRequests 0 (rv_DatameshReplicaRequests rv) g;
     let rcs = fold assignRVAs (groupRVAs rvas) (allReplicas g);
     let g = g \<lparr> allReplicas := rcs \<rparr>;
     Some (if backingMoved (IDSet_Len known) (length rcs) then g \<lparr> replicas := rebuildIndex rcs \<rparr> else g) }"

subsection \<open>Write-back\<close>

text \<open>\<open>gctx.replicas[id]\<close> for \<open>id < 32\<close>.\<close>

definition replicaAt :: "globalContext \<Rightarrow> u8 \<Rightarrow> ReplicaContext option" where
  "replicaAt g i = map_option (rcAt g) (replicas g ! unat i)"

text \<open>The contents of the \<open>Members\<close> slice: the contexts that point into it have changed it in place.\<close>

definition sliceContents :: "DatameshMember list \<Rightarrow> ReplicaContext list \<Rightarrow> DatameshMember list" where
  "sliceContents orig rcs = fold (\<lambda>rc ms. case (rx_memberPtr rc, rx_member rc) of
       (Some i, Some m) \<Rightarrow> ms[i := m] | _ \<Rightarrow> ms) rcs orig"

text \<open>\<open>rc != nil && rc.member == &orig[i]\<close>.\<close>

definition pointsTo :: "ReplicaContext option \<Rightarrow> nat \<Rightarrow> bool" where
  "pointsTo rc i = (case rc of None \<Rightarrow> False | Some c \<Rightarrow> rx_member c \<noteq> None \<and> rx_memberPtr c = Some i)"

definition activeMemberIDs :: "globalContext \<Rightarrow> IDSet" where
  "activeMemberIDs g = FromWhere (\<lambda>i. i) (map of_nat [0..<32])
     (\<lambda>i. case replicaAt g i of None \<Rightarrow> False | Some rc \<Rightarrow> rx_member rc \<noteq> None)"

text \<open>The compaction loop at index \<open>i\<close>: the array, the write position and the surviving IDs.\<close>

fun compactMembers :: "globalContext \<Rightarrow> nat list \<Rightarrow> DatameshMember list \<Rightarrow> nat \<Rightarrow> IDSet
    \<Rightarrow> (DatameshMember list \<times> nat \<times> IDSet) option" where
  "compactMembers g [] orig n surviving = Some (orig, n, surviving)"
| "compactMembers g (i # is) orig n surviving = do {
     i' \<leftarrow> idFromName (m_Name (orig ! i));
     panicUnless (i' < 32);
     if pointsTo (replicaAt g i') i
     then compactMembers g is (if n \<noteq> i then orig[n := orig ! i] else orig) (Suc n) (IDSet_Add i' surviving)
     else compactMembers g is orig n surviving }"

text \<open>Appending to \<open>orig[:n]\<close> writes into the same array as long as it has room.\<close>

fun appendMembers :: "globalContext \<Rightarrow> u8 list \<Rightarrow> DatameshMember list \<Rightarrow> DatameshMember list
    \<Rightarrow> (DatameshMember list \<times> DatameshMember list) option" where
  "appendMembers g [] arr members = Some (arr, members)"
| "appendMembers g (i # is) arr members = do {
     rc \<leftarrow> replicaAt g i;
     m \<leftarrow> rx_member rc;
     appendMembers g is (arr[length members := m]) (members @ [m]) }"

text \<open>After the write-back the contexts that still point into the slice read the compacted array.\<close>

definition rereadMembers :: "DatameshMember list \<Rightarrow> globalContext \<Rightarrow> globalContext" where
  "rereadMembers arr g = g \<lparr> allReplicas := map (\<lambda>rc. case (rx_member rc, rx_memberPtr rc) of
       (Some m, Some i) \<Rightarrow> rc \<lparr> rx_member := Some (arr ! i) \<rparr> | _ \<Rightarrow> rc) (allReplicas g) \<rparr>"

definition writebackMembersFromContexts :: "DatameshMember list \<Rightarrow> globalContext
    \<Rightarrow> (DatameshMember list \<times> globalContext) option" where
  "writebackMembersFromContexts orig gctx = do {
     let orig = sliceContents orig (allReplicas gctx);
     origIDList \<leftarrow> idsOfNames (map m_Name orig);
     panicUnless (list_all (\<lambda>i. i < 32) origIDList);
     let activeIDs = activeMemberIDs gctx;
     let allPointersMatch = list_all (\<lambda>(i, i'). pointsTo (replicaAt gctx i') i) (enumerate 0 origIDList);
     if activeIDs = IDSet_Of origIDList \<and> allPointersMatch then Some (orig, gctx)
     else do {
       (arr, n, survivingIDs) \<leftarrow> compactMembers gctx [0..<length orig] orig 0 0;
       (arr', members) \<leftarrow> appendMembers gctx (IDSet_All (IDSet_Difference activeIDs survivingIDs)) arr (take n arr);
       Some (members, rereadMembers arr' gctx) } }"

definition writebackDatameshFromContext :: "globalContext \<Rightarrow> Datamesh \<Rightarrow> Datamesh" where
  "writebackDatameshFromContext gctx ds = ds \<lparr> ds_Quorum := quorum (datamesh gctx),
     ds_QuorumMinimumRedundancy := quorumMinimumRedundancy (datamesh gctx),
     ds_Multiattach := multiattach (datamesh gctx),
     ds_SystemNetworkNames := systemNetworkNames (datamesh gctx),
     ds_Size := dm_size (datamesh gctx) \<rparr>"

definition writebackBaselineGMDRFromContext :: "globalContext \<Rightarrow> RV \<Rightarrow> RV" where
  "writebackBaselineGMDRFromContext gctx rv = rv \<lparr> rv_BaselineGMDR := baselineGMDR gctx \<rparr>"

definition zoneOf :: "RSP \<Rightarrow> ReplicaContext \<Rightarrow> string option" where
  "zoneOf rsp rc = (if rx_member rc = None \<or> rx_nodeName rc = [] then None
     else map_option en_ZoneName (FindEligibleNode rsp (rx_nodeName rc)))"

definition updateMemberZonesFromRSP :: "globalContext \<Rightarrow> bool \<times> globalContext" where
  "updateMemberZonesFromRSP gctx = (case g_rsp gctx of
       None \<Rightarrow> (False, gctx)
     | Some rsp \<Rightarrow>
         let stale = (\<lambda>rc. case (rx_member rc, zoneOf rsp rc) of
                (Some m, Some z) \<Rightarrow> m_Zone m \<noteq> z | _ \<Rightarrow> False);
             refresh = (\<lambda>rc. case (rx_member rc, zoneOf rsp rc) of
                (Some m, Some z) \<Rightarrow> rc \<lparr> rx_member := Some (m \<lparr> m_Zone := z \<rparr>) \<rparr> | _ \<Rightarrow> rc)
         in (list_ex stale (allReplicas gctx), gctx \<lparr> allReplicas := map refresh (allReplicas gctx) \<rparr>))"

text \<open>The loop over the IDs 0 to 31; the request pointers point into the slice of requests.\<close>

definition writebackRequestMessagesFromContexts :: "globalContext \<Rightarrow> ReplicaRequest list
    \<Rightarrow> bool \<times> ReplicaRequest list" where
  "writebackRequestMessagesFromContexts gctx reqs = fold (\<lambda>i (changed, reqs).
       case replicaAt gctx (of_nat i) of
         None \<Rightarrow> (changed, reqs)
       | Some rc \<Rightarrow> (case rx_membershipRequest rc of
             None \<Rightarrow> (changed, reqs)
           | Some req \<Rightarrow> if rr_Message req \<noteq> rx_membershipMessage rc
               then (True, reqs[rx_requestPtr rc := req \<lparr> rr_Message := rx_membershipMessage rc \<rparr>])
               else (changed, reqs))) [0..<32] (False, reqs)"

end
