(* ===== verification/Datamesh_Tracker.thy ===== *)
theory Datamesh_Tracker
  imports Datamesh_Context
begin

text \<open>
  \<open>datamesh/slots.go\<close> and \<open>datamesh/concurrency_tracker.go\<close>: the two replica slots and the tracker
  that decides which transitions may run at the same time. The tracker keeps its state in the
  global context.
\<close>

subsection \<open>Slots\<close>

definition membershipSlot :: ReplicaSlotID where "membershipSlot = 0"
definition attachmentSlot :: ReplicaSlotID where "attachmentSlot = 1"

definition membershipSlotAccessor :: "(globalContext, rctx) ReplicaSlotAccessor" where
  "membershipSlotAccessor = \<lparr>
     GetActiveTransition = (\<lambda>g r. rx_membershipTransition (rcAt g r)),
     SetActiveTransition = (\<lambda>r t g. updRC r (\<lambda>rc. rc \<lparr> rx_membershipTransition := t \<rparr>) g),
     SetStatus = (\<lambda>r msg _ g. updRC r (\<lambda>rc. rc \<lparr> rx_membershipMessage := msg \<rparr>) g) \<rparr>"

definition attachmentSlotAccessor :: "(globalContext, rctx) ReplicaSlotAccessor" where
  "attachmentSlotAccessor = \<lparr>
     GetActiveTransition = (\<lambda>g r. rx_attachmentTransition (rcAt g r)),
     SetActiveTransition = (\<lambda>r t g. updRC r (\<lambda>rc. rc \<lparr> rx_attachmentTransition := t \<rparr>) g),
     SetStatus = (\<lambda>r msg details g. updRC r (\<lambda>rc. rc \<lparr> rx_attachmentConditionMessage := msg,
        rx_attachmentConditionReason := (case details of Some reason \<Rightarrow> reason
                                          | None \<Rightarrow> rx_attachmentConditionReason rc) \<rparr>) g) \<rparr>"

definition registerSlots :: "(globalContext, rctx) Registry \<Rightarrow> (globalContext, rctx) Registry option" where
  "registerSlots reg = do {
     reg \<leftarrow> RegisterReplicaSlot membershipSlot (Some membershipSlotAccessor) reg;
     RegisterReplicaSlot attachmentSlot (Some attachmentSlotAccessor) reg }"

subsection \<open>The concurrency tracker\<close>

definition newConcurrencyTracker :: "globalContext \<Rightarrow> globalContext" where
  "newConcurrencyTracker gctx = fold (\<lambda>rc g.
       case rx_member rc of
         None \<Rightarrow> g
       | Some m \<Rightarrow> if m_Attached m then g \<lparr> potentiallyAttached := IDSet_Add (rx_id rc) (potentiallyAttached g) \<rparr> else g)
     (allReplicas gctx) gctx"

definition isDiskGainingTransition :: "Transition \<Rightarrow> bool" where
  "isDiskGainingTransition t = (case t_Type t of
       TT_AddReplica \<Rightarrow> t_ReplicaType t = RT_Diskful \<or> t_ReplicaType t = RT_ShadowDiskful
     | TT_ChangeReplicaType \<Rightarrow> t_ToReplicaType t = RT_Diskful \<or> t_ToReplicaType t = RT_ShadowDiskful
     | _ \<Rightarrow> False)"

definition tracker_Add :: "tptr \<Rightarrow> Transition \<Rightarrow> globalContext \<Rightarrow> globalContext option" where
  "tracker_Add ptr t g = (case t_Group t of
       G_Formation \<Rightarrow> Some (g \<lparr> hasFormationTransition := True \<rparr>)
     | G_Quorum \<Rightarrow> Some (g \<lparr> hasQuorumTransition := True \<rparr>)
     | G_Multiattach \<Rightarrow> Some (g \<lparr> hasMultiattachTransition := True \<rparr>)
     | G_Network \<Rightarrow> Some (let g = g \<lparr> hasNetworkTransition := True \<rparr>
         in if t_Type t = TT_ChangeSystemNetworks then g \<lparr> changeSystemNetworksTransition := Some ptr \<rparr> else g)
     | G_Resize \<Rightarrow> Some (g \<lparr> hasResizeTransition := True \<rparr>)
     | G_VotingMembership \<Rightarrow> do {
         i \<leftarrow> ReplicaID t;
         let g = g \<lparr> votingMembershipTransitions := IDSet_Add i (votingMembershipTransitions g) \<rparr>;
         Some (if isDiskGainingTransition t
               then g \<lparr> diskGainingMembershipTransitions := IDSet_Add i (diskGainingMembershipTransitions g) \<rparr> else g) }
     | G_NonVotingMembership \<Rightarrow> do {
         i \<leftarrow> ReplicaID t;
         let g = g \<lparr> nonVotingMembershipTransitions := IDSet_Add i (nonVotingMembershipTransitions g) \<rparr>;
         Some (if isDiskGainingTransition t
               then g \<lparr> diskGainingMembershipTransitions := IDSet_Add i (diskGainingMembershipTransitions g) \<rparr> else g) }
     | G_Attachment \<Rightarrow> do {
         i \<leftarrow> ReplicaID t;
         Some (g \<lparr> attachmentTransitions := IDSet_Add i (attachmentTransitions g),
                   potentiallyAttached := IDSet_Add i (potentiallyAttached g) \<rparr>) }
     | G_Emergency \<Rightarrow> do {
         i \<leftarrow> ReplicaID t;
         Some (g \<lparr> emergencyTransitions := IDSet_Add i (emergencyTransitions g) \<rparr>) }
     | G_Other _ \<Rightarrow> Some g)"

definition tracker_Remove :: "Transition \<Rightarrow> globalContext \<Rightarrow> globalContext option" where
  "tracker_Remove t g = (case t_Group t of
       G_Formation \<Rightarrow> Some (g \<lparr> hasFormationTransition := False \<rparr>)
     | G_Quorum \<Rightarrow> Some (g \<lparr> hasQuorumTransition := False \<rparr>)
     | G_Multiattach \<Rightarrow> Some (g \<lparr> hasMultiattachTransition := False \<rparr>)
     | G_Network \<Rightarrow> Some (g \<lparr> hasNetworkTransition := False, changeSystemNetworksTransition := None \<rparr>)
     | G_Resize \<Rightarrow> Some (g \<lparr> hasResizeTransition := False \<rparr>)
     | G_VotingMembership \<Rightarrow> do {
         i \<leftarrow> ReplicaID t;
         let g = g \<lparr> votingMembershipTransitions := IDSet_Remove i (votingMembershipTransitions g) \<rparr>;
         Some (if isDiskGainingTransition t
               then g \<lparr> diskGainingMembershipTransitions := IDSet_Remove i (diskGainingMembershipTransitions g) \<rparr> else g) }
     | G_NonVotingMembership \<Rightarrow> do {
         i \<leftarrow> ReplicaID t;
         let g = g \<lparr> nonVotingMembershipTransitions := IDSet_Remove i (nonVotingMembershipTransitions g) \<rparr>;
         Some (if isDiskGainingTransition t
               then g \<lparr> diskGainingMembershipTransitions := IDSet_Remove i (diskGainingMembershipTransitions g) \<rparr> else g) }
     | G_Attachment \<Rightarrow> do {
         i \<leftarrow> ReplicaID t;
         let g = g \<lparr> attachmentTransitions := IDSet_Remove i (attachmentTransitions g) \<rparr>;
         Some (if t_Type t = TT_Detach
               then g \<lparr> potentiallyAttached := IDSet_Remove i (potentiallyAttached g) \<rparr> else g) }
     | G_Emergency \<Rightarrow> do {
         i \<leftarrow> ReplicaID t;
         Some (g \<lparr> emergencyTransitions := IDSet_Remove i (emergencyTransitions g) \<rparr>) }
     | G_Other _ \<Rightarrow> Some g)"

abbreviation admitOK :: "bool \<times> string \<times> string option" where
  "admitOK \<equiv> (True, [], None)"

text \<open>The switch over the proposed group at the end of \<open>CanAdmit\<close>; \<open>others\<close> are the potentially
  attached replicas without the proposed one.\<close>

definition admitGroup :: "Transition \<Rightarrow> IDSet \<Rightarrow> globalContext \<Rightarrow> bool \<times> string \<times> string option" where
  "admitGroup t others gctx = (case t_Group t of
       G_VotingMembership \<Rightarrow>
         if IDSet_Len (votingMembershipTransitions gctx) > 0 then (False, ''voting membership transition in progress'', None)
         else if hasQuorumTransition gctx then (False, ''quorum change in progress'', None)
         else if hasNetworkTransition gctx then (False, ''network transition in progress'', None)
         else if isDiskGainingTransition t \<and> hasResizeTransition gctx then (False, ''resize in progress'', None)
         else admitOK
     | G_NonVotingMembership \<Rightarrow>
         if isDiskGainingTransition t \<and> hasResizeTransition gctx then (False, ''resize in progress'', None) else admitOK
     | G_Quorum \<Rightarrow>
         if hasQuorumTransition gctx then (False, ''quorum change in progress'', None)
         else if IDSet_Len (votingMembershipTransitions gctx) > 0
         then (False, ''voting membership transition in progress'', None)
         else if hasNetworkTransition gctx then (False, ''network transition in progress'', None)
         else admitOK
     | G_Attachment \<Rightarrow>
         if \<not> IDSet_IsEmpty others \<and> (\<not> multiattach (datamesh gctx) \<or> hasMultiattachTransition gctx)
         then (False, ''waiting for multiattach to be enabled'', Some ''Attaching'') else admitOK
     | G_Multiattach \<Rightarrow>
         if hasMultiattachTransition gctx then (False, ''multiattach transition in progress'', None) else admitOK
     | G_Resize \<Rightarrow>
         if hasResizeTransition gctx then (False, ''resize in progress'', None)
         else if IDSet_Len (diskGainingMembershipTransitions gctx) > 0
         then (False, ''disk-gaining membership transition in progress'', None) else admitOK
     | G_Network \<Rightarrow>
         if hasNetworkTransition gctx then (False, ''network transition in progress'', None) else admitOK
     | _ \<Rightarrow> admitOK)"

definition CanAdmit :: "Transition \<Rightarrow> globalContext \<Rightarrow> (bool \<times> string \<times> string option) option" where
  "CanAdmit t gctx =
     (let isGlobal = (t_ReplicaName t = []);
          isAttachment = (t_Group t = G_Attachment);
          isMembership = (t_Group t = G_VotingMembership \<or> t_Group t = G_NonVotingMembership) in
      if hasFormationTransition gctx \<and> t_Group t \<noteq> G_Network
      then Some (False, ''formation in progress'', if isAttachment then Some ''Pending'' else None)
      else if t_Group t = G_Emergency then Some admitOK
      else if isGlobal then Some (admitGroup t (potentiallyAttached gctx) gctx)
      else do {
        replicaID \<leftarrow> ReplicaID t;
        if isMembership \<and> (IDSet_Contains (votingMembershipTransitions gctx) replicaID
                          \<or> IDSet_Contains (nonVotingMembershipTransitions gctx) replicaID)
        then Some (False, ''membership transition in progress for this replica'', None)
        else if isAttachment \<and> IDSet_Contains (attachmentTransitions gctx) replicaID
        then Some (False, ''attachment transition in progress for this replica'', Some ''Pending'')
        else Some (admitGroup t (IDSet_Difference (potentiallyAttached gctx) (IDSet_Of [replicaID])) gctx) })"

definition concurrencyTracker :: "globalContext Tracker" where
  "concurrencyTracker = \<lparr> trk_Add = tracker_Add, trk_Remove = tracker_Remove, trk_CanAdmit = CanAdmit \<rparr>"

end
