(* ===== verification/Datamesh_Helpers.thy ===== *)
theory Datamesh_Helpers
  imports Datamesh_Tracker
begin

text \<open>
  The callbacks and helpers the plans are built from: the shared confirm callbacks
  (\<open>helpers_confirm.go\<close>), connection verification and the network callbacks
  (\<open>network_helpers.go\<close>), tie-breaker readiness (\<open>tiebreaker_readiness.go\<close>), the counting helpers,
  init and completion callbacks (\<open>membership_helpers.go\<close>), the quorum computations
  (\<open>quorum_helpers.go\<close>) and the apply callbacks (\<open>membership_helpers_apply.go\<close>).

  A nil \<open>rctx\<close> that is dereferenced is the panic \<open>None\<close>.
\<close>

subsection \<open>Loops that stop early\<close>

fun allM :: "('a \<Rightarrow> bool option) \<Rightarrow> 'a list \<Rightarrow> bool option" where
  "allM p [] = Some True"
| "allM p (x # xs) = do { b \<leftarrow> p x; if b then allM p xs else Some False }"

fun exM :: "('a \<Rightarrow> bool option) \<Rightarrow> 'a list \<Rightarrow> bool option" where
  "exM p [] = Some False"
| "exM p (x # xs) = do { b \<leftarrow> p x; if b then Some True else exM p xs }"

text \<open>A loop that collects the IDs that pass a check.\<close>

fun collectM :: "(u8 \<Rightarrow> bool option) \<Rightarrow> u8 list \<Rightarrow> IDSet \<Rightarrow> IDSet option" where
  "collectM p [] s = Some s"
| "collectM p (x # xs) s = do { b \<leftarrow> p x; collectM p xs (if b then IDSet_Add x s else s) }"

subsection \<open>Member sets\<close>

definition memberIs :: "(DatameshMemberType \<Rightarrow> bool) \<Rightarrow> ReplicaContext \<Rightarrow> bool" where
  "memberIs P rc = (case rx_member rc of None \<Rightarrow> False | Some m \<Rightarrow> P (m_Type m))"

definition rvrRevisionGE :: "int \<Rightarrow> ReplicaContext \<Rightarrow> bool" where
  "rvrRevisionGE n rc = (case rx_rvr rc of None \<Rightarrow> False | Some r \<Rightarrow> rvr_DatameshRevision r \<ge> n)"

definition rvrRevisionZero :: "ReplicaContext \<Rightarrow> bool" where
  "rvrRevisionZero rc = (case rx_rvr rc of None \<Rightarrow> False | Some r \<Rightarrow> rvr_DatameshRevision r = 0)"

definition fullMeshMemberIDs :: "globalContext \<Rightarrow> IDSet" where
  "fullMeshMemberIDs gctx = FromWhere rx_id (allReplicas gctx) (memberIs ConnectsToAllPeers)"

definition confirmedReplicas :: "globalContext \<Rightarrow> int \<Rightarrow> IDSet" where
  "confirmedReplicas gctx stepRevision = FromWhere rx_id (allReplicas gctx) (rvrRevisionGE stepRevision)"

definition allMemberIDs :: "globalContext \<Rightarrow> IDSet" where
  "allMemberIDs gctx = FromWhere rx_id (allReplicas gctx) (\<lambda>rc. rx_member rc \<noteq> None)"

subsection \<open>Confirm callbacks\<close>

definition confirmResult :: "IDSet \<Rightarrow> IDSet \<Rightarrow> ConfirmResult" where
  "confirmResult must conf = \<lparr> MustConfirm = must, Confirmed = conf \<rparr>"

definition confirmSubjectOnly :: "(globalContext, rctx) ReplicaConfirmFunc" where
  "confirmSubjectOnly ts gctx rctx stepRevision = do {
     r \<leftarrow> rctx;
     let rc = rcAt gctx r;
     Some (confirmResult (IDSet_Of [rx_id rc])
       (if rvrRevisionGE stepRevision rc then IDSet_Add (rx_id rc) 0 else 0)) }"

definition confirmSubjectOnlyLeaving :: "(globalContext, rctx) ReplicaConfirmFunc" where
  "confirmSubjectOnlyLeaving ts gctx rctx stepRevision = do {
     r \<leftarrow> rctx;
     let rc = rcAt gctx r;
     Some (confirmResult (IDSet_Of [rx_id rc])
       (if rvrRevisionGE stepRevision rc \<or> rvrRevisionZero rc then IDSet_Add (rx_id rc) 0 else 0)) }"

definition confirmSubjectOnlyLeavingOrGone :: "(globalContext, rctx) ReplicaConfirmFunc" where
  "confirmSubjectOnlyLeavingOrGone ts gctx rctx stepRevision = do {
     r \<leftarrow> rctx;
     let rc = rcAt gctx r;
     Some (confirmResult (IDSet_Of [rx_id rc])
       (if rx_rvr rc = None \<or> rvrRevisionZero rc \<or> rvrRevisionGE stepRevision rc
        then IDSet_Add (rx_id rc) 0 else 0)) }"

definition confirmFMPlusSubject :: "(globalContext, rctx) ReplicaConfirmFunc" where
  "confirmFMPlusSubject ts gctx rctx stepRevision = do {
     r \<leftarrow> rctx;
     let rc = rcAt gctx r;
     let mustConfirm = IDSet_Union (fullMeshMemberIDs gctx) (IDSet_Of [rx_id rc]);
     Some (confirmResult mustConfirm (IDSet_Intersect (confirmedReplicas gctx stepRevision) mustConfirm)) }"

definition confirmFMPlusSubjectLeaving :: "(globalContext, rctx) ReplicaConfirmFunc" where
  "confirmFMPlusSubjectLeaving ts gctx rctx stepRevision = do {
     r \<leftarrow> rctx;
     let rc = rcAt gctx r;
     let mustConfirm = IDSet_Union (fullMeshMemberIDs gctx) (IDSet_Of [rx_id rc]);
     let confirmed = IDSet_Intersect (confirmedReplicas gctx stepRevision) mustConfirm;
     Some (confirmResult mustConfirm
       (if rvrRevisionZero rc then IDSet_Add (rx_id rc) confirmed else confirmed)) }"

definition confirmAllMembers :: "globalContext GlobalConfirmFunc" where
  "confirmAllMembers ts gctx stepRevision =
     (let mustConfirm = allMemberIDs gctx
      in Some (confirmResult mustConfirm (IDSet_Intersect (confirmedReplicas gctx stepRevision) mustConfirm)))"

definition confirmAllMembersLeaving :: "(globalContext, rctx) ReplicaConfirmFunc" where
  "confirmAllMembersLeaving ts gctx rctx stepRevision = do {
     r \<leftarrow> rctx;
     let rc = rcAt gctx r;
     let mustConfirm = IDSet_Add (rx_id rc) (allMemberIDs gctx);
     let confirmed = IDSet_Intersect (confirmedReplicas gctx stepRevision) mustConfirm;
     Some (confirmResult mustConfirm
       (if rvrRevisionZero rc then IDSet_Add (rx_id rc) confirmed else confirmed)) }"

definition confirmImmediate :: "(globalContext, rctx) ReplicaConfirmFunc" where
  "confirmImmediate ts gctx rctx stepRevision = Some (confirmResult 0 0)"

subsection \<open>Connection verification\<close>

definition isAgentReady :: "RVR \<Rightarrow> bool" where
  "isAgentReady rvr = (\<not> chk_Eval (chk_ReasonEqual ''AgentNotReady'' (rvr_Condition rvr ''DRBDConfigured'')))"

type_synonym peerCheck = "RVR \<Rightarrow> u8 \<Rightarrow> bool option"

fun peerLookup :: "PeerStatus list \<Rightarrow> u8 \<Rightarrow> PeerStatus option option" where
  "peerLookup [] peerID = Some None"
| "peerLookup (p # ps) peerID = do {
     i \<leftarrow> idFromName (p_Name p);
     if i = peerID then Some (Some p) else peerLookup ps peerID }"

definition peerConnected :: peerCheck where
  "peerConnected rvr peerID = do {
     p \<leftarrow> peerLookup (rvr_Peers rvr) peerID;
     Some (case p of None \<Rightarrow> False | Some p \<Rightarrow> p_ConnectionState p = ConnectionStateConnected) }"

definition peerConnectedOnNetwork :: "string \<Rightarrow> peerCheck" where
  "peerConnectedOnNetwork network rvr peerID = do {
     p \<leftarrow> peerLookup (rvr_Peers rvr) peerID;
     Some (case p of None \<Rightarrow> False | Some p \<Rightarrow> network \<in> set (p_ConnectionEstablishedOn p)) }"

definition expectedPeerIDs :: "DatameshMemberType \<Rightarrow> u8 \<Rightarrow> IDSet \<Rightarrow> IDSet \<Rightarrow> IDSet" where
  "expectedPeerIDs memberType i allMembers fmMembers =
     (if ConnectsToAllPeers memberType then IDSet_Difference allMembers (IDSet_Of [i])
      else IDSet_Difference fmMembers (IDSet_Of [i]))"

definition sideConfirms :: "RVR option \<Rightarrow> u8 \<Rightarrow> int \<Rightarrow> peerCheck \<Rightarrow> bool option" where
  "sideConfirms a bID minRevision check = (case a of
       None \<Rightarrow> Some False
     | Some r \<Rightarrow> if isAgentReady r \<and> rvr_DatameshRevision r \<ge> minRevision then check r bID else Some False)"

definition peerConnectionVerified :: "RVR option \<Rightarrow> RVR option \<Rightarrow> u8 \<Rightarrow> u8 \<Rightarrow> int \<Rightarrow> peerCheck \<Rightarrow> bool option" where
  "peerConnectionVerified a b aID bID minRevision check = do {
     x \<leftarrow> sideConfirms a bID minRevision check;
     if x then Some True else sideConfirms b aID minRevision check }"

definition connectionVerified :: "ReplicaContext \<Rightarrow> ReplicaContext option \<Rightarrow> int \<Rightarrow> peerCheck \<Rightarrow> bool option" where
  "connectionVerified a b minRevision check = (case b of
       None \<Rightarrow> Some False
     | Some b \<Rightarrow> peerConnectionVerified (rx_rvr a) (rx_rvr b) (rx_id a) (rx_id b) minRevision check)"

definition allConnectionsOfMemberVerified :: "globalContext \<Rightarrow> ReplicaContext \<Rightarrow> int \<Rightarrow> IDSet \<Rightarrow> IDSet \<Rightarrow> peerCheck
    \<Rightarrow> bool option" where
  "allConnectionsOfMemberVerified gctx rctx minRevision allMembers fmMembers check = do {
     m \<leftarrow> rx_member rctx;
     allM (\<lambda>peerID. connectionVerified rctx (replicaAt gctx peerID) minRevision check)
       (IDSet_All (expectedPeerIDs (m_Type m) (rx_id rctx) allMembers fmMembers)) }"

definition allMembersHaveFullConnectivity :: "globalContext \<Rightarrow> int \<Rightarrow> IDSet \<Rightarrow> IDSet \<Rightarrow> peerCheck \<Rightarrow> bool option" where
  "allMembersHaveFullConnectivity gctx minRevision allMembers fmMembers check =
     allM (\<lambda>rctx. if rx_member rctx = None then Some True
        else allConnectionsOfMemberVerified gctx rctx minRevision allMembers fmMembers check) (allReplicas gctx)"

subsection \<open>Network callbacks\<close>

definition findAddressByNetwork :: "AddressStatus list \<Rightarrow> string \<Rightarrow> AddressStatus option" where
  "findAddressByNetwork addrs network = find (\<lambda>a. SystemNetworkName a = network) addrs"

definition setSystemNetworks :: "globalContext GlobalInitFunc" where
  "setSystemNetworks ts gctx t = do {
     rsp \<leftarrow> g_rsp gctx;
     Some (t \<lparr> t_FromSystemNetworkNames := systemNetworkNames (datamesh gctx),
               t_ToSystemNetworkNames := GetSystemNetworkNames rsp \<rparr>) }"

definition addedNetworks :: "tstore \<Rightarrow> globalContext \<Rightarrow> string list" where
  "addedNetworks ts gctx = (case changeSystemNetworksTransition gctx of
       None \<Rightarrow> []
     | Some ptr \<Rightarrow> let t = ts ptr in
         filter (\<lambda>net. net \<notin> set (t_FromSystemNetworkNames t)) (t_ToSystemNetworkNames t))"

definition removedNetworks :: "tstore \<Rightarrow> globalContext \<Rightarrow> string list" where
  "removedNetworks ts gctx = (case changeSystemNetworksTransition gctx of
       None \<Rightarrow> []
     | Some ptr \<Rightarrow> let t = ts ptr in
         filter (\<lambda>net. net \<notin> set (t_ToSystemNetworkNames t)) (t_FromSystemNetworkNames t))"

definition targetAddresses :: "AddressStatus list \<Rightarrow> string list \<Rightarrow> AddressStatus list" where
  "targetAddresses rvrAddrs targetNets = List.map_filter (findAddressByNetwork rvrAddrs) targetNets"

text \<open>\<open>addressesEqual\<close> is the equality of the two lists.\<close>

definition repairMemberAddresses :: "AddressStatus list \<Rightarrow> string list \<Rightarrow> DatameshMember \<Rightarrow> bool \<times> DatameshMember" where
  "repairMemberAddresses rvrAddrs targetNets m =
     (let target = targetAddresses rvrAddrs targetNets
      in if m_Addresses m = target then (False, m) else (True, m \<lparr> m_Addresses := target \<rparr>))"

text \<open>A loop over all contexts that changes members in place and or-s the results.\<close>

definition forMembers :: "(ReplicaContext \<Rightarrow> DatameshMember \<Rightarrow> bool \<times> DatameshMember) \<Rightarrow> globalContext
    \<Rightarrow> bool \<times> globalContext" where
  "forMembers f gctx =
     (let step = (\<lambda>rc. case rx_member rc of
            None \<Rightarrow> (False, rc)
          | Some m \<Rightarrow> (let (c, m') = f rc m in (c, rc \<lparr> rx_member := Some m' \<rparr>)))
      in (list_ex (fst \<circ> step) (allReplicas gctx),
          gctx \<lparr> allReplicas := map (snd \<circ> step) (allReplicas gctx) \<rparr>))"

definition repairAddresses :: "globalContext GlobalApplyFunc" where
  "repairAddresses ts gctx = Some (forMembers (\<lambda>rc m. case rx_rvr rc of
       None \<Rightarrow> (False, m)
     | Some rvr \<Rightarrow> repairMemberAddresses (rvr_Addresses rvr) (systemNetworkNames (datamesh gctx)) m) gctx)"

definition setNetworkNames :: "string list \<Rightarrow> globalContext \<Rightarrow> globalContext" where
  "setNetworkNames nets gctx = gctx \<lparr> datamesh := (datamesh gctx) \<lparr> systemNetworkNames := nets \<rparr> \<rparr>"

definition addNewNetworks :: "globalContext GlobalApplyFunc" where
  "addNewNetworks ts gctx =
     (let old = systemNetworkNames (datamesh gctx);
          new = fold (\<lambda>net nets. if net \<in> set nets then nets else nets @ [net]) (addedNetworks ts gctx) old
      in Some (new \<noteq> old, setNetworkNames new gctx))"

definition removeOldNetworksAndAddresses :: "globalContext GlobalApplyFunc" where
  "removeOldNetworksAndAddresses ts gctx =
     (let removed = removedNetworks ts gctx in
      if removed = [] then Some (False, gctx)
      else let old = systemNetworkNames (datamesh gctx);
               kept = filter (\<lambda>net. net \<notin> set removed) old;
               (c, g1) = forMembers (\<lambda>rc m.
                   let as = filter (\<lambda>a. SystemNetworkName a \<notin> set removed) (m_Addresses m)
                   in (length as \<noteq> length (m_Addresses m), m \<lparr> m_Addresses := as \<rparr>))
                 (setNetworkNames kept gctx)
           in Some (length kept \<noteq> length old \<or> c, g1))"

fun updateAddress :: "string \<Rightarrow> DRBDAddress \<Rightarrow> AddressStatus list \<Rightarrow> AddressStatus list" where
  "updateAddress net adr [] = []"
| "updateAddress net adr (a # as) =
     (if SystemNetworkName a = net then a \<lparr> Address := adr \<rparr> # as else a # updateAddress net adr as)"

definition addNewAddress :: "AddressStatus list \<Rightarrow> string \<Rightarrow> bool \<times> AddressStatus list \<Rightarrow> bool \<times> AddressStatus list" where
  "addNewAddress rvrAddrs net st = (case st of (changed, as) \<Rightarrow>
     (case findAddressByNetwork rvrAddrs net of
        None \<Rightarrow> (changed, as)
      | Some ra \<Rightarrow> (case findAddressByNetwork as net of
            Some ma \<Rightarrow> if Address ma \<noteq> Address ra then (True, updateAddress net (Address ra) as) else (changed, as)
          | None \<Rightarrow> (True, as @ [ra]))))"

definition addNewAddresses :: "globalContext GlobalApplyFunc" where
  "addNewAddresses ts gctx =
     (let added = addedNetworks ts gctx in
      if added = [] then Some (False, gctx)
      else Some (forMembers (\<lambda>rc m. case rx_rvr rc of
          None \<Rightarrow> (False, m)
        | Some rvr \<Rightarrow> let (c, as) = fold (addNewAddress (rvr_Addresses rvr)) added (False, m_Addresses m)
                      in (c, m \<lparr> m_Addresses := as \<rparr>)) gctx))"

definition memberNeedsRepair :: "AddressStatus list \<Rightarrow> string list \<Rightarrow> DatameshMember \<Rightarrow> bool" where
  "memberNeedsRepair rvrAddrs targetNets m =
     (let reported = filter (\<lambda>net. findAddressByNetwork rvrAddrs net \<noteq> None) targetNets
      in list_ex (\<lambda>net. case findAddressByNetwork (m_Addresses m) net of
             None \<Rightarrow> True
           | Some ma \<Rightarrow> Address ma \<noteq> Address (the (findAddressByNetwork rvrAddrs net))) reported
         \<or> length (m_Addresses m) \<noteq> length reported)"

definition needsAddressRepair :: "globalContext \<Rightarrow> bool" where
  "needsAddressRepair gctx = list_ex (\<lambda>rc. case (rx_member rc, rx_rvr rc) of
       (Some m, Some rvr) \<Rightarrow> memberNeedsRepair (rvr_Addresses rvr) (systemNetworkNames (datamesh gctx)) m
     | _ \<Rightarrow> False) (allReplicas gctx)"

definition confirmAllConnected :: "globalContext GlobalConfirmFunc" where
  "confirmAllConnected ts gctx stepRevision = do {
     let mustConfirm = allMemberIDs gctx;
     let revisionConfirmed = IDSet_Intersect (confirmedReplicas gctx stepRevision) mustConfirm;
     let fmMembers = fullMeshMemberIDs gctx;
     confirmed \<leftarrow> collectM (\<lambda>i. case replicaAt gctx i of
         None \<Rightarrow> Some False
       | Some rctx \<Rightarrow> if rx_member rctx = None then Some False
           else allConnectionsOfMemberVerified gctx rctx stepRevision mustConfirm fmMembers peerConnected)
       (IDSet_All revisionConfirmed) 0;
     Some (confirmResult mustConfirm confirmed) }"

definition confirmAddedAddressesAvailable :: "globalContext GlobalConfirmFunc" where
  "confirmAddedAddressesAvailable ts gctx stepRevision = do {
     let mustConfirm = allMemberIDs gctx;
     let revisionConfirmed = IDSet_Intersect (confirmedReplicas gctx stepRevision) mustConfirm;
     let added = addedNetworks ts gctx;
     confirmed \<leftarrow> collectM (\<lambda>i. Some (case replicaAt gctx i of
         None \<Rightarrow> False
       | Some rctx \<Rightarrow> (case rx_rvr rctx of
             None \<Rightarrow> False
           | Some rvr \<Rightarrow> list_all (\<lambda>net. findAddressByNetwork (rvr_Addresses rvr) net \<noteq> None) added)))
       (IDSet_All revisionConfirmed) 0;
     Some (confirmResult mustConfirm confirmed) }"

definition confirmAllConnectedOnAddedNetworks :: "globalContext GlobalConfirmFunc" where
  "confirmAllConnectedOnAddedNetworks ts gctx stepRevision = do {
     let mustConfirm = allMemberIDs gctx;
     let revisionConfirmed = IDSet_Intersect (confirmedReplicas gctx stepRevision) mustConfirm;
     let added = addedNetworks ts gctx;
     let fmMembers = fullMeshMemberIDs gctx;
     confirmed \<leftarrow> collectM (\<lambda>i. case replicaAt gctx i of
         None \<Rightarrow> Some False
       | Some rctx \<Rightarrow> if rx_member rctx = None then Some False
           else allM (\<lambda>net. allConnectionsOfMemberVerified gctx rctx stepRevision mustConfirm fmMembers
                  (peerConnectedOnNetwork net)) added)
       (IDSet_All revisionConfirmed) 0;
     Some (confirmResult mustConfirm confirmed) }"

text \<open>The verb \<open>%v\<close> on a slice of strings.\<close>

definition formatStrings :: "string list \<Rightarrow> string" where
  "formatStrings ss = ''['' @ join '' '' ss @ '']''"

definition guardRemainingNetworksConnected :: "globalContext GlobalGuardFunc" where
  "guardRemainingNetworksConnected ts gctx = (case g_rsp gctx of
       None \<Rightarrow> Some (guardBlock ''waiting for ReplicatedStoragePool (needed to verify network connectivity)'', gctx)
     | Some rsp \<Rightarrow>
         let common = filter (\<lambda>net. net \<in> set (systemNetworkNames (datamesh gctx))) (GetSystemNetworkNames rsp) in
         if common = [] then Some (guardBlock ''no common system networks between datamesh and configuration'', gctx)
         else do {
           ok \<leftarrow> exM (\<lambda>net. allMembersHaveFullConnectivity gctx 0 (allMemberIDs gctx) (fullMeshMemberIDs gctx)
                  (peerConnectedOnNetwork net)) common;
           Some (if ok then guardPass
                 else guardBlock (''no remaining network with full connectivity (checked ''
                        @ itoa (int (length common)) @ '' networks)''), gctx) })"

definition outOfSyncMessage :: "string list \<Rightarrow> ReplicaContext \<Rightarrow> string option" where
  "outOfSyncMessage targetNets rc = (case (rx_member rc, rx_rvr rc) of
       (Some m, Some rvr) \<Rightarrow>
         let missing = filter (\<lambda>net. findAddressByNetwork (rvr_Addresses rvr) net = None) targetNets;
             extra = filter (\<lambda>n. n \<notin> set targetNets) (map SystemNetworkName (rvr_Addresses rvr));
             pre = ''replica '' @ rx_name rc @ '': system networks out of sync ('' in
         if rvr_Addresses rvr = [] \<or> missing = [] \<and> extra = [] then None
         else if missing \<noteq> [] \<and> extra \<noteq> []
         then Some (pre @ ''missing: '' @ formatStrings missing @ '', extra: '' @ formatStrings extra @ '')'')
         else if missing \<noteq> [] then Some (pre @ ''missing: '' @ formatStrings missing @ '')'')
         else Some (pre @ ''extra: '' @ formatStrings extra @ '')'')
     | _ \<Rightarrow> None)"

definition guardReplicasMatchTargetNetworks :: "globalContext GlobalGuardFunc" where
  "guardReplicasMatchTargetNetworks ts gctx =
     (let targetNets = systemNetworkNames (datamesh gctx) in
      Some (if targetNets = [] then guardPass
            else case List.map_filter (outOfSyncMessage targetNets) (allReplicas gctx) of
                [] \<Rightarrow> guardPass | msg # _ \<Rightarrow> guardBlock msg, gctx))"

definition guardNodesHaveAddedNetworks :: "globalContext GlobalGuardFunc" where
  "guardNodesHaveAddedNetworks ts gctx = Some (guardPass, gctx)"

definition guardNodeHasAllSystemNetworks :: "(globalContext, rctx) ReplicaGuardFunc" where
  "guardNodeHasAllSystemNetworks ts gctx rctx = Some (guardPass, gctx)"

end
