(* ===== verification/Drbd_Size.thy ===== *)
theory Drbd_Size
  imports Prelude
begin

text \<open>
  The package \<open>images/controller/internal/drbd_size\<close>: DRBD metadata arithmetic on unsigned 64-bit
  sector counts. A \<open>resource.Quantity\<close> enters and leaves through its \<open>int64\<close> value
  (\<open>Value()\<close> and \<open>NewQuantity\<close>), so the functions take and return that 64-bit value; the panic
  of \<open>LowerVolumeSize\<close> is \<open>None\<close>. The lemmas read the wrap-around arithmetic as naturals,
  show that the fixed-point iteration reaches its fixed point long before the limit of ten
  rounds, and that the size it returns holds the requested usable size.
\<close>

unbundle bit_operations_syntax

subsection \<open>Definitions\<close>

definition maxPeers :: u64 where "maxPeers = 7"
definition sectorSize :: u64 where "sectorSize = 512"
definition bmSectPerBit :: u64 where "bmSectPerBit = 8"
definition superblockSectors :: u64 where "superblockSectors = 8"
definition alSizeSectors :: u64 where "alSizeSectors = 64"

definition align :: "u64 \<Rightarrow> u64 \<Rightarrow> u64" where
  "align x a = (x + a - 1) AND NOT (a - 1)"

definition bitmapSectors :: "u64 \<Rightarrow> u64" where
  "bitmapSectors capacitySectors =
     (let nbits = align (align capacitySectors bmSectPerBit div bmSectPerBit) 64
      in align (nbits div 8 * maxPeers) 4096 div sectorSize)"

definition metadataSectors :: "u64 \<Rightarrow> u64" where
  "metadataSectors lowerSectors = bitmapSectors lowerSectors + superblockSectors + alSizeSectors"

definition UsableSize :: "u64 \<Rightarrow> u64" where
  "UsableSize lowerSize =
     (let lowerSectors = lowerSize div sectorSize;
          usableSectors = lowerSectors - metadataSectors lowerSectors
      in usableSectors * sectorSize)"

definition AlignTo4Ki :: "u64 \<Rightarrow> u64" where
  "AlignTo4Ki bytes = align bytes 4096"

text \<open>The loop of \<open>LowerVolumeSize\<close>: at most \<open>n\<close> more rounds, then the panic.\<close>

fun LowerVolumeSize_loop :: "nat \<Rightarrow> u64 \<Rightarrow> u64 \<Rightarrow> u64 option" where
  "LowerVolumeSize_loop 0 usableSectors lowerSectors = None"
| "LowerVolumeSize_loop (Suc n) usableSectors lowerSectors =
     (let required = align (usableSectors + metadataSectors lowerSectors) 8
      in if required \<le> lowerSectors then Some (required * sectorSize)
         else LowerVolumeSize_loop n usableSectors required)"

definition LowerVolumeSize :: "u64 \<Rightarrow> u64 option" where
  "LowerVolumeSize usableSize =
     (let usableSectors = usableSize div sectorSize
      in LowerVolumeSize_loop 10 usableSectors usableSectors)"

subsection \<open>The arithmetic as naturals\<close>

definition up :: "nat \<Rightarrow> nat \<Rightarrow> nat" where
  "up a x = (x + a - 1) div a * a"

lemma unat_pow2: "n < 64 \<Longrightarrow> unat (2 ^ n :: u64) = 2 ^ n"
proof -
  assume "n < 64"
  then have "(2 :: nat) ^ n < 2 ^ 64" by (intro power_strict_increasing) simp_all
  moreover have "(2 ^ n :: u64) = of_nat (2 ^ n)" by simp
  ultimately show ?thesis by (simp only: unat_of_nat) simp
qed

lemma unat_take_bit: "unat (take_bit n x :: u64) = unat x mod 2 ^ n"
  by (metis unsigned_take_bit_eq take_bit_eq_mod)

lemma and_not_mask_unat:
  "unat ((x :: u64) AND NOT (mask n)) = unat x div 2 ^ n * 2 ^ n"
proof -
  have "x AND NOT (mask n) = push_bit n (drop_bit n x)"
    by (rule bit_eqI) (auto simp: bit_and_iff bit_not_iff bit_mask_iff bit_push_bit_iff bit_drop_bit_eq
        dest: bit_imp_le_length)
  then have eq: "x = (x AND NOT (mask n)) + take_bit n x"
    using bits_ident [of n x] by simp
  have "take_bit n x \<le> x"
    by (simp add: word_le_nat_alt unat_take_bit del: unsigned_take_bit_eq)
  then have "unat (x - take_bit n x) = unat x - unat x mod 2 ^ n"
    by (simp only: unat_sub unat_take_bit)
  moreover have "x AND NOT (mask n) = x - take_bit n x"
    using eq by (metis add_diff_cancel_right')
  ultimately show ?thesis by (simp only: minus_mod_eq_div_mult)
qed

lemma unat_align_pow2:
  assumes "unat x + 2 ^ n \<le> 2 ^ 64" and "n < 64"
  shows "unat (align x (2 ^ n)) = up (2 ^ n) (unat x)"
proof -
  have ne: "(2 ^ n :: u64) \<noteq> 0"
    using unat_pow2 [OF assms(2)] by (metis unat_0 power_not_zero zero_neq_numeral)
  have m: "unat (2 ^ n - 1 :: u64) = 2 ^ n - 1"
    unfolding unat_minus_one [OF ne] unat_pow2 [OF assms(2)] ..
  have "(1 :: nat) \<le> 2 ^ n" by simp
  then have "unat x + (2 ^ n - 1) < 2 ^ 64" using assms(1) by linarith
  then have "unat (x + (2 ^ n - 1)) = unat x + (2 ^ n - 1)"
    unfolding unat_word_ariths(1) m by simp
  then have "unat (x + 2 ^ n - 1) = unat x + 2 ^ n - 1"
    by (simp add: algebra_simps)
  then show ?thesis
    unfolding align_def up_def
    using and_not_mask_unat [of "x + 2 ^ n - 1" n] by (simp add: mask_eq_decr_exp)
qed

text \<open>The three alignments of the source.\<close>

lemma unat_align_8: "unat x < 2 ^ 62 \<Longrightarrow> unat (align x 8) = up 8 (unat x)"
  using unat_align_pow2 [of x 3] by simp

lemma unat_align_64: "unat x < 2 ^ 62 \<Longrightarrow> unat (align x 64) = up 64 (unat x)"
  using unat_align_pow2 [of x 6] by simp

lemma unat_align_4096: "unat x \<le> 2 ^ 63 \<Longrightarrow> unat (align x 4096) = up 4096 (unat x)"
  using unat_align_pow2 [of x 12] by simp

lemma up_ge: "0 < a \<Longrightarrow> x \<le> up a x"
  unfolding up_def using div_mult_mod_eq [of "x + a - 1" a] mod_less_divisor [of a "x + a - 1"]
  by linarith

lemma up_less: "0 < a \<Longrightarrow> up a x < x + a"
  unfolding up_def using div_mult_mod_eq [of "x + a - 1" a] by linarith

lemma up_dvd [simp]: "a dvd up a x"
  by (simp add: up_def)

lemma up_least: "0 < a \<Longrightarrow> a dvd y \<Longrightarrow> x \<le> y \<Longrightarrow> up a x \<le> y"
proof -
  assume a: "0 < a" "a dvd y" "x \<le> y"
  then obtain k where k: "y = a * k" by (auto elim: dvdE)
  have "(x + a - 1) div a < k + 1"
    by (rule less_mult_imp_div_less) (use a k in \<open>simp add: algebra_simps\<close>)
  then show ?thesis using k by (simp add: up_def mult.commute)
qed

text \<open>Metadata sectors in closed form.\<close>

definition meta :: "nat \<Rightarrow> nat" where
  "meta l = 72 + 8 * ((56 * ((l + 511) div 512) + 4095) div 4096)"

lemma unat_metadataSectors:
  assumes "unat l < 2 ^ 60"
  shows "unat (metadataSectors l) = meta (unat l)"
proof -
  let ?c = "(unat l + 511) div 512"
  have a1: "unat (align l 8 div 8) = (unat l + 7) div 8"
    using assms by (simp add: unat_div unat_align_8 up_def)
  then have "unat (align l 8 div 8) < 2 ^ 62" using assms by simp
  then have a2: "unat (align (align l 8 div 8) 64) = (((unat l + 7) div 8 + 63) div 64) * 64"
    by (simp add: unat_align_64 up_def a1)
  moreover have "((unat l + 7) div 8 + 63) div 64 = ?c"
    by (simp add: div_mult2_eq [symmetric, of _ 8 64, simplified])
  ultimately have a3: "unat (align (align l 8 div 8) 64) = 64 * ?c" by simp
  have c: "?c < 2 ^ 52" using assms by simp
  have a4: "unat (align (align l 8 div 8) 64 div 8 * 7) = 56 * ?c"
    using c by (subst unat_word_ariths(2)) (simp add: unat_div a3)
  have a5: "unat (align (align (align l 8 div 8) 64 div 8 * 7) 4096) = (56 * ?c + 4095) div 4096 * 4096"
    using c by (subst unat_align_4096) (simp_all add: a4 up_def)
  have a6: "unat (bitmapSectors l) = 8 * ((56 * ?c + 4095) div 4096)"
    unfolding bitmapSectors_def bmSectPerBit_def maxPeers_def sectorSize_def Let_def
    by (simp add: unat_div a5)
  have "8 * ((56 * ?c + 4095) div 4096) + 72 < 2 ^ 64" using c by simp
  then show ?thesis
    unfolding metadataSectors_def superblockSectors_def alSizeSectors_def meta_def
    by (simp add: unat_word_ariths a6)
qed

lemma meta_mono: "l \<le> l' \<Longrightarrow> meta l \<le> meta l'"
  unfolding meta_def by (intro add_mono mult_le_mono div_le_mono) auto

lemma meta_8: "8 dvd meta l"
  by (simp add: meta_def)

lemma meta_step: "meta (l + d) \<le> meta l + 8 * (56 * (d div 512 + 1) div 4096 + 1)"
proof -
  have "(l + d + 511) div 512 \<le> (l + 511) div 512 + (d div 512 + 1)" by linarith
  then have "(56 * ((l + d + 511) div 512) + 4095) div 4096
      \<le> (56 * ((l + 511) div 512) + 4095 + 56 * (d div 512 + 1)) div 4096"
    by (intro div_le_mono) simp
  also have "\<dots> \<le> (56 * ((l + 511) div 512) + 4095) div 4096 + (56 * (d div 512 + 1) div 4096 + 1)"
    by linarith
  finally show ?thesis unfolding meta_def by simp
qed

subsection \<open>The fixed-point iteration\<close>

text \<open>One round over naturals; the metadata size is a multiple of 8, so aligning the sum aligns
  the usable size only.\<close>

definition required_nat :: "nat \<Rightarrow> nat \<Rightarrow> nat" where
  "required_nat u l = up 8 u + meta l"

lemma up_add_dvd: "8 dvd m \<Longrightarrow> up 8 (u + m) = up 8 u + m"
proof (elim dvdE)
  fix k assume m: "m = 8 * k"
  have "u + m + 8 - 1 = (u + 8 - 1) + k * 8" using m by simp
  then have "(u + m + 8 - 1) div 8 = (u + 8 - 1) div 8 + k" by simp
  then show ?thesis by (simp only: up_def m) simp
qed

lemma meta_bound: "l < 2 ^ 59 \<Longrightarrow> meta l < 2 ^ 53"
  by (simp add: meta_def)

lemma unat_required:
  assumes "unat u \<le> 2 ^ 53" and "unat l < 2 ^ 59"
  shows "unat (align (u + metadataSectors l) 8) = required_nat (unat u) (unat l)"
proof -
  have m: "unat (metadataSectors l) = meta (unat l)" and b: "meta (unat l) < 2 ^ 53"
    using assms(2) unat_metadataSectors [of l] meta_bound by simp_all
  then have s: "unat (u + metadataSectors l) = unat u + meta (unat l)"
    using assms(1) by (simp add: unat_word_ariths)
  then have "unat (u + metadataSectors l) < 2 ^ 62" using assms(1) b by simp
  then show ?thesis
    by (simp add: unat_align_8 s up_add_dvd meta_8 required_nat_def)
qed

lemma required_bound:
  assumes "u \<le> 2 ^ 53" and "l < 2 ^ 59"
  shows "required_nat u l < 2 ^ 59"
  using meta_bound [OF assms(2)] up_less [of 8 u] assms(1) by (simp add: required_nat_def)

lemma required_mono: "l \<le> l' \<Longrightarrow> required_nat u l \<le> required_nat u l'"
  by (simp add: required_nat_def meta_mono)

text \<open>The iterates, and how fast their differences shrink: each round multiplies the difference
  by roughly 7/4096; below 512 sectors at most one 4 KiB bitmap block can still be added.\<close>

definition iter :: "nat \<Rightarrow> nat \<Rightarrow> nat" where
  "iter u k = (required_nat u ^^ k) u"

lemma iter_0 [simp]: "iter u 0 = u"
  by (simp add: iter_def)

lemma iter_Suc: "iter u (Suc k) = required_nat u (iter u k)"
  by (simp add: iter_def)

lemma iter_mono: "iter u k \<le> iter u (Suc k)"
proof (induction k)
  case 0
  show ?case using up_ge [of 8 u] by (simp add: iter_Suc required_nat_def)
next
  case (Suc k)
  then show ?case by (simp add: iter_Suc required_mono)
qed

definition gap :: "nat \<Rightarrow> nat \<Rightarrow> nat" where
  "gap u k = iter u (Suc k) - iter u k"

lemma gap_Suc: "gap u (Suc k) = meta (iter u (Suc k)) - meta (iter u k)"
  by (simp add: gap_def [of u "Suc k"] iter_Suc required_nat_def)

lemma iter_gap: "iter u (Suc k) = iter u k + gap u k"
  using iter_mono [of u k] by (simp add: gap_def)

lemma gap_step: "gap u k \<le> d \<Longrightarrow> gap u (Suc k) \<le> 8 * (56 * (d div 512 + 1) div 4096 + 1)"
proof -
  assume d: "gap u k \<le> d"
  have "meta (iter u (Suc k)) \<le> meta (iter u k + d)"
    by (rule meta_mono) (simp add: iter_gap d)
  also have "\<dots> \<le> meta (iter u k) + 8 * (56 * (d div 512 + 1) div 4096 + 1)" by (rule meta_step)
  finally show ?thesis unfolding gap_Suc by simp
qed

lemma meta_same_block: "(l + 511) div 512 = (l' + 511) div 512 \<Longrightarrow> meta l = meta l'"
  by (simp add: meta_def)

lemma gap_zero: "u \<le> 2 ^ 53 \<Longrightarrow> gap u 6 = 0"
proof -
  assume u: "u \<le> 2 ^ 53"
  have "meta u \<le> meta (2 ^ 53)" by (rule meta_mono) (rule u)
  then have g0: "gap u 0 \<le> 1924145348688"
    using up_less [of 8 u] by (simp add: gap_def iter_Suc required_nat_def meta_def)
  have g1: "gap u 1 \<le> 411041800" using gap_step [OF g0] by simp
  have g2: "gap u 2 \<le> 87816" using gap_step [OF g1] by (simp add: numeral_2_eq_2)
  have g3: "gap u 3 \<le> 24" using gap_step [OF g2] by simp
  have g4: "gap u 4 \<le> 8" using gap_step [OF g3] by simp
  have g5: "gap u 5 \<le> 8" using gap_step [OF g4] by simp
  let ?b = "\<lambda>k. (iter u k + 511) div 512"
  have s5: "iter u 5 = iter u 4 + gap u 4" and s6: "iter u 6 = iter u 5 + gap u 5"
    using iter_gap [of u 4] iter_gap [of u 5] by simp_all
  have z5: "gap u 5 = 0" if "?b 5 = ?b 4"
    using gap_Suc [of u 4] meta_same_block [OF that] by simp
  have z6: "gap u 6 = 0" if "?b 6 = ?b 5"
    using gap_Suc [of u 5] meta_same_block [OF that] by simp
  show ?thesis
  proof (cases "?b 5 = ?b 4")
    case True
    then show ?thesis using z5 z6 s6 by simp
  next
    case False
    then have "?b 6 = ?b 5" using s5 s6 g4 g5 by linarith
    then show ?thesis by (rule z6)
  qed
qed

text \<open>The loop follows the iterates and stops at the first one that is large enough.\<close>

lemma loop_finds:
  assumes u: "unat u \<le> 2 ^ 53"
    and "unat l = iter (unat u) k" and "unat l < 2 ^ 59"
    and "gap (unat u) (k + j) = 0" and "j < n"
  shows "\<exists>i m. LowerVolumeSize_loop n u l = Some (m * sectorSize) \<and> unat m = iter (unat u) i
    \<and> unat m < 2 ^ 59 \<and> required_nat (unat u) (unat m) = unat m"
  using assms(2-)
proof (induction n arbitrary: l k j)
  case 0
  then show ?case by simp
next
  case (Suc n)
  let ?r = "align (u + metadataSectors l) 8"
  have r: "unat ?r = iter (unat u) (Suc k)"
    using unat_required [OF u Suc.prems(2)] Suc.prems(1) by (simp add: iter_Suc)
  have rb: "unat ?r < 2 ^ 59"
    using required_bound [OF u Suc.prems(2)] unat_required [OF u Suc.prems(2)] by simp
  show ?case
  proof (cases "?r \<le> l")
    case True
    then have "unat ?r = unat l"
      using r Suc.prems(1) iter_mono [of "unat u" k] by (simp add: word_le_nat_alt)
    then have "required_nat (unat u) (unat ?r) = unat ?r"
      using r Suc.prems(1) by (simp add: iter_Suc)
    then show ?thesis using True r rb
      by (intro exI [of _ "Suc k"] exI [of _ ?r]) (simp add: Let_def)
  next
    case False
    then have "j \<noteq> 0"
      using r Suc.prems(1,3) iter_gap [of "unat u" k] by (cases j) (auto simp: word_le_nat_alt)
    then obtain j' where j: "j = Suc j'" by (cases j) simp_all
    show ?thesis
      using Suc.IH [OF r rb, of j'] Suc.prems(3,4) False by (simp add: j Let_def)
  qed
qed

lemma iter_least:
  assumes "required_nat u l \<le> l"
  shows "iter u k \<le> l"
proof (induction k)
  case 0
  show ?case using assms up_ge [of 8 u] by (simp add: required_nat_def)
next
  case (Suc k)
  then show ?case using required_mono [OF Suc, of u] assms by (simp add: iter_Suc)
qed

lemma unat_sectors_to_bytes: "unat m < 2 ^ 54 \<Longrightarrow> unat (m * sectorSize) = 512 * unat m"
  by (simp add: sectorSize_def unat_word_ariths)

lemma fixpoint_bound:
  assumes "required_nat u m = m" and "m < 2 ^ 59" and "u \<le> 2 ^ 53"
  shows "m < 2 ^ 54"
  using assms(1,3) meta_bound [OF assms(2)] up_less [of 8 u] assms(2)
  by (simp add: required_nat_def meta_def)

lemma LowerVolumeSize_fixpoint:
  assumes "unat v \<le> 2 ^ 62"
  shows "\<exists>i m. LowerVolumeSize v = Some (m * sectorSize) \<and> unat m = iter (unat v div 512) i
    \<and> unat m < 2 ^ 54 \<and> required_nat (unat v div 512) (unat m) = unat m"
proof -
  let ?u = "v div sectorSize"
  have u: "unat ?u = unat v div 512" by (simp add: sectorSize_def unat_div)
  have b: "unat ?u \<le> 2 ^ 53" using assms by (simp add: u)
  have "\<exists>i m. LowerVolumeSize_loop 10 ?u ?u = Some (m * sectorSize) \<and> unat m = iter (unat ?u) i
    \<and> unat m < 2 ^ 59 \<and> required_nat (unat ?u) (unat m) = unat m"
    using b by (intro loop_finds [where k = 0 and j = 6]) (simp_all add: gap_zero)
  then show ?thesis
    using fixpoint_bound b unfolding u LowerVolumeSize_def Let_def by blast
qed

lemma unat_UsableSize:
  assumes "unat m < 2 ^ 54" and "meta (unat m) \<le> unat m"
  shows "unat (UsableSize (m * sectorSize)) = 512 * (unat m - meta (unat m))"
proof -
  have d: "m * sectorSize div sectorSize = m"
    using assms(1) unat_sectors_to_bytes [OF assms(1)]
    by (intro word_unat_eq_iff [THEN iffD2]) (simp add: unat_div sectorSize_def)
  have md: "unat (metadataSectors m) = meta (unat m)"
    using assms(1) by (intro unat_metadataSectors) simp
  have "unat (m - metadataSectors m) = unat m - meta (unat m)"
    using assms(2) md by (simp add: unat_sub word_le_nat_alt)
  moreover have "unat (m - metadataSectors m) < 2 ^ 54" using calculation assms(1) by simp
  ultimately show ?thesis
    by (simp add: UsableSize_def d unat_sectors_to_bytes)
qed

lemma align_sectors_bytes:
  assumes "unat v \<le> 2 ^ 62"
  shows "unat (AlignTo4Ki (v div 512 * 512)) = 512 * up 8 (unat v div 512)"
proof -
  have "unat v div 512 * 512 \<le> 2 ^ 62" using assms div_times_less_eq_dividend order_trans by blast
  then have "unat (v div 512 * 512) = unat v div 512 * 512"
    by (simp add: unat_word_ariths unat_div)
  moreover have "up 4096 (x * 512) = 512 * up 8 x" for x
  proof -
    have "(x * 512 + 4095) div 4096 = (x + 7) div 8" by linarith
    then show ?thesis by (simp add: up_def)
  qed
  ultimately show ?thesis
    using \<open>unat v div 512 * 512 \<le> 2 ^ 62\<close> by (simp add: AlignTo4Ki_def unat_align_4096)
qed

subsection \<open>Properties\<close>

text \<open>C32: \<open>LowerVolumeSize\<close> never reaches its panic: for every usable size up to 4 EiB the iteration
  converges within its ten rounds. The size it returns is a multiple of 4 KiB, holds exactly the
  requested size (in whole sectors, rounded up to 4 KiB) once DRBD's metadata is subtracted, and
  is the smallest number of sectors that satisfies the inequality of the source's comment.\<close>

theorem LowerVolumeSize_correct:
  assumes "unat v \<le> 2 ^ 62"
  shows "\<exists>r. LowerVolumeSize v = Some r
     \<and> 4096 dvd unat r
     \<and> UsableSize r = AlignTo4Ki (v div 512 * 512)
     \<and> (\<forall>l. align (v div 512 + metadataSectors l) 8 \<le> l \<longrightarrow> r div 512 \<le> l)"
proof -
  let ?u = "unat v div 512"
  obtain i m where m: "LowerVolumeSize v = Some (m * sectorSize)" "unat m = iter ?u i"
    "unat m < 2 ^ 54" "required_nat ?u (unat m) = unat m"
    using LowerVolumeSize_fixpoint [OF assms] by blast
  have ub: "unat (v div 512) = ?u" "?u \<le> 2 ^ 53" using assms by (simp_all add: unat_div)
  have r: "unat (m * sectorSize) = 512 * unat m" using m(3) by (rule unat_sectors_to_bytes)
  have "8 dvd unat m"
    using m(4) by (metis required_nat_def up_dvd meta_8 dvd_add)
  then have a: "4096 dvd unat (m * sectorSize)" unfolding r by (auto elim!: dvdE)
  have le: "meta (unat m) \<le> unat m" "unat m - meta (unat m) = up 8 ?u"
    using m(4) by (simp_all add: required_nat_def)
  have "unat (UsableSize (m * sectorSize)) = unat (AlignTo4Ki (v div 512 * 512))"
    unfolding unat_UsableSize [OF m(3) le(1)] align_sectors_bytes [OF assms] le(2) ..
  then have b: "UsableSize (m * sectorSize) = AlignTo4Ki (v div 512 * 512)"
    by (simp add: word_unat_eq_iff)
  have c: "m * sectorSize div 512 \<le> l" if l: "align (v div 512 + metadataSectors l) 8 \<le> l" for l
  proof (cases "unat l < 2 ^ 59")
    case True
    then have "required_nat ?u (unat l) \<le> unat l"
      using l unat_required [of "v div 512" l] ub by (simp add: word_le_nat_alt)
    then have "unat m \<le> unat l" using iter_least m(2) by simp
    then show ?thesis by (simp add: word_le_nat_alt unat_div r)
  next
    case False
    then show ?thesis using m(3) by (simp add: word_le_nat_alt unat_div r)
  qed
  show ?thesis using m(1) a b c by blast
qed

theorem LowerVolumeSize_correct_witness:
  "\<exists>r. LowerVolumeSize 10737418240 = Some r \<and> 4096 dvd unat r \<and> UsableSize r = 10737418240"
proof -
  have "unat (10737418240 :: u64) \<le> 2 ^ 62" by simp
  from LowerVolumeSize_correct [OF this]
  have "\<exists>r. LowerVolumeSize 10737418240 = Some r \<and> 4096 dvd unat r
      \<and> UsableSize r = AlignTo4Ki (10737418240 div 512 * 512)" by blast
  moreover have "AlignTo4Ki (10737418240 div 512 * 512) = 10737418240"
    by (simp add: AlignTo4Ki_def align_def)
  ultimately show ?thesis by simp
qed

text \<open>\<open>AlignTo4Ki\<close> returns the least multiple of 4096 that is not below its argument, for every
  size that \<open>int64\<close> can hold.\<close>

theorem AlignTo4Ki_least:
  assumes "unat x < 2 ^ 63"
  shows "4096 dvd unat (AlignTo4Ki x) \<and> x \<le> AlignTo4Ki x
     \<and> (\<forall>y. 4096 dvd unat y \<longrightarrow> x \<le> y \<longrightarrow> AlignTo4Ki x \<le> y)"
proof -
  have "unat (AlignTo4Ki x) = up 4096 (unat x)"
    using assms by (simp add: AlignTo4Ki_def unat_align_4096)
  then show ?thesis
    using up_ge [of 4096 "unat x"] up_least [of 4096 _ "unat x"]
    by (simp add: word_le_nat_alt)
qed

theorem AlignTo4Ki_least_witness:
  "4096 dvd unat (AlignTo4Ki 5000) \<and> 5000 \<le> AlignTo4Ki 5000 \<and> AlignTo4Ki 5000 = 8192"
  using AlignTo4Ki_least [of 5000] by (simp add: AlignTo4Ki_def align_def)

end
