(* ===== verification/Datamesh_Callbacks.thy ===== *)
theory Datamesh_Callbacks
  imports Datamesh_Helpers Drbd_Size
begin

text \<open>
  Tie-breaker readiness (\<open>tiebreaker_readiness.go\<close>), counting helpers, step constructors, init and
  completion callbacks (\<open>membership_helpers.go\<close>), quorum computations (\<open>quorum_helpers.go\<close>) and the
  apply callbacks (\<open>membership_helpers_apply.go\<close>, \<open>resize_plans.go\<close>).
\<close>

subsection \<open>Tie-breaker readiness\<close>

record TieBreakerPeer =
  tp_ID :: u8
  tp_Name :: string
  tp_RVR :: "RVR option"

definition peerDisplayName :: "TieBreakerPeer \<Rightarrow> string" where
  "peerDisplayName p = (if tp_Name p \<noteq> [] then tp_Name p else ''replica '' @ itoa (int (unat (tp_ID p))))"

fun firstUnconfirmedPeer :: "RVR \<Rightarrow> u8 \<Rightarrow> int \<Rightarrow> TieBreakerPeer list \<Rightarrow> TieBreakerPeer option option" where
  "firstUnconfirmedPeer tb tbID rev' [] = Some None"
| "firstUnconfirmedPeer tb tbID rev' (peer # peers) =
     (if tp_ID peer = tbID then firstUnconfirmedPeer tb tbID rev' peers
      else do {
        ok \<leftarrow> peerConnectionVerified (Some tb) (tp_RVR peer) tbID (tp_ID peer) rev' peerConnected;
        if ok then firstUnconfirmedPeer tb tbID rev' peers else Some (Some peer) })"

text \<open>\<open>tb.ID()\<close> is evaluated for every peer: with no peer the name is not looked at.\<close>

definition IsTieBreakerOperational :: "RVR option \<Rightarrow> TieBreakerPeer list \<Rightarrow> int \<Rightarrow> (bool \<times> string) option" where
  "IsTieBreakerOperational tb peers rev' = (case tb of
       None \<Rightarrow> Some (False, ''replica object is gone'')
     | Some tb \<Rightarrow>
         if rvr_Deleting tb then Some (False, ''replica is terminating'')
         else if rvr_DatameshRevision tb < rev'
         then Some (False, ''datamesh revision '' @ itoa (rvr_DatameshRevision tb) @ '' applied, want '' @ itoa rev')
         else if \<not> chk_Eval (chk_ObservedGenerationCurrent (chk_IsTrue (rvr_Condition tb ''DRBDConfigured'')))
         then Some (False, ''DRBD is not configured'')
         else if peers = [] then Some (True, [])
         else do {
           tbID \<leftarrow> idFromName (rvr_Name tb);
           bad \<leftarrow> firstUnconfirmedPeer tb tbID rev' peers;
           Some (case bad of
               None \<Rightarrow> (True, [])
             | Some peer \<Rightarrow> (False, ''connection to '' @ peerDisplayName peer @ '' is not confirmed'')) })"

definition isTieBreakerOperational :: "globalContext \<Rightarrow> ReplicaContext \<Rightarrow> (bool \<times> string) option" where
  "isTieBreakerOperational gctx rctx = do {
     m \<leftarrow> rx_member rctx;
     let expected = expectedPeerIDs (m_Type m) (rx_id rctx) (allMemberIDs gctx) (fullMeshMemberIDs gctx);
     let peers = map (\<lambda>peerID. case replicaAt gctx peerID of
           None \<Rightarrow> \<lparr> tp_ID = peerID, tp_Name = [], tp_RVR = None \<rparr>
         | Some rc \<Rightarrow> \<lparr> tp_ID = peerID, tp_Name = rx_name rc, tp_RVR = rx_rvr rc \<rparr>) (IDSet_All expected);
     IsTieBreakerOperational (rx_rvr rctx) peers (datameshRevision gctx) }"

fun operationalLoop :: "globalContext \<Rightarrow> u8 \<Rightarrow> ReplicaContext list \<Rightarrow> u8 \<Rightarrow> string list \<Rightarrow> (u8 \<times> string list) option" where
  "operationalLoop gctx excludeID [] count diagnostics = Some (count, diagnostics)"
| "operationalLoop gctx excludeID (rc # rcs) count diagnostics =
     (if \<not> memberIs (\<lambda>t. t = MT_TieBreaker) rc \<or> rx_id rc = excludeID
      then operationalLoop gctx excludeID rcs count diagnostics
      else do {
        (ok, why) \<leftarrow> isTieBreakerOperational gctx rc;
        if ok then operationalLoop gctx excludeID rcs (count + 1) diagnostics
        else operationalLoop gctx excludeID rcs count (diagnostics @ [rx_name rc @ '': '' @ why]) })"

definition operationalTieBreakerCount :: "globalContext \<Rightarrow> u8 \<Rightarrow> (u8 \<times> string list) option" where
  "operationalTieBreakerCount gctx excludeID = do {
     (count, diagnostics) \<leftarrow> operationalLoop gctx excludeID (allReplicas gctx) 0 [];
     Some (count, sort diagnostics) }"

subsection \<open>Counting\<close>

definition countWhere :: "(ReplicaContext \<Rightarrow> bool) \<Rightarrow> globalContext \<Rightarrow> u8" where
  "countWhere P gctx = of_nat (countp P (allReplicas gctx))"

definition voterCount :: "globalContext \<Rightarrow> u8" where
  "voterCount gctx = countWhere (memberIs IsVoter) gctx"

definition isUpToDateDiskful :: "ReplicaContext \<Rightarrow> bool" where
  "isUpToDateDiskful rc = (memberIs IsVoter rc \<and> memberIs HasBackingVolume rc \<and>
     (case rx_rvr rc of None \<Rightarrow> False
      | Some rvr \<Rightarrow> (case rvr_BackingVolume rvr of None \<Rightarrow> False | Some bv \<Rightarrow> bv_State bv = DiskStateUpToDate)))"

definition upToDateDiskfulCount :: "globalContext \<Rightarrow> u8" where
  "upToDateDiskfulCount gctx = countWhere isUpToDateDiskful gctx"

definition tbCount :: "globalContext \<Rightarrow> u8" where
  "tbCount gctx = countWhere (memberIs (\<lambda>t. t = MT_TieBreaker)) gctx"

definition computeTargetQ :: "u8 \<Rightarrow> u8" where
  "computeTargetQ voters = voters div 2 + 1"

type_synonym zoneCount = "string \<times> u8"

definition findZoneCount :: "zoneCount list \<Rightarrow> string \<Rightarrow> u8" where
  "findZoneCount zones zone = (case find (\<lambda>zc. fst zc = zone) zones of None \<Rightarrow> 0 | Some zc \<Rightarrow> snd zc)"

fun bumpZone :: "string \<Rightarrow> zoneCount list \<Rightarrow> zoneCount list" where
  "bumpZone zone [] = [(zone, 1)]"
| "bumpZone zone (zc # zcs) = (if fst zc = zone then (fst zc, snd zc + 1) # zcs else zc # bumpZone zone zcs)"

text \<open>\<open>include\<close> holds only of contexts with a member, whose zone is read.\<close>

definition zoneOfMember :: "ReplicaContext \<Rightarrow> string" where
  "zoneOfMember rc = (case rx_member rc of None \<Rightarrow> [] | Some m \<Rightarrow> m_Zone m)"

definition countPerZone :: "globalContext \<Rightarrow> (ReplicaContext \<Rightarrow> bool) \<Rightarrow> zoneCount list" where
  "countPerZone gctx incl =
     sort_key fst (fold (\<lambda>rc zcs. if incl rc then bumpZone (zoneOfMember rc) zcs else zcs) (allReplicas gctx) [])"

definition voterCountPerZone :: "globalContext \<Rightarrow> zoneCount list" where
  "voterCountPerZone gctx = countPerZone gctx (memberIs IsVoter)"

definition upToDateDiskfulCountPerZone :: "globalContext \<Rightarrow> zoneCount list" where
  "upToDateDiskfulCountPerZone gctx = countPerZone gctx isUpToDateDiskful"

definition tbCountPerZone :: "globalContext \<Rightarrow> zoneCount list" where
  "tbCountPerZone gctx = countPerZone gctx (memberIs (\<lambda>t. t = MT_TieBreaker))"

subsection \<open>Init and completion callbacks\<close>

definition setReplicaType :: "ReplicaType \<Rightarrow> (globalContext, rctx) ReplicaInitFunc" where
  "setReplicaType rt ts gctx rctx t = Some (t \<lparr> t_ReplicaType := rt \<rparr>)"

definition setReplicaFromToType :: "ReplicaType \<Rightarrow> ReplicaType \<Rightarrow> (globalContext, rctx) ReplicaInitFunc" where
  "setReplicaFromToType fromType toType ts gctx rctx t =
     Some (t \<lparr> t_FromReplicaType := fromType, t_ToReplicaType := toType \<rparr>)"

definition setMembershipMessage :: "string \<Rightarrow> rctx \<Rightarrow> globalContext \<Rightarrow> globalContext" where
  "setMembershipMessage msg r gctx = updRC r (\<lambda>rc. rc \<lparr> rx_membershipMessage := msg \<rparr>) gctx"

definition onJoinComplete :: "(globalContext, rctx) ReplicaOnCompleteFunc" where
  "onJoinComplete ts gctx rctx = do {
     r \<leftarrow> rctx; Some (setMembershipMessage ''Joined datamesh successfully'' r gctx) }"

definition onLeaveComplete :: "(globalContext, rctx) ReplicaOnCompleteFunc" where
  "onLeaveComplete ts gctx rctx = Some (case rctx of
       None \<Rightarrow> gctx | Some r \<Rightarrow> setMembershipMessage ''Left datamesh successfully'' r gctx)"

definition onForceRemoveComplete :: "(globalContext, rctx) ReplicaOnCompleteFunc" where
  "onForceRemoveComplete ts gctx rctx = Some (case rctx of
       None \<Rightarrow> gctx | Some r \<Rightarrow> setMembershipMessage ''Force-removed from datamesh'' r gctx)"

definition onChangeTypeComplete :: "(globalContext, rctx) ReplicaOnCompleteFunc" where
  "onChangeTypeComplete ts gctx rctx = do {
     r \<leftarrow> rctx; Some (setMembershipMessage ''Replica type changed successfully'' r gctx) }"

subsection \<open>Quorum\<close>

definition updDM :: "(datameshContext \<Rightarrow> datameshContext) \<Rightarrow> globalContext \<Rightarrow> globalContext" where
  "updDM f gctx = gctx \<lparr> datamesh := f (datamesh gctx) \<rparr>"

definition updateBaselineGMDR :: "globalContext GlobalApplyFunc" where
  "updateBaselineGMDR ts gctx =
     (let qmr = quorumMinimumRedundancy (datamesh gctx);
          gmdr = (if qmr > 0 then qmr - 1 else 0)
      in Some (SetChanged baselineGMDR (\<lambda>v g. g \<lparr> baselineGMDR := v \<rparr>)
           (min gmdr (GuaranteedMinimumDataRedundancy (configuration gctx))) gctx))"

definition computeCorrectQuorum :: "globalContext \<Rightarrow> u8 \<times> u8" where
  "computeCorrectQuorum gctx =
     (let voters = voterCount gctx;
          targetQMR = cfg_QuorumMinimumRedundancy (configuration gctx);
          currentQMR = quorumMinimumRedundancy (datamesh gctx)
      in (voters div 2 + 1,
          if targetQMR \<le> currentQMR then targetQMR
          else max currentQMR (min targetQMR (upToDateDiskfulCount gctx))))"

subsection \<open>Apply callbacks\<close>

definition createMember :: "DatameshMemberType \<Rightarrow> (globalContext, rctx) ReplicaApplyFunc" where
  "createMember memberType ts gctx rctx = do {
     r \<leftarrow> rctx;
     let rc = rcAt gctx r;
     let zone = (case getEligibleNode gctx rc of None \<Rightarrow> [] | Some en \<Rightarrow> en_ZoneName en);
     rvr \<leftarrow> rx_rvr rc;
     let m = \<lparr> m_Name = rx_name rc, m_Type = memberType, m_NodeName = rx_nodeName rc, m_Zone = zone,
               m_Addresses = rvr_Addresses rvr, m_LVMVolumeGroupName = [], m_LVMVolumeGroupThinPoolName = [],
               m_Attached = False \<rparr>;
     Some (True, updRC r (\<lambda>rc. rc \<lparr> rx_member := Some m, rx_memberPtr := None \<rparr>) gctx) }"

text \<open>Changing a field through \<open>rctx.member\<close>; nil pointers panic.\<close>

definition onMember :: "(DatameshMember \<Rightarrow> bool \<times> DatameshMember) \<Rightarrow> globalContext \<Rightarrow> rctx option
    \<Rightarrow> (bool \<times> globalContext) option" where
  "onMember f gctx rctx = do {
     r \<leftarrow> rctx;
     m \<leftarrow> rx_member (rcAt gctx r);
     let (c, m') = f m;
     Some (c, updRC r (\<lambda>rc. rc \<lparr> rx_member := Some m' \<rparr>) gctx) }"

lemma onMember_SomeD:
  "onMember f gctx rctx = Some (c, g') \<Longrightarrow> \<exists>r m. rctx = Some r \<and> rx_member (rcAt gctx r) = Some m
     \<and> c = fst (f m) \<and> g' = updRC r (\<lambda>rc. rc \<lparr> rx_member := Some (snd (f m)) \<rparr>) gctx"
  by (auto simp: onMember_def res_simps case_prod_unfold Let_def)

definition setType :: "DatameshMemberType \<Rightarrow> (globalContext, rctx) ReplicaApplyFunc" where
  "setType memberType ts gctx rctx =
     onMember (SetChanged m_Type (\<lambda>v m. m \<lparr> m_Type := v \<rparr>) memberType) gctx rctx"

definition setBackingVolume :: "string \<Rightarrow> string \<Rightarrow> DatameshMember \<Rightarrow> bool \<times> DatameshMember" where
  "setBackingVolume lvg pool m =
     (let (c1, m1) = SetChanged m_LVMVolumeGroupName (\<lambda>v m. m \<lparr> m_LVMVolumeGroupName := v \<rparr>) lvg m;
          (c2, m2) = SetChanged m_LVMVolumeGroupThinPoolName (\<lambda>v m. m \<lparr> m_LVMVolumeGroupThinPoolName := v \<rparr>) pool m1
      in (c1 \<or> c2, m2))"

definition setBackingVolumeFromRequest :: "(globalContext, rctx) ReplicaApplyFunc" where
  "setBackingVolumeFromRequest ts gctx rctx = do {
     r \<leftarrow> rctx;
     _ \<leftarrow> rx_member (rcAt gctx r);
     req \<leftarrow> rx_membershipRequest (rcAt gctx r);
     onMember (setBackingVolume (rq_LVMVolumeGroupName (rr_Request req)) (rq_ThinPoolName (rr_Request req))) gctx rctx }"

definition clearBackingVolume :: "(globalContext, rctx) ReplicaApplyFunc" where
  "clearBackingVolume ts gctx rctx = onMember (setBackingVolume [] []) gctx rctx"

definition removeMember :: "(globalContext, rctx) ReplicaApplyFunc" where
  "removeMember ts gctx rctx = do {
     r \<leftarrow> rctx;
     let rc = rcAt gctx r;
     let g1 = updRC r (\<lambda>rc. rc \<lparr> rx_member := None, rx_memberPtr := None \<rparr>) gctx;
     if rx_rvr rc = None
     then do { _ \<leftarrow> index (replicas g1) (unat (rx_id rc));
               Some (True, g1 \<lparr> replicas := (replicas g1)[unat (rx_id rc) := None] \<rparr>) }
     else Some (True, g1) }"

definition raiseQ :: "globalContext GlobalApplyFunc" where
  "raiseQ ts gctx = Some (True, updDM (\<lambda>d. d \<lparr> quorum := quorum d + 1 \<rparr>) gctx)"

definition lowerQ :: "globalContext GlobalApplyFunc" where
  "lowerQ ts gctx = Some (True, updDM (\<lambda>d. d \<lparr> quorum := quorum d - 1 \<rparr>) gctx)"

definition raiseQMR :: "globalContext GlobalApplyFunc" where
  "raiseQMR ts gctx = Some (True, updDM (\<lambda>d. d \<lparr> quorumMinimumRedundancy := quorumMinimumRedundancy d + 1 \<rparr>) gctx)"

definition lowerQMR :: "globalContext GlobalApplyFunc" where
  "lowerQMR ts gctx = Some (True, updDM (\<lambda>d. d \<lparr> quorumMinimumRedundancy := quorumMinimumRedundancy d - 1 \<rparr>) gctx)"

definition setCorrectQ :: "globalContext GlobalApplyFunc" where
  "setCorrectQ ts gctx = Some (SetChanged (quorum \<circ> datamesh) (\<lambda>v. updDM (\<lambda>d. d \<lparr> quorum := v \<rparr>))
     (fst (computeCorrectQuorum gctx)) gctx)"

definition setCorrectQMR :: "globalContext GlobalApplyFunc" where
  "setCorrectQMR ts gctx = Some (SetChanged (quorumMinimumRedundancy \<circ> datamesh)
     (\<lambda>v. updDM (\<lambda>d. d \<lparr> quorumMinimumRedundancy := v \<rparr>)) (snd (computeCorrectQuorum gctx)) gctx)"

definition applyResizeVolume :: "globalContext GlobalApplyFunc" where
  "applyResizeVolume ts gctx = Some (SetChanged (dm_size \<circ> datamesh) (\<lambda>v. updDM (\<lambda>d. d \<lparr> dm_size := v \<rparr>))
     (AlignTo4Ki (g_size gctx)) gctx)"

subsection \<open>Step constructors\<close>

text \<open>\<open>mrStep\<close>, \<open>mgStep\<close>, \<open>ngStep\<close> and \<open>rgStep\<close>: a step with the standard diagnostic condition;
  \<open>None\<close> is the panic of the constructor.\<close>

type_synonym rstep = "(globalContext, rctx) ReplicaStepBuilder option"
type_synonym gstep = "globalContext GlobalStepBuilder option"
type_synonym dstep = "(globalContext, rctx) rawStep option"

definition mrStep :: "string \<Rightarrow> (globalContext, rctx) ReplicaApplyFunc \<Rightarrow> (globalContext, rctx) ReplicaConfirmFunc
    \<Rightarrow> rstep" where
  "mrStep name applyF confirmF = map_option (\<lambda>b. b \<lparr> rb_diagnosticConditionTypes := [''DRBDConfigured''] \<rparr>)
     (ReplicaStep name (Some applyF) (Some confirmF))"

definition mgStep :: "string \<Rightarrow> globalContext GlobalApplyFunc \<Rightarrow> globalContext GlobalConfirmFunc \<Rightarrow> gstep" where
  "mgStep name applyF confirmF = map_option (\<lambda>b. b \<lparr> gb_diagnosticConditionTypes := [''DRBDConfigured''] \<rparr>)
     (GlobalStep name (Some applyF) (Some confirmF))"

definition ngStep :: "string \<Rightarrow> globalContext GlobalApplyFunc \<Rightarrow> globalContext GlobalConfirmFunc \<Rightarrow> gstep" where
  "ngStep name applyF confirmF = map_option (\<lambda>b. b \<lparr> gb_diagnosticConditionTypes := [''DRBDConfigured''] \<rparr>)
     (GlobalStep name (Some applyF) (Some confirmF))"

definition rgStep :: "string \<Rightarrow> globalContext GlobalApplyFunc \<Rightarrow> globalContext GlobalConfirmFunc \<Rightarrow> gstep" where
  "rgStep name applyF confirmF = map_option (\<lambda>b. b \<lparr> gb_diagnosticConditionTypes := [''DRBDConfigured''] \<rparr>)
     (GlobalStep name (Some applyF) (Some confirmF))"

text \<open>The chained builder methods, and the steps as arguments of \<open>Steps\<close>.\<close>

definition stepDetails :: "string \<Rightarrow> rstep \<Rightarrow> rstep" where
  "stepDetails d = map_option (\<lambda>b. b \<lparr> rb_details := Some d \<rparr>)"

definition stepSkipError :: "(globalContext, rctx) SkipErrorFunc \<Rightarrow> rstep \<Rightarrow> rstep" where
  "stepSkipError f = map_option (\<lambda>b. b \<lparr> rb_diagnosticSkipError := Some f \<rparr>)"

definition stepOnComplete :: "(globalContext, rctx) ReplicaOnCompleteFunc \<Rightarrow> rstep \<Rightarrow> rstep" where
  "stepOnComplete f = map_option (\<lambda>b. b \<lparr> rb_onCompleteFn := Some f \<rparr>)"

definition gstepOnComplete :: "globalContext GlobalOnCompleteFunc \<Rightarrow> gstep \<Rightarrow> gstep" where
  "gstepOnComplete f = map_option (\<lambda>b. b \<lparr> gb_onCompleteFn := Some f \<rparr>)"

definition RS :: "rstep \<Rightarrow> dstep" where "RS = map_option RawReplicaStep"
definition GS :: "gstep \<Rightarrow> dstep" where "GS = map_option RawGlobalStep"

end
