(* ===== verification/Datamesh_Guards.thy ===== *)
theory Datamesh_Guards
  imports Datamesh_Callbacks
begin

text \<open>
  The guards of the membership and resize plans: \<open>membership_helpers_guards.go\<close> and
  \<open>resize_helpers.go\<close>, with the guard groups shared by the plans. Counts are bytes, as in the
  source, and their subtractions wrap.
\<close>

type_synonym rguard = "(globalContext, rctx) ReplicaGuardFunc"
type_synonym gguard = "globalContext GlobalGuardFunc"

text \<open>Guards that only read the contexts.\<close>

definition pureGuard :: "(tstore \<Rightarrow> globalContext \<Rightarrow> ReplicaContext \<Rightarrow> GuardResult option) \<Rightarrow> rguard" where
  "pureGuard f ts g rctx = do { r \<leftarrow> rctx; res \<leftarrow> f ts g (rcAt g r); Some (res, g) }"

definition pureGlobalGuard :: "(globalContext \<Rightarrow> GuardResult) \<Rightarrow> gguard" where
  "pureGlobalGuard f ts g = Some (f g, g)"

text \<open>Guards that do not look at the replica: they accept a nil context.\<close>

definition pureContextGuard :: "(tstore \<Rightarrow> globalContext \<Rightarrow> GuardResult) \<Rightarrow> rguard" where
  "pureContextGuard f ts g rctx = Some (f ts g, g)"

abbreviation num :: "u8 \<Rightarrow> string" where "num b \<equiv> itoa (uint b)"

subsection \<open>Backing volume capacity\<close>

definition maxDiskMembers :: nat where "maxDiskMembers = 8"

definition isDiskType :: "DatameshMemberType \<Rightarrow> bool" where
  "isDiskType t = (HasBackingVolume t \<or> t = MT_LiminalDiskful \<or> t = MT_LiminalShadowDiskful)"

definition isPendingDisk :: "tstore \<Rightarrow> ReplicaContext \<Rightarrow> bool" where
  "isPendingDisk ts rc = (rx_member rc \<noteq> None \<and> \<not> memberIs isDiskType rc \<and>
     (case rx_membershipTransition rc of
        None \<Rightarrow> False
      | Some ptr \<Rightarrow> let t = ts ptr in
          (t_Type t = TT_ChangeReplicaType \<and> (t_ToReplicaType t = RT_Diskful \<or> t_ToReplicaType t = RT_ShadowDiskful))
        \<or> (t_Type t = TT_AddReplica \<and> (t_ReplicaType t = RT_Diskful \<or> t_ReplicaType t = RT_ShadowDiskful))))"

definition guardMaxDiskMembers :: rguard where
  "guardMaxDiskMembers = pureContextGuard (\<lambda>ts gctx.
     let current = countp (memberIs isDiskType) (allReplicas gctx);
         pending = countp (isPendingDisk ts) (allReplicas gctx);
         sumAll = current + pending
     in if sumAll \<ge> maxDiskMembers
        then guardBlock (''maximum disk members reached ('' @ itoa (int sumAll) @ ''/'' @ itoa (int maxDiskMembers)
               @ '', '' @ itoa (int current) @ '' current + '' @ itoa (int pending) @ '' pending)'')
        else guardPass)"

subsection \<open>Shared add guards\<close>

definition guardRVNotDeleting :: rguard where
  "guardRVNotDeleting = pureContextGuard (\<lambda>ts gctx.
     if deletionTimestamp gctx \<noteq> None then guardBlock ''volume is being deleted'' else guardPass)"

definition guardAddressesPopulated :: rguard where
  "guardAddressesPopulated = pureGuard (\<lambda>ts gctx rc. Some (case rx_rvr rc of
       Some rvr \<Rightarrow> if rvr_Addresses rvr = [] then guardBlock ''waiting for replica addresses to be populated'' else guardPass
     | None \<Rightarrow> guardBlock ''waiting for replica addresses to be populated''))"

definition guardNoMemberOnSameNode :: rguard where
  "guardNoMemberOnSameNode = pureGuard (\<lambda>ts gctx rctx. Some (
     case List.map_filter (\<lambda>rc. case rx_member rc of
         Some m \<Rightarrow> if rx_nodeName rc = rx_nodeName rctx then Some (m, rx_nodeName rc) else None
       | None \<Rightarrow> None) (allReplicas gctx) of
       [] \<Rightarrow> guardPass
     | (m, node) # _ \<Rightarrow> guardBlock (DatameshMemberType_String (m_Type m) @ '' member '' @ m_Name m
         @ '' already present on node '' @ node)))"

definition guardRSPAvailable :: rguard where
  "guardRSPAvailable = pureContextGuard (\<lambda>ts gctx.
     if Option.is_none (g_rsp gctx) then guardBlock ''waiting for ReplicatedStoragePool to be available'' else guardPass)"

definition guardNodeEligible :: rguard where
  "guardNodeEligible = pureGuard (\<lambda>ts gctx rc. Some (
     if Option.is_none (g_rsp gctx) then guardBlock ''waiting for ReplicatedStoragePool to be available''
     else if getEligibleNode gctx rc = None
     then guardBlock (''node '' @ rx_nodeName rc @ '' is not in eligible nodes'') else guardPass))"

subsection \<open>Shared remove guards\<close>

definition guardNotAttached :: rguard where
  "guardNotAttached = pureGuard (\<lambda>ts gctx rc. Some (
     if (case rx_member rc of None \<Rightarrow> False | Some m \<Rightarrow> m_Attached m)
     then guardBlock ''replica is attached, detach required first''
     else case rx_attachmentTransition rc of
         None \<Rightarrow> guardPass
       | Some ptr \<Rightarrow> guardBlock (to_lower (TransitionType_String (t_Type (ts ptr))) @ '' transition in progress'')))"

subsection \<open>Leaving voters\<close>

definition guardVolumeAccessLocalForDemotion :: rguard where
  "guardVolumeAccessLocalForDemotion = pureGuard (\<lambda>ts gctx rc. Some (
     if (case rx_member rc of None \<Rightarrow> False | Some m \<Rightarrow> m_Attached m)
        \<and> cfg_VolumeAccess (configuration gctx) = VolumeAccessLocal
     then guardBlock ''volumeAccess=Local requires Diskful on attached node'' else guardPass))"

definition adrAfterRemoval :: "globalContext \<Rightarrow> ReplicaContext \<Rightarrow> u8" where
  "adrAfterRemoval gctx rc = (let adr = upToDateDiskfulCount gctx
     in if isUpToDateDiskful rc \<and> adr > 0 then adr - 1 else adr)"

definition guardGMDRPreserved :: rguard where
  "guardGMDRPreserved ts gctx rctx = do {
     let targetGMDR = GuaranteedMinimumDataRedundancy (configuration gctx);
     let adr = (case rctx of Some r \<Rightarrow> adrAfterRemoval gctx (rcAt gctx r) | None \<Rightarrow> upToDateDiskfulCount gctx);
     Some (if adr \<le> targetGMDR
           then guardBlock (''would violate GMDR (ADR='' @ num adr @ '', need > '' @ num targetGMDR @ '')'')
           else guardPass, gctx) }"

definition guardFTTPreserved :: rguard where
  "guardFTTPreserved = pureContextGuard (\<lambda>ts gctx.
     let dMin = IntendedDiskfulCount (FailuresToTolerate (configuration gctx))
                  (GuaranteedMinimumDataRedundancy (configuration gctx));
         voters = voterCount gctx
     in if uint voters \<le> dMin
        then guardBlock (''would violate FTT (Diskful='' @ num voters @ '', need > '' @ itoa dMin @ '')'')
        else guardPass)"

subsection \<open>Zonal placement\<close>

text \<open>The zone of the subject: from its member, else from its eligible node.\<close>

definition subjectZone :: "globalContext \<Rightarrow> ReplicaContext \<Rightarrow> string option" where
  "subjectZone gctx rc = (case rx_member rc of
       Some m \<Rightarrow> Some (m_Zone m)
     | None \<Rightarrow> map_option en_ZoneName (getEligibleNode gctx rc))"

definition guardZonalSameZone :: rguard where
  "guardZonalSameZone = pureGuard (\<lambda>ts gctx rc. Some (
     if cfg_Topology (configuration gctx) \<noteq> TopologyZonal then guardPass
     else let perZone = voterCountPerZone gctx in
       if perZone = [] then guardPass
       else let maxCount = fold (\<lambda>zc mx. if snd zc > mx then snd zc else mx) perZone 0 in
         case subjectZone gctx rc of
           None \<Rightarrow> guardPass
         | Some zone \<Rightarrow> if list_ex (\<lambda>zc. fst zc = zone \<and> snd zc = maxCount) perZone then guardPass
             else guardBlock (''zone '' @ quoted zone @ '' is not the primary zone for Zonal topology'')))"

text \<open>The zone-loss quorum condition: enough voters survive, or one fewer with a surviving
  tie-breaker.\<close>

definition zoneQuorumOK :: "u8 \<Rightarrow> u8 \<Rightarrow> u8 \<Rightarrow> bool" where
  "zoneQuorumOK dSurviving qAfter tbSurviving \<longleftrightarrow>
     dSurviving \<ge> qAfter \<or> (dSurviving = qAfter - 1 \<and> tbSurviving > 0)"

definition voterPlacementZone :: "globalContext \<Rightarrow> string \<Rightarrow> zoneCount \<Rightarrow> string option" where
  "voterPlacementZone gctx addedZone zc =
     (let votersAfter = voterCount gctx + 1;
          qAfter = computeTargetQ votersAfter;
          qmr = quorumMinimumRedundancy (datamesh gctx);
          zone = fst zc;
          votersInZ = (if zone = addedZone then snd zc + 1 else snd zc);
          dSurviving = votersAfter - votersInZ;
          tbSurviving = tbCount gctx - findZoneCount (tbCountPerZone gctx) zone
      in if \<not> zoneQuorumOK dSurviving qAfter tbSurviving
         then Some (''adding to zone '' @ quoted addedZone @ '' would violate zone FTT (losing zone '' @ quoted zone
           @ '' would leave '' @ num dSurviving @ '' Diskful voters, q='' @ num qAfter @ '', TB='' @ num tbSurviving @ '')'')
         else if dSurviving < qmr
         then Some (''adding to zone '' @ quoted addedZone @ '' would violate zone GMDR (losing zone '' @ quoted zone
           @ '' would leave '' @ num dSurviving @ '' Diskful voters, need >= '' @ num qmr @ '')'')
         else None)"

definition voterPlacementNewZone :: "globalContext \<Rightarrow> string \<Rightarrow> string option" where
  "voterPlacementNewZone gctx addedZone =
     (let votersAfter = voterCount gctx + 1;
          qAfter = computeTargetQ votersAfter;
          qmr = quorumMinimumRedundancy (datamesh gctx);
          dSurviving = votersAfter - 1;
          tbSurviving = tbCount gctx - findZoneCount (tbCountPerZone gctx) addedZone
      in if \<not> zoneQuorumOK dSurviving qAfter tbSurviving
         then Some (''adding to new zone '' @ quoted addedZone @ '' would violate zone FTT (losing it would leave ''
           @ num dSurviving @ '' Diskful voters, q='' @ num qAfter @ '')'')
         else if dSurviving < qmr
         then Some (''adding to new zone '' @ quoted addedZone @ '' would violate zone GMDR (losing it would leave ''
           @ num dSurviving @ '' Diskful voters, need >= '' @ num qmr @ '')'')
         else None)"

definition guardTransZonalVoterPlacement :: rguard where
  "guardTransZonalVoterPlacement = pureGuard (\<lambda>ts gctx rc. Some (
     if cfg_Topology (configuration gctx) \<noteq> TopologyTransZonal then guardPass
     else case subjectZone gctx rc of
       None \<Rightarrow> guardPass
     | Some addedZone \<Rightarrow>
         let perZone = voterCountPerZone gctx in
         case List.map_filter (voterPlacementZone gctx addedZone) perZone of
           msg # _ \<Rightarrow> guardBlock msg
         | [] \<Rightarrow> if list_ex (\<lambda>zc. fst zc = addedZone) perZone then guardPass
                else (case voterPlacementNewZone gctx addedZone of
                    Some msg \<Rightarrow> guardBlock msg | None \<Rightarrow> guardPass)))"

definition guardTransZonalTBPlacement :: rguard where
  "guardTransZonalTBPlacement = pureGuard (\<lambda>ts gctx rc. Some (
     if cfg_Topology (configuration gctx) \<noteq> TopologyTransZonal then guardPass
     else case subjectZone gctx rc of
       None \<Rightarrow> guardPass
     | Some tbZone \<Rightarrow>
         let votersInTBZone = findZoneCount (voterCountPerZone gctx) tbZone in
         if votersInTBZone > 1
         then guardBlock (''zone '' @ quoted tbZone @ '' already has '' @ num votersInTBZone
                @ '' Diskful voters (TB zone must have at most 1)'')
         else guardPass))"

subsection \<open>TransZonal guards for leaving voters\<close>

definition memberZone :: "ReplicaContext \<Rightarrow> string" where
  "memberZone rc = (case rx_member rc of None \<Rightarrow> [] | Some m \<Rightarrow> m_Zone m)"

definition survivingUTD :: "globalContext \<Rightarrow> ReplicaContext \<Rightarrow> zoneCount \<Rightarrow> u8" where
  "survivingUTD gctx rc zc =
     (let subjectIsUTD = isUpToDateDiskful rc;
          totalUTD = upToDateDiskfulCount gctx;
          adjustedTotal = (if subjectIsUTD \<and> totalUTD > 0 then totalUTD - 1 else totalUTD);
          adjustedZoneUTD = (if subjectIsUTD \<and> fst zc = memberZone rc \<and> snd zc > 0 then snd zc - 1 else snd zc)
      in adjustedTotal - adjustedZoneUTD)"

definition guardZoneGMDRPreserved :: rguard where
  "guardZoneGMDRPreserved = pureGuard (\<lambda>ts gctx rc. Some (
     if cfg_Topology (configuration gctx) \<noteq> TopologyTransZonal then guardPass
     else let targetGMDR = GuaranteedMinimumDataRedundancy (configuration gctx) in
       case find (\<lambda>zc. survivingUTD gctx rc zc \<le> targetGMDR) (upToDateDiskfulCountPerZone gctx) of
         None \<Rightarrow> guardPass
       | Some zc \<Rightarrow> guardBlock (''would violate zone GMDR (losing zone '' @ quoted (fst zc)
           @ '' after removal would leave '' @ num (survivingUTD gctx rc zc) @ '' UpToDate Diskful, need > ''
           @ num targetGMDR @ '')'')))"

definition zoneSurvivors :: "globalContext \<Rightarrow> ReplicaContext \<Rightarrow> bool \<Rightarrow> zoneCount \<Rightarrow> u8 \<times> u8" where
  "zoneSurvivors gctx rc subjectBecomesTieBreaker zc =
     (let votersAfter = voterCount gctx - 1;
          zone = fst zc;
          adjustedZoneVoters = (if zone = memberZone rc \<and> snd zc > 0 then snd zc - 1 else snd zc);
          tbSurviving = tbCount gctx - findZoneCount (tbCountPerZone gctx) zone
      in (votersAfter - adjustedZoneVoters,
          if subjectBecomesTieBreaker \<and> zone \<noteq> memberZone rc then tbSurviving + 1 else tbSurviving))"

definition evaluateZoneFTT :: "bool \<Rightarrow> rguard" where
  "evaluateZoneFTT subjectBecomesTieBreaker = pureGuard (\<lambda>ts gctx rc. Some (
     if cfg_Topology (configuration gctx) \<noteq> TopologyTransZonal then guardPass
     else if voterCount gctx = 0 then guardPass
     else let qAfter = computeTargetQ (voterCount gctx - 1);
              bad = (\<lambda>zc. case zoneSurvivors gctx rc subjectBecomesTieBreaker zc of
                       (d, tb) \<Rightarrow> \<not> zoneQuorumOK d qAfter tb) in
       case find bad (voterCountPerZone gctx) of
         None \<Rightarrow> guardPass
       | Some zc \<Rightarrow> (case zoneSurvivors gctx rc subjectBecomesTieBreaker zc of (d, tb) \<Rightarrow>
           guardBlock (''would violate zone FTT (losing zone '' @ quoted (fst zc) @ '' would leave '' @ num d
             @ '' Diskful voters, q='' @ num qAfter @ '', TB='' @ num tb @ '')''))))"

definition guardZoneFTTPreserved :: rguard where
  "guardZoneFTTPreserved = evaluateZoneFTT False"

definition guardZoneFTTPreservedForRetypeToTieBreaker :: rguard where
  "guardZoneFTTPreservedForRetypeToTieBreaker = evaluateZoneFTT True"

subsection \<open>Leaving tie-breakers\<close>

definition guardTBSufficient :: rguard where
  "guardTBSufficient ts gctx rctx = do {
     let voters = voterCount gctx;
     let targetFTT = FailuresToTolerate (configuration gctx);
     let tbMin = (of_int (TieBreakersForDiskful (uint voters) (uint targetFTT)) :: u8);
     if tbMin = 0 then Some (guardPass, gctx)
     else do {
       r \<leftarrow> rctx;
       (operational, notOperational) \<leftarrow> operationalTieBreakerCount gctx (rx_id (rcAt gctx r));
       if operational < tbMin
       then do {
         let msg = ''TieBreaker required for quorum (Diskful='' @ num voters @ '' even, FTT='' @ num targetFTT @ ''): ''
               @ num operational @ '' operational TieBreaker(s) would remain, need '' @ num tbMin;
         Some (guardBlock (if notOperational \<noteq> [] then msg @ ''; '' @ join ''; '' notOperational else msg), gctx) }
       else Some (guardPass, gctx) } }"

definition guardZoneTBSufficient :: rguard where
  "guardZoneTBSufficient = pureGuard (\<lambda>ts gctx rc. Some (
     if cfg_Topology (configuration gctx) \<noteq> TopologyTransZonal then guardPass
     else if TieBreakersForDiskful (uint (voterCount gctx)) (uint (FailuresToTolerate (configuration gctx))) = 0
     then guardPass
     else if tbCount gctx > 1 then guardPass
     else guardBlock (''would violate zone TB coverage (zone '' @ quoted (memberZone rc) @ '')'')))"

subsection \<open>Force removal\<close>

definition reportsConnected :: "string \<Rightarrow> ReplicaContext \<Rightarrow> bool" where
  "reportsConnected memberName rc = (case rx_rvr rc of
       None \<Rightarrow> False
     | Some rvr \<Rightarrow> \<not> chk_Eval (chk_ReasonEqual ''AgentNotReady'' (rvr_Condition rvr ''DRBDConfigured''))
         \<and> list_ex (\<lambda>p. p_Name p = memberName \<and> p_ConnectionState p = ConnectionStateConnected) (rvr_Peers rvr))"

definition guardMemberUnreachable :: rguard where
  "guardMemberUnreachable = pureGuard (\<lambda>ts gctx rctx. Some (
     let connectedFrom = FromWhere rx_id (allReplicas gctx) (\<lambda>rc. rx_member rc \<noteq> None \<and> rx_id rc \<noteq> rx_id rctx
           \<and> reportsConnected (rx_name rctx) rc)
     in if \<not> IDSet_IsEmpty connectedFrom
        then guardBlock (''member is reachable (connected from '' @ itoa (int (IDSet_Len connectedFrom))
               @ '' replica(s): ['' @ IDSet_String connectedFrom @ ''])'')
        else guardPass))"

subsection \<open>Defense in depth and feature guards\<close>

definition guardVotersEven :: rguard where
  "guardVotersEven = pureContextGuard (\<lambda>ts gctx. let voters = voterCount gctx in
     if voters mod 2 \<noteq> 0 then guardBlock (''internal check: expected even voter count, got '' @ num voters) else guardPass)"

definition guardVotersOdd :: rguard where
  "guardVotersOdd = pureContextGuard (\<lambda>ts gctx. let voters = voterCount gctx in
     if voters mod 2 = 0 then guardBlock (''internal check: expected odd voter count, got '' @ num voters) else guardPass)"

definition guardQMRRaiseNeeded :: rguard where
  "guardQMRRaiseNeeded = pureContextGuard (\<lambda>ts gctx.
     let targetQMR = cfg_QuorumMinimumRedundancy (configuration gctx); qmr = quorumMinimumRedundancy (datamesh gctx) in
     if qmr \<ge> targetQMR
     then guardBlock (''internal check: qmr raise not needed (qmr='' @ num qmr @ '' >= target '' @ num targetQMR @ '')'')
     else guardPass)"

definition guardQMRLowerNeeded :: rguard where
  "guardQMRLowerNeeded = pureContextGuard (\<lambda>ts gctx.
     let targetQMR = cfg_QuorumMinimumRedundancy (configuration gctx); qmr = quorumMinimumRedundancy (datamesh gctx) in
     if qmr \<le> targetQMR
     then guardBlock (''internal check: qmr lower not needed (qmr='' @ num qmr @ '' <= target '' @ num targetQMR @ '')'')
     else guardPass)"

definition guardShadowDiskfulSupported :: rguard where
  "guardShadowDiskfulSupported = pureContextGuard (\<lambda>ts gctx.
     if \<not> ff_ShadowDiskful (features gctx)
     then guardBlock ''ShadowDiskful not supported (requires Flant DRBD extension, non-voting disk option)''
     else guardPass)"

subsection \<open>Guard groups\<close>

definition commonAddGuards :: "rguard list" where
  "commonAddGuards = [guardRVNotDeleting, guardRSPAvailable, guardNodeEligible, guardNodeHasAllSystemNetworks,
     guardNoMemberOnSameNode, guardAddressesPopulated]"

definition commonRemoveGuards :: "rguard list" where
  "commonRemoveGuards = [guardNotAttached]"

definition loseVoterGuardsCommon :: "rguard list" where
  "loseVoterGuardsCommon = [guardVolumeAccessLocalForDemotion, guardGMDRPreserved, guardFTTPreserved,
     guardZoneGMDRPreserved]"

definition loseVoterGuards :: "rguard list" where
  "loseVoterGuards = loseVoterGuardsCommon @ [guardZoneFTTPreserved]"

definition loseVoterToTieBreakerGuards :: "rguard list" where
  "loseVoterToTieBreakerGuards = loseVoterGuardsCommon @ [guardZoneFTTPreservedForRetypeToTieBreaker]"

definition loseTBGuards :: "rguard list" where
  "loseTBGuards = [guardTBSufficient, guardZoneTBSufficient]"

definition gainVoterGuards :: "rguard list" where
  "gainVoterGuards = [guardZonalSameZone, guardTransZonalVoterPlacement]"

definition gainTBGuards :: "rguard list" where
  "gainTBGuards = [guardZonalSameZone, guardTransZonalTBPlacement]"

definition forceRemoveGuards :: "rguard list" where
  "forceRemoveGuards = [guardNotAttached, guardMemberUnreachable]"

subsection \<open>Resize guards\<close>

definition diskfulWithRVR :: "globalContext \<Rightarrow> (string \<times> RVR) list" where
  "diskfulWithRVR gctx = List.map_filter (\<lambda>rc. if memberIs HasBackingVolume rc
     then map_option (\<lambda>rvr. (rx_name rc, rvr)) (rx_rvr rc) else None) (allReplicas gctx)"

definition guardHasReadyDiskfulMember :: gguard where
  "guardHasReadyDiskfulMember = pureGlobalGuard (\<lambda>gctx.
     if list_ex (\<lambda>(_, rvr). chk_Eval (chk_IsTrue (rvr_Condition rvr ''Ready''))) (diskfulWithRVR gctx)
     then guardPass else guardBlock ''no ready diskful member'')"

definition syncingPeer :: "string \<times> RVR \<Rightarrow> (string \<times> PeerStatus) option" where
  "syncingPeer x = map_option (\<lambda>p. (fst x, p)) (find (\<lambda>p. IsSyncingState (p_ReplicationState p)) (rvr_Peers (snd x)))"

definition guardNoActiveResync :: gguard where
  "guardNoActiveResync = pureGlobalGuard (\<lambda>gctx.
     case List.map_filter syncingPeer (diskfulWithRVR gctx) of
       [] \<Rightarrow> guardPass
     | (name, p) # _ \<Rightarrow> guardBlock (''replica '' @ name @ '' has peer '' @ p_Name p @ '' in state '' @ p_ReplicationState p))"

text \<open>\<open>quantityString\<close> is \<open>resource.Quantity.String\<close> of the Kubernetes API machinery.\<close>

definition notGrown :: "(u64 \<Rightarrow> string) \<Rightarrow> u64 \<Rightarrow> string \<times> RVR \<Rightarrow> string option" where
  "notGrown quantityString target x = (case Option.bind (rvr_BackingVolume (snd x)) bv_Size of
       None \<Rightarrow> Some (''backing volume size not yet reported on replica '' @ fst x)
     | Some sz \<Rightarrow> if sz <s target
         then Some (''backing volume on replica '' @ fst x @ '' not grown yet ('' @ quantityString sz
                @ '', need >= '' @ quantityString target @ '')'')
         else None)"

definition guardBackingVolumesGrown :: "(u64 \<Rightarrow> string) \<Rightarrow> gguard" where
  "guardBackingVolumesGrown quantityString ts gctx = do {
     targetLowerSize \<leftarrow> LowerVolumeSize (AlignTo4Ki (g_size gctx));
     Some (case List.map_filter (notGrown quantityString targetLowerSize) (diskfulWithRVR gctx) of
         [] \<Rightarrow> guardPass | msg # _ \<Rightarrow> guardBlock msg, gctx) }"

end
