(* ===== verification/Datamesh_Attachment.thy ===== *)
theory Datamesh_Attachment
  imports Datamesh_Guards
begin

text \<open>
  The attachment callbacks of \<open>attachment_plans.go\<close>: guards, apply and confirm callbacks and step
  constructors of the plans Attach, Detach, ForceDetach, EnableMultiattach and DisableMultiattach.
\<close>

definition arStep :: "string \<Rightarrow> (globalContext, rctx) ReplicaApplyFunc \<Rightarrow> (globalContext, rctx) ReplicaConfirmFunc
    \<Rightarrow> rstep" where
  "arStep name applyF confirmF = map_option (\<lambda>b. b \<lparr> rb_diagnosticConditionTypes := [''DRBDConfigured''] \<rparr>)
     (ReplicaStep name (Some applyF) (Some confirmF))"

definition agStep :: "string \<Rightarrow> globalContext GlobalApplyFunc \<Rightarrow> globalContext GlobalConfirmFunc \<Rightarrow> gstep" where
  "agStep name applyF confirmF = map_option (\<lambda>b. b \<lparr> gb_diagnosticConditionTypes := [''DRBDConfigured''] \<rparr>)
     (GlobalStep name (Some applyF) (Some confirmF))"

subsection \<open>Guards\<close>

definition guardAttachNotDeleting :: rguard where
  "guardAttachNotDeleting = pureContextGuard (\<lambda>ts gctx.
     if deletionTimestamp gctx \<noteq> None
     then guardBlockWith ''volume is being deleted'' ''ReplicatedVolumeTerminating'' else guardPass)"

definition guardSlotAvailable :: rguard where
  "guardSlotAvailable = pureContextGuard (\<lambda>ts gctx.
     let occupied = IDSet_Len (potentiallyAttached gctx) in
     if occupied \<ge> unat (maxAttachments gctx)
     then guardBlockWith (''waiting for attachment slot ('' @ itoa (int occupied) @ ''/'' @ num (maxAttachments gctx)
            @ '' occupied)'') ''Pending''
     else guardPass)"

definition guardMaxAttachmentsAllowsMultiattach :: gguard where
  "guardMaxAttachmentsAllowsMultiattach = pureGlobalGuard (\<lambda>gctx.
     if maxAttachments gctx \<le> 1 then guardBlock ''maxAttachments is 1'' else guardPass)"

definition guardCanDisableMultiattach :: gguard where
  "guardCanDisableMultiattach = pureGlobalGuard (\<lambda>gctx.
     if IDSet_Len (potentiallyAttached gctx) > 1
     then guardBlock (itoa (int (IDSet_Len (potentiallyAttached gctx))) @ '' nodes potentially attached'') else guardPass)"

definition guardQuorumSatisfied :: rguard where
  "guardQuorumSatisfied ts gctx rctx =
     (let (ok, g1) = isQuorumSatisfied gctx
      in Some (if \<not> ok then guardBlockWith (''quorum not satisfied: '' @ quorumDiagnostic g1) ''Pending'' else guardPass, g1))"

definition guardNodeOperational :: rguard where
  "guardNodeOperational = pureGuard (\<lambda>ts gctx rc. Some (
     if Option.is_none (g_rsp gctx)
     then guardBlockWith ''waiting for ReplicatedStoragePool to be available'' ''Pending''
     else case getEligibleNode gctx rc of
       None \<Rightarrow>
         let pool = ReplicatedStoragePoolName (configuration gctx) in
         if replicatedStorageClassName gctx \<noteq> []
         then guardBlockWith (''node '' @ rx_nodeName rc @ '' is not eligible for storage class ''
                @ replicatedStorageClassName gctx @ '' (pool '' @ pool @ '')'') ''NodeNotEligible''
         else guardBlockWith (''node '' @ rx_nodeName rc @ '' is not eligible for pool '' @ pool) ''NodeNotEligible''
     | Some en \<Rightarrow>
         if \<not> en_NodeReady en then guardBlockWith ''node is not ready'' ''Pending''
         else if \<not> en_AgentReady en then guardBlockWith ''agent is not ready on node'' ''Pending''
         else guardPass))"

definition guardRVRReady :: rguard where
  "guardRVRReady = pureGuard (\<lambda>ts gctx rc. Some (case rx_rvr rc of
       None \<Rightarrow> guardBlockWith ''waiting for replica'' ''WaitingForReplica''
     | Some rvr \<Rightarrow>
         if \<not> chk_Eval (chk_IsTrue (rvr_Condition rvr ''Ready''))
         then guardBlockWith (''waiting for replica to become Ready'' @
                (case findCondition (rvr_Conditions rvr) ''Ready'' of
                   None \<Rightarrow> []
                 | Some c \<Rightarrow> if c_Message c \<noteq> [] then '': '' @ c_Reason c @ '' '' @ sym_dash @ '' '' @ c_Message c else []))
                ''WaitingForReplica''
         else guardPass))"

definition guardVolumeAccessLocalForAttach :: rguard where
  "guardVolumeAccessLocalForAttach = pureGuard (\<lambda>ts gctx rc. Some (
     if cfg_VolumeAccess (configuration gctx) \<noteq> VolumeAccessLocal then guardPass
     else if memberIs HasBackingVolume rc then guardPass
     else if rx_member rc = None \<and> (case rx_rvr rc of None \<Rightarrow> False | Some rvr \<Rightarrow> rvr_Type rvr = RT_Diskful) then guardPass
     else if replicatedStorageClassName gctx \<noteq> []
     then guardBlockWith (''no Diskful replica on this node (volumeAccess is Local for storage class ''
            @ replicatedStorageClassName gctx @ '')'') ''VolumeAccessLocalityNotSatisfied''
     else guardBlockWith ''no Diskful replica on this node (volumeAccess is Local)'' ''VolumeAccessLocalityNotSatisfied''))"

definition guardMemberExists :: rguard where
  "guardMemberExists = pureGuard (\<lambda>ts gctx rc. Some (
     if rx_member rc \<noteq> None then guardPass
     else case rx_rvr rc of
       None \<Rightarrow> guardBlockWith ''waiting for replica on node'' ''WaitingForReplica''
     | Some rvr \<Rightarrow>
         let pre = ''waiting for replica [#'' @ num (rx_id rc) @ ''] to join datamesh'';
             ready = (case findCondition (rvr_Conditions rvr) ''Ready'' of
                 Some c \<Rightarrow> if c_Message c \<noteq> [] then pre @ '': '' @ c_Reason c @ '' '' @ sym_dash @ '' '' @ c_Message c else pre
               | None \<Rightarrow> pre)
         in guardBlockWith (case rx_membershipRequest rc of
                Some req \<Rightarrow> if rq_Operation (rr_Request req) = Join then pre @ '': '' @ rr_Message req else ready
              | None \<Rightarrow> ready) ''WaitingForReplica''))"

definition guardNoActiveMembershipTransition :: rguard where
  "guardNoActiveMembershipTransition = pureGuard (\<lambda>ts gctx rc. Some (
     if rx_membershipTransition rc \<noteq> None
     then guardBlockWith ''waiting for membership transition to complete'' ''WaitingForReplica'' else guardPass))"

definition guardDeviceNotInUse :: rguard where
  "guardDeviceNotInUse = pureGuard (\<lambda>ts gctx rc. Some (
     if (case rx_rvr rc of None \<Rightarrow> False | Some rvr \<Rightarrow> (case rvr_Attachment rvr of None \<Rightarrow> False | Some att \<Rightarrow> att_InUse att))
     then guardBlockWith ''device is in use'' ''Detaching'' else guardPass))"

subsection \<open>Apply and confirm callbacks\<close>

definition applyAttach :: "(globalContext, rctx) ReplicaApplyFunc" where
  "applyAttach ts gctx rctx = onMember (SetChanged m_Attached (\<lambda>v m. m \<lparr> m_Attached := v \<rparr>) True) gctx rctx"

definition applyDetach :: "(globalContext, rctx) ReplicaApplyFunc" where
  "applyDetach ts gctx rctx = onMember (SetChanged m_Attached (\<lambda>v m. m \<lparr> m_Attached := v \<rparr>) False) gctx rctx"

definition applyEnableMultiattach :: "globalContext GlobalApplyFunc" where
  "applyEnableMultiattach ts gctx = Some (SetChanged (multiattach \<circ> datamesh)
     (\<lambda>v. updDM (\<lambda>d. d \<lparr> multiattach := v \<rparr>)) True gctx)"

definition applyDisableMultiattach :: "globalContext GlobalApplyFunc" where
  "applyDisableMultiattach ts gctx = Some (SetChanged (multiattach \<circ> datamesh)
     (\<lambda>v. updDM (\<lambda>d. d \<lparr> multiattach := v \<rparr>)) False gctx)"

definition confirmMultiattach :: "globalContext GlobalConfirmFunc" where
  "confirmMultiattach ts gctx stepRevision =
     (let mustConfirm = FromWhere rx_id (allReplicas gctx) (\<lambda>rc. case rx_member rc of
            None \<Rightarrow> False | Some m \<Rightarrow> HasBackingVolume (m_Type m) \<or> m_Attached m)
      in Some (confirmResult mustConfirm (IDSet_Intersect (confirmedReplicas gctx stepRevision) mustConfirm)))"

end
