(* ===== verification/Datamesh_Plans.thy ===== *)
theory Datamesh_Plans
  imports Datamesh_Attachment
begin

text \<open>
  The plan catalogue: every \<open>Plan(...) ... Build()\<close> of \<open>membership_plan_*.go\<close>, \<open>quorum_plans.go\<close>,
  \<open>attachment_plans.go\<close>, \<open>network_plans.go\<close> and \<open>resize_plans.go\<close> is one definition, the builder
  value on which \<open>Build\<close> is called. \<open>registerPlans\<close> performs the \<open>Build\<close> calls in the order of
  the source and \<open>BuildRegistry\<close> puts the registry together. \<open>None\<close> is a panic of the plan DSL.
\<close>

type_synonym dplan = "(globalContext, rctx) PlanBuilder option"
type_synonym dregistry = "(globalContext, rctx) Registry"

subsection \<open>Transition handles\<close>

definition addReplica :: RegisteredTransition where
  "addReplica = ReplicaTransition TT_AddReplica membershipSlot"
definition removeReplica :: RegisteredTransition where
  "removeReplica = ReplicaTransition TT_RemoveReplica membershipSlot"
definition changeReplicaType :: RegisteredTransition where
  "changeReplicaType = ReplicaTransition TT_ChangeReplicaType membershipSlot"
definition forceRemove :: RegisteredTransition where
  "forceRemove = ReplicaTransition TT_ForceRemoveReplica membershipSlot"
definition attach :: RegisteredTransition where
  "attach = ReplicaTransition TT_Attach attachmentSlot"
definition detach :: RegisteredTransition where
  "detach = ReplicaTransition TT_Detach attachmentSlot"
definition forceDetach :: RegisteredTransition where
  "forceDetach = ReplicaTransition TT_ForceDetach attachmentSlot"
definition enableMultiattach :: RegisteredTransition where
  "enableMultiattach = GlobalTransition TT_EnableMultiattach"
definition disableMultiattach :: RegisteredTransition where
  "disableMultiattach = GlobalTransition TT_DisableMultiattach"
definition repairNetworkAddresses :: RegisteredTransition where
  "repairNetworkAddresses = GlobalTransition TT_RepairNetworkAddresses"
definition changeSystemNetworks :: RegisteredTransition where
  "changeSystemNetworks = GlobalTransition TT_ChangeSystemNetworks"
definition changeQuorum :: RegisteredTransition where
  "changeQuorum = GlobalTransition TT_ChangeQuorum"
definition resizeVolume :: RegisteredTransition where
  "resizeVolume = GlobalTransition TT_ResizeVolume"

subsection \<open>The builder chain\<close>

definition replicaPlan :: "RegisteredTransition \<Rightarrow> PlanID \<Rightarrow> TransitionGroup
    \<Rightarrow> ((globalContext, rctx) ReplicaInitFunc, globalContext GlobalInitFunc) raw option \<Rightarrow> string \<Rightarrow> bool
    \<Rightarrow> rguard list \<Rightarrow> dstep list
    \<Rightarrow> ((globalContext, rctx) ReplicaOnCompleteFunc, globalContext GlobalOnCompleteFunc) raw option \<Rightarrow> dplan" where
  "replicaPlan rt planID grp init display cancel guards stps onComplete = do {
     ss \<leftarrow> those stps;
     Some (PB_OnComplete onComplete (PB_Steps ss (PB_Guards (map RawReplica guards)
       (PB_CancelActiveOnCreate cancel (PB_DisplayName display (PB_Init init (PB_Group grp (Plan rt planID)))))))) }"

definition globalPlan :: "RegisteredTransition \<Rightarrow> PlanID \<Rightarrow> TransitionGroup
    \<Rightarrow> ((globalContext, rctx) ReplicaInitFunc, globalContext GlobalInitFunc) raw option \<Rightarrow> string
    \<Rightarrow> gguard list \<Rightarrow> dstep list \<Rightarrow> dplan" where
  "globalPlan rt planID grp init display guards stps = do {
     ss \<leftarrow> those stps;
     Some (PB_Steps ss (PB_Guards (map RawGlobal guards)
       (PB_DisplayName display (PB_Init init (PB_Group grp (Plan rt planID)))))) }"

subsection \<open>Access-specific callbacks\<close>

definition guardVolumeAccessNotLocal :: rguard where
  "guardVolumeAccessNotLocal = pureContextGuard (\<lambda>ts gctx.
     if cfg_VolumeAccess (configuration gctx) = VolumeAccessLocal then guardBlock ''volumeAccess is Local'' else guardPass)"

definition skipPendingDatameshJoin :: "(globalContext, rctx) SkipErrorFunc" where
  "skipPendingDatameshJoin gctx rctx i cond = (case rctx of
       None \<Rightarrow> False
     | Some r \<Rightarrow> i = rx_id (rcAt gctx r) \<and> c_Reason cond = ''PendingDatameshJoin'')"

subsection \<open>Access\<close>

definition plan_add_access :: dplan where
  "plan_add_access = replicaPlan addReplica ''access/v1'' G_NonVotingMembership (Some (RawReplica (setReplicaType RT_Access))) ''Joining datamesh'' False
     (commonAddGuards @ [guardVolumeAccessNotLocal])
     [RS (stepSkipError skipPendingDatameshJoin (mrStep (arrow sym_new ''A'') (createMember MT_Access) confirmFMPlusSubject))]
     (Some (RawReplica onJoinComplete))"

definition plan_remove_access :: dplan where
  "plan_remove_access = replicaPlan removeReplica ''access/v1'' G_NonVotingMembership (Some (RawReplica (setReplicaType RT_Access))) ''Leaving datamesh'' False
     (commonRemoveGuards)
     [RS (mrStep (arrow ''A'' sym_gone) removeMember confirmFMPlusSubjectLeaving)]
     (Some (RawReplica onLeaveComplete))"

definition registerAccessPlans :: "dplan list" where
  "registerAccessPlans = [plan_add_access, plan_remove_access]"

subsection \<open>Tie-breaker\<close>

definition plan_add_tiebreaker :: dplan where
  "plan_add_tiebreaker = replicaPlan addReplica ''tiebreaker/v1'' G_NonVotingMembership (Some (RawReplica (setReplicaType RT_TieBreaker))) ''Joining datamesh'' False
     (commonAddGuards @ gainTBGuards)
     [RS (mrStep (arrow sym_new ''TB'') (createMember MT_TieBreaker) confirmFMPlusSubject)]
     (Some (RawReplica onJoinComplete))"

definition plan_remove_tiebreaker :: dplan where
  "plan_remove_tiebreaker = replicaPlan removeReplica ''tiebreaker/v1'' G_NonVotingMembership (Some (RawReplica (setReplicaType RT_TieBreaker))) ''Leaving datamesh'' False
     (commonRemoveGuards @ loseTBGuards)
     [RS (mrStep (arrow ''TB'' sym_gone) removeMember confirmFMPlusSubjectLeaving)]
     (Some (RawReplica onLeaveComplete))"

definition registerTieBreakerPlans :: "dplan list" where
  "registerTieBreakerPlans = [plan_add_tiebreaker, plan_remove_tiebreaker]"

subsection \<open>Shadow diskful\<close>

definition plan_add_shadow_diskful :: dplan where
  "plan_add_shadow_diskful = replicaPlan addReplica ''shadow-diskful/v1'' G_NonVotingMembership (Some (RawReplica (setReplicaType RT_ShadowDiskful))) ''Joining datamesh'' False
     (commonAddGuards @ [guardShadowDiskfulSupported, guardMaxDiskMembers])
     [RS (mrStep (arrow sym_new (''sD'' @ sym_none)) (ComposeReplicaApply [createMember MT_LiminalShadowDiskful, setBackingVolumeFromRequest]) (AdaptGlobalConfirm confirmAllMembers)),
      RS (mrStep (arrow (''sD'' @ sym_none) ''sD'') (setType MT_ShadowDiskful) confirmSubjectOnly)]
     (Some (RawReplica onJoinComplete))"

definition plan_remove_shadow_diskful :: dplan where
  "plan_remove_shadow_diskful = replicaPlan removeReplica ''shadow-diskful/v1'' G_NonVotingMembership (Some (RawReplica (setReplicaType RT_ShadowDiskful))) ''Leaving datamesh'' False
     (commonRemoveGuards)
     [RS (mrStep (arrow ''sD'' sym_gone) removeMember confirmAllMembersLeaving)]
     (Some (RawReplica onLeaveComplete))"

definition registerShadowDiskfulPlans :: "dplan list" where
  "registerShadowDiskfulPlans = [plan_add_shadow_diskful, plan_remove_shadow_diskful]"

subsection \<open>Diskful\<close>

definition plan_add_diskful :: dplan where
  "plan_add_diskful = replicaPlan addReplica ''diskful/v1'' G_VotingMembership (Some (RawReplica (setReplicaType RT_Diskful))) ''Adding diskful replica'' False
     (commonAddGuards @ gainVoterGuards @ [guardVotersEven, guardMaxDiskMembers])
     [RS (mrStep (arrow sym_new (''D'' @ sym_none)) (ComposeReplicaApply [createMember MT_LiminalDiskful, setBackingVolumeFromRequest]) (AdaptGlobalConfirm confirmAllMembers)),
      RS (mrStep (arrow (''D'' @ sym_none) ''D'') (setType MT_Diskful) confirmSubjectOnly)]
     (Some (RawReplica onJoinComplete))"

definition plan_add_diskful_qmr_up :: dplan where
  "plan_add_diskful_qmr_up = replicaPlan addReplica ''diskful-qmr-up/v1'' G_VotingMembership (Some (RawReplica (setReplicaType RT_Diskful))) ''Adding diskful replica'' False
     (commonAddGuards @ gainVoterGuards @ [guardVotersEven, guardQMRRaiseNeeded, guardMaxDiskMembers])
     [RS (mrStep (arrow sym_new (''D'' @ sym_none)) (ComposeReplicaApply [createMember MT_LiminalDiskful, setBackingVolumeFromRequest]) (AdaptGlobalConfirm confirmAllMembers)),
      RS (mrStep (arrow (''D'' @ sym_none) ''D'') (setType MT_Diskful) confirmSubjectOnly),
      GS (gstepOnComplete (AdaptApplyToOnComplete updateBaselineGMDR) (mgStep (''qmr'' @ sym_up) raiseQMR confirmAllMembers))]
     (Some (RawReplica onJoinComplete))"

definition plan_add_diskful_q_up :: dplan where
  "plan_add_diskful_q_up = replicaPlan addReplica ''diskful-q-up/v1'' G_VotingMembership (Some (RawReplica (setReplicaType RT_Diskful))) ''Adding diskful replica'' False
     (commonAddGuards @ gainVoterGuards @ [guardVotersOdd, guardMaxDiskMembers])
     [RS (mrStep (arrow sym_new ''A'') (createMember MT_Access) confirmFMPlusSubject),
      RS (mrStep (arrow ''A'' (''D'' @ sym_none @ '' + q'' @ sym_up)) (ComposeReplicaApply [setType MT_LiminalDiskful, setBackingVolumeFromRequest, AdaptGlobalApply raiseQ]) (AdaptGlobalConfirm confirmAllMembers)),
      RS (mrStep (arrow (''D'' @ sym_none) ''D'') (setType MT_Diskful) confirmSubjectOnly)]
     (Some (RawReplica onJoinComplete))"

definition plan_add_diskful_q_up_qmr_up :: dplan where
  "plan_add_diskful_q_up_qmr_up = replicaPlan addReplica ''diskful-q-up-qmr-up/v1'' G_VotingMembership (Some (RawReplica (setReplicaType RT_Diskful))) ''Adding diskful replica'' False
     (commonAddGuards @ gainVoterGuards @ [guardVotersOdd, guardQMRRaiseNeeded, guardMaxDiskMembers])
     [RS (mrStep (arrow sym_new ''A'') (createMember MT_Access) confirmFMPlusSubject),
      RS (mrStep (arrow ''A'' (''D'' @ sym_none @ '' + q'' @ sym_up)) (ComposeReplicaApply [setType MT_LiminalDiskful, setBackingVolumeFromRequest, AdaptGlobalApply raiseQ]) (AdaptGlobalConfirm confirmAllMembers)),
      RS (mrStep (arrow (''D'' @ sym_none) ''D'') (setType MT_Diskful) confirmSubjectOnly),
      GS (gstepOnComplete (AdaptApplyToOnComplete updateBaselineGMDR) (mgStep (''qmr'' @ sym_up) raiseQMR confirmAllMembers))]
     (Some (RawReplica onJoinComplete))"

definition plan_add_diskful_via_sd :: dplan where
  "plan_add_diskful_via_sd = replicaPlan addReplica ''diskful-via-sd/v1'' G_VotingMembership (Some (RawReplica (setReplicaType RT_Diskful))) ''Adding diskful replica'' False
     (commonAddGuards @ gainVoterGuards @ [guardVotersEven, guardShadowDiskfulSupported, guardMaxDiskMembers])
     [RS (mrStep (arrow sym_new (''sD'' @ sym_none)) (ComposeReplicaApply [createMember MT_LiminalShadowDiskful, setBackingVolumeFromRequest]) (AdaptGlobalConfirm confirmAllMembers)),
      RS (mrStep (arrow (''sD'' @ sym_none) ''sD'') (setType MT_ShadowDiskful) confirmSubjectOnly),
      RS (mrStep (arrow ''sD'' ''D'') (setType MT_Diskful) (AdaptGlobalConfirm confirmAllMembers))]
     (Some (RawReplica onJoinComplete))"

definition plan_add_diskful_via_sd_qmr_up :: dplan where
  "plan_add_diskful_via_sd_qmr_up = replicaPlan addReplica ''diskful-via-sd-qmr-up/v1'' G_VotingMembership (Some (RawReplica (setReplicaType RT_Diskful))) ''Adding diskful replica'' False
     (commonAddGuards @ gainVoterGuards @ [guardVotersEven, guardQMRRaiseNeeded, guardShadowDiskfulSupported, guardMaxDiskMembers])
     [RS (mrStep (arrow sym_new (''sD'' @ sym_none)) (ComposeReplicaApply [createMember MT_LiminalShadowDiskful, setBackingVolumeFromRequest]) (AdaptGlobalConfirm confirmAllMembers)),
      RS (mrStep (arrow (''sD'' @ sym_none) ''sD'') (setType MT_ShadowDiskful) confirmSubjectOnly),
      RS (mrStep (arrow ''sD'' ''D'') (setType MT_Diskful) (AdaptGlobalConfirm confirmAllMembers)),
      GS (gstepOnComplete (AdaptApplyToOnComplete updateBaselineGMDR) (mgStep (''qmr'' @ sym_up) raiseQMR confirmAllMembers))]
     (Some (RawReplica onJoinComplete))"

definition plan_add_diskful_via_sd_q_up :: dplan where
  "plan_add_diskful_via_sd_q_up = replicaPlan addReplica ''diskful-via-sd-q-up/v1'' G_VotingMembership (Some (RawReplica (setReplicaType RT_Diskful))) ''Adding diskful replica'' False
     (commonAddGuards @ gainVoterGuards @ [guardVotersOdd, guardShadowDiskfulSupported, guardMaxDiskMembers])
     [RS (mrStep (arrow sym_new (''sD'' @ sym_none)) (ComposeReplicaApply [createMember MT_LiminalShadowDiskful, setBackingVolumeFromRequest]) (AdaptGlobalConfirm confirmAllMembers)),
      RS (mrStep (arrow (''sD'' @ sym_none) ''sD'') (setType MT_ShadowDiskful) confirmSubjectOnly),
      RS (mrStep (arrow ''sD'' (''sD'' @ sym_none)) (setType MT_LiminalShadowDiskful) confirmSubjectOnly),
      RS (mrStep (arrow (''sD'' @ sym_none) (''D'' @ sym_none @ '' + q'' @ sym_up)) (ComposeReplicaApply [setType MT_LiminalDiskful, setBackingVolumeFromRequest, AdaptGlobalApply raiseQ]) (AdaptGlobalConfirm confirmAllMembers)),
      RS (mrStep (arrow (''D'' @ sym_none) ''D'') (setType MT_Diskful) confirmSubjectOnly)]
     (Some (RawReplica onJoinComplete))"

definition plan_add_diskful_via_sd_q_up_qmr_up :: dplan where
  "plan_add_diskful_via_sd_q_up_qmr_up = replicaPlan addReplica ''diskful-via-sd-q-up-qmr-up/v1'' G_VotingMembership (Some (RawReplica (setReplicaType RT_Diskful))) ''Adding diskful replica'' False
     (commonAddGuards @ gainVoterGuards @ [guardVotersOdd, guardQMRRaiseNeeded, guardShadowDiskfulSupported, guardMaxDiskMembers])
     [RS (mrStep (arrow sym_new (''sD'' @ sym_none)) (ComposeReplicaApply [createMember MT_LiminalShadowDiskful, setBackingVolumeFromRequest]) (AdaptGlobalConfirm confirmAllMembers)),
      RS (mrStep (arrow (''sD'' @ sym_none) ''sD'') (setType MT_ShadowDiskful) confirmSubjectOnly),
      RS (mrStep (arrow ''sD'' (''sD'' @ sym_none)) (setType MT_LiminalShadowDiskful) confirmSubjectOnly),
      RS (mrStep (arrow (''sD'' @ sym_none) (''D'' @ sym_none @ '' + q'' @ sym_up)) (ComposeReplicaApply [setType MT_LiminalDiskful, setBackingVolumeFromRequest, AdaptGlobalApply raiseQ]) (AdaptGlobalConfirm confirmAllMembers)),
      RS (mrStep (arrow (''D'' @ sym_none) ''D'') (setType MT_Diskful) confirmSubjectOnly),
      GS (gstepOnComplete (AdaptApplyToOnComplete updateBaselineGMDR) (mgStep (''qmr'' @ sym_up) raiseQMR confirmAllMembers))]
     (Some (RawReplica onJoinComplete))"

definition plan_remove_diskful :: dplan where
  "plan_remove_diskful = replicaPlan removeReplica ''remove-diskful/v1'' G_VotingMembership (Some (RawReplica (setReplicaType RT_Diskful))) ''Removing diskful replica'' False
     (commonRemoveGuards @ loseVoterGuards @ [guardVotersOdd])
     [RS (mrStep (arrow ''D'' (''D'' @ sym_none)) (setType MT_LiminalDiskful) confirmSubjectOnly),
      RS (mrStep (arrow (''D'' @ sym_none) sym_gone) removeMember confirmAllMembersLeaving)]
     (Some (RawReplica onLeaveComplete))"

definition plan_remove_diskful_qmr_down :: dplan where
  "plan_remove_diskful_qmr_down = replicaPlan removeReplica ''remove-diskful-qmr-down/v1'' G_VotingMembership (Some (RawReplica (setReplicaType RT_Diskful))) ''Removing diskful replica'' False
     (commonRemoveGuards @ loseVoterGuards @ [guardVotersOdd, guardQMRLowerNeeded])
     [GS (mgStep (''qmr'' @ sym_down) (ComposeGlobalApply [lowerQMR, updateBaselineGMDR]) confirmAllMembers),
      RS (mrStep (arrow ''D'' (''D'' @ sym_none)) (setType MT_LiminalDiskful) confirmSubjectOnly),
      RS (mrStep (arrow (''D'' @ sym_none) sym_gone) removeMember confirmAllMembersLeaving)]
     (Some (RawReplica onLeaveComplete))"

definition plan_remove_diskful_q_down :: dplan where
  "plan_remove_diskful_q_down = replicaPlan removeReplica ''remove-diskful-q-down/v1'' G_VotingMembership (Some (RawReplica (setReplicaType RT_Diskful))) ''Removing diskful replica'' False
     (commonRemoveGuards @ loseVoterGuards @ [guardVotersEven])
     [RS (mrStep (arrow ''D'' (''D'' @ sym_none)) (setType MT_LiminalDiskful) confirmSubjectOnly),
      RS (mrStep (arrow (''D'' @ sym_none) (''A + q'' @ sym_down)) (ComposeReplicaApply [setType MT_Access, clearBackingVolume, AdaptGlobalApply lowerQ]) (AdaptGlobalConfirm confirmAllMembers)),
      RS (mrStep (arrow ''A'' sym_gone) removeMember confirmFMPlusSubjectLeaving)]
     (Some (RawReplica onLeaveComplete))"

definition plan_remove_diskful_qmr_down_q_down :: dplan where
  "plan_remove_diskful_qmr_down_q_down = replicaPlan removeReplica ''remove-diskful-qmr-down-q-down/v1'' G_VotingMembership (Some (RawReplica (setReplicaType RT_Diskful))) ''Removing diskful replica'' False
     (commonRemoveGuards @ loseVoterGuards @ [guardVotersEven, guardQMRLowerNeeded])
     [GS (mgStep (''qmr'' @ sym_down) (ComposeGlobalApply [lowerQMR, updateBaselineGMDR]) confirmAllMembers),
      RS (mrStep (arrow ''D'' (''D'' @ sym_none)) (setType MT_LiminalDiskful) confirmSubjectOnly),
      RS (mrStep (arrow (''D'' @ sym_none) (''A + q'' @ sym_down)) (ComposeReplicaApply [setType MT_Access, clearBackingVolume, AdaptGlobalApply lowerQ]) (AdaptGlobalConfirm confirmAllMembers)),
      RS (mrStep (arrow ''A'' sym_gone) removeMember confirmFMPlusSubjectLeaving)]
     (Some (RawReplica onLeaveComplete))"

definition registerDiskfulPlans :: "dplan list" where
  "registerDiskfulPlans = [plan_add_diskful, plan_add_diskful_qmr_up, plan_add_diskful_q_up, plan_add_diskful_q_up_qmr_up, plan_add_diskful_via_sd, plan_add_diskful_via_sd_qmr_up, plan_add_diskful_via_sd_q_up, plan_add_diskful_via_sd_q_up_qmr_up, plan_remove_diskful, plan_remove_diskful_qmr_down, plan_remove_diskful_q_down, plan_remove_diskful_qmr_down_q_down]"

subsection \<open>Type changes\<close>

definition plan_change_a_to_tb :: dplan where
  "plan_change_a_to_tb = replicaPlan changeReplicaType ''a-to-tb/v1'' G_NonVotingMembership (Some (RawReplica (setReplicaFromToType RT_Access RT_TieBreaker))) ''Changing replica type'' False
     (gainTBGuards)
     [RS (mrStep (arrow ''A'' ''TB'') (setType MT_TieBreaker) confirmFMPlusSubject)]
     (Some (RawReplica onChangeTypeComplete))"

definition plan_change_tb_to_a :: dplan where
  "plan_change_tb_to_a = replicaPlan changeReplicaType ''tb-to-a/v1'' G_NonVotingMembership (Some (RawReplica (setReplicaFromToType RT_TieBreaker RT_Access))) ''Changing replica type'' False
     ([guardVolumeAccessNotLocal] @ loseTBGuards)
     [RS (mrStep (arrow ''TB'' ''A'') (setType MT_Access) confirmFMPlusSubject)]
     (Some (RawReplica onChangeTypeComplete))"

definition plan_change_a_to_sd :: dplan where
  "plan_change_a_to_sd = replicaPlan changeReplicaType ''a-to-sd/v1'' G_NonVotingMembership (Some (RawReplica (setReplicaFromToType RT_Access RT_ShadowDiskful))) ''Changing replica type'' False
     ([guardShadowDiskfulSupported, guardMaxDiskMembers])
     [RS (mrStep (arrow ''A'' (''sD'' @ sym_none)) (ComposeReplicaApply [setType MT_LiminalShadowDiskful, setBackingVolumeFromRequest]) (AdaptGlobalConfirm confirmAllMembers)),
      RS (mrStep (arrow (''sD'' @ sym_none) ''sD'') (setType MT_ShadowDiskful) confirmSubjectOnly)]
     (Some (RawReplica onChangeTypeComplete))"

definition plan_change_sd_to_a :: dplan where
  "plan_change_sd_to_a = replicaPlan changeReplicaType ''sd-to-a/v1'' G_NonVotingMembership (Some (RawReplica (setReplicaFromToType RT_ShadowDiskful RT_Access))) ''Changing replica type'' False
     ([guardVolumeAccessNotLocal])
     [RS (mrStep (arrow ''sD'' (''sD'' @ sym_none)) (setType MT_LiminalShadowDiskful) confirmSubjectOnly),
      RS (mrStep (arrow (''sD'' @ sym_none) ''A'') (ComposeReplicaApply [setType MT_Access, clearBackingVolume]) (AdaptGlobalConfirm confirmAllMembers))]
     (Some (RawReplica onChangeTypeComplete))"

definition plan_change_tb_to_sd :: dplan where
  "plan_change_tb_to_sd = replicaPlan changeReplicaType ''tb-to-sd/v1'' G_NonVotingMembership (Some (RawReplica (setReplicaFromToType RT_TieBreaker RT_ShadowDiskful))) ''Changing replica type'' False
     ([guardShadowDiskfulSupported, guardMaxDiskMembers] @ loseTBGuards)
     [RS (mrStep (arrow ''TB'' (''sD'' @ sym_none)) (ComposeReplicaApply [setType MT_LiminalShadowDiskful, setBackingVolumeFromRequest]) (AdaptGlobalConfirm confirmAllMembers)),
      RS (mrStep (arrow (''sD'' @ sym_none) ''sD'') (setType MT_ShadowDiskful) confirmSubjectOnly)]
     (Some (RawReplica onChangeTypeComplete))"

definition plan_change_sd_to_tb :: dplan where
  "plan_change_sd_to_tb = replicaPlan changeReplicaType ''sd-to-tb/v1'' G_NonVotingMembership (Some (RawReplica (setReplicaFromToType RT_ShadowDiskful RT_TieBreaker))) ''Changing replica type'' False
     ([guardVolumeAccessNotLocal] @ gainTBGuards)
     [RS (mrStep (arrow ''sD'' (''sD'' @ sym_none)) (setType MT_LiminalShadowDiskful) confirmSubjectOnly),
      RS (mrStep (arrow (''sD'' @ sym_none) ''TB'') (ComposeReplicaApply [setType MT_TieBreaker, clearBackingVolume]) (AdaptGlobalConfirm confirmAllMembers))]
     (Some (RawReplica onChangeTypeComplete))"

definition plan_change_sd_to_d :: dplan where
  "plan_change_sd_to_d = replicaPlan changeReplicaType ''sd-to-d/v1'' G_VotingMembership (Some (RawReplica (setReplicaFromToType RT_ShadowDiskful RT_Diskful))) ''Changing replica type'' False
     (gainVoterGuards @ [guardShadowDiskfulSupported, guardVotersEven])
     [RS (mrStep (arrow ''sD'' ''D'') (setType MT_Diskful) (AdaptGlobalConfirm confirmAllMembers))]
     (Some (RawReplica onChangeTypeComplete))"

definition plan_change_sd_to_d_q_up :: dplan where
  "plan_change_sd_to_d_q_up = replicaPlan changeReplicaType ''sd-to-d-q-up/v1'' G_VotingMembership (Some (RawReplica (setReplicaFromToType RT_ShadowDiskful RT_Diskful))) ''Changing replica type'' False
     (gainVoterGuards @ [guardShadowDiskfulSupported, guardVotersOdd])
     [RS (mrStep (arrow ''sD'' (''sD'' @ sym_none)) (setType MT_LiminalShadowDiskful) confirmSubjectOnly),
      RS (mrStep (arrow (''sD'' @ sym_none) (''D'' @ sym_none @ '' + q'' @ sym_up)) (ComposeReplicaApply [setType MT_LiminalDiskful, AdaptGlobalApply raiseQ]) (AdaptGlobalConfirm confirmAllMembers)),
      RS (mrStep (arrow (''D'' @ sym_none) ''D'') (setType MT_Diskful) confirmSubjectOnly)]
     (Some (RawReplica onChangeTypeComplete))"

definition plan_change_d_to_sd :: dplan where
  "plan_change_d_to_sd = replicaPlan changeReplicaType ''d-to-sd/v1'' G_VotingMembership (Some (RawReplica (setReplicaFromToType RT_Diskful RT_ShadowDiskful))) ''Changing replica type'' False
     (loseVoterGuards @ [guardShadowDiskfulSupported, guardVotersOdd])
     [RS (mrStep (arrow ''D'' ''sD'') (setType MT_ShadowDiskful) (AdaptGlobalConfirm confirmAllMembers))]
     (Some (RawReplica onChangeTypeComplete))"

definition plan_change_d_to_sd_q_down :: dplan where
  "plan_change_d_to_sd_q_down = replicaPlan changeReplicaType ''d-to-sd-q-down/v1'' G_VotingMembership (Some (RawReplica (setReplicaFromToType RT_Diskful RT_ShadowDiskful))) ''Changing replica type'' False
     (loseVoterGuards @ [guardShadowDiskfulSupported, guardVotersEven])
     [RS (mrStep (arrow ''D'' (''D'' @ sym_none)) (setType MT_LiminalDiskful) confirmSubjectOnly),
      RS (mrStep (arrow (''D'' @ sym_none) (''sD'' @ sym_none @ '' + q'' @ sym_down)) (ComposeReplicaApply [setType MT_LiminalShadowDiskful, AdaptGlobalApply lowerQ]) (AdaptGlobalConfirm confirmAllMembers)),
      RS (mrStep (arrow (''sD'' @ sym_none) ''sD'') (setType MT_ShadowDiskful) confirmSubjectOnly)]
     (Some (RawReplica onChangeTypeComplete))"

definition plan_change_a_to_d :: dplan where
  "plan_change_a_to_d = replicaPlan changeReplicaType ''a-to-d/v1'' G_VotingMembership (Some (RawReplica (setReplicaFromToType RT_Access RT_Diskful))) ''Changing replica type'' False
     (gainVoterGuards @ [guardVotersEven, guardMaxDiskMembers])
     [RS (mrStep (arrow ''A'' (''D'' @ sym_none)) (ComposeReplicaApply [setType MT_LiminalDiskful, setBackingVolumeFromRequest]) (AdaptGlobalConfirm confirmAllMembers)),
      RS (mrStep (arrow (''D'' @ sym_none) ''D'') (setType MT_Diskful) confirmSubjectOnly)]
     (Some (RawReplica onChangeTypeComplete))"

definition plan_change_a_to_d_q_up :: dplan where
  "plan_change_a_to_d_q_up = replicaPlan changeReplicaType ''a-to-d-q-up/v1'' G_VotingMembership (Some (RawReplica (setReplicaFromToType RT_Access RT_Diskful))) ''Changing replica type'' False
     (gainVoterGuards @ [guardVotersOdd, guardMaxDiskMembers])
     [RS (mrStep (arrow ''A'' (''D'' @ sym_none @ '' + q'' @ sym_up)) (ComposeReplicaApply [setType MT_LiminalDiskful, setBackingVolumeFromRequest, AdaptGlobalApply raiseQ]) (AdaptGlobalConfirm confirmAllMembers)),
      RS (mrStep (arrow (''D'' @ sym_none) ''D'') (setType MT_Diskful) confirmSubjectOnly)]
     (Some (RawReplica onChangeTypeComplete))"

definition plan_change_a_to_d_via_sd :: dplan where
  "plan_change_a_to_d_via_sd = replicaPlan changeReplicaType ''a-to-d-via-sd/v1'' G_VotingMembership (Some (RawReplica (setReplicaFromToType RT_Access RT_Diskful))) ''Changing replica type'' False
     (gainVoterGuards @ [guardVotersEven, guardShadowDiskfulSupported, guardMaxDiskMembers])
     [RS (mrStep (arrow ''A'' (''sD'' @ sym_none)) (ComposeReplicaApply [setType MT_LiminalShadowDiskful, setBackingVolumeFromRequest]) (AdaptGlobalConfirm confirmAllMembers)),
      RS (mrStep (arrow (''sD'' @ sym_none) ''sD'') (setType MT_ShadowDiskful) confirmSubjectOnly),
      RS (mrStep (arrow ''sD'' ''D'') (setType MT_Diskful) (AdaptGlobalConfirm confirmAllMembers))]
     (Some (RawReplica onChangeTypeComplete))"

definition plan_change_a_to_d_via_sd_q_up :: dplan where
  "plan_change_a_to_d_via_sd_q_up = replicaPlan changeReplicaType ''a-to-d-via-sd-q-up/v1'' G_VotingMembership (Some (RawReplica (setReplicaFromToType RT_Access RT_Diskful))) ''Changing replica type'' False
     (gainVoterGuards @ [guardVotersOdd, guardShadowDiskfulSupported, guardMaxDiskMembers])
     [RS (mrStep (arrow ''A'' (''sD'' @ sym_none)) (ComposeReplicaApply [setType MT_LiminalShadowDiskful, setBackingVolumeFromRequest]) (AdaptGlobalConfirm confirmAllMembers)),
      RS (mrStep (arrow (''sD'' @ sym_none) ''sD'') (setType MT_ShadowDiskful) confirmSubjectOnly),
      RS (mrStep (arrow ''sD'' (''sD'' @ sym_none)) (setType MT_LiminalShadowDiskful) confirmSubjectOnly),
      RS (mrStep (arrow (''sD'' @ sym_none) (''D'' @ sym_none @ '' + q'' @ sym_up)) (ComposeReplicaApply [setType MT_LiminalDiskful, AdaptGlobalApply raiseQ]) (AdaptGlobalConfirm confirmAllMembers)),
      RS (mrStep (arrow (''D'' @ sym_none) ''D'') (setType MT_Diskful) confirmSubjectOnly)]
     (Some (RawReplica onChangeTypeComplete))"

definition plan_change_d_to_a :: dplan where
  "plan_change_d_to_a = replicaPlan changeReplicaType ''d-to-a/v1'' G_VotingMembership (Some (RawReplica (setReplicaFromToType RT_Diskful RT_Access))) ''Changing replica type'' False
     (loseVoterGuards @ [guardVolumeAccessNotLocal, guardVotersOdd])
     [RS (mrStep (arrow ''D'' (''D'' @ sym_none)) (setType MT_LiminalDiskful) confirmSubjectOnly),
      RS (mrStep (arrow (''D'' @ sym_none) ''A'') (ComposeReplicaApply [setType MT_Access, clearBackingVolume]) (AdaptGlobalConfirm confirmAllMembers))]
     (Some (RawReplica onChangeTypeComplete))"

definition plan_change_d_to_a_q_down :: dplan where
  "plan_change_d_to_a_q_down = replicaPlan changeReplicaType ''d-to-a-q-down/v1'' G_VotingMembership (Some (RawReplica (setReplicaFromToType RT_Diskful RT_Access))) ''Changing replica type'' False
     (loseVoterGuards @ [guardVolumeAccessNotLocal, guardVotersEven])
     [RS (mrStep (arrow ''D'' (''D'' @ sym_none)) (setType MT_LiminalDiskful) confirmSubjectOnly),
      RS (mrStep (arrow (''D'' @ sym_none) (''A + q'' @ sym_down)) (ComposeReplicaApply [setType MT_Access, clearBackingVolume, AdaptGlobalApply lowerQ]) (AdaptGlobalConfirm confirmAllMembers))]
     (Some (RawReplica onChangeTypeComplete))"

definition plan_change_tb_to_d :: dplan where
  "plan_change_tb_to_d = replicaPlan changeReplicaType ''tb-to-d/v1'' G_VotingMembership (Some (RawReplica (setReplicaFromToType RT_TieBreaker RT_Diskful))) ''Changing replica type'' False
     (loseTBGuards @ gainVoterGuards @ [guardVotersEven, guardMaxDiskMembers])
     [RS (mrStep (arrow ''TB'' (''D'' @ sym_none)) (ComposeReplicaApply [setType MT_LiminalDiskful, setBackingVolumeFromRequest]) (AdaptGlobalConfirm confirmAllMembers)),
      RS (mrStep (arrow (''D'' @ sym_none) ''D'') (setType MT_Diskful) confirmSubjectOnly)]
     (Some (RawReplica onChangeTypeComplete))"

definition plan_change_tb_to_d_q_up :: dplan where
  "plan_change_tb_to_d_q_up = replicaPlan changeReplicaType ''tb-to-d-q-up/v1'' G_VotingMembership (Some (RawReplica (setReplicaFromToType RT_TieBreaker RT_Diskful))) ''Changing replica type'' False
     (loseTBGuards @ gainVoterGuards @ [guardVotersOdd, guardMaxDiskMembers])
     [RS (mrStep (arrow ''TB'' (''D'' @ sym_none @ '' + q'' @ sym_up)) (ComposeReplicaApply [setType MT_LiminalDiskful, setBackingVolumeFromRequest, AdaptGlobalApply raiseQ]) (AdaptGlobalConfirm confirmAllMembers)),
      RS (mrStep (arrow (''D'' @ sym_none) ''D'') (setType MT_Diskful) confirmSubjectOnly)]
     (Some (RawReplica onChangeTypeComplete))"

definition plan_change_tb_to_d_via_sd :: dplan where
  "plan_change_tb_to_d_via_sd = replicaPlan changeReplicaType ''tb-to-d-via-sd/v1'' G_VotingMembership (Some (RawReplica (setReplicaFromToType RT_TieBreaker RT_Diskful))) ''Changing replica type'' False
     (loseTBGuards @ gainVoterGuards @ [guardVotersEven, guardShadowDiskfulSupported, guardMaxDiskMembers])
     [RS (mrStep (arrow ''TB'' (''sD'' @ sym_none)) (ComposeReplicaApply [setType MT_LiminalShadowDiskful, setBackingVolumeFromRequest]) (AdaptGlobalConfirm confirmAllMembers)),
      RS (mrStep (arrow (''sD'' @ sym_none) ''sD'') (setType MT_ShadowDiskful) confirmSubjectOnly),
      RS (mrStep (arrow ''sD'' ''D'') (setType MT_Diskful) (AdaptGlobalConfirm confirmAllMembers))]
     (Some (RawReplica onChangeTypeComplete))"

definition plan_change_tb_to_d_via_sd_q_up :: dplan where
  "plan_change_tb_to_d_via_sd_q_up = replicaPlan changeReplicaType ''tb-to-d-via-sd-q-up/v1'' G_VotingMembership (Some (RawReplica (setReplicaFromToType RT_TieBreaker RT_Diskful))) ''Changing replica type'' False
     (loseTBGuards @ gainVoterGuards @ [guardVotersOdd, guardShadowDiskfulSupported, guardMaxDiskMembers])
     [RS (mrStep (arrow ''TB'' (''sD'' @ sym_none)) (ComposeReplicaApply [setType MT_LiminalShadowDiskful, setBackingVolumeFromRequest]) (AdaptGlobalConfirm confirmAllMembers)),
      RS (mrStep (arrow (''sD'' @ sym_none) ''sD'') (setType MT_ShadowDiskful) confirmSubjectOnly),
      RS (mrStep (arrow ''sD'' (''sD'' @ sym_none)) (setType MT_LiminalShadowDiskful) confirmSubjectOnly),
      RS (mrStep (arrow (''sD'' @ sym_none) (''D'' @ sym_none @ '' + q'' @ sym_up)) (ComposeReplicaApply [setType MT_LiminalDiskful, AdaptGlobalApply raiseQ]) (AdaptGlobalConfirm confirmAllMembers)),
      RS (mrStep (arrow (''D'' @ sym_none) ''D'') (setType MT_Diskful) confirmSubjectOnly)]
     (Some (RawReplica onChangeTypeComplete))"

definition plan_change_d_to_tb :: dplan where
  "plan_change_d_to_tb = replicaPlan changeReplicaType ''d-to-tb/v1'' G_VotingMembership (Some (RawReplica (setReplicaFromToType RT_Diskful RT_TieBreaker))) ''Changing replica type'' False
     (loseVoterToTieBreakerGuards @ [guardVotersOdd])
     [RS (mrStep (arrow ''D'' (''D'' @ sym_none)) (setType MT_LiminalDiskful) confirmSubjectOnly),
      RS (mrStep (arrow (''D'' @ sym_none) ''TB'') (ComposeReplicaApply [setType MT_TieBreaker, clearBackingVolume]) (AdaptGlobalConfirm confirmAllMembers))]
     (Some (RawReplica onChangeTypeComplete))"

definition plan_change_d_to_tb_q_down :: dplan where
  "plan_change_d_to_tb_q_down = replicaPlan changeReplicaType ''d-to-tb-q-down/v1'' G_VotingMembership (Some (RawReplica (setReplicaFromToType RT_Diskful RT_TieBreaker))) ''Changing replica type'' False
     (loseVoterToTieBreakerGuards @ [guardVotersEven])
     [RS (mrStep (arrow ''D'' (''D'' @ sym_none)) (setType MT_LiminalDiskful) confirmSubjectOnly),
      RS (mrStep (arrow (''D'' @ sym_none) (''TB + q'' @ sym_down)) (ComposeReplicaApply [setType MT_TieBreaker, clearBackingVolume, AdaptGlobalApply lowerQ]) (AdaptGlobalConfirm confirmAllMembers))]
     (Some (RawReplica onChangeTypeComplete))"

definition registerChangeTypePlans :: "dplan list" where
  "registerChangeTypePlans = [plan_change_a_to_tb, plan_change_tb_to_a, plan_change_a_to_sd, plan_change_sd_to_a, plan_change_tb_to_sd, plan_change_sd_to_tb, plan_change_sd_to_d, plan_change_sd_to_d_q_up, plan_change_d_to_sd, plan_change_d_to_sd_q_down, plan_change_a_to_d, plan_change_a_to_d_q_up, plan_change_a_to_d_via_sd, plan_change_a_to_d_via_sd_q_up, plan_change_d_to_a, plan_change_d_to_a_q_down, plan_change_tb_to_d, plan_change_tb_to_d_q_up, plan_change_tb_to_d_via_sd, plan_change_tb_to_d_via_sd_q_up, plan_change_d_to_tb, plan_change_d_to_tb_q_down]"

subsection \<open>Force removal\<close>

definition plan_force_remove_access :: dplan where
  "plan_force_remove_access = replicaPlan forceRemove ''access/v1'' G_Emergency (Some (RawReplica (setReplicaType RT_Access))) ''Force-removing replica'' True
     (forceRemoveGuards)
     [RS (mrStep ''Force remove'' removeMember (AdaptGlobalConfirm confirmAllMembers))]
     (Some (RawReplica onForceRemoveComplete))"

definition plan_force_remove_tiebreaker :: dplan where
  "plan_force_remove_tiebreaker = replicaPlan forceRemove ''tiebreaker/v1'' G_Emergency (Some (RawReplica (setReplicaType RT_TieBreaker))) ''Force-removing replica'' True
     (forceRemoveGuards)
     [RS (mrStep ''Force remove'' removeMember (AdaptGlobalConfirm confirmAllMembers))]
     (Some (RawReplica onForceRemoveComplete))"

definition plan_force_remove_shadow_diskful :: dplan where
  "plan_force_remove_shadow_diskful = replicaPlan forceRemove ''shadow-diskful/v1'' G_Emergency (Some (RawReplica (setReplicaType RT_ShadowDiskful))) ''Force-removing replica'' True
     (forceRemoveGuards)
     [RS (mrStep ''Force remove'' removeMember (AdaptGlobalConfirm confirmAllMembers))]
     (Some (RawReplica onForceRemoveComplete))"

definition plan_force_remove_diskful :: dplan where
  "plan_force_remove_diskful = replicaPlan forceRemove ''diskful/v1'' G_Emergency (Some (RawReplica (setReplicaType RT_Diskful))) ''Force-removing replica'' True
     (forceRemoveGuards @ [guardVotersOdd])
     [RS (mrStep ''Force remove'' removeMember (AdaptGlobalConfirm confirmAllMembers))]
     (Some (RawReplica onForceRemoveComplete))"

definition plan_force_remove_diskful_q_down :: dplan where
  "plan_force_remove_diskful_q_down = replicaPlan forceRemove ''diskful-q-down/v1'' G_Emergency (Some (RawReplica (setReplicaType RT_Diskful))) ''Force-removing replica'' True
     (forceRemoveGuards @ [guardVotersEven])
     [RS (mrStep ''Force remove'' (ComposeReplicaApply [removeMember, AdaptGlobalApply lowerQ]) (AdaptGlobalConfirm confirmAllMembers))]
     (Some (RawReplica onForceRemoveComplete))"

definition registerForceRemovePlans :: "dplan list" where
  "registerForceRemovePlans = [plan_force_remove_access, plan_force_remove_tiebreaker, plan_force_remove_shadow_diskful, plan_force_remove_diskful, plan_force_remove_diskful_q_down]"

subsection \<open>Quorum\<close>

definition plan_quorum_lower :: dplan where
  "plan_quorum_lower = globalPlan changeQuorum ''lower/v1'' G_Quorum (None) ''Adjusting quorum''
     ([])
     [GS (mgStep (''qmr'' @ sym_down) (ComposeGlobalApply [setCorrectQMR, updateBaselineGMDR]) confirmAllMembers),
      GS (mgStep (''q'' @ sym_down) setCorrectQ confirmAllMembers)]"

definition plan_quorum_raise :: dplan where
  "plan_quorum_raise = globalPlan changeQuorum ''raise/v1'' G_Quorum (None) ''Adjusting quorum''
     ([])
     [GS (mgStep (''q'' @ sym_up) setCorrectQ confirmAllMembers),
      GS (gstepOnComplete (AdaptApplyToOnComplete updateBaselineGMDR) (mgStep (''qmr'' @ sym_up) setCorrectQMR confirmAllMembers))]"

definition plan_quorum_lower_q_raise_qmr :: dplan where
  "plan_quorum_lower_q_raise_qmr = globalPlan changeQuorum ''lower-q-raise-qmr/v1'' G_Quorum (None) ''Adjusting quorum''
     ([])
     [GS (mgStep (''q'' @ sym_down) setCorrectQ confirmAllMembers),
      GS (gstepOnComplete (AdaptApplyToOnComplete updateBaselineGMDR) (mgStep (''qmr'' @ sym_up) setCorrectQMR confirmAllMembers))]"

definition plan_quorum_raise_q_lower_qmr :: dplan where
  "plan_quorum_raise_q_lower_qmr = globalPlan changeQuorum ''raise-q-lower-qmr/v1'' G_Quorum (None) ''Adjusting quorum''
     ([])
     [GS (mgStep (''q'' @ sym_up) setCorrectQ confirmAllMembers),
      GS (mgStep (''qmr'' @ sym_down) (ComposeGlobalApply [setCorrectQMR, updateBaselineGMDR]) confirmAllMembers)]"

definition registerQuorumPlans :: "dplan list" where
  "registerQuorumPlans = [plan_quorum_lower, plan_quorum_raise, plan_quorum_lower_q_raise_qmr, plan_quorum_raise_q_lower_qmr]"

subsection \<open>Attachment\<close>

definition plan_attach :: dplan where
  "plan_attach = replicaPlan attach ''attach/v1'' G_Attachment (None) ''Attaching volume'' False
     ([guardAttachNotDeleting, guardNodeOperational, guardRVRReady, guardMemberExists, guardNoActiveMembershipTransition, guardQuorumSatisfied, guardSlotAvailable, guardVolumeAccessLocalForAttach])
     [RS (stepDetails ''Attaching'' (arStep ''Attach'' applyAttach confirmSubjectOnly))]
     (None)"

definition plan_detach :: dplan where
  "plan_detach = replicaPlan detach ''detach/v1'' G_Attachment (None) ''Detaching volume'' False
     ([guardDeviceNotInUse])
     [RS (stepDetails ''Detaching'' (arStep ''Detach'' applyDetach confirmSubjectOnlyLeavingOrGone))]
     (None)"

definition plan_force_detach :: dplan where
  "plan_force_detach = replicaPlan forceDetach ''force-detach/v1'' G_Emergency (None) ''Force-detaching volume'' True
     ([guardMemberUnreachable])
     [RS (arStep ''Force detach'' applyDetach confirmImmediate)]
     (None)"

definition plan_ma_enable_multiattach :: dplan where
  "plan_ma_enable_multiattach = globalPlan enableMultiattach ''enable-multiattach/v1'' G_Multiattach (None) ''Enabling multiattach''
     ([guardMaxAttachmentsAllowsMultiattach])
     [GS (agStep ''Enable multiattach'' applyEnableMultiattach confirmMultiattach)]"

definition plan_ma_disable_multiattach :: dplan where
  "plan_ma_disable_multiattach = globalPlan disableMultiattach ''disable-multiattach/v1'' G_Multiattach (None) ''Disabling multiattach''
     ([guardCanDisableMultiattach])
     [GS (agStep ''Disable multiattach'' applyDisableMultiattach confirmMultiattach)]"

definition registerAttachmentPlans :: "dplan list" where
  "registerAttachmentPlans = [plan_attach, plan_detach, plan_force_detach, plan_ma_enable_multiattach, plan_ma_disable_multiattach]"

subsection \<open>Network\<close>

definition plan_net_repair :: dplan where
  "plan_net_repair = globalPlan repairNetworkAddresses ''repair/v1'' G_Network (None) ''Repairing connectivity''
     ([guardReplicasMatchTargetNetworks])
     [GS (ngStep ''Repair'' repairAddresses confirmAllConnected)]"

definition plan_net_add :: dplan where
  "plan_net_add = globalPlan changeSystemNetworks ''add/v1'' G_Network (Some (RawGlobal setSystemNetworks)) ''Adding system networks''
     ([guardNodesHaveAddedNetworks])
     [GS (ngStep ''Listen'' addNewNetworks confirmAddedAddressesAvailable),
      GS (ngStep ''Connect'' addNewAddresses confirmAllConnectedOnAddedNetworks)]"

definition plan_net_remove :: dplan where
  "plan_net_remove = globalPlan changeSystemNetworks ''remove/v1'' G_Network (Some (RawGlobal setSystemNetworks)) ''Removing system networks''
     ([guardRemainingNetworksConnected])
     [GS (ngStep ''Disconnect'' removeOldNetworksAndAddresses confirmAllMembers)]"

definition plan_net_update :: dplan where
  "plan_net_update = globalPlan changeSystemNetworks ''update/v1'' G_Network (Some (RawGlobal setSystemNetworks)) ''Updating system networks''
     ([guardRemainingNetworksConnected, guardNodesHaveAddedNetworks])
     [GS (ngStep ''Listen new & Disconnect old'' (ComposeGlobalApply [removeOldNetworksAndAddresses, addNewNetworks]) confirmAddedAddressesAvailable),
      GS (ngStep ''Connect'' addNewAddresses confirmAllConnectedOnAddedNetworks)]"

definition plan_net_migrate :: dplan where
  "plan_net_migrate = globalPlan changeSystemNetworks ''migrate/v1'' G_Network (Some (RawGlobal setSystemNetworks)) ''Migrating system networks''
     ([guardNodesHaveAddedNetworks])
     [GS (ngStep ''Listen new'' addNewNetworks confirmAddedAddressesAvailable),
      GS (ngStep ''Connect new'' addNewAddresses confirmAllConnectedOnAddedNetworks),
      GS (ngStep ''Disconnect old'' removeOldNetworksAndAddresses confirmAllMembers)]"

definition registerNetworkPlans :: "dplan list" where
  "registerNetworkPlans = [plan_net_repair, plan_net_add, plan_net_remove, plan_net_update, plan_net_migrate]"

subsection \<open>Resize\<close>

definition plan_resize :: "(u64 \<Rightarrow> string) \<Rightarrow> dplan" where
  "plan_resize quantityString = globalPlan resizeVolume ''resize/v1'' G_Resize (None) ''Resizing volume''
     ([guardHasReadyDiskfulMember, guardNoActiveResync, guardBackingVolumesGrown quantityString])
     [GS (rgStep ''resize'' applyResizeVolume confirmAllMembers)]"

definition registerResizePlans :: "(u64 \<Rightarrow> string) \<Rightarrow> dplan list" where
  "registerResizePlans quantityString = [plan_resize quantityString]"

subsection \<open>The registry\<close>

fun registerPlans :: "dplan list \<Rightarrow> dregistry \<Rightarrow> dregistry option" where
  "registerPlans [] reg = Some reg"
| "registerPlans (p # ps) reg = do { b \<leftarrow> p; reg' \<leftarrow> Build b reg; registerPlans ps reg' }"

definition registerMembershipPlans :: "dplan list" where
  "registerMembershipPlans = registerAccessPlans @ registerTieBreakerPlans @ registerShadowDiskfulPlans
     @ registerDiskfulPlans @ registerChangeTypePlans @ registerForceRemovePlans"

definition allPlans :: "(u64 \<Rightarrow> string) \<Rightarrow> dplan list" where
  "allPlans quantityString = registerMembershipPlans @ registerQuorumPlans @ registerAttachmentPlans
     @ registerNetworkPlans @ registerResizePlans quantityString"

text \<open>The argument is the package variable \<open>registry\<close>, nil before the first call.\<close>

definition BuildRegistry :: "(u64 \<Rightarrow> string) \<Rightarrow> dregistry option \<Rightarrow> dregistry option" where
  "BuildRegistry quantityString registry = do {
     panicUnless (Option.is_none registry);
     reg \<leftarrow> registerSlots (NewRegistry ());
     registerPlans (allPlans quantityString) reg }"

end
