(* ===== verification/Datamesh_Dispatch.thy ===== *)
theory Datamesh_Dispatch
  imports Datamesh_Plans "HOL-Library.Product_Lexorder"
begin

text \<open>
  The dispatchers: \<open>network_dispatch.go\<close>, \<open>quorum_dispatch.go\<close>, \<open>membership_dispatch.go\<close>,
  \<open>attachment_dispatch.go\<close> and \<open>resize_dispatch.go\<close>. Each looks at the contexts and yields
  decisions; plan selection returns the plan ID and a blocking message, as in the source.
\<close>

type_synonym decision = "rctx DispatchDecision"
type_synonym dispatcher = "(globalContext, rctx) DispatchFunc"

text \<open>A dispatcher with a single decision.\<close>

definition singleDispatcher :: "(globalContext \<Rightarrow> decision option option) \<Rightarrow> dispatcher" where
  "singleDispatcher f = [\<lambda>ts g. [\<lambda>ts g. f g]]"

subsection \<open>Network\<close>

definition selectNetworkPlan :: "string list \<Rightarrow> string list \<Rightarrow> PlanID option" where
  "selectNetworkPlan current target =
     (let hasAdded = list_ex (\<lambda>net. net \<notin> set current) target;
          hasRemaining = list_ex (\<lambda>net. net \<in> set target) current;
          hasRemoved = list_ex (\<lambda>net. net \<notin> set target) current
      in if \<not> hasAdded \<and> \<not> hasRemoved then None
         else if hasAdded \<and> hasRemoved \<and> \<not> hasRemaining then Some ''migrate/v1''
         else if hasAdded \<and> hasRemoved then Some ''update/v1''
         else if hasAdded then Some ''add/v1''
         else Some ''remove/v1'')"

definition networkDispatcher :: dispatcher where
  "networkDispatcher = singleDispatcher (\<lambda>gctx. Some (
     if needsAddressRepair gctx then Some (DispatchGlobal TT_RepairNetworkAddresses ''repair/v1'')
     else case g_rsp gctx of
       None \<Rightarrow> None
     | Some rsp \<Rightarrow> map_option (DispatchGlobal TT_ChangeSystemNetworks)
         (selectNetworkPlan (systemNetworkNames (datamesh gctx)) (GetSystemNetworkNames rsp))))"

subsection \<open>Quorum\<close>

definition hasPendingJoinD :: "globalContext \<Rightarrow> bool" where
  "hasPendingJoinD gctx = list_ex (\<lambda>rc. case rx_membershipRequest rc of
       None \<Rightarrow> False
     | Some req \<Rightarrow> rx_member rc = None \<and> rq_Operation (rr_Request req) = Join
         \<and> rq_Type (rr_Request req) = RT_Diskful) (allReplicas gctx)"

definition hasPendingLeaveD :: "globalContext \<Rightarrow> bool" where
  "hasPendingLeaveD gctx = list_ex (\<lambda>rc. case rx_membershipRequest rc of
       None \<Rightarrow> False
     | Some req \<Rightarrow> rq_Operation (rr_Request req) = Leave \<and> memberIs IsVoter rc) (allReplicas gctx)"

definition canMembershipHandleQMR :: "globalContext \<Rightarrow> u8 \<Rightarrow> u8 \<Rightarrow> bool" where
  "canMembershipHandleQMR gctx expectedQMR currentQMR =
     (if expectedQMR = currentQMR + 1 then hasPendingJoinD gctx
      else if expectedQMR + 1 = currentQMR then hasPendingLeaveD gctx
      else False)"

definition selectQuorumPlan :: "u8 \<Rightarrow> u8 \<Rightarrow> u8 \<Rightarrow> u8 \<Rightarrow> PlanID" where
  "selectQuorumPlan expectedQ currentQ expectedQMR currentQMR =
     (let qUp = expectedQ > currentQ; qDown = expectedQ < currentQ;
          qmrUp = expectedQMR > currentQMR; qmrDown = expectedQMR < currentQMR
      in if qDown \<and> qmrUp then ''lower-q-raise-qmr/v1''
         else if qUp \<and> qmrDown then ''raise-q-lower-qmr/v1''
         else if qUp \<or> qmrUp then ''raise/v1''
         else ''lower/v1'')"

definition quorumDecision :: "globalContext \<Rightarrow> decision option" where
  "quorumDecision gctx =
     (if IDSet_Len (votingMembershipTransitions gctx) > 0 then None
      else let (expectedQ, expectedQMR) = computeCorrectQuorum gctx;
               currentQ = quorum (datamesh gctx);
               currentQMR = quorumMinimumRedundancy (datamesh gctx);
               qWrong = (expectedQ \<noteq> currentQ);
               qmrWrong = (expectedQMR \<noteq> currentQMR)
           in if \<not> qWrong \<and> \<not> qmrWrong then None
              else if \<not> qWrong \<and> qmrWrong \<and> canMembershipHandleQMR gctx expectedQMR currentQMR then None
              else Some (DispatchGlobal TT_ChangeQuorum (selectQuorumPlan expectedQ currentQ expectedQMR currentQMR)))"

definition quorumDispatcher :: dispatcher where
  "quorumDispatcher = singleDispatcher (\<lambda>gctx. Some (quorumDecision gctx))"

subsection \<open>Membership\<close>

type_synonym planChoice = "PlanID \<times> string"

definition notImplemented :: planChoice where "notImplemented = ([], ''Not implemented'')"
definition skipPlan :: planChoice where "skipPlan = ([], [])"

definition oddVoters :: "globalContext \<Rightarrow> bool" where
  "oddVoters gctx = (voterCount gctx mod 2 \<noteq> 0)"

definition planForceRemoveReplica :: "globalContext \<Rightarrow> ReplicaContext \<Rightarrow> planChoice" where
  "planForceRemoveReplica gctx rc = (case rx_member rc of
       None \<Rightarrow> skipPlan
     | Some m \<Rightarrow> (case m_Type m of
           MT_Access \<Rightarrow> (''access/v1'', [])
         | MT_TieBreaker \<Rightarrow> (''tiebreaker/v1'', [])
         | MT_ShadowDiskful \<Rightarrow> (''shadow-diskful/v1'', [])
         | MT_LiminalShadowDiskful \<Rightarrow> (''shadow-diskful/v1'', [])
         | MT_Diskful \<Rightarrow> (if oddVoters gctx then ''diskful/v1'' else ''diskful-q-down/v1'', [])
         | MT_LiminalDiskful \<Rightarrow> (if oddVoters gctx then ''diskful/v1'' else ''diskful-q-down/v1'', [])
         | MT_Other _ \<Rightarrow> notImplemented))"

definition planAddDiskful :: "globalContext \<Rightarrow> planChoice" where
  "planAddDiskful gctx =
     (let needsQUp = oddVoters gctx;
          needsQMRUp = (quorumMinimumRedundancy (datamesh gctx) < cfg_QuorumMinimumRedundancy (configuration gctx));
          viaSd = ff_ShadowDiskful (features gctx)
      in (if \<not> viaSd \<and> \<not> needsQUp \<and> \<not> needsQMRUp then ''diskful/v1''
          else if \<not> viaSd \<and> \<not> needsQUp \<and> needsQMRUp then ''diskful-qmr-up/v1''
          else if \<not> viaSd \<and> needsQUp \<and> \<not> needsQMRUp then ''diskful-q-up/v1''
          else if \<not> viaSd \<and> needsQUp \<and> needsQMRUp then ''diskful-q-up-qmr-up/v1''
          else if viaSd \<and> \<not> needsQUp \<and> \<not> needsQMRUp then ''diskful-via-sd/v1''
          else if viaSd \<and> \<not> needsQUp \<and> needsQMRUp then ''diskful-via-sd-qmr-up/v1''
          else if viaSd \<and> needsQUp \<and> \<not> needsQMRUp then ''diskful-via-sd-q-up/v1''
          else ''diskful-via-sd-q-up-qmr-up/v1'', []))"

text \<open>\<open>rctx.membershipRequest\<close> is not nil where these are called.\<close>

definition planAddReplica :: "globalContext \<Rightarrow> ReplicaContext \<Rightarrow> ReplicaType \<Rightarrow> planChoice" where
  "planAddReplica gctx rc requestType =
     (if rx_member rc \<noteq> None then skipPlan
      else case requestType of
         RT_Access \<Rightarrow> (''access/v1'', [])
       | RT_TieBreaker \<Rightarrow> (''tiebreaker/v1'', [])
       | RT_ShadowDiskful \<Rightarrow> (''shadow-diskful/v1'', [])
       | RT_Diskful \<Rightarrow> planAddDiskful gctx
       | RT_Other _ \<Rightarrow> notImplemented)"

definition planRemoveDiskful :: "globalContext \<Rightarrow> planChoice" where
  "planRemoveDiskful gctx =
     (let needsQDown = \<not> oddVoters gctx;
          needsQMRDown = (quorumMinimumRedundancy (datamesh gctx) > cfg_QuorumMinimumRedundancy (configuration gctx))
      in (if \<not> needsQDown \<and> \<not> needsQMRDown then ''remove-diskful/v1''
          else if \<not> needsQDown \<and> needsQMRDown then ''remove-diskful-qmr-down/v1''
          else if needsQDown \<and> \<not> needsQMRDown then ''remove-diskful-q-down/v1''
          else ''remove-diskful-qmr-down-q-down/v1'', []))"

definition planRemoveReplica :: "globalContext \<Rightarrow> ReplicaContext \<Rightarrow> planChoice" where
  "planRemoveReplica gctx rc = (case rx_member rc of
       None \<Rightarrow> skipPlan
     | Some m \<Rightarrow> (case m_Type m of
           MT_Access \<Rightarrow> (''access/v1'', [])
         | MT_TieBreaker \<Rightarrow> (''tiebreaker/v1'', [])
         | MT_ShadowDiskful \<Rightarrow> (''shadow-diskful/v1'', [])
         | MT_LiminalShadowDiskful \<Rightarrow> (''shadow-diskful/v1'', [])
         | MT_Diskful \<Rightarrow> planRemoveDiskful gctx
         | MT_LiminalDiskful \<Rightarrow> planRemoveDiskful gctx
         | MT_Other _ \<Rightarrow> notImplemented))"

definition planChangeAToD :: "globalContext \<Rightarrow> planChoice" where
  "planChangeAToD gctx = (let viaSd = ff_ShadowDiskful (features gctx) in
     (if \<not> viaSd \<and> \<not> oddVoters gctx then ''a-to-d/v1''
      else if \<not> viaSd \<and> oddVoters gctx then ''a-to-d-q-up/v1''
      else if viaSd \<and> \<not> oddVoters gctx then ''a-to-d-via-sd/v1''
      else ''a-to-d-via-sd-q-up/v1'', []))"

definition planChangeDToA :: "globalContext \<Rightarrow> planChoice" where
  "planChangeDToA gctx = (if oddVoters gctx then ''d-to-a/v1'' else ''d-to-a-q-down/v1'', [])"

definition planChangeTBToD :: "globalContext \<Rightarrow> planChoice" where
  "planChangeTBToD gctx = (let viaSd = ff_ShadowDiskful (features gctx) in
     (if \<not> viaSd \<and> \<not> oddVoters gctx then ''tb-to-d/v1''
      else if \<not> viaSd \<and> oddVoters gctx then ''tb-to-d-q-up/v1''
      else if viaSd \<and> \<not> oddVoters gctx then ''tb-to-d-via-sd/v1''
      else ''tb-to-d-via-sd-q-up/v1'', []))"

definition planChangeDToTB :: "globalContext \<Rightarrow> planChoice" where
  "planChangeDToTB gctx = (if oddVoters gctx then ''d-to-tb/v1'' else ''d-to-tb-q-down/v1'', [])"

definition planChangeSDToD :: "globalContext \<Rightarrow> planChoice" where
  "planChangeSDToD gctx = (if oddVoters gctx then ''sd-to-d-q-up/v1'' else ''sd-to-d/v1'', [])"

definition planChangeDToSD :: "globalContext \<Rightarrow> planChoice" where
  "planChangeDToSD gctx = (if oddVoters gctx then ''d-to-sd/v1'' else ''d-to-sd-q-down/v1'', [])"

definition isAddInProgress :: "tstore \<Rightarrow> ReplicaContext \<Rightarrow> bool" where
  "isAddInProgress ts rc = (case rx_membershipTransition rc of
       None \<Rightarrow> False | Some ptr \<Rightarrow> t_Type (ts ptr) = TT_AddReplica)"

definition planChangeReplicaType :: "tstore \<Rightarrow> globalContext \<Rightarrow> ReplicaContext \<Rightarrow> ReplicaType \<Rightarrow> planChoice" where
  "planChangeReplicaType ts gctx rc targetType = (case rx_member rc of
       None \<Rightarrow> skipPlan
     | Some m \<Rightarrow>
         let mt = m_Type m;
             isSD = (mt = MT_ShadowDiskful \<or> mt = MT_LiminalShadowDiskful);
             isD = (mt = MT_Diskful \<or> mt = MT_LiminalDiskful) in
         if isAddInProgress ts rc then skipPlan
         else if mt = MT_Access \<and> targetType = RT_TieBreaker then (''a-to-tb/v1'', [])
         else if mt = MT_TieBreaker \<and> targetType = RT_Access then (''tb-to-a/v1'', [])
         else if mt = MT_Access \<and> targetType = RT_ShadowDiskful then (''a-to-sd/v1'', [])
         else if isSD \<and> targetType = RT_Access then (''sd-to-a/v1'', [])
         else if mt = MT_TieBreaker \<and> targetType = RT_ShadowDiskful then (''tb-to-sd/v1'', [])
         else if isSD \<and> targetType = RT_TieBreaker then (''sd-to-tb/v1'', [])
         else if mt = MT_Access \<and> targetType = RT_Diskful then planChangeAToD gctx
         else if isD \<and> targetType = RT_Access then planChangeDToA gctx
         else if isSD \<and> targetType = RT_Diskful then planChangeSDToD gctx
         else if isD \<and> targetType = RT_ShadowDiskful then planChangeDToSD gctx
         else if mt = MT_TieBreaker \<and> targetType = RT_Diskful then planChangeTBToD gctx
         else if isD \<and> targetType = RT_TieBreaker then planChangeDToTB gctx
         else if mt = memberTypeOf targetType then skipPlan
         else if mt = MT_LiminalDiskful \<and> targetType = RT_Diskful then skipPlan
         else if mt = MT_LiminalShadowDiskful \<and> targetType = RT_ShadowDiskful then skipPlan
         else notImplemented)"

definition membershipChoice :: "tstore \<Rightarrow> globalContext \<Rightarrow> ReplicaContext \<Rightarrow> (TransitionType \<times> planChoice) option" where
  "membershipChoice ts gctx rc =
     (if rx_name rc = [] then None
      else case rx_membershipRequest rc of
        Some req \<Rightarrow> (case rq_Operation (rr_Request req) of
            Join \<Rightarrow> Some (TT_AddReplica, planAddReplica gctx rc (rq_Type (rr_Request req)))
          | Leave \<Rightarrow> Some (TT_RemoveReplica, planRemoveReplica gctx rc)
          | ChangeRole \<Rightarrow> Some (TT_ChangeReplicaType, planChangeReplicaType ts gctx rc (rq_Type (rr_Request req)))
          | ForceLeave \<Rightarrow> Some (TT_ForceRemoveReplica, planForceRemoveReplica gctx rc)
          | _ \<Rightarrow> None)
      | None \<Rightarrow> if rx_member rc \<noteq> None \<and> rx_rvr rc = None
          then Some (TT_ForceRemoveReplica, planForceRemoveReplica gctx rc) else None)"

definition membershipDecision :: "rctx \<Rightarrow> tstore \<Rightarrow> globalContext \<Rightarrow> decision option" where
  "membershipDecision r ts gctx = (case membershipChoice ts gctx (rcAt gctx r) of
       None \<Rightarrow> None
     | Some (tt, planID, blocked) \<Rightarrow>
         if planID = [] \<and> blocked = [] then None
         else if planID = [] then Some (NoDispatch r membershipSlot blocked None)
         else Some (DispatchReplica r tt planID))"

definition membershipDispatcher :: dispatcher where
  "membershipDispatcher = [\<lambda>ts g. map (\<lambda>r ts g. Some (membershipDecision r ts g)) [0..<length (allReplicas g)]]"

subsection \<open>Attachment\<close>

definition forceDetachDecision :: "rctx \<Rightarrow> globalContext \<Rightarrow> decision option" where
  "forceDetachDecision r gctx = (let rc = rcAt gctx r in
     case (rx_membershipRequest rc, rx_member rc) of
       (Some req, Some m) \<Rightarrow> if rq_Operation (rr_Request req) = OpForceDetach \<and> m_Attached m
          then Some (DispatchReplica r TT_ForceDetach ''force-detach/v1'') else None
     | _ \<Rightarrow> None)"

definition decideMultiattachToggle :: "globalContext \<Rightarrow> decision option" where
  "decideMultiattachToggle gctx =
     (let intendedCount = countp (\<lambda>rc. rx_member rc \<noteq> None \<and> hasActiveRVA rc) (allReplicas gctx);
          needMultiattach = (intendedCount > 1 \<and> maxAttachments gctx > 1)
      in if needMultiattach \<and> \<not> multiattach (datamesh gctx) \<and> \<not> hasMultiattachTransition gctx
         then Some (DispatchGlobal TT_EnableMultiattach ''enable-multiattach/v1'')
         else if \<not> needMultiattach \<and> multiattach (datamesh gctx) \<and> \<not> hasMultiattachTransition gctx
            \<and> IDSet_Len (potentiallyAttached gctx) \<le> 1
         then Some (DispatchGlobal TT_DisableMultiattach ''disable-multiattach/v1'')
         else None)"

definition isAttachedMember :: "ReplicaContext \<Rightarrow> bool" where
  "isAttachedMember rc = (case rx_member rc of None \<Rightarrow> False | Some m \<Rightarrow> m_Attached m)"

definition collectAndSortCandidates :: "globalContext \<Rightarrow> rctx list" where
  "collectAndSortCandidates gctx =
     sort_key (\<lambda>r. (earliestActiveRVATimestamp (rcAt gctx r), rx_nodeName (rcAt gctx r)))
       (filter (\<lambda>r. rx_rvas (rcAt gctx r) \<noteq> [] \<or> isAttachedMember (rcAt gctx r)) [0..<length (allReplicas gctx)])"

definition decideAttachmentForReplica :: "rctx \<Rightarrow> globalContext \<Rightarrow> decision option" where
  "decideAttachmentForReplica r gctx =
     (let rc = rcAt gctx r; hasActive = hasActiveRVA rc; isAttached = isAttachedMember rc in
      if isAttached \<and> hasActive \<and> rx_attachmentTransition rc = None
      then Some (NoDispatch r attachmentSlot (''Volume is attached and ready to serve I/O on the node''
             @ (if deletionTimestamp gctx \<noteq> None then '' (volume is pending deletion)'' else [])) (Some ''Attached''))
      else if hasActive then Some (DispatchReplica r TT_Attach ''attach/v1'')
      else if isAttached then Some (DispatchReplica r TT_Detach ''detach/v1'')
      else if rx_attachmentTransition rc \<noteq> None then None
      else if rx_rvas rc \<noteq> []
      then Some (NoDispatch r attachmentSlot ''Volume has been detached from the node'' (Some ''Detached''))
      else None)"

definition attachmentDispatcher :: dispatcher where
  "attachmentDispatcher =
     [\<lambda>ts g. map (\<lambda>r ts g. Some (forceDetachDecision r g)) [0..<length (allReplicas g)],
      \<lambda>ts g. [\<lambda>ts g. Some (decideMultiattachToggle g)],
      \<lambda>ts g. map (\<lambda>r ts g. Some (decideAttachmentForReplica r g)) (collectAndSortCandidates g)]"

subsection \<open>Resize\<close>

definition resizeDispatcher :: dispatcher where
  "resizeDispatcher = singleDispatcher (\<lambda>gctx. Some (
     if dm_size (datamesh gctx) <s AlignTo4Ki (g_size gctx)
     then Some (DispatchGlobal TT_ResizeVolume ''resize/v1'') else None))"

end
