(* ===== verification/Dmte_Message.thy ===== *)
theory Dmte_Message
  imports Dmte_Plan
begin

text \<open>
  Progress and blocked messages of the engine (\<open>dmte/message.go\<close>): the confirmation counters, the
  waiting set, the diagnostic errors of unconfirmed replicas and the composition of the final
  status message.
\<close>

subsection \<open>Definitions\<close>

definition errorSep :: "nat \<Rightarrow> string" where
  "errorSep errorGroups = (if errorGroups = 0 then ''. Errors: '' else '' | '')"

text \<open>The inner loop over condition types for one replica: the accumulator is the message, whether
  the replica already has an error group, and the number of groups.\<close>

fun conditionErrors :: "('g, 'r) ContextProvider \<Rightarrow> 'g \<Rightarrow> 'r \<Rightarrow> u8 \<Rightarrow> ('g, 'r) SkipErrorFunc option
    \<Rightarrow> string list \<Rightarrow> string \<times> bool \<times> nat \<Rightarrow> string \<times> bool \<times> nat" where
  "conditionErrors cp g r i skipError [] acc = acc"
| "conditionErrors cp g r i skipError (condType # types) (msg, hasError, errorGroups) =
     conditionErrors cp g r i skipError types
       (case findCondition (rc_Conditions cp g r) condType of
          None \<Rightarrow> (msg, hasError, errorGroups)
        | Some cond \<Rightarrow>
            if c_Status cond \<noteq> ConditionFalse \<or> c_ObservedGeneration cond \<noteq> rc_Generation cp g r
            then (msg, hasError, errorGroups)
            else if (case skipError of None \<Rightarrow> False | Some skip \<Rightarrow> skip g (Some r) i cond)
            then (msg, hasError, errorGroups)
            else let msg1 = (if hasError then msg @ '', ''
                             else msg @ errorSep errorGroups @ ''#'' @ itoa (uint i) @ '' '');
                     msg2 = msg1 @ condType @ ''/'' @ c_Reason cond @
                             (if c_Message cond = [] then [] else '': '' @ c_Message cond)
                 in (msg2, True, if hasError then errorGroups else Suc errorGroups))"

fun waitingErrors :: "('g, 'r) ContextProvider \<Rightarrow> 'g \<Rightarrow> string list \<Rightarrow> ('g, 'r) SkipErrorFunc option
    \<Rightarrow> u8 list \<Rightarrow> string \<times> nat \<Rightarrow> (string \<times> nat) option" where
  "waitingErrors cp g conditionTypes skipError [] acc = Some acc"
| "waitingErrors cp g conditionTypes skipError (i # is) (msg, errorGroups) = do {
     rctx \<leftarrow> cp_Replica cp g i;
     case rctx of
       None \<Rightarrow> waitingErrors cp g conditionTypes skipError is
                 (msg @ errorSep errorGroups @ ''#'' @ itoa (uint i) @ '' replica not found'', Suc errorGroups)
     | Some r \<Rightarrow>
         if \<not> rc_Exists cp g r
         then waitingErrors cp g conditionTypes skipError is
                (msg @ errorSep errorGroups @ ''#'' @ itoa (uint i) @ '' replica not found'', Suc errorGroups)
         else let (msg', _, groups') = conditionErrors cp g r i skipError conditionTypes (msg, False, errorGroups)
              in waitingErrors cp g conditionTypes skipError is (msg', groups') }"

definition generateProgressMessage :: "('g, 'r) ContextProvider \<Rightarrow> 'g \<Rightarrow> int \<Rightarrow> ConfirmResult \<Rightarrow> string list
    \<Rightarrow> ('g, 'r) SkipErrorFunc option \<Rightarrow> string option" where
  "generateProgressMessage cp g stepRevision cr conditionTypes skipError =
     (let waiting = IDSet_Difference (MustConfirm cr) (Confirmed cr);
          msg = itoa (int (IDSet_Len (Confirmed cr))) @ ''/'' @ itoa (int (IDSet_Len (MustConfirm cr)))
                @ '' replicas confirmed revision '' @ itoa stepRevision
      in if IDSet_IsEmpty waiting then Some msg
         else let msg = msg @ ''. Waiting: ['' @ IDSet_String waiting @ '']''
              in if conditionTypes = [] then Some msg
                 else map_option fst (waitingErrors cp g conditionTypes skipError (IDSet_All waiting) (msg, 0)))"

definition composeProgressMessage :: "string \<Rightarrow> string \<Rightarrow> nat \<Rightarrow> nat \<Rightarrow> string \<Rightarrow> string" where
  "composeProgressMessage planName stepName stepIdx totalSteps rawProgress =
     (if totalSteps \<le> 1 then planName @ '': '' @ rawProgress
      else planName @ '' (step '' @ itoa (int stepIdx + 1) @ ''/'' @ itoa (int totalSteps) @ '': ''
           @ stepName @ ''): '' @ rawProgress)"

definition composeBlocked :: "string \<Rightarrow> string \<Rightarrow> string" where
  "composeBlocked planName reason = planName @ '' is blocked: '' @ reason"

definition composeBlockedByActive :: "string \<Rightarrow> string \<Rightarrow> TransitionStep option \<Rightarrow> string" where
  "composeBlockedByActive newPlanName activePlanName activeStep =
     (case activeStep of
        Some s \<Rightarrow> if s_Message s \<noteq> []
          then newPlanName @ '': waiting for '' @ activePlanName @ '' to complete. '' @ s_Message s
          else newPlanName @ '': waiting for '' @ activePlanName @ '' to complete''
      | None \<Rightarrow> newPlanName @ '': waiting for '' @ activePlanName @ '' to complete'')"

subsection \<open>Messages never panic on a total context provider\<close>

lemma waitingErrors_total:
  assumes "\<And>i. i \<in> set is \<Longrightarrow> cp_Replica cp g i \<noteq> None"
  shows "\<exists>res. waitingErrors cp g types skip is acc = Some res"
  using assms
proof (induction "is" arbitrary: acc)
  case (Cons i "is")
  obtain msg n where acc: "acc = (msg, n)" by fastforce
  obtain rctx where r: "cp_Replica cp g i = Some rctx" using Cons.prems by force
  show ?case
    using Cons.IH Cons.prems by (auto simp: acc r split: option.splits prod.splits)
qed simp

lemma generateProgressMessage_total:
  assumes "\<And>i. unat i < 32 \<Longrightarrow> cp_Replica cp g i \<noteq> None"
  shows "\<exists>msg. generateProgressMessage cp g revision cr types skip = Some msg"
proof -
  have "\<exists>res. waitingErrors cp g types skip
      (IDSet_All (IDSet_Difference (MustConfirm cr) (Confirmed cr))) acc = Some res" for acc
    by (rule waitingErrors_total) (metis assms in_IDSet_All ids_bounded)
  then show ?thesis
    by (auto simp: generateProgressMessage_def Let_def)
qed

end
