(* ===== verification/Dmte_Engine.thy ===== *)
theory Dmte_Engine
  imports Dmte_Message
begin

text \<open>
  The transition engine \<open>dmte/engine.go\<close>: construction, settling, dispatch and \<open>Finalize\<close>.

  The engine's mutable state is one record. Transitions are heap objects: \<open>e_tstore\<close> maps
  pointers to their contents, \<open>e_transitions\<close> is the shadow index (a list of pointers) and
  \<open>e_g\<close> holds the contexts, which store such pointers in their slots. \<open>metav1.Now()\<close> is the
  parameter \<open>env_now\<close>, read once per call. Revisions are unbounded integers: an \<open>int64\<close>
  counter of configuration changes does not overflow in practice.
\<close>

subsection \<open>State\<close>

record ('g, 'r) EngineEnv =
  env_registry :: "('g, 'r) Registry"
  env_tracker :: "'g Tracker"
  env_dispatchers :: "('g, 'r) DispatchFunc list"
  env_cp :: "('g, 'r) ContextProvider"
  env_now :: "nat \<Rightarrow> int"

record 'g Engine =
  e_revision :: int
  e_tstore :: tstore
  e_originalLen :: nat
  e_transitions :: "tptr list"
  e_nextNew :: nat
  e_clock :: nat
  e_g :: 'g
  e_finalized :: bool

definition writeT :: "tptr \<Rightarrow> Transition \<Rightarrow> 'g Engine \<Rightarrow> 'g Engine" where
  "writeT ptr t e = e \<lparr> e_tstore := (e_tstore e)(ptr := t) \<rparr>"

definition setStep :: "nat \<Rightarrow> (TransitionStep \<Rightarrow> TransitionStep) \<Rightarrow> Transition \<Rightarrow> Transition" where
  "setStep k f t = t \<lparr> t_Steps := (t_Steps t)[k := f (t_Steps t ! k)] \<rparr>"

subsection \<open>Construction\<close>

fun initTransitions :: "('g, 'r) EngineEnv \<Rightarrow> tstore \<Rightarrow> nat list \<Rightarrow> 'g \<Rightarrow> 'g option" where
  "initTransitions E ts [] g = Some g"
| "initTransitions E ts (i # is) g = do {
     let t = ts (Orig i);
     g1 \<leftarrow> trk_Add (env_tracker E) (Orig i) t g;
     if t_ReplicaName t = [] then initTransitions E ts is g1
     else (case reg_get (env_registry E) (t_Type t) (t_PlanID t) of
         None \<Rightarrow> initTransitions E ts is g1
       | Some p \<Rightarrow>
           if pl_scope p \<noteq> ReplicaScope then initTransitions E ts is g1
           else (case replicaSlotAccessor (env_registry E) (pl_slot p) of
               None \<Rightarrow> initTransitions E ts is g1
             | Some slot \<Rightarrow> do {
                 i' \<leftarrow> ReplicaID t;
                 rctx \<leftarrow> cp_Replica (env_cp E) g1 i';
                 case rctx of
                   None \<Rightarrow> initTransitions E ts is g1
                 | Some r \<Rightarrow> initTransitions E ts is (SetActiveTransition slot r (Some (Orig i)) g1) })) }"

definition origStore :: "Transition list \<Rightarrow> tstore" where
  "origStore transitions = (\<lambda>ptr. case ptr of Orig i \<Rightarrow> if i < length transitions then transitions ! i
     else emptyTransition | _ \<Rightarrow> emptyTransition)"

definition NewEngine :: "('g, 'r) EngineEnv \<Rightarrow> int \<Rightarrow> Transition list \<Rightarrow> 'g \<Rightarrow> 'g Engine option" where
  "NewEngine E revision transitions g = do {
     let ts = origStore transitions;
     g' \<leftarrow> initTransitions E ts [0..<length transitions] g;
     Some \<lparr> e_revision = revision, e_tstore = ts, e_originalLen = length transitions,
       e_transitions = map Orig [0..<length transitions], e_nextNew = 0, e_clock = 0, e_g = g',
       e_finalized = False \<rparr> }"

subsection \<open>Transition helpers\<close>

definition findCurrentStepIdx :: "Transition \<Rightarrow> nat option" where
  "findCurrentStepIdx t = (let k = length (takeWhile (\<lambda>s. s_Status s = Completed) (t_Steps t))
     in if k < length (t_Steps t) then Some k else None)"

text \<open>\<open>advanceStep\<close>: the caller has checked that \<open>fromIdx + 1\<close> is a step.\<close>

definition advanceStep :: "('g, 'r) EngineEnv \<Rightarrow> tptr \<Rightarrow> nat \<Rightarrow> 'g Engine \<Rightarrow> 'g Engine" where
  "advanceStep E ptr fromIdx e =
     (let now = env_now E (e_clock e);
          t1 = setStep fromIdx (\<lambda>s. s \<lparr> s_Status := Completed, s_CompletedAt := Some now \<rparr>) (e_tstore e ptr);
          t2 = setStep (Suc fromIdx) (\<lambda>s. s \<lparr> s_Status := Active, s_StartedAt := Some now \<rparr>) t1
      in writeT ptr t2 (e \<lparr> e_clock := Suc (e_clock e) \<rparr>))"

definition deleteTransition :: "('g, 'r) EngineEnv \<Rightarrow> nat \<Rightarrow> 'g Engine \<Rightarrow> 'g Engine option" where
  "deleteTransition E idx e = do {
     ptr \<leftarrow> index (e_transitions e) idx;
     g' \<leftarrow> trk_Remove (env_tracker E) (e_tstore e ptr) (e_g e);
     Some (e \<lparr> e_g := g', e_transitions := delete_at idx (e_transitions e) \<rparr>) }"

definition completeTransition :: "('g, 'r) EngineEnv \<Rightarrow> ('g, 'r) plan \<Rightarrow> nat \<Rightarrow> 'r option
    \<Rightarrow> ('g, 'r) ReplicaSlotAccessor option \<Rightarrow> 'g Engine \<Rightarrow> 'g Engine option" where
  "completeTransition E p idx rctx slot e = do {
     g1 \<leftarrow> plan_callOnComplete p (e_tstore e) (e_g e) rctx;
     let g2 = (case (slot, rctx) of (Some s, Some r) \<Rightarrow> SetActiveTransition s r None g1 | _ \<Rightarrow> g1);
     deleteTransition E idx (e \<lparr> e_g := g2 \<rparr>) }"

definition applyStep :: "('g, 'r) EngineEnv \<Rightarrow> ('g, 'r) plan \<Rightarrow> tptr \<Rightarrow> 'r option \<Rightarrow> nat \<Rightarrow> 'g Engine
    \<Rightarrow> 'g Engine option" where
  "applyStep E p ptr rctx stepIdx e = do {
     s \<leftarrow> index (steps p) stepIdx;
     (changed, g') \<leftarrow> step_apply s (e_tstore e) (e_g e) rctx;
     let revision = (if changed then e_revision e + 1 else e_revision e);
     _ \<leftarrow> index (t_Steps (e_tstore e ptr)) stepIdx;
     Some (writeT ptr (setStep stepIdx (\<lambda>st. st \<lparr> s_DatameshRevision := revision \<rparr>) (e_tstore e ptr))
       (e \<lparr> e_g := g', e_revision := revision \<rparr>)) }"

text \<open>\<open>confirmStep\<close>: the argument \<open>changed *bool\<close> is \<open>None\<close> for nil; the new value of the flag is
  returned.\<close>

definition confirmStep :: "('g, 'r) EngineEnv \<Rightarrow> ('g, 'r) plan \<Rightarrow> tptr \<Rightarrow> 'r option \<Rightarrow> nat \<Rightarrow> bool option
    \<Rightarrow> 'g Engine \<Rightarrow> (ConfirmResult \<times> string \<times> bool option \<times> 'g Engine) option" where
  "confirmStep E p ptr rctx stepIdx changed e = do {
     s \<leftarrow> index (steps p) stepIdx;
     st \<leftarrow> index (t_Steps (e_tstore e ptr)) stepIdx;
     cr \<leftarrow> step_confirm s (e_tstore e) (e_g e) rctx (s_DatameshRevision st);
     rawProgress \<leftarrow> generateProgressMessage (env_cp E) (e_g e) (s_DatameshRevision st) cr
       (diagnosticConditionTypes s) (diagnosticSkipError s);
     let composed = composeProgressMessage (displayName p) (st_name s) stepIdx (length (steps p)) rawProgress;
     if changed = None \<or> s_Message st \<noteq> rawProgress
     then Some (cr, composed, map_option (\<lambda>_. True) changed,
            writeT ptr (setStep stepIdx (\<lambda>st. st \<lparr> s_Message := rawProgress \<rparr>) (e_tstore e ptr)) e)
     else Some (cr, composed, changed, e) }"

definition setSlotStatus :: "('g, 'r) ReplicaSlotAccessor option \<Rightarrow> 'r option \<Rightarrow> string \<Rightarrow> string option
    \<Rightarrow> 'g Engine \<Rightarrow> 'g Engine" where
  "setSlotStatus slot rctx msg details e = (case (slot, rctx) of
       (Some s, Some r) \<Rightarrow> e \<lparr> e_g := SetStatus s r msg details (e_g e) \<rparr>
     | _ \<Rightarrow> e)"

subsection \<open>Settle\<close>

text \<open>The part of the loop body after the confirmation check: the step-level \<open>onComplete\<close>, then
  either the next step or the completion of the transition. The second component tells whether the
  element at index \<open>i\<close> was removed.\<close>

definition settleConfirmed :: "('g, 'r) EngineEnv \<Rightarrow> ('g, 'r) plan \<Rightarrow> nat \<Rightarrow> tptr \<Rightarrow> 'r option
    \<Rightarrow> ('g, 'r) ReplicaSlotAccessor option \<Rightarrow> nat \<Rightarrow> 'g Engine \<Rightarrow> ('g Engine \<times> bool) option" where
  "settleConfirmed E p i ptr rctx slot k e = do {
     s \<leftarrow> index (steps p) k;
     g' \<leftarrow> step_callOnComplete s (e_tstore e) (e_g e) rctx;
     let e1 = e \<lparr> e_g := g' \<rparr>;
     if Suc k < length (t_Steps (e_tstore e1 ptr))
     then do {
       e2 \<leftarrow> applyStep E p ptr rctx (Suc k) (advanceStep E ptr k e1);
       (_, advComposed, _, e3) \<leftarrow> confirmStep E p ptr rctx (Suc k) None e2;
       s' \<leftarrow> index (steps p) (Suc k);
       Some (setSlotStatus slot rctx advComposed (st_details s') e3, False) }
     else do {
       e2 \<leftarrow> completeTransition E p i rctx slot e1;
       Some (e2, True) } }"

definition settleResolve :: "('g, 'r) EngineEnv \<Rightarrow> ('g, 'r) plan \<Rightarrow> Transition \<Rightarrow> 'g
    \<Rightarrow> ('r option \<times> ('g, 'r) ReplicaSlotAccessor option) option" where
  "settleResolve E p t g =
     (if pl_scope p = ReplicaScope \<and> t_ReplicaName t \<noteq> []
      then do { i \<leftarrow> ReplicaID t;
                rctx \<leftarrow> cp_Replica (env_cp E) g i;
                Some (rctx, replicaSlotAccessor (env_registry E) (pl_slot p)) }
      else Some (None, None))"

text \<open>One iteration of \<open>settleTransitions\<close> at index \<open>i\<close>: the new engine, whether the element was
  removed (then the index stays), the flag \<open>changed\<close> and whether this iteration progressed.\<close>

definition settleOne :: "('g, 'r) EngineEnv \<Rightarrow> nat \<Rightarrow> 'g Engine \<Rightarrow> bool
    \<Rightarrow> ('g Engine \<times> bool \<times> bool \<times> bool) option" where
  "settleOne E i e changed =
     (let ptr = e_transitions e ! i; t = e_tstore e ptr in
      case reg_get (env_registry E) (t_Type t) (t_PlanID t) of
        None \<Rightarrow> Some (e, False, changed, False)
      | Some p \<Rightarrow> do {
          (rctx, slot) \<leftarrow> settleResolve E p t (e_g e);
          case findCurrentStepIdx t of
            None \<Rightarrow> do { e1 \<leftarrow> completeTransition E p i rctx slot e; Some (e1, True, True, True) }
          | Some k \<Rightarrow> do {
              (cr, composed, ch, e1) \<leftarrow> confirmStep E p ptr rctx k (Some changed) e;
              s \<leftarrow> index (steps p) k;
              let e2 = setSlotStatus slot rctx composed (st_details s) e1;
              if IDSet_Intersect (Confirmed cr) (MustConfirm cr) \<noteq> MustConfirm cr
              then Some (e2, False, ch = Some True, False)
              else do {
                (e3, removed) \<leftarrow> settleConfirmed E p i ptr rctx slot k e2;
                Some (e3, removed, True, True) } } })"

subsection \<open>The index loop terminates\<close>

lemma writeT_simps [simp, engine_simps]:
  "e_revision (writeT ptr t e) = e_revision e"
  "e_tstore (writeT ptr t e) = (e_tstore e)(ptr := t)"
  "e_originalLen (writeT ptr t e) = e_originalLen e"
  "e_transitions (writeT ptr t e) = e_transitions e"
  "e_nextNew (writeT ptr t e) = e_nextNew e"
  "e_clock (writeT ptr t e) = e_clock e"
  "e_g (writeT ptr t e) = e_g e"
  "e_finalized (writeT ptr t e) = e_finalized e"
  by (simp_all add: writeT_def)

lemma setSlotStatus_simps [simp, engine_simps]:
  "e_revision (setSlotStatus slot rctx m d e) = e_revision e"
  "e_tstore (setSlotStatus slot rctx m d e) = e_tstore e"
  "e_originalLen (setSlotStatus slot rctx m d e) = e_originalLen e"
  "e_transitions (setSlotStatus slot rctx m d e) = e_transitions e"
  "e_nextNew (setSlotStatus slot rctx m d e) = e_nextNew e"
  "e_clock (setSlotStatus slot rctx m d e) = e_clock e"
  "e_finalized (setSlotStatus slot rctx m d e) = e_finalized e"
  by (simp_all add: setSlotStatus_def split: option.splits)

lemma advanceStep_simps [simp, engine_simps]:
  "e_revision (advanceStep E ptr k e) = e_revision e"
  "e_originalLen (advanceStep E ptr k e) = e_originalLen e"
  "e_transitions (advanceStep E ptr k e) = e_transitions e"
  "e_nextNew (advanceStep E ptr k e) = e_nextNew e"
  "e_g (advanceStep E ptr k e) = e_g e"
  "e_finalized (advanceStep E ptr k e) = e_finalized e"
  by (simp_all add: advanceStep_def Let_def)

lemma deleteTransition_SomeD:
  assumes "deleteTransition E idx e = Some e'"
  shows "idx < length (e_transitions e) \<and> e_transitions e' = delete_at idx (e_transitions e)
    \<and> e_tstore e' = e_tstore e \<and> e_revision e' = e_revision e \<and> e_originalLen e' = e_originalLen e
    \<and> e_nextNew e' = e_nextNew e \<and> e_finalized e' = e_finalized e"
  using assms by (auto simp: deleteTransition_def res_simps)

lemma completeTransition_SomeD:
  assumes "completeTransition E p idx rctx slot e = Some e'"
  shows "idx < length (e_transitions e) \<and> e_transitions e' = delete_at idx (e_transitions e)
    \<and> e_tstore e' = e_tstore e \<and> e_revision e' = e_revision e \<and> e_originalLen e' = e_originalLen e
    \<and> e_nextNew e' = e_nextNew e \<and> e_finalized e' = e_finalized e"
  using assms by (auto simp: completeTransition_def res_simps dest!: deleteTransition_SomeD)

lemma applyStep_SomeD:
  assumes "applyStep E p ptr rctx k e = Some e'"
  shows "e_transitions e' = e_transitions e \<and> e_originalLen e' = e_originalLen e
    \<and> e_nextNew e' = e_nextNew e \<and> e_finalized e' = e_finalized e
    \<and> k < length (steps p) \<and> k < length (t_Steps (e_tstore e ptr))
    \<and> e_revision e \<le> e_revision e' \<and> e_revision e' \<le> e_revision e + 1
    \<and> e_tstore e' = (e_tstore e)(ptr :=
         setStep k (\<lambda>st. st \<lparr> s_DatameshRevision := e_revision e' \<rparr>) (e_tstore e ptr))"
  using assms by (auto simp: applyStep_def res_simps Let_def split: if_splits)

lemma confirmStep_SomeD:
  assumes "confirmStep E p ptr rctx k ch e = Some (cr, composed, ch', e')"
  shows "e_transitions e' = e_transitions e \<and> e_originalLen e' = e_originalLen e
    \<and> e_nextNew e' = e_nextNew e \<and> e_finalized e' = e_finalized e \<and> e_revision e' = e_revision e
    \<and> e_g e' = e_g e \<and> e_clock e' = e_clock e
    \<and> k < length (steps p) \<and> k < length (t_Steps (e_tstore e ptr))
    \<and> (\<exists>msg. e_tstore e' = (e_tstore e)(ptr :=
         setStep k (\<lambda>st. st \<lparr> s_Message := msg \<rparr>) (e_tstore e ptr)))"
proof -
  have triv: "(e_tstore e) = (e_tstore e)(ptr :=
      setStep k (\<lambda>st. st \<lparr> s_Message := s_Message (t_Steps (e_tstore e ptr) ! k) \<rparr>) (e_tstore e ptr))"
    by (simp add: setStep_def)
  show ?thesis
    using assms triv by (auto simp: confirmStep_def res_simps Let_def split: if_splits)
qed

text \<open>What the engine never changes in a transition, and the statuses of its steps.\<close>

definition hdr :: "Transition \<Rightarrow> Transition" where
  "hdr t = t \<lparr> t_Steps := [] \<rparr>"

definition statuses :: "Transition \<Rightarrow> StepStatus list" where
  "statuses t = map s_Status (t_Steps t)"

lemma hdr_setStep [simp]: "hdr (setStep k f t) = hdr t"
  by (simp add: hdr_def setStep_def)

lemma length_statuses [simp]: "length (statuses t) = length (t_Steps t)"
  by (simp add: statuses_def)

lemma length_Steps_setStep [simp]: "length (t_Steps (setStep k f t)) = length (t_Steps t)"
  by (simp add: setStep_def)

lemma statuses_setStep:
  "k < length (t_Steps t) \<Longrightarrow> statuses (setStep k f t) = (statuses t)[k := s_Status (f (t_Steps t ! k))]"
  by (simp add: setStep_def statuses_def map_update)

lemma statuses_setStep_same:
  assumes "\<And>s. s_Status (f s) = s_Status s"
  shows "statuses (setStep k f t) = statuses t"
  using assms by (simp add: setStep_def statuses_def map_update list_update_same_conv)
    (metis length_map list_update_beyond list_update_id nth_map not_le)

lemma findCurrentStepIdx_statuses:
  "findCurrentStepIdx t = (let k = length (takeWhile (\<lambda>s. s = Completed) (statuses t))
     in if k < length (statuses t) then Some k else None)"
  by (simp add: findCurrentStepIdx_def statuses_def takeWhile_map comp_def)

lemma findCurrentStepIdx_SomeD:
  assumes "findCurrentStepIdx t = Some k"
  shows "k < length (t_Steps t) \<and> statuses t ! k \<noteq> Completed \<and> (\<forall>j<k. statuses t ! j = Completed)"
proof -
  let ?w = "takeWhile (\<lambda>s. s = Completed) (statuses t)"
  have k: "k = length ?w" "k < length (statuses t)"
    using assms by (simp_all add: findCurrentStepIdx_statuses Let_def split: if_splits)
  then have "statuses t ! k \<noteq> Completed" using nth_length_takeWhile by blast
  moreover have "statuses t ! j = Completed" if "j < k" for j
    using that k(1) takeWhile_nth [of j _ "statuses t"] nth_mem [of j ?w] set_takeWhileD by metis
  ultimately show ?thesis using k(2) by simp
qed

definition weight :: "Transition \<Rightarrow> nat" where
  "weight t = Suc (length (statuses t) - length (takeWhile (\<lambda>s. s = Completed) (statuses t)))"

lemma weight_statuses: "statuses t = statuses t' \<Longrightarrow> weight t = weight t'"
  by (simp add: weight_def)

lemma findCurrentStepIdx_advance:
  assumes k: "findCurrentStepIdx t = Some k" and l: "Suc k < length (t_Steps t)"
    and s: "statuses t' = (statuses t)[k := Completed, Suc k := Active]"
  shows "findCurrentStepIdx t' = Some (Suc k)"
proof -
  have "takeWhile (\<lambda>s. s = Completed) (statuses t') = take (Suc k) (statuses t')"
    using findCurrentStepIdx_SomeD [OF k] l s
    by (intro takeWhile_eq_take_P_nth) (auto simp: nth_list_update)
  moreover have "length (statuses t') = length (statuses t)" by (simp only: s length_list_update)
  ultimately show ?thesis using l by (simp add: findCurrentStepIdx_statuses)
qed

lemma weight_current: "findCurrentStepIdx t = Some k \<Longrightarrow> weight t = Suc (length (t_Steps t) - k)"
  by (simp add: weight_def findCurrentStepIdx_statuses Let_def split: if_splits)

lemma weight_advance:
  assumes k: "findCurrentStepIdx t = Some k" and l: "Suc k < length (t_Steps t)"
    and s: "statuses t' = (statuses t)[k := Completed, Suc k := Active]"
  shows "weight t' < weight t"
proof -
  have "length (t_Steps t') = length (t_Steps t)" using s by (metis length_list_update length_statuses)
  then show ?thesis
    using weight_current [OF k] weight_current [OF findCurrentStepIdx_advance [OF assms]] l by simp
qed

text \<open>\<open>settleOne\<close> leaves everything but the statuses alone, and those only move forward.\<close>

lemma statuses_advanceStep:
  assumes "Suc k < length (t_Steps (e_tstore e ptr))"
  shows "statuses (e_tstore (advanceStep E ptr k e) ptr) =
      (statuses (e_tstore e ptr))[k := Completed, Suc k := Active]"
    and "q \<noteq> ptr \<Longrightarrow> e_tstore (advanceStep E ptr k e) q = e_tstore e q"
    and "hdr (e_tstore (advanceStep E ptr k e) q) = hdr (e_tstore e q)"
  using assms by (simp_all add: advanceStep_def Let_def statuses_setStep)

lemma confirmStep_statuses:
  assumes "confirmStep E p ptr rctx k ch e = Some (cr, composed, ch', e')"
  shows "statuses (e_tstore e' q) = statuses (e_tstore e q)"
    and "hdr (e_tstore e' q) = hdr (e_tstore e q)"
    and "q \<noteq> ptr \<Longrightarrow> e_tstore e' q = e_tstore e q"
  using confirmStep_SomeD [OF assms] by (auto simp: statuses_setStep_same)

lemma applyStep_statuses:
  assumes "applyStep E p ptr rctx k e = Some e'"
  shows "statuses (e_tstore e' q) = statuses (e_tstore e q)"
    and "hdr (e_tstore e' q) = hdr (e_tstore e q)"
    and "q \<noteq> ptr \<Longrightarrow> e_tstore e' q = e_tstore e q"
  using applyStep_SomeD [OF assms] by (auto simp: statuses_setStep_same)

definition engine_frame :: "'g Engine \<Rightarrow> 'g Engine \<Rightarrow> bool" where
  "engine_frame e e' \<longleftrightarrow> e_originalLen e' = e_originalLen e \<and> e_nextNew e' = e_nextNew e
     \<and> e_finalized e' = e_finalized e \<and> e_revision e \<le> e_revision e'
     \<and> (\<forall>q. hdr (e_tstore e' q) = hdr (e_tstore e q))"

lemma engine_frame_refl [simp]: "engine_frame e e"
  by (simp add: engine_frame_def)

lemma engine_frame_trans: "engine_frame e e1 \<Longrightarrow> engine_frame e1 e2 \<Longrightarrow> engine_frame e e2"
  by (auto simp: engine_frame_def)

lemma settleConfirmed_advance:
  assumes "settleConfirmed E p i ptr rctx slot k e = Some (e', False)"
  shows "e_transitions e' = e_transitions e \<and> engine_frame e e' \<and> Suc k < length (t_Steps (e_tstore e ptr))
     \<and> statuses (e_tstore e' ptr) = (statuses (e_tstore e ptr))[k := Completed, Suc k := Active]
     \<and> (\<forall>q. q \<noteq> ptr \<longrightarrow> e_tstore e' q = e_tstore e q)"
proof -
  obtain g' e2 cr adv ch e3 s' where l: "Suc k < length (t_Steps (e_tstore e ptr))"
    and a: "applyStep E p ptr rctx (Suc k) (advanceStep E ptr k (e \<lparr> e_g := g' \<rparr>)) = Some e2"
    and c: "confirmStep E p ptr rctx (Suc k) None e2 = Some (cr, adv, ch, e3)"
    and e': "e' = setSlotStatus slot rctx adv s' e3"
    using assms by (auto simp: settleConfirmed_def res_simps Let_def split: if_splits)
  show ?thesis
    unfolding engine_frame_def e'
    using l applyStep_SomeD [OF a] confirmStep_SomeD [OF c] applyStep_statuses [OF a]
      confirmStep_statuses [OF c] statuses_advanceStep [of k "e \<lparr> e_g := g' \<rparr>" ptr, where E = E]
    by auto
qed

lemma settleConfirmed_complete:
  assumes "settleConfirmed E p i ptr rctx slot k e = Some (e', True)"
  shows "i < length (e_transitions e) \<and> e_transitions e' = delete_at i (e_transitions e)
     \<and> engine_frame e e' \<and> e_tstore e' = e_tstore e \<and> e_revision e' = e_revision e"
  using assms unfolding engine_frame_def
  by (auto simp: settleConfirmed_def res_simps Let_def split: if_splits dest!: completeTransition_SomeD)

definition settle_post :: "nat \<Rightarrow> 'g Engine \<Rightarrow> 'g Engine \<Rightarrow> bool \<Rightarrow> bool \<Rightarrow> bool" where
  "settle_post i e e' removed progressed \<longleftrightarrow> engine_frame e e' \<and>
     (if removed
      then progressed \<and> i < length (e_transitions e) \<and> e_transitions e' = delete_at i (e_transitions e)
           \<and> (\<forall>q. statuses (e_tstore e' q) = statuses (e_tstore e q))
      else e_transitions e' = e_transitions e \<and>
           (\<forall>q. q \<noteq> e_transitions e ! i \<longrightarrow> statuses (e_tstore e' q) = statuses (e_tstore e q)) \<and>
           (if progressed
            then \<exists>k. findCurrentStepIdx (e_tstore e (e_transitions e ! i)) = Some k
                   \<and> Suc k < length (t_Steps (e_tstore e (e_transitions e ! i)))
                   \<and> statuses (e_tstore e' (e_transitions e ! i))
                     = (statuses (e_tstore e (e_transitions e ! i)))[k := Completed, Suc k := Active]
            else statuses (e_tstore e' (e_transitions e ! i)) = statuses (e_tstore e (e_transitions e ! i))))"

text \<open>The four ways an iteration can go: unknown plan, all steps completed, waiting for
  confirmations, current step confirmed.\<close>

lemma settleOne_cases [consumes 1, case_names unknown all wait conf]:
  assumes "settleOne E i e ch = Some (e', removed, ch', progressed)"
  obtains "reg_get (env_registry E) (t_Type (e_tstore e (e_transitions e ! i)))
             (t_PlanID (e_tstore e (e_transitions e ! i))) = None"
        "e' = e" "\<not> removed" "\<not> progressed" "ch' = ch"
    | p rctx slot where "findCurrentStepIdx (e_tstore e (e_transitions e ! i)) = None"
        "completeTransition E p i rctx slot e = Some e'" "removed" "progressed" "ch'"
        "reg_get (env_registry E) (t_Type (e_tstore e (e_transitions e ! i)))
             (t_PlanID (e_tstore e (e_transitions e ! i))) = Some p"
        "settleResolve E p (e_tstore e (e_transitions e ! i)) (e_g e) = Some (rctx, slot)"
    | p rctx slot k cr composed c d e1 where "findCurrentStepIdx (e_tstore e (e_transitions e ! i)) = Some k"
        "confirmStep E p (e_transitions e ! i) rctx k (Some ch) e = Some (cr, composed, c, e1)"
        "e' = setSlotStatus slot rctx composed d e1" "\<not> removed" "\<not> progressed" "ch' = (c = Some True)"
        "reg_get (env_registry E) (t_Type (e_tstore e (e_transitions e ! i)))
             (t_PlanID (e_tstore e (e_transitions e ! i))) = Some p"
        "settleResolve E p (e_tstore e (e_transitions e ! i)) (e_g e) = Some (rctx, slot)"
    | p rctx slot k cr composed c d e1 where "findCurrentStepIdx (e_tstore e (e_transitions e ! i)) = Some k"
        "confirmStep E p (e_transitions e ! i) rctx k (Some ch) e = Some (cr, composed, c, e1)"
        "settleConfirmed E p i (e_transitions e ! i) rctx slot k (setSlotStatus slot rctx composed d e1)
           = Some (e', removed)"
        "progressed" "ch'"
        "reg_get (env_registry E) (t_Type (e_tstore e (e_transitions e ! i)))
             (t_PlanID (e_tstore e (e_transitions e ! i))) = Some p"
        "settleResolve E p (e_tstore e (e_transitions e ! i)) (e_g e) = Some (rctx, slot)"
proof (cases "reg_get (env_registry E) (t_Type (e_tstore e (e_transitions e ! i)))
             (t_PlanID (e_tstore e (e_transitions e ! i)))")
  case None
  then have "e' = e \<and> \<not> removed \<and> \<not> progressed \<and> ch' = ch"
    using assms by (auto simp: settleOne_def Let_def)
  with None show ?thesis by (intro that(1)) simp_all
next
  case p: (Some p)
  then obtain rctx slot where r: "settleResolve E p (e_tstore e (e_transitions e ! i)) (e_g e) = Some (rctx, slot)"
    using assms by (auto simp: settleOne_def Let_def res_simps)
  show ?thesis
  proof (cases "findCurrentStepIdx (e_tstore e (e_transitions e ! i))")
    case None
    then show ?thesis using assms p r that(2) by (auto simp: settleOne_def Let_def res_simps)
  next
    case (Some k)
    then show ?thesis using assms p r that(3,4)
      by (auto simp: settleOne_def Let_def res_simps split: if_splits)
  qed
qed

lemma settleOne_post:
  assumes "settleOne E i e ch = Some (e', removed, ch', progressed)"
  shows "settle_post i e e' removed progressed"
proof -
  let ?ptr = "e_transitions e ! i"
  let ?t = "e_tstore e ?ptr"
  from assms show ?thesis
  proof (cases rule: settleOne_cases)
    case unknown
    then show ?thesis by (simp add: settle_post_def)
  next
    case all
    then show ?thesis
      using completeTransition_SomeD [OF all(2)] by (simp add: settle_post_def engine_frame_def)
  next
    case wait
    then show ?thesis
      using confirmStep_SomeD [OF wait(2)] confirmStep_statuses [OF wait(2)]
      by (simp add: settle_post_def engine_frame_def)
  next
    case (conf p rctx slot k cr composed c d e1)
    note c = confirmStep_SomeD [OF conf(2)] confirmStep_statuses [OF conf(2)]
    have len: "length (t_Steps (e_tstore e1 ?ptr)) = length (t_Steps ?t)"
      using c(2) [of ?ptr] by (metis length_statuses)
    show ?thesis
    proof (cases removed)
      case True
      with conf(3) have "settleConfirmed E p i ?ptr rctx slot k (setSlotStatus slot rctx composed d e1)
          = Some (e', True)" by simp
      from settleConfirmed_complete [OF this] show ?thesis
        using True conf(4) c by (simp add: settle_post_def engine_frame_def)
    next
      case False
      with conf(3) have "settleConfirmed E p i ?ptr rctx slot k (setSlotStatus slot rctx composed d e1)
          = Some (e', False)" by simp
      from settleConfirmed_advance [OF this] show ?thesis
        using False conf(1,4) c len by (simp add: settle_post_def engine_frame_def)
    qed
  qed
qed

text \<open>Hence the loop over the shadow index ends: every iteration moves the index forward or shortens
  the list.\<close>

lemma length_settle_post:
  "settle_post i e e' removed progressed \<Longrightarrow>
     length (e_transitions e') = (if removed then length (e_transitions e) - 1 else length (e_transitions e))"
  by (auto simp: settle_post_def length_delete_at split: if_splits)

function settleFrom :: "('g, 'r) EngineEnv \<Rightarrow> nat \<Rightarrow> 'g Engine \<Rightarrow> bool \<Rightarrow> bool
    \<Rightarrow> ('g Engine \<times> bool \<times> bool) option" where
  "settleFrom E i e changed progressed =
     (if i < length (e_transitions e)
      then (case settleOne E i e changed of
              None \<Rightarrow> None
            | Some (e', removed, changed', progressed') \<Rightarrow>
                settleFrom E (if removed then i else Suc i) e' changed' (progressed \<or> progressed'))
      else Some (e, changed, progressed))"
  by pat_completeness auto
termination
  by (relation "measure (\<lambda>(E, i, e, _). length (e_transitions e) - i)")
     (auto dest!: settleOne_post length_settle_post)

declare settleFrom.simps [simp del]

definition settleTransitions :: "('g, 'r) EngineEnv \<Rightarrow> 'g Engine \<Rightarrow> ('g Engine \<times> bool \<times> bool) option" where
  "settleTransitions E e = settleFrom E 0 e False False"

subsection \<open>The settle loop terminates\<close>

text \<open>The work that is left: for every transition in the shadow index, its open steps plus one.\<close>

definition work :: "'g Engine \<Rightarrow> nat" where
  "work e = sum_list (map (\<lambda>q. weight (e_tstore e q)) (e_transitions e))"

lemma sum_list_map_le: "(\<And>x. x \<in> set xs \<Longrightarrow> f x \<le> (g x :: nat)) \<Longrightarrow> sum_list (map f xs) \<le> sum_list (map g xs)"
  by (induction xs) (auto simp: add_le_mono)

lemma sum_list_map_less:
  assumes "\<And>x. x \<in> set xs \<Longrightarrow> f x \<le> (g x :: nat)" and "y \<in> set xs" and "f y < g y"
  shows "sum_list (map f xs) < sum_list (map g xs)"
  using assms
proof (induction xs)
  case (Cons x xs)
  then show ?case
    using sum_list_map_le [of xs f g]
    by (cases "y = x") (auto simp: add_less_le_mono add_le_less_mono)
qed simp

lemma settle_post_work:
  assumes "settle_post i e e' removed progressed" and i: "i < length (e_transitions e)"
  shows "work e' \<le> work e \<and> (progressed \<longrightarrow> work e' < work e)"
proof (cases removed)
  case True
  then have "work e' = sum_list (map (\<lambda>q. weight (e_tstore e q)) (delete_at i (e_transitions e)))"
    using assms(1) by (simp add: settle_post_def work_def) (metis weight_statuses)
  then show ?thesis
    using sum_list_delete_at [OF i, of "\<lambda>q. weight (e_tstore e q)"] by (simp add: work_def weight_def)
next
  case False
  let ?ptr = "e_transitions e ! i"
  have tr: "e_transitions e' = e_transitions e" using assms(1) False by (simp add: settle_post_def)
  have other: "weight (e_tstore e' q) = weight (e_tstore e q)" if "q \<noteq> ?ptr" for q
    using assms(1) False that by (auto simp: settle_post_def intro: weight_statuses)
  have ptr: "if progressed then weight (e_tstore e' ?ptr) < weight (e_tstore e ?ptr)
      else weight (e_tstore e' ?ptr) = weight (e_tstore e ?ptr)"
    using assms(1) False
    by (auto simp: settle_post_def intro: weight_statuses weight_advance split: if_splits)
  have le: "weight (e_tstore e' q) \<le> weight (e_tstore e q)" for q
    using other ptr by (cases "q = ?ptr") (auto split: if_splits intro: less_imp_le)
  have mem: "?ptr \<in> set (e_transitions e)" using i by simp
  show ?thesis
    unfolding work_def tr
    using sum_list_map_le [of "e_transitions e", OF le] sum_list_map_less [OF le mem] ptr by auto
qed

lemma settleFrom_work:
  "settleFrom E i e ch pr = Some (e', ch', pr') \<Longrightarrow>
     work e' \<le> work e \<and> (pr' \<and> \<not> pr \<longrightarrow> work e' < work e) \<and> engine_frame e e'"
proof (induction E i e ch pr rule: settleFrom.induct)
  case (1 E i e ch pr)
  show ?case
  proof (cases "i < length (e_transitions e)")
    case False
    then show ?thesis using 1(2) by (simp add: settleFrom.simps)
  next
    case True
    then obtain e1 rem ch1 pr1 where s: "settleOne E i e ch = Some (e1, rem, ch1, pr1)"
      using 1(2) by (subst (asm) settleFrom.simps) (auto split: option.splits)
    have rest: "settleFrom E (if rem then i else Suc i) e1 ch1 (pr \<or> pr1) = Some (e', ch', pr')"
      using 1(2) True s by (subst (asm) settleFrom.simps) simp
    note post = settleOne_post [OF s]
    have ih: "work e' \<le> work e1 \<and> (pr' \<and> \<not> (pr \<or> pr1) \<longrightarrow> work e' < work e1) \<and> engine_frame e1 e'"
      by (rule 1(1) [OF True s refl refl refl rest])
    have "engine_frame e e1" using post by (simp add: settle_post_def)
    then show ?thesis
      using ih settle_post_work [OF post True] engine_frame_trans by fastforce
  qed
qed

text \<open>The inner loop of \<open>Process\<close>: settle until a pass makes no progress. It has no bound in the
  source; every pass that progresses reduces the work that is left.\<close>

function settleUntilStable :: "('g, 'r) EngineEnv \<Rightarrow> 'g Engine \<Rightarrow> bool \<Rightarrow> ('g Engine \<times> bool) option" where
  "settleUntilStable E e changed =
     (case settleTransitions E e of
        None \<Rightarrow> None
      | Some (e', settleChanged, progressed) \<Rightarrow>
          if progressed then settleUntilStable E e' (changed \<or> settleChanged)
          else Some (e', changed \<or> settleChanged))"
  by pat_completeness auto
termination
  by (relation "measure (\<lambda>(E, e, _). work e)")
     (auto simp: settleTransitions_def dest!: settleFrom_work)

declare settleUntilStable.simps [simp del]

subsection \<open>Dispatch\<close>

definition createTransition :: "('g, 'r) EngineEnv \<Rightarrow> ('g, 'r) plan \<Rightarrow> PlanID \<Rightarrow> 'r option \<Rightarrow> 'g Engine
    \<Rightarrow> (tptr \<times> 'g Engine) option" where
  "createTransition E p planID rctx e = do {
     let now = env_now E (e_clock e);
     let e = e \<lparr> e_clock := Suc (e_clock e) \<rparr>;
     let ss = map (\<lambda>s. emptyStep \<lparr> s_Name := st_name s, s_Status := Pending \<rparr>) (steps p);
     s0 \<leftarrow> index ss 0;
     let ss = ss[0 := s0 \<lparr> s_Status := Active, s_StartedAt := Some now \<rparr>];
     let t = emptyTransition \<lparr> t_Type := pl_transitionType p, t_Group := pl_group p, t_PlanID := planID,
               t_Steps := ss \<rparr>;
     t \<leftarrow> (case pl_scope p of
         GlobalScope \<Rightarrow> Some t
       | ReplicaScope \<Rightarrow> do {
           r \<leftarrow> rctx;
           let name = rc_Name (env_cp E) (e_g e) r;
           panicUnless (name \<noteq> []);
           Some (t \<lparr> t_ReplicaName := name \<rparr>) });
     t \<leftarrow> callInit p (e_tstore e) (e_g e) rctx t;
     let ptr = New (e_nextNew e);
     Some (ptr, writeT ptr t (e \<lparr> e_transitions := e_transitions e @ [ptr], e_nextNew := Suc (e_nextNew e) \<rparr>)) }"

text \<open>The position of a pointer in the shadow index.\<close>

definition ptrPos :: "tptr \<Rightarrow> tptr list \<Rightarrow> nat option" where
  "ptrPos q xs = (let k = length (takeWhile (\<lambda>x. x \<noteq> q) xs) in if k < length xs then Some k else None)"

definition cancelActive :: "('g, 'r) EngineEnv \<Rightarrow> ('g, 'r) ReplicaSlotAccessor \<Rightarrow> 'r \<Rightarrow> 'g Engine \<Rightarrow> 'g Engine option" where
  "cancelActive E slot r e = (case GetActiveTransition slot (e_g e) r of
       None \<Rightarrow> Some e
     | Some active \<Rightarrow> do {
         e1 \<leftarrow> (case ptrPos active (e_transitions e) of None \<Rightarrow> Some e | Some j \<Rightarrow> deleteTransition E j e);
         Some (e1 \<lparr> e_g := SetActiveTransition slot r None (e_g e1) \<rparr>) })"

text \<open>The slot conflict check: \<open>None\<close> when the slot is free, otherwise the message (empty when the
  same type is already active) and the engine with the slot status written.\<close>

definition slotConflict :: "('g, 'r) EngineEnv \<Rightarrow> ('g, 'r) plan \<Rightarrow> ('g, 'r) ReplicaSlotAccessor \<Rightarrow> 'r
    \<Rightarrow> 'g Engine \<Rightarrow> (string \<times> 'g Engine) option" where
  "slotConflict E p slot r e = (case GetActiveTransition slot (e_g e) r of
       None \<Rightarrow> None
     | Some ptr \<Rightarrow>
         let active = e_tstore e ptr in
         if t_Type active = pl_transitionType p then Some ([], e)
         else let activePlan = reg_get (env_registry E) (t_Type active) (t_PlanID active);
                  name = (case activePlan of None \<Rightarrow> [] | Some ap \<Rightarrow> displayName ap);
                  msg = composeBlockedByActive (displayName p) name (CurrentStep active);
                  details = (case (CurrentStep active, activePlan, findCurrentStepIdx active) of
                      (Some _, Some ap, Some k) \<Rightarrow> if k < length (steps ap) then st_details (steps ap ! k) else None
                    | _ \<Rightarrow> None)
              in Some (msg, e \<lparr> e_g := SetStatus slot r msg details (e_g e) \<rparr>))"

text \<open>Guards, tracker admission and creation: the part of \<open>dispatchOne\<close> after the slot conflict
  check. \<open>Inl\<close> is the blocked message, \<open>Inr\<close> the created transition.\<close>

definition admitAndCreate :: "('g, 'r) EngineEnv \<Rightarrow> ('g, 'r) plan \<Rightarrow> PlanID \<Rightarrow> 'r option
    \<Rightarrow> ('g, 'r) ReplicaSlotAccessor option \<Rightarrow> 'g Engine \<Rightarrow> ((string + tptr) \<times> 'g Engine) option" where
  "admitAndCreate E p planID rctx slot e = do {
     (res, g1) \<leftarrow> evaluateGuards p (e_tstore e) (e_g e) rctx;
     let e = e \<lparr> e_g := g1 \<rparr>;
     if Blocked res
     then let msg = composeBlocked (displayName p) (gr_Message res)
          in Some (Inl msg, setSlotStatus slot rctx msg (gr_Details res) e)
     else do {
       let tempT = emptyTransition \<lparr> t_Type := pl_transitionType p, t_Group := pl_group p \<rparr>;
       let tempT = (case (pl_scope p, rctx) of
              (ReplicaScope, Some r) \<Rightarrow> tempT \<lparr> t_ReplicaName := rc_Name (env_cp E) (e_g e) r \<rparr> | _ \<Rightarrow> tempT);
       tempT \<leftarrow> callInit p (e_tstore e) (e_g e) rctx tempT;
       (allowed, reason, det) \<leftarrow> trk_CanAdmit (env_tracker E) tempT (e_g e);
       if \<not> allowed
       then let msg = composeBlocked (displayName p) reason
            in Some (Inl msg, setSlotStatus slot rctx msg det e)
       else do {
         (ptr, e1) \<leftarrow> createTransition E p planID rctx e;
         let e2 = (case (slot, rctx) of
               (Some s, Some r) \<Rightarrow> e1 \<lparr> e_g := SetActiveTransition s r (Some ptr) (e_g e1) \<rparr> | _ \<Rightarrow> e1);
         g3 \<leftarrow> trk_Add (env_tracker E) ptr (e_tstore e2 ptr) (e_g e2);
         e4 \<leftarrow> applyStep E p ptr rctx 0 (e2 \<lparr> e_g := g3 \<rparr>);
         (_, composed, _, e5) \<leftarrow> confirmStep E p ptr rctx 0 None e4;
         s0 \<leftarrow> index (steps p) 0;
         Some (Inr ptr, setSlotStatus slot rctx composed (st_details s0) e5) } } }"

definition dispatchOne :: "('g, 'r) EngineEnv \<Rightarrow> ('g, 'r) plan \<Rightarrow> PlanID \<Rightarrow> 'r option
    \<Rightarrow> ('g, 'r) ReplicaSlotAccessor option \<Rightarrow> 'g Engine \<Rightarrow> ((string + tptr) \<times> 'g Engine) option" where
  "dispatchOne E p planID rctx slot e = do {
     e \<leftarrow> (case (slot, rctx) of
         (Some s, Some r) \<Rightarrow> if cancelActiveOnCreate p then cancelActive E s r e else Some e
       | _ \<Rightarrow> Some e);
     case (slot, rctx) of
       (Some s, Some r) \<Rightarrow>
         (case slotConflict E p s r e of
            Some (msg, e') \<Rightarrow> Some (Inl msg, e')
          | None \<Rightarrow> admitAndCreate E p planID rctx slot e)
     | _ \<Rightarrow> admitAndCreate E p planID rctx slot e }"

text \<open>\<open>CreateReplicaTransition\<close> and \<open>CreateGlobalTransition\<close>.\<close>

definition CreateReplicaTransition :: "('g, 'r) EngineEnv \<Rightarrow> TransitionType \<Rightarrow> PlanID \<Rightarrow> u8 \<Rightarrow> 'g Engine
    \<Rightarrow> ((string + tptr) \<times> 'g Engine) option" where
  "CreateReplicaTransition E tt planID replicaID e = do {
     panicUnless (\<not> e_finalized e);
     p \<leftarrow> reg_get (env_registry E) tt planID;
     rctx \<leftarrow> cp_Replica (env_cp E) (e_g e) replicaID;
     r \<leftarrow> rctx;
     dispatchOne E p planID (Some r) (replicaSlotAccessor (env_registry E) (pl_slot p)) e }"

definition CreateGlobalTransition :: "('g, 'r) EngineEnv \<Rightarrow> TransitionType \<Rightarrow> PlanID \<Rightarrow> 'g Engine
    \<Rightarrow> ((string + tptr) \<times> 'g Engine) option" where
  "CreateGlobalTransition E tt planID e = do {
     panicUnless (\<not> e_finalized e);
     p \<leftarrow> reg_get (env_registry E) tt planID;
     dispatchOne E p planID None None e }"

text \<open>One decision of a dispatcher, as in the loop body of \<open>runDispatch\<close>. A replica-scoped plan
  dispatched without a replica context is a failed type assertion.\<close>

definition runDecision :: "('g, 'r) EngineEnv \<Rightarrow> 'r DispatchDecision \<Rightarrow> 'g Engine \<Rightarrow> (bool \<times> 'g Engine) option" where
  "runDecision E d e =
     (if d_planID d = []
      then Some (False, (case (d_replicaCtx d, d_message d) of
             (Some r, _ # _) \<Rightarrow> setSlotStatus (replicaSlotAccessor (env_registry E) (d_replicaSlot d)) (Some r)
                                 (d_message d) (d_details d) e
           | _ \<Rightarrow> e))
      else do {
        p \<leftarrow> reg_get (env_registry E) (d_transitionType d) (d_planID d);
        (rctx, slot) \<leftarrow> (if pl_scope p = ReplicaScope
           then do { r \<leftarrow> d_replicaCtx d; Some (Some r, replicaSlotAccessor (env_registry E) (pl_slot p)) }
           else Some (None, None));
        (res, e') \<leftarrow> dispatchOne E p (d_planID d) rctx slot e;
        Some ((case res of Inl _ \<Rightarrow> False | Inr _ \<Rightarrow> True), e') })"

fun runBodies :: "('g, 'r) EngineEnv \<Rightarrow> ('g, 'r) dispatchBody list \<Rightarrow> bool \<Rightarrow> 'g Engine \<Rightarrow> (bool \<times> 'g Engine) option" where
  "runBodies E [] changed e = Some (changed, e)"
| "runBodies E (body # bodies) changed e = do {
     decision \<leftarrow> body (e_tstore e) (e_g e);
     case decision of
       None \<Rightarrow> runBodies E bodies changed e
     | Some d \<Rightarrow> do { (c, e') \<leftarrow> runDecision E d e; runBodies E bodies (changed \<or> c) e' } }"

fun runDispatch :: "('g, 'r) EngineEnv \<Rightarrow> ('g, 'r) DispatchFunc \<Rightarrow> bool \<Rightarrow> 'g Engine \<Rightarrow> (bool \<times> 'g Engine) option" where
  "runDispatch E [] changed e = Some (changed, e)"
| "runDispatch E (phase # phases) changed e = do {
     (c, e') \<leftarrow> runBodies E (phase (e_tstore e) (e_g e)) changed e;
     runDispatch E phases c e' }"

fun runDispatchers :: "('g, 'r) EngineEnv \<Rightarrow> ('g, 'r) DispatchFunc list \<Rightarrow> bool \<Rightarrow> 'g Engine \<Rightarrow> (bool \<times> 'g Engine) option" where
  "runDispatchers E [] dispatched e = Some (dispatched, e)"
| "runDispatchers E (d # ds) dispatched e = do {
     (c, e') \<leftarrow> runDispatch E d False e;
     runDispatchers E ds (dispatched \<or> c) e' }"

subsection \<open>Process\<close>

definition maxOuter :: nat where "maxOuter = 10"

fun processLoop :: "('g, 'r) EngineEnv \<Rightarrow> nat \<Rightarrow> bool \<Rightarrow> 'g Engine \<Rightarrow> (bool \<times> 'g Engine) option" where
  "processLoop E 0 changed e = Some (changed, e)"
| "processLoop E (Suc n) changed e = do {
     (e1, changed1) \<leftarrow> settleUntilStable E e changed;
     (dispatched, e2) \<leftarrow> runDispatchers E (env_dispatchers E) False e1;
     if dispatched then processLoop E n True e2 else Some (changed1, e2) }"

definition Process :: "('g, 'r) EngineEnv \<Rightarrow> 'g Engine \<Rightarrow> (bool \<times> 'g Engine) option" where
  "Process E e = do {
     panicUnless (\<not> e_finalized e);
     processLoop E maxOuter False e }"

subsection \<open>Finalize\<close>

fun replaceInSlots :: "('g, 'r) EngineEnv \<Rightarrow> nat list \<Rightarrow> tptr \<Rightarrow> tptr \<Rightarrow> 'r \<Rightarrow> 'g \<Rightarrow> 'g" where
  "replaceInSlots E [] oldPtr newPtr r g = g"
| "replaceInSlots E (slotID # slotIDs) oldPtr newPtr r g =
     (case replicaSlotAccessor (env_registry E) slotID of
        None \<Rightarrow> replaceInSlots E slotIDs oldPtr newPtr r g
      | Some slot \<Rightarrow> if GetActiveTransition slot g r = Some oldPtr
          then SetActiveTransition slot r (Some newPtr) g
          else replaceInSlots E slotIDs oldPtr newPtr r g)"

definition replaceSlotPointer :: "('g, 'r) EngineEnv \<Rightarrow> tptr \<Rightarrow> tptr \<Rightarrow> 'g Engine \<Rightarrow> 'g Engine option" where
  "replaceSlotPointer E oldPtr newPtr e = do {
     let t = e_tstore e oldPtr;
     if t_ReplicaName t = [] then Some e
     else do {
       i \<leftarrow> ReplicaID t;
       rctx \<leftarrow> cp_Replica (env_cp E) (e_g e) i;
       case rctx of
         None \<Rightarrow> Some e
       | Some r \<Rightarrow> Some (e \<lparr> e_g := replaceInSlots E [0..<MaxReplicaSlots] oldPtr newPtr r (e_g e) \<rparr>) } }"

text \<open>\<open>slices.Grow\<close> keeps the array when its capacity suffices and reallocates it otherwise: \<open>realloc\<close>
  says which. The elements of the result array have the addresses \<open>base 0, base 1, \<dots>\<close>.\<close>

fun finalizeCopy :: "('g, 'r) EngineEnv \<Rightarrow> (nat \<Rightarrow> tptr) \<Rightarrow> nat list \<Rightarrow> 'g Engine \<Rightarrow> 'g Engine option" where
  "finalizeCopy E base [] e = Some e"
| "finalizeCopy E base (i # is) e = (let ptr = e_transitions e ! i in
     if ptr \<noteq> base i
     then do { e1 \<leftarrow> replaceSlotPointer E ptr (base i) e;
               finalizeCopy E base is (writeT (base i) (e_tstore e1 ptr) e1) }
     else finalizeCopy E base is e)"

fun finalizeAppend :: "('g, 'r) EngineEnv \<Rightarrow> (nat \<Rightarrow> tptr) \<Rightarrow> nat list \<Rightarrow> 'g Engine \<Rightarrow> 'g Engine option" where
  "finalizeAppend E base [] e = Some e"
| "finalizeAppend E base (i # is) e = (let ptr = e_transitions e ! i in do {
     e1 \<leftarrow> replaceSlotPointer E ptr (base i) (writeT (base i) (e_tstore e ptr) e);
     finalizeAppend E base is e1 })"

definition growStore :: "nat \<Rightarrow> tstore \<Rightarrow> tstore" where
  "growStore n ts = (\<lambda>ptr. case ptr of Grown i \<Rightarrow> if i < n then ts (Orig i) else ts (Grown i) | _ \<Rightarrow> ts ptr)"

definition Finalize :: "('g, 'r) EngineEnv \<Rightarrow> bool \<Rightarrow> 'g Engine \<Rightarrow> (Transition list \<times> 'g Engine) option" where
  "Finalize E realloc e = do {
     panicUnless (\<not> e_finalized e);
     let e = e \<lparr> e_finalized := True \<rparr>;
     let n = length (e_transitions e);
     let grow = (n > e_originalLen e \<and> realloc);
     let base = (if grow then Grown else Orig);
     let e = (if grow then e \<lparr> e_tstore := growStore (e_originalLen e) (e_tstore e) \<rparr> else e);
     let minLen = min (e_originalLen e) n;
     e1 \<leftarrow> finalizeCopy E base [0..<minLen] e;
     e2 \<leftarrow> finalizeAppend E base [minLen..<n] e1;
     Some (map (\<lambda>i. e_tstore e2 (base i)) [0..<n], e2) }"

end
