(* ===== verification/Dmte_Invariant.thy ===== *)
theory Dmte_Invariant
  imports Dmte_Engine
begin

text \<open>
  Invariants of the transition engine, for every registry, tracker, context provider and
  dispatcher: the shape of the shadow index, the sequential order of steps, the bound of step
  revisions by the revision counter, and the correctness of the in-place compaction of
  \<open>Finalize\<close>.
\<close>

subsection \<open>Lifting invariants through Process\<close>

definition settle_inv :: "('g, 'r) EngineEnv \<Rightarrow> ('g Engine \<Rightarrow> bool) \<Rightarrow> bool" where
  "settle_inv E P \<longleftrightarrow> (\<forall>i e ch e' r ch' pr. settleOne E i e ch = Some (e', r, ch', pr) \<longrightarrow>
      i < length (e_transitions e) \<longrightarrow> P e \<longrightarrow> P e')"

definition decision_inv :: "('g, 'r) EngineEnv \<Rightarrow> ('g Engine \<Rightarrow> bool) \<Rightarrow> bool" where
  "decision_inv E P \<longleftrightarrow> (\<forall>d e c e'. runDecision E d e = Some (c, e') \<longrightarrow> P e \<longrightarrow> P e')"

lemma settleFrom_preserves:
  "settleFrom E i e ch pr = Some (e', ch', pr') \<Longrightarrow> settle_inv E P \<Longrightarrow> P e \<Longrightarrow> P e'"
proof (induction E i e ch pr rule: settleFrom.induct)
  case (1 E i e ch pr)
  show ?case
  proof (cases "i < length (e_transitions e)")
    case False
    then show ?thesis using 1(2,4) by (simp add: settleFrom.simps)
  next
    case True
    then obtain e1 rem ch1 pr1 where s: "settleOne E i e ch = Some (e1, rem, ch1, pr1)"
      using 1(2) by (subst (asm) settleFrom.simps) (auto split: option.splits)
    have "settleFrom E (if rem then i else Suc i) e1 ch1 (pr \<or> pr1) = Some (e', ch', pr')"
      using 1(2) True s by (subst (asm) settleFrom.simps) simp
    from 1(1) [OF True s refl refl refl this 1(3)] show ?thesis
      using 1(3,4) s True unfolding settle_inv_def by blast
  qed
qed

lemma settleUntilStable_preserves:
  "settleUntilStable E e ch = Some (e', ch') \<Longrightarrow> settle_inv E P \<Longrightarrow> P e \<Longrightarrow> P e'"
proof (induction E e ch rule: settleUntilStable.induct)
  case (1 E e ch)
  obtain e1 ch1 pr where s: "settleTransitions E e = Some (e1, ch1, pr)"
    using 1(2) by (subst (asm) settleUntilStable.simps) (auto split: option.splits)
  have p1: "P e1"
    using settleFrom_preserves [OF s [unfolded settleTransitions_def] 1(3,4)] .
  show ?case
  proof (cases pr)
    case True
    then have "settleUntilStable E e1 (ch \<or> ch1) = Some (e', ch')"
      using 1(2) s by (subst (asm) settleUntilStable.simps) simp
    from 1(1) [OF s refl refl True this 1(3) p1] show ?thesis .
  next
    case False
    then show ?thesis
      using 1(2) s p1 by (subst (asm) settleUntilStable.simps) simp
  qed
qed

lemma runBodies_preserves:
  "runBodies E bodies c e = Some (c', e') \<Longrightarrow> decision_inv E P \<Longrightarrow> P e \<Longrightarrow> P e'"
proof (induction bodies arbitrary: c e)
  case (Cons body bodies)
  show ?case
  proof (cases "body (e_tstore e) (e_g e)")
    case None
    then show ?thesis using Cons.prems(1) by simp
  next
    case (Some dec)
    show ?thesis
    proof (cases dec)
      case None
      then show ?thesis using Cons.prems Cons.IH Some by simp
    next
      case d: (Some d)
      then obtain c1 e1 where "runDecision E d e = Some (c1, e1)"
        "runBodies E bodies (c \<or> c1) e1 = Some (c', e')"
        using Cons.prems(1) Some by (auto simp: res_simps)
      then show ?thesis using Cons.IH Cons.prems(2,3) unfolding decision_inv_def by blast
    qed
  qed
qed simp

lemma runDispatch_preserves:
  "runDispatch E phases c e = Some (c', e') \<Longrightarrow> decision_inv E P \<Longrightarrow> P e \<Longrightarrow> P e'"
  by (induction phases arbitrary: c e) (auto simp: res_simps dest: runBodies_preserves)

lemma runDispatchers_preserves:
  "runDispatchers E ds c e = Some (c', e') \<Longrightarrow> decision_inv E P \<Longrightarrow> P e \<Longrightarrow> P e'"
  by (induction ds arbitrary: c e) (auto simp: res_simps dest: runDispatch_preserves)

lemma processLoop_preserves:
  "processLoop E n c e = Some (c', e') \<Longrightarrow> settle_inv E P \<Longrightarrow> decision_inv E P \<Longrightarrow> P e \<Longrightarrow> P e'"
proof (induction n arbitrary: c e)
  case (Suc n)
  then obtain e1 c1 d e2 where s: "settleUntilStable E e c = Some (e1, c1)"
    and r: "runDispatchers E (env_dispatchers E) False e1 = Some (d, e2)"
    and l: "(if d then processLoop E n True e2 else Some (c1, e2)) = Some (c', e')"
    by (auto simp: res_simps)
  have "P e1" by (rule settleUntilStable_preserves [OF s Suc.prems(2,4)])
  then have "P e2" by (rule runDispatchers_preserves [OF r Suc.prems(3)])
  then show ?case using l Suc.IH Suc.prems(2,3) by (auto split: if_splits)
qed simp

lemma Process_preserves:
  "Process E e = Some (c, e') \<Longrightarrow> settle_inv E P \<Longrightarrow> decision_inv E P \<Longrightarrow> P e \<Longrightarrow> P e'"
  by (auto simp: Process_def res_simps dest: processLoop_preserves)

text \<open>A decision is one of: a status write, a cancelled transition followed by a conflict or a guard
  or tracker refusal, or the creation of a transition.\<close>

lemma cancelActive_SomeD:
  assumes "cancelActive E slot r e = Some e'"
  shows "engine_frame e e' \<and> e_tstore e' = e_tstore e \<and> e_revision e' = e_revision e \<and>
    (e_transitions e' = e_transitions e \<or>
     (\<exists>j. j < length (e_transitions e) \<and> e_transitions e' = delete_at j (e_transitions e)))"
  using assms
  by (auto simp: cancelActive_def res_simps engine_frame_def split: option.splits
      dest!: deleteTransition_SomeD)

lemma slotConflict_SomeD:
  assumes "slotConflict E p slot r e = Some (msg, e')"
  shows "engine_frame e e' \<and> e_tstore e' = e_tstore e \<and> e_transitions e' = e_transitions e
    \<and> e_revision e' = e_revision e"
  using assms by (auto simp: slotConflict_def Let_def engine_frame_def split: option.splits if_splits)

subsection \<open>The invariant\<close>

text \<open>The shadow index lists surviving elements of the original slice in their order, then the created
  transitions in the order of their creation.\<close>

definition shadow_ok :: "'g Engine \<Rightarrow> bool" where
  "shadow_ok e \<longleftrightarrow> (\<exists>is js. e_transitions e = map Orig is @ map New js
     \<and> sorted_wrt (<) is \<and> (\<forall>i \<in> set is. i < e_originalLen e)
     \<and> sorted_wrt (<) js \<and> (\<forall>j \<in> set js. j < e_nextNew e))"

text \<open>Steps run one after the other: a completed prefix, one active step, then pending ones.\<close>

definition steps_ok :: "Transition \<Rightarrow> bool" where
  "steps_ok t \<longleftrightarrow> (\<exists>k m. statuses t = replicate k Completed @ Active # replicate m Pending)"

definition revs_le :: "int \<Rightarrow> Transition \<Rightarrow> bool" where
  "revs_le n t \<longleftrightarrow> (\<forall>s \<in> set (t_Steps t). s_DatameshRevision s \<le> n)"

definition engine_inv :: "'g Engine \<Rightarrow> bool" where
  "engine_inv e \<longleftrightarrow> 0 \<le> e_revision e \<and> shadow_ok e
     \<and> (\<forall>q \<in> set (e_transitions e). steps_ok (e_tstore e q) \<and> revs_le (e_revision e) (e_tstore e q))"

lemma delete_at_append:
  "delete_at i (xs @ ys) = (if i < length xs then delete_at i xs @ ys else xs @ delete_at (i - length xs) ys)"
  by (auto simp: delete_at_def Suc_diff_le)

lemma shadow_ok_delete:
  assumes "shadow_ok e" and "e_transitions e' = delete_at i (e_transitions e)"
    and "e_originalLen e' = e_originalLen e" and "e_nextNew e' = e_nextNew e"
  shows "shadow_ok e'"
proof -
  obtain "is" js where s: "e_transitions e = map Orig is @ map New js"
    "sorted_wrt (<) is" "\<forall>i \<in> set is. i < e_originalLen e"
    "sorted_wrt (<) js" "\<forall>j \<in> set js. j < e_nextNew e"
    using assms(1) unfolding shadow_ok_def by blast
  show ?thesis
  proof (cases "i < length is")
    case True
    then have "e_transitions e' = map Orig (delete_at i is) @ map New js"
      using assms(2) s(1) by (simp add: delete_at_append map_delete_at)
    then show ?thesis
      unfolding shadow_ok_def assms(3,4)
      using s sorted_wrt_delete_at [OF s(2), of i] set_delete_at [of i "is"]
      by (intro exI [of _ "delete_at i is"] exI [of _ js]) (simp add: subset_iff)
  next
    case False
    then have "e_transitions e' = map Orig is @ map New (delete_at (i - length is) js)"
      using assms(2) s(1) by (simp add: delete_at_append map_delete_at)
    then show ?thesis
      unfolding shadow_ok_def assms(3,4)
      using s sorted_wrt_delete_at [OF s(4), of "i - length is"] set_delete_at [of "i - length is" js]
      by (intro exI [of _ "is"] exI [of _ "delete_at (i - length is) js"]) (simp add: subset_iff)
  qed
qed

lemma shadow_ok_keep:
  assumes "shadow_ok e" and "e_transitions e' = e_transitions e" and "engine_frame e e'"
  shows "shadow_ok e'"
  using assms unfolding shadow_ok_def engine_frame_def by simp

lemma revs_le_mono: "revs_le n t \<Longrightarrow> n \<le> n' \<Longrightarrow> revs_le n' t"
  unfolding revs_le_def by fastforce

lemma revs_le_setStep:
  assumes "revs_le n t" and "\<And>s. s_DatameshRevision s \<le> n \<Longrightarrow> s_DatameshRevision (f s) \<le> n"
  shows "revs_le n (setStep k f t)"
proof -
  have "s_DatameshRevision s \<le> n" if "s \<in> set ((t_Steps t)[k := f (t_Steps t ! k)])" for s
  proof (cases "k < length (t_Steps t)")
    case True
    then show ?thesis
      using that assms set_update_subset_insert [of "t_Steps t" k "f (t_Steps t ! k)"]
      unfolding revs_le_def by (metis insertE nth_mem subsetD)
  next
    case False
    then show ?thesis using that assms(1) by (simp add: revs_le_def list_update_beyond not_less)
  qed
  then show ?thesis by (simp add: revs_le_def setStep_def)
qed

lemma confirmStep_revs:
  assumes "confirmStep E p ptr rctx k ch e = Some (cr, composed, ch', e')" and "revs_le n (e_tstore e q)"
  shows "revs_le n (e_tstore e' q)"
  using confirmStep_SomeD [OF assms(1)] assms(2) by (auto intro!: revs_le_setStep)

lemma applyStep_revs:
  assumes "applyStep E p ptr rctx k e = Some e'" and "revs_le (e_revision e) (e_tstore e q)"
  shows "revs_le (e_revision e') (e_tstore e' q)"
proof -
  note a = applyStep_SomeD [OF assms(1)]
  have "revs_le (e_revision e') (e_tstore e q)" using a assms(2) revs_le_mono by blast
  then show ?thesis using a by (auto intro!: revs_le_setStep)
qed

lemma advanceStep_revs:
  "revs_le n (e_tstore e q) \<Longrightarrow> revs_le n (e_tstore (advanceStep E ptr k e) q)"
  by (auto simp: advanceStep_def Let_def intro!: revs_le_setStep)

lemma settleConfirmed_revs:
  assumes "settleConfirmed E p i ptr rctx slot k e = Some (e', removed)"
    and "revs_le (e_revision e) (e_tstore e q)"
  shows "revs_le (e_revision e') (e_tstore e' q)"
proof (cases removed)
  case True
  then show ?thesis using settleConfirmed_complete assms by metis
next
  case False
  then obtain g' e2 cr adv ch e3 s' where
    a: "applyStep E p ptr rctx (Suc k) (advanceStep E ptr k (e \<lparr> e_g := g' \<rparr>)) = Some e2"
    and c: "confirmStep E p ptr rctx (Suc k) None e2 = Some (cr, adv, ch, e3)"
    and e': "e' = setSlotStatus slot rctx adv s' e3"
    using assms(1) by (auto simp: settleConfirmed_def res_simps Let_def split: if_splits)
  have "revs_le (e_revision e2) (e_tstore e2 q)"
    by (rule applyStep_revs [OF a]) (simp add: advanceStep_revs assms(2))
  then show ?thesis using confirmStep_revs [OF c] confirmStep_SomeD [OF c] by (simp add: e')
qed

lemma settleOne_revs:
  assumes "settleOne E i e ch = Some (e', removed, ch', progressed)"
    and "revs_le (e_revision e) (e_tstore e q)"
  shows "revs_le (e_revision e') (e_tstore e' q)"
  using assms(1)
proof (cases rule: settleOne_cases)
  case unknown
  then show ?thesis using assms(2) by simp
next
  case all
  then show ?thesis using completeTransition_SomeD [OF all(2)] assms(2) by simp
next
  case wait
  then show ?thesis using confirmStep_SomeD [OF wait(2)] confirmStep_revs [OF wait(2)] assms(2) by simp
next
  case (conf p rctx slot k cr composed c d e1)
  have "revs_le (e_revision (setSlotStatus slot rctx composed d e1))
      (e_tstore (setSlotStatus slot rctx composed d e1) q)"
    using confirmStep_SomeD [OF conf(2)] confirmStep_revs [OF conf(2) assms(2)] by simp
  then show ?thesis by (rule settleConfirmed_revs [OF conf(3)])
qed

subsection \<open>Settling keeps the invariant\<close>

lemma steps_ok_current:
  assumes "steps_ok t" and "findCurrentStepIdx t = Some k"
  shows "\<exists>m. statuses t = replicate k Completed @ Active # replicate m Pending"
proof -
  obtain k' m where s: "statuses t = replicate k' Completed @ Active # replicate m Pending"
    using assms(1) unfolding steps_ok_def by blast
  then have "findCurrentStepIdx t = Some k'"
    by (simp add: findCurrentStepIdx_statuses takeWhile_append)
  then show ?thesis using s assms(2) by auto
qed

lemma steps_ok_advance:
  assumes "steps_ok t" and k: "findCurrentStepIdx t = Some k" and l: "Suc k < length (t_Steps t)"
    and s: "statuses t' = (statuses t)[k := Completed, Suc k := Active]"
  shows "steps_ok t'"
proof -
  obtain m where m: "statuses t = replicate k Completed @ Active # replicate m Pending"
    using steps_ok_current [OF assms(1) k] by blast
  then have "length (t_Steps t) = k + Suc m" by (metis length_append length_Cons length_replicate length_statuses)
  with l obtain m' where "m = Suc m'" by (cases m) auto
  then have "statuses t' = replicate (Suc k) Completed @ Active # replicate m' Pending"
    unfolding s m by (simp add: list_update_append replicate_app_Cons_same)
  then show ?thesis unfolding steps_ok_def by blast
qed

lemma steps_ok_statuses: "statuses t' = statuses t \<Longrightarrow> steps_ok t \<Longrightarrow> steps_ok t'"
  by (simp add: steps_ok_def)

lemma engine_inv_simps [simp]:
  "engine_inv (setSlotStatus slot rctx msg d e) = engine_inv e"
  "engine_inv (e \<lparr> e_g := g \<rparr>) = engine_inv e"
  by (simp_all add: engine_inv_def shadow_ok_def)

lemma settle_inv_engine_inv: "settle_inv E engine_inv"
  unfolding settle_inv_def
proof (intro allI impI)
  fix i e ch e' r ch' pr
  assume s: "settleOne E i e ch = Some (e', r, ch', pr)" and i: "i < length (e_transitions e)"
    and inv: "engine_inv e"
  note post = settleOne_post [OF s, unfolded settle_post_def]
  have frame: "engine_frame e e'" using post by blast
  have ptr: "e_transitions e ! i \<in> set (e_transitions e)" using i by simp
  have sub: "set (e_transitions e') \<subseteq> set (e_transitions e)"
    using post set_delete_at [of i "e_transitions e"] by (auto split: if_splits)
  have shadow: "shadow_ok e'"
  proof (cases r)
    case True
    then show ?thesis
      using shadow_ok_delete [of e e' i] inv post by (simp add: engine_inv_def engine_frame_def)
  next
    case False
    then show ?thesis
      using shadow_ok_keep [of e e'] inv post by (simp add: engine_inv_def)
  qed
  have "steps_ok (e_tstore e' q) \<and> revs_le (e_revision e') (e_tstore e' q)"
    if q: "q \<in> set (e_transitions e')" for q
  proof
    have old: "steps_ok (e_tstore e q)" "revs_le (e_revision e) (e_tstore e q)"
      using inv q sub unfolding engine_inv_def by blast+
    show "revs_le (e_revision e') (e_tstore e' q)" by (rule settleOne_revs [OF s old(2)])
    show "steps_ok (e_tstore e' q)"
    proof (cases "q = e_transitions e ! i \<and> \<not> r \<and> pr")
      case True
      then show ?thesis using post old(1) steps_ok_advance by auto
    next
      case False
      then have "statuses (e_tstore e' q) = statuses (e_tstore e q)"
        using post by (metis (full_types))
      then show ?thesis using old(1) by (rule steps_ok_statuses)
    qed
  qed
  then show "engine_inv e'"
    using inv shadow frame unfolding engine_inv_def engine_frame_def by (meson order_trans)
qed

lemma settle_inv_revision: "settle_inv E (\<lambda>e. engine_inv e \<and> n \<le> e_revision e)"
  using settle_inv_engine_inv [of E] settleOne_post
  unfolding settle_inv_def settle_post_def engine_frame_def by (blast intro: order_trans)

subsection \<open>Decisions keep the invariant\<close>

text \<open>What the engine asks of the registered plans: their \<open>Init\<close> callbacks leave the steps of the
  new transition alone.\<close>

locale init_contract =
  fixes E :: "('g, 'r) EngineEnv"
  assumes init_keeps_steps: "reg_get (env_registry E) tt pid = Some p \<Longrightarrow>
      callInit p ts g rctx t = Some t' \<Longrightarrow> t_Steps t' = t_Steps t"

lemma createTransition_SomeD:
  assumes "createTransition E p pid rctx e = Some (ptr, e')"
    and init: "\<forall>ts g r t t'. callInit p ts g r t = Some t' \<longrightarrow> t_Steps t' = t_Steps t"
  shows "ptr = New (e_nextNew e) \<and> e_transitions e' = e_transitions e @ [ptr]
    \<and> e_nextNew e' = Suc (e_nextNew e) \<and> e_originalLen e' = e_originalLen e
    \<and> e_finalized e' = e_finalized e \<and> e_revision e' = e_revision e
    \<and> (\<forall>q. q \<noteq> ptr \<longrightarrow> e_tstore e' q = e_tstore e q)
    \<and> steps_ok (e_tstore e' ptr) \<and> (\<forall>s \<in> set (t_Steps (e_tstore e' ptr)). s_DatameshRevision s = 0)"
proof -
  obtain t now where p: "steps p \<noteq> []" and ptr: "ptr = New (e_nextNew e)"
    and t: "t_Steps t = (map (\<lambda>s. emptyStep \<lparr> s_Name := st_name s, s_Status := Pending \<rparr>) (steps p))
        [0 := (emptyStep \<lparr> s_Name := st_name (hd (steps p)), s_Status := Active, s_StartedAt := Some now \<rparr>)]"
    and e': "e' = writeT ptr t (e \<lparr> e_clock := Suc (e_clock e), e_transitions := e_transitions e @ [ptr],
        e_nextNew := Suc (e_nextNew e) \<rparr>)"
    using assms(1)
    by (auto simp: createTransition_def res_simps Let_def hd_conv_nth split: Scope.splits dest!: init [rule_format])
  obtain x xs where x: "steps p = x # xs" using p by (cases "steps p") auto
  have st: "statuses t = replicate 0 Completed @ Active # replicate (length xs) Pending"
    using t x by (simp add: statuses_def comp_def map_replicate_const)
  have rv: "\<forall>s \<in> set (t_Steps t). s_DatameshRevision s = 0"
    using t x by (auto simp: emptyStep_def)
  have "steps_ok t" unfolding steps_ok_def using st by blast
  then show ?thesis using rv ptr e' by simp
qed

context init_contract
begin

lemma admit_inv:
  assumes reg: "reg_get (env_registry E) tt pid' = Some p"
    and a: "admitAndCreate E p pid rctx slot e = Some (res, e')" and inv: "engine_inv e"
  shows "engine_inv e' \<and> e_revision e \<le> e_revision e' \<and> e_finalized e' = e_finalized e"
proof (cases res)
  case (Inl msg)
  then obtain g1 d where "e' = setSlotStatus slot rctx msg d (e \<lparr> e_g := g1 \<rparr>)"
    using a by (auto simp: admitAndCreate_def res_simps Let_def split: if_splits)
  then show ?thesis using inv by simp
next
  case (Inr ptr)
  then obtain g1 e1 g3 e4 cr composed ch e5 d where
    c: "createTransition E p pid rctx (e \<lparr> e_g := g1 \<rparr>) = Some (ptr, e1)"
    and ap: "applyStep E p ptr rctx 0 ((case (slot, rctx) of
          (Some s, Some r) \<Rightarrow> e1 \<lparr> e_g := SetActiveTransition s r (Some ptr) (e_g e1) \<rparr> | _ \<Rightarrow> e1) \<lparr> e_g := g3 \<rparr>)
        = Some e4"
    and cf: "confirmStep E p ptr rctx 0 None e4 = Some (cr, composed, ch, e5)"
    and e': "e' = setSlotStatus slot rctx composed d e5"
    using a by (auto simp: admitAndCreate_def res_simps Let_def split: if_splits)
  have z: "(case (slot, rctx) of
          (Some s, Some r) \<Rightarrow> e1 \<lparr> e_g := SetActiveTransition s r (Some ptr) (e_g e1) \<rparr> | _ \<Rightarrow> e1) \<lparr> e_g := g3 \<rparr>
        = e1 \<lparr> e_g := g3 \<rparr>"
    by (auto split: option.splits)
  note ap = ap [unfolded z]
  have ini: "\<forall>ts g r t t'. callInit p ts g r t = Some t' \<longrightarrow> t_Steps t' = t_Steps t"
    using init_keeps_steps [OF reg] by blast
  note C = createTransition_SomeD [OF c ini]
  note A = applyStep_SomeD [OF ap] and AS = applyStep_statuses [OF ap]
  note F = confirmStep_SomeD [OF cf] and FS = confirmStep_statuses [OF cf]
  have tr: "e_transitions e' = e_transitions e @ [New (e_nextNew e)]" using A C F by (simp add: e')
  have rv: "e_revision e \<le> e_revision e'" using A C F by (simp add: e')
  have shadow: "shadow_ok e'"
  proof -
    obtain "is" js where s: "e_transitions e = map Orig is @ map New js"
      "sorted_wrt (<) is" "\<forall>i \<in> set is. i < e_originalLen e"
      "sorted_wrt (<) js" "\<forall>j \<in> set js. j < e_nextNew e"
      using inv unfolding engine_inv_def shadow_ok_def by blast
    have "e_originalLen e' = e_originalLen e" "e_nextNew e' = Suc (e_nextNew e)"
      using A C F by (simp_all add: e')
    then show ?thesis unfolding shadow_ok_def
      using s tr by (intro exI [of _ "is"] exI [of _ "js @ [e_nextNew e]"])
        (auto simp: sorted_wrt_append less_SucI)
  qed
  have "steps_ok (e_tstore e' q) \<and> revs_le (e_revision e') (e_tstore e' q)"
    if q: "q \<in> set (e_transitions e')" for q
  proof -
    have q1: "steps_ok (e_tstore e1 q) \<and> revs_le (e_revision e) (e_tstore e1 q)"
    proof (cases "q = ptr")
      case True
      then show ?thesis using C inv unfolding True revs_le_def engine_inv_def by auto
    next
      case False
      then have "q \<in> set (e_transitions e)" using q tr C by auto
      then show ?thesis using inv C False unfolding engine_inv_def by simp
    qed
    have "revs_le (e_revision e4) (e_tstore e4 q)"
      by (rule applyStep_revs [OF ap]) (use q1 C in simp)
    then have "revs_le (e_revision e') (e_tstore e' q)"
      using confirmStep_revs [OF cf] F by (simp add: e')
    moreover have "statuses (e_tstore e' q) = statuses (e_tstore e1 q)"
      using FS(1) AS(1) by (simp add: e')
    ultimately show ?thesis using q1 steps_ok_statuses by blast
  qed
  then show ?thesis using shadow rv inv A C F unfolding engine_inv_def by (simp add: e')
qed

lemma cancel_keeps:
  assumes "cancelActive E slot r e = Some e'" and inv: "engine_inv e"
  shows "engine_inv e' \<and> e_revision e \<le> e_revision e' \<and> e_finalized e' = e_finalized e"
proof -
  note c = cancelActive_SomeD [OF assms(1)]
  have "shadow_ok e'"
    using c inv shadow_ok_keep shadow_ok_delete unfolding engine_inv_def engine_frame_def by metis
  moreover have "set (e_transitions e') \<subseteq> set (e_transitions e)" using c set_delete_at by fastforce
  ultimately show ?thesis using c inv unfolding engine_inv_def engine_frame_def by auto
qed

lemma dispatchOne_inv:
  assumes reg: "reg_get (env_registry E) tt pid' = Some p"
    and a: "dispatchOne E p pid rctx slot e = Some (res, e')" and inv: "engine_inv e"
  shows "engine_inv e' \<and> e_revision e \<le> e_revision e' \<and> e_finalized e' = e_finalized e"
proof -
  obtain e0 where e0: "engine_inv e0 \<and> e_revision e \<le> e_revision e0 \<and> e_finalized e0 = e_finalized e"
    and d: "(\<exists>s r msg. slotConflict E p s r e0 = Some (msg, e')) \<or> admitAndCreate E p pid rctx slot e0 = Some (res, e')"
    using a inv cancel_keeps
    by (auto simp: dispatchOne_def res_simps split: option.splits if_splits) blast+
  from d show ?thesis
  proof
    assume "\<exists>s r msg. slotConflict E p s r e0 = Some (msg, e')"
    then show ?thesis
      using e0 slotConflict_SomeD unfolding engine_inv_def shadow_ok_def engine_frame_def by metis
  next
    assume "admitAndCreate E p pid rctx slot e0 = Some (res, e')"
    from admit_inv [OF reg this] e0 show ?thesis by auto
  qed
qed

lemma decision_inv_engine_inv: "decision_inv E (\<lambda>e. engine_inv e \<and> n \<le> e_revision e)"
  unfolding decision_inv_def
proof (intro allI impI)
  fix d e c e'
  assume r: "runDecision E d e = Some (c, e')" and inv: "engine_inv e \<and> n \<le> e_revision e"
  show "engine_inv e' \<and> n \<le> e_revision e'"
  proof (cases "d_planID d = []")
    case True
    then show ?thesis
      using r inv by (auto simp: runDecision_def split: option.splits list.splits)
  next
    case False
    then show ?thesis
      using r inv by (auto simp: runDecision_def res_simps split: if_splits dest: dispatchOne_inv dest: order_trans)
  qed
qed

end

subsection \<open>The compaction of Finalize\<close>

text \<open>Both loops write \<open>result[i] = *ptr\<close> for the pointers of the shadow index in order; the copy loop
  skips the write when it would write a cell to itself.\<close>

definition compact :: "(nat \<Rightarrow> tptr) \<Rightarrow> tptr list \<Rightarrow> nat list \<Rightarrow> tstore \<Rightarrow> tstore" where
  "compact base tr = fold (\<lambda>i ts. ts(base i := ts (tr ! i)))"

lemma compact_simps [simp]:
  "compact base tr [] ts = ts"
  "compact base tr (i # is) ts = compact base tr is (ts(base i := ts (tr ! i)))"
  "compact base tr (is @ js) ts = compact base tr js (compact base tr is ts)"
  by (simp_all add: compact_def)

lemma replaceSlotPointer_SomeD:
  "replaceSlotPointer E oldPtr newPtr e = Some e' \<Longrightarrow>
     e_tstore e' = e_tstore e \<and> e_transitions e' = e_transitions e \<and> engine_frame e e'
     \<and> e_revision e' = e_revision e"
  by (auto simp: replaceSlotPointer_def Let_def res_simps engine_frame_def split: if_splits option.splits)

lemma finalizeCopy_SomeD:
  "finalizeCopy E base is e = Some e' \<Longrightarrow>
     e_tstore e' = compact base (e_transitions e) is (e_tstore e) \<and> e_transitions e' = e_transitions e
     \<and> e_revision e' = e_revision e"
proof (induction "is" arbitrary: e)
  case (Cons i "is")
  then show ?case
    by (auto simp: Let_def res_simps split: if_splits dest!: replaceSlotPointer_SomeD simp del: fun_upd_apply)
qed simp

lemma finalizeAppend_SomeD:
  "finalizeAppend E base is e = Some e' \<Longrightarrow>
     e_tstore e' = compact base (e_transitions e) is (e_tstore e) \<and> e_transitions e' = e_transitions e
     \<and> e_revision e' = e_revision e"
proof (induction "is" arbitrary: e)
  case (Cons i "is")
  then show ?case
    by (auto simp: Let_def res_simps dest!: replaceSlotPointer_SomeD simp del: fun_upd_apply)
qed simp

text \<open>The in-place copy is safe when no pointer refers to a cell that was overwritten before its turn.\<close>

lemma compact_upt:
  assumes "inj base" and "\<And>i j. i < j \<Longrightarrow> j < n \<Longrightarrow> tr ! j \<noteq> base i"
  shows "(\<forall>i<n. compact base tr [0..<n] ts (base i) = ts (tr ! i))
    \<and> (\<forall>q. q \<notin> base ` {..<n} \<longrightarrow> compact base tr [0..<n] ts q = ts q)"
  using assms(2)
proof (induction n)
  case (Suc n)
  then have IH: "\<forall>i<n. compact base tr [0..<n] ts (base i) = ts (tr ! i)"
    "\<forall>q. q \<notin> base ` {..<n} \<longrightarrow> compact base tr [0..<n] ts q = ts q"
    using less_SucI by auto
  have "tr ! n \<notin> base ` {..<n}" using Suc.prems [of _ n] by auto
  then have n: "compact base tr [0..<n] ts (tr ! n) = ts (tr ! n)" using IH(2) by blast
  have s: "compact base tr [0..<Suc n] ts = (compact base tr [0..<n] ts)(base n := ts (tr ! n))"
    using n by simp
  have b: "base i \<noteq> base n" if "i < n" for i using assms(1) that by (auto simp: inj_eq)
  show ?case unfolding s using IH b by (auto simp: less_Suc_eq lessThan_Suc)
qed simp

lemma sorted_less_nth_ge: "sorted_wrt (<) xs \<Longrightarrow> i < length xs \<Longrightarrow> i \<le> (xs ! i :: nat)"
proof (induction i)
  case (Suc i)
  then have "i \<le> xs ! i" "xs ! i < xs ! Suc i" by (auto simp: sorted_wrt_iff_nth_less)
  then show ?case by simp
qed simp

lemma shadow_ok_ahead:
  assumes "shadow_ok e" and "i < j" and "j < length (e_transitions e)"
  shows "e_transitions e ! j \<noteq> Orig i \<and> e_transitions e ! j \<noteq> Grown i"
proof -
  obtain "is" js where s: "e_transitions e = map Orig is @ map New js" "sorted_wrt (<) is"
    using assms(1) unfolding shadow_ok_def by blast
  show ?thesis
    using s assms(2,3) sorted_less_nth_ge [of "is" j] by (auto simp: nth_append)
qed

lemma Finalize_compacts:
  assumes f: "Finalize E realloc e = Some (result, e')" and s: "shadow_ok e"
  shows "result = map (e_tstore e) (e_transitions e) \<and> e_revision e' = e_revision e"
proof -
  let ?n = "length (e_transitions e)"
  let ?grow = "?n > e_originalLen e \<and> realloc"
  let ?base = "if ?grow then Grown else Orig"
  let ?ts = "if ?grow then growStore (e_originalLen e) (e_tstore e) else e_tstore e"
  let ?m = "min (e_originalLen e) ?n"
  let ?e0 = "if ?grow then e \<lparr> e_finalized := True, e_tstore := growStore (e_originalLen e) (e_tstore e) \<rparr>
     else e \<lparr> e_finalized := True \<rparr>"
  have e0: "e_tstore ?e0 = ?ts" "e_transitions ?e0 = e_transitions e" "e_revision ?e0 = e_revision e" by simp_all
  obtain e1 where c: "finalizeCopy E ?base [0..<?m] ?e0 = Some e1"
    and a: "finalizeAppend E ?base [?m..<?n] e1 = Some e'"
    and r: "result = map (\<lambda>i. e_tstore e' (?base i)) [0..<?n]"
    using f by (auto simp: Finalize_def res_simps Let_def split: if_splits)
  have "e_tstore e' = compact ?base (e_transitions e) ([0..<?m] @ [?m..<?n]) ?ts"
    using finalizeCopy_SomeD [OF c] finalizeAppend_SomeD [OF a] unfolding e0 by simp
  moreover have "[0..<?m] @ [?m..<?n] = [0..<?n]"
    using upt_add_eq_append [of 0 ?m "?n - ?m"] by (simp add: min_def split: if_splits)
  ultimately have st: "e_tstore e' = compact ?base (e_transitions e) [0..<?n] ?ts" by simp
  have "e_tstore e' (?base i) = e_tstore e (e_transitions e ! i)" if "i < ?n" for i
  proof -
    have "e_tstore e' (?base i) = ?ts (e_transitions e ! i)"
      unfolding st using compact_upt [of ?base ?n "e_transitions e" ?ts] shadow_ok_ahead [OF s] that
      by (auto simp: inj_def)
    also have "\<dots> = e_tstore e (e_transitions e ! i)"
      using s that by (auto simp: shadow_ok_def growStore_def nth_append split: tptr.splits if_splits)
    finally show ?thesis .
  qed
  then have "result = map (\<lambda>i. e_tstore e (e_transitions e ! i)) [0..<?n]"
    unfolding r by (intro map_cong refl) (simp only: set_upt atLeastLessThan_iff)
  also have "\<dots> = map (e_tstore e) (e_transitions e)"
    using map_nth [of "e_transitions e"] by (metis (no_types, lifting) map_map comp_apply map_cong)
  finally have res: "result = map (e_tstore e) (e_transitions e)" .
  have "e_revision e' = e_revision e"
    using finalizeCopy_SomeD [OF c] finalizeAppend_SomeD [OF a] unfolding e0 by metis
  with res show ?thesis by blast
qed

lemma NewEngine_inv:
  assumes "NewEngine E rv ts g = Some e" and "0 \<le> rv" and "\<forall>t \<in> set ts. steps_ok t \<and> revs_le rv t"
  shows "engine_inv e \<and> e_revision e = rv \<and> map (e_tstore e) (e_transitions e) = ts"
proof -
  have e: "e_transitions e = map Orig [0..<length ts]" "e_originalLen e = length ts" "e_revision e = rv"
    "e_tstore e = origStore ts"
    using assms(1) by (auto simp: NewEngine_def res_simps Let_def)
  have "shadow_ok e" unfolding shadow_ok_def e
    by (intro exI [of _ "[0..<length ts]"] exI [of _ "[]"]) simp
  moreover have "map (e_tstore e) (e_transitions e) = ts"
    unfolding e by (rule nth_equalityI) (simp_all add: origStore_def)
  moreover have "e_tstore e q \<in> set ts" if "q \<in> set (e_transitions e)" for q
    using that unfolding e by (auto simp: origStore_def)
  ultimately show ?thesis using assms e unfolding engine_inv_def by auto
qed

context init_contract
begin

text \<open>The life of an engine: what \<open>ProcessTransitions\<close> does with it.\<close>

lemma lifecycle:
  assumes n: "NewEngine E rv ts g = Some e0" and p: "Process E e0 = Some (c, e1)"
    and f: "Finalize E realloc e1 = Some (result, e2)"
    and ts: "0 \<le> rv" "\<forall>t \<in> set ts. steps_ok t \<and> revs_le rv t"
  shows "rv \<le> e_revision e2 \<and> result = map (e_tstore e1) (e_transitions e1)
    \<and> (\<forall>t \<in> set result. steps_ok t \<and> revs_le (e_revision e2) t)"
proof -
  have "engine_inv e0 \<and> rv \<le> e_revision e0" using NewEngine_inv [OF n ts] by simp
  then have inv: "engine_inv e1 \<and> rv \<le> e_revision e1"
    by (rule Process_preserves [OF p settle_inv_revision decision_inv_engine_inv])
  then have "result = map (e_tstore e1) (e_transitions e1) \<and> e_revision e2 = e_revision e1"
    using Finalize_compacts [OF f] unfolding engine_inv_def by blast
  then show ?thesis using inv unfolding engine_inv_def by auto
qed

end

end
