(* ===== verification/Datamesh_Process.thy ===== *)
theory Datamesh_Process
  imports Datamesh_Dispatch Dmte_Invariant
begin

text \<open>
  \<open>effective_layout.go\<close> and \<open>datamesh.go\<close>: the effective layout computed from observed state and
  \<open>ProcessTransitions\<close>, which runs the engine of the \<open>dmte\<close> theories on the contexts, plans,
  tracker and dispatchers of this package.
\<close>

subsection \<open>Effective layout\<close>

record layoutSets =
  ls_voters :: IDSet
  ls_tbs :: IDSet
  ls_ready :: IDSet
  ls_quorumTrue :: IDSet
  ls_diskUpToDate :: IDSet
  ls_peerConnected :: IDSet
  ls_peerUpToDate :: IDSet

fun observePeers :: "PeerStatus list \<Rightarrow> layoutSets \<Rightarrow> layoutSets option" where
  "observePeers [] s = Some s"
| "observePeers (p # ps) s = do {
     i \<leftarrow> idFromName (p_Name p);
     let s = (if p_ConnectionState p = ConnectionStateConnected
              then s \<lparr> ls_peerConnected := IDSet_Add i (ls_peerConnected s) \<rparr> else s);
     let s = (if p_BackingVolumeState p = DiskStateUpToDate
              then s \<lparr> ls_peerUpToDate := IDSet_Add i (ls_peerUpToDate s) \<rparr> else s);
     observePeers ps s }"

definition observeReady :: "u8 \<Rightarrow> RVR \<Rightarrow> layoutSets \<Rightarrow> layoutSets option" where
  "observeReady i rvr s = (case rvr_Quorum rvr of
       None \<Rightarrow> Some s
     | Some q \<Rightarrow>
         if \<not> isAgentReady rvr then Some s
         else let s = s \<lparr> ls_ready := IDSet_Add i (ls_ready s) \<rparr>;
                  s = (if q then s \<lparr> ls_quorumTrue := IDSet_Add i (ls_quorumTrue s) \<rparr> else s);
                  s = (case rvr_BackingVolume rvr of
                         Some bv \<Rightarrow> if bv_State bv = DiskStateUpToDate
                           then s \<lparr> ls_diskUpToDate := IDSet_Add i (ls_diskUpToDate s) \<rparr> else s
                       | None \<Rightarrow> s)
              in observePeers (rvr_Peers rvr) s)"

fun classify :: "ReplicaContext list \<Rightarrow> layoutSets \<Rightarrow> layoutSets option" where
  "classify [] s = Some s"
| "classify (rc # rcs) s = (case (rx_member rc, rx_rvr rc) of
       (Some m, Some rvr) \<Rightarrow>
         if IsVoter (m_Type m)
         then do { s' \<leftarrow> observeReady (rx_id rc) rvr (s \<lparr> ls_voters := IDSet_Add (rx_id rc) (ls_voters s) \<rparr>); classify rcs s' }
         else if m_Type m = MT_TieBreaker
         then do { s' \<leftarrow> observeReady (rx_id rc) rvr (s \<lparr> ls_tbs := IDSet_Add (rx_id rc) (ls_tbs s) \<rparr>); classify rcs s' }
         else classify rcs s
     | _ \<Rightarrow> classify rcs s)"

definition int8 :: "nat \<Rightarrow> i8" where "int8 n = of_nat n"

definition smin :: "i8 \<Rightarrow> i8 \<Rightarrow> i8" where "smin a b = (if b <s a then b else a)"

definition setInt8 :: "(EffectiveLayout \<Rightarrow> i8) \<Rightarrow> (i8 \<Rightarrow> EffectiveLayout \<Rightarrow> EffectiveLayout) \<Rightarrow> i8 \<Rightarrow> bool \<times> EffectiveLayout
    \<Rightarrow> bool \<times> EffectiveLayout" where
  "setInt8 get put val st = (if get (snd st) = val then st else (True, put val (snd st)))"

definition setOptInt8 :: "(EffectiveLayout \<Rightarrow> i8 option) \<Rightarrow> (i8 option \<Rightarrow> EffectiveLayout \<Rightarrow> EffectiveLayout) \<Rightarrow> i8 option
    \<Rightarrow> bool \<times> EffectiveLayout \<Rightarrow> bool \<times> EffectiveLayout" where
  "setOptInt8 get put val st = (if get (snd st) = val then st else (True, put val (snd st)))"

definition staleSuffix :: "IDSet \<Rightarrow> string" where
  "staleSuffix stale = (if IDSet_IsEmpty stale then []
     else '' ('' @ itoa (int (IDSet_Len stale)) @ '' stale ['' @ IDSet_AppendString stale [] @ ''])'')"

abbreviation num8 :: "i8 \<Rightarrow> string" where "num8 x \<equiv> itoa (sint x)"

definition effectiveLayoutMessage :: "EffectiveLayout \<Rightarrow> bool \<Rightarrow> IDSet \<Rightarrow> IDSet \<Rightarrow> string" where
  "effectiveLayoutMessage el canCompute staleVoters staleTBs =
     (if 0 <s el_TotalVoters el
      then num8 (el_ReachableVoters el) @ ''/'' @ num8 (el_TotalVoters el) @ '' voters reachable'' @ staleSuffix staleVoters
             @ '', '' @ num8 (el_UpToDateVoters el) @ ''/'' @ num8 (el_TotalVoters el) @ '' UpToDate''
      else ''No voters'')
     @ (if 0 <s el_TotalTieBreakers el
        then '', '' @ num8 (el_ReachableTieBreakers el) @ ''/'' @ num8 (el_TotalTieBreakers el) @ '' TB reachable''
             @ staleSuffix staleTBs
        else [])
     @ (if canCompute
        then ''; FTT='' @ num8 (case el_FailuresToTolerate el of Some v \<Rightarrow> v | None \<Rightarrow> 0)
             @ '', GMDR='' @ num8 (case el_GuaranteedMinimumDataRedundancy el of Some v \<Rightarrow> v | None \<Rightarrow> 0)
        else if el_TotalVoters el = 0 then ''; FTT and GMDR unavailable: no voter members''
        else ''; FTT and GMDR unavailable: no fresh agent data'')"

definition setEffectiveLayoutMessage :: "bool \<Rightarrow> IDSet \<Rightarrow> IDSet \<Rightarrow> bool \<times> EffectiveLayout \<Rightarrow> bool \<times> EffectiveLayout" where
  "setEffectiveLayoutMessage canCompute staleVoters staleTBs st =
     (let msg = effectiveLayoutMessage (snd st) canCompute staleVoters staleTBs
      in if msg = el_Message (snd st) then st else (True, (snd st) \<lparr> el_Message := msg \<rparr>))"

definition layoutOf :: "globalContext \<Rightarrow> layoutSets \<Rightarrow> EffectiveLayout \<Rightarrow> bool \<times> EffectiveLayout" where
  "layoutOf gctx s el =
     (let q = quorum (datamesh gctx);
          qmr = quorumMinimumRedundancy (datamesh gctx);
          staleVoters = IDSet_Difference (ls_voters s) (ls_ready s);
          staleTBs = IDSet_Difference (ls_tbs s) (ls_ready s);
          reachableVoters = IDSet_Union (IDSet_Intersect (ls_voters s) (ls_quorumTrue s))
             (IDSet_Intersect staleVoters (ls_peerConnected s));
          upToDateVoters = IDSet_Union (IDSet_Intersect (ls_voters s) (ls_diskUpToDate s))
             (IDSet_Intersect staleVoters (ls_peerUpToDate s));
          reachableTBs = IDSet_Intersect (ls_tbs s) (IDSet_Union (ls_ready s) (ls_peerConnected s));
          st = (False, el);
          st = setInt8 el_TotalVoters (\<lambda>v e. e \<lparr> el_TotalVoters := v \<rparr>) (int8 (IDSet_Len (ls_voters s))) st;
          st = setInt8 el_ReachableVoters (\<lambda>v e. e \<lparr> el_ReachableVoters := v \<rparr>) (int8 (IDSet_Len reachableVoters)) st;
          st = setInt8 el_UpToDateVoters (\<lambda>v e. e \<lparr> el_UpToDateVoters := v \<rparr>) (int8 (IDSet_Len upToDateVoters)) st;
          st = setInt8 el_TotalTieBreakers (\<lambda>v e. e \<lparr> el_TotalTieBreakers := v \<rparr>) (int8 (IDSet_Len (ls_tbs s))) st;
          st = setInt8 el_ReachableTieBreakers (\<lambda>v e. e \<lparr> el_ReachableTieBreakers := v \<rparr>) (int8 (IDSet_Len reachableTBs)) st;
          st = setInt8 el_StaleAgents (\<lambda>v e. e \<lparr> el_StaleAgents := v \<rparr>)
             (int8 (IDSet_Len staleVoters + IDSet_Len staleTBs)) st;
          canCompute = (\<not> IDSet_IsEmpty (ls_voters s) \<and> \<not> IDSet_IsEmpty (ls_ready s));
          reachableD = el_ReachableVoters (snd st);
          upToDateD = el_UpToDateVoters (snd st);
          reachableTB = el_ReachableTieBreakers (snd st);
          tbBonus = (if reachableD mod 2 = 0 \<and> 0 <s reachableTB then 1 else 0);
          ftt = (if canCompute then Some (smin (reachableD - q + tbBonus) (upToDateD - qmr)) else None);
          gmdr = (if canCompute then Some (smin upToDateD qmr - 1) else None);
          st = setOptInt8 el_FailuresToTolerate (\<lambda>v e. e \<lparr> el_FailuresToTolerate := v \<rparr>) ftt st;
          st = setOptInt8 el_GuaranteedMinimumDataRedundancy (\<lambda>v e. e \<lparr> el_GuaranteedMinimumDataRedundancy := v \<rparr>) gmdr st
      in setEffectiveLayoutMessage canCompute staleVoters staleTBs st)"

definition emptyLayoutSets :: layoutSets where
  "emptyLayoutSets = \<lparr> ls_voters = 0, ls_tbs = 0, ls_ready = 0, ls_quorumTrue = 0, ls_diskUpToDate = 0,
     ls_peerConnected = 0, ls_peerUpToDate = 0 \<rparr>"

definition updateEffectiveLayout :: "globalContext \<Rightarrow> EffectiveLayout \<Rightarrow> (bool \<times> EffectiveLayout) option" where
  "updateEffectiveLayout gctx el = do {
     s \<leftarrow> classify (allReplicas gctx) emptyLayoutSets;
     Some (layoutOf gctx s el) }"

subsection \<open>ProcessTransitions\<close>

definition datameshEnv :: "dregistry \<Rightarrow> (nat \<Rightarrow> int) \<Rightarrow> (globalContext, rctx) EngineEnv" where
  "datameshEnv reg now = \<lparr> env_registry = reg, env_tracker = concurrencyTracker,
     env_dispatchers = [networkDispatcher, quorumDispatcher, membershipDispatcher, attachmentDispatcher, resizeDispatcher],
     env_cp = provider, env_now = now \<rparr>"

text \<open>Step 6: the members are written back when the engine or the zones changed, the scalars only when
  the engine changed. The contexts keep pointing into the slice that the write-back compacts.\<close>

definition writeback :: "bool \<Rightarrow> bool \<Rightarrow> RV \<Rightarrow> globalContext \<Rightarrow> (RV \<times> globalContext) option" where
  "writeback changed zonesChanged rv gctx =
     (if changed \<or> zonesChanged
      then do {
        (members, gctx) \<leftarrow> writebackMembersFromContexts (ds_Members (rv_Datamesh rv)) gctx;
        let rv = rv \<lparr> rv_Datamesh := (rv_Datamesh rv) \<lparr> ds_Members := members \<rparr> \<rparr>;
        let rv = (if changed
           then writebackBaselineGMDRFromContext gctx
                  (rv \<lparr> rv_Datamesh := writebackDatameshFromContext gctx (rv_Datamesh rv) \<rparr>)
           else rv);
        Some (rv, gctx) }
      else Some (rv \<lparr> rv_Datamesh := (rv_Datamesh rv)
             \<lparr> ds_Members := sliceContents (ds_Members (rv_Datamesh rv)) (allReplicas gctx) \<rparr> \<rparr>, gctx))"

definition ProcessTransitions :: "dregistry \<Rightarrow> (nat \<Rightarrow> int) \<Rightarrow> bool \<Rightarrow> RV \<Rightarrow> RSP option \<Rightarrow> RVR list \<Rightarrow> RVA list
    \<Rightarrow> FeatureFlags \<Rightarrow> (bool \<times> ReplicaContext list \<times> RV) option" where
  "ProcessTransitions reg now realloc rv rsp rvrs rvas feat = do {
     gctx \<leftarrow> buildContexts rv rsp rvrs rvas feat;
     let (zonesChanged, gctx) = updateMemberZonesFromRSP gctx;
     let E = datameshEnv reg now;
     e0 \<leftarrow> NewEngine E (rv_DatameshRevision rv) (rv_DatameshTransitions rv) (newConcurrencyTracker gctx);
     (changed, e1) \<leftarrow> Process E e0;
     (transitions, e2) \<leftarrow> Finalize E realloc e1;
     let rv = rv \<lparr> rv_DatameshTransitions := transitions, rv_DatameshRevision := e_revision e2 \<rparr>;
     (rv, gctx) \<leftarrow> writeback changed zonesChanged rv (e_g e2);
     let (messagesChanged, reqs) = writebackRequestMessagesFromContexts gctx (rv_DatameshReplicaRequests rv);
     let rv = rv \<lparr> rv_DatameshReplicaRequests := reqs \<rparr>;
     (layoutChanged, layout) \<leftarrow> updateEffectiveLayout gctx (rv_EffectiveLayout rv);
     Some (changed \<or> zonesChanged \<or> messagesChanged \<or> layoutChanged, allReplicas gctx,
           rv \<lparr> rv_EffectiveLayout := layout \<rparr>) }"

definition datamesh_PlanStepCount :: "dregistry option \<Rightarrow> TransitionType \<Rightarrow> PlanID \<Rightarrow> nat option" where
  "datamesh_PlanStepCount registry tt planID = do { reg \<leftarrow> registry; Some (PlanStepCount reg tt planID) }"

definition datamesh_MaxPlanStepCount :: "dregistry option \<Rightarrow> TransitionType \<Rightarrow> nat option" where
  "datamesh_MaxPlanStepCount registry tt = do { reg \<leftarrow> registry; Some (MaxPlanStepCount reg tt) }"

end
