(* ===== verification/Datamesh_Examples.thy ===== *)
theory Datamesh_Examples
  imports Datamesh_Process
begin

text \<open>
  Small concrete volumes on which the witnesses evaluate the model: members and replicas of a volume
  \<open>vol\<close> with IDs 0, 1, 2, \<dots>, their contexts and API objects.
\<close>

definition exConfig :: ReplicatedVolumeConfiguration where
  "exConfig = \<lparr> ReplicatedStoragePoolName = ''pool'', cfg_Topology = TopologyIgnored, FailuresToTolerate = 0,
     GuaranteedMinimumDataRedundancy = 0, cfg_VolumeAccess = VolumeAccessAny \<rparr>"

definition exName :: "nat \<Rightarrow> string" where
  "exName i = ''vol-'' @ nat_digits i"

definition exMember :: "nat \<Rightarrow> DatameshMemberType \<Rightarrow> DatameshMember" where
  "exMember i t = \<lparr> m_Name = exName i, m_Type = t, m_NodeName = ''node-'' @ nat_digits i, m_Zone = [],
     m_Addresses = [], m_LVMVolumeGroupName = [], m_LVMVolumeGroupThinPoolName = [], m_Attached = False \<rparr>"

definition exRVR :: "nat \<Rightarrow> int \<Rightarrow> RVR" where
  "exRVR i revision = emptyRVR \<lparr> rvr_Name := exName i, rvr_NodeName := ''node-'' @ nat_digits i,
     rvr_DatameshRevision := revision,
     rvr_BackingVolume := Some \<lparr> bv_Size = None, bv_State = DiskStateUpToDate,
       bv_LVMVolumeGroupName = [], bv_LVMVolumeGroupThinPoolName = [] \<rparr> \<rparr>"

definition exDatamesh :: "u8 \<Rightarrow> u8 \<Rightarrow> DatameshMember list \<Rightarrow> Datamesh" where
  "exDatamesh q qmr ms = \<lparr> ds_Quorum = q, ds_QuorumMinimumRedundancy = qmr, ds_Multiattach = False,
     ds_SystemNetworkNames = [], ds_Size = 4096, ds_Members = ms,
     ds_SharedSecret = [], ds_SharedSecretAlg = [] \<rparr>"

definition exLayout :: EffectiveLayout where
  "exLayout = \<lparr> el_FailuresToTolerate = None, el_GuaranteedMinimumDataRedundancy = None, el_TotalVoters = 0,
     el_ReachableVoters = 0, el_UpToDateVoters = 0, el_TotalTieBreakers = 0, el_ReachableTieBreakers = 0,
     el_StaleAgents = 0, el_Message = [] \<rparr>"

definition exRV :: "u8 \<Rightarrow> u8 \<Rightarrow> DatameshMember list \<Rightarrow> Transition list \<Rightarrow> ReplicaRequest list \<Rightarrow> RV" where
  "exRV q qmr ms ts reqs = \<lparr> rv_DeletionTimestamp = None, rv_Spec_Size = 4096, rv_Spec_MaxAttachments = None,
     rv_Spec_ReplicatedStorageClassName = [], rv_Configuration = Some exConfig, rv_DatameshRevision = 7,
     rv_Datamesh = exDatamesh q qmr ms, rv_BaselineGMDR = 0, rv_DatameshReplicaRequests = reqs,
     rv_DatameshTransitions = ts, rv_EffectiveLayout = exLayout, rv_Name = ''vol'', rv_Generation = 1,
     rv_Finalizers = [], rv_Labels = [], rv_Annotations = [], rv_Spec_ConfigurationMode = ConfigurationModeAuto,
     rv_Spec_ManualConfiguration = None, rv_ConfigurationGeneration = 1, rv_ConfigurationObservedGeneration = 1,
     rv_Conditions = [], rv_MembershipLayout = None, rv_Size = None \<rparr>"

definition exFeatures :: FeatureFlags where
  "exFeatures = \<lparr> ff_ShadowDiskful = False \<rparr>"

text \<open>A context with the given per-replica contexts, ID \<open>i\<close> at index \<open>i\<close>.\<close>

definition exRC :: "nat \<Rightarrow> DatameshMember option \<Rightarrow> RVR option \<Rightarrow> ReplicaContext" where
  "exRC i m r = (newReplicaContext (of_nat i)) \<lparr> rx_name := exName i, rx_nodeName := ''node-'' @ nat_digits i,
     rx_member := m, rx_rvr := r \<rparr>"

definition exContext :: "u8 \<Rightarrow> u8 \<Rightarrow> ReplicaContext list \<Rightarrow> globalContext" where
  "exContext q qmr rcs = (newGlobalContext (exRV q qmr [] [] []) exConfig None exFeatures)
     \<lparr> allReplicas := rcs, replicas := map (\<lambda>i. if i < length rcs then Some i else None) [0..<32] \<rparr>"

definition exNow :: "nat \<Rightarrow> int" where
  "exNow n = int n"

end
