(* ===== verification/Datamesh_Registry.thy ===== *)
theory Datamesh_Registry
  imports Datamesh_Process Datamesh_Examples
begin

text \<open>
  The registry that \<open>BuildRegistry\<close> puts together: every plan of the catalogue passes the
  validation of \<open>Build\<close>, no two share a key, and every plan a dispatcher can ask for is there,
  with the scope the decision needs. The engine's contract on \<open>Init\<close> callbacks is discharged for
  this registry.
\<close>

subsection \<open>Built plans\<close>

definition built :: "dplan \<Rightarrow> (globalContext, rctx) plan option" where
  "built p = Option.bind p Build_plan"

definition keyOf :: "dplan \<Rightarrow> registryKey" where
  "keyOf p = (case p of None \<Rightarrow> (TT_Other [], []) | Some b \<Rightarrow> b_key b)"

definition builtSteps :: "Scope \<Rightarrow> dstep list \<Rightarrow> (globalContext, rctx) step list option" where
  "builtSteps sc stps = Option.bind (those stps) (build_steps sc)"

lemma builtSteps_simps [simp]:
  "builtSteps sc [] = Some []"
  "builtSteps ReplicaScope (RS (Some b) # ss) = map_option ((#) (replica_build b)) (builtSteps ReplicaScope ss)"
  "builtSteps sc (GS (Some gb) # ss) = map_option ((#) (buildGlobalStep gb)) (builtSteps sc ss)"
  by (simp_all add: builtSteps_def RS_def GS_def split: Option.bind_split option.split)

lemma steps_built [simp]:
  "n \<noteq> [] \<Longrightarrow> mrStep n a c = Some \<lparr> rb_name = n, rb_applyFn = Some a, rb_confirmFn = Some c,
     rb_onCompleteFn = None, rb_details = None, rb_diagnosticConditionTypes = [''DRBDConfigured''],
     rb_diagnosticSkipError = None \<rparr>"
  "n \<noteq> [] \<Longrightarrow> arStep n a c = mrStep n a c"
  "n \<noteq> [] \<Longrightarrow> mgStep n ga gc = Some \<lparr> gb_name = n, gb_applyFn = Some ga, gb_confirmFn = Some gc,
     gb_onCompleteFn = None, gb_details = None, gb_diagnosticConditionTypes = [''DRBDConfigured''] \<rparr>"
  "ngStep n ga gc = mgStep n ga gc" "rgStep n ga gc = mgStep n ga gc" "agStep n ga gc = mgStep n ga gc"
  by (simp_all add: mrStep_def arStep_def mgStep_def ngStep_def rgStep_def agStep_def ReplicaStep_def
      GlobalStep_def)

lemma step_modifiers [simp]:
  "stepDetails d (Some b) = Some (b \<lparr> rb_details := Some d \<rparr>)"
  "stepSkipError f (Some b) = Some (b \<lparr> rb_diagnosticSkipError := Some f \<rparr>)"
  "gstepOnComplete h (Some gb) = Some (gb \<lparr> gb_onCompleteFn := Some h \<rparr>)"
  by (simp_all add: stepDetails_def stepSkipError_def gstepOnComplete_def)

lemma arrow_nonempty [simp]: "arrow a b \<noteq> []"
  by (simp add: arrow_def)

lemma replicaRaws_map [simp]: "replicaRaws (map RawReplica fs) = Some fs"
  by (induction fs) simp_all

lemma globalRaws_map [simp]: "globalRaws (map RawGlobal fs) = Some fs"
  by (induction fs) simp_all

text \<open>What \<open>Build\<close> makes of the two shapes of builder chains.\<close>

definition replicaPlanOf :: "TransitionType \<Rightarrow> TransitionGroup \<Rightarrow> ReplicaSlotID
    \<Rightarrow> (globalContext, rctx) ReplicaInitFunc option \<Rightarrow> string \<Rightarrow> bool \<Rightarrow> rguard list
    \<Rightarrow> (globalContext, rctx) ReplicaOnCompleteFunc option \<Rightarrow> (globalContext, rctx) step list
    \<Rightarrow> (globalContext, rctx) plan" where
  "replicaPlanOf tt grp slot init display cancel guards onc ss =
     \<lparr> pl_scope = ReplicaScope, pl_transitionType = tt, pl_group = grp, displayName = display,
       pl_slot = slot, cancelActiveOnCreate = cancel, replicaGuards = guards, globalGuards = [],
       replicaInit = init, globalInit = None, steps = ss, pl_replicaOnComplete = onc,
       pl_globalOnComplete = None \<rparr>"

definition globalPlanOf :: "TransitionType \<Rightarrow> TransitionGroup \<Rightarrow> globalContext GlobalInitFunc option
    \<Rightarrow> string \<Rightarrow> gguard list \<Rightarrow> (globalContext, rctx) step list \<Rightarrow> (globalContext, rctx) plan" where
  "globalPlanOf tt grp init display guards ss =
     \<lparr> pl_scope = GlobalScope, pl_transitionType = tt, pl_group = grp, displayName = display,
       pl_slot = 0, cancelActiveOnCreate = False, replicaGuards = [], globalGuards = guards,
       replicaInit = None, globalInit = init, steps = ss, pl_replicaOnComplete = None,
       pl_globalOnComplete = None \<rparr>"

lemmas chain_defs = PB_OnComplete_def PB_Steps_def PB_Guards_def PB_CancelActiveOnCreate_def
  PB_DisplayName_def PB_Init_def PB_Group_def Plan_def

lemma those_Nil_iff: "those stps = Some [] \<longleftrightarrow> stps = []"
  by (cases stps) (auto split: option.splits)

lemma built_replicaPlan:
  assumes "planIDMatch pid" and "grp \<noteq> G_Other []" and "stps \<noteq> []"
  shows "built (replicaPlan (ReplicaTransition tt slot) pid grp (map_option RawReplica init) display
      cancel guards stps (map_option RawReplica onc))
    = map_option (replicaPlanOf tt grp slot init display cancel guards onc) (builtSteps ReplicaScope stps)"
proof (cases "those stps")
  case (Some ss)
  then have "ss \<noteq> []" using those_Nil_iff assms(3) by blast
  then show ?thesis
    using Some assms
    by (cases "build_steps ReplicaScope ss"; cases init; cases onc)
      (simp_all add: built_def replicaPlan_def chain_defs ReplicaTransition_def Build_plan_def
        builtSteps_def replicaPlanOf_def)
qed (simp add: built_def replicaPlan_def builtSteps_def)

lemma built_globalPlan:
  assumes "planIDMatch pid" and "grp \<noteq> G_Other []" and "stps \<noteq> []"
  shows "built (globalPlan (GlobalTransition tt) pid grp (map_option RawGlobal init) display guards stps)
    = map_option (globalPlanOf tt grp init display guards) (builtSteps GlobalScope stps)"
proof (cases "those stps")
  case (Some ss)
  then have "ss \<noteq> []" using those_Nil_iff assms(3) by blast
  then show ?thesis
    using Some assms
    by (cases "build_steps GlobalScope ss"; cases init)
      (simp_all add: built_def globalPlan_def chain_defs GlobalTransition_def Build_plan_def
        builtSteps_def globalPlanOf_def)
qed (simp add: built_def globalPlan_def builtSteps_def)

lemma keyOf_plan:
  "builtSteps ReplicaScope stps \<noteq> None \<Longrightarrow>
     keyOf (replicaPlan (ReplicaTransition tt slot) pid grp init display cancel guards stps onc) = (tt, pid)"
  "builtSteps GlobalScope stps \<noteq> None \<Longrightarrow>
     keyOf (globalPlan (GlobalTransition tt) pid grp ginit display gguards stps) = (tt, pid)"
  by (cases "those stps"; simp add: builtSteps_def keyOf_def replicaPlan_def globalPlan_def chain_defs
      ReplicaTransition_def GlobalTransition_def)+

lemma planIDs [simp]:
  "planIDMatch ''access/v1''"
  "planIDMatch ''tiebreaker/v1''"
  "planIDMatch ''shadow-diskful/v1''"
  "planIDMatch ''diskful/v1''"
  "planIDMatch ''diskful-qmr-up/v1''"
  "planIDMatch ''diskful-q-up/v1''"
  "planIDMatch ''diskful-q-up-qmr-up/v1''"
  "planIDMatch ''diskful-via-sd/v1''"
  "planIDMatch ''diskful-via-sd-qmr-up/v1''"
  "planIDMatch ''diskful-via-sd-q-up/v1''"
  "planIDMatch ''diskful-via-sd-q-up-qmr-up/v1''"
  "planIDMatch ''remove-diskful/v1''"
  "planIDMatch ''remove-diskful-qmr-down/v1''"
  "planIDMatch ''remove-diskful-q-down/v1''"
  "planIDMatch ''remove-diskful-qmr-down-q-down/v1''"
  "planIDMatch ''a-to-tb/v1''"
  "planIDMatch ''tb-to-a/v1''"
  "planIDMatch ''a-to-sd/v1''"
  "planIDMatch ''sd-to-a/v1''"
  "planIDMatch ''tb-to-sd/v1''"
  "planIDMatch ''sd-to-tb/v1''"
  "planIDMatch ''sd-to-d/v1''"
  "planIDMatch ''sd-to-d-q-up/v1''"
  "planIDMatch ''d-to-sd/v1''"
  "planIDMatch ''d-to-sd-q-down/v1''"
  "planIDMatch ''a-to-d/v1''"
  "planIDMatch ''a-to-d-q-up/v1''"
  "planIDMatch ''a-to-d-via-sd/v1''"
  "planIDMatch ''a-to-d-via-sd-q-up/v1''"
  "planIDMatch ''d-to-a/v1''"
  "planIDMatch ''d-to-a-q-down/v1''"
  "planIDMatch ''tb-to-d/v1''"
  "planIDMatch ''tb-to-d-q-up/v1''"
  "planIDMatch ''tb-to-d-via-sd/v1''"
  "planIDMatch ''tb-to-d-via-sd-q-up/v1''"
  "planIDMatch ''d-to-tb/v1''"
  "planIDMatch ''d-to-tb-q-down/v1''"
  "planIDMatch ''diskful-q-down/v1''"
  "planIDMatch ''lower/v1''"
  "planIDMatch ''raise/v1''"
  "planIDMatch ''lower-q-raise-qmr/v1''"
  "planIDMatch ''raise-q-lower-qmr/v1''"
  "planIDMatch ''attach/v1''"
  "planIDMatch ''detach/v1''"
  "planIDMatch ''force-detach/v1''"
  "planIDMatch ''enable-multiattach/v1''"
  "planIDMatch ''disable-multiattach/v1''"
  "planIDMatch ''repair/v1''"
  "planIDMatch ''add/v1''"
  "planIDMatch ''remove/v1''"
  "planIDMatch ''update/v1''"
  "planIDMatch ''migrate/v1''"
  "planIDMatch ''resize/v1''"
  by code_simp+

lemmas built_plan_simps =
  built_replicaPlan [where init = None and onc = None, simplified]
  built_replicaPlan [where init = "Some f" and onc = None for f, simplified]
  built_replicaPlan [where init = None and onc = "Some h" for h, simplified]
  built_replicaPlan [where init = "Some f" and onc = "Some h" for f h, simplified]
  built_globalPlan [where init = None, simplified]
  built_globalPlan [where init = "Some f" for f, simplified]

lemmas handle_defs = addReplica_def removeReplica_def changeReplicaType_def forceRemove_def attach_def
  detach_def forceDetach_def enableMultiattach_def disableMultiattach_def repairNetworkAddresses_def
  changeSystemNetworks_def changeQuorum_def resizeVolume_def

lemmas plan_defs =
  plan_add_access_def plan_remove_access_def plan_add_tiebreaker_def plan_remove_tiebreaker_def
  plan_add_shadow_diskful_def plan_remove_shadow_diskful_def plan_add_diskful_def
  plan_add_diskful_qmr_up_def plan_add_diskful_q_up_def plan_add_diskful_q_up_qmr_up_def
  plan_add_diskful_via_sd_def plan_add_diskful_via_sd_qmr_up_def plan_add_diskful_via_sd_q_up_def
  plan_add_diskful_via_sd_q_up_qmr_up_def plan_remove_diskful_def plan_remove_diskful_qmr_down_def
  plan_remove_diskful_q_down_def plan_remove_diskful_qmr_down_q_down_def plan_change_a_to_tb_def
  plan_change_tb_to_a_def plan_change_a_to_sd_def plan_change_sd_to_a_def plan_change_tb_to_sd_def
  plan_change_sd_to_tb_def plan_change_sd_to_d_def plan_change_sd_to_d_q_up_def
  plan_change_d_to_sd_def plan_change_d_to_sd_q_down_def plan_change_a_to_d_def
  plan_change_a_to_d_q_up_def plan_change_a_to_d_via_sd_def plan_change_a_to_d_via_sd_q_up_def
  plan_change_d_to_a_def plan_change_d_to_a_q_down_def plan_change_tb_to_d_def
  plan_change_tb_to_d_q_up_def plan_change_tb_to_d_via_sd_def plan_change_tb_to_d_via_sd_q_up_def
  plan_change_d_to_tb_def plan_change_d_to_tb_q_down_def plan_force_remove_access_def
  plan_force_remove_tiebreaker_def plan_force_remove_shadow_diskful_def
  plan_force_remove_diskful_def plan_force_remove_diskful_q_down_def plan_quorum_lower_def
  plan_quorum_raise_def plan_quorum_lower_q_raise_qmr_def plan_quorum_raise_q_lower_qmr_def
  plan_attach_def plan_detach_def plan_force_detach_def plan_ma_enable_multiattach_def
  plan_ma_disable_multiattach_def plan_net_repair_def plan_net_add_def plan_net_remove_def
  plan_net_update_def plan_net_migrate_def plan_resize_def

lemmas catalogue_defs = allPlans_def registerMembershipPlans_def registerAccessPlans_def
  registerTieBreakerPlans_def registerShadowDiskfulPlans_def registerDiskfulPlans_def
  registerChangeTypePlans_def registerForceRemovePlans_def registerQuorumPlans_def
  registerAttachmentPlans_def registerNetworkPlans_def registerResizePlans_def

declare built_plan_simps [simp] keyOf_plan [simp]

lemmas built_eqs = plan_defs [THEN arg_cong [where f = built], unfolded handle_defs, simplified]

lemmas key_eqs = plan_defs [THEN arg_cong [where f = keyOf], unfolded handle_defs, simplified]

declare built_plan_simps [simp del] keyOf_plan [simp del]

lemma allPlans_built: "\<forall>p \<in> set (allPlans qs). built p \<noteq> None"
  by (simp add: catalogue_defs built_eqs)

text \<open>The keys of the catalogue, in the order of registration.\<close>

definition planKeys :: "registryKey list" where
  "planKeys = [
     (TT_AddReplica, ''access/v1''), (TT_RemoveReplica, ''access/v1''),
     (TT_AddReplica, ''tiebreaker/v1''), (TT_RemoveReplica, ''tiebreaker/v1''),
     (TT_AddReplica, ''shadow-diskful/v1''), (TT_RemoveReplica, ''shadow-diskful/v1''),
     (TT_AddReplica, ''diskful/v1''), (TT_AddReplica, ''diskful-qmr-up/v1''),
     (TT_AddReplica, ''diskful-q-up/v1''), (TT_AddReplica, ''diskful-q-up-qmr-up/v1''),
     (TT_AddReplica, ''diskful-via-sd/v1''), (TT_AddReplica, ''diskful-via-sd-qmr-up/v1''),
     (TT_AddReplica, ''diskful-via-sd-q-up/v1''), (TT_AddReplica, ''diskful-via-sd-q-up-qmr-up/v1''),
     (TT_RemoveReplica, ''remove-diskful/v1''), (TT_RemoveReplica, ''remove-diskful-qmr-down/v1''),
     (TT_RemoveReplica, ''remove-diskful-q-down/v1''), (TT_RemoveReplica, ''remove-diskful-qmr-down-q-down/v1''),
     (TT_ChangeReplicaType, ''a-to-tb/v1''), (TT_ChangeReplicaType, ''tb-to-a/v1''),
     (TT_ChangeReplicaType, ''a-to-sd/v1''), (TT_ChangeReplicaType, ''sd-to-a/v1''),
     (TT_ChangeReplicaType, ''tb-to-sd/v1''), (TT_ChangeReplicaType, ''sd-to-tb/v1''),
     (TT_ChangeReplicaType, ''sd-to-d/v1''), (TT_ChangeReplicaType, ''sd-to-d-q-up/v1''),
     (TT_ChangeReplicaType, ''d-to-sd/v1''), (TT_ChangeReplicaType, ''d-to-sd-q-down/v1''),
     (TT_ChangeReplicaType, ''a-to-d/v1''), (TT_ChangeReplicaType, ''a-to-d-q-up/v1''),
     (TT_ChangeReplicaType, ''a-to-d-via-sd/v1''), (TT_ChangeReplicaType, ''a-to-d-via-sd-q-up/v1''),
     (TT_ChangeReplicaType, ''d-to-a/v1''), (TT_ChangeReplicaType, ''d-to-a-q-down/v1''),
     (TT_ChangeReplicaType, ''tb-to-d/v1''), (TT_ChangeReplicaType, ''tb-to-d-q-up/v1''),
     (TT_ChangeReplicaType, ''tb-to-d-via-sd/v1''), (TT_ChangeReplicaType, ''tb-to-d-via-sd-q-up/v1''),
     (TT_ChangeReplicaType, ''d-to-tb/v1''), (TT_ChangeReplicaType, ''d-to-tb-q-down/v1''),
     (TT_ForceRemoveReplica, ''access/v1''), (TT_ForceRemoveReplica, ''tiebreaker/v1''),
     (TT_ForceRemoveReplica, ''shadow-diskful/v1''), (TT_ForceRemoveReplica, ''diskful/v1''),
     (TT_ForceRemoveReplica, ''diskful-q-down/v1''), (TT_ChangeQuorum, ''lower/v1''),
     (TT_ChangeQuorum, ''raise/v1''), (TT_ChangeQuorum, ''lower-q-raise-qmr/v1''),
     (TT_ChangeQuorum, ''raise-q-lower-qmr/v1''), (TT_Attach, ''attach/v1''),
     (TT_Detach, ''detach/v1''), (TT_ForceDetach, ''force-detach/v1''),
     (TT_EnableMultiattach, ''enable-multiattach/v1''), (TT_DisableMultiattach, ''disable-multiattach/v1''),
     (TT_RepairNetworkAddresses, ''repair/v1''), (TT_ChangeSystemNetworks, ''add/v1''),
     (TT_ChangeSystemNetworks, ''remove/v1''), (TT_ChangeSystemNetworks, ''update/v1''),
     (TT_ChangeSystemNetworks, ''migrate/v1''), (TT_ResizeVolume, ''resize/v1'')]"

lemma allPlans_keys: "map keyOf (allPlans qs) = planKeys"
  unfolding planKeys_def by (simp add: catalogue_defs key_eqs)

lemma distinct_planKeys: "distinct planKeys"
  by code_simp

subsection \<open>BuildRegistry\<close>

definition entryOf :: "dplan \<Rightarrow> registryKey \<times> (globalContext, rctx) plan" where
  "entryOf p = (keyOf p, the (built p))"

lemma registerPlans_Some:
  assumes "\<forall>p \<in> set ps. built p \<noteq> None" and "distinct (map keyOf ps)"
    and "set (map keyOf ps) \<inter> fst ` set (plans reg) = {}"
  shows "registerPlans ps reg = Some (reg \<lparr> plans := plans reg @ map entryOf ps \<rparr>)"
  using assms
proof (induction ps arbitrary: reg)
  case (Cons p ps)
  obtain b pl where b: "p = Some b" "Build_plan b = Some pl"
    using Cons.prems(1) by (auto simp: built_def res_simps)
  have e: "entryOf p = (b_key b, pl)" using b by (simp add: entryOf_def built_def keyOf_def)
  have k: "keyOf p = b_key b" using b by (simp add: keyOf_def)
  have "map_of (plans reg) (b_key b) = None"
    using Cons.prems(3) k by (auto simp: map_of_eq_None_iff)
  then have B: "Build b reg = Some (reg \<lparr> plans := plans reg @ [entryOf p] \<rparr>)"
    using b(2) by (simp add: Build_def reg_get_def e)
  have "registerPlans ps (reg \<lparr> plans := plans reg @ [entryOf p] \<rparr>)
      = Some (reg \<lparr> plans := plans reg @ [entryOf p] \<rparr>
          \<lparr> plans := plans (reg \<lparr> plans := plans reg @ [entryOf p] \<rparr>) @ map entryOf ps \<rparr>)"
    by (rule Cons.IH) (use Cons.prems k in \<open>auto simp: e\<close>)
  then show ?case using b(1) B by simp
qed simp

definition datameshRegistry :: "(u64 \<Rightarrow> string) \<Rightarrow> dregistry" where
  "datameshRegistry qs = \<lparr> replicaSlotAccessors = [Some membershipSlotAccessor, Some attachmentSlotAccessor],
     plans = map entryOf (allPlans qs) \<rparr>"

lemma BuildRegistry_eq: "BuildRegistry qs None = Some (datameshRegistry qs)"
proof -
  have "registerSlots (NewRegistry ()) = Some ((datameshRegistry qs) \<lparr> plans := [] \<rparr>)"
    by (simp add: registerSlots_def RegisterReplicaSlot_def NewRegistry_def MaxReplicaSlots_def
        membershipSlot_def attachmentSlot_def datameshRegistry_def numeral_2_eq_2)
  moreover have "registerPlans (allPlans qs) ((datameshRegistry qs) \<lparr> plans := [] \<rparr>) = Some (datameshRegistry qs)"
    by (subst registerPlans_Some [OF allPlans_built])
      (simp_all only: allPlans_keys distinct_planKeys datameshRegistry_def Registry.simps append_Nil
        list.set image_empty Int_empty_right)
  ultimately show ?thesis by (simp only: BuildRegistry_def panicUnless_True Option.bind.simps option.simps
        Option.is_none_simps)
qed

lemma reg_get_iff:
  "reg_get (datameshRegistry qs) tt pid = Some pl \<longleftrightarrow>
     (\<exists>p \<in> set (allPlans qs). keyOf p = (tt, pid) \<and> built p = Some pl)"
proof -
  have d: "distinct (map fst (map entryOf (allPlans qs)))"
    using allPlans_keys [of qs] distinct_planKeys by (simp add: entryOf_def comp_def)
  have "reg_get (datameshRegistry qs) tt pid = Some pl \<longleftrightarrow> ((tt, pid), pl) \<in> entryOf ` set (allPlans qs)"
    using map_of_eq_Some_iff [OF d] by (simp add: reg_get_def datameshRegistry_def)
  also have "\<dots> \<longleftrightarrow> (\<exists>p \<in> set (allPlans qs). keyOf p = (tt, pid) \<and> built p = Some pl)"
    using allPlans_built [of qs] by (force simp: entryOf_def image_iff)
  finally show ?thesis .
qed

lemma reg_get_dom: "reg_get (datameshRegistry qs) tt pid \<noteq> None \<longleftrightarrow> (tt, pid) \<in> set planKeys"
proof -
  have "set planKeys = keyOf ` set (allPlans qs)" by (simp flip: allPlans_keys [of qs])
  moreover have "reg_get (datameshRegistry qs) tt pid \<noteq> None \<longleftrightarrow> (\<exists>p \<in> set (allPlans qs). keyOf p = (tt, pid))"
    using reg_get_iff [of qs tt pid] allPlans_built [of qs] by (metis not_None_eq)
  ultimately show ?thesis by (metis imageE imageI)
qed

text \<open>A property of every plan of the catalogue holds of every plan the engine looks up.\<close>

lemma registered_all:
  assumes "\<forall>p \<in> set (allPlans qs). \<forall>pl. built p = Some pl \<longrightarrow> P pl"
    and "reg_get (datameshRegistry qs) tt pid = Some pl"
  shows "P pl"
  using assms by (auto simp: reg_get_iff)

subsection \<open>Facts about every registered plan\<close>

lemmas plan_of_simps [simp] = replicaPlanOf_def globalPlanOf_def

lemma catalogue_type:
  "\<forall>p \<in> set (allPlans qs). \<forall>pl. built p = Some pl \<longrightarrow> pl_transitionType pl = fst (keyOf p)"
  by (simp add: catalogue_defs built_eqs key_eqs)

definition replicaTypes :: "TransitionType list" where
  "replicaTypes = [TT_AddReplica, TT_RemoveReplica, TT_ChangeReplicaType, TT_ForceRemoveReplica, TT_Attach,
     TT_Detach, TT_ForceDetach]"

lemma catalogue_scope:
  "\<forall>p \<in> set (allPlans qs). \<forall>pl. built p = Some pl \<longrightarrow>
     (pl_scope pl = ReplicaScope \<longleftrightarrow> pl_transitionType pl \<in> set replicaTypes)"
  by (simp add: catalogue_defs built_eqs replicaTypes_def)

lemma catalogue_steps:
  "\<forall>p \<in> set (allPlans qs). \<forall>pl. built p = Some pl \<longrightarrow> steps pl \<noteq> [] \<and> length (steps pl) \<le> 6"
  by (simp add: catalogue_defs built_eqs)

lemma catalogue_init:
  "\<forall>p \<in> set (allPlans qs). \<forall>pl. built p = Some pl \<longrightarrow>
     (\<forall>ts g rctx t t'. callInit pl ts g rctx t = Some t' \<longrightarrow> t_Steps t' = t_Steps t \<and> t_Type t' = t_Type t
        \<and> t_Group t' = t_Group t \<and> t_ReplicaName t' = t_ReplicaName t \<and> t_PlanID t' = t_PlanID t)"
  by (simp add: catalogue_defs built_eqs callInit_def setReplicaType_def setReplicaFromToType_def
      setSystemNetworks_def res_simps) auto

interpretation dm: init_contract "datameshEnv (datameshRegistry qs) now" for qs now
proof
  fix tt pid p ts g rctx t t'
  assume "reg_get (env_registry (datameshEnv (datameshRegistry qs) now)) tt pid = Some p"
    and i: "callInit p ts g rctx t = Some t'"
  then have "reg_get (datameshRegistry qs) tt pid = Some p" by (simp add: datameshEnv_def)
  from registered_all [OF catalogue_init this, rule_format, OF i] show "t_Steps t' = t_Steps t" by simp
qed

subsection \<open>Decisions\<close>

text \<open>A decision the engine can carry out: a status message, or a registered plan together with the
  replica context its scope needs.\<close>

definition executable :: "decision \<Rightarrow> bool" where
  "executable d \<longleftrightarrow> d_planID d = [] \<or> ((d_transitionType d, d_planID d) \<in> set planKeys
     \<and> (d_transitionType d \<in> set replicaTypes \<longrightarrow> d_replicaCtx d \<noteq> None))"

lemma membershipChoice_keys:
  assumes "membershipChoice ts g rc = Some (tt, pid, blocked)" and "pid \<noteq> []"
  shows "(tt, pid) \<in> set planKeys"
  using assms unfolding planKeys_def
  by (auto simp: membershipChoice_def planAddReplica_def planAddDiskful_def planRemoveReplica_def
      planRemoveDiskful_def planChangeReplicaType_def planChangeAToD_def planChangeDToA_def
      planChangeTBToD_def planChangeDToTB_def planChangeSDToD_def planChangeDToSD_def
      planForceRemoveReplica_def skipPlan_def notImplemented_def Let_def
      split: if_splits option.splits RequestOperation.splits ReplicaType.splits DatameshMemberType.splits)

lemma executable_simps [simp]:
  "executable (DispatchGlobal tt pid) \<longleftrightarrow> pid = [] \<or> (tt, pid) \<in> set planKeys \<and> tt \<notin> set replicaTypes"
  "executable (DispatchReplica r tt pid) \<longleftrightarrow> pid = [] \<or> (tt, pid) \<in> set planKeys"
  "executable (NoDispatch r slot msg det)"
  by (auto simp: executable_def DispatchGlobal_def DispatchReplica_def NoDispatch_def)

lemma key_members [simp]:
  "(TT_ChangeQuorum, ''lower/v1'') \<in> set planKeys"
  "(TT_ChangeQuorum, ''raise/v1'') \<in> set planKeys"
  "(TT_ChangeQuorum, ''lower-q-raise-qmr/v1'') \<in> set planKeys"
  "(TT_ChangeQuorum, ''raise-q-lower-qmr/v1'') \<in> set planKeys"
  "(TT_Attach, ''attach/v1'') \<in> set planKeys"
  "(TT_Detach, ''detach/v1'') \<in> set planKeys"
  "(TT_ForceDetach, ''force-detach/v1'') \<in> set planKeys"
  "(TT_EnableMultiattach, ''enable-multiattach/v1'') \<in> set planKeys"
  "(TT_DisableMultiattach, ''disable-multiattach/v1'') \<in> set planKeys"
  "(TT_RepairNetworkAddresses, ''repair/v1'') \<in> set planKeys"
  "(TT_ChangeSystemNetworks, ''add/v1'') \<in> set planKeys"
  "(TT_ChangeSystemNetworks, ''remove/v1'') \<in> set planKeys"
  "(TT_ChangeSystemNetworks, ''update/v1'') \<in> set planKeys"
  "(TT_ChangeSystemNetworks, ''migrate/v1'') \<in> set planKeys"
  "(TT_ResizeVolume, ''resize/v1'') \<in> set planKeys"
  by (simp_all add: planKeys_def)

lemma membershipDecision_executable: "membershipDecision r ts g = Some d \<Longrightarrow> executable d"
  using membershipChoice_keys by (auto simp: membershipDecision_def split: option.splits if_splits)

lemma quorumDecision_executable: "quorumDecision g = Some d \<Longrightarrow> executable d"
  by (auto simp: quorumDecision_def selectQuorumPlan_def replicaTypes_def Let_def split: if_splits prod.splits)

lemma attachment_executable:
  "forceDetachDecision r g = Some d \<Longrightarrow> executable d"
  "decideMultiattachToggle g = Some d \<Longrightarrow> executable d"
  "decideAttachmentForReplica r g = Some d \<Longrightarrow> executable d"
  by (auto simp: forceDetachDecision_def decideMultiattachToggle_def decideAttachmentForReplica_def
      replicaTypes_def Let_def split: if_splits option.splits)

lemma network_executable:
  "selectNetworkPlan cur tgt = Some pid \<Longrightarrow> executable (DispatchGlobal TT_ChangeSystemNetworks pid)"
  "executable (DispatchGlobal TT_RepairNetworkAddresses ''repair/v1'')"
  "executable (DispatchGlobal TT_ResizeVolume ''resize/v1'')"
  by (auto simp: selectNetworkPlan_def replicaTypes_def Let_def split: if_splits)

text \<open>C4: every decision that any of the five dispatchers can yield, whatever the contexts are when its
  loop body runs, names a plan that \<open>BuildRegistry\<close> has registered, and carries a replica context when
  that plan is replica-scoped. So the lookups and type assertions of \<open>runDispatch\<close> never panic.\<close>

theorem dispatchers_yield_registered_plans:
  assumes "dispatcher \<in> set (env_dispatchers (datameshEnv reg now))" and "phase \<in> set dispatcher"
    and "body \<in> set (phase ts g)" and "body ts' g' = Some (Some d)" and "d_planID d \<noteq> []"
    and "BuildRegistry qs None = Some reg'"
  shows "\<exists>p. reg_get reg' (d_transitionType d) (d_planID d) = Some p
    \<and> (pl_scope p = ReplicaScope \<longrightarrow> d_replicaCtx d \<noteq> None)"
proof -
  have "executable d"
    using assms(1-4) membershipDecision_executable quorumDecision_executable attachment_executable
      network_executable
    by (auto simp: datameshEnv_def networkDispatcher_def quorumDispatcher_def membershipDispatcher_def
        attachmentDispatcher_def resizeDispatcher_def singleDispatcher_def split: if_splits option.splits)
  then have k: "(d_transitionType d, d_planID d) \<in> set planKeys"
    and r: "d_transitionType d \<in> set replicaTypes \<longrightarrow> d_replicaCtx d \<noteq> None"
    using assms(5) by (auto simp: executable_def)
  obtain p where p: "reg_get (datameshRegistry qs) (d_transitionType d) (d_planID d) = Some p"
    using k reg_get_dom [of qs] by blast
  then have "pl_scope p = ReplicaScope \<longleftrightarrow> d_transitionType d \<in> set replicaTypes"
    using catalogue_scope [of qs] catalogue_type [of qs] by (auto simp: reg_get_iff)
  then show ?thesis using p r assms(6) by (auto simp: BuildRegistry_eq)
qed

theorem dispatchers_yield_registered_plans_witness:
  "\<exists>p. reg_get (datameshRegistry (\<lambda>_. [])) TT_ResizeVolume ''resize/v1'' = Some p"
proof -
  let ?g = "(exContext 1 1 []) \<lparr> g_size := 8192 \<rparr>"
  let ?d = "DispatchGlobal TT_ResizeVolume ''resize/v1'' :: decision"
  have d: "dm_size (datamesh ?g) <s AlignTo4Ki (g_size ?g)" by code_simp
  let ?body = "(hd (hd resizeDispatcher undefined ?g)) :: (globalContext, rctx) dispatchBody"
  have b: "?body undefined ?g = Some (Some ?d)"
    using d by (simp add: resizeDispatcher_def singleDispatcher_def)
  have "\<exists>p. reg_get (datameshRegistry (\<lambda>_. [])) (d_transitionType ?d) (d_planID ?d) = Some p
      \<and> (pl_scope p = ReplicaScope \<longrightarrow> d_replicaCtx ?d \<noteq> None)"
    by (rule dispatchers_yield_registered_plans [where dispatcher = resizeDispatcher and reg = "NewRegistry ()"
          and now = exNow and phase = "hd resizeDispatcher" and ts = undefined and g = ?g and body = ?body,
          OF _ _ _ b _ BuildRegistry_eq])
      (simp_all add: datameshEnv_def resizeDispatcher_def singleDispatcher_def DispatchGlobal_def)
  then show ?thesis by (auto simp: DispatchGlobal_def)
qed


text \<open>C5: \<open>BuildRegistry\<close> does not panic on its first call and panics on any later one. It registers both
  slots and the 60 plans of the catalogue under pairwise different keys; every registered plan has at
  least one and at most six steps, has the transition type of its key, and is replica-scoped exactly
  for the seven transition types that concern one replica.\<close>

theorem BuildRegistry_complete:
  "BuildRegistry qs None = Some (datameshRegistry qs) \<and> BuildRegistry qs (Some reg) = None
   \<and> replicaSlotAccessor (datameshRegistry qs) membershipSlot = Some membershipSlotAccessor
   \<and> replicaSlotAccessor (datameshRegistry qs) attachmentSlot = Some attachmentSlotAccessor
   \<and> map fst (plans (datameshRegistry qs)) = planKeys \<and> distinct planKeys \<and> length planKeys = 60
   \<and> list_all (\<lambda>(key, p). steps p \<noteq> [] \<and> length (steps p) \<le> 6 \<and> pl_transitionType p = fst key
        \<and> (pl_scope p = ReplicaScope) = (fst key \<in> set replicaTypes)) (plans (datameshRegistry qs))"
proof -
  have "map fst (plans (datameshRegistry qs)) = planKeys"
    by (simp add: datameshRegistry_def entryOf_def comp_def flip: allPlans_keys [of qs])
  moreover have "list_all (\<lambda>(key, p). steps p \<noteq> [] \<and> length (steps p) \<le> 6 \<and> pl_transitionType p = fst key
        \<and> (pl_scope p = ReplicaScope) = (fst key \<in> set replicaTypes)) (plans (datameshRegistry qs))"
    using catalogue_steps [of qs] catalogue_type [of qs] catalogue_scope [of qs] allPlans_built [of qs]
    unfolding datameshRegistry_def entryOf_def
    by (fastforce simp: list_all_iff simp del: plan_of_simps)
  moreover have "length planKeys = 60" by (simp add: planKeys_def)
  ultimately show ?thesis
    by (simp add: BuildRegistry_eq distinct_planKeys)
      (simp add: BuildRegistry_def panicUnless_def replicaSlotAccessor_def datameshRegistry_def
        MaxReplicaSlots_def membershipSlot_def attachmentSlot_def)
qed

end
