(* ===== verification/Dmte_Tracked.thy ===== *)
theory Dmte_Tracked
  imports Dmte_Invariant "HOL-Library.Multiset"
begin

text \<open>
  Exclusion between transitions, for any tracker. An abstract tracker is a predicate on the multiset
  of the transitions that exist; the locale states what a tracker, its contexts and the registered
  plans have to respect, and shows that then \<open>Process\<close> keeps the tracker's invariant, whatever
  the dispatchers decide.
\<close>

text \<open>What a tracker sees of a transition: everything but the steps and the plan ID, which the stub
  given to \<open>CanAdmit\<close> does not have.\<close>

definition view :: "Transition \<Rightarrow> Transition" where
  "view t = t \<lparr> t_Steps := [], t_PlanID := [] \<rparr>"

lemma view_hdr: "hdr t = hdr t' \<Longrightarrow> view t = view t'"
  by (simp add: view_def hdr_def)

lemma view_simps [simp]:
  "t_Type (view t) = t_Type t" "t_Group (view t) = t_Group t" "t_ReplicaName (view t) = t_ReplicaName t"
  "t_ReplicaType (view t) = t_ReplicaType t" "t_ToReplicaType (view t) = t_ToReplicaType t"
  "view (view t) = view t"
  by (simp_all add: view_def)

definition live :: "'g Engine \<Rightarrow> Transition multiset" where
  "live e = mset (map (\<lambda>q. view (e_tstore e q)) (e_transitions e))"

lemma live_cong:
  assumes "e_transitions e' = e_transitions e"
    and "\<And>q. q \<in> set (e_transitions e) \<Longrightarrow> view (e_tstore e' q) = view (e_tstore e q)"
  shows "live e' = live e"
  using assms by (simp add: live_def cong: map_cong)

lemma mset_delete_at: "i < length xs \<Longrightarrow> mset (delete_at i xs) = mset xs - {#xs ! i#}"
proof -
  assume "i < length xs"
  then have "mset xs = mset (take i xs @ xs ! i # drop (Suc i) xs)" using delete_at_decomp by metis
  then show ?thesis by (simp add: delete_at_def)
qed

lemma live_delete:
  assumes "i < length (e_transitions e)" and "e_transitions e' = delete_at i (e_transitions e)"
    and "e_tstore e' = e_tstore e"
  shows "live e' = live e - {#view (e_tstore e (e_transitions e ! i))#}"
    and "view (e_tstore e (e_transitions e ! i)) \<in># live e"
  using assms by (simp_all add: live_def map_delete_at mset_delete_at)

lemma live_simps [simp]:
  "live (setSlotStatus slot rctx m d e) = live e"
  "live (e \<lparr> e_g := g \<rparr>) = live e"
  by (simp_all add: live_def)

locale tracked_engine = init_contract E for E :: "('g, 'r) EngineEnv" +
  fixes T :: "'g \<Rightarrow> Transition multiset \<Rightarrow> bool"
    and admissible :: "Transition \<Rightarrow> Transition multiset \<Rightarrow> bool"
  assumes slot_keeps: "replicaSlotAccessor (env_registry E) i = Some acc \<Longrightarrow> T g M \<Longrightarrow>
        T (SetActiveTransition acc r q g) M \<and> T (SetStatus acc r msg det g) M"
    and apply_keeps: "reg_get (env_registry E) tt pid = Some p \<Longrightarrow> s \<in> set (steps p) \<Longrightarrow>
        step_apply s ts g rctx = Some (c, g') \<Longrightarrow> T g M \<Longrightarrow> T g' M"
    and step_complete_keeps: "reg_get (env_registry E) tt pid = Some p \<Longrightarrow> s \<in> set (steps p) \<Longrightarrow>
        step_callOnComplete s ts g rctx = Some g' \<Longrightarrow> T g M \<Longrightarrow> T g' M"
    and plan_complete_keeps: "reg_get (env_registry E) tt pid = Some p \<Longrightarrow>
        plan_callOnComplete p ts g rctx = Some g' \<Longrightarrow> T g M \<Longrightarrow> T g' M"
    and guards_keep: "reg_get (env_registry E) tt pid = Some p \<Longrightarrow>
        evaluateGuards p ts g rctx = Some (res, g') \<Longrightarrow> T g M \<Longrightarrow> T g' M"
    and init_view: "reg_get (env_registry E) tt pid = Some p \<Longrightarrow> callInit p ts g rctx t = Some t1 \<Longrightarrow>
        callInit p ts g rctx t' = Some t1' \<Longrightarrow> view t = view t' \<Longrightarrow> view t1 = view t1'"
    and init_keeps_name: "reg_get (env_registry E) tt pid = Some p \<Longrightarrow> callInit p ts g rctx t = Some t1 \<Longrightarrow>
        t_ReplicaName t1 = t_ReplicaName t"
    and admit_sound: "T g M \<Longrightarrow> trk_CanAdmit (env_tracker E) t g = Some (True, reason, det) \<Longrightarrow>
        t_ReplicaName t = [] \<or> (\<exists>r. t_ReplicaName t = rc_Name (env_cp E) g r) \<Longrightarrow>
        admissible (view t) M"
    and add_tracks: "T g M \<Longrightarrow> admissible (view t) M \<Longrightarrow> trk_Add (env_tracker E) ptr t g = Some g' \<Longrightarrow>
        T g' (add_mset (view t) M)"
    and remove_tracks: "T g M \<Longrightarrow> view t \<in># M \<Longrightarrow> trk_Remove (env_tracker E) t g = Some g' \<Longrightarrow>
        T g' (M - {#view t#})"
begin

abbreviation tracked :: "'g Engine \<Rightarrow> bool" where
  "tracked e \<equiv> T (e_g e) (live e)"

definition slotOK :: "('g, 'r) ReplicaSlotAccessor option \<Rightarrow> bool" where
  "slotOK slot \<longleftrightarrow> slot = None \<or> (\<exists>i. slot = replicaSlotAccessor (env_registry E) i)"

lemma slotOK_simps [simp]: "slotOK None" "slotOK (replicaSlotAccessor (env_registry E) i)"
  by (auto simp: slotOK_def)

lemma status_tracks: "slotOK slot \<Longrightarrow> tracked e \<Longrightarrow> tracked (setSlotStatus slot rctx m d e)"
  using slot_keeps by (auto simp: slotOK_def setSlotStatus_def split: option.splits)

lemma status_tracks_live:
  "slotOK slot \<Longrightarrow> tracked e \<Longrightarrow> T (e_g (setSlotStatus slot rctx m d e)) (live e)"
  using status_tracks by simp

lemma delete_tracks:
  assumes "deleteTransition E idx e = Some e'" and "tracked e"
  shows "tracked e'"
proof -
  obtain g' where i: "idx < length (e_transitions e)"
    and g': "trk_Remove (env_tracker E) (e_tstore e (e_transitions e ! idx)) (e_g e) = Some g'"
    and e': "e' = e \<lparr> e_g := g', e_transitions := delete_at idx (e_transitions e) \<rparr>"
    using assms(1) by (auto simp: deleteTransition_def res_simps)
  show ?thesis
    using remove_tracks [OF assms(2) live_delete(2) [OF i, of e'] g'] live_delete(1) [OF i, of e'] e' by simp
qed

lemma complete_tracks:
  assumes "completeTransition E p idx rctx slot e = Some e'" and "tracked e"
    and "reg_get (env_registry E) tt pid = Some p" and "slotOK slot"
  shows "tracked e'"
proof -
  obtain g1 where c: "plan_callOnComplete p (e_tstore e) (e_g e) rctx = Some g1"
    and d: "deleteTransition E idx (e \<lparr> e_g := (case (slot, rctx) of
        (Some s, Some r) \<Rightarrow> SetActiveTransition s r None g1 | _ \<Rightarrow> g1) \<rparr>) = Some e'"
    using assms(1) by (auto simp: completeTransition_def res_simps Let_def)
  have "T g1 (live e)" by (rule plan_complete_keeps [OF assms(3) c assms(2)])
  then have "T (case (slot, rctx) of (Some s, Some r) \<Rightarrow> SetActiveTransition s r None g1 | _ \<Rightarrow> g1) (live e)"
    using slot_keeps assms(4) by (auto simp: slotOK_def split: option.splits)
  then show ?thesis using delete_tracks [OF d] by simp
qed

lemma apply_tracks:
  assumes "applyStep E p ptr rctx k e = Some e'" and "tracked e"
    and "reg_get (env_registry E) tt pid = Some p"
  shows "tracked e'"
proof -
  obtain c g' where "step_apply (steps p ! k) (e_tstore e) (e_g e) rctx = Some (c, g')"
    and "k < length (steps p)" and "e_g e' = g'"
    using assms(1) by (auto simp: applyStep_def res_simps Let_def)
  then have "T (e_g e') (live e)" using apply_keeps [OF assms(3)] assms(2) by (metis nth_mem)
  moreover have "live e' = live e"
    using applyStep_SomeD [OF assms(1)] applyStep_statuses(2) [OF assms(1)]
    by (intro live_cong) (auto intro: view_hdr)
  ultimately show ?thesis by simp
qed

lemma confirm_tracks:
  assumes "confirmStep E p ptr rctx k ch e = Some (cr, composed, ch', e')" and "tracked e"
  shows "tracked e'"
proof -
  have "live e' = live e"
    using confirmStep_SomeD [OF assms(1)] confirmStep_statuses(2) [OF assms(1)]
    by (intro live_cong) (auto intro: view_hdr)
  then show ?thesis using assms(2) confirmStep_SomeD [OF assms(1)] by simp
qed

lemma advance_tracks: "tracked e \<Longrightarrow> tracked (advanceStep E ptr k e)"
proof -
  assume t: "tracked e"
  have "live (advanceStep E ptr k e) = live e"
    by (rule live_cong, simp, rule view_hdr) (simp add: advanceStep_def Let_def)
  then show ?thesis using t by simp
qed

lemma settleConfirmed_tracks:
  assumes "settleConfirmed E p i ptr rctx slot k e = Some (e', removed)" and t: "tracked e"
    and reg: "reg_get (env_registry E) tt pid = Some p" and sl: "slotOK slot"
  shows "tracked e'"
proof -
  obtain g' where k: "k < length (steps p)"
    and g': "step_callOnComplete (steps p ! k) (e_tstore e) (e_g e) rctx = Some g'"
    using assms(1) by (auto simp: settleConfirmed_def res_simps Let_def)
  let ?e1 = "e \<lparr> e_g := g' \<rparr>"
  have t1: "tracked ?e1" using step_complete_keeps [OF reg nth_mem [OF k] g' t] by simp
  show ?thesis
  proof (cases "Suc k < length (t_Steps (e_tstore ?e1 ptr))")
    case True
    then obtain e2 cr adv ch e3 d where
      a: "applyStep E p ptr rctx (Suc k) (advanceStep E ptr k ?e1) = Some e2"
      and c: "confirmStep E p ptr rctx (Suc k) None e2 = Some (cr, adv, ch, e3)"
      and e': "e' = setSlotStatus slot rctx adv d e3"
      using assms(1) k g' by (auto simp: settleConfirmed_def res_simps Let_def)
    have "tracked e3" by (rule confirm_tracks [OF c apply_tracks [OF a advance_tracks [OF t1] reg]])
    then show ?thesis unfolding e' by (rule status_tracks [OF sl])
  next
    case False
    then have "completeTransition E p i rctx slot ?e1 = Some e'"
      using assms(1) k g' by (auto simp: settleConfirmed_def res_simps Let_def)
    then show ?thesis using t1 reg sl by (rule complete_tracks)
  qed
qed

lemma settleResolve_slotOK: "settleResolve E p t g = Some (rctx, slot) \<Longrightarrow> slotOK slot"
  by (auto simp: settleResolve_def slotOK_def res_simps split: if_splits)

lemma settle_inv_tracked: "settle_inv E tracked"
  unfolding settle_inv_def
proof (intro allI impI)
  fix i e ch e' r ch' pr
  assume s: "settleOne E i e ch = Some (e', r, ch', pr)" and t: "tracked e"
  from s show "tracked e'"
  proof (cases rule: settleOne_cases)
    case unknown
    then show ?thesis using t by simp
  next
    case (all p rctx slot)
    then show ?thesis using complete_tracks [OF all(2) t all(6)] settleResolve_slotOK by blast
  next
    case (wait p rctx slot k cr composed c d e1)
    then show ?thesis
      using status_tracks [OF settleResolve_slotOK [OF wait(8)] confirm_tracks [OF wait(2) t]] by simp
  next
    case (conf p rctx slot k cr composed c d e1)
    note sl = settleResolve_slotOK [OF conf(7)]
    show ?thesis
      by (rule settleConfirmed_tracks [OF conf(3) status_tracks [OF sl confirm_tracks [OF conf(2) t]] conf(6) sl])
  qed
qed

lemma fresh_pointer: "shadow_ok e \<Longrightarrow> New (e_nextNew e) \<notin> set (e_transitions e)"
  by (auto simp: shadow_ok_def)

lemma create_view:
  assumes c: "createTransition E p pid rctx e = Some (ptr, e1)"
    and reg: "reg_get (env_registry E) tt pid' = Some p" and sh: "shadow_ok e"
    and temp: "callInit p (e_tstore e) (e_g e) rctx temp = Some t" and v: "temp = emptyTransition \<lparr> t_Type := pl_transitionType p,
        t_Group := pl_group p, t_ReplicaName := (case (pl_scope p, rctx) of
          (ReplicaScope, Some r) \<Rightarrow> rc_Name (env_cp E) (e_g e) r | _ \<Rightarrow> []) \<rparr>"
  shows "live e1 = add_mset (view t) (live e) \<and> e_g e1 = e_g e \<and> view (e_tstore e1 ptr) = view t"
proof -
  have ini: "\<forall>ts g r t t'. callInit p ts g r t = Some t' \<longrightarrow> t_Steps t' = t_Steps t"
    using init_keeps_steps [OF reg] by blast
  obtain t0 t1 where t1: "callInit p (e_tstore e) (e_g e) rctx t0 = Some t1" "view t0 = view temp"
    and e1: "e_tstore e1 ptr = t1" "e_g e1 = e_g e"
    using c by (auto simp: createTransition_def res_simps Let_def v view_def emptyTransition_def
        split: Scope.splits)
  have view: "view (e_tstore e1 ptr) = view t" using init_view [OF reg t1(1) temp t1(2)] e1(1) by simp
  note C = createTransition_SomeD [OF c ini]
  have "e_tstore e1 q = e_tstore e q" if "q \<in> set (e_transitions e)" for q
    using C fresh_pointer [OF sh] that by metis
  then have "map (\<lambda>q. view (e_tstore e1 q)) (e_transitions e) = map (\<lambda>q. view (e_tstore e q)) (e_transitions e)"
    by simp
  moreover have "live e1 = mset (map (\<lambda>q. view (e_tstore e1 q)) (e_transitions e) @ [view (e_tstore e1 ptr)])"
    using C by (simp add: live_def)
  ultimately have "live e1 = mset (map (\<lambda>q. view (e_tstore e q)) (e_transitions e) @ [view t])"
    by (simp only: view)
  then show ?thesis using view e1(2) by (simp add: live_def)
qed

lemma admit_tracks:
  assumes reg: "reg_get (env_registry E) tt pid' = Some p" and sl: "slotOK slot"
    and a: "admitAndCreate E p pid rctx slot e = Some (res, e')" and t: "tracked e" and sh: "shadow_ok e"
  shows "tracked e'"
proof -
  obtain gr g1 where g1: "evaluateGuards p (e_tstore e) (e_g e) rctx = Some (gr, g1)"
    using a by (auto simp: admitAndCreate_def res_simps)
  let ?e = "e \<lparr> e_g := g1 \<rparr>"
  have tg: "T g1 (live e)" by (rule guards_keep [OF reg g1 t])
  then have te: "tracked ?e" by simp
  show ?thesis
  proof (cases res)
    case (Inl msg)
    then obtain d where "e' = setSlotStatus slot rctx msg d ?e"
      using a g1 by (auto simp: admitAndCreate_def res_simps Let_def split: if_splits)
    then show ?thesis using status_tracks [OF sl te] by simp
  next
    case (Inr ptr)
    let ?temp = "emptyTransition \<lparr> t_Type := pl_transitionType p,
        t_Group := pl_group p, t_ReplicaName := (case (pl_scope p, rctx) of
          (ReplicaScope, Some r) \<Rightarrow> rc_Name (env_cp E) (e_g ?e) r | _ \<Rightarrow> []) \<rparr>"
    obtain t1 reason det e1 g3 e4 cr composed ch e5 d where
      i: "callInit p (e_tstore ?e) (e_g ?e) rctx ?temp = Some t1"
      and ca: "trk_CanAdmit (env_tracker E) t1 g1 = Some (True, reason, det)"
      and c: "createTransition E p pid rctx ?e = Some (ptr, e1)"
      and ad: "trk_Add (env_tracker E) ptr (e_tstore e1 ptr) (case (slot, rctx) of
          (Some s, Some r) \<Rightarrow> SetActiveTransition s r (Some ptr) (e_g e1) | _ \<Rightarrow> e_g e1) = Some g3"
      and ap: "applyStep E p ptr rctx 0 (e1 \<lparr> e_g := g3 \<rparr>) = Some e4"
      and cf: "confirmStep E p ptr rctx 0 None e4 = Some (cr, composed, ch, e5)"
      and e': "e' = setSlotStatus slot rctx composed d e5"
      using a g1 Inr
      by (cases slot; cases rctx; cases "pl_scope p")
        (auto simp: admitAndCreate_def res_simps Let_def emptyTransition_def split: if_splits)
    have "shadow_ok ?e" using sh by (simp add: shadow_ok_def)
    from create_view [OF c reg this i refl]
    have V: "live e1 = add_mset (view t1) (live e)" "e_g e1 = g1" "view (e_tstore e1 ptr) = view t1" by simp_all
    have nm: "t_ReplicaName t1 = [] \<or> (\<exists>r. t_ReplicaName t1 = rc_Name (env_cp E) g1 r)"
      using init_keeps_name [OF reg i] by (auto split: Scope.splits option.splits)
    have "T (case (slot, rctx) of
          (Some s, Some r) \<Rightarrow> SetActiveTransition s r (Some ptr) (e_g e1) | _ \<Rightarrow> e_g e1) (live e)"
      using tg V slot_keeps sl by (auto simp: slotOK_def split: option.splits)
    then have "T g3 (add_mset (view t1) (live e))"
      using add_tracks [of _ "live e" "e_tstore e1 ptr"] admit_sound [OF tg ca nm] ad V by simp
    then have "tracked (e1 \<lparr> e_g := g3 \<rparr>)" using V by simp
    then have "tracked e5" using confirm_tracks [OF cf apply_tracks [OF ap _ reg]] by blast
    then show ?thesis unfolding e' by (rule status_tracks [OF sl])
  qed
qed

lemma conflict_status:
  assumes "slotConflict E p s r e = Some (msg, e')"
  shows "e' = e \<or> (\<exists>d. e' = e \<lparr> e_g := SetStatus s r msg d (e_g e) \<rparr>)"
  using assms
  by (cases "GetActiveTransition s (e_g e) r") (auto simp: slotConflict_def Let_def split: if_splits)

lemma dispatchOne_tracks:
  assumes reg: "reg_get (env_registry E) tt pid' = Some p" and sl: "slotOK slot"
    and a: "dispatchOne E p pid rctx slot e = Some (res, e')" and t: "tracked e" and inv: "engine_inv e"
  shows "tracked e'"
proof -
  have cancel: "tracked e0 \<and> engine_inv e0"
    if "cancelActive E s r e = Some e0" "slot = Some s" for s r e0
  proof -
    have "tracked e0"
      using that sl t slot_keeps delete_tracks
      by (fastforce simp: cancelActive_def slotOK_def res_simps split: option.splits)
    then show ?thesis using cancel_keeps [OF that(1) inv] by blast
  qed
  obtain e0 where e0: "tracked e0 \<and> engine_inv e0"
    and d: "(\<exists>s r msg. slot = Some s \<and> slotConflict E p s r e0 = Some (msg, e'))
        \<or> admitAndCreate E p pid rctx slot e0 = Some (res, e')"
    using a t inv cancel
    by (auto simp: dispatchOne_def res_simps split: option.splits if_splits) blast+
  from d show ?thesis
  proof
    assume "\<exists>s r msg. slot = Some s \<and> slotConflict E p s r e0 = Some (msg, e')"
    then show ?thesis
      using e0 slot_keeps sl by (auto simp: slotOK_def dest!: conflict_status)
  next
    assume "admitAndCreate E p pid rctx slot e0 = Some (res, e')"
    then show ?thesis using admit_tracks [OF reg sl] e0 by (auto simp: engine_inv_def)
  qed
qed

lemma decision_inv_tracked: "decision_inv E (\<lambda>e. engine_inv e \<and> tracked e)"
  unfolding decision_inv_def
proof (intro allI impI)
  fix d e c e'
  assume r: "runDecision E d e = Some (c, e')" and inv: "engine_inv e \<and> tracked e"
  have "engine_inv e'"
    using decision_inv_engine_inv [of "e_revision e"] r inv unfolding decision_inv_def by blast
  moreover have "tracked e'"
  proof (cases "d_planID d = []")
    case True
    then show ?thesis
      using r inv
      by (auto simp: runDecision_def split: option.splits list.splits intro!: status_tracks_live)
  next
    case False
    then obtain p rctx slot res where "reg_get (env_registry E) (d_transitionType d) (d_planID d) = Some p"
      "slotOK slot" "dispatchOne E p (d_planID d) rctx slot e = Some (res, e')"
      using r by (auto simp: runDecision_def res_simps split: if_splits) (use slotOK_simps in blast)+
    then show ?thesis using inv dispatchOne_tracks by blast
  qed
  ultimately show "engine_inv e' \<and> tracked e'" by blast
qed

lemma process_tracked:
  assumes "Process E e = Some (c, e')" and "engine_inv e" and "tracked e"
  shows "tracked e'"
proof -
  have "settle_inv E (\<lambda>e. engine_inv e \<and> tracked e)"
    using settle_inv_engine_inv [of E] settle_inv_tracked unfolding settle_inv_def by blast
  then show ?thesis
    using Process_preserves [OF assms(1) _ decision_inv_tracked] assms(2,3) by blast
qed

text \<open>Registering the transitions that already exist, in any order, when every sub-multiset of them
  admits each further one.\<close>

lemma initTransitions_tracks:
  assumes "initTransitions E ts is g = Some g'" and "T g M"
    and "\<forall>t N. add_mset t N \<subseteq># M + mset (map (\<lambda>i. view (ts (Orig i))) is) \<longrightarrow> admissible t N"
  shows "T g' (M + mset (map (\<lambda>i. view (ts (Orig i))) is))"
  using assms
proof (induction "is" arbitrary: g M)
  case (Cons i "is")
  let ?t = "ts (Orig i)" and ?R = "mset (map (\<lambda>i. view (ts (Orig i))) is)"
  obtain g1 where g1: "trk_Add (env_tracker E) (Orig i) ?t g = Some g1"
    using Cons.prems(1) by (auto simp: res_simps Let_def)
  have "admissible (view ?t) M" using Cons.prems(3) by simp
  then have t1: "T g1 (add_mset (view ?t) M)" using add_tracks Cons.prems(2) g1 by blast
  obtain g2 where g2: "initTransitions E ts is g2 = Some g'"
    and s: "g2 = g1 \<or> (\<exists>k acc r q. replicaSlotAccessor (env_registry E) k = Some acc
      \<and> g2 = SetActiveTransition acc r q g1)"
    using Cons.prems(1) g1 by (auto simp: res_simps Let_def split: if_splits option.splits) metis
  have "T g2 (add_mset (view ?t) M)" using s t1 slot_keeps by blast
  then show ?case using Cons.IH [OF g2, of "add_mset (view ?t) M"] Cons.prems(3) by simp
qed simp

lemma NewEngine_tracked:
  assumes n: "NewEngine E rv ts g = Some e" and "T g {#}"
    and "\<forall>t N. add_mset t N \<subseteq># mset (map view ts) \<longrightarrow> admissible t N"
  shows "tracked e"
proof -
  have e: "e_transitions e = map Orig [0..<length ts]" "e_tstore e = origStore ts"
    and g: "initTransitions E (origStore ts) [0..<length ts] g = Some (e_g e)"
    using n by (auto simp: NewEngine_def res_simps Let_def)
  have "map (\<lambda>i. view (origStore ts (Orig i))) [0..<length ts] = map view ts"
    by (rule nth_equalityI) (simp_all add: origStore_def)
  then show ?thesis
    using initTransitions_tracks [OF g assms(2)] assms(3) by (simp add: live_def e comp_def)
qed

lemma lifecycle_tracked:
  assumes n: "NewEngine E rv ts g = Some e0" and p: "Process E e0 = Some (c, e1)"
    and f: "Finalize E realloc e1 = Some (result, e2)"
    and ts: "0 \<le> rv" "\<forall>t \<in> set ts. steps_ok t \<and> revs_le rv t"
    and g: "T g {#}" "\<forall>t N. add_mset t N \<subseteq># mset (map view ts) \<longrightarrow> admissible t N"
  shows "T (e_g e1) (mset (map view result))"
proof -
  have "engine_inv e0" using NewEngine_inv [OF n ts] by blast
  then have "tracked e1" using process_tracked [OF p] NewEngine_tracked [OF n g] by blast
  then show ?thesis using lifecycle [OF n p f ts] by (simp add: live_def comp_def)
qed

end

end
