(* ===== verification/Datamesh_Exclusion.thy ===== *)
theory Datamesh_Exclusion
  imports Datamesh_Registry Dmte_Tracked
begin

text \<open>
  The concurrency tracker keeps the transitions of a volume compatible: an abstract specification of
  which transitions may exist together, the proof that \<open>Add\<close>, \<open>Remove\<close> and \<open>CanAdmit\<close> of
  \<open>concurrency_tracker.go\<close> implement it, and the interpretation of the engine's tracking contract
  on the datamesh plans, so that \<open>Process\<close> keeps the specification.
\<close>

subsection \<open>What the callbacks leave alone\<close>

text \<open>The part of the contexts the tracker decides on, and the names and IDs of the replica contexts.\<close>

definition trackState :: "globalContext \<Rightarrow> (bool list \<times> IDSet list) \<times> (u8 \<times> string) list" where
  "trackState g = (([hasFormationTransition g, hasQuorumTransition g, hasMultiattachTransition g,
       hasNetworkTransition g, hasResizeTransition g],
      [diskGainingMembershipTransitions g, votingMembershipTransitions g, nonVotingMembershipTransitions g,
       attachmentTransitions g, emergencyTransitions g, potentiallyAttached g]),
     map (\<lambda>rc. (rx_id rc, rx_name rc)) (allReplicas g))"

lemma map_update_same: "(\<And>x. h (f x) = h x) \<Longrightarrow> map h (xs[i := f (xs ! i)]) = map h xs"
  by (cases "i < length xs") (simp_all add: map_update list_update_same_conv list_update_beyond)

lemma trackState_updRC:
  "(\<And>rc. rx_id (f rc) = rx_id rc \<and> rx_name (f rc) = rx_name rc) \<Longrightarrow> trackState (updRC r f g) = trackState g"
  by (simp add: trackState_def updRC_def map_update_same)

lemma trackState_simps [simp]:
  "trackState (updDM f g) = trackState g"
  "trackState (setNetworkNames nets g) = trackState g"
  "trackState (setMembershipMessage msg r g) = trackState g"
  "trackState (g \<lparr> baselineGMDR := b \<rparr>) = trackState g"
  "trackState (g \<lparr> replicas := reps \<rparr>) = trackState g"
  "trackState (g \<lparr> quorumSatisfied := qs, quorumDiagnostic := diag \<rparr>) = trackState g"
  "trackState (snd (forMembers h g)) = trackState g"
proof -
  show "trackState (snd (forMembers h g)) = trackState g"
    by (auto simp: forMembers_def trackState_def Let_def comp_def split: option.splits prod.splits)
qed (simp_all add: trackState_def updDM_def setNetworkNames_def setMembershipMessage_def updRC_def map_update_same)

lemma trackState_SetChanged:
  "(\<And>v. trackState (put v g) = trackState g) \<Longrightarrow> SetChanged get put val g = (c, g') \<Longrightarrow> trackState g' = trackState g"
  by (auto simp: SetChanged_def split: if_splits)

definition keepsApply :: "(globalContext, rctx) ReplicaApplyFunc \<Rightarrow> bool" where
  "keepsApply f \<longleftrightarrow> (\<forall>ts g r c g'. f ts g r = Some (c, g') \<longrightarrow> trackState g' = trackState g)"

definition keepsGlobalApply :: "globalContext GlobalApplyFunc \<Rightarrow> bool" where
  "keepsGlobalApply f \<longleftrightarrow> (\<forall>ts g c g'. f ts g = Some (c, g') \<longrightarrow> trackState g' = trackState g)"

definition keepsDone :: "(globalContext, rctx) ReplicaOnCompleteFunc \<Rightarrow> bool" where
  "keepsDone f \<longleftrightarrow> (\<forall>ts g r g'. f ts g r = Some g' \<longrightarrow> trackState g' = trackState g)"

definition keepsGlobalDone :: "globalContext GlobalOnCompleteFunc \<Rightarrow> bool" where
  "keepsGlobalDone f \<longleftrightarrow> (\<forall>ts g g'. f ts g = Some g' \<longrightarrow> trackState g' = trackState g)"

definition keepsGuard :: "rguard \<Rightarrow> bool" where
  "keepsGuard f \<longleftrightarrow> (\<forall>ts g r res g'. f ts g r = Some (res, g') \<longrightarrow> trackState g' = trackState g)"

definition keepsGlobalGuard :: "gguard \<Rightarrow> bool" where
  "keepsGlobalGuard f \<longleftrightarrow> (\<forall>ts g res g'. f ts g = Some (res, g') \<longrightarrow> trackState g' = trackState g)"

lemmas keeps_defs = keepsApply_def keepsGlobalApply_def keepsDone_def keepsGlobalDone_def keepsGuard_def
  keepsGlobalGuard_def

lemma keepsApply_Compose [simp]: "list_all keepsApply fs \<Longrightarrow> keepsApply (ComposeReplicaApply fs)"
proof (induction fs)
  case (Cons f fs)
  then have k: "keepsApply f" "keepsApply (ComposeReplicaApply fs)" by simp_all
  show ?case unfolding keepsApply_def
  proof (intro allI impI)
    fix ts g r c g'
    assume "ComposeReplicaApply (f # fs) ts g r = Some (c, g')"
    then obtain c1 g1 c2 where "f ts g r = Some (c1, g1)" "ComposeReplicaApply fs ts g1 r = Some (c2, g')"
      by (auto simp: res_simps)
    then have "trackState g1 = trackState g" "trackState g' = trackState g1"
      using k unfolding keepsApply_def by blast+
    then show "trackState g' = trackState g" by simp
  qed
qed (simp add: keepsApply_def)

lemma keepsGlobalApply_Compose [simp]: "list_all keepsGlobalApply fs \<Longrightarrow> keepsGlobalApply (ComposeGlobalApply fs)"
proof (induction fs)
  case (Cons f fs)
  then have k: "keepsGlobalApply f" "keepsGlobalApply (ComposeGlobalApply fs)" by simp_all
  show ?case unfolding keepsGlobalApply_def
  proof (intro allI impI)
    fix ts g c g'
    assume "ComposeGlobalApply (f # fs) ts g = Some (c, g')"
    then obtain c1 g1 c2 where "f ts g = Some (c1, g1)" "ComposeGlobalApply fs ts g1 = Some (c2, g')"
      by (auto simp: res_simps)
    then have "trackState g1 = trackState g" "trackState g' = trackState g1"
      using k unfolding keepsGlobalApply_def by blast+
    then show "trackState g' = trackState g" by simp
  qed
qed (simp add: keepsGlobalApply_def)

lemma keeps_adapters [simp]:
  "keepsGlobalApply f \<Longrightarrow> keepsApply (AdaptGlobalApply f)"
  "keepsGlobalApply f \<Longrightarrow> keepsGlobalDone (AdaptApplyToOnComplete f)"
  by (auto simp: keeps_defs AdaptGlobalApply_def AdaptApplyToOnComplete_def)

lemma onMember_keeps: "onMember f g r = Some (c, g') \<Longrightarrow> trackState g' = trackState g"
  by (auto simp: trackState_updRC dest!: onMember_SomeD)

lemma keeps_member_applies [simp]:
  "keepsApply (createMember t)" "keepsApply (setType t)" "keepsApply setBackingVolumeFromRequest"
  "keepsApply clearBackingVolume" "keepsApply removeMember" "keepsApply applyAttach" "keepsApply applyDetach"
  unfolding keepsApply_def
  by (auto simp: createMember_def setType_def setBackingVolumeFromRequest_def clearBackingVolume_def
      removeMember_def applyAttach_def applyDetach_def res_simps Let_def trackState_updRC
      split: if_splits dest: onMember_keeps)

lemma keeps_global_applies [simp]:
  "keepsGlobalApply raiseQ" "keepsGlobalApply lowerQ" "keepsGlobalApply raiseQMR" "keepsGlobalApply lowerQMR"
  "keepsGlobalApply setCorrectQ" "keepsGlobalApply setCorrectQMR" "keepsGlobalApply updateBaselineGMDR"
  "keepsGlobalApply applyResizeVolume" "keepsGlobalApply applyEnableMultiattach"
  "keepsGlobalApply applyDisableMultiattach"
  unfolding keepsGlobalApply_def
  by (auto simp: raiseQ_def lowerQ_def raiseQMR_def lowerQMR_def setCorrectQ_def setCorrectQMR_def
      updateBaselineGMDR_def applyResizeVolume_def applyEnableMultiattach_def applyDisableMultiattach_def
      Let_def dest!: trackState_SetChanged [rotated])

lemma forMembers_keeps: "forMembers h g = (c, g') \<Longrightarrow> trackState g' = trackState g"
  using trackState_simps(7) by (metis snd_conv)

lemma keeps_network_applies [simp]:
  "keepsGlobalApply repairAddresses" "keepsGlobalApply addNewNetworks" "keepsGlobalApply addNewAddresses"
  "keepsGlobalApply removeOldNetworksAndAddresses"
  unfolding keepsGlobalApply_def
  by (auto simp: repairAddresses_def addNewNetworks_def addNewAddresses_def removeOldNetworksAndAddresses_def
      Let_def split: if_splits prod.splits dest: forMembers_keeps)

lemma keeps_completions [simp]:
  "keepsDone onJoinComplete" "keepsDone onLeaveComplete" "keepsDone onForceRemoveComplete"
  "keepsDone onChangeTypeComplete"
  by (auto simp: keepsDone_def onJoinComplete_def onLeaveComplete_def onForceRemoveComplete_def
      onChangeTypeComplete_def res_simps split: option.splits)

lemma keeps_pure_guards [simp]:
  "keepsGuard (pureGuard f)" "keepsGuard (pureContextGuard h)" "keepsGlobalGuard (pureGlobalGuard k)"
  by (auto simp: keeps_defs pureGuard_def pureContextGuard_def pureGlobalGuard_def res_simps)

lemma keeps_other_guards [simp]:
  "keepsGuard guardGMDRPreserved" "keepsGuard guardTBSufficient" "keepsGuard guardNodeHasAllSystemNetworks"
  "keepsGuard guardQuorumSatisfied" "keepsGlobalGuard (guardBackingVolumesGrown qs)"
  "keepsGlobalGuard guardRemainingNetworksConnected" "keepsGlobalGuard guardReplicasMatchTargetNetworks"
  "keepsGlobalGuard guardNodesHaveAddedNetworks"
  by (auto simp: keeps_defs guardGMDRPreserved_def guardTBSufficient_def guardNodeHasAllSystemNetworks_def
      guardQuorumSatisfied_def isQuorumSatisfied_def guardBackingVolumesGrown_def
      guardRemainingNetworksConnected_def guardReplicasMatchTargetNetworks_def guardNodesHaveAddedNetworks_def
      res_simps Let_def split: option.splits prod.splits if_splits)

lemmas guard_group_defs = commonAddGuards_def commonRemoveGuards_def loseVoterGuardsCommon_def loseVoterGuards_def
  loseVoterToTieBreakerGuards_def loseTBGuards_def gainVoterGuards_def gainTBGuards_def forceRemoveGuards_def

lemmas pure_guard_defs = guardMaxDiskMembers_def guardRVNotDeleting_def guardAddressesPopulated_def
  guardNoMemberOnSameNode_def guardRSPAvailable_def guardNodeEligible_def guardNotAttached_def
  guardVolumeAccessLocalForDemotion_def guardFTTPreserved_def guardZonalSameZone_def
  guardTransZonalVoterPlacement_def guardTransZonalTBPlacement_def guardZoneGMDRPreserved_def
  guardZoneFTTPreserved_def guardZoneFTTPreservedForRetypeToTieBreaker_def evaluateZoneFTT_def
  guardZoneTBSufficient_def guardMemberUnreachable_def guardVotersEven_def guardVotersOdd_def
  guardQMRRaiseNeeded_def guardQMRLowerNeeded_def guardShadowDiskfulSupported_def
  guardHasReadyDiskfulMember_def guardNoActiveResync_def guardVolumeAccessNotLocal_def
  guardAttachNotDeleting_def guardSlotAvailable_def guardMaxAttachmentsAllowsMultiattach_def
  guardCanDisableMultiattach_def guardNodeOperational_def guardRVRReady_def guardVolumeAccessLocalForAttach_def
  guardMemberExists_def guardNoActiveMembershipTransition_def guardDeviceNotInUse_def

lemma keeps_named_guards:
  "keepsGuard guardMaxDiskMembers" "keepsGuard guardRVNotDeleting" "keepsGuard guardAddressesPopulated"
  "keepsGuard guardNoMemberOnSameNode" "keepsGuard guardRSPAvailable" "keepsGuard guardNodeEligible"
  "keepsGuard guardNotAttached" "keepsGuard guardVolumeAccessLocalForDemotion" "keepsGuard guardFTTPreserved"
  "keepsGuard guardZonalSameZone" "keepsGuard guardTransZonalVoterPlacement"
  "keepsGuard guardTransZonalTBPlacement" "keepsGuard guardZoneGMDRPreserved" "keepsGuard guardZoneFTTPreserved"
  "keepsGuard guardZoneFTTPreservedForRetypeToTieBreaker" "keepsGuard guardZoneTBSufficient"
  "keepsGuard guardMemberUnreachable" "keepsGuard guardVotersEven" "keepsGuard guardVotersOdd"
  "keepsGuard guardQMRRaiseNeeded" "keepsGuard guardQMRLowerNeeded" "keepsGuard guardShadowDiskfulSupported"
  "keepsGlobalGuard guardHasReadyDiskfulMember" "keepsGlobalGuard guardNoActiveResync"
  "keepsGuard guardVolumeAccessNotLocal" "keepsGuard guardAttachNotDeleting" "keepsGuard guardSlotAvailable"
  "keepsGlobalGuard guardMaxAttachmentsAllowsMultiattach" "keepsGlobalGuard guardCanDisableMultiattach"
  "keepsGuard guardNodeOperational" "keepsGuard guardRVRReady" "keepsGuard guardVolumeAccessLocalForAttach"
  "keepsGuard guardMemberExists" "keepsGuard guardNoActiveMembershipTransition" "keepsGuard guardDeviceNotInUse"
  unfolding pure_guard_defs by simp_all

definition keepsStep :: "(globalContext, rctx) step \<Rightarrow> bool" where
  "keepsStep s \<longleftrightarrow> pred_option keepsApply (replicaApply s) \<and> pred_option keepsGlobalApply (globalApply s)
     \<and> pred_option keepsDone (st_replicaOnComplete s) \<and> pred_option keepsGlobalDone (st_globalOnComplete s)"

definition keepsPlan :: "(globalContext, rctx) plan \<Rightarrow> bool" where
  "keepsPlan p \<longleftrightarrow> list_all keepsStep (steps p) \<and> pred_option keepsDone (pl_replicaOnComplete p)
     \<and> pred_option keepsGlobalDone (pl_globalOnComplete p)
     \<and> list_all keepsGuard (replicaGuards p) \<and> list_all keepsGlobalGuard (globalGuards p)"

lemma catalogue_keeps: "\<forall>p \<in> set (allPlans qs). \<forall>pl. built p = Some pl \<longrightarrow> keepsPlan pl"
  by (simp add: catalogue_defs built_eqs keepsPlan_def keepsStep_def replica_build_def buildGlobalStep_def
      guard_group_defs keeps_named_guards)

lemma keepsStep_apply:
  "keepsStep s \<Longrightarrow> step_apply s ts g rctx = Some (c, g') \<Longrightarrow> trackState g' = trackState g"
  by (auto simp: keepsStep_def step_apply_def keeps_defs res_simps split: Scope.splits)

lemma keepsStep_done:
  "keepsStep s \<Longrightarrow> step_callOnComplete s ts g rctx = Some g' \<Longrightarrow> trackState g' = trackState g"
  by (auto simp: keepsStep_def step_callOnComplete_def keeps_defs split: Scope.splits option.splits)

lemma keepsPlan_done:
  "keepsPlan p \<Longrightarrow> plan_callOnComplete p ts g rctx = Some g' \<Longrightarrow> trackState g' = trackState g"
  by (auto simp: keepsPlan_def plan_callOnComplete_def keeps_defs split: Scope.splits option.splits)

lemma firstBlocking_keeps:
  assumes "firstBlocking fs g = Some (res, g')"
    and "\<forall>f \<in> set fs. \<forall>g res g'. f g = Some (res, g') \<longrightarrow> trackState g' = trackState g"
  shows "trackState g' = trackState g"
  using assms
proof (induction fs arbitrary: g)
  case (Cons f fs)
  then obtain res1 g1 where f: "f g = Some (res1, g1)"
    and r: "(if Blocked res1 then Some (res1, g1) else firstBlocking fs g1) = Some (res, g')"
    by (auto simp: res_simps)
  have "trackState g1 = trackState g" using Cons.prems(2) f by simp
  moreover have "trackState g' = trackState g1"
    using r Cons.IH [of g1] Cons.prems(2) by (auto split: if_splits)
  ultimately show ?case by simp
qed simp

lemma keepsPlan_guards:
  "keepsPlan p \<Longrightarrow> evaluateGuards p ts g rctx = Some (res, g') \<Longrightarrow> trackState g' = trackState g"
  by (auto simp: keepsPlan_def evaluateGuards_def keeps_defs list_all_iff split: Scope.splits
      elim!: firstBlocking_keeps)

lemma slot_keeps_trackState:
  assumes "replicaSlotAccessor (datameshRegistry qs) i = Some acc"
  shows "trackState (SetActiveTransition acc r q g) = trackState g"
    and "trackState (SetStatus acc r msg det g) = trackState g"
  using assms
  by (auto simp: replicaSlotAccessor_def datameshRegistry_def MaxReplicaSlots_def nth_Cons'
      membershipSlotAccessor_def attachmentSlotAccessor_def trackState_updRC split: if_splits)

subsection \<open>The specification\<close>

definition inGroup :: "TransitionGroup \<Rightarrow> Transition multiset \<Rightarrow> Transition multiset" where
  "inGroup G M = filter_mset (\<lambda>t. t_Group t = G) M"

definition isMembership :: "Transition \<Rightarrow> bool" where
  "isMembership t \<longleftrightarrow> t_Group t = G_VotingMembership \<or> t_Group t = G_NonVotingMembership"

definition rid :: "Transition \<Rightarrow> nat" where
  "rid t = unat (the (ReplicaID t))"

text \<open>Which transitions may exist together: at most one of each serialized group, no quorum change
  beside a voting membership change, no resize beside a transition that brings in a disk, and at most
  one membership and one attachment transition per replica.\<close>

definition compatible :: "Transition multiset \<Rightarrow> bool" where
  "compatible M \<longleftrightarrow>
     (\<forall>G \<in> {G_Formation, G_Quorum, G_Multiattach, G_Network, G_Resize, G_VotingMembership}. size (inGroup G M) \<le> 1)
   \<and> (inGroup G_VotingMembership M = {#} \<or> inGroup G_Quorum M = {#})
   \<and> (inGroup G_Resize M = {#} \<or> (\<forall>t \<in># M. isMembership t \<longrightarrow> \<not> isDiskGainingTransition t))
   \<and> (\<forall>i. size {#t \<in># M. isMembership t \<and> rid t = i#} \<le> 1)
   \<and> (\<forall>i. size {#t \<in># M. t_Group t = G_Attachment \<and> rid t = i#} \<le> 1)"

definition replicaGroup :: "Transition \<Rightarrow> bool" where
  "replicaGroup t \<longleftrightarrow> isMembership t \<or> t_Group t = G_Attachment \<or> t_Group t = G_Emergency"

definition validID :: "Transition \<Rightarrow> bool" where
  "validID t \<longleftrightarrow> (\<exists>i. ReplicaID t = Some i \<and> unat i < 32)"

definition namesOK :: "globalContext \<Rightarrow> bool" where
  "namesOK g \<longleftrightarrow> (\<forall>n \<in> snd ` set (snd (trackState g)). n = [] \<or> (\<exists>i. idFromName n = Some i \<and> unat i < 32))"

text \<open>The tracker's fields describe the transitions that exist.\<close>

definition flagsOf :: "globalContext \<Rightarrow> bool list" where
  "flagsOf g = [hasFormationTransition g, hasQuorumTransition g, hasMultiattachTransition g,
     hasNetworkTransition g, hasResizeTransition g]"

definition flagsSpec :: "Transition multiset \<Rightarrow> bool list" where
  "flagsSpec M = map (\<lambda>G. inGroup G M \<noteq> {#}) [G_Formation, G_Quorum, G_Multiattach, G_Network, G_Resize]"

definition idsOf :: "globalContext \<Rightarrow> nat set list" where
  "idsOf g = map ids [votingMembershipTransitions g, nonVotingMembershipTransitions g, attachmentTransitions g,
     diskGainingMembershipTransitions g]"

definition ridsWhere :: "(Transition \<Rightarrow> bool) \<Rightarrow> Transition multiset \<Rightarrow> nat set" where
  "ridsWhere P M = rid ` {t. t \<in># M \<and> P t}"

abbreviation gainsDisk :: "Transition \<Rightarrow> bool" where
  "gainsDisk t \<equiv> isMembership t \<and> isDiskGainingTransition t"

definition idsSpec :: "Transition multiset \<Rightarrow> nat set list" where
  "idsSpec M = map (\<lambda>P. ridsWhere P M) [\<lambda>t. t_Group t = G_VotingMembership,
     \<lambda>t. t_Group t = G_NonVotingMembership, \<lambda>t. t_Group t = G_Attachment, gainsDisk]"

definition tracks :: "globalContext \<Rightarrow> Transition multiset \<Rightarrow> bool" where
  "tracks g M \<longleftrightarrow> compatible M \<and> namesOK g \<and> (\<forall>t \<in># M. replicaGroup t \<longrightarrow> validID t)
     \<and> flagsOf g = flagsSpec M \<and> idsOf g = idsSpec M"

lemma ridsWhere_simps [simp]:
  "ridsWhere P {#} = {}"
  "ridsWhere P (add_mset t M) = (if P t then insert (rid t) (ridsWhere P M) else ridsWhere P M)"
  by (auto simp: ridsWhere_def)

lemma ridsWhere_empty: "ridsWhere P M = {} \<longleftrightarrow> (\<forall>t \<in># M. \<not> P t)"
  by (auto simp: ridsWhere_def)

lemma ridsWhere_I: "t \<in># M \<Longrightarrow> P t \<Longrightarrow> rid t \<in> ridsWhere P M"
  by (auto simp: ridsWhere_def)

lemma tracksD:
  assumes "tracks g M"
  shows "compatible M" "namesOK g" "t \<in># M \<Longrightarrow> replicaGroup t \<Longrightarrow> validID t"
    "hasFormationTransition g \<longleftrightarrow> inGroup G_Formation M \<noteq> {#}"
    "hasQuorumTransition g \<longleftrightarrow> inGroup G_Quorum M \<noteq> {#}"
    "hasMultiattachTransition g \<longleftrightarrow> inGroup G_Multiattach M \<noteq> {#}"
    "hasNetworkTransition g \<longleftrightarrow> inGroup G_Network M \<noteq> {#}"
    "hasResizeTransition g \<longleftrightarrow> inGroup G_Resize M \<noteq> {#}"
    "ids (votingMembershipTransitions g) = ridsWhere (\<lambda>t. t_Group t = G_VotingMembership) M"
    "ids (nonVotingMembershipTransitions g) = ridsWhere (\<lambda>t. t_Group t = G_NonVotingMembership) M"
    "ids (attachmentTransitions g) = ridsWhere (\<lambda>t. t_Group t = G_Attachment) M"
    "ids (diskGainingMembershipTransitions g) = ridsWhere gainsDisk M"
  using assms by (simp_all add: tracks_def flagsOf_def flagsSpec_def idsOf_def idsSpec_def)

definition admissible :: "Transition \<Rightarrow> Transition multiset \<Rightarrow> bool" where
  "admissible t M \<longleftrightarrow> (t_ReplicaName t = [] \<and> replicaGroup t)
     \<or> ((replicaGroup t \<longrightarrow> validID t) \<and> compatible (add_mset t M))"

lemma tracks_cong: "trackState g' = trackState g \<Longrightarrow> tracks g' M = tracks g M"
  by (simp add: tracks_def namesOK_def flagsOf_def idsOf_def) (simp add: trackState_def)

lemma view_spec [simp]:
  "ReplicaID (view t) = ReplicaID t" "rid (view t) = rid t" "isMembership (view t) = isMembership t"
  "isDiskGainingTransition (view t) = isDiskGainingTransition t" "replicaGroup (view t) = replicaGroup t"
  "validID (view t) = validID t" "CanAdmit (view t) g = CanAdmit t g"
  "tracker_Add ptr (view t) g = tracker_Add ptr t g" "tracker_Remove (view t) g = tracker_Remove t g"
proof -
  show 1: "ReplicaID (view t) = ReplicaID t" by (simp add: ReplicaID_def)
  show 2: "isDiskGainingTransition (view t) = isDiskGainingTransition t"
    by (simp add: isDiskGainingTransition_def split: TransitionType.split)
  show 3: "isMembership (view t) = isMembership t" by (simp add: isMembership_def)
  show "rid (view t) = rid t" "validID (view t) = validID t" "replicaGroup (view t) = replicaGroup t"
    by (simp_all add: rid_def validID_def replicaGroup_def 1 3)
  have "admitGroup (view t) others g = admitGroup t others g" for others
    by (cases "t_Group t") (simp_all add: admitGroup_def 2)
  then show "CanAdmit (view t) g = CanAdmit t g" by (simp add: CanAdmit_def 1 cong: if_cong)
  show "tracker_Add ptr (view t) g = tracker_Add ptr t g" "tracker_Remove (view t) g = tracker_Remove t g"
    by (cases "t_Group t"; simp add: tracker_Add_def tracker_Remove_def 1 2)+
qed

lemma filter_mset_empty_iff: "{#x \<in># M. P x#} = {#} \<longleftrightarrow> (\<forall>x \<in># M. \<not> P x)"
  by (induction M) auto

lemma inGroup_simps [simp]:
  "inGroup G {#} = {#}"
  "inGroup G (add_mset t M) = (if t_Group t = G then add_mset t (inGroup G M) else inGroup G M)"
  by (simp_all add: inGroup_def)

lemma admitGroup_True:
  assumes "admitGroup t others g = (True, reason, det)"
  shows "t_Group t = G_Quorum \<Longrightarrow> \<not> hasQuorumTransition g \<and> ids (votingMembershipTransitions g) = {}"
    and "t_Group t = G_VotingMembership \<Longrightarrow> \<not> hasQuorumTransition g \<and> ids (votingMembershipTransitions g) = {}"
    and "isMembership t \<Longrightarrow> isDiskGainingTransition t \<Longrightarrow> \<not> hasResizeTransition g"
    and "t_Group t = G_Multiattach \<Longrightarrow> \<not> hasMultiattachTransition g"
    and "t_Group t = G_Network \<Longrightarrow> \<not> hasNetworkTransition g"
    and "t_Group t = G_Resize \<Longrightarrow> \<not> hasResizeTransition g \<and> ids (diskGainingMembershipTransitions g) = {}"
  using assms
  by (auto simp add: admitGroup_def isMembership_def card_gt_0_iff simp del: in_ids split: if_splits)

lemma CanAdmit_cases:
  assumes "CanAdmit t g = Some (True, reason, det)"
  shows "(t_Group t = G_Network \<or> \<not> hasFormationTransition g)
    \<and> (t_Group t = G_Emergency \<or> (\<exists>others. admitGroup t others g = (True, reason, det)))
    \<and> (isMembership t \<longrightarrow> t_ReplicaName t \<noteq> [] \<longrightarrow>
       rid t \<notin> ids (votingMembershipTransitions g) \<union> ids (nonVotingMembershipTransitions g))
    \<and> (t_Group t = G_Attachment \<longrightarrow> t_ReplicaName t \<noteq> [] \<longrightarrow> rid t \<notin> ids (attachmentTransitions g))"
  using assms
  by (auto simp: CanAdmit_def isMembership_def rid_def Let_def res_simps split: if_splits)

lemma CanAdmit_True:
  assumes "CanAdmit t g = Some (True, reason, det)"
  shows "t_Group t \<noteq> G_Network \<Longrightarrow> \<not> hasFormationTransition g"
    and "t_Group t = G_Quorum \<Longrightarrow> \<not> hasQuorumTransition g \<and> ids (votingMembershipTransitions g) = {}"
    and "t_Group t = G_VotingMembership \<Longrightarrow> \<not> hasQuorumTransition g \<and> ids (votingMembershipTransitions g) = {}"
    and "isMembership t \<Longrightarrow> isDiskGainingTransition t \<Longrightarrow> \<not> hasResizeTransition g"
    and "t_Group t = G_Multiattach \<Longrightarrow> \<not> hasMultiattachTransition g"
    and "t_Group t = G_Network \<Longrightarrow> \<not> hasNetworkTransition g"
    and "t_Group t = G_Resize \<Longrightarrow> \<not> hasResizeTransition g \<and> ids (diskGainingMembershipTransitions g) = {}"
    and "isMembership t \<Longrightarrow> t_ReplicaName t \<noteq> [] \<Longrightarrow>
       rid t \<notin> ids (votingMembershipTransitions g) \<union> ids (nonVotingMembershipTransitions g)"
    and "t_Group t = G_Attachment \<Longrightarrow> t_ReplicaName t \<noteq> [] \<Longrightarrow> rid t \<notin> ids (attachmentTransitions g)"
proof -
  note c = CanAdmit_cases [OF assms]
  have e: "isMembership t \<Longrightarrow> t_Group t \<noteq> G_Emergency" by (auto simp: isMembership_def)
  show "t_Group t \<noteq> G_Network \<Longrightarrow> \<not> hasFormationTransition g" using c by blast
  show "t_Group t = G_Quorum \<Longrightarrow> \<not> hasQuorumTransition g \<and> ids (votingMembershipTransitions g) = {}"
    using c admitGroup_True(1) by (metis TransitionGroup.distinct)
  show "t_Group t = G_VotingMembership \<Longrightarrow> \<not> hasQuorumTransition g \<and> ids (votingMembershipTransitions g) = {}"
    using c admitGroup_True(2) by (metis TransitionGroup.distinct)
  show "isMembership t \<Longrightarrow> isDiskGainingTransition t \<Longrightarrow> \<not> hasResizeTransition g"
    using c e admitGroup_True(3) by blast
  show "t_Group t = G_Multiattach \<Longrightarrow> \<not> hasMultiattachTransition g"
    using c admitGroup_True(4) by (metis TransitionGroup.distinct)
  show "t_Group t = G_Network \<Longrightarrow> \<not> hasNetworkTransition g"
    using c admitGroup_True(5) by (metis TransitionGroup.distinct)
  show "t_Group t = G_Resize \<Longrightarrow> \<not> hasResizeTransition g \<and> ids (diskGainingMembershipTransitions g) = {}"
    using c admitGroup_True(6) by (metis TransitionGroup.distinct)
  show "isMembership t \<Longrightarrow> t_ReplicaName t \<noteq> [] \<Longrightarrow>
       rid t \<notin> ids (votingMembershipTransitions g) \<union> ids (nonVotingMembershipTransitions g)" using c by blast
  show "t_Group t = G_Attachment \<Longrightarrow> t_ReplicaName t \<noteq> [] \<Longrightarrow> rid t \<notin> ids (attachmentTransitions g)"
    using c by blast
qed

text \<open>\<open>CanAdmit\<close> lets a transition in only if the specification allows it beside the others.\<close>

lemma CanAdmit_sound:
  assumes T: "tracks g M" and C: "CanAdmit t g = Some (True, reason, det)"
    and N: "t_ReplicaName t = [] \<or> (\<exists>r. t_ReplicaName t = rx_name (rcAt g r))"
  shows "admissible t M"
proof (cases "t_ReplicaName t = [] \<and> replicaGroup t")
  case False
  have valid: "validID t" if rg: "replicaGroup t"
  proof -
    obtain r where r: "t_ReplicaName t = rx_name (rcAt g r)" "t_ReplicaName t \<noteq> []" using False rg N by auto
    then have "r < length (allReplicas g)" by (auto simp: rcAt_def newReplicaContext_def split: if_splits)
    then have "rcAt g r \<in> set (allReplicas g)" by (simp add: rcAt_def)
    then have "t_ReplicaName t \<in> snd ` set (snd (trackState g))"
      using r(1) by (simp add: trackState_def image_image)
    then show ?thesis using tracksD(2) [OF T] r(2) by (auto simp: namesOK_def validID_def ReplicaID_def)
  qed
  note A = CanAdmit_True [OF C, unfolded tracksD [OF T] ridsWhere_empty]
  note c = tracksD(1) [OF T, unfolded compatible_def]
  have voting: "inGroup G_VotingMembership M = {#}" if "\<forall>u \<in># M. t_Group u \<noteq> G_VotingMembership"
    using that by (simp add: inGroup_def filter_mset_empty_iff)
  have g: "size (inGroup G (add_mset t M)) \<le> 1"
    if "G \<in> {G_Formation, G_Quorum, G_Multiattach, G_Network, G_Resize, G_VotingMembership}" for G
  proof (cases "t_Group t = G")
    case True
    then have "inGroup G M = {#}" using that A(1,2,3,5,6,7) voting by auto
    then show ?thesis by simp
  next
    case F: False
    then show ?thesis using c that by auto
  qed
  have q: "inGroup G_VotingMembership (add_mset t M) = {#} \<or> inGroup G_Quorum (add_mset t M) = {#}"
    using c A(2,3) voting by (cases "t_Group t") auto
  have r: "inGroup G_Resize (add_mset t M) = {#}
      \<or> (\<forall>u \<in># add_mset t M. isMembership u \<longrightarrow> \<not> isDiskGainingTransition u)"
  proof (cases "t_Group t = G_Resize")
    case True
    then show ?thesis using A(7) by (auto simp: isMembership_def)
  next
    case F: False
    then show ?thesis using c A(4) by auto
  qed
  have m: "size {#u \<in># add_mset t M. isMembership u \<and> rid u = i#} \<le> 1" for i
  proof (cases "isMembership t \<and> rid t = i")
    case True
    then have "t_ReplicaName t \<noteq> []" using False by (auto simp: replicaGroup_def)
    then have "i \<notin> ridsWhere (\<lambda>t. t_Group t = G_VotingMembership) M \<union> ridsWhere (\<lambda>t. t_Group t = G_NonVotingMembership) M"
      using A(8) True by blast
    then have "\<forall>u \<in># M. \<not> (isMembership u \<and> rid u = i)"
      by (auto simp: isMembership_def ridsWhere_def)
    then have "{#u \<in># M. isMembership u \<and> rid u = i#} = {#}" by (simp add: filter_mset_empty_iff)
    then show ?thesis using True by simp
  next
    case F: False
    then have "{#u \<in># add_mset t M. isMembership u \<and> rid u = i#} = {#u \<in># M. isMembership u \<and> rid u = i#}" by auto
    then show ?thesis using c by metis
  qed
  have a: "size {#u \<in># add_mset t M. t_Group u = G_Attachment \<and> rid u = i#} \<le> 1" for i
  proof (cases "t_Group t = G_Attachment \<and> rid t = i")
    case True
    then have "t_ReplicaName t \<noteq> []" using False by (auto simp: replicaGroup_def)
    then have "i \<notin> ridsWhere (\<lambda>t. t_Group t = G_Attachment) M" using A(9) True by blast
    then have "{#u \<in># M. t_Group u = G_Attachment \<and> rid u = i#} = {#}"
      by (auto simp: filter_mset_empty_iff ridsWhere_def)
    then show ?thesis using True by simp
  next
    case F: False
    then have "{#u \<in># add_mset t M. t_Group u = G_Attachment \<and> rid u = i#}
        = {#u \<in># M. t_Group u = G_Attachment \<and> rid u = i#}" by auto
    then show ?thesis using c by metis
  qed
  have "compatible (add_mset t M)" unfolding compatible_def using g q r m a by blast
  then show ?thesis using valid by (simp add: admissible_def)
qed (simp add: admissible_def)

text \<open>\<open>Add\<close> and \<open>Remove\<close> keep the tracker's fields in step with the transitions that exist.\<close>

lemma namesOK_cong: "snd (trackState g') = snd (trackState g) \<Longrightarrow> namesOK g' = namesOK g"
  by (simp add: namesOK_def)

lemma rid_valid: "ReplicaID t = Some i \<Longrightarrow> rid t = unat i"
  by (simp add: rid_def)

lemma tracker_Add_fields:
  assumes "tracker_Add ptr t g = Some g'"
  shows "hasFormationTransition g' = (hasFormationTransition g \<or> t_Group t = G_Formation)"
    "hasQuorumTransition g' = (hasQuorumTransition g \<or> t_Group t = G_Quorum)"
    "hasMultiattachTransition g' = (hasMultiattachTransition g \<or> t_Group t = G_Multiattach)"
    "hasNetworkTransition g' = (hasNetworkTransition g \<or> t_Group t = G_Network)"
    "hasResizeTransition g' = (hasResizeTransition g \<or> t_Group t = G_Resize)"
    "votingMembershipTransitions g' = (if t_Group t = G_VotingMembership
       then IDSet_Add (the (ReplicaID t)) (votingMembershipTransitions g) else votingMembershipTransitions g)"
    "nonVotingMembershipTransitions g' = (if t_Group t = G_NonVotingMembership
       then IDSet_Add (the (ReplicaID t)) (nonVotingMembershipTransitions g) else nonVotingMembershipTransitions g)"
    "attachmentTransitions g' = (if t_Group t = G_Attachment
       then IDSet_Add (the (ReplicaID t)) (attachmentTransitions g) else attachmentTransitions g)"
    "diskGainingMembershipTransitions g' = (if gainsDisk t
       then IDSet_Add (the (ReplicaID t)) (diskGainingMembershipTransitions g) else diskGainingMembershipTransitions g)"
    "snd (trackState g') = snd (trackState g)"
    "replicaGroup t \<Longrightarrow> t_ReplicaName t \<noteq> []"
  using assms
  by (cases "t_Group t"; cases "isDiskGainingTransition t"; cases "ReplicaID t";
      force simp: tracker_Add_def Let_def isMembership_def replicaGroup_def trackState_def ReplicaID_def
        split: if_splits)+

lemma tracker_Add_tracks:
  assumes T: "tracks g M" and A: "admissible t M" and C: "tracker_Add ptr t g = Some g'"
  shows "tracks g' (add_mset t M)"
proof -
  note fld = tracker_Add_fields [OF C] and f = tracksD [OF T]
  have adm: "compatible (add_mset t M)" "replicaGroup t \<longrightarrow> validID t"
    using A fld(11) by (auto simp: admissible_def)
  have v: "unat (the (ReplicaID t)) < 32" if "replicaGroup t"
    using adm(2) that by (auto simp: validID_def)
  have rg: "t_Group t = G_VotingMembership \<Longrightarrow> replicaGroup t" "t_Group t = G_NonVotingMembership \<Longrightarrow> replicaGroup t"
    "t_Group t = G_Attachment \<Longrightarrow> replicaGroup t" "gainsDisk t \<Longrightarrow> replicaGroup t"
    by (auto simp: replicaGroup_def isMembership_def)
  have "flagsOf g' = flagsSpec (add_mset t M)"
    by (simp add: flagsOf_def flagsSpec_def fld(1-5) f(4-8))
  moreover have "idsOf g' = idsSpec (add_mset t M)"
    using rg v by (simp add: idsOf_def idsSpec_def fld(6-9) f(9-12) rid_def)
  ultimately show ?thesis
    using adm f(2,3) namesOK_cong [OF fld(10)] by (auto simp: tracks_def)
qed

lemma compatible_mono: "compatible (add_mset t M) \<Longrightarrow> compatible M"
proof -
  assume c: "compatible (add_mset t M)"
  have size: "size {#u \<in># M. P u#} \<le> 1" if "size {#u \<in># add_mset t M. P u#} \<le> 1" for P
  proof -
    have "size {#u \<in># M. P u#} \<le> size {#u \<in># add_mset t M. P u#}" by simp
    then show ?thesis using that by linarith
  qed
  have empty: "inGroup G M = {#}" if "inGroup G (add_mset t M) = {#}" for G
    using that by (auto split: if_splits)
  have "size (inGroup G M) \<le> 1"
    if "G \<in> {G_Formation, G_Quorum, G_Multiattach, G_Network, G_Resize, G_VotingMembership}" for G
    using c size that unfolding compatible_def inGroup_def by blast
  moreover have "inGroup G_VotingMembership M = {#} \<or> inGroup G_Quorum M = {#}"
    using c empty unfolding compatible_def by blast
  moreover have "inGroup G_Resize M = {#} \<or> (\<forall>t \<in># M. isMembership t \<longrightarrow> \<not> isDiskGainingTransition t)"
  proof -
    have "inGroup G_Resize (add_mset t M) = {#}
        \<or> (\<forall>t \<in># add_mset t M. isMembership t \<longrightarrow> \<not> isDiskGainingTransition t)"
      using c unfolding compatible_def by blast
    then show ?thesis by (elim disjE) (blast dest: empty, simp)
  qed
  moreover have "size {#u \<in># M. isMembership u \<and> rid u = i#} \<le> 1" for i
    using c by (intro size) (simp only: compatible_def)
  moreover have "size {#u \<in># M. t_Group u = G_Attachment \<and> rid u = i#} \<le> 1" for i
    using c by (intro size) (simp only: compatible_def)
  ultimately show "compatible M" unfolding compatible_def by blast
qed

lemma ridsWhere_remove:
  assumes "compatible (add_mset t M)" and "isMembership t" and "\<And>u. P u \<Longrightarrow> isMembership u"
  shows "ridsWhere P M - {rid t} = ridsWhere P M"
proof -
  have "size {#u \<in># add_mset t M. isMembership u \<and> rid u = rid t#} \<le> 1"
    using assms(1) unfolding compatible_def by blast
  then have "{#u \<in># M. isMembership u \<and> rid u = rid t#} = {#}" using assms(2) by simp
  then show ?thesis using assms(3) by (auto simp: ridsWhere_def filter_mset_empty_iff)
qed

lemma ridsWhere_remove_attachment:
  assumes "compatible (add_mset t M)" and "t_Group t = G_Attachment"
  shows "ridsWhere (\<lambda>t. t_Group t = G_Attachment) M - {rid t} = ridsWhere (\<lambda>t. t_Group t = G_Attachment) M"
proof -
  have "size {#u \<in># add_mset t M. t_Group u = G_Attachment \<and> rid u = rid t#} \<le> 1"
    using assms(1) unfolding compatible_def by blast
  then have "{#u \<in># M. t_Group u = G_Attachment \<and> rid u = rid t#} = {#}" using assms(2) by simp
  then show ?thesis by (auto simp: ridsWhere_def filter_mset_empty_iff)
qed

lemma inGroup_single:
  assumes "compatible (add_mset t M)"
    and "t_Group t \<in> {G_Formation, G_Quorum, G_Multiattach, G_Network, G_Resize, G_VotingMembership}"
  shows "inGroup (t_Group t) M = {#}"
proof -
  have "size (inGroup (t_Group t) (add_mset t M)) \<le> 1" using assms unfolding compatible_def by blast
  then show ?thesis by simp
qed

lemma tracker_Remove_fields:
  assumes "tracker_Remove t g = Some g'"
  shows "hasFormationTransition g' = (hasFormationTransition g \<and> t_Group t \<noteq> G_Formation)"
    "hasQuorumTransition g' = (hasQuorumTransition g \<and> t_Group t \<noteq> G_Quorum)"
    "hasMultiattachTransition g' = (hasMultiattachTransition g \<and> t_Group t \<noteq> G_Multiattach)"
    "hasNetworkTransition g' = (hasNetworkTransition g \<and> t_Group t \<noteq> G_Network)"
    "hasResizeTransition g' = (hasResizeTransition g \<and> t_Group t \<noteq> G_Resize)"
    "votingMembershipTransitions g' = (if t_Group t = G_VotingMembership
       then IDSet_Remove (the (ReplicaID t)) (votingMembershipTransitions g) else votingMembershipTransitions g)"
    "nonVotingMembershipTransitions g' = (if t_Group t = G_NonVotingMembership
       then IDSet_Remove (the (ReplicaID t)) (nonVotingMembershipTransitions g) else nonVotingMembershipTransitions g)"
    "attachmentTransitions g' = (if t_Group t = G_Attachment
       then IDSet_Remove (the (ReplicaID t)) (attachmentTransitions g) else attachmentTransitions g)"
    "diskGainingMembershipTransitions g' = (if gainsDisk t
       then IDSet_Remove (the (ReplicaID t)) (diskGainingMembershipTransitions g)
       else diskGainingMembershipTransitions g)"
    "snd (trackState g') = snd (trackState g)"
  using assms
  by (cases "t_Group t"; cases "isDiskGainingTransition t"; cases "ReplicaID t";
      force simp: tracker_Remove_def Let_def isMembership_def replicaGroup_def trackState_def split: if_splits)+

lemma tracker_Remove_tracks:
  assumes T: "tracks g (add_mset t M)" and C: "tracker_Remove t g = Some g'"
  shows "tracks g' M"
proof -
  note fld = tracker_Remove_fields [OF C] and f = tracksD [OF T]
  note sg = inGroup_single [OF f(1)]
  have "flagsOf g' = flagsSpec M"
    using sg by (auto simp: flagsOf_def flagsSpec_def fld(1-5) f(4-8))
  moreover have "idsOf g' = idsSpec M"
    using ridsWhere_remove [OF f(1), of "\<lambda>t. t_Group t = G_VotingMembership"]
      ridsWhere_remove [OF f(1), of "\<lambda>t. t_Group t = G_NonVotingMembership"]
      ridsWhere_remove [OF f(1), of gainsDisk] ridsWhere_remove_attachment [OF f(1)]
    by (simp add: idsOf_def idsSpec_def fld(6-9) f(9-12) isMembership_def flip: rid_def)
  ultimately show ?thesis
    using compatible_mono [OF f(1)] f(2,3) namesOK_cong [OF fld(10)] by (auto simp: tracks_def)
qed

subsection \<open>The datamesh instance\<close>

lemma view_eq_iff: "view t = view t' \<longleftrightarrow>
    (t_Type t, t_Group t, t_ReplicaName t, t_ReplicaType t, t_FromReplicaType t, t_ToReplicaType t,
     t_FromSystemNetworkNames t, t_ToSystemNetworkNames t)
    = (t_Type t', t_Group t', t_ReplicaName t', t_ReplicaType t', t_FromReplicaType t', t_ToReplicaType t',
     t_FromSystemNetworkNames t', t_ToSystemNetworkNames t')"
  by (cases t; cases t') (auto simp: view_def)

lemma catalogue_init_view:
  "\<forall>p \<in> set (allPlans qs). \<forall>pl. built p = Some pl \<longrightarrow>
     (\<forall>ts g rctx t t' t1 t1'. callInit pl ts g rctx t = Some t1 \<longrightarrow> callInit pl ts g rctx t' = Some t1' \<longrightarrow>
        view t = view t' \<longrightarrow> view t1 = view t1')"
  by (simp add: catalogue_defs built_eqs callInit_def setReplicaType_def setReplicaFromToType_def
      setSystemNetworks_def res_simps view_eq_iff) auto

lemma env_simps [simp]:
  "env_registry (datameshEnv reg now) = reg" "env_cp (datameshEnv reg now) = provider"
  "env_tracker (datameshEnv reg now) = concurrencyTracker"
  by (simp_all add: datameshEnv_def)

interpretation dmx: tracked_engine "datameshEnv (datameshRegistry qs) now" tracks admissible for qs now
proof (unfold_locales, goal_cases)
  case (1 i acc g M r q msg det)
  then have a: "replicaSlotAccessor (datameshRegistry qs) i = Some acc" and T: "tracks g M" by simp_all
  show ?case
    using T tracks_cong [OF slot_keeps_trackState(1) [OF a]] tracks_cong [OF slot_keeps_trackState(2) [OF a]] by blast
next
  case (2 tt pid p s ts g rctx c g' M)
  then have "keepsStep s"
    using registered_all [OF catalogue_keeps, of qs tt pid p] by (auto simp: keepsPlan_def list_all_iff)
  from tracks_cong [OF keepsStep_apply [OF this 2(3)]] show ?case using 2 by simp
next
  case (3 tt pid p s ts g rctx g' M)
  then have "keepsStep s"
    using registered_all [OF catalogue_keeps, of qs tt pid p] by (auto simp: keepsPlan_def list_all_iff)
  from tracks_cong [OF keepsStep_done [OF this 3(3)]] show ?case using 3 by simp
next
  case (4 tt pid p ts g rctx g' M)
  then have "keepsPlan p" using registered_all [OF catalogue_keeps, of qs tt pid p] by simp
  from tracks_cong [OF keepsPlan_done [OF this 4(2)]] show ?case using 4 by simp
next
  case (5 tt pid p ts g rctx res g' M)
  then have "keepsPlan p" using registered_all [OF catalogue_keeps, of qs tt pid p] by simp
  from tracks_cong [OF keepsPlan_guards [OF this 5(2)]] show ?case using 5 by simp
next
  case (6 tt pid p ts g rctx t t1 t' t1')
  then show ?case using registered_all [OF catalogue_init_view, of qs tt pid p] by (metis env_simps(1))
next
  case (7 tt pid p ts g rctx t t1)
  then show ?case using registered_all [OF catalogue_init, of qs tt pid p] by (metis env_simps(1))
next
  case (8 g M t reason det)
  then show ?case
    using CanAdmit_sound [of g M "view t" reason det] by (simp add: concurrencyTracker_def provider_def)
next
  case (9 g M t ptr g')
  then show ?case using tracker_Add_tracks [of g M "view t" ptr g'] by (simp add: concurrencyTracker_def)
next
  case (10 g M t g')
  then show ?case
    using tracker_Remove_tracks [of g "view t" "M - {#view t#}" g'] by (simp add: concurrencyTracker_def)
qed

end
