(* ===== verification/Datamesh_Build.thy ===== *)
theory Datamesh_Build
  imports Datamesh_Exclusion
begin

text \<open>
  Facts about \<open>buildContexts\<close>: which names and IDs the contexts carry, what the ID index points to, and
  that a freshly built context satisfies the tracker's specification for no transitions.
\<close>

subsection \<open>Population\<close>

text \<open>What a population step may do: it writes one context, at an index found through an ID below 32.\<close>

lemma atID_SomeD:
  assumes "atID name f g = Some g'"
  obtains i r where "idFromName name = Some i" "unat i < length (replicas g)" "replicas g ! unat i = Some r"
    "g' = updRC r f g"
  using assms by (auto simp: atID_def res_simps index_def split: if_splits)

text \<open>A property of single contexts that \<open>f\<close> establishes whenever the name it is given is a valid one
  is kept by the three population loops.\<close>

definition validName :: "string \<Rightarrow> bool" where
  "validName n \<longleftrightarrow> (\<exists>i. idFromName n = Some i \<and> unat i < 32)"

definition goodNames :: "globalContext \<Rightarrow> bool" where
  "goodNames g \<longleftrightarrow> length (replicas g) = 32 \<and> (\<forall>rc \<in> set (allReplicas g). rx_name rc = [] \<or> validName (rx_name rc))"

lemma atID_goodNames:
  assumes "atID name f g = Some g'" and "goodNames g"
    and "\<And>rc. rx_name rc = [] \<or> validName (rx_name rc) \<Longrightarrow> validName name \<Longrightarrow>
      rx_name (f rc) = [] \<or> validName (rx_name (f rc))"
  shows "goodNames g'"
proof -
  obtain i r where i: "idFromName name = Some i" "unat i < length (replicas g)" and g': "g' = updRC r f g"
    using assms(1) by (rule atID_SomeD)
  have v: "validName name" using i assms(2) by (auto simp: validName_def goodNames_def)
  show ?thesis
  proof (cases "r < length (allReplicas g)")
    case True
    then have "rx_name (f (allReplicas g ! r)) = [] \<or> validName (rx_name (f (allReplicas g ! r)))"
      using assms(2,3) v by (simp add: goodNames_def)
    then show ?thesis
      using assms(2) g' by (auto simp: goodNames_def updRC_def dest!: set_update_subset_insert [THEN subsetD])
  next
    case False
    then show ?thesis using assms(2) g' by (simp add: goodNames_def updRC_def list_update_beyond)
  qed
qed

lemma populateRVRs_goodNames: "populateRVRs rvrs g = Some g' \<Longrightarrow> goodNames g \<Longrightarrow> goodNames g'"
  by (induction rvrs arbitrary: g) (auto simp: res_simps dest: atID_goodNames)

lemma populateMembers_goodNames: "populateMembers k ms g = Some g' \<Longrightarrow> goodNames g \<Longrightarrow> goodNames g'"
proof (induction ms arbitrary: g k)
  case (Cons m ms)
  then obtain g1 where a: "atID (m_Name m) (\<lambda>rc. rc \<lparr> rx_member := Some m, rx_memberPtr := Some k,
              rx_nodeName := (if rx_nodeName rc = [] then m_NodeName m else rx_nodeName rc),
              rx_name := (if rx_name rc = [] then m_Name m else rx_name rc) \<rparr>) g = Some g1"
    and r: "populateMembers (Suc k) ms g1 = Some g'"
    by (auto simp: res_simps)
  have "goodNames g1" by (rule atID_goodNames [OF a Cons.prems(2)]) auto
  then show ?case using Cons.IH r by blast
qed simp

lemma populateRequests_goodNames: "populateRequests k reqs g = Some g' \<Longrightarrow> goodNames g \<Longrightarrow> goodNames g'"
proof (induction reqs arbitrary: g k)
  case (Cons req reqs)
  then obtain g1 where a: "atID (rr_Name req) (\<lambda>rc. rc \<lparr> rx_membershipRequest := Some req, rx_requestPtr := k,
              rx_name := (if rx_name rc = [] then rr_Name req else rx_name rc) \<rparr>) g = Some g1"
    and r: "populateRequests (Suc k) reqs g1 = Some g'"
    by (auto simp: res_simps)
  have "goodNames g1" by (rule atID_goodNames [OF a Cons.prems(2)]) auto
  then show ?case using Cons.IH r by blast
qed simp

text \<open>What no write to a context changes, the population loops keep.\<close>

lemma populate_frame:
  assumes "\<And>r f g. h (updRC r f g) = h g"
  shows "populateRVRs rvrs g = Some g' \<Longrightarrow> h g' = h g"
    and "populateMembers k ms g = Some g' \<Longrightarrow> h g' = h g"
    and "populateRequests k reqs g = Some g' \<Longrightarrow> h g' = h g"
proof -
  have at: "h g' = h g" if "atID name f g = Some g'" for name f g g'
    using that assms by (auto elim!: atID_SomeD)
  show "populateRVRs rvrs g = Some g' \<Longrightarrow> h g' = h g"
    by (induction rvrs arbitrary: g) (auto simp: res_simps dest: at)
  show "populateMembers k ms g = Some g' \<Longrightarrow> h g' = h g"
    by (induction ms arbitrary: g k) (auto simp: res_simps dest!: at)
  show "populateRequests k reqs g = Some g' \<Longrightarrow> h g' = h g"
    by (induction reqs arbitrary: g k) (auto simp: res_simps dest!: at)
qed

lemma assignRVAs_names:
  "rc \<in> set (assignRVAs grp rcs) \<Longrightarrow> rx_name rc = [] \<or> (\<exists>rc' \<in> set rcs. rx_name rc = rx_name rc')"
  by (auto simp: assignRVAs_def Let_def newReplicaContext_def
      dest!: set_update_subset_insert [THEN subsetD] intro: nth_mem split: if_splits)

lemma fold_assignRVAs_names:
  "rc \<in> set (fold assignRVAs grps rcs) \<Longrightarrow> rx_name rc = [] \<or> (\<exists>rc' \<in> set rcs. rx_name rc = rx_name rc')"
proof (induction grps arbitrary: rcs)
  case (Cons grp grps)
  then have "rc \<in> set (fold assignRVAs grps (assignRVAs grp rcs))" by simp
  from Cons.IH [OF this] show ?case using assignRVAs_names by metis
qed auto

lemma length_fold_update: "(\<And>x xs. length (f x xs) = length xs) \<Longrightarrow> length (fold f ys zs) = length zs"
  by (induction ys arbitrary: zs) simp_all

lemma length_indexByID [simp]: "length (indexByID xs) = 32"
  unfolding indexByID_def by (subst length_fold_update) auto

lemma length_rebuildIndex [simp]: "length (rebuildIndex rcs) = 32"
  unfolding rebuildIndex_def by (subst length_fold_update) auto

text \<open>The stages of \<open>buildContexts\<close>.\<close>

lemma buildContexts_SomeD:
  assumes "buildContexts rv rsp rvrs rvas feat = Some g"
  obtains cfg known g1 g2 g3 rcs where "rv_Configuration rv = Some cfg" "knownIDs rv rvrs = Some known"
    "populateRVRs rvrs ((newGlobalContext rv cfg rsp feat) \<lparr> allReplicas := map newReplicaContext (IDSet_All known),
       replicas := indexByID (IDSet_All known) \<rparr>) = Some g1"
    "populateMembers 0 (ds_Members (rv_Datamesh rv)) g1 = Some g2"
    "populateRequests 0 (rv_DatameshReplicaRequests rv) g2 = Some g3"
    "rcs = fold assignRVAs (groupRVAs rvas) (allReplicas g3)"
    "g = g3 \<lparr> allReplicas := rcs,
       replicas := (if backingMoved (IDSet_Len known) (length rcs) then rebuildIndex rcs else replicas g3) \<rparr>"
proof -
  obtain cfg known g1 g2 g3 where s: "rv_Configuration rv = Some cfg" "knownIDs rv rvrs = Some known"
    "populateRVRs rvrs ((newGlobalContext rv cfg rsp feat) \<lparr> allReplicas := map newReplicaContext (IDSet_All known),
       replicas := indexByID (IDSet_All known) \<rparr>) = Some g1"
    "populateMembers 0 (ds_Members (rv_Datamesh rv)) g1 = Some g2"
    "populateRequests 0 (rv_DatameshReplicaRequests rv) g2 = Some g3"
    using assms unfolding buildContexts_def Let_def bind_eq_Some_conv by blast
  let ?rcs = "fold assignRVAs (groupRVAs rvas) (allReplicas g3)"
  have "g = (if backingMoved (IDSet_Len known) (length ?rcs)
      then g3 \<lparr> allReplicas := ?rcs, replicas := rebuildIndex ?rcs \<rparr> else g3 \<lparr> allReplicas := ?rcs \<rparr>)"
    using assms by (simp add: buildContexts_def s Let_def)
  then show ?thesis by (intro that [OF s refl]) simp
qed

lemma buildContexts_goodNames:
  assumes "buildContexts rv rsp rvrs rvas feat = Some g"
  shows "goodNames g"
  using assms
proof (cases rule: buildContexts_SomeD)
  case (1 cfg known g1 g2 g3 rcs)
  have "goodNames ((newGlobalContext rv cfg rsp feat) \<lparr> allReplicas := map newReplicaContext (IDSet_All known),
       replicas := indexByID (IDSet_All known) \<rparr>)"
    by (auto simp: goodNames_def newReplicaContext_def)
  from populateRequests_goodNames [OF 1(5) populateMembers_goodNames [OF 1(4) populateRVRs_goodNames [OF 1(3) this]]]
  have g3: "length (replicas g3) = 32" "\<forall>rc \<in> set (allReplicas g3). rx_name rc = [] \<or> validName (rx_name rc)"
    by (simp_all add: goodNames_def)
  have "\<forall>rc \<in> set rcs. rx_name rc = [] \<or> validName (rx_name rc)"
    using g3(2) fold_assignRVAs_names unfolding 1(6) by metis
  then show ?thesis using g3(1) 1(7) by (simp add: goodNames_def)
qed

subsection \<open>The tracker at the start\<close>

lemma newConcurrencyTracker_keeps:
  "fst (fst (trackState (newConcurrencyTracker g))) = fst (fst (trackState g))"
  "idsOf (newConcurrencyTracker g) = idsOf g" "allReplicas (newConcurrencyTracker g) = allReplicas g"
proof -
  have "\<exists>s. newConcurrencyTracker g = g \<lparr> potentiallyAttached := s \<rparr>"
    unfolding newConcurrencyTracker_def
  proof (rule fold_invariant [where P = "\<lambda>g'. \<exists>s. g' = g \<lparr> potentiallyAttached := s \<rparr>" and Q = "\<lambda>_. True"])
    show "\<exists>s. g = g \<lparr> potentiallyAttached := s \<rparr>" by (intro exI [of _ "potentiallyAttached g"]) simp
  qed (auto split: option.split)
  then show "fst (fst (trackState (newConcurrencyTracker g))) = fst (fst (trackState g))"
    "idsOf (newConcurrencyTracker g) = idsOf g" "allReplicas (newConcurrencyTracker g) = allReplicas g"
    by (auto simp: trackState_def idsOf_def)
qed

lemma buildContexts_tracker:
  assumes "buildContexts rv rsp rvrs rvas feat = Some g"
  shows "(flagsOf g, idsOf g) = ([False, False, False, False, False], [{}, {}, {}, {}])"
  using assms
proof (cases rule: buildContexts_SomeD)
  case (1 cfg known g1 g2 g3 rcs)
  have upd: "(flagsOf (updRC r f g), idsOf (updRC r f g)) = (flagsOf g, idsOf g)" for r f g
    by (simp add: flagsOf_def idsOf_def updRC_def)
  note fr = populate_frame [where h = "\<lambda>g. (flagsOf g, idsOf g)", OF upd]
  have "(flagsOf g, idsOf g) = (flagsOf g3, idsOf g3)" unfolding 1(7) by (simp add: flagsOf_def idsOf_def)
  also have "\<dots> = (flagsOf (newGlobalContext rv cfg rsp feat), idsOf (newGlobalContext rv cfg rsp feat))"
    using fr(1) [OF 1(3)] fr(2) [OF 1(4)] fr(3) [OF 1(5)] by (simp add: flagsOf_def idsOf_def)
  finally show ?thesis by (simp add: flagsOf_def idsOf_def newGlobalContext_def Let_def)
qed

lemma refresh_names:
  "map rx_name (allReplicas (snd (updateMemberZonesFromRSP g))) = map rx_name (allReplicas g)"
  "flagsOf (snd (updateMemberZonesFromRSP g)) = flagsOf g" "idsOf (snd (updateMemberZonesFromRSP g)) = idsOf g"
  by (auto simp: updateMemberZonesFromRSP_def Let_def flagsOf_def idsOf_def split: option.splits)

lemma compatible_empty: "compatible {#}"
  by (simp add: compatible_def inGroup_def)

lemma initial_tracks:
  assumes "buildContexts rv rsp rvrs rvas feat = Some g"
  shows "tracks (newConcurrencyTracker (snd (updateMemberZonesFromRSP g))) {#}"
proof -
  let ?g = "snd (updateMemberZonesFromRSP g)"
  have "namesOK (newConcurrencyTracker ?g)"
  proof -
    have "snd ` set (snd (trackState (newConcurrencyTracker ?g))) = set (map rx_name (allReplicas ?g))"
      by (force simp: trackState_def newConcurrencyTracker_keeps(3))
    also have "\<dots> = set (map rx_name (allReplicas g))" by (simp only: refresh_names)
    finally show ?thesis
      using buildContexts_goodNames [OF assms] by (auto simp: namesOK_def goodNames_def validName_def)
  qed
  moreover have "flagsOf (newConcurrencyTracker ?g) = flagsOf ?g"
    using newConcurrencyTracker_keeps(1) [of ?g] by (simp add: trackState_def flagsOf_def)
  ultimately show ?thesis
    using buildContexts_tracker [OF assms] compatible_empty
    by (simp add: tracks_def refresh_names newConcurrencyTracker_keeps(2) flagsSpec_def idsSpec_def inGroup_def)
qed

lemma compatible_antimono: "M \<subseteq># N \<Longrightarrow> compatible N \<Longrightarrow> compatible M"
proof -
  assume "M \<subseteq># N" "compatible N"
  then have "compatible (M + (N - M))" by simp
  moreover have "compatible (M + K) \<Longrightarrow> compatible M" for K
    by (induction K) (auto dest: compatible_mono)
  ultimately show ?thesis by blast
qed

lemma sub_admissible:
  assumes "compatible M" and "\<forall>t \<in># M. replicaGroup t \<longrightarrow> validID t" and "add_mset t N \<subseteq># M"
  shows "admissible t N"
  using assms compatible_antimono [OF assms(3)] mset_subset_eqD [OF assms(3), of t]
  by (simp add: admissible_def)

text \<open>The engine's life inside \<open>ProcessTransitions\<close>.\<close>

lemma ProcessTransitions_SomeD:
  assumes "ProcessTransitions reg now realloc rv rsp rvrs rvas feat = Some (ch, rcs, rv')"
  obtains g e0 c e1 result e2 where "buildContexts rv rsp rvrs rvas feat = Some g"
    "NewEngine (datameshEnv reg now) (rv_DatameshRevision rv) (rv_DatameshTransitions rv)
       (newConcurrencyTracker (snd (updateMemberZonesFromRSP g))) = Some e0"
    "Process (datameshEnv reg now) e0 = Some (c, e1)"
    "Finalize (datameshEnv reg now) realloc e1 = Some (result, e2)"
    "rv_DatameshTransitions rv' = result" "rv_DatameshRevision rv' = e_revision e2"
proof -
  have wb: "rv_DatameshTransitions rv2 = rv_DatameshTransitions rv1 \<and> rv_DatameshRevision rv2 = rv_DatameshRevision rv1"
    if "writeback c z rv1 g = Some (rv2, g')" for c z rv1 g rv2 g'
    using that by (auto simp: writeback_def writebackBaselineGMDRFromContext_def res_simps Let_def split: if_splits)
  obtain g e0 c e1 result e2 rv2 g2 where s: "buildContexts rv rsp rvrs rvas feat = Some g"
    "NewEngine (datameshEnv reg now) (rv_DatameshRevision rv) (rv_DatameshTransitions rv)
       (newConcurrencyTracker (snd (updateMemberZonesFromRSP g))) = Some e0"
    "Process (datameshEnv reg now) e0 = Some (c, e1)"
    "Finalize (datameshEnv reg now) realloc e1 = Some (result, e2)"
    and w: "writeback c (fst (updateMemberZonesFromRSP g)) (rv \<lparr> rv_DatameshTransitions := result,
        rv_DatameshRevision := e_revision e2 \<rparr>) (e_g e2) = Some (rv2, g2)"
    using assms by (clarsimp simp: ProcessTransitions_def res_simps Let_def case_prod_unfold)
  moreover have "rv_DatameshTransitions rv' = rv_DatameshTransitions rv2 \<and> rv_DatameshRevision rv' = rv_DatameshRevision rv2"
    using assms s w by (auto simp: ProcessTransitions_def res_simps Let_def case_prod_unfold)
  ultimately show ?thesis using that [OF s] wb [OF w] by simp
qed

subsection \<open>The concrete volume of the witnesses\<close>

text \<open>One diskful member whose replica is up to date: nothing is left to do, and no plan is looked up.\<close>

abbreviation exSteady :: "dregistry \<Rightarrow> (bool \<times> ReplicaContext list \<times> RV) option" where
  "exSteady reg \<equiv> ProcessTransitions reg exNow False (exRV 1 1 [exMember 0 MT_Diskful] [] []) None [exRVR 0 7] [] exFeatures"

lemma exSteady_runs: "exSteady reg \<noteq> None"
  by code_simp

end
