(* ===== verification/Datamesh_Run.thy ===== *)
theory Datamesh_Run
  imports Datamesh_Registry
begin

text \<open>
  Running a replica plan step by step on the contexts, seen through a view: the part of the contexts an
  argument is about. Between two steps of the plan the rest of the system may change everything but the
  view. The lemmas below follow the view through a plan once and for all.
\<close>

text \<open>The states a plan for replica \<open>r\<close> goes through, after \<open>k\<close> applied steps.\<close>

inductive planRun :: "(rctx \<Rightarrow> globalContext \<Rightarrow> 'v) \<Rightarrow> (globalContext, rctx) plan \<Rightarrow> rctx \<Rightarrow> globalContext
    \<Rightarrow> nat \<Rightarrow> globalContext \<Rightarrow> bool"
  for V p r g0 where
  start: "planRun V p r g0 0 g0"
| interfere: "planRun V p r g0 k g \<Longrightarrow> V r g' = V r g \<Longrightarrow> planRun V p r g0 k g'"
| apply_step: "planRun V p r g0 k g \<Longrightarrow> k < length (steps p) \<Longrightarrow>
    step_apply (steps p ! k) ts g (Some r) = Some (c, g') \<Longrightarrow> planRun V p r g0 (Suc k) g'"

text \<open>\<open>allPost V a v P\<close>: whenever the callback succeeds from view \<open>v\<close>, the view afterwards satisfies \<open>P\<close>.\<close>

definition allPost :: "(rctx \<Rightarrow> globalContext \<Rightarrow> 'v) \<Rightarrow> (globalContext, rctx) ReplicaApplyFunc \<Rightarrow> 'v \<Rightarrow> ('v \<Rightarrow> bool) \<Rightarrow> bool" where
  "allPost V a v P \<longleftrightarrow> (\<forall>ts g r c g'. V r g = v \<longrightarrow> a ts g (Some r) = Some (c, g') \<longrightarrow> P (V r g'))"

lemma post_Compose [simp]:
  "P v \<Longrightarrow> allPost V (ComposeReplicaApply []) v P"
  "allPost V a v (\<lambda>v'. allPost V (ComposeReplicaApply as) v' P) \<Longrightarrow> allPost V (ComposeReplicaApply (a # as)) v P"
  by (auto simp: allPost_def res_simps)

text \<open>Global callbacks that leave the view alone.\<close>

definition keepsView :: "(rctx \<Rightarrow> globalContext \<Rightarrow> 'v) \<Rightarrow> globalContext GlobalApplyFunc \<Rightarrow> bool" where
  "keepsView V f \<longleftrightarrow> (\<forall>ts g c g' r. f ts g = Some (c, g') \<longrightarrow> V r g' = V r g)"

lemma keepsView_Compose [simp]: "list_all (keepsView V) fs \<Longrightarrow> keepsView V (ComposeGlobalApply fs)"
proof (induction fs)
  case (Cons f fs)
  then have "keepsView V f" "keepsView V (ComposeGlobalApply fs)" by simp_all
  then show ?case unfolding keepsView_def by (auto simp: res_simps)
qed (simp add: keepsView_def)

lemma post_keepsView [simp]: "keepsView V f \<Longrightarrow> P v \<Longrightarrow> allPost V (AdaptGlobalApply f) v P"
  by (auto simp: allPost_def keepsView_def AdaptGlobalApply_def)

lemma allPost_step:
  "rb_applyFn b = Some a \<Longrightarrow> allPost V (step_apply (replica_build b)) v P = allPost V a v P"
  "gb_applyFn c = Some f \<Longrightarrow> keepsView V f \<Longrightarrow> P v \<Longrightarrow> allPost V (step_apply (buildGlobalStep c)) v P"
  by (auto simp: allPost_def step_apply_def keepsView_def replica_build_def buildGlobalStep_def)

text \<open>A global step that changes the view.\<close>

lemma allPost_gstep:
  "gb_applyFn c = Some f \<Longrightarrow> allPost V (step_apply (buildGlobalStep c)) v P = allPost V (AdaptGlobalApply f) v P"
  by (simp add: allPost_def step_apply_def buildGlobalStep_def AdaptGlobalApply_def)

lemma post_ComposeGlobal [simp]:
  "P v \<Longrightarrow> allPost V (AdaptGlobalApply (ComposeGlobalApply [])) v P"
  "allPost V (AdaptGlobalApply f) v (\<lambda>v'. allPost V (AdaptGlobalApply (ComposeGlobalApply fs)) v' P) \<Longrightarrow>
     allPost V (AdaptGlobalApply (ComposeGlobalApply (f # fs))) v P"
  by (auto simp: allPost_def AdaptGlobalApply_def res_simps)

text \<open>All steps of a list, one after the other, from a view: every step is allowed, the last view is as
  wanted.\<close>

fun safeRun :: "(rctx \<Rightarrow> globalContext \<Rightarrow> 'v) \<Rightarrow> ('v \<Rightarrow> 'v \<Rightarrow> bool) \<Rightarrow> ('v \<Rightarrow> bool) \<Rightarrow> (globalContext, rctx) step list
    \<Rightarrow> 'v \<Rightarrow> bool" where
  "safeRun V ok fin [] v \<longleftrightarrow> fin v"
| "safeRun V ok fin (s # ss) v \<longleftrightarrow> allPost V (step_apply s) v (\<lambda>v'. ok v v' \<and> safeRun V ok fin ss v')"

lemma planRun_safe:
  assumes "planRun V p r g0 k g" and "safeRun V ok fin (steps p) (V r g0)"
  shows "k \<le> length (steps p) \<and> safeRun V ok fin (drop k (steps p)) (V r g)
    \<and> (k = 0 \<longrightarrow> V r g = V r g0) \<and> (0 < k \<longrightarrow> (\<exists>v. ok v (V r g)))"
  using assms(1)
proof (induction rule: planRun.induct)
  case start
  then show ?case using assms(2) by simp
next
  case (interfere k g g')
  then show ?case by simp
next
  case (apply_step k g ts c g')
  then have "drop k (steps p) = steps p ! k # drop (Suc k) (steps p)" by (simp add: Cons_nth_drop_Suc)
  then have "allPost V (step_apply (steps p ! k)) (V r g)
      (\<lambda>v. ok (V r g) v \<and> safeRun V ok fin (drop (Suc k) (steps p)) v)"
    using apply_step.IH by simp
  then have "ok (V r g) (V r g') \<and> safeRun V ok fin (drop (Suc k) (steps p)) (V r g')"
    using apply_step.hyps unfolding allPost_def by blast
  then show ?case using apply_step.hyps(2) by auto
qed

text \<open>The next step of a run.\<close>

lemma planRun_next:
  assumes "planRun V p r g0 k g" and "safeRun V ok fin (steps p) (V r g0)" and "k < length (steps p)"
    and "step_apply (steps p ! k) ts g (Some r) = Some (c, g')"
  shows "ok (V r g) (V r g')"
proof -
  have "safeRun V ok fin (drop k (steps p)) (V r g)" using planRun_safe [OF assms(1,2)] by simp
  moreover have "drop k (steps p) = steps p ! k # drop (Suc k) (steps p)"
    using assms(3) by (simp add: Cons_nth_drop_Suc)
  ultimately have "allPost V (step_apply (steps p ! k)) (V r g)
      (\<lambda>v. ok (V r g) v \<and> safeRun V ok fin (drop (Suc k) (steps p)) v)" by simp
  then show ?thesis using assms(4) unfolding allPost_def by blast
qed

subsection \<open>What a plan's transition says about its replica\<close>

text \<open>The transition of a plan when nothing but its own type is known.\<close>

definition created :: "(globalContext, rctx) plan \<Rightarrow> Transition \<Rightarrow> bool" where
  "created p t \<longleftrightarrow> (\<exists>ts g rctx. callInit p ts g rctx (emptyTransition \<lparr> t_Type := pl_transitionType p \<rparr>) = Some t)"

lemma created_replica:
  "pl_scope p = ReplicaScope \<Longrightarrow> replicaInit p = Some (setReplicaType T) \<Longrightarrow>
     created p t \<longleftrightarrow> t = emptyTransition \<lparr> t_Type := pl_transitionType p, t_ReplicaType := T \<rparr>"
  "pl_scope p = ReplicaScope \<Longrightarrow> replicaInit p = Some (setReplicaFromToType A B) \<Longrightarrow>
     created p t \<longleftrightarrow> t = emptyTransition \<lparr> t_Type := pl_transitionType p, t_FromReplicaType := A, t_ToReplicaType := B \<rparr>"
  by (auto simp: created_def callInit_def setReplicaType_def setReplicaFromToType_def)

subsection \<open>Contexts\<close>

lemma rcAt_member_bound: "rx_member (rcAt g r) = Some m \<Longrightarrow> r < length (allReplicas g)"
  by (auto simp: rcAt_def newReplicaContext_def split: if_splits)

lemma rcAt_rvr_bound: "rx_rvr (rcAt g r) = Some x \<Longrightarrow> r < length (allReplicas g)"
  by (auto simp: rcAt_def newReplicaContext_def split: if_splits)

lemma rcAt_updRC: "r < length (allReplicas g) \<Longrightarrow> rcAt (updRC r f g) r = f (rcAt g r)"
  by (simp add: rcAt_def updRC_def)

lemma rcAt_updDM [simp]: "rcAt (updDM f g) r = rcAt g r"
  by (simp add: rcAt_def updDM_def)

lemma memberIs_new [simp]: "\<not> memberIs P (newReplicaContext i)"
  by (simp add: memberIs_def newReplicaContext_def)

lemma setBackingVolume_type [simp]: "m_Type (snd (setBackingVolume a b m)) = m_Type m"
  by (simp add: setBackingVolume_def SetChanged_def Let_def)

definition planOf :: "dplan \<Rightarrow> (globalContext, rctx) plan" where
  "planOf p = the (built p)"

end
