(* ===== verification/Datamesh_Quorum.thy ===== *)
theory Datamesh_Quorum
  imports Datamesh_Exclusion Datamesh_Run
begin

text \<open>
  Quorum safety of the membership plans. A volume whose quorum is a strict majority of its voters cannot
  have two disjoint quorums. Every plan that changes the voters is run step by step, with arbitrary
  changes by others in between that leave the voters and the quorum alone: after every step the quorum is
  still a strict majority, and at the end it is exactly the majority again.
\<close>

subsection \<open>Majorities\<close>

definition voters :: "globalContext \<Rightarrow> nat" where
  "voters g = countp (memberIs IsVoter) (allReplicas g)"

abbreviation q_of :: "globalContext \<Rightarrow> nat" where
  "q_of g \<equiv> unat (quorum (datamesh g))"

definition majority :: "globalContext \<Rightarrow> bool" where
  "majority g \<longleftrightarrow> voters g < 2 * q_of g"

definition exactQuorum :: "globalContext \<Rightarrow> bool" where
  "exactQuorum g \<longleftrightarrow> q_of g = voters g div 2 + 1"

lemma exact_majority: "exactQuorum g \<Longrightarrow> majority g"
  by (simp add: exactQuorum_def majority_def)

text \<open>A strict majority is what makes any two quorums meet.\<close>

lemma quorums_meet:
  assumes "finite V" and "card V < 2 * q" and "A \<subseteq> V" "B \<subseteq> V" and "q \<le> card A" "q \<le> card B"
  shows "A \<inter> B \<noteq> {}"
proof
  assume "A \<inter> B = {}"
  then have "card (A \<union> B) = card A + card B" using assms(1,3,4) by (intro card_Un_disjoint) (auto intro: finite_subset)
  moreover have "card (A \<union> B) \<le> card V" using assms(1,3,4) by (intro card_mono) auto
  ultimately show False using assms(2,5,6) by linarith
qed

definition voterSet :: "globalContext \<Rightarrow> rctx set" where
  "voterSet g = {i. i < length (allReplicas g) \<and> memberIs IsVoter (allReplicas g ! i)}"

definition quorumsMeet :: "globalContext \<Rightarrow> bool" where
  "quorumsMeet g \<longleftrightarrow> (\<forall>A B. A \<subseteq> voterSet g \<longrightarrow> B \<subseteq> voterSet g \<longrightarrow> q_of g \<le> card A \<longrightarrow> q_of g \<le> card B \<longrightarrow>
     A \<inter> B \<noteq> {})"

lemma card_voterSet: "card (voterSet g) = voters g"
  by (simp add: voterSet_def voters_def length_filter_conv_card)

lemma finite_voterSet: "finite (voterSet g)"
  by (simp add: voterSet_def)

lemma majority_meet: "majority g \<Longrightarrow> quorumsMeet g"
  unfolding quorumsMeet_def
  by (intro allI impI quorums_meet [OF finite_voterSet]) (auto simp: majority_def card_voterSet)

text \<open>What a plan of one replica can see of this: the voters among the others, whether the replica is a
  voter, the quorum.\<close>

type_synonym qview = "nat \<times> bool \<times> nat"

definition qview :: "rctx \<Rightarrow> globalContext \<Rightarrow> qview" where
  "qview r g = (countp (memberIs IsVoter) ((allReplicas g)[r := newReplicaContext 0]),
     memberIs IsVoter (rcAt g r), q_of g)"

lemma voters_qview: "voters g = fst (qview r g) + of_bool (fst (snd (qview r g)))"
proof (cases "r < length (allReplicas g)")
  case True
  then show ?thesis
    using countp_list_update [OF True, of "memberIs IsVoter" "newReplicaContext 0"]
    by (simp add: voters_def qview_def rcAt_def split: if_splits)
qed (simp add: voters_def qview_def rcAt_def list_update_beyond)

fun isMajority :: "qview \<Rightarrow> bool" where
  "isMajority (n, b, q) \<longleftrightarrow> n + of_bool b < 2 * q"

fun isExact :: "qview \<Rightarrow> bool" where
  "isExact (n, b, q) \<longleftrightarrow> q = (n + of_bool b) div 2 + 1"

lemma qview_majority: "majority g \<longleftrightarrow> isMajority (qview r g)" "exactQuorum g \<longleftrightarrow> isExact (qview r g)"
  using voters_qview [of g r] by (cases "qview r g"; simp add: majority_def exactQuorum_def qview_def)+

subsection \<open>What the apply callbacks do to it\<close>

lemma qview_updRC:
  "r < length (allReplicas g) \<Longrightarrow> qview r (updRC r f g) = (fst (qview r g), memberIs IsVoter (f (rcAt g r)), q_of g)"
  by (simp add: qview_def updRC_def rcAt_def)

lemma qview_fst: "qview r g = (n, b, q) \<Longrightarrow> q_of g = q \<and> memberIs IsVoter (rcAt g r) = b"
  by (simp add: qview_def)

lemma onMember_post:
  assumes "\<And>m. IsVoter (m_Type (snd (f m))) = h (IsVoter (m_Type m))"
    and "onMember f g (Some r) = Some (c, g')"
  shows "qview r g' = (fst (qview r g), h (fst (snd (qview r g))), q_of g)"
proof -
  obtain m where m: "rx_member (rcAt g r) = Some m"
    and g': "g' = updRC r (\<lambda>rc. rc \<lparr> rx_member := Some (snd (f m)) \<rparr>) g"
    using onMember_SomeD [OF assms(2)] by auto
  then show ?thesis
    using assms(1) [of m] by (simp add: qview_updRC [OF rcAt_member_bound [OF m]] memberIs_def) (simp add: qview_def memberIs_def m)
qed

lemma post_setType [simp]: "P (n, IsVoter T, q) \<Longrightarrow> allPost qview (setType T) (n, b, q) P"
  unfolding allPost_def setType_def
proof (intro allI impI)
  fix ts g r c g'
  let ?f = "SetChanged m_Type (\<lambda>v m. m \<lparr> m_Type := v \<rparr>) T"
  assume "P (n, IsVoter T, q)" and v: "qview r g = (n, b, q)" and "onMember ?f g (Some r) = Some (c, g')"
  then show "P (qview r g')"
    using onMember_post [where f = ?f and h = "\<lambda>_. IsVoter T"] qview_fst [OF v] by (simp add: SetChanged_def)
qed

lemma post_backing [simp]:
  "P (n, b, q) \<Longrightarrow> allPost qview setBackingVolumeFromRequest (n, b, q) P"
  "P (n, b, q) \<Longrightarrow> allPost qview clearBackingVolume (n, b, q) P"
  unfolding allPost_def setBackingVolumeFromRequest_def clearBackingVolume_def
  by (auto simp: res_simps setBackingVolume_type dest!: onMember_post [where h = "\<lambda>b. b", rotated] dest: qview_fst)

lemma post_createMember [simp]: "P (n, IsVoter T, q) \<Longrightarrow> allPost qview (createMember T) (n, b, q) P"
  unfolding allPost_def createMember_def
  by (auto simp: res_simps Let_def qview_updRC [OF rcAt_rvr_bound] memberIs_def dest: qview_fst)

lemma post_removeMember [simp]: "P (n, False, q) \<Longrightarrow> allPost qview removeMember (n, b, q) P"
  unfolding allPost_def
proof (intro allI impI)
  fix ts g r c g'
  assume p: "P (n, False, q)" and v: "qview r g = (n, b, q)" and r: "removeMember ts g (Some r) = Some (c, g')"
  let ?g = "updRC r (\<lambda>rc. rc \<lparr> rx_member := None, rx_memberPtr := None \<rparr>) g"
  have "qview r g' = qview r ?g"
    using r by (auto simp: removeMember_def res_simps Let_def qview_def rcAt_def split: if_splits)
  also have "\<dots> = (n, False, q)"
    using v by (cases "r < length (allReplicas g)")
      (simp_all add: qview_updRC memberIs_def qview_def updRC_def rcAt_def list_update_beyond newReplicaContext_def)
  finally show "P (qview r g')" using p by simp
qed

lemma qview_updDM [simp]:
  "qview r (updDM f g) = (fst (qview r g), fst (snd (qview r g)), unat (quorum (f (datamesh g))))"
  by (simp add: qview_def updDM_def rcAt_def)

lemma unat_incr: "unat (x::u8) < 200 \<Longrightarrow> unat (x + 1) = unat x + 1"
  by (simp add: unat_word_ariths)

lemma unat_decr: "0 < unat (x::u8) \<Longrightarrow> unat (x - 1) = unat x - 1"
  by (metis One_nat_def unat_gt_0 unat_minus_one)

lemma post_raiseQ [simp]:
  assumes "q < 200" and "P (n, b, q + 1)"
  shows "allPost qview (AdaptGlobalApply raiseQ) (n, b, q) P"
  unfolding allPost_def AdaptGlobalApply_def raiseQ_def
proof (intro allI impI)
  fix ts :: tstore and g r c g'
  assume v: "qview r g = (n, b, q)" and "Some (True, updDM (\<lambda>d. d \<lparr> quorum := quorum d + 1 \<rparr>) g) = Some (c, g')"
  then show "P (qview r g')" using assms qview_fst [OF v] by (auto simp: unat_incr)
qed

lemma post_lowerQ [simp]:
  assumes "0 < q" and "P (n, b, q - 1)"
  shows "allPost qview (AdaptGlobalApply lowerQ) (n, b, q) P"
  unfolding allPost_def AdaptGlobalApply_def lowerQ_def
proof (intro allI impI)
  fix ts :: tstore and g r c g'
  assume v: "qview r g = (n, b, q)" and "Some (True, updDM (\<lambda>d. d \<lparr> quorum := quorum d - 1 \<rparr>) g) = Some (c, g')"
  then show "P (qview r g')" using assms qview_fst [OF v] by (auto simp: unat_decr)
qed

lemma keepsView_qmr [simp]: "keepsView qview raiseQMR" "keepsView qview lowerQMR" "keepsView qview updateBaselineGMDR"
  by (auto simp: keepsView_def raiseQMR_def lowerQMR_def updateBaselineGMDR_def SetChanged_def qview_def updDM_def
      rcAt_def Let_def)

subsection \<open>Runs of the plans\<close>

abbreviation safe :: "(globalContext, rctx) step list \<Rightarrow> qview \<Rightarrow> bool" where
  "safe \<equiv> safeRun qview (\<lambda>_. isMajority) isExact"

text \<open>The transition a plan creates tells the type of the replica it starts from.\<close>

definition fromVoter :: "Transition \<Rightarrow> bool" where
  "fromVoter t \<longleftrightarrow> (case t_Type t of
       TT_RemoveReplica \<Rightarrow> t_ReplicaType t = RT_Diskful
     | TT_ForceRemoveReplica \<Rightarrow> t_ReplicaType t = RT_Diskful
     | TT_ChangeReplicaType \<Rightarrow> t_FromReplicaType t = RT_Diskful
     | _ \<Rightarrow> False)"

text \<open>The plans that change the set of voters.\<close>

definition changesVoters :: "(globalContext, rctx) plan \<Rightarrow> bool" where
  "changesVoters p \<longleftrightarrow> pl_group p = G_VotingMembership
     \<or> (pl_transitionType p = TT_ForceRemoveReplica \<and> (\<exists>t. created p t \<and> fromVoter t))"

text \<open>The views a plan can start from: \<open>2 m\<close> or \<open>2 m + 1\<close> voters and the exact majority.\<close>

definition startView :: "bool \<Rightarrow> bool \<Rightarrow> nat \<Rightarrow> qview" where
  "startView isOdd b m = (if isOdd then (if b then 2 * m else 2 * m + 1, b, m + 1)
     else if b then (2 * m + 1, b, m + 2) else (2 * m, b, m + 1))"

lemma startView_exists:
  assumes "isExact v" and "isOdd = odd (fst v + of_bool (fst (snd v)))"
  shows "\<exists>m. v = startView isOdd (fst (snd v)) m \<and> m \<le> fst v + 1"
proof (cases v)
  case (fields n b q)
  show ?thesis
  proof (cases "odd (n + of_bool b)")
    case True
    then obtain m where m: "n + of_bool b = 2 * m + 1" by (rule oddE)
    then show ?thesis
      using assms fields True by (intro exI [of _ m]) (cases b; simp add: startView_def)
  next
    case False
    then have "even (n + of_bool b)" by simp
    then obtain k where k: "n + of_bool b = 2 * k" by (rule evenE)
    show ?thesis
    proof (cases b)
      case True
      then obtain m where "k = Suc m" using k by (cases k) auto
      then show ?thesis
        using assms fields k True False by (intro exI [of _ m]) (simp add: startView_def)
    next
      case False
      then show ?thesis using assms fields k by (intro exI [of _ k]) (simp add: startView_def)
    qed
  qed
qed

definition planSafe :: "(globalContext, rctx) plan \<Rightarrow> bool \<Rightarrow> bool" where
  "planSafe p isOdd \<longleftrightarrow> (\<forall>t m. created p t \<longrightarrow> m < 100 \<longrightarrow> safe (steps p) (startView isOdd (fromVoter t) m))"

lemma catalogue_quorum:
  "\<forall>p \<in> set (allPlans qs). \<forall>pl. built p = Some pl \<longrightarrow> changesVoters pl \<longrightarrow>
     (guardVotersOdd \<in> set (replicaGuards pl) \<and> planSafe pl True)
   \<or> (guardVotersEven \<in> set (replicaGuards pl) \<and> planSafe pl False)"
  by (simp add: catalogue_defs built_eqs changesVoters_def planSafe_def created_replica fromVoter_def startView_def
      emptyTransition_def allPost_step guard_group_defs)

subsection \<open>Guards of the membership plans\<close>

text \<open>They read the contexts and leave them alone, so a pass means that each of them passes there.\<close>

definition readsOnly :: "rguard \<Rightarrow> bool" where
  "readsOnly f \<longleftrightarrow> (\<forall>ts g r res g'. f ts g r = Some (res, g') \<longrightarrow> g' = g)"

lemma readsOnly_pure [simp]: "readsOnly (pureGuard f)" "readsOnly (pureContextGuard h)"
  "readsOnly guardGMDRPreserved" "readsOnly guardTBSufficient" "readsOnly guardNodeHasAllSystemNetworks"
  by (auto simp: readsOnly_def pureGuard_def pureContextGuard_def guardGMDRPreserved_def guardTBSufficient_def
      guardNodeHasAllSystemNetworks_def res_simps Let_def split: option.splits if_splits)

lemma readsOnly_named:
  "readsOnly guardRVNotDeleting" "readsOnly guardRSPAvailable" "readsOnly guardNodeEligible"
  "readsOnly guardNoMemberOnSameNode" "readsOnly guardAddressesPopulated" "readsOnly guardNotAttached"
  "readsOnly guardVolumeAccessLocalForDemotion" "readsOnly guardFTTPreserved" "readsOnly guardZoneGMDRPreserved"
  "readsOnly guardZoneFTTPreserved" "readsOnly guardZoneFTTPreservedForRetypeToTieBreaker"
  "readsOnly guardZoneTBSufficient" "readsOnly guardZonalSameZone" "readsOnly guardTransZonalVoterPlacement"
  "readsOnly guardTransZonalTBPlacement" "readsOnly guardMemberUnreachable" "readsOnly guardVotersEven"
  "readsOnly guardVotersOdd" "readsOnly guardQMRRaiseNeeded" "readsOnly guardQMRLowerNeeded"
  "readsOnly guardShadowDiskfulSupported" "readsOnly guardMaxDiskMembers" "readsOnly guardVolumeAccessNotLocal"
  by (simp_all only: pure_guard_defs readsOnly_pure)

lemma catalogue_guards_read:
  "\<forall>p \<in> set (allPlans qs). \<forall>pl. built p = Some pl \<longrightarrow> changesVoters pl \<longrightarrow>
     pl_scope pl = ReplicaScope \<and> list_all readsOnly (replicaGuards pl)"
  by (simp add: catalogue_defs built_eqs changesVoters_def created_replica fromVoter_def emptyTransition_def
      guard_group_defs readsOnly_named)

lemma firstBlocking_pass:
  assumes "firstBlocking (map (\<lambda>f g. f ts g r) fs) g = Some (res, g')" and "\<not> Blocked res" and "list_all readsOnly fs"
  shows "g' = g \<and> (\<forall>f \<in> set fs. \<exists>res. f ts g r = Some (res, g) \<and> \<not> Blocked res)"
  using assms
proof (induction fs)
  case (Cons f fs)
  then obtain res1 g1 where f: "f ts g r = Some (res1, g1)"
    and rest: "(if Blocked res1 then Some (res1, g1) else firstBlocking (map (\<lambda>f g. f ts g r) fs) g1) = Some (res, g')"
    by (auto simp: res_simps)
  have "g1 = g" using f Cons.prems(3) by (auto simp: readsOnly_def)
  then show ?case using Cons f rest by (auto split: if_splits)
qed simp

lemma parity_guards:
  "guardVotersOdd ts g r = Some (res, g) \<Longrightarrow> \<not> Blocked res \<Longrightarrow> voters g < 256 \<Longrightarrow> odd (voters g)"
  "guardVotersEven ts g r = Some (res, g) \<Longrightarrow> \<not> Blocked res \<Longrightarrow> voters g < 256 \<Longrightarrow> even (voters g)"
proof -
  have mod2: "voterCount g mod 2 = 0 \<longleftrightarrow> even (voters g)" if "voters g < 256"
  proof -
    have "unat (voterCount g) = voters g"
      using that by (simp add: voterCount_def countWhere_def voters_def unat_of_nat)
    then have "unat (voterCount g mod 2) = voters g mod 2" by (simp add: unat_mod)
    then show ?thesis by (metis even_iff_mod_2_eq_zero unat_0 unat_eq_zero)
  qed
  show "guardVotersOdd ts g r = Some (res, g) \<Longrightarrow> \<not> Blocked res \<Longrightarrow> voters g < 256 \<Longrightarrow> odd (voters g)"
    using mod2 by (auto simp: guardVotersOdd_def pureContextGuard_def Let_def guardBlock_def split: if_splits)
  show "guardVotersEven ts g r = Some (res, g) \<Longrightarrow> \<not> Blocked res \<Longrightarrow> voters g < 256 \<Longrightarrow> even (voters g)"
    using mod2 by (auto simp: guardVotersEven_def pureContextGuard_def Let_def guardBlock_def split: if_splits)
qed

lemma changesVoters_safe:
  assumes p: "p \<in> set (allPlans qs)" "built p = Some pl" and cv: "changesVoters pl"
    and gd: "evaluateGuards pl ts g (Some r) = Some (res, g0)" "\<not> Blocked res"
    and t: "created pl t" "memberIs IsVoter (rcAt g r) = fromVoter t"
    and ex: "exactQuorum g" "voters g \<le> 32"
  shows "g0 = g \<and> isMajority (qview r g) \<and> safe (steps pl) (qview r g)"
proof -
  have sc: "pl_scope pl = ReplicaScope" "list_all readsOnly (replicaGuards pl)"
    using catalogue_guards_read [of qs] p cv by auto
  then have "firstBlocking (map (\<lambda>f g. f ts g (Some r)) (replicaGuards pl)) g = Some (res, g0)"
    using gd(1) by (simp add: evaluateGuards_def)
  from firstBlocking_pass [OF this gd(2) sc(2)]
  have g0: "g0 = g" and pass: "\<forall>f \<in> set (replicaGuards pl). \<exists>res. f ts g (Some r) = Some (res, g) \<and> \<not> Blocked res"
    by simp_all
  have v: "voters g = fst (qview r g) + of_bool (fst (snd (qview r g)))" by (rule voters_qview)
  have b: "fst (snd (qview r g)) = fromVoter t" using t(2) by (simp add: qview_def)
  have exact: "isExact (qview r g)" using ex(1) qview_majority by blast
  have "safe (steps pl) (qview r g)" if ps: "planSafe pl isOdd" and od: "isOdd = odd (voters g)" for isOdd
  proof -
    obtain m where m: "qview r g = startView isOdd (fst (snd (qview r g))) m" "m \<le> fst (qview r g) + 1"
      using startView_exists [OF exact, of isOdd] od v by auto
    have "m < 100" using m(2) v ex(2) by linarith
    then show ?thesis using ps t(1) m(1) b by (simp add: planSafe_def)
  qed
  moreover have "(guardVotersOdd \<in> set (replicaGuards pl) \<and> planSafe pl True)
     \<or> (guardVotersEven \<in> set (replicaGuards pl) \<and> planSafe pl False)"
    using catalogue_quorum [of qs] p cv by blast
  moreover have "voters g < 256" using ex(2) by simp
  ultimately have "safe (steps pl) (qview r g)"
    using pass parity_guards [of ts g "Some r"] by blast
  then show ?thesis using g0 exact_majority [OF ex(1)] qview_majority by blast
qed

text \<open>C2: no split brain by a membership change. Take any plan of the registry that changes the set of
  voters (all plans of the voting membership group and the force removals of a diskful replica), admitted by
  its guards on a volume with at most 32 voters whose quorum is the exact majority, for a replica that is a voter just
  when the transition says so. Then after any number of its steps, whatever the others do in between
  to anything but the voters and the quorum, any two quorums have a voter in common, and when all steps are
  applied the quorum is exactly the majority of the new voters.\<close>

theorem membership_plans_keep_quorum:
  assumes "BuildRegistry qs None = Some reg" and "reg_get reg tt pid = Some pl" and "changesVoters pl"
    and "evaluateGuards pl ts g (Some r) = Some (res, g0)" and "\<not> Blocked res"
    and "created pl t" and "memberIs IsVoter (rcAt g r) = fromVoter t"
    and "exactQuorum g" and "voters g \<le> 32" and "planRun qview pl r g0 k g'"
  shows "k \<le> length (steps pl) \<and> quorumsMeet g' \<and> (k = length (steps pl) \<longrightarrow> exactQuorum g')"
proof -
  obtain p where p: "p \<in> set (allPlans qs)" "built p = Some pl"
    using assms(1,2) by (auto simp: BuildRegistry_eq reg_get_iff)
  have s: "g0 = g" "isMajority (qview r g)" "safe (steps pl) (qview r g)"
    using changesVoters_safe [OF p assms(3-9)] by simp_all
  have run: "k \<le> length (steps pl) \<and> safe (drop k (steps pl)) (qview r g') \<and> isMajority (qview r g')"
    using planRun_safe [OF assms(10), of "\<lambda>_. isMajority" isExact] s by (cases "k = 0") auto
  then show ?thesis using qview_majority [of g' r] majority_meet by auto
qed

text \<open>Three diskful members without replicas, and the force removal of the last one.\<close>

definition exThree :: globalContext where
  "exThree = exContext 2 1 (map (\<lambda>i. exRC i (Some (exMember i MT_Diskful)) None) [0, 1, 2])"

lemma exThree_run:
  "case evaluateGuards (planOf plan_force_remove_diskful) (\<lambda>_. emptyTransition) exThree (Some 2) of
     None \<Rightarrow> False | Some (res, g) \<Rightarrow> \<not> Blocked res
       \<and> \<not> Option.is_none (step_apply (steps (planOf plan_force_remove_diskful) ! 0) (\<lambda>_. emptyTransition) g (Some 2))"
  "exactQuorum exThree \<and> voters exThree \<le> 32" "memberIs IsVoter (rcAt exThree 2)"
  by code_simp+

theorem membership_plans_keep_quorum_witness:
  "\<exists>g'. planRun qview (planOf plan_force_remove_diskful) 2 exThree 1 g' \<and> quorumsMeet g' \<and> exactQuorum g'"
proof -
  let ?p = "planOf plan_force_remove_diskful" and ?ts = "\<lambda>_. emptyTransition" and ?qs = "\<lambda>_. []"
  have b: "plan_force_remove_diskful \<in> set (allPlans ?qs)" "built plan_force_remove_diskful = Some ?p"
    by (simp_all add: catalogue_defs planOf_def built_eqs)
  have reg: "reg_get (datameshRegistry ?qs) TT_ForceRemoveReplica ''diskful/v1'' = Some ?p"
    using b by (auto simp: reg_get_iff key_eqs intro!: bexI [of _ plan_force_remove_diskful])
  let ?t = "emptyTransition \<lparr> t_Type := TT_ForceRemoveReplica, t_ReplicaType := RT_Diskful \<rparr>"
  have t: "created ?p ?t" "fromVoter ?t"
    by (simp_all add: planOf_def built_eqs created_replica fromVoter_def)
  have cv: "changesVoters ?p"
    using t by (auto simp: changesVoters_def planOf_def built_eqs)
  obtain res g0 c g' where gd: "evaluateGuards ?p ?ts exThree (Some 2) = Some (res, g0)" "\<not> Blocked res"
    and ap: "step_apply (steps ?p ! 0) ?ts g0 (Some 2) = Some (c, g')"
    using exThree_run(1) by (auto split: option.splits prod.splits simp: Option.is_none_def)
  have len: "length (steps ?p) = 1" by (simp add: planOf_def built_eqs)
  have g0: "g0 = exThree"
    using changesVoters_safe [OF b cv gd t(1)] exThree_run(2,3) t(2) by simp
  have run: "planRun qview ?p 2 g0 1 g'"
    using planRun.apply_step [OF planRun.start _ ap] len by simp
  show ?thesis
    using membership_plans_keep_quorum [OF BuildRegistry_eq reg cv gd t(1) _ _ _ run] exThree_run(2,3) t(2) len run g0
    by auto
qed

subsection \<open>A force removal beside a voting change\<close>

text \<open>Four diskful members with quorum 3; the removal of the last one is at its first step, so it is
  registered as a voting transition and its member is already liminal.\<close>

definition exFour :: globalContext where
  "exFour = (exContext 3 1 (map (\<lambda>i. exRC i (Some (exMember i (if i = 3 then MT_LiminalDiskful else MT_Diskful))) None)
     [0, 1, 2, 3])) \<lparr> votingMembershipTransitions := IDSet_Of [3] \<rparr>"

definition exForce :: Transition where
  "exForce = emptyTransition \<lparr> t_Type := TT_ForceRemoveReplica, t_Group := G_Emergency, t_ReplicaName := exName 2,
     t_ReplicaType := RT_Diskful \<rparr>"

text \<open>The two admitted transitions, one after the other: the force removal of replica 2, then the next
  step of the removal of replica 3.\<close>

definition exSplit :: "globalContext option" where
  "exSplit = do {
     (admitted, _, _) \<leftarrow> CanAdmit exForce exFour;
     (res, g) \<leftarrow> evaluateGuards (planOf plan_force_remove_diskful_q_down) (\<lambda>_. emptyTransition) exFour (Some 2);
     panicUnless (admitted \<and> \<not> Blocked res);
     (_, g) \<leftarrow> step_apply (steps (planOf plan_force_remove_diskful_q_down) ! 0) (\<lambda>_. emptyTransition) g (Some 2);
     (_, g) \<leftarrow> step_apply (steps (planOf plan_remove_diskful_q_down) ! 1) (\<lambda>_. emptyTransition) g (Some 3);
     Some g }"

lemma exSplit_eval:
  "case exSplit of None \<Rightarrow> False | Some g \<Rightarrow> voters g = 2 \<and> quorum (datamesh g) = 1
     \<and> memberIs IsVoter (allReplicas g ! 0) \<and> memberIs IsVoter (allReplicas g ! 1) \<and> length (allReplicas g) = 4"
  by code_simp


end
