(* ===== verification/Datamesh_Redundancy.thy ===== *)
theory Datamesh_Redundancy
  imports Datamesh_Quorum
begin

text \<open>
  What the guards for leaving voters promise. Counts are bytes in the source; here they are compared with
  the numbers of contexts they count. A removal or demotion that the guards admit leaves enough up-to-date
  disks and enough voters, in a TransZonal volume even after the loss of any zone.
\<close>

subsection \<open>Zone counts\<close>

lemma map_of_bumpZone:
  "map_of (bumpZone z zcs) = (map_of zcs)(z \<mapsto> (case map_of zcs z of None \<Rightarrow> 1 | Some c \<Rightarrow> c + 1))"
  by (induction zcs) auto

lemma fst_bumpZone: "set (map fst (bumpZone z zcs)) = insert z (set (map fst zcs))"
  by (induction zcs) auto

lemma distinct_bumpZone: "distinct (map fst zcs) \<Longrightarrow> distinct (map fst (bumpZone z zcs))"
proof (induction zcs)
  case (Cons zc zcs)
  then show ?case using fst_bumpZone [of z zcs] by auto
qed simp

definition zoneCount :: "(ReplicaContext \<Rightarrow> bool) \<Rightarrow> string \<Rightarrow> ReplicaContext list \<Rightarrow> nat" where
  "zoneCount incl z rcs = countp (\<lambda>rc. incl rc \<and> zoneOfMember rc = z) rcs"

definition zoneTable :: "(ReplicaContext \<Rightarrow> bool) \<Rightarrow> ReplicaContext list \<Rightarrow> zoneCount list" where
  "zoneTable incl rcs = fold (\<lambda>rc zcs. if incl rc then bumpZone (zoneOfMember rc) zcs else zcs) rcs []"

lemma zoneTable_simps [simp]:
  "zoneTable incl [] = []"
  "zoneTable incl (rcs @ [rc]) = (if incl rc then bumpZone (zoneOfMember rc) (zoneTable incl rcs) else zoneTable incl rcs)"
  by (simp_all add: zoneTable_def)

lemma distinct_zoneTable: "distinct (map fst (zoneTable incl rcs))"
  by (induction rcs rule: rev_induct) (auto intro: distinct_bumpZone)

lemma map_of_zoneTable:
  "map_of (zoneTable incl rcs) z = (if zoneCount incl z rcs = 0 then None else Some (of_nat (zoneCount incl z rcs)))"
proof (induction rcs rule: rev_induct)
  case (snoc rc rcs)
  have c: "zoneCount incl z (rcs @ [rc]) = (if incl rc \<and> zoneOfMember rc = z then Suc (zoneCount incl z rcs)
      else zoneCount incl z rcs)"
    by (simp add: zoneCount_def)
  show ?case
    using snoc.IH unfolding c by (simp add: map_of_bumpZone del: map_of_eq_Some_iff)
qed (simp add: zoneCount_def)

lemma countPerZone_table: "countPerZone g incl = sort_key fst (zoneTable incl (allReplicas g))"
  by (simp add: countPerZone_def zoneTable_def)

lemma countPerZone_mem:
  "(z, c) \<in> set (countPerZone g incl) \<longleftrightarrow> 0 < zoneCount incl z (allReplicas g) \<and> c = of_nat (zoneCount incl z (allReplicas g))"
proof -
  have "(z, c) \<in> set (countPerZone g incl) \<longleftrightarrow> map_of (zoneTable incl (allReplicas g)) z = Some c"
    using distinct_zoneTable by (simp add: countPerZone_table)
  then show ?thesis using map_of_zoneTable [of incl "allReplicas g" z] by (auto simp del: map_of_eq_Some_iff)
qed

lemma findZoneCount_eq: "findZoneCount (countPerZone g incl) z = of_nat (zoneCount incl z (allReplicas g))"
proof (cases "find (\<lambda>zc. fst zc = z) (countPerZone g incl)")
  case None
  then have "zoneCount incl z (allReplicas g) = 0"
    using countPerZone_mem [of z "of_nat (zoneCount incl z (allReplicas g))" g incl] by (auto simp: find_None_iff)
  then show ?thesis using None by (simp add: findZoneCount_def)
next
  case (Some zc)
  then have "zc \<in> set (countPerZone g incl)" "fst zc = z" by (auto simp: find_Some_iff)
  then show ?thesis using Some countPerZone_mem [of z "snd zc" g incl] by (cases zc) (auto simp: findZoneCount_def)
qed

subsection \<open>Counting without the subject\<close>

text \<open>The contexts without the one at index \<open>r\<close>.\<close>

definition others :: "globalContext \<Rightarrow> rctx \<Rightarrow> ReplicaContext list" where
  "others g r = (allReplicas g)[r := newReplicaContext 0]"

definition countOthers :: "(ReplicaContext \<Rightarrow> bool) \<Rightarrow> globalContext \<Rightarrow> rctx \<Rightarrow> nat" where
  "countOthers P g r = countp P (others g r)"

definition countOutside :: "(ReplicaContext \<Rightarrow> bool) \<Rightarrow> globalContext \<Rightarrow> rctx \<Rightarrow> string \<Rightarrow> nat" where
  "countOutside P g r z = countp (\<lambda>rc. P rc \<and> zoneOfMember rc \<noteq> z) (others g r)"

lemma countp_split: "countp P xs = countp (\<lambda>x. P x \<and> Q x) xs + countp (\<lambda>x. P x \<and> \<not> Q x) xs"
  by (induction xs) auto

lemma countp_others:
  assumes "r < length (allReplicas g)" and "\<not> P (newReplicaContext 0)"
  shows "countp P (allReplicas g) = countOthers P g r + of_bool (P (rcAt g r))"
  using countp_list_update [OF assms(1), of P "newReplicaContext 0"] assms
  by (simp add: countOthers_def others_def rcAt_def split: if_splits)

lemma countp_le: "countp P (allReplicas g) \<le> length (allReplicas g)"
  by simp

lemma countOthers_outside: "countOthers P g r = countp (\<lambda>rc. P rc \<and> zoneOfMember rc = z) (others g r) + countOutside P g r z"
  unfolding countOthers_def countOutside_def by (rule countp_split)

lemma zoneCount_others:
  assumes "r < length (allReplicas g)" and "\<not> P (newReplicaContext 0)"
  shows "zoneCount P z (allReplicas g) = countp (\<lambda>rc. P rc \<and> zoneOfMember rc = z) (others g r)
     + of_bool (P (rcAt g r) \<and> zoneOfMember (rcAt g r) = z)"
  using countp_others [of r g "\<lambda>rc. P rc \<and> zoneOfMember rc = z"] assms by (simp add: zoneCount_def countOthers_def)

lemma isUTD_new [simp]: "\<not> isUpToDateDiskful (newReplicaContext i)"
  by (simp add: isUpToDateDiskful_def)

lemma memberZone_eq: "memberZone rc = zoneOfMember rc"
  by (simp add: memberZone_def zoneOfMember_def)

text \<open>The byte arithmetic of the guards is exact.\<close>

definition dec :: "bool \<Rightarrow> u8 \<Rightarrow> u8" where
  "dec b x = (if b \<and> x > 0 then x - 1 else x)"

lemma dec_byte:
  assumes "n + of_bool b < 256"
  shows "dec b (of_nat (n + of_bool b)) = of_nat n"
proof (cases b)
  case True
  then have "unat (of_nat (n + 1) :: u8) = n + 1" using assms by (simp add: unat_of_nat del: of_nat_add of_nat_Suc)
  then have "(of_nat (n + 1) :: u8) \<noteq> 0" by (metis add_is_0 one_neq_zero unat_0)
  then show ?thesis using True by (simp add: dec_def word_gt_0)
qed (simp add: dec_def)

lemma byte_diff: "a + b < 256 \<Longrightarrow> unat ((of_nat (a + b) :: u8) - of_nat a) = b"
  by (simp add: unat_of_nat)

lemma adrAfterRemoval_eq:
  assumes "r < length (allReplicas g)" and "length (allReplicas g) < 256"
  shows "unat (adrAfterRemoval g (rcAt g r)) = countOthers isUpToDateDiskful g r"
proof -
  let ?n = "countOthers isUpToDateDiskful g r" and ?b = "isUpToDateDiskful (rcAt g r)"
  have c: "countp isUpToDateDiskful (allReplicas g) = ?n + of_bool ?b" using countp_others [OF assms(1)] by simp
  then have lt: "?n + of_bool ?b < 256" using assms(2) countp_le [of isUpToDateDiskful g] by linarith
  have "adrAfterRemoval g (rcAt g r) = dec ?b (of_nat (countp isUpToDateDiskful (allReplicas g)))"
    by (simp add: adrAfterRemoval_def Let_def upToDateDiskfulCount_def countWhere_def dec_def)
  then show ?thesis using dec_byte [OF lt] lt unfolding c by (simp add: unat_of_nat)
qed

lemma survivingUTD_eq:
  assumes "r < length (allReplicas g)" and "length (allReplicas g) < 256"
    and "zc \<in> set (upToDateDiskfulCountPerZone g)"
  shows "unat (survivingUTD g (rcAt g r) zc) = countOutside isUpToDateDiskful g r (fst zc)"
proof -
  let ?P = isUpToDateDiskful and ?z = "fst zc" and ?b = "isUpToDateDiskful (rcAt g r)"
  let ?in = "countp (\<lambda>rc. ?P rc \<and> zoneOfMember rc = ?z) (others g r)" and ?out = "countOutside ?P g r ?z"
  let ?c = "?b \<and> zoneOfMember (rcAt g r) = ?z"
  have zc: "snd zc = of_nat (zoneCount ?P ?z (allReplicas g))"
    using assms(3) countPerZone_mem [of ?z "snd zc" g ?P] by (simp add: upToDateDiskfulCountPerZone_def)
  have t: "countp ?P (allReplicas g) = ?in + ?out + of_bool ?b"
    using countp_others [OF assms(1), of ?P] countOthers_outside [of ?P g r ?z] by simp
  have z: "zoneCount ?P ?z (allReplicas g) = ?in + of_bool ?c"
    by (rule zoneCount_others) (use assms in simp_all)
  have lt: "?in + ?out + of_bool ?b < 256" using t assms(2) countp_le [of ?P g] by linarith
  have lt': "?in + of_bool ?c < 256" using lt by (auto split: if_splits)
  have "survivingUTD g (rcAt g r) zc = dec ?b (of_nat (countp ?P (allReplicas g))) - dec ?c (snd zc)"
    by (auto simp: survivingUTD_def Let_def upToDateDiskfulCount_def countWhere_def dec_def memberZone_eq)
  also have "\<dots> = of_nat (?in + ?out) - of_nat ?in"
    unfolding zc t z by (simp only: dec_byte [OF lt] dec_byte [OF lt'])
  finally show ?thesis using byte_diff [of ?in ?out] lt by simp
qed

abbreviation isTB :: "ReplicaContext \<Rightarrow> bool" where
  "isTB \<equiv> memberIs (\<lambda>t. t = MT_TieBreaker)"

abbreviation isVoterRC :: "ReplicaContext \<Rightarrow> bool" where
  "isVoterRC \<equiv> memberIs IsVoter"

lemma voter_not_TB: "isVoterRC rc \<Longrightarrow> \<not> isTB rc"
  by (auto simp: memberIs_def split: option.splits)

lemma tbOutside_eq:
  assumes "r < length (allReplicas g)" and "length (allReplicas g) < 256" and "\<not> isTB (rcAt g r)"
  shows "tbCount g - findZoneCount (tbCountPerZone g) z = of_nat (countOutside isTB g r z)"
proof -
  have t: "countp isTB (allReplicas g) = zoneCount isTB z (allReplicas g) + countOutside isTB g r z"
    using countp_others [OF assms(1), of isTB] countOthers_outside [of isTB g r z]
      zoneCount_others [OF assms(1), of isTB z] assms(3) by simp
  show ?thesis
    by (simp add: tbCount_def countWhere_def tbCountPerZone_def findZoneCount_eq t)
qed

text \<open>Enough voters survive the loss of a zone, or one fewer together with a tie-breaker.\<close>

definition zoneLossOK :: "globalContext \<Rightarrow> rctx \<Rightarrow> bool \<Rightarrow> string \<Rightarrow> bool" where
  "zoneLossOK g r becomesTB z \<longleftrightarrow>
     (let n = countOthers isVoterRC g r; d = countOutside isVoterRC g r z; q = n div 2 + 1;
          tb = countOutside isTB g r z + of_bool (becomesTB \<and> z \<noteq> zoneOfMember (rcAt g r))
      in q \<le> d \<or> (d + 1 = q \<and> 0 < tb))"

lemma computeTargetQ_eq: "n < 256 \<Longrightarrow> unat (computeTargetQ (of_nat n)) = n div 2 + 1"
proof -
  assume n: "n < 256"
  then have d: "unat ((of_nat n :: u8) div 2) = n div 2" by (simp add: unat_div unat_of_nat)
  then have "unat ((of_nat n :: u8) div 2) < 200" using n by linarith
  then show ?thesis unfolding computeTargetQ_def using d unat_incr by simp
qed

lemma zoneQuorumOK_eq:
  assumes "unat q = qn" "0 < qn" "unat d = dn" "unat tb = tbn"
  shows "zoneQuorumOK d q tb \<longleftrightarrow> qn \<le> dn \<or> (dn + 1 = qn \<and> 0 < tbn)"
proof -
  have "unat (q - 1) = qn - 1" using unat_decr [of q] assms(1,2) by simp
  then have "d = q - 1 \<longleftrightarrow> dn + 1 = qn" using assms by (auto simp: word_unat_eq_iff)
  then show ?thesis using assms by (auto simp: zoneQuorumOK_def word_le_nat_alt word_less_nat_alt)
qed

lemma zoneSurvivors_OK:
  assumes r: "r < length (allReplicas g)" "length (allReplicas g) < 255" and v: "isVoterRC (rcAt g r)"
    and zc: "zc \<in> set (voterCountPerZone g)"
  shows "zoneQuorumOK (fst (zoneSurvivors g (rcAt g r) becomesTB zc)) (computeTargetQ (voterCount g - 1))
      (snd (zoneSurvivors g (rcAt g r) becomesTB zc)) \<longleftrightarrow> zoneLossOK g r becomesTB (fst zc)"
proof -
  let ?z = "fst zc" and ?n = "countOthers isVoterRC g r" and ?out = "countOutside isVoterRC g r (fst zc)"
  let ?in = "countp (\<lambda>rc. isVoterRC rc \<and> zoneOfMember rc = ?z) (others g r)"
  let ?c = "?z = zoneOfMember (rcAt g r)" and ?tb = "countOutside isTB g r ?z"
  have n: "?n = ?in + ?out" by (rule countOthers_outside)
  have vc: "voterCount g = of_nat (?n + of_bool True)"
    using countp_others [OF r(1), of isVoterRC] v by (simp add: voterCount_def countWhere_def)
  have lt: "?n + of_bool True < 256"
    using countp_others [OF r(1), of isVoterRC] v r(2) countp_le [of isVoterRC g] by simp
  have va: "voterCount g - 1 = of_nat ?n" unfolding vc by simp
  have "snd zc = of_nat (zoneCount isVoterRC ?z (allReplicas g))"
    using zc countPerZone_mem [of ?z "snd zc" g isVoterRC] by (simp add: voterCountPerZone_def)
  also have "zoneCount isVoterRC ?z (allReplicas g) = ?in + of_bool ?c"
    using zoneCount_others [OF r(1), of isVoterRC ?z] v by (simp add: eq_commute [of ?z])
  finally have c: "snd zc = of_nat (?in + of_bool ?c)" .
  have lt': "?in + of_bool ?c < 256" using lt n by (auto split: if_splits)
  have d: "unat (fst (zoneSurvivors g (rcAt g r) becomesTB zc)) = ?out"
  proof -
    have "fst (zoneSurvivors g (rcAt g r) becomesTB zc) = of_nat ?n - dec ?c (snd zc)"
      by (auto simp: zoneSurvivors_def Let_def va dec_def memberZone_eq)
    also have "\<dots> = of_nat (?in + ?out) - of_nat ?in" unfolding c n by (simp only: dec_byte [OF lt'])
    finally show ?thesis using byte_diff [of ?in ?out] lt n by simp
  qed
  have tbl: "?tb < 255"
    using r(2) unfolding countOutside_def others_def by (metis (no_types, lifting) length_filter_le length_list_update order_le_less_trans)
  have tb: "unat (snd (zoneSurvivors g (rcAt g r) becomesTB zc)) = ?tb + of_bool (becomesTB \<and> ?z \<noteq> zoneOfMember (rcAt g r))"
  proof -
    have "snd (zoneSurvivors g (rcAt g r) becomesTB zc)
        = of_nat (?tb + of_bool (becomesTB \<and> ?z \<noteq> zoneOfMember (rcAt g r)))"
      using tbOutside_eq [OF r(1) _ voter_not_TB [OF v], of ?z] r(2)
      by (auto simp: zoneSurvivors_def Let_def memberZone_eq)
    then show ?thesis using tbl by (simp add: unat_of_nat del: of_nat_add)
  qed
  have q: "unat (computeTargetQ (voterCount g - 1)) = ?n div 2 + 1"
    unfolding va using lt by (intro computeTargetQ_eq) simp
  show ?thesis
    unfolding zoneLossOK_def Let_def by (subst zoneQuorumOK_eq [OF q _ d tb]) auto
qed

subsection \<open>Leaving voters\<close>

lemma catalogue_leaving:
  "\<forall>p \<in> set (allPlans qs). \<forall>pl. built p = Some pl \<longrightarrow> pl_group pl = G_VotingMembership \<longrightarrow>
     (\<forall>t. created pl t \<longrightarrow> fromVoter t \<longrightarrow>
        {guardGMDRPreserved, guardFTTPreserved, guardZoneGMDRPreserved,
         evaluateZoneFTT (t_ToReplicaType t = RT_TieBreaker)} \<subseteq> set (replicaGuards pl))"
  by (simp add: catalogue_defs built_eqs created_replica fromVoter_def emptyTransition_def guard_group_defs
      guardZoneFTTPreserved_def guardZoneFTTPreservedForRetypeToTieBreaker_def)

lemma zoneLossOK_empty:
  assumes "countOutside isVoterRC g r z = countOthers isVoterRC g r" and "0 < countOthers isVoterRC g r"
  shows "zoneLossOK g r b z"
  using assms by (auto simp: zoneLossOK_def Let_def)

lemma countOutside_unless_zone:
  assumes r: "r < length (allReplicas g)" and "\<not> P (newReplicaContext 0)" and "zoneCount P z (allReplicas g) = 0"
  shows "countOutside P g r z = countOthers P g r"
  using zoneCount_others [OF r, of P z] countOthers_outside [of P g r z] assms by simp

text \<open>C6: a voter that leaves by a plan of the voting membership group (a removal or a change to another
  type) leaves the volume with its promises kept. If the guards of the plan pass and fewer than 255 contexts exist, then
  without this replica more than GMDR up-to-date diskful voters and at least FTT + GMDR + 1 voters
  remain; in a TransZonal volume both survive the loss of any single zone: more than GMDR up-to-date diskful
  voters are left outside it, and the voters outside it reach the new quorum, if need be with the help of a
  tie-breaker.\<close>

theorem leaving_voter_keeps_promises:
  assumes "BuildRegistry qs None = Some reg" and "reg_get reg tt pid = Some pl" and "pl_group pl = G_VotingMembership"
    and "created pl t" and "fromVoter t"
    and "evaluateGuards pl ts g (Some r) = Some (res, g0)" and "\<not> Blocked res"
    and "memberIs IsVoter (rcAt g r)" and "length (allReplicas g) < 255"
  shows "unat (GuaranteedMinimumDataRedundancy (configuration g)) < countOthers isUpToDateDiskful g r
    \<and> unat (FailuresToTolerate (configuration g)) + unat (GuaranteedMinimumDataRedundancy (configuration g)) + 1
        \<le> countOthers isVoterRC g r
    \<and> (cfg_Topology (configuration g) = TopologyTransZonal \<longrightarrow>
        (\<forall>z. unat (GuaranteedMinimumDataRedundancy (configuration g)) < countOutside isUpToDateDiskful g r z
          \<and> zoneLossOK g r (t_ToReplicaType t = RT_TieBreaker) z))"
proof -
  let ?gmdr = "GuaranteedMinimumDataRedundancy (configuration g)"
  obtain p where p: "p \<in> set (allPlans qs)" "built p = Some pl"
    using assms(1,2) by (auto simp: BuildRegistry_eq reg_get_iff)
  have cv: "changesVoters pl" using assms(3) by (simp add: changesVoters_def)
  have sc: "pl_scope pl = ReplicaScope" "list_all readsOnly (replicaGuards pl)"
    using catalogue_guards_read [of qs] p cv by auto
  have pass: "\<exists>res. f ts g (Some r) = Some (res, g) \<and> \<not> Blocked res" if "f \<in> set (replicaGuards pl)" for f
    using firstBlocking_pass [of ts "Some r" "replicaGuards pl" g res g0] assms(6,7) sc that
    by (simp add: evaluateGuards_def)
  have mem: "guardGMDRPreserved \<in> set (replicaGuards pl)" "guardFTTPreserved \<in> set (replicaGuards pl)"
    "guardZoneGMDRPreserved \<in> set (replicaGuards pl)"
    "evaluateZoneFTT (t_ToReplicaType t = RT_TieBreaker) \<in> set (replicaGuards pl)"
    using catalogue_leaving [of qs] p assms(3-5) by blast+
  obtain m where "rx_member (rcAt g r) = Some m" using assms(8) by (auto simp: memberIs_def split: option.splits)
  then have r: "r < length (allReplicas g)" by (rule rcAt_member_bound)
  have l: "length (allReplicas g) < 256" using assms(9) by simp
  have gm: "unat ?gmdr < countOthers isUpToDateDiskful g r"
    using pass [OF mem(1)] adrAfterRemoval_eq [OF r l]
    by (auto simp: guardGMDRPreserved_def Let_def word_le_nat_alt split: if_splits)
  have nv: "countp isVoterRC (allReplicas g) = countOthers isVoterRC g r + 1"
    using countp_others [OF r, of isVoterRC] assms(8) by simp
  have vl: "countOthers isVoterRC g r + 1 < 256" using nv countp_le [of isVoterRC g] l by linarith
  have ui: "uint x = int (unat x)" for x :: u8 by simp
  have vn: "unat (voterCount g) = countOthers isVoterRC g r + 1"
    using vl unfolding voterCount_def countWhere_def nv by (simp add: unat_of_nat del: of_nat_add of_nat_Suc)
  have "\<not> uint (voterCount g) \<le> uint (FailuresToTolerate (configuration g)) + uint ?gmdr + 1"
    using pass [OF mem(2)]
    by (auto simp: guardFTTPreserved_def pureContextGuard_def Let_def IntendedDiskfulCount_def split: if_splits)
  then have vo: "unat (FailuresToTolerate (configuration g)) + unat ?gmdr + 1 \<le> countOthers isVoterRC g r"
    unfolding ui vn by linarith
  have zg: "unat ?gmdr < countOutside isUpToDateDiskful g r z" if tz: "cfg_Topology (configuration g) = TopologyTransZonal" for z
  proof (cases "zoneCount isUpToDateDiskful z (allReplicas g) = 0")
    case True
    then show ?thesis using gm countOutside_unless_zone [OF r, of isUpToDateDiskful z] by simp
  next
    case False
    let ?zc = "(z, of_nat (zoneCount isUpToDateDiskful z (allReplicas g)))"
    have zc: "?zc \<in> set (upToDateDiskfulCountPerZone g)"
      using False by (simp add: upToDateDiskfulCountPerZone_def countPerZone_mem)
    have "\<not> survivingUTD g (rcAt g r) ?zc \<le> ?gmdr"
      using pass [OF mem(3)] tz zc
      by (auto simp: guardZoneGMDRPreserved_def pureGuard_def Let_def find_None_iff split: option.splits)
    then show ?thesis using survivingUTD_eq [OF r l zc] by (simp add: word_le_nat_alt)
  qed
  have zf: "zoneLossOK g r (t_ToReplicaType t = RT_TieBreaker) z"
    if tz: "cfg_Topology (configuration g) = TopologyTransZonal" for z
  proof (cases "zoneCount isVoterRC z (allReplicas g) = 0")
    case True
    then show ?thesis using zoneLossOK_empty countOutside_unless_zone [OF r, of isVoterRC z] vo by simp
  next
    case False
    let ?zc = "(z, of_nat (zoneCount isVoterRC z (allReplicas g)))" and ?b = "t_ToReplicaType t = RT_TieBreaker"
    have zc: "?zc \<in> set (voterCountPerZone g)"
      using False by (simp add: voterCountPerZone_def countPerZone_mem)
    have "voterCount g \<noteq> 0" using vn by auto
    then have "zoneQuorumOK (fst (zoneSurvivors g (rcAt g r) ?b ?zc)) (computeTargetQ (voterCount g - 1))
        (snd (zoneSurvivors g (rcAt g r) ?b ?zc))"
      using pass [OF mem(4)] tz zc
      by (auto simp: evaluateZoneFTT_def pureGuard_def Let_def find_None_iff case_prod_unfold split: option.splits)
    then show ?thesis using zoneSurvivors_OK [OF r assms(9,8) zc] by simp
  qed
  show ?thesis using gm vo zg zf by blast
qed

text \<open>Three up-to-date diskful members, the last one leaves.\<close>

definition exLeave :: globalContext where
  "exLeave = exContext 2 1 (map (\<lambda>i. exRC i (Some (exMember i MT_Diskful)) (Some (exRVR i 7))) [0, 1, 2])"

lemma exLeave_facts:
  "case evaluateGuards (planOf plan_remove_diskful) (\<lambda>_. emptyTransition) exLeave (Some 2) of
     None \<Rightarrow> False | Some (res, _) \<Rightarrow> \<not> Blocked res"
  "memberIs IsVoter (rcAt exLeave 2)" "length (allReplicas exLeave) < 255"
  by code_simp+

theorem leaving_voter_keeps_promises_witness:
  "0 < countOthers isUpToDateDiskful exLeave 2 \<and> 1 \<le> countOthers isVoterRC exLeave 2"
proof -
  let ?p = "planOf plan_remove_diskful" and ?t = "emptyTransition \<lparr> t_Type := TT_RemoveReplica, t_ReplicaType := RT_Diskful \<rparr>"
  have b: "plan_remove_diskful \<in> set (allPlans (\<lambda>_. []))" "built plan_remove_diskful = Some ?p"
    by (simp_all add: catalogue_defs planOf_def built_eqs)
  have reg: "reg_get (datameshRegistry (\<lambda>_. [])) TT_RemoveReplica ''remove-diskful/v1'' = Some ?p"
    using b by (auto simp: reg_get_iff key_eqs intro!: bexI [of _ plan_remove_diskful])
  have t: "created ?p ?t" "fromVoter ?t" "pl_group ?p = G_VotingMembership"
    by (simp_all add: planOf_def built_eqs created_replica fromVoter_def)
  obtain res g0 where gd: "evaluateGuards ?p (\<lambda>_. emptyTransition) exLeave (Some 2) = Some (res, g0)" "\<not> Blocked res"
    using exLeave_facts(1) by (auto split: option.splits)
  show ?thesis
    using leaving_voter_keeps_promises [OF BuildRegistry_eq reg t(3,1,2) gd exLeave_facts(2,3)] by linarith
qed

end
