(* ===== verification/Datamesh_Types.thy ===== *)
theory Datamesh_Types
  imports Datamesh_Run
begin

text \<open>
  The member types a membership plan goes through: a replica reaches the type its transition asks for, by
  allowed changes only. A disk is brought in and taken away through the liminal type of its kind.
\<close>

definition tview :: "rctx \<Rightarrow> globalContext \<Rightarrow> DatameshMemberType option" where
  "tview r g = map_option m_Type (rx_member (rcAt g r))"

subsection \<open>What the apply callbacks do to it\<close>

lemma tview_onMember:
  assumes "onMember f g (Some r) = Some (c, g')"
  shows "\<exists>m. rx_member (rcAt g r) = Some m \<and> tview r g' = Some (m_Type (snd (f m)))"
proof -
  obtain m where m: "rx_member (rcAt g r) = Some m"
    and g': "g' = updRC r (\<lambda>rc. rc \<lparr> rx_member := Some (snd (f m)) \<rparr>) g"
    using onMember_SomeD [OF assms] by auto
  then show ?thesis by (simp add: tview_def rcAt_updRC [OF rcAt_member_bound [OF m]])
qed

lemma type_setType [simp]: "P (Some T) \<Longrightarrow> allPost tview (setType T) v P"
  by (auto simp: allPost_def setType_def SetChanged_def dest!: tview_onMember split: if_splits)

lemma type_createMember [simp]: "P (Some T) \<Longrightarrow> allPost tview (createMember T) v P"
  by (auto simp: allPost_def createMember_def tview_def res_simps Let_def rcAt_updRC [OF rcAt_rvr_bound])

lemma type_backing [simp]:
  "P v \<Longrightarrow> allPost tview setBackingVolumeFromRequest v P" "P v \<Longrightarrow> allPost tview clearBackingVolume v P"
  by (auto simp: allPost_def setBackingVolumeFromRequest_def clearBackingVolume_def res_simps dest!: tview_onMember)
    (auto simp: tview_def)

lemma type_removeMember [simp]: "P None \<Longrightarrow> allPost tview removeMember v P"
  unfolding allPost_def
proof (intro allI impI)
  fix ts g r c g'
  assume p: "P None" and r: "removeMember ts g (Some r) = Some (c, g')"
  have "tview r g' = tview r (updRC r (\<lambda>rc. rc \<lparr> rx_member := None, rx_memberPtr := None \<rparr>) g)"
    using r by (auto simp: removeMember_def res_simps Let_def tview_def rcAt_def split: if_splits)
  also have "\<dots> = None"
    by (cases "r < length (allReplicas g)")
      (simp_all add: tview_def rcAt_def updRC_def newReplicaContext_def)
  finally show "P (tview r g')" using p by simp
qed

lemma type_global [simp]: "keepsView tview raiseQ" "keepsView tview lowerQ" "keepsView tview raiseQMR"
  "keepsView tview lowerQMR" "keepsView tview updateBaselineGMDR"
  by (auto simp: keepsView_def raiseQ_def lowerQ_def raiseQMR_def lowerQMR_def updateBaselineGMDR_def SetChanged_def
      tview_def rcAt_def updDM_def Let_def)

subsection \<open>Allowed changes\<close>

text \<open>The liminal type of a type with a disk.\<close>

fun liminal :: "DatameshMemberType \<Rightarrow> DatameshMemberType option" where
  "liminal MT_Diskful = Some MT_LiminalDiskful"
| "liminal MT_ShadowDiskful = Some MT_LiminalShadowDiskful"
| "liminal _ = None"

text \<open>A replica gets a disk only when its type already called for a backing volume, and gives it up only for
  such a type or by leaving; a full voter does not leave without the liminal step unless forced.\<close>

fun allowedChange :: "bool \<Rightarrow> DatameshMemberType option \<Rightarrow> DatameshMemberType option \<Rightarrow> bool" where
  "allowedChange forced None None \<longleftrightarrow> True"
| "allowedChange forced None (Some t) \<longleftrightarrow> \<not> HasBackingVolume t"
| "allowedChange forced (Some t) None \<longleftrightarrow> (t = MT_Diskful \<longrightarrow> forced)"
| "allowedChange forced (Some t) (Some t') \<longleftrightarrow>
     (HasBackingVolume t' \<longrightarrow> NeedsBackingVolume t) \<and> (HasBackingVolume t \<longrightarrow> NeedsBackingVolume t')"

fun settledType :: "ReplicaType \<Rightarrow> DatameshMemberType option" where
  "settledType RT_Diskful = Some MT_Diskful"
| "settledType RT_Access = Some MT_Access"
| "settledType RT_TieBreaker = Some MT_TieBreaker"
| "settledType RT_ShadowDiskful = Some MT_ShadowDiskful"
| "settledType (RT_Other _) = None"

text \<open>The member types that count as a replica type: the settled one and its liminal type.\<close>

definition typesOf :: "ReplicaType \<Rightarrow> DatameshMemberType option list" where
  "typesOf rt = (case settledType rt of None \<Rightarrow> []
     | Some t \<Rightarrow> (case liminal t of None \<Rightarrow> [Some t] | Some l \<Rightarrow> [Some t, Some l]))"

text \<open>Where a membership transition may start and where it is to end.\<close>

definition startsAt :: "Transition \<Rightarrow> DatameshMemberType option list" where
  "startsAt t = (case t_Type t of
       TT_AddReplica \<Rightarrow> [None]
     | TT_RemoveReplica \<Rightarrow> typesOf (t_ReplicaType t)
     | TT_ForceRemoveReplica \<Rightarrow> typesOf (t_ReplicaType t)
     | TT_ChangeReplicaType \<Rightarrow> typesOf (t_FromReplicaType t)
     | _ \<Rightarrow> [])"

definition endsAt :: "Transition \<Rightarrow> DatameshMemberType option" where
  "endsAt t = (case t_Type t of
       TT_AddReplica \<Rightarrow> settledType (t_ReplicaType t)
     | TT_ChangeReplicaType \<Rightarrow> settledType (t_ToReplicaType t)
     | _ \<Rightarrow> None)"

definition membershipTypes :: "TransitionType list" where
  "membershipTypes = [TT_AddReplica, TT_RemoveReplica, TT_ChangeReplicaType, TT_ForceRemoveReplica]"

definition typesOK :: "(globalContext, rctx) plan \<Rightarrow> bool" where
  "typesOK pl \<longleftrightarrow> (\<forall>t. created pl t \<longrightarrow> (\<forall>mt \<in> set (startsAt t).
     safeRun tview (allowedChange (t_Type t = TT_ForceRemoveReplica)) (\<lambda>mt. mt = endsAt t) (steps pl) mt))"

lemma typesOK_set:
  "replicaInit p = Some (setReplicaType T) \<Longrightarrow> pl_scope p = ReplicaScope \<Longrightarrow> typesOK p \<longleftrightarrow>
     (let t = emptyTransition \<lparr> t_Type := pl_transitionType p, t_ReplicaType := T \<rparr> in \<forall>mt \<in> set (startsAt t).
       safeRun tview (allowedChange (pl_transitionType p = TT_ForceRemoveReplica)) (\<lambda>mt. mt = endsAt t) (steps p) mt)"
  "replicaInit p = Some (setReplicaFromToType A B) \<Longrightarrow> pl_scope p = ReplicaScope \<Longrightarrow> typesOK p \<longleftrightarrow>
     (let t = emptyTransition \<lparr> t_Type := pl_transitionType p, t_FromReplicaType := A, t_ToReplicaType := B \<rparr> in
       \<forall>mt \<in> set (startsAt t).
       safeRun tview (allowedChange (pl_transitionType p = TT_ForceRemoveReplica)) (\<lambda>mt. mt = endsAt t) (steps p) mt)"
  by (simp_all add: typesOK_def created_replica Let_def)

lemmas types_eval = typesOK_set startsAt_def endsAt_def typesOf_def allPost_step

lemma catalogue_types_fixed:
  "\<forall>p \<in> set (registerAccessPlans @ registerTieBreakerPlans @ registerShadowDiskfulPlans @ registerForceRemovePlans).
     typesOK (the (built p))"
  unfolding catalogue_defs by (simp add: built_eqs types_eval)

lemma catalogue_types_diskful: "\<forall>p \<in> set registerDiskfulPlans. typesOK (the (built p))"
  unfolding catalogue_defs by (simp add: built_eqs types_eval)

lemma catalogue_types_change: "\<forall>p \<in> set registerChangeTypePlans. typesOK (the (built p))"
  unfolding catalogue_defs by (simp add: built_eqs types_eval)

lemma other_plans: "\<forall>p \<in> set (registerQuorumPlans @ registerAttachmentPlans @ registerNetworkPlans @ registerResizePlans qs).
    pl_transitionType (the (built p)) \<notin> set membershipTypes"
  unfolding catalogue_defs by (simp add: built_eqs membershipTypes_def)

lemma membership_typesOK:
  assumes "p \<in> set (allPlans qs)" and "built p = Some pl" and "pl_transitionType pl \<in> set membershipTypes"
  shows "typesOK pl"
proof -
  have "p \<notin> set (registerQuorumPlans @ registerAttachmentPlans @ registerNetworkPlans @ registerResizePlans qs)"
    using assms(2,3) other_plans [of qs] by (metis option.sel)
  then have "p \<in> set registerMembershipPlans" using assms(1) by (simp add: allPlans_def)
  then have "typesOK (the (built p))"
    using catalogue_types_fixed catalogue_types_diskful catalogue_types_change
    unfolding registerMembershipPlans_def by auto
  then show ?thesis using assms(2) by simp
qed

text \<open>C7: every membership plan does what its transition says. Run any plan that adds, removes, force-removes
  or retypes a replica from a member type its transition starts at (none for an addition, the settled
  or liminal type otherwise), with the others changing anything but this member's type in between. Every step changes the
  type in an allowed way (a disk comes only to a type that already calls for a backing volume and goes only
  for such a type or with the member; only a force removal drops a full diskful member at once), and after the last step the member has the settled
  type the transition asks for, or is gone.\<close>

theorem membership_plans_reach_type:
  assumes "BuildRegistry qs None = Some reg" and "reg_get reg tt pid = Some pl"
    and "pl_transitionType pl \<in> set membershipTypes" and "created pl t" and "tview r g0 \<in> set (startsAt t)"
    and "planRun tview pl r g0 k g"
  shows "k \<le> length (steps pl)
    \<and> (k = length (steps pl) \<longrightarrow> tview r g = endsAt t)
    \<and> (\<forall>ts c g'. k < length (steps pl) \<longrightarrow> step_apply (steps pl ! k) ts g (Some r) = Some (c, g') \<longrightarrow>
         allowedChange (t_Type t = TT_ForceRemoveReplica) (tview r g) (tview r g'))"
proof -
  obtain p where p: "p \<in> set (allPlans qs)" "built p = Some pl"
    using assms(1,2) by (auto simp: BuildRegistry_eq reg_get_iff)
  have s: "safeRun tview (allowedChange (t_Type t = TT_ForceRemoveReplica)) (\<lambda>mt. mt = endsAt t) (steps pl) (tview r g0)"
    using membership_typesOK [OF p assms(3)] assms(4,5) by (simp add: typesOK_def)
  from planRun_safe [OF assms(6) s] planRun_next [OF assms(6) s] show ?thesis by auto
qed

text \<open>A tie-breaker joins.\<close>

definition exJoin :: globalContext where
  "exJoin = exContext 1 1 [exRC 0 (Some (exMember 0 MT_Diskful)) None, exRC 1 None (Some (exRVR 1 7))]"

lemma exJoin_run:
  "case step_apply (steps (planOf plan_add_tiebreaker) ! 0) (\<lambda>_. emptyTransition) exJoin (Some 1) of
     None \<Rightarrow> False | Some _ \<Rightarrow> Option.is_none (tview 1 exJoin)"
  by code_simp

theorem membership_plans_reach_type_witness:
  "\<exists>g. planRun tview (planOf plan_add_tiebreaker) 1 exJoin 1 g \<and> tview 1 g = Some MT_TieBreaker"
proof -
  let ?p = "planOf plan_add_tiebreaker" and ?t = "emptyTransition \<lparr> t_Type := TT_AddReplica, t_ReplicaType := RT_TieBreaker \<rparr>"
  have b: "plan_add_tiebreaker \<in> set (allPlans (\<lambda>_. []))" "built plan_add_tiebreaker = Some ?p"
    by (simp_all add: catalogue_defs planOf_def built_eqs)
  have reg: "reg_get (datameshRegistry (\<lambda>_. [])) TT_AddReplica ''tiebreaker/v1'' = Some ?p"
    using b by (auto simp: reg_get_iff key_eqs intro!: bexI [of _ plan_add_tiebreaker])
  have t: "created ?p ?t" "pl_transitionType ?p \<in> set membershipTypes" "length (steps ?p) = 1"
    by (simp_all add: planOf_def built_eqs created_replica membershipTypes_def)
  obtain c g where a: "step_apply (steps ?p ! 0) (\<lambda>_. emptyTransition) exJoin (Some 1) = Some (c, g)" "tview 1 exJoin = None"
    using exJoin_run by (auto split: option.splits simp: Option.is_none_def)
  have run: "planRun tview ?p 1 exJoin 1 g" using planRun.apply_step [OF planRun.start _ a(1)] t(3) by simp
  have "tview 1 g = endsAt ?t"
    using membership_plans_reach_type [OF BuildRegistry_eq reg t(2,1) _ run] a(2) t(3) by (simp add: startsAt_def)
  then show ?thesis using run by (auto simp: endsAt_def)
qed

end
