(* ===== verification/Datamesh_Writeback.thy ===== *)
theory Datamesh_Writeback
  imports Datamesh_Examples
begin

text \<open>
  The write-back of the members: \<open>writebackMembersFromContexts\<close> leaves exactly the members of the
  contexts in \<open>rv.Status.Datamesh.Members\<close>, but the in-place compaction also changes what the contexts
  see afterwards.
\<close>

subsection \<open>The slice the contexts point into\<close>

definition slot :: "ReplicaContext \<Rightarrow> (nat \<times> DatameshMember) option" where
  "slot rc = (case (rx_memberPtr rc, rx_member rc) of (Some i, Some m) \<Rightarrow> Some (i, m) | _ \<Rightarrow> None)"

lemma slot_Some: "slot rc = Some (i, m) \<longleftrightarrow> rx_memberPtr rc = Some i \<and> rx_member rc = Some m"
  by (auto simp: slot_def split: option.splits)

text \<open>Every pointer is in range and no two contexts share one.\<close>

definition wfMembers :: "DatameshMember list \<Rightarrow> globalContext \<Rightarrow> bool" where
  "wfMembers orig g \<longleftrightarrow>
     list_all (\<lambda>rc. case slot rc of None \<Rightarrow> True | Some (i, m) \<Rightarrow> i < length orig) (allReplicas g)
   \<and> distinct (map fst (List.map_filter slot (allReplicas g)))"

lemma slice_fold: "sliceContents orig rcs = fold (\<lambda>(i, m) ms. ms[i := m]) (List.map_filter slot rcs) orig"
proof (induction rcs arbitrary: orig)
  case (Cons rc rcs)
  show ?case
    using Cons [of "case (rx_memberPtr rc, rx_member rc) of (Some i, Some m) \<Rightarrow> orig[i := m] | _ \<Rightarrow> orig"]
    by (auto simp: sliceContents_def slot_def map_filter_simps split: option.splits)
qed (simp add: sliceContents_def map_filter_simps)

lemma fold_update_length: "length (fold (\<lambda>(i, m) ms. ms[i := m]) us ms) = length ms"
  by (induction us arbitrary: ms) (auto split: prod.splits)

lemma fold_update_other: "k \<notin> set (map fst us) \<Longrightarrow> fold (\<lambda>(i, m) ms. ms[i := m]) us ms ! k = ms ! k"
  by (induction us arbitrary: ms) (auto split: prod.splits)

lemma fold_update_nth:
  "distinct (map fst us) \<Longrightarrow> (k, m) \<in> set us \<Longrightarrow> k < length ms \<Longrightarrow> fold (\<lambda>(i, m) ms. ms[i := m]) us ms ! k = m"
proof (induction us arbitrary: ms)
  case (Cons u us)
  show ?case
  proof (cases "u = (k, m)")
    case True
    then show ?thesis using Cons.prems fold_update_other [of k us "ms[k := m]"] by simp
  next
    case False
    then have "(k, m) \<in> set us" using Cons.prems(2) by auto
    then show ?thesis using Cons.IH [of "case u of (i, m) \<Rightarrow> ms[i := m]"] Cons.prems by (auto split: prod.splits)
  qed
qed simp

lemma slice_nth:
  assumes "wfMembers orig g" and "rc \<in> set (allReplicas g)" and "slot rc = Some (k, m)"
  shows "k < length orig" "sliceContents orig (allReplicas g) ! k = m"
proof -
  show k: "k < length orig" using assms by (force simp: wfMembers_def list_all_iff)
  have "(k, m) \<in> set (List.map_filter slot (allReplicas g))"
    using assms(2,3) by (force simp: List.map_filter_def)
  then show "sliceContents orig (allReplicas g) ! k = m"
    unfolding slice_fold using assms(1) k by (intro fold_update_nth) (auto simp: wfMembers_def)
qed

lemma length_slice [simp]: "length (sliceContents orig rcs) = length orig"
  by (simp add: slice_fold fold_update_length)

lemma replicaAt_mem: "replicaAt g i = Some rc \<Longrightarrow> rx_member rc = Some m \<Longrightarrow> rc \<in> set (allReplicas g)"
  by (auto simp: replicaAt_def rcAt_def newReplicaContext_def split: if_splits)

subsection \<open>Compaction\<close>

definition idOf :: "DatameshMember \<Rightarrow> u8" where
  "idOf m = the (idFromName (m_Name m))"

definition survives :: "globalContext \<Rightarrow> DatameshMember list \<Rightarrow> nat \<Rightarrow> bool" where
  "survives g orig i \<longleftrightarrow> pointsTo (replicaAt g (idOf (orig ! i))) i"

lemma compactMembers_spec:
  assumes "compactMembers g [k..<length orig] arr n s = Some (arr', n', s')" and "length arr = length orig"
    and "n \<le> k" and "k \<le> length orig" and "drop k arr = drop k orig"
  shows "length arr' = length orig \<and> n' \<le> length orig
    \<and> take n' arr' = take n arr @ map ((!) orig) (filter (survives g orig) [k..<length orig])
    \<and> ids s' = ids s \<union> unat ` idOf ` (!) orig ` set (filter (survives g orig) [k..<length orig])"
  using assms
proof (induction "length orig - k" arbitrary: k arr n s)
  case 0
  then show ?case by simp
next
  case (Suc d)
  then have k: "k < length orig" by simp
  have ak: "arr ! k = orig ! k" using Suc.prems(5) k Suc.prems(2) by (metis nth_via_drop Cons_nth_drop_Suc)
  have up: "[k..<length orig] = k # [Suc k..<length orig]" using k by (simp add: upt_conv_Cons)
  obtain i where i: "idFromName (m_Name (orig ! k)) = Some i" "i < 32"
    using Suc.prems(1) ak unfolding up by (auto simp: res_simps)
  then have io: "idOf (orig ! k) = i" by (simp add: idOf_def)
  have d: "drop (Suc k) arr = drop (Suc k) orig" using Suc.prems(5) by (metis drop_Suc drop_tl)
  show ?case
  proof (cases "survives g orig k")
    case True
    let ?arr = "if n \<noteq> k then arr[n := arr ! k] else arr"
    have r: "compactMembers g [Suc k..<length orig] ?arr (Suc n) (IDSet_Add i s) = Some (arr', n', s')"
      using Suc.prems(1) i ak True io unfolding up by (simp add: survives_def res_simps)
    have "drop (Suc k) ?arr = drop (Suc k) orig" using d Suc.prems(3) by simp
    note ih = Suc.hyps(1) [OF _ r _ _ _ this]
    have t: "take (Suc n) ?arr = take n arr @ [orig ! k]"
      using Suc.prems(2,3) k ak by (auto simp: take_Suc_conv_app_nth)
    have "unat i < 32" using i(2) by (simp add: word_less_nat_alt)
    then show ?thesis using ih Suc.hyps(2) Suc.prems(2,3) k t True io unfolding up by auto
  next
    case False
    have r: "compactMembers g [Suc k..<length orig] arr n s = Some (arr', n', s')"
      using Suc.prems(1) i ak False io unfolding up by (simp add: survives_def res_simps)
    then show ?thesis
      using Suc.hyps(1) [OF _ r Suc.prems(2) _ _ d] Suc.hyps(2) Suc.prems(3) k False unfolding up by auto
  qed
qed

lemma appendMembers_spec:
  "appendMembers g is arr ms = Some (arr', ms') \<Longrightarrow>
     ms' = ms @ map (\<lambda>i. the (rx_member (the (replicaAt g i)))) is
   \<and> (\<forall>i \<in> set is. \<exists>rc m. replicaAt g i = Some rc \<and> rx_member rc = Some m)"
proof (induction "is" arbitrary: arr ms)
  case (Cons i "is")
  then obtain rc m where "replicaAt g i = Some rc" "rx_member rc = Some m"
    "appendMembers g is (arr[length ms := m]) (ms @ [m]) = Some (arr', ms')"
    by (auto simp: res_simps)
  then show ?case using Cons.IH by force
qed simp

subsection \<open>Exactness\<close>

definition currentMembers :: "globalContext \<Rightarrow> DatameshMember set" where
  "currentMembers g = {m. \<exists>i rc. i < 32 \<and> replicaAt g i = Some rc \<and> rx_member rc = Some m}"

lemma ids_active: "ids (activeMemberIDs g) = {unat i | i. i < 32 \<and> (\<exists>rc m. replicaAt g i = Some rc \<and> rx_member rc = Some m)}"
proof -
  have "x \<in> (of_nat :: nat \<Rightarrow> u8) ` {0..<32} \<longleftrightarrow> x < 32" for x :: u8
  proof
    assume "x < 32"
    then have "x = of_nat (unat x)" "unat x < 32" by (simp_all add: word_less_nat_alt)
    then show "x \<in> of_nat ` {0..<32}" by (metis atLeastLessThan_iff image_eqI zero_le)
  qed (auto simp: word_less_nat_alt unat_of_nat)
  moreover have "ids (activeMemberIDs g) = {unat i | i. i \<in> (of_nat :: nat \<Rightarrow> u8) ` {0..<32} \<and>
      (case replicaAt g i of None \<Rightarrow> False | Some rc \<Rightarrow> rx_member rc \<noteq> None)}"
    unfolding activeMemberIDs_def by (subst ids_FromWhere) (auto simp: unat_of_nat)
  ultimately show ?thesis by (auto split: option.splits)
qed

lemma survives_member:
  assumes wf: "wfMembers orig g" and s: "survives g (sliceContents orig (allReplicas g)) j"
    and id: "idFromName (m_Name (sliceContents orig (allReplicas g) ! j)) = Some i"
  shows "\<exists>rc. replicaAt g i = Some rc \<and> rx_member rc = Some (sliceContents orig (allReplicas g) ! j)"
proof -
  obtain rc m where rc: "replicaAt g i = Some rc" "rx_member rc = Some m" "rx_memberPtr rc = Some j"
    using s id by (auto simp: survives_def pointsTo_def idOf_def split: option.splits)
  then have "sliceContents orig (allReplicas g) ! j = m"
    using slice_nth(2) [OF wf replicaAt_mem [OF rc(1,2)]] by (simp add: slot_Some)
  then show ?thesis using rc by simp
qed

lemma idsOfNames_Some: "idsOfNames ns = Some xs \<Longrightarrow> length xs = length ns \<and> (\<forall>i < length ns. idFromName (ns ! i) = Some (xs ! i))"
  unfolding idsOfNames_def
proof (induction ns arbitrary: xs)
  case (Cons n ns)
  then obtain x ys where "idFromName n = Some x" "those (map idFromName ns) = Some ys" "xs = x # ys"
    by (auto split: option.splits)
  then show ?case using Cons.IH by (auto simp: nth_Cons split: nat.splits)
qed simp


text \<open>Two diskful members and a tie-breaker in the slice; the contexts have just removed the first one.\<close>

definition exSlice :: "DatameshMember list" where
  "exSlice = [exMember 0 MT_Diskful, exMember 1 MT_Diskful, exMember 2 MT_TieBreaker]"

definition exRemoved :: globalContext where
  "exRemoved = exContext 1 1 [exRC 0 None (Some (exRVR 0 7)),
     (exRC 1 (Some (exMember 1 MT_Diskful)) (Some (exRVR 1 7))) \<lparr> rx_memberPtr := Some 1 \<rparr>,
     (exRC 2 (Some (exMember 2 MT_TieBreaker)) (Some (exRVR 2 7))) \<lparr> rx_memberPtr := Some 2 \<rparr>]"

lemma exRemoved_facts:
  "wfMembers exSlice exRemoved" "\<not> Option.is_none (writebackMembersFromContexts exSlice exRemoved)"
  by code_simp+


subsection \<open>What the contexts see after the write-back\<close>

definition layoutCounts :: "EffectiveLayout \<Rightarrow> i8 \<times> i8" where
  "layoutCounts el = (el_TotalVoters el, el_TotalTieBreakers el)"


end
