(* ===== verification/Datamesh_Converge.thy ===== *)
theory Datamesh_Converge
  imports Datamesh_Run
begin

text \<open>
  The quorum dispatcher and its four plans: whatever plan is selected, the two steps bring the quorum and the
  minimum redundancy to the values \<open>computeCorrectQuorum\<close> asks for, in an order that never lets the
  minimum redundancy exceed the quorum.
\<close>

record quorumState =
  qs_voters :: u8
  qs_upToDate :: u8
  qs_targetQMR :: u8
  qs_q :: u8
  qs_qmr :: u8

definition cview :: "rctx \<Rightarrow> globalContext \<Rightarrow> quorumState" where
  "cview r g = \<lparr> qs_voters = voterCount g, qs_upToDate = upToDateDiskfulCount g,
     qs_targetQMR = cfg_QuorumMinimumRedundancy (configuration g), qs_q = quorum (datamesh g),
     qs_qmr = quorumMinimumRedundancy (datamesh g) \<rparr>"

definition correctQ :: "quorumState \<Rightarrow> u8" where
  "correctQ v = qs_voters v div 2 + 1"

definition correctQMR :: "quorumState \<Rightarrow> u8" where
  "correctQMR v = (if qs_targetQMR v \<le> qs_qmr v then qs_targetQMR v
     else max (qs_qmr v) (min (qs_targetQMR v) (qs_upToDate v)))"

lemma computeCorrectQuorum_view: "computeCorrectQuorum g = (correctQ (cview r g), correctQMR (cview r g))"
  by (simp add: computeCorrectQuorum_def correctQ_def correctQMR_def cview_def Let_def)

lemma cview_updDM:
  "cview r (updDM f g) = (cview r g) \<lparr> qs_q := quorum (f (datamesh g)), qs_qmr := quorumMinimumRedundancy (f (datamesh g)) \<rparr>"
  by (simp add: cview_def updDM_def voterCount_def upToDateDiskfulCount_def countWhere_def)

lemma cview_q [simp]: "qs_q (cview r g) = quorum (datamesh g)" "qs_qmr (cview r g) = quorumMinimumRedundancy (datamesh g)"
  by (simp_all add: cview_def)

lemma post_setCorrectQ [simp]: "P (v \<lparr> qs_q := correctQ v \<rparr>) \<Longrightarrow> allPost cview (AdaptGlobalApply setCorrectQ) v P"
  unfolding allPost_def AdaptGlobalApply_def setCorrectQ_def SetChanged_def
proof (intro allI impI)
  fix ts :: tstore and g r c g'
  assume p: "P (v \<lparr> qs_q := correctQ v \<rparr>)" and v: "cview r g = v"
    and e: "Some (if (quorum \<circ> datamesh) g = fst (computeCorrectQuorum g) then (False, g)
       else (True, updDM (\<lambda>d. d \<lparr> quorum := fst (computeCorrectQuorum g) \<rparr>) g)) = Some (c, g')"
  have "cview r g' = v \<lparr> qs_q := correctQ v \<rparr>"
    using e v [symmetric] by (auto simp: computeCorrectQuorum_view [of g r] cview_updDM split: if_splits)
  then show "P (cview r g')" using p by simp
qed

lemma post_setCorrectQMR [simp]: "P (v \<lparr> qs_qmr := correctQMR v \<rparr>) \<Longrightarrow> allPost cview (AdaptGlobalApply setCorrectQMR) v P"
  unfolding allPost_def AdaptGlobalApply_def setCorrectQMR_def SetChanged_def
proof (intro allI impI)
  fix ts :: tstore and g r c g'
  assume p: "P (v \<lparr> qs_qmr := correctQMR v \<rparr>)" and v: "cview r g = v"
    and e: "Some (if (quorumMinimumRedundancy \<circ> datamesh) g = snd (computeCorrectQuorum g) then (False, g)
       else (True, updDM (\<lambda>d. d \<lparr> quorumMinimumRedundancy := snd (computeCorrectQuorum g) \<rparr>) g)) = Some (c, g')"
  have "cview r g' = v \<lparr> qs_qmr := correctQMR v \<rparr>"
    using e v [symmetric] by (auto simp: computeCorrectQuorum_view [of g r] cview_updDM split: if_splits)
  then show "P (cview r g')" using p by simp
qed

lemma keepsView_baseline [simp]: "keepsView cview updateBaselineGMDR"
  by (auto simp: keepsView_def updateBaselineGMDR_def SetChanged_def cview_def voterCount_def upToDateDiskfulCount_def
      countWhere_def Let_def)

lemma correct_stable [simp]:
  "correctQ (v \<lparr> qs_qmr := x \<rparr>) = correctQ v" "correctQMR (v \<lparr> qs_q := y \<rparr>) = correctQMR v"
  by (simp_all add: correctQ_def correctQMR_def)

definition quorumOrder :: "quorumState \<Rightarrow> bool" where
  "quorumOrder v \<longleftrightarrow> qs_qmr v \<le> qs_q v"

definition settled :: "quorumState \<Rightarrow> quorumState \<Rightarrow> bool" where
  "settled v0 v \<longleftrightarrow> v = v0 \<lparr> qs_q := correctQ v0, qs_qmr := correctQMR v0 \<rparr>"

definition selected :: "quorumState \<Rightarrow> PlanID" where
  "selected v = selectQuorumPlan (correctQ v) (qs_q v) (correctQMR v) (qs_qmr v)"

lemmas quorum_posts = post_ComposeGlobal post_setCorrectQ post_setCorrectQMR post_keepsView keepsView_baseline conjI

lemma quorum_plans_run:
  assumes "p \<in> set registerQuorumPlans" and "built p = Some pl" and "keyOf p = (TT_ChangeQuorum, selected v)"
  shows "safeRun cview (\<lambda>_ v'. quorumOrder v \<and> correctQMR v \<le> correctQ v \<longrightarrow> quorumOrder v') (settled v) (steps pl) v
    \<and> length (steps pl) = 2"
proof -
  consider "pl = planOf plan_quorum_lower" "selected v = ''lower/v1''"
    | "pl = planOf plan_quorum_raise" "selected v = ''raise/v1''"
    | "pl = planOf plan_quorum_lower_q_raise_qmr" "selected v = ''lower-q-raise-qmr/v1''"
    | "pl = planOf plan_quorum_raise_q_lower_qmr" "selected v = ''raise-q-lower-qmr/v1''"
    using assms by (auto simp: registerQuorumPlans_def planOf_def key_eqs)
  then show ?thesis
    by cases ((simp add: planOf_def built_eqs allPost_gstep; intro quorum_posts;
        auto simp: settled_def quorumOrder_def selected_def selectQuorumPlan_def Let_def split: if_splits)+)
qed

lemma quorum_registered:
  assumes "BuildRegistry qs None = Some reg" and "reg_get reg TT_ChangeQuorum pid = Some pl"
  obtains p where "p \<in> set registerQuorumPlans" "built p = Some pl" "keyOf p = (TT_ChangeQuorum, pid)"
proof -
  obtain p where p: "p \<in> set (allPlans qs)" "keyOf p = (TT_ChangeQuorum, pid)" "built p = Some pl"
    using assms by (auto simp: BuildRegistry_eq reg_get_iff)
  have "p \<in> set registerQuorumPlans"
    using p(1,2) by (auto simp: catalogue_defs key_eqs)
  then show ?thesis using that p by blast
qed

lemma quorumDecision_selected:
  "quorumDecision g = Some d \<Longrightarrow> d = DispatchGlobal TT_ChangeQuorum (selected (cview r g))"
  by (auto simp: quorumDecision_def selected_def computeCorrectQuorum_view [of g r] Let_def split: if_splits)

lemma settled_correct: "settled v v' \<Longrightarrow> correctQ v' = correctQ v \<and> correctQMR v' = correctQMR v"
  by (auto simp: settled_def correctQ_def correctQMR_def min_def max_def)

lemma settled_values: "settled v v' \<Longrightarrow> qs_q v' = correctQ v \<and> qs_qmr v' = correctQMR v"
  by (simp add: settled_def)

text \<open>C8: the quorum dispatcher and its plans converge. When the dispatcher asks for a quorum change, run the
  plan it selects, with everything but the voters, the up-to-date replicas, the target and the quorum
  itself changing in between. The plan has two steps; after them the quorum and the minimum redundancy
  are the ones \<open>computeCorrectQuorum\<close> asked for, and it asks for the same values again, so the dispatcher
  has nothing left to correct. If the minimum redundancy was at most the quorum, and is to be, then it is
  after every step on the way.\<close>

theorem quorum_plans_converge:
  assumes "BuildRegistry qs None = Some reg" and "quorumDecision g0 = Some d"
    and "reg_get reg TT_ChangeQuorum (d_planID d) = Some pl" and "planRun cview pl r g0 k g"
  shows "k \<le> 2
    \<and> (k = 2 \<longrightarrow> (quorum (datamesh g), quorumMinimumRedundancy (datamesh g)) = computeCorrectQuorum g0
         \<and> computeCorrectQuorum g = computeCorrectQuorum g0 \<and> quorumDecision g = None)
    \<and> (quorumMinimumRedundancy (datamesh g0) \<le> quorum (datamesh g0)
         \<and> snd (computeCorrectQuorum g0) \<le> fst (computeCorrectQuorum g0)
       \<longrightarrow> quorumMinimumRedundancy (datamesh g) \<le> quorum (datamesh g))"
proof -
  let ?v = "cview r g0"
  have "d_planID d = selected ?v"
    using quorumDecision_selected [OF assms(2), of r] by (simp add: DispatchGlobal_def)
  with assms(1,3) obtain p where p: "p \<in> set registerQuorumPlans" "built p = Some pl" "keyOf p = (TT_ChangeQuorum, selected ?v)"
    by (metis quorum_registered)
  have s: "safeRun cview (\<lambda>_ v'. quorumOrder ?v \<and> correctQMR ?v \<le> correctQ ?v \<longrightarrow> quorumOrder v') (settled ?v) (steps pl) ?v"
    and l: "length (steps pl) = 2" using quorum_plans_run [OF p] by simp_all
  have run: "k \<le> 2" "k = 2 \<Longrightarrow> settled ?v (cview r g)" "k = 0 \<Longrightarrow> cview r g = ?v"
    "0 < k \<Longrightarrow> quorumOrder ?v \<and> correctQMR ?v \<le> correctQ ?v \<Longrightarrow> quorumOrder (cview r g)"
    using planRun_safe [OF assms(4) s] l by auto
  have stable: "k = 2 \<Longrightarrow> computeCorrectQuorum g = computeCorrectQuorum g0"
    using run(2) by (simp add: computeCorrectQuorum_view [of _ r] settled_correct)
  have reached: "k = 2 \<Longrightarrow> (quorum (datamesh g), quorumMinimumRedundancy (datamesh g)) = computeCorrectQuorum g0"
    using settled_values [OF run(2)] by (simp add: computeCorrectQuorum_view [of _ r])
  have "k = 2 \<Longrightarrow> quorumDecision g = None"
    using stable reached by (auto simp: quorumDecision_def Let_def dest: sym)
  moreover have "quorumOrder ?v \<and> correctQMR ?v \<le> correctQ ?v \<Longrightarrow> quorumOrder (cview r g)"
    using run(3,4) by (cases "k = 0") auto
  ultimately show ?thesis
    using run(1) stable reached by (auto simp: quorumOrder_def computeCorrectQuorum_view [of g0 r])
qed

text \<open>Three voters with a quorum of one: the quorum has to rise to two.\<close>

definition exLowQuorum :: globalContext where
  "exLowQuorum = exContext 1 1 [exRC 0 (Some (exMember 0 MT_Diskful)) (Some (exRVR 0 7)),
     exRC 1 (Some (exMember 1 MT_Diskful)) (Some (exRVR 1 7)), exRC 2 (Some (exMember 2 MT_Diskful)) (Some (exRVR 2 7))]"

definition exLowStep :: "nat \<Rightarrow> globalContext \<Rightarrow> (bool \<times> globalContext) option" where
  "exLowStep k g = step_apply (steps (planOf plan_quorum_raise) ! k) (\<lambda>_. emptyTransition) g (Some 0)"

lemma exLow_run:
  "case exLowStep 0 exLowQuorum of None \<Rightarrow> False | Some (c, g) \<Rightarrow> exLowStep 1 g \<noteq> None"
  "quorumDecision exLowQuorum = Some (DispatchGlobal TT_ChangeQuorum ''raise/v1'')"
  "computeCorrectQuorum exLowQuorum = (2, 1)"
  by code_simp+

theorem quorum_plans_converge_witness:
  "\<exists>g. planRun cview (planOf plan_quorum_raise) 0 exLowQuorum 2 g \<and> quorum (datamesh g) = 2 \<and> quorumDecision g = None"
proof -
  let ?p = "planOf plan_quorum_raise" and ?d = "DispatchGlobal TT_ChangeQuorum ''raise/v1''"
  have b: "plan_quorum_raise \<in> set (allPlans (\<lambda>_. []))" "built plan_quorum_raise = Some ?p" "length (steps ?p) = 2"
    by (simp_all add: catalogue_defs planOf_def built_eqs)
  have reg: "reg_get (datameshRegistry (\<lambda>_. [])) TT_ChangeQuorum (d_planID ?d) = Some ?p"
    using b by (auto simp: reg_get_iff key_eqs DispatchGlobal_def intro!: bexI [of _ plan_quorum_raise])
  obtain c1 g1 c2 g2 where a: "exLowStep 0 exLowQuorum = Some (c1, g1)" "exLowStep 1 g1 = Some (c2, g2)"
    using exLow_run(1) by (auto split: option.splits prod.splits)
  have "planRun cview ?p 0 exLowQuorum (Suc (Suc 0)) g2"
    using a b(3) unfolding exLowStep_def
    by (intro planRun.apply_step [OF planRun.apply_step [OF planRun.start _ a(1) [unfolded exLowStep_def]]]) auto
  then have run: "planRun cview ?p 0 exLowQuorum 2 g2" by (simp add: numeral_2_eq_2)
  from quorum_plans_converge [OF BuildRegistry_eq exLow_run(2) reg run] run show ?thesis
    by (auto simp: exLow_run(3))
qed

end
