(* ===== verification/Dmte_Laws.thy ===== *)
theory Dmte_Laws
  imports Dmte_Invariant
begin

text \<open>
  What the engine guarantees for any plans, contexts and tracker: the settle loop ends within a bound
  given by the open steps, a step is passed only when every replica that has to confirm it did, and
  nothing that is confirmed is left behind.
\<close>

subsection \<open>The settle loop\<close>

text \<open>The \<open>for\<close> loop of \<open>Process\<close> cut off after \<open>n\<close> passes; the outer \<open>None\<close> is running out.\<close>

fun settleBounded :: "nat \<Rightarrow> ('g, 'r) EngineEnv \<Rightarrow> 'g Engine \<Rightarrow> bool \<Rightarrow> ('g Engine \<times> bool) option option" where
  "settleBounded 0 E e changed = None"
| "settleBounded (Suc n) E e changed =
     (case settleTransitions E e of
        None \<Rightarrow> Some None
      | Some (e', settleChanged, progressed) \<Rightarrow>
          if progressed then settleBounded n E e' (changed \<or> settleChanged)
          else Some (Some (e', changed \<or> settleChanged)))"

definition openSteps :: "Transition \<Rightarrow> nat" where
  "openSteps t = length (filter (\<lambda>s. s_Status s \<noteq> Completed) (t_Steps t))"

lemma settleBounded_enough: "work e < n \<Longrightarrow> settleBounded n E e ch = Some (settleUntilStable E e ch)"
proof (induction n arbitrary: e ch)
  case (Suc n)
  show ?case
  proof (cases "settleTransitions E e")
    case None
    then show ?thesis by (simp add: settleUntilStable.simps [of E e])
  next
    case (Some x)
    then obtain e' sc pr where x: "settleTransitions E e = Some (e', sc, pr)" by (cases x) auto
    show ?thesis
    proof (cases pr)
      case True
      then have "work e' < work e"
        using settleFrom_work [of E 0 e False False e' sc pr] x by (simp add: settleTransitions_def)
      then show ?thesis
        using Suc x True by (simp add: settleUntilStable.simps [of E e])
    next
      case False
      then show ?thesis using x by (simp add: settleUntilStable.simps [of E e])
    qed
  qed
qed simp

lemma weight_le_steps: "weight t \<le> Suc (length (t_Steps t))"
  by (simp add: weight_def)

lemma work_le: "work e \<le> sum_list (map (\<lambda>q. Suc (length (t_Steps (e_tstore e q)))) (e_transitions e))"
  unfolding work_def by (intro sum_list_map_le weight_le_steps)

text \<open>C30: the loop in \<open>Process\<close> that settles transitions until a pass makes no progress always ends:
  cut off after one pass more than the number of transitions and all their steps together, it has the same
  outcome.\<close>

theorem settle_loop_terminates:
  "settleBounded (Suc (sum_list (map (\<lambda>q. Suc (length (t_Steps (e_tstore e q)))) (e_transitions e)))) E e changed
     = Some (settleUntilStable E e changed)"
  by (rule settleBounded_enough) (use work_le [of e] in simp)

subsection \<open>A small engine for the witnesses\<close>

text \<open>One plan with two steps that replicas 0 and 1 must confirm; the context is the set of replicas that
  have confirmed.\<close>

definition demoStep :: "IDSet GlobalStepBuilder option" where
  "demoStep = GlobalStep ''resize'' (Some (\<lambda>ts g. Some (True, g)))
     (Some (\<lambda>ts g rev'. Some \<lparr> MustConfirm = IDSet_Of [0, 1], Confirmed = g \<rparr>))"

definition demoRegistry :: "(IDSet, nat) Registry option" where
  "demoRegistry = do {
     s \<leftarrow> demoStep;
     Build (PB_Steps [RawGlobalStep s, RawGlobalStep s] (PB_DisplayName ''Resizing''
       (PB_Group G_Resize (Plan (GlobalTransition TT_ResizeVolume) ''resize/v1'')))) (NewRegistry ()) }"

definition demoEnv :: "(IDSet, nat) EngineEnv" where
  "demoEnv = \<lparr> env_registry = the demoRegistry,
     env_tracker = \<lparr> trk_Add = (\<lambda>_ _ g. Some g), trk_Remove = (\<lambda>_ g. Some g),
       trk_CanAdmit = (\<lambda>_ _. Some (True, [], None)) \<rparr>,
     env_dispatchers = [],
     env_cp = \<lparr> cp_Replica = (\<lambda>_ _. Some None), rc_Name = (\<lambda>_ _. []), rc_Exists = (\<lambda>_ _. False),
       rc_Generation = (\<lambda>_ _. 0), rc_Conditions = (\<lambda>_ _. []) \<rparr>,
     env_now = int \<rparr>"

definition demoTransition :: Transition where
  "demoTransition = emptyTransition \<lparr> t_Type := TT_ResizeVolume, t_Group := G_Resize, t_PlanID := ''resize/v1'',
     t_Steps := [emptyStep \<lparr> s_Status := Active, s_DatameshRevision := 5 \<rparr>, emptyStep \<lparr> s_Status := Pending \<rparr>] \<rparr>"

definition demoEngine :: "IDSet \<Rightarrow> IDSet Engine" where
  "demoEngine g = the (NewEngine demoEnv 5 [demoTransition] g)"

lemma demo_facts:
  "findCurrentStepIdx (e_tstore (demoEngine (IDSet_Of [0, 1])) (e_transitions (demoEngine (IDSet_Of [0, 1])) ! 0)) = Some 0"
  "length (e_transitions (demoEngine (IDSet_Of [0, 1]))) = 1"
  "\<not> Option.is_none (reg_get (env_registry demoEnv) TT_ResizeVolume ''resize/v1'')"
  "\<not> Option.is_none (settleOne demoEnv 0 (demoEngine (IDSet_Of [0, 1])) False)"
  "case settleUntilStable demoEnv (demoEngine (IDSet_Of [0])) False of None \<Rightarrow> False
     | Some (e', ch') \<Rightarrow> length (e_transitions e') = 1"
  "t_Type (e_tstore (demoEngine (IDSet_Of [0, 1])) (e_transitions (demoEngine (IDSet_Of [0, 1])) ! 0)) = TT_ResizeVolume"
  "t_PlanID (e_tstore (demoEngine (IDSet_Of [0, 1])) (e_transitions (demoEngine (IDSet_Of [0, 1])) ! 0)) = ''resize/v1''"
  by code_simp+

subsection \<open>Confirmation\<close>

text \<open>The confirm callback of the current step of a transition, in given contexts, and whether everybody
  who must confirm has confirmed.\<close>

definition confirmation :: "('g, 'r) EngineEnv \<Rightarrow> tstore \<Rightarrow> 'g \<Rightarrow> Transition \<Rightarrow> ConfirmResult option" where
  "confirmation E ts g t = do {
     p \<leftarrow> reg_get (env_registry E) (t_Type t) (t_PlanID t);
     (rctx, _) \<leftarrow> settleResolve E p t g;
     k \<leftarrow> findCurrentStepIdx t;
     s \<leftarrow> index (steps p) k;
     st \<leftarrow> index (t_Steps t) k;
     step_confirm s ts g rctx (s_DatameshRevision st) }"

definition allConfirmed :: "ConfirmResult \<Rightarrow> bool" where
  "allConfirmed cr \<longleftrightarrow> ids (MustConfirm cr) \<subseteq> ids (Confirmed cr)"

lemma allConfirmed_iff: "allConfirmed cr \<longleftrightarrow> IDSet_Intersect (Confirmed cr) (MustConfirm cr) = MustConfirm cr"
  unfolding allConfirmed_def by (subst ids_inject [symmetric]) auto

lemma confirmation_eq:
  assumes "confirmStep E p ptr rctx k ch e = Some (cr, composed, ch', e')"
    and "reg_get (env_registry E) (t_Type (e_tstore e ptr)) (t_PlanID (e_tstore e ptr)) = Some p"
    and "settleResolve E p (e_tstore e ptr) (e_g e) = Some (rctx, slot)"
    and "findCurrentStepIdx (e_tstore e ptr) = Some k"
  shows "confirmation E (e_tstore e) (e_g e) (e_tstore e ptr) = Some cr"
  using assms by (auto simp: confirmation_def confirmStep_def res_simps Let_def split: if_splits)

lemma settleOne_confirmation:
  assumes s: "settleOne E i e ch = Some (e', removed, ch', progressed)"
    and k: "findCurrentStepIdx (e_tstore e (e_transitions e ! i)) = Some k"
    and p: "reg_get (env_registry E) (t_Type (e_tstore e (e_transitions e ! i)))
             (t_PlanID (e_tstore e (e_transitions e ! i))) = Some p"
  shows "\<exists>cr. confirmation E (e_tstore e) (e_g e) (e_tstore e (e_transitions e ! i)) = Some cr
    \<and> (progressed \<longleftrightarrow> allConfirmed cr)"
proof -
  let ?ptr = "e_transitions e ! i"
  obtain rctx slot cr composed c e1 where r: "settleResolve E p (e_tstore e ?ptr) (e_g e) = Some (rctx, slot)"
    and c: "confirmStep E p ?ptr rctx k (Some ch) e = Some (cr, composed, c, e1)"
    and pr: "progressed \<longleftrightarrow> allConfirmed cr"
    using s k p unfolding allConfirmed_iff
    by (auto simp: settleOne_def Let_def res_simps split: if_splits)
  then show ?thesis using confirmation_eq [OF c p r k] by blast
qed

text \<open>C9: settling passes a step only when it is confirmed. When an iteration of \<open>settleTransitions\<close>
  advances or completes a transition that has an open step, the confirm callback of that step, evaluated
  in the contexts before the iteration, reported every replica that must confirm as confirmed; when it does
  not, the transition keeps the statuses of its steps and stays in the index.\<close>

theorem settle_needs_confirmation:
  assumes "settleOne E i e ch = Some (e', removed, ch', progressed)" and "i < length (e_transitions e)"
    and "findCurrentStepIdx (e_tstore e (e_transitions e ! i)) = Some k"
    and "reg_get (env_registry E) (t_Type (e_tstore e (e_transitions e ! i)))
             (t_PlanID (e_tstore e (e_transitions e ! i))) = Some p"
  shows "\<exists>cr. confirmation E (e_tstore e) (e_g e) (e_tstore e (e_transitions e ! i)) = Some cr
    \<and> (if allConfirmed cr
       then progressed \<and> (removed \<or> findCurrentStepIdx (e_tstore e' (e_transitions e ! i)) = Some (Suc k))
       else \<not> removed \<and> e_transitions e' = e_transitions e
         \<and> (\<forall>q. statuses (e_tstore e' q) = statuses (e_tstore e q)))"
proof -
  obtain cr where cr: "confirmation E (e_tstore e) (e_g e) (e_tstore e (e_transitions e ! i)) = Some cr"
    "progressed \<longleftrightarrow> allConfirmed cr"
    using settleOne_confirmation [OF assms(1,3,4)] by blast
  note post = settleOne_post [OF assms(1)]
  have "findCurrentStepIdx (e_tstore e' (e_transitions e ! i)) = Some (Suc k)" if "progressed" "\<not> removed"
    using post that assms(3) by (auto simp: settle_post_def intro: findCurrentStepIdx_advance)
  moreover have "\<not> removed \<and> e_transitions e' = e_transitions e
      \<and> (\<forall>q. statuses (e_tstore e' q) = statuses (e_tstore e q))" if "\<not> progressed"
    using post that unfolding settle_post_def by (metis (full_types))
  ultimately show ?thesis using cr by auto
qed

theorem settle_needs_confirmation_witness:
  "\<exists>e' removed ch' progressed cr. settleOne demoEnv 0 (demoEngine (IDSet_Of [0, 1])) False = Some (e', removed, ch', progressed)
     \<and> confirmation demoEnv (e_tstore (demoEngine (IDSet_Of [0, 1]))) (e_g (demoEngine (IDSet_Of [0, 1])))
         (e_tstore (demoEngine (IDSet_Of [0, 1])) (e_transitions (demoEngine (IDSet_Of [0, 1])) ! 0)) = Some cr"
proof -
  let ?e = "demoEngine (IDSet_Of [0, 1])"
  obtain e' removed ch' progressed where s: "settleOne demoEnv 0 ?e False = Some (e', removed, ch', progressed)"
    using demo_facts(4) by (auto simp: Option.is_none_def)
  obtain p where p: "reg_get (env_registry demoEnv) (t_Type (e_tstore ?e (e_transitions ?e ! 0)))
      (t_PlanID (e_tstore ?e (e_transitions ?e ! 0))) = Some p"
    using demo_facts(3) by (auto simp: Option.is_none_def demo_facts(6,7))
  show ?thesis using settle_needs_confirmation [OF s _ demo_facts(1) p] demo_facts(2) s by auto
qed

subsection \<open>Nothing confirmed is left behind\<close>

text \<open>Contexts that differ only in what the slots' \<open>SetStatus\<close> wrote.\<close>

inductive statusWrites :: "('g, 'r) EngineEnv \<Rightarrow> 'g \<Rightarrow> 'g \<Rightarrow> bool" for E where
  none: "statusWrites E g g"
| one: "statusWrites E g g' \<Longrightarrow> replicaSlotAccessor (env_registry E) i = Some acc \<Longrightarrow>
    statusWrites E g (SetStatus acc r msg det g')"

lemma statusWrites_trans: "statusWrites E g1 g2 \<Longrightarrow> statusWrites E g0 g1 \<Longrightarrow> statusWrites E g0 g2"
  by (induction rule: statusWrites.induct) (auto intro: statusWrites.intros)

text \<open>A transition that waits: its plan is unknown, or its current step is not confirmed.\<close>

definition waits :: "('g, 'r) EngineEnv \<Rightarrow> tstore \<Rightarrow> 'g \<Rightarrow> Transition \<Rightarrow> bool" where
  "waits E ts g t \<longleftrightarrow> reg_get (env_registry E) (t_Type t) (t_PlanID t) = None
     \<or> (\<exists>cr. confirmation E ts g t = Some cr \<and> \<not> allConfirmed cr)"

text \<open>Nothing happened between two engines but progress messages and statuses.\<close>

definition quiet :: "('g, 'r) EngineEnv \<Rightarrow> 'g Engine \<Rightarrow> 'g Engine \<Rightarrow> bool" where
  "quiet E e e' \<longleftrightarrow> e_transitions e' = e_transitions e \<and> statusWrites E (e_g e) (e_g e')
     \<and> (\<forall>q. hdr (e_tstore e' q) = hdr (e_tstore e q) \<and> statuses (e_tstore e' q) = statuses (e_tstore e q))"

lemma quiet_refl [simp]: "quiet E e e"
  by (simp add: quiet_def statusWrites.none)

lemma quiet_trans: "quiet E e e1 \<Longrightarrow> quiet E e1 e2 \<Longrightarrow> quiet E e e2"
  by (auto simp: quiet_def intro: statusWrites_trans)

lemma settleOne_idle:
  assumes "settleOne E i e ch = Some (e', removed, ch', False)"
  shows "\<not> removed \<and> quiet E e e' \<and> waits E (e_tstore e) (e_g e) (e_tstore e (e_transitions e ! i))"
  using assms
proof (cases rule: settleOne_cases)
  case unknown
  then show ?thesis by (auto simp: waits_def)
next
  case (wait p rctx slot k cr composed c d e1)
  have sl: "slot = None \<or> (\<exists>j acc. slot = Some acc \<and> replicaSlotAccessor (env_registry E) j = Some acc)"
    using wait(8) by (cases slot) (auto simp: settleResolve_def res_simps split: if_splits)
  have "statusWrites E (e_g e) (e_g (setSlotStatus slot rctx composed d e1))"
    using sl confirmStep_SomeD [OF wait(2)]
    by (auto simp: setSlotStatus_def intro: statusWrites.intros split: option.splits)
  then have "quiet E e e'"
    using wait(3) confirmStep_SomeD [OF wait(2)] confirmStep_statuses(1,2) [OF wait(2)] by (simp add: quiet_def)
  moreover have "waits E (e_tstore e) (e_g e) (e_tstore e (e_transitions e ! i))"
    using settleOne_confirmation [OF assms wait(1,7)] by (auto simp: waits_def)
  ultimately show ?thesis using wait(4) by simp
qed auto

text \<open>The transition at index \<open>j\<close> was seen waiting, and nothing happened since.\<close>

definition seenWaiting :: "('g, 'r) EngineEnv \<Rightarrow> 'g Engine \<Rightarrow> nat \<Rightarrow> bool" where
  "seenWaiting E e' j \<longleftrightarrow> (\<exists>e :: 'g Engine. quiet E e e' \<and> waits E (e_tstore e) (e_g e) (e_tstore e (e_transitions e ! j)))"

text \<open>One unfolding of the index loop.\<close>

lemma settleFrom_step:
  assumes "settleFrom E i e ch pr = Some r" and "i < length (e_transitions e)"
  obtains e1 rem ch1 pr1 where "settleOne E i e ch = Some (e1, rem, ch1, pr1)"
    "settleFrom E (if rem then i else Suc i) e1 ch1 (pr \<or> pr1) = Some r"
  using assms by (subst (asm) settleFrom.simps) (auto split: option.splits)

lemma settleFrom_progress: "settleFrom E i e ch pr = Some (e', ch', False) \<Longrightarrow> \<not> pr"
proof (induction E i e ch pr rule: settleFrom.induct)
  case (1 E i e ch pr)
  show ?case
  proof (cases "i < length (e_transitions e)")
    case False
    then show ?thesis using 1(2) by (simp add: settleFrom.simps)
  next
    case True
    from settleFrom_step [OF 1(2) True] show ?thesis using 1(1) [OF True _ refl refl refl] by metis
  qed
qed

lemma settleFrom_idle:
  "settleFrom E i e ch pr = Some (e', ch', False) \<Longrightarrow>
     quiet E e e' \<and> (\<forall>j. i \<le> j \<longrightarrow> j < length (e_transitions e') \<longrightarrow> seenWaiting E e' j)"
proof (induction E i e ch pr rule: settleFrom.induct)
  case (1 E i e ch pr)
  show ?case
  proof (cases "i < length (e_transitions e)")
    case False
    then show ?thesis using 1(2) by (simp add: settleFrom.simps)
  next
    case True
    obtain e1 rem ch1 pr1 where s: "settleOne E i e ch = Some (e1, rem, ch1, pr1)"
      and rest: "settleFrom E (if rem then i else Suc i) e1 ch1 (pr \<or> pr1) = Some (e', ch', False)"
      using settleFrom_step [OF 1(2) True] .
    have "\<not> (pr \<or> pr1)" using settleFrom_progress [OF rest] by blast
    then have idle: "\<not> rem" "quiet E e e1" "waits E (e_tstore e) (e_g e) (e_tstore e (e_transitions e ! i))"
      using settleOne_idle [of E i e ch e1 rem ch1] s by auto
    have ih: "quiet E e1 e'" "\<forall>j. Suc i \<le> j \<longrightarrow> j < length (e_transitions e') \<longrightarrow> seenWaiting E e' j"
      using 1(1) [OF True s refl refl refl rest] idle(1) by simp_all
    have q: "quiet E e e'" using idle(2) ih(1) by (rule quiet_trans)
    then have "seenWaiting E e' i" using idle(3) unfolding seenWaiting_def by blast
    then show ?thesis using q ih(2) by (metis Suc_leI le_neq_implies_less)
  qed
qed

lemma settleUntilStable_idle:
  "settleUntilStable E e ch = Some (e', ch') \<Longrightarrow> \<forall>j < length (e_transitions e'). seenWaiting E e' j"
proof (induction E e ch rule: settleUntilStable.induct)
  case (1 E e ch)
  obtain e1 sc pr where s: "settleTransitions E e = Some (e1, sc, pr)"
    using 1(2) by (subst (asm) settleUntilStable.simps) (auto split: option.splits)
  show ?case
  proof (cases pr)
    case True
    then have "settleUntilStable E e1 (ch \<or> sc) = Some (e', ch')"
      using 1(2) s by (subst (asm) settleUntilStable.simps) simp
    then show ?thesis using 1(1) [OF s refl refl True] by blast
  next
    case False
    then have "e' = e1" using 1(2) s by (subst (asm) settleUntilStable.simps) simp
    then show ?thesis using settleFrom_idle [of E 0 e False False e1 sc] s False by (auto simp: settleTransitions_def)
  qed
qed



subsection \<open>Cancelling before admission\<close>

lemma ptrPos_bound: "ptrPos q xs = Some j \<Longrightarrow> j < length xs \<and> xs ! j = q"
  using nth_length_takeWhile [of "\<lambda>x. x \<noteq> q" xs] by (auto simp: ptrPos_def Let_def split: if_splits)

text \<open>C37: a plan with \<open>CancelActiveOnCreate\<close> (the force removals and the force detach) cancels before it is
  admitted. When its guards block, the dispatch is reported as not having changed anything, and the
  transition that was active in the slot is gone from the index all the same.\<close>

theorem blocked_dispatch_still_cancels:
  assumes "reg_get (env_registry E) (d_transitionType d) (d_planID d) = Some p" and "d_planID d \<noteq> []"
    and "pl_scope p = ReplicaScope" and "cancelActiveOnCreate p"
    and "replicaSlotAccessor (env_registry E) (pl_slot p) = Some s" and "d_replicaCtx d = Some r"
    and "GetActiveTransition s (e_g e) r = Some ptr" and "ptrPos ptr (e_transitions e) = Some j"
    and "trk_Remove (env_tracker E) (e_tstore e ptr) (e_g e) = Some g1"
    and "GetActiveTransition s (SetActiveTransition s r None g1) r = None"
    and "evaluateGuards p (e_tstore e) (SetActiveTransition s r None g1) (Some r) = Some (res, g2)" and "Blocked res"
  shows "\<exists>e'. runDecision E d e = Some (False, e') \<and> e_transitions e' = delete_at j (e_transitions e)
     \<and> length (e_transitions e') < length (e_transitions e)"
proof -
  have j: "j < length (e_transitions e)" "e_transitions e ! j = ptr" using ptrPos_bound [OF assms(8)] by simp_all
  let ?e1 = "e \<lparr> e_g := SetActiveTransition s r None g1, e_transitions := delete_at j (e_transitions e) \<rparr>"
  have c: "cancelActive E s r e = Some ?e1"
    using assms(7-9) j by (simp add: cancelActive_def deleteTransition_def index_def)
  have "slotConflict E p s r ?e1 = None" using assms(10) by (simp add: slotConflict_def)
  then have "runDecision E d e = Some (False, setSlotStatus (Some s) (Some r)
      (composeBlocked (displayName p) (gr_Message res)) (gr_Details res) (?e1 \<lparr> e_g := g2 \<rparr>))"
    using assms(1-6,11,12) c by (simp add: runDecision_def dispatchOne_def admitAndCreate_def Let_def)
  then show ?thesis using j(1) by (simp add: length_delete_at)
qed

text \<open>A replica plan whose guard always blocks, on a context that is just the slot.\<close>

definition demoForce :: "(tptr option, unit) plan option" where
  "demoForce = do {
     s \<leftarrow> ReplicaStep ''remove'' (Some (\<lambda>ts g r. Some (True, g))) (Some (\<lambda>ts g r rev'. Some \<lparr> MustConfirm = 0, Confirmed = 0 \<rparr>));
     Build_plan (PB_Steps [RawReplicaStep s] (PB_Guards [RawReplica (\<lambda>ts g r. Some (guardBlock ''attached'', g))]
       (PB_CancelActiveOnCreate True (PB_Group G_Emergency (Plan (ReplicaTransition TT_ForceRemoveReplica 0) ''access/v1''))))) }"

definition demoSlot :: "(tptr option, unit) ReplicaSlotAccessor" where
  "demoSlot = \<lparr> GetActiveTransition = (\<lambda>g r. g), SetActiveTransition = (\<lambda>r q g. q), SetStatus = (\<lambda>r m d g. g) \<rparr>"

definition demoForceEnv :: "(tptr option, unit) EngineEnv" where
  "demoForceEnv = \<lparr> env_registry = \<lparr> replicaSlotAccessors = [Some demoSlot, None],
       plans = [((TT_ForceRemoveReplica, ''access/v1''), the demoForce)] \<rparr>,
     env_tracker = \<lparr> trk_Add = (\<lambda>_ _ g. Some g), trk_Remove = (\<lambda>_ g. Some g),
       trk_CanAdmit = (\<lambda>_ _. Some (True, [], None)) \<rparr>,
     env_dispatchers = [],
     env_cp = \<lparr> cp_Replica = (\<lambda>_ _. Some None), rc_Name = (\<lambda>_ _. []), rc_Exists = (\<lambda>_ _. False),
       rc_Generation = (\<lambda>_ _. 0), rc_Conditions = (\<lambda>_ _. []) \<rparr>,
     env_now = int \<rparr>"

definition demoForceEngine :: "tptr option Engine" where
  "demoForceEngine = \<lparr> e_revision = 5, e_tstore = (\<lambda>_. emptyTransition), e_originalLen = 1, e_transitions = [Orig 0],
     e_nextNew = 0, e_clock = 0, e_g = Some (Orig 0), e_finalized = False \<rparr>"

lemma demoForce_eq: "demoForce = Some (the demoForce) \<and> pl_scope (the demoForce) = ReplicaScope
    \<and> cancelActiveOnCreate (the demoForce) \<and> pl_slot (the demoForce) = 0"
  by (simp add: demoForce_def ReplicaStep_def Build_plan_def Plan_def PB_Steps_def PB_Guards_def
      PB_CancelActiveOnCreate_def PB_Group_def ReplicaTransition_def planIDMatch_def isLowerAlnum_def isDigitChar_def
      panicUnless_def)

theorem blocked_dispatch_still_cancels_witness:
  "\<exists>e'. runDecision demoForceEnv (DispatchReplica () TT_ForceRemoveReplica ''access/v1'') demoForceEngine = Some (False, e')
     \<and> e_transitions e' = []"
proof -
  have "\<exists>res g2. evaluateGuards (the demoForce) (e_tstore demoForceEngine) (SetActiveTransition demoSlot () None (Some (Orig 0))) (Some ())
      = Some (res, g2) \<and> Blocked res"
    by (simp add: demoForce_def ReplicaStep_def Build_plan_def Plan_def PB_Steps_def PB_Guards_def
      PB_CancelActiveOnCreate_def PB_Group_def ReplicaTransition_def planIDMatch_def isLowerAlnum_def isDigitChar_def
      panicUnless_def evaluateGuards_def)
  then obtain res g2 where g: "evaluateGuards (the demoForce) (e_tstore demoForceEngine)
      (SetActiveTransition demoSlot () None (Some (Orig 0))) (Some ()) = Some (res, g2)" "Blocked res" by blast
  have "\<exists>e'. runDecision demoForceEnv (DispatchReplica () TT_ForceRemoveReplica ''access/v1'') demoForceEngine = Some (False, e')
      \<and> e_transitions e' = delete_at 0 (e_transitions demoForceEngine)
      \<and> length (e_transitions e') < length (e_transitions demoForceEngine)"
    using demoForce_eq
    by (intro blocked_dispatch_still_cancels [where p = "the demoForce" and s = demoSlot and r = "()" and ptr = "Orig 0"
          and j = 0 and ?g1.0 = "Some (Orig 0)" and res = res and ?g2.0 = g2])
      (simp_all add: demoForceEnv_def DispatchReplica_def reg_get_def replicaSlotAccessor_def MaxReplicaSlots_def
        demoForceEngine_def demoSlot_def ptrPos_def g [unfolded demoForceEngine_def demoSlot_def, simplified])
  then show ?thesis by (auto simp: demoForceEngine_def delete_at_def)
qed

end
