(* ===== verification/Flow.thy ===== *)
theory Flow
  imports Prelude
begin

text \<open>
  The outcome algebra of the reconcilers, \<open>lib/go/common/reconciliation/flow\<close>: phase names, Go errors
  with wrapping and joining, \<open>ReconcileOutcome\<close> and \<open>EnsureOutcome\<close> with their constructors and merges,
  and the conversion to the result the controller runtime reads. Logging has no effect on outcomes and is
  left out, except for the flag that says whether an error has been logged.

  A duration is an integer number of nanoseconds.
\<close>

subsection \<open>Errors\<close>

text \<open>What an error of the API client says about its cause; the client classifies a status error by its
  reason.\<close>

datatype ErrKind = EK_NotFound | EK_AlreadyExists | EK_Conflict | EK_Other

text \<open>An error is a leaf with a message, a wrapped error (\<open>fmt.Errorf("%s: %w", msg, err)\<close>) or a join. A
  leaf made by the API server carries the details of the object it is about: kind, group and name.\<close>

datatype goErr =
    ErrLeaf ErrKind string "(string \<times> string \<times> string) option"
  | ErrWrap string goErr
  | ErrJoin "goErr list"

fun err_Error :: "goErr \<Rightarrow> string" where
  "err_Error (ErrLeaf k msg d) = msg"
| "err_Error (ErrWrap msg e) = msg @ '': '' @ err_Error e"
| "err_Error (ErrJoin es) = join [CHR 0x0A] (map err_Error es)"

text \<open>\<open>nil\<close> is \<open>None\<close>.\<close>

definition Wrapf :: "goErr option \<Rightarrow> string \<Rightarrow> goErr option" where
  "Wrapf err msg = (case err of None \<Rightarrow> None | Some e \<Rightarrow> Some (ErrWrap msg e))"

text \<open>\<open>errors.Join\<close> of errors that are not nil: nil for an empty list.\<close>

definition errors_Join :: "goErr list \<Rightarrow> goErr option" where
  "errors_Join errs = (if errs = [] then None else Some (ErrJoin errs))"

fun isExpectedTransient :: "goErr \<Rightarrow> bool" where
  "isExpectedTransient (ErrJoin es) \<longleftrightarrow> es \<noteq> [] \<and> list_all isExpectedTransient es"
| "isExpectedTransient (ErrWrap msg e) \<longleftrightarrow> isExpectedTransient e"
| "isExpectedTransient (ErrLeaf k msg d) \<longleftrightarrow> k = EK_Conflict"

definition isExpectedTransientError :: "goErr option \<Rightarrow> bool" where
  "isExpectedTransientError err = (case err of None \<Rightarrow> False | Some e \<Rightarrow> isExpectedTransient e)"

text \<open>\<open>errors.As(err, &se)\<close> for \<open>*StatusError\<close>: the first leaf, in depth-first order, that the API server
  made.\<close>

fun asStatusError :: "goErr \<Rightarrow> (string \<times> (string \<times> string \<times> string)) option" where
  "asStatusError (ErrLeaf k msg d) = map_option (Pair msg) d"
| "asStatusError (ErrWrap msg e) = asStatusError e"
| "asStatusError (ErrJoin es) = (case find (\<lambda>x. x \<noteq> None) (map asStatusError es) of Some r \<Rightarrow> r | None \<Rightarrow> None)"

definition hasSuffix :: "string \<Rightarrow> string \<Rightarrow> bool" where
  "hasSuffix s suffix \<longleftrightarrow> length suffix \<le> length s \<and> drop (length s - length suffix) s = suffix"

definition cleanTransientErrorMessage :: "goErr \<Rightarrow> string" where
  "cleanTransientErrorMessage err = (case asStatusError err of
     Some (leafMsg, kind, grp, name) \<Rightarrow>
       (let resource = (if grp \<noteq> [] then kind @ ''.'' @ grp else kind);
            fullMsg = err_Error err;
            suffix = '': '' @ leafMsg;
            what = ''conflict on '' @ resource @ ''/'' @ name @ '' (will requeue)''
        in if hasSuffix fullMsg suffix
           then take (length fullMsg - length suffix) fullMsg @ '': '' @ what
           else what)
   | None \<Rightarrow> err_Error err @ '' (will requeue)'')"

subsection \<open>Phase names\<close>

text \<open>The loop of \<open>mustBeValidPhaseName\<close>: \<open>None\<close> is the panic, otherwise the length of the last segment.\<close>

definition phaseChar :: "char \<Rightarrow> bool" where
  "phaseChar c = (let n = (of_char c :: nat) in (97 \<le> n \<and> n \<le> 122) \<or> (65 \<le> n \<and> n \<le> 90) \<or> (48 \<le> n \<and> n \<le> 57)
     \<or> c = CHR ''-'' \<or> c = CHR ''_'' \<or> c = CHR ''.'')"

fun phaseSegments :: "string \<Rightarrow> nat \<Rightarrow> nat option" where
  "phaseSegments [] segLen = Some segLen"
| "phaseSegments (c # cs) segLen =
     (let n = (of_char c :: nat) in
      if n \<le> 32 \<or> n = 127 then None
      else if c = CHR ''/'' then (if segLen = 0 then None else phaseSegments cs 0)
      else if \<not> phaseChar c then None
      else phaseSegments cs (Suc segLen))"

definition mustBeValidPhaseName :: "string \<Rightarrow> unit option" where
  "mustBeValidPhaseName name = do {
     panicUnless (name \<noteq> []);
     segLen \<leftarrow> phaseSegments name 0;
     panicUnless (segLen \<noteq> 0) }"

definition mustBeValidKV :: "string list \<Rightarrow> unit option" where
  "mustBeValidKV kv = panicUnless (length kv mod 2 = 0)"

text \<open>\<open>BeginReconcile\<close>, \<open>BeginEnsure\<close> and \<open>BeginStep\<close> do nothing else that matters to the outcome.\<close>

definition BeginReconcile :: "string \<Rightarrow> string list \<Rightarrow> unit option" where
  "BeginReconcile phaseName kv = do { mustBeValidPhaseName phaseName; mustBeValidKV kv }"

subsection \<open>Reconcile outcomes\<close>

record ctrlResult =
  Requeue :: bool
  RequeueAfter :: int

record ReconcileOutcome =
  o_terminal :: bool
  o_requeueIntent :: "ctrlResult option"
  o_err :: "goErr option"
  o_errorLogged :: bool
  o_changed :: bool

definition zeroOutcome :: ReconcileOutcome where
  "zeroOutcome = \<lparr> o_terminal = False, o_requeueIntent = None, o_err = None, o_errorLogged = False, o_changed = False \<rparr>"

definition rf_Continue :: ReconcileOutcome where
  "rf_Continue = zeroOutcome"

definition rf_Done :: ReconcileOutcome where
  "rf_Done = zeroOutcome \<lparr> o_terminal := True \<rparr>"

definition rf_DoneAndRequeue :: ReconcileOutcome where
  "rf_DoneAndRequeue = zeroOutcome \<lparr> o_terminal := True,
     o_requeueIntent := Some \<lparr> Requeue = True, RequeueAfter = 0 \<rparr> \<rparr>"

definition rf_DoneAndRequeueAfter :: "int \<Rightarrow> ReconcileOutcome option" where
  "rf_DoneAndRequeueAfter d = do {
     panicUnless (d > 0);
     Some (zeroOutcome \<lparr> o_terminal := True, o_requeueIntent := Some \<lparr> Requeue = False, RequeueAfter = d \<rparr> \<rparr>) }"

definition rf_ContinueAndRequeue :: ReconcileOutcome where
  "rf_ContinueAndRequeue = zeroOutcome \<lparr> o_requeueIntent := Some \<lparr> Requeue = True, RequeueAfter = 0 \<rparr> \<rparr>"

definition rf_ContinueAndRequeueAfter :: "int \<Rightarrow> ReconcileOutcome option" where
  "rf_ContinueAndRequeueAfter d = do {
     panicUnless (d > 0);
     Some (zeroOutcome \<lparr> o_requeueIntent := Some \<lparr> Requeue = False, RequeueAfter = d \<rparr> \<rparr>) }"

definition rf_Fail :: "goErr option \<Rightarrow> ReconcileOutcome option" where
  "rf_Fail err = do {
     panicUnless (err \<noteq> None);
     Some (zeroOutcome \<lparr> o_terminal := True, o_err := err \<rparr>) }"

definition rf_Failf :: "goErr option \<Rightarrow> string \<Rightarrow> ReconcileOutcome option" where
  "rf_Failf err msg = rf_Fail (Wrapf err msg)"

text \<open>\<open>Fail\<close> of an error that is not nil.\<close>

definition failure :: "goErr \<Rightarrow> ReconcileOutcome" where
  "failure e = zeroOutcome \<lparr> o_terminal := True, o_err := Some e \<rparr>"

definition rf_DoneOrFail :: "goErr option \<Rightarrow> ReconcileOutcome option" where
  "rf_DoneOrFail err = (if err \<noteq> None then rf_Fail err else Some rf_Done)"

definition ShouldReturn :: "ReconcileOutcome \<Rightarrow> bool" where
  "ShouldReturn o' = o_terminal o'"

definition outcome_Enrichf :: "string \<Rightarrow> ReconcileOutcome \<Rightarrow> ReconcileOutcome" where
  "outcome_Enrichf msg o' = (if o_err o' = None then o' else o' \<lparr> o_err := Wrapf (o_err o') msg \<rparr>)"

definition ToCtrl :: "ReconcileOutcome \<Rightarrow> ctrlResult \<times> goErr option" where
  "ToCtrl o' =
     (if o_err o' \<noteq> None \<and> isExpectedTransientError (o_err o')
      then (\<lparr> Requeue = True, RequeueAfter = 0 \<rparr>, None)
      else case o_requeueIntent o' of
        Some r \<Rightarrow> (r, o_err o')
      | None \<Rightarrow> (\<lparr> Requeue = False, RequeueAfter = 0 \<rparr>, o_err o'))"

definition MustToCtrl :: "ReconcileOutcome \<Rightarrow> (ctrlResult \<times> goErr option) option" where
  "MustToCtrl o' = do {
     panicUnless (\<not> (\<not> o_terminal o' \<and> o_requeueIntent o' = None));
     Some (ToCtrl o') }"

definition ReportChanged :: "ReconcileOutcome \<Rightarrow> ReconcileOutcome" where
  "ReportChanged o' = o' \<lparr> o_changed := True \<rparr>"

definition ReportChangedIf :: "bool \<Rightarrow> ReconcileOutcome \<Rightarrow> ReconcileOutcome" where
  "ReportChangedIf cond o' = o' \<lparr> o_changed := (o_changed o' \<or> cond) \<rparr>"

definition requeueDelay :: "ctrlResult option \<Rightarrow> int" where
  "requeueDelay r = (case r of
     None \<Rightarrow> -1
   | Some c \<Rightarrow> if Requeue c then 0 else if RequeueAfter c > 0 then RequeueAfter c else -1)"

definition delayToRequeueIntent :: "int \<Rightarrow> ctrlResult option" where
  "delayToRequeueIntent d =
     (if d < 0 then None
      else if d = 0 then Some \<lparr> Requeue = True, RequeueAfter = 0 \<rparr>
      else Some \<lparr> Requeue = False, RequeueAfter = d \<rparr>)"

text \<open>The local variables of \<open>MergeReconciles\<close> and the body of its loop.\<close>

record mergeState =
  ms_errs :: "goErr list"
  ms_allErrorsLogged :: bool
  ms_anyChanged :: bool
  ms_hasTerminal :: bool
  ms_terminalDelay :: int
  ms_nonTerminalDelay :: int

definition mergeInit :: mergeState where
  "mergeInit = \<lparr> ms_errs = [], ms_allErrorsLogged = True, ms_anyChanged = False, ms_hasTerminal = False,
     ms_terminalDelay = -1, ms_nonTerminalDelay = -1 \<rparr>"

definition betterDelay :: "int \<Rightarrow> int \<Rightarrow> bool" where
  "betterDelay delay current \<longleftrightarrow> delay \<ge> 0 \<and> (current < 0 \<or> delay < current)"

definition mergeOne :: "mergeState \<Rightarrow> ReconcileOutcome \<Rightarrow> mergeState" where
  "mergeOne s o' =
     (let s1 = (case o_err o' of None \<Rightarrow> s
                | Some e \<Rightarrow> s \<lparr> ms_errs := ms_errs s @ [e], ms_allErrorsLogged := (ms_allErrorsLogged s \<and> o_errorLogged o') \<rparr>);
          s2 = s1 \<lparr> ms_anyChanged := (ms_anyChanged s1 \<or> o_changed o') \<rparr>;
          delay = requeueDelay (o_requeueIntent o')
      in if o_terminal o'
         then s2 \<lparr> ms_hasTerminal := True,
                   ms_terminalDelay := (if betterDelay delay (ms_terminalDelay s2) then delay else ms_terminalDelay s2) \<rparr>
         else if betterDelay delay (ms_nonTerminalDelay s2) then s2 \<lparr> ms_nonTerminalDelay := delay \<rparr>
         else s2)"

definition mergeResult :: "mergeState \<Rightarrow> ReconcileOutcome" where
  "mergeResult s =
     (let result = zeroOutcome \<lparr> o_changed := ms_anyChanged s \<rparr>
      in case errors_Join (ms_errs s) of
           Some err \<Rightarrow> result \<lparr> o_terminal := True, o_err := Some err, o_errorLogged := ms_allErrorsLogged s \<rparr>
         | None \<Rightarrow>
             if ms_hasTerminal s
             then result \<lparr> o_terminal := True, o_requeueIntent := delayToRequeueIntent (ms_terminalDelay s) \<rparr>
             else result \<lparr> o_requeueIntent := delayToRequeueIntent (ms_nonTerminalDelay s) \<rparr>)"

definition MergeReconciles :: "ReconcileOutcome list \<Rightarrow> ReconcileOutcome" where
  "MergeReconciles outcomes = (if outcomes = [] then zeroOutcome else mergeResult (foldl mergeOne mergeInit outcomes))"

definition outcome_Merge :: "ReconcileOutcome \<Rightarrow> ReconcileOutcome list \<Rightarrow> ReconcileOutcome" where
  "outcome_Merge o' others = MergeReconciles (o' # others)"

definition reconcileOutcomeKind :: "ReconcileOutcome \<Rightarrow> string \<times> int" where
  "reconcileOutcomeKind o' =
     (if o_err o' \<noteq> None then (if isExpectedTransientError (o_err o') then (''Conflict'', 0) else (''Fail'', 0))
      else let prefix = (if o_terminal o' then ''Done'' else ''Continue'');
               delay = requeueDelay (o_requeueIntent o')
           in if delay < 0 then (prefix, 0)
              else if delay = 0 then (prefix @ ''AndRequeue'', 0)
              else (prefix @ ''AndRequeueAfter'', delay))"

subsection \<open>Ensure outcomes\<close>

record EnsureOutcome =
  e_err :: "goErr option"
  e_changed :: bool

definition ef_Ok :: EnsureOutcome where
  "ef_Ok = \<lparr> e_err = None, e_changed = False \<rparr>"

definition ef_Err :: "goErr option \<Rightarrow> EnsureOutcome" where
  "ef_Err err = \<lparr> e_err = err, e_changed = False \<rparr>"

definition ensure_ReportChangedIf :: "bool \<Rightarrow> EnsureOutcome \<Rightarrow> EnsureOutcome" where
  "ensure_ReportChangedIf cond o' = o' \<lparr> e_changed := (e_changed o' \<or> cond) \<rparr>"

definition ensure_Enrichf :: "string \<Rightarrow> EnsureOutcome \<Rightarrow> EnsureOutcome" where
  "ensure_Enrichf msg o' = (if e_err o' = None then o' else o' \<lparr> e_err := Wrapf (e_err o') msg \<rparr>)"

definition MergeEnsures :: "EnsureOutcome list \<Rightarrow> EnsureOutcome" where
  "MergeEnsures outcomes = (if outcomes = [] then ef_Ok
     else \<lparr> e_err = errors_Join (List.map_filter e_err outcomes), e_changed = list_ex e_changed outcomes \<rparr>)"

definition WithChangeFrom :: "EnsureOutcome \<Rightarrow> ReconcileOutcome \<Rightarrow> ReconcileOutcome" where
  "WithChangeFrom eo o' = o' \<lparr> o_changed := (o_changed o' \<or> e_changed eo) \<rparr>"

text \<open>A step returns a plain error; \<open>Err\<close> panics on nil.\<close>

definition sf_Err :: "goErr option \<Rightarrow> goErr option option" where
  "sf_Err err = do { panicUnless (err \<noteq> None); Some err }"

definition MergeSteps :: "goErr option list \<Rightarrow> goErr option" where
  "MergeSteps errs = errors_Join (List.map_filter id errs)"

subsection \<open>Merging as a commutation of trees\<close>

text \<open>Reconcilers merge outcomes of sub-reconcilers that are merges themselves. A merge that does not
  depend on this nesting, up to an equivalence, gives every tree of merges the value of the merge of its
  leaves.\<close>

datatype 'a mtree = MLeaf 'a | MNode "'a mtree list"

fun mleaves :: "'a mtree \<Rightarrow> 'a list" where
  "mleaves (MLeaf x) = [x]"
| "mleaves (MNode ts) = concat (map mleaves ts)"

fun mvalue :: "('a list \<Rightarrow> 'a) \<Rightarrow> 'a mtree \<Rightarrow> 'a" where
  "mvalue m (MLeaf x) = m [x]"
| "mvalue m (MNode ts) = m (map (mvalue m) ts)"

locale flat_merge =
  fixes m :: "'a list \<Rightarrow> 'a" and eqv :: "'a \<Rightarrow> 'a \<Rightarrow> bool"
  assumes eqv_refl: "eqv x x"
    and eqv_trans: "eqv x y \<Longrightarrow> eqv y z \<Longrightarrow> eqv x z"
    and cong: "list_all2 eqv xs ys \<Longrightarrow> eqv (m xs) (m ys)"
    and flat: "eqv (m (map m xss)) (m (concat xss))"
begin

lemma tree_value: "eqv (mvalue m t) (m (mleaves t))"
proof (induction t)
  case (MLeaf x)
  then show ?case by (simp add: eqv_refl)
next
  case (MNode ts)
  then have "list_all2 eqv (map (mvalue m) ts) (map (\<lambda>t. m (mleaves t)) ts)"
    by (simp add: list_all2_map1 list_all2_map2 list.rel_refl_strong)
  then have "eqv (m (map (mvalue m) ts)) (m (map m (map mleaves ts)))"
    using cong by (simp add: comp_def)
  then show ?case using flat [of "map mleaves ts"] eqv_trans by auto
qed

end

subsection \<open>The fold of \<open>MergeReconciles\<close> in closed form\<close>

definition minDelay :: "int \<Rightarrow> int \<Rightarrow> int" where
  "minDelay current delay = (if betterDelay delay current then delay else current)"

lemma minDelay_assoc: "minDelay (minDelay a b) c = minDelay a (minDelay b c)"
  by (auto simp: minDelay_def betterDelay_def)

lemma minDelay_unit: "minDelay (-1) d = (if d < 0 then -1 else d)"
  by (auto simp: minDelay_def betterDelay_def)

definition minDelays :: "int list \<Rightarrow> int" where
  "minDelays ds = foldl minDelay (-1) ds"

lemma foldl_minDelay: "foldl minDelay a ds = minDelay a (minDelays ds)"
proof (induction ds arbitrary: a)
  case Nil
  then show ?case by (simp add: minDelays_def minDelay_def betterDelay_def)
next
  case (Cons d ds)
  have "minDelays (d # ds) = minDelay (minDelay (-1) d) (minDelays ds)"
    using Cons.IH [of "minDelay (-1) d"] by (simp add: minDelays_def)
  moreover have "minDelay a (minDelay (minDelay (-1) d) x) = minDelay (minDelay a d) x" for x
    by (auto simp: minDelay_def betterDelay_def)
  ultimately show ?case using Cons.IH [of "minDelay a d"] by simp
qed

lemma minDelays_ge: "-1 \<le> minDelays ds"
proof (induction ds rule: rev_induct)
  case (snoc d ds)
  then show ?case by (auto simp: minDelays_def minDelay_def betterDelay_def)
qed (simp add: minDelays_def)

lemma minDelays_append: "minDelays (xs @ ys) = minDelay (minDelays xs) (minDelays ys)"
  using foldl_minDelay [of "minDelays xs" ys] by (simp add: minDelays_def)

lemma minDelays_lower: "d \<in> set ds \<Longrightarrow> 0 \<le> d \<Longrightarrow> 0 \<le> minDelays ds \<and> minDelays ds \<le> d"
proof (induction ds rule: rev_induct)
  case (snoc x ds)
  then show ?case by (auto simp: minDelays_append minDelay_def betterDelay_def) (auto simp: minDelays_def minDelay_def betterDelay_def)
qed simp

lemma minDelay_unit_right: "minDelay a (-1) = a"
  by (simp add: minDelay_def betterDelay_def)

definition errsOf :: "ReconcileOutcome list \<Rightarrow> goErr list" where
  "errsOf os = List.map_filter o_err os"

definition loggedOf :: "ReconcileOutcome list \<Rightarrow> bool" where
  "loggedOf os = list_all (\<lambda>x. o_err x \<noteq> None \<longrightarrow> o_errorLogged x) os"

definition delaysOf :: "bool \<Rightarrow> ReconcileOutcome list \<Rightarrow> int list" where
  "delaysOf t os = map (requeueDelay \<circ> o_requeueIntent) (filter (\<lambda>x. o_terminal x = t) os)"

lemma merge_fold:
  "foldl mergeOne s os = \<lparr> ms_errs = ms_errs s @ errsOf os, ms_allErrorsLogged = (ms_allErrorsLogged s \<and> loggedOf os),
     ms_anyChanged = (ms_anyChanged s \<or> list_ex o_changed os), ms_hasTerminal = (ms_hasTerminal s \<or> list_ex o_terminal os),
     ms_terminalDelay = foldl minDelay (ms_terminalDelay s) (delaysOf True os),
     ms_nonTerminalDelay = foldl minDelay (ms_nonTerminalDelay s) (delaysOf False os) \<rparr>"
proof (induction os arbitrary: s)
  case Nil
  then show ?case by (simp add: errsOf_def loggedOf_def delaysOf_def map_filter_simps)
next
  case (Cons x os)
  have "mergeOne s x = \<lparr> ms_errs = ms_errs s @ errsOf [x], ms_allErrorsLogged = (ms_allErrorsLogged s \<and> loggedOf [x]),
     ms_anyChanged = (ms_anyChanged s \<or> o_changed x), ms_hasTerminal = (ms_hasTerminal s \<or> o_terminal x),
     ms_terminalDelay = foldl minDelay (ms_terminalDelay s) (delaysOf True [x]),
     ms_nonTerminalDelay = foldl minDelay (ms_nonTerminalDelay s) (delaysOf False [x]) \<rparr>"
    by (cases s; cases "o_err x") (auto simp: mergeOne_def Let_def errsOf_def loggedOf_def delaysOf_def map_filter_simps minDelay_def)
  then show ?case
    using Cons.IH [of "mergeOne s x"]
    by (cases "o_err x") (auto simp: errsOf_def loggedOf_def delaysOf_def map_filter_simps)
qed

text \<open>The merged outcome in terms of the list.\<close>

lemma Merge_fields:
  assumes "os \<noteq> []"
  shows "o_changed (MergeReconciles os) = list_ex o_changed os"
    and "o_err (MergeReconciles os) = errors_Join (errsOf os)"
    and "o_terminal (MergeReconciles os) = (errsOf os \<noteq> [] \<or> list_ex o_terminal os)"
    and "o_errorLogged (MergeReconciles os) = (errsOf os \<noteq> [] \<and> loggedOf os)"
    and "o_requeueIntent (MergeReconciles os) =
       (if errsOf os \<noteq> [] then None else delayToRequeueIntent (minDelays (delaysOf (list_ex o_terminal os) os)))"
  using assms
  by (simp_all add: MergeReconciles_def mergeResult_def merge_fold mergeInit_def zeroOutcome_def errors_Join_def
      minDelays_def Let_def)

lemma Merge_Nil [simp]: "MergeReconciles [] = zeroOutcome"
  by (simp add: MergeReconciles_def)

text \<open>Outcomes that differ only in how their errors are joined.\<close>

fun errParts :: "goErr \<Rightarrow> goErr list" where
  "errParts (ErrJoin es) = concat (map errParts es)"
| "errParts e = [e]"

definition partsOf :: "goErr option \<Rightarrow> goErr list" where
  "partsOf err = (case err of None \<Rightarrow> [] | Some e \<Rightarrow> errParts e)"

definition sameOutcome :: "ReconcileOutcome \<Rightarrow> ReconcileOutcome \<Rightarrow> bool" where
  "sameOutcome a b \<longleftrightarrow> o_terminal a = o_terminal b \<and> requeueDelay (o_requeueIntent a) = requeueDelay (o_requeueIntent b)
     \<and> o_changed a = o_changed b \<and> (o_err a = None \<longleftrightarrow> o_err b = None) \<and> partsOf (o_err a) = partsOf (o_err b)
     \<and> (o_err a \<noteq> None \<longrightarrow> o_errorLogged a = o_errorLogged b)"

lemma requeue_roundtrip [simp]: "-1 \<le> d \<Longrightarrow> requeueDelay (delayToRequeueIntent d) = d"
  by (auto simp: requeueDelay_def delayToRequeueIntent_def)

lemma sameOutcome_refl: "sameOutcome a a"
  by (simp add: sameOutcome_def)

lemma sameOutcome_trans: "sameOutcome a b \<Longrightarrow> sameOutcome b c \<Longrightarrow> sameOutcome a c"
  unfolding sameOutcome_def by metis

lemma requeueDelay_None [simp]: "requeueDelay None = -1"
  by (simp add: requeueDelay_def)

lemma errors_Join_None [simp]: "errors_Join es = None \<longleftrightarrow> es = []"
  by (simp add: errors_Join_def)

lemma parts_errors_Join: "partsOf (errors_Join es) = concat (map errParts es)"
  by (simp add: errors_Join_def partsOf_def)

lemma parts_errsOf: "concat (map errParts (errsOf os)) = concat (map (\<lambda>x. partsOf (o_err x)) os)"
  by (induction os) (auto simp: errsOf_def map_filter_simps partsOf_def split: option.splits)

lemma errsOf_empty: "errsOf os = [] \<longleftrightarrow> list_all (\<lambda>x. o_err x = None) os"
  by (induction os) (auto simp: errsOf_def map_filter_simps split: option.splits)

lemma sameOutcome_lists:
  assumes "list_all2 sameOutcome xs ys"
  shows "list_ex o_changed xs = list_ex o_changed ys" and "list_ex o_terminal xs = list_ex o_terminal ys"
    and "delaysOf t xs = delaysOf t ys" and "errsOf xs = [] \<longleftrightarrow> errsOf ys = []" and "loggedOf xs = loggedOf ys"
    and "concat (map (\<lambda>x. partsOf (o_err x)) xs) = concat (map (\<lambda>x. partsOf (o_err x)) ys)"
  unfolding errsOf_empty
  using assms by (induction xs ys rule: list_all2_induct) (auto simp: sameOutcome_def delaysOf_def loggedOf_def)

lemma sameOutcome_cong:
  assumes "list_all2 sameOutcome xs ys"
  shows "sameOutcome (MergeReconciles xs) (MergeReconciles ys)"
proof (cases "xs = []")
  case True
  then show ?thesis using assms by (simp add: sameOutcome_def)
next
  case False
  then have "ys \<noteq> []" using assms by auto
  then show ?thesis
    using False sameOutcome_lists [OF assms]
    by (simp add: sameOutcome_def Merge_fields parts_errors_Join parts_errsOf minDelays_ge)
qed

text \<open>Merging merged lists.\<close>

lemma lists_Nil [simp]: "errsOf [] = []" "delaysOf t [] = []" "minDelays [] = -1" "loggedOf []"
  by (simp_all add: errsOf_def map_filter_simps delaysOf_def minDelays_def loggedOf_def)

lemma delaysOf_Cons:
  "delaysOf t (x # os) = (if o_terminal x = t then [requeueDelay (o_requeueIntent x)] else []) @ delaysOf t os"
  by (simp add: delaysOf_def)

lemma minDelays_single: "-1 \<le> d \<Longrightarrow> minDelays [d] = d"
  by (simp add: minDelays_def minDelay_unit)

lemma minDelay_left: "-1 \<le> d \<Longrightarrow> minDelay (-1) d = d"
  by (simp add: minDelay_unit)

lemma minDelays_Cons: "-1 \<le> d \<Longrightarrow> minDelays (d # ds) = minDelay d (minDelays ds)"
  using minDelays_append [of "[d]" ds] by (simp add: minDelays_single)

lemma minDelays_nested: "minDelays (map (\<lambda>os. minDelays (f os)) oss) = minDelays (concat (map f oss))"
  by (induction oss) (simp_all add: minDelays_Cons minDelays_ge minDelays_append)

lemma delaysOf_append: "delaysOf t (xs @ ys) = delaysOf t xs @ delaysOf t ys"
  by (simp add: delaysOf_def)

lemma delaysOf_concat: "delaysOf t (concat oss) = concat (map (delaysOf t) oss)"
  by (induction oss) (simp_all add: delaysOf_def)

lemma M_fields:
  "o_changed (MergeReconciles os) = list_ex o_changed os"
  "o_err (MergeReconciles os) = errors_Join (errsOf os)"
  "errsOf os = [] \<Longrightarrow> o_terminal (MergeReconciles os) = list_ex o_terminal os"
  "errsOf os = [] \<Longrightarrow> requeueDelay (o_requeueIntent (MergeReconciles os)) = minDelays (delaysOf (list_ex o_terminal os) os)"
  "errsOf os \<noteq> [] \<Longrightarrow> o_errorLogged (MergeReconciles os) = loggedOf os"
  "errsOf os \<noteq> [] \<Longrightarrow> o_terminal (MergeReconciles os)"
  "errsOf os \<noteq> [] \<Longrightarrow> o_requeueIntent (MergeReconciles os) = None"
  by (cases "os = []"; simp add: Merge_fields minDelays_ge; simp add: zeroOutcome_def requeueDelay_def errors_Join_def)+

lemma merged_terminal_delays:
  assumes "list_all (\<lambda>os. errsOf os = []) oss"
  shows "minDelays (delaysOf True (map MergeReconciles oss)) = minDelays (delaysOf True (concat oss))"
  using assms
proof (induction oss)
  case (Cons os oss)
  have none: "\<not> list_ex o_terminal os \<Longrightarrow> delaysOf True os = []"
    by (auto simp: delaysOf_def list_ex_iff)
  show ?case
    using Cons none
    by (cases "list_ex o_terminal os")
      (simp_all add: delaysOf_Cons M_fields minDelays_append minDelays_Cons minDelays_ge delaysOf_append)
qed simp

lemma errs_merged: "errsOf (map MergeReconciles oss) = [] \<longleftrightarrow> errsOf (concat oss) = []"
  by (induction oss) (auto simp: errsOf_empty M_fields)

lemma parts_merged:
  "concat (map (\<lambda>x. partsOf (o_err x)) (map MergeReconciles oss)) = concat (map (\<lambda>x. partsOf (o_err x)) (concat oss))"
  by (induction oss) (simp_all add: M_fields parts_errors_Join parts_errsOf)

lemma logged_merged: "loggedOf (map MergeReconciles oss) = loggedOf (concat oss)"
proof (induction oss)
  case (Cons os oss)
  have "errsOf os = [] \<Longrightarrow> loggedOf os" by (auto simp: errsOf_empty loggedOf_def list_all_iff)
  then have "(o_err (MergeReconciles os) \<noteq> None \<longrightarrow> o_errorLogged (MergeReconciles os)) = loggedOf os"
    by (cases "errsOf os = []") (simp_all add: M_fields)
  then show ?case using Cons by (simp add: loggedOf_def)
qed simp

lemma list_ex_merged:
  "list_ex o_changed (map MergeReconciles oss) = list_ex o_changed (concat oss)"
  "errsOf (concat oss) = [] \<Longrightarrow> list_ex o_terminal (map MergeReconciles oss) = list_ex o_terminal (concat oss)"
  by (induction oss) (auto simp: M_fields errsOf_empty)

lemma merged_delays:
  assumes "errsOf (concat oss) = []"
  shows "minDelays (delaysOf (list_ex o_terminal (concat oss)) (map MergeReconciles oss))
    = minDelays (delaysOf (list_ex o_terminal (concat oss)) (concat oss))"
proof (cases "list_ex o_terminal (concat oss)")
  case True
  then show ?thesis
    using merged_terminal_delays [of oss] assms by (simp add: errsOf_empty list_all_iff)
next
  case False
  have "\<forall>os \<in> set oss. errsOf os = [] \<and> \<not> list_ex o_terminal os"
    using assms False by (auto simp: errsOf_empty list_all_iff list_ex_iff)
  then have "delaysOf False (map MergeReconciles oss) = map (\<lambda>os. minDelays (delaysOf False os)) oss"
    by (induction oss) (simp_all add: delaysOf_Cons M_fields)
  then show ?thesis using False by (simp add: minDelays_nested delaysOf_concat)
qed

interpretation rm: flat_merge MergeReconciles sameOutcome
proof
  fix oss :: "ReconcileOutcome list list"
  show "sameOutcome (MergeReconciles (map MergeReconciles oss)) (MergeReconciles (concat oss))"
    using merged_delays [of oss] errs_merged [of oss] list_ex_merged [of oss] logged_merged [of oss] parts_merged [of oss]
    by (cases "errsOf (concat oss) = []")
      (simp_all add: sameOutcome_def M_fields parts_errors_Join parts_errsOf comp_def)
qed (blast intro: sameOutcome_refl sameOutcome_trans sameOutcome_cong)+

text \<open>The same for ensure outcomes.\<close>

definition sameEnsure :: "EnsureOutcome \<Rightarrow> EnsureOutcome \<Rightarrow> bool" where
  "sameEnsure a b \<longleftrightarrow> e_changed a = e_changed b \<and> (e_err a = None \<longleftrightarrow> e_err b = None)
     \<and> partsOf (e_err a) = partsOf (e_err b)"

lemma Ensure_fields:
  "e_changed (MergeEnsures os) = list_ex e_changed os"
  "e_err (MergeEnsures os) = None \<longleftrightarrow> (\<forall>x \<in> set os. e_err x = None)"
  "partsOf (e_err (MergeEnsures os)) = concat (map (\<lambda>x. partsOf (e_err x)) os)"
proof -
  have n: "List.map_filter e_err os = [] \<longleftrightarrow> (\<forall>x \<in> set os. e_err x = None)"
    and p: "concat (map errParts (List.map_filter e_err os)) = concat (map (\<lambda>x. partsOf (e_err x)) os)"
    by (induction os) (auto simp: map_filter_simps partsOf_def split: option.splits)
  show "e_changed (MergeEnsures os) = list_ex e_changed os" by (simp add: MergeEnsures_def ef_Ok_def)
  show "e_err (MergeEnsures os) = None \<longleftrightarrow> (\<forall>x \<in> set os. e_err x = None)" by (simp add: MergeEnsures_def ef_Ok_def n)
  show "partsOf (e_err (MergeEnsures os)) = concat (map (\<lambda>x. partsOf (e_err x)) os)"
    by (cases "os = []") (simp_all add: MergeEnsures_def ef_Ok_def parts_errors_Join p, simp add: partsOf_def)
qed

interpretation em: flat_merge MergeEnsures sameEnsure
proof
  fix xs ys
  assume "list_all2 sameEnsure xs ys"
  then show "sameEnsure (MergeEnsures xs) (MergeEnsures ys)"
    unfolding sameEnsure_def Ensure_fields by (induction xs ys rule: list_all2_induct) auto
next
  fix oss
  have "concat (map (\<lambda>x. partsOf (e_err x)) (map MergeEnsures oss)) = concat (map (\<lambda>x. partsOf (e_err x)) (concat oss))"
    by (induction oss) (simp_all add: Ensure_fields)
  moreover have "list_ex e_changed (map MergeEnsures oss) = list_ex e_changed (concat oss)"
    by (induction oss) (simp_all add: Ensure_fields)
  ultimately show "sameEnsure (MergeEnsures (map MergeEnsures oss)) (MergeEnsures (concat oss))"
    by (simp add: sameEnsure_def Ensure_fields)
qed (simp_all add: sameEnsure_def)

lemma transient_Join: "isExpectedTransientError (errors_Join es) \<longleftrightarrow> es \<noteq> [] \<and> list_all isExpectedTransient es"
  by (simp add: isExpectedTransientError_def errors_Join_def)

lemma errsOf_set: "e \<in> set (errsOf os) \<longleftrightarrow> (\<exists>x \<in> set os. o_err x = Some e)"
  by (induction os) (auto simp: errsOf_def map_filter_simps split: option.splits)

subsection \<open>Properties\<close>

text \<open>Nesting does not matter. However reconcilers merge outcomes of sub-reconcilers that merged theirs,
  the outcome is the one of merging all of them at once: it stops or goes on alike, requeues after the
  same delay, reports a change alike and carries the same errors in the same order, in whatever way
  they are joined.\<close>

theorem nested_merges_flatten:
  "sameOutcome (mvalue MergeReconciles t) (MergeReconciles (mleaves t))"
  by (rule rm.tree_value)

text \<open>C39: no failure is lost by a merge. The controller runtime gets no error from merged outcomes exactly
  if every error among them is an expected conflict; then it is told to requeue at once, if there was
  an error at all. The merge stops the caller as soon as one outcome does or failed, and asks for a
  requeue no later than any outcome it does not override.\<close>

theorem merge_loses_no_failure:
  "(snd (ToCtrl (MergeReconciles os)) = None \<longleftrightarrow> (\<forall>x e. x \<in> set os \<and> o_err x = Some e \<longrightarrow> isExpectedTransient e))
   \<and> (snd (ToCtrl (MergeReconciles os)) = None \<and> (\<exists>x \<in> set os. o_err x \<noteq> None)
        \<longrightarrow> Requeue (fst (ToCtrl (MergeReconciles os))))
   \<and> (ShouldReturn (MergeReconciles os) \<longleftrightarrow> (\<exists>x \<in> set os. ShouldReturn x \<or> o_err x \<noteq> None))
   \<and> (\<forall>x \<in> set os. o_err (MergeReconciles os) = None \<and> ShouldReturn x = ShouldReturn (MergeReconciles os)
        \<and> 0 \<le> requeueDelay (o_requeueIntent x)
        \<longrightarrow> 0 \<le> requeueDelay (o_requeueIntent (MergeReconciles os))
          \<and> requeueDelay (o_requeueIntent (MergeReconciles os)) \<le> requeueDelay (o_requeueIntent x))"
proof -
  have none: "errsOf os = [] \<longleftrightarrow> (\<forall>x \<in> set os. o_err x = None)" by (simp add: errsOf_empty list_all_iff)
  have tr: "list_all isExpectedTransient (errsOf os) \<longleftrightarrow> (\<forall>x e. x \<in> set os \<and> o_err x = Some e \<longrightarrow> isExpectedTransient e)"
    by (auto simp: list_all_iff errsOf_set)
  have a: "snd (ToCtrl (MergeReconciles os)) = None \<longleftrightarrow> list_all isExpectedTransient (errsOf os)"
    by (cases "errsOf os = []") (auto simp: ToCtrl_def M_fields transient_Join split: option.splits)
  have b: "snd (ToCtrl (MergeReconciles os)) = None \<and> errsOf os \<noteq> [] \<Longrightarrow> Requeue (fst (ToCtrl (MergeReconciles os)))"
    by (auto simp: ToCtrl_def M_fields transient_Join split: option.splits if_splits)
  have c: "ShouldReturn (MergeReconciles os) \<longleftrightarrow> errsOf os \<noteq> [] \<or> list_ex o_terminal os"
    by (cases "errsOf os = []") (auto simp: ShouldReturn_def M_fields)
  have d: "requeueDelay (o_requeueIntent x) \<in> set (delaysOf (list_ex o_terminal os) os)"
    if "x \<in> set os" "errsOf os = []" "ShouldReturn x = ShouldReturn (MergeReconciles os)" for x
    using that c by (auto simp: delaysOf_def ShouldReturn_def)
  have e: "0 \<le> requeueDelay (o_requeueIntent (MergeReconciles os))
      \<and> requeueDelay (o_requeueIntent (MergeReconciles os)) \<le> requeueDelay (o_requeueIntent x)"
    if "x \<in> set os" "errsOf os = []" "ShouldReturn x = ShouldReturn (MergeReconciles os)" "0 \<le> requeueDelay (o_requeueIntent x)" for x
    using minDelays_lower [OF d [OF that(1-3)] that(4)] that(2) by (simp add: M_fields)
  from a b c e none tr show ?thesis by (auto simp: M_fields ShouldReturn_def list_ex_iff)
qed

definition exFailed :: "ErrKind \<Rightarrow> ReconcileOutcome" where
  "exFailed k = zeroOutcome \<lparr> o_terminal := True, o_err := Some (ErrWrap ''patching RVR'' (ErrLeaf k ''boom'' None)) \<rparr>"

theorem merge_loses_no_failure_witness:
  "snd (ToCtrl (MergeReconciles [rf_Continue, exFailed EK_Conflict, exFailed EK_Other])) \<noteq> None
   \<and> snd (ToCtrl (MergeReconciles [rf_Continue, exFailed EK_Conflict])) = None
   \<and> Requeue (fst (ToCtrl (MergeReconciles [rf_Continue, exFailed EK_Conflict])))
   \<and> ShouldReturn (MergeReconciles [rf_Continue, exFailed EK_Conflict])"
proof -
  let ?c = "exFailed EK_Conflict" and ?o = "exFailed EK_Other"
  have err: "o_err (exFailed k) = Some (ErrWrap ''patching RVR'' (ErrLeaf k ''boom'' None))" "o_err rf_Continue = None" for k
    by (simp_all add: exFailed_def rf_Continue_def zeroOutcome_def)
  have a: "snd (ToCtrl (MergeReconciles [rf_Continue, ?c])) = None"
    unfolding merge_loses_no_failure [THEN conjunct1] using err by auto
  moreover have "Requeue (fst (ToCtrl (MergeReconciles [rf_Continue, ?c])))"
    using merge_loses_no_failure [THEN conjunct2, THEN conjunct1, of "[rf_Continue, ?c]"] a err by simp
  moreover have "ShouldReturn (MergeReconciles [rf_Continue, ?c])"
    unfolding merge_loses_no_failure [THEN conjunct2, THEN conjunct2, THEN conjunct1] using err by simp
  moreover have "\<not> (\<forall>x e. x \<in> set [rf_Continue, ?c, ?o] \<and> o_err x = Some e \<longrightarrow> isExpectedTransient e)"
    using err(1) [of EK_Other] by (intro notI) (drule spec [of _ ?o], simp)
  then have "snd (ToCtrl (MergeReconciles [rf_Continue, ?c, ?o])) \<noteq> None"
    unfolding merge_loses_no_failure [THEN conjunct1] .
  ultimately show ?thesis by blast
qed

end
