(* ===== verification/Rv_Layout.thy ===== *)
theory Rv_Layout
  imports Datamesh_Examples Flow
begin

text \<open>
  Layout convergence of the volume reconciler (\<open>rv_controller/reconciler.go\<close>): the comparison of the
  actual layout with the one the configuration asks for, the decision which single action moves it there
  (\<open>computeTargetLayoutAction\<close> with the replacement of leaving tie-breakers and the choice of a retype
  candidate), and the report the same decision publishes.

  Go's \<open>int\<close> counters are integers; maps from zones to counters are association lists, which are only
  looked up and folded over in ways that do not depend on their order. The reconciler dereferences
  \<open>status.configuration\<close>: \<open>None\<close> is that panic.
\<close>

subsection \<open>Looking up replicas and members\<close>

definition findRVRByName :: "RVR list \<Rightarrow> string \<Rightarrow> RVR option" where
  "findRVRByName rvrs name = find (\<lambda>r. rvr_Name r = name) rvrs"

definition FindMemberByName :: "Datamesh \<Rightarrow> string \<Rightarrow> DatameshMember option" where
  "FindMemberByName dm name = find (\<lambda>m. m_Name m = name) (ds_Members dm)"

abbreviation rv_Members :: "RV \<Rightarrow> DatameshMember list" where
  "rv_Members rv \<equiv> ds_Members (rv_Datamesh rv)"

subsection \<open>The actual layout\<close>

definition isLayoutDiskful :: "DatameshMember \<Rightarrow> bool" where
  "isLayoutDiskful m \<longleftrightarrow> m_Type m = MT_Diskful \<or> m_Type m = MT_LiminalDiskful"

definition isTieBreakerMember :: "DatameshMember \<Rightarrow> bool" where
  "isTieBreakerMember m \<longleftrightarrow> m_Type m = MT_TieBreaker"

definition computeActualLayout :: "RV \<Rightarrow> int \<times> int" where
  "computeActualLayout rv = (int (countp isLayoutDiskful (rv_Members rv)), int (countp isTieBreakerMember (rv_Members rv)))"

definition formatLayout :: "int \<Rightarrow> int \<Rightarrow> string" where
  "formatLayout diskful tiebreakers =
     (if tiebreakers = 0 then itoa diskful @ ''D'' else itoa diskful @ ''D+'' @ itoa tiebreakers @ ''TB'')"

definition isLayoutReplicaType :: "ReplicaType \<Rightarrow> bool" where
  "isLayoutReplicaType t \<longleftrightarrow> t = RT_Diskful \<or> t = RT_TieBreaker"

definition changesLayout :: "Transition \<Rightarrow> bool" where
  "changesLayout t \<longleftrightarrow>
     (t_Type t \<in> {TT_AddReplica, TT_RemoveReplica, TT_ForceRemoveReplica} \<and> isLayoutReplicaType (t_ReplicaType t))
   \<or> (t_Type t = TT_ChangeReplicaType \<and> (isLayoutReplicaType (t_FromReplicaType t) \<or> isLayoutReplicaType (t_ToReplicaType t)))"

definition hasLayoutChangingTransition :: "RV \<Rightarrow> bool" where
  "hasLayoutChangingTransition rv = list_ex changesLayout (rv_DatameshTransitions rv)"

subsection \<open>Work in flight\<close>

definition deletingTieBreakerMemberNames :: "RV \<Rightarrow> RVR list \<Rightarrow> string list" where
  "deletingTieBreakerMemberNames rv rvrs =
     sort (map m_Name (filter (\<lambda>m. isTieBreakerMember m
       \<and> (case findRVRByName rvrs (m_Name m) of None \<Rightarrow> False | Some r \<Rightarrow> rvr_Deleting r)) (rv_Members rv)))"

definition pendingRetypeToTieBreakerMemberNames :: "RV \<Rightarrow> RVR list \<Rightarrow> string list" where
  "pendingRetypeToTieBreakerMemberNames rv rvrs =
     sort (map m_Name (filter (\<lambda>m. isLayoutDiskful m
       \<and> (case findRVRByName rvrs (m_Name m) of None \<Rightarrow> False | Some r \<Rightarrow> rvr_Type r = RT_TieBreaker)) (rv_Members rv)))"

definition isPendingTieBreaker :: "RV \<Rightarrow> RVR \<Rightarrow> bool" where
  "isPendingTieBreaker rv r \<longleftrightarrow> rvr_Type r = RT_TieBreaker \<and> \<not> rvr_Deleting r
     \<and> FindMemberByName (rv_Datamesh rv) (rvr_Name r) = None"

definition countPendingTieBreakerCreations :: "RV \<Rightarrow> RVR list \<Rightarrow> int" where
  "countPendingTieBreakerCreations rv rvrs = int (countp (isPendingTieBreaker rv) rvrs)"

text \<open>The messages of current \<open>Scheduled=False\<close> verdicts, without duplicates, sorted.\<close>

definition schedulingFailureOf :: "RVR \<Rightarrow> string option" where
  "schedulingFailureOf r =
     (let c = rvr_Condition r ''Scheduled'' in
      if chk_Eval (chk_ObservedGenerationCurrent (chk_IsFalse c))
      then map_option (\<lambda>cond. rvr_Name r @ '': '' @ (if c_Message cond = [] then c_Reason cond else c_Message cond)) (chk_cond c)
      else None)"

definition computeActualPendingTieBreakerSchedulingFailure :: "RV \<Rightarrow> RVR list \<Rightarrow> string" where
  "computeActualPendingTieBreakerSchedulingFailure rv rvrs =
     join '' | '' (sort (foldl (\<lambda>msgs msg. if msg \<in> set msgs then msgs else msgs @ [msg]) []
       (List.map_filter schedulingFailureOf (filter (isPendingTieBreaker rv) rvrs))))"

subsection \<open>The retype candidate\<close>

definition isMemberAttached :: "DatameshMember \<Rightarrow> RVA list \<Rightarrow> bool" where
  "isMemberAttached m rvas \<longleftrightarrow> m_Attached m
     \<or> list_ex (\<lambda>a. \<not> rva_Deleting a \<and> rva_NodeName a = m_NodeName m) rvas"

type_synonym zoneMap = "(string \<times> int) list"

definition zm_get :: "zoneMap \<Rightarrow> string \<Rightarrow> int" where
  "zm_get zm z = (case map_of zm z of None \<Rightarrow> 0 | Some n \<Rightarrow> n)"

fun zm_inc :: "string \<Rightarrow> zoneMap \<Rightarrow> zoneMap" where
  "zm_inc z [] = [(z, 1)]"
| "zm_inc z ((z', n) # zm) = (if z' = z then (z', n + 1) # zm else (z', n) # zm_inc z zm)"

definition perZone :: "(DatameshMember \<Rightarrow> bool) \<Rightarrow> DatameshMember list \<Rightarrow> zoneMap" where
  "perZone P ms = fold (\<lambda>m zm. if P m then zm_inc (m_Zone m) zm else zm) ms []"

definition isVoterMember :: "DatameshMember \<Rightarrow> bool" where
  "isVoterMember m = IsVoter (m_Type m)"

definition isRetypeToTieBreakerZoneQuorumSafe :: "string \<Rightarrow> zoneMap \<Rightarrow> zoneMap \<Rightarrow> int \<Rightarrow> int \<Rightarrow> bool" where
  "isRetypeToTieBreakerZoneQuorumSafe subjZone votersPerZone tbPerZone voters totalTB =
     (if voters = 0 then True
      else let votersAfter = voters - 1;
               qAfter = votersAfter div 2 + 1
           in list_all (\<lambda>(zone, zoneVoters).
                let adjustedZoneVoters = (if zone = subjZone \<and> zoneVoters > 0 then zoneVoters - 1 else zoneVoters);
                    dSurviving = votersAfter - adjustedZoneVoters;
                    tbSurviving = (if zone \<noteq> subjZone then totalTB - zm_get tbPerZone zone + 1
                                   else totalTB - zm_get tbPerZone zone)
                in dSurviving \<ge> qAfter \<or> (dSurviving = qAfter - 1 \<and> tbSurviving > 0)) votersPerZone)"

text \<open>What the loop of \<open>selectRetypeCandidate\<close> tests for one member, in its order.\<close>

record retypeZones =
  rz_transZonal :: bool
  rz_zonal :: bool
  rz_votersPerZone :: zoneMap
  rz_tbPerZone :: zoneMap
  rz_voters :: int
  rz_totalTB :: int
  rz_maxZoneVoters :: int

definition retypeZonesOf :: "Topology \<Rightarrow> DatameshMember list \<Rightarrow> retypeZones" where
  "retypeZonesOf topology ms =
     (let transZonal = (topology = TopologyTransZonal); zonal = (topology = TopologyZonal);
          counted = (if transZonal \<or> zonal then ms else []);
          tb = (\<lambda>m. \<not> isVoterMember m \<and> isTieBreakerMember m);
          votersPerZone = perZone isVoterMember counted
      in \<lparr> rz_transZonal = transZonal, rz_zonal = zonal, rz_votersPerZone = votersPerZone,
           rz_tbPerZone = perZone tb counted, rz_voters = int (countp isVoterMember counted),
           rz_totalTB = int (countp tb counted),
           rz_maxZoneVoters = (if zonal then foldl (\<lambda>mx (z, c). if c > mx then c else mx) 0 votersPerZone else 0) \<rparr>)"

definition specDiskful :: "RVR list \<Rightarrow> DatameshMember \<Rightarrow> bool" where
  "specDiskful rvrs m \<longleftrightarrow> (case findRVRByName rvrs (m_Name m) of None \<Rightarrow> False | Some r \<Rightarrow> rvr_Type r = RT_Diskful)"

definition zonePlacementOK :: "retypeZones \<Rightarrow> DatameshMember \<Rightarrow> bool" where
  "zonePlacementOK z m \<longleftrightarrow>
     \<not> (rz_transZonal z \<and> zm_get (rz_votersPerZone z) (m_Zone m) > 1)
   \<and> \<not> (rz_zonal z \<and> rz_maxZoneVoters z > 0 \<and> zm_get (rz_votersPerZone z) (m_Zone m) \<noteq> rz_maxZoneVoters z)"

definition zoneQuorumSafe :: "retypeZones \<Rightarrow> DatameshMember \<Rightarrow> bool" where
  "zoneQuorumSafe z m \<longleftrightarrow> \<not> (rz_transZonal z
     \<and> \<not> isRetypeToTieBreakerZoneQuorumSafe (m_Zone m) (rz_votersPerZone z) (rz_tbPerZone z) (rz_voters z) (rz_totalTB z))"

definition admissibleRetype :: "retypeZones \<Rightarrow> RVR list \<Rightarrow> RVA list \<Rightarrow> DatameshMember \<Rightarrow> bool" where
  "admissibleRetype z rvrs rvas m \<longleftrightarrow> m_Type m = MT_Diskful \<and> specDiskful rvrs m \<and> \<not> isMemberAttached m rvas
     \<and> zonePlacementOK z m \<and> zoneQuorumSafe z m"

definition selectRetypeCandidate :: "RV \<Rightarrow> ReplicatedVolumeConfiguration \<Rightarrow> RVR list \<Rightarrow> RVA list \<Rightarrow> string \<times> string" where
  "selectRetypeCandidate rv cfg rvrs rvas =
     (let z = retypeZonesOf (cfg_Topology cfg) (rv_Members rv);
          diskful = filter (\<lambda>m. m_Type m = MT_Diskful) (rv_Members rv);
          spec = filter (specDiskful rvrs) diskful;
          unattached = filter (\<lambda>m. \<not> isMemberAttached m rvas) spec;
          placed = filter (zonePlacementOK z) unattached;
          safe = filter (zoneQuorumSafe z) placed;
          chosen = foldl (\<lambda>chosen m. if m_Name m > chosen then m_Name m else chosen) [] safe
      in if chosen \<noteq> [] then (chosen, [])
         else if diskful = [] then ([], ''no diskful replicas found'')
         else if spec = [] then ([], ''all diskful replicas are already being retyped'')
         else if unattached = [] then ([], ''all diskful replicas are attached'')
         else if placed = [] then ([], ''no diskful replica can become a tie-breaker without violating zone placement'')
         else ([], ''no diskful replica can become a tie-breaker: after the retype, losing a zone would lose quorum''))"

subsection \<open>The decision\<close>

datatype targetLayoutAction = layoutActionNone | layoutActionRetypeToTieBreaker string | layoutActionCreateTieBreaker

record membershipLayoutConvergedReport =
  lr_status :: ConditionStatus
  lr_reason :: string
  lr_message :: string

definition converging :: "string \<Rightarrow> membershipLayoutConvergedReport" where
  "converging msg = \<lparr> lr_status = ConditionFalse, lr_reason = ''Converging'', lr_message = msg \<rparr>"

definition cannotConverge :: "string \<Rightarrow> membershipLayoutConvergedReport" where
  "cannotConverge msg = \<lparr> lr_status = ConditionFalse, lr_reason = ''CannotConverge'', lr_message = msg \<rparr>"

type_synonym layoutDecision = "targetLayoutAction \<times> membershipLayoutConvergedReport"

text \<open>\<open>Some\<close> when the replacement domain owns the pass.\<close>

definition computeTargetTieBreakerReplacement ::
  "RV \<Rightarrow> RVR list \<Rightarrow> int \<Rightarrow> int \<Rightarrow> int \<Rightarrow> int \<Rightarrow> string \<Rightarrow> string \<Rightarrow> layoutDecision option" where
  "computeTargetTieBreakerReplacement rv rvrs actualD actualTB intendedD intendedTB actualLayout intendedLayout =
     (let leaving = deletingTieBreakerMemberNames rv rvrs in
      if leaving = [] \<or> actualD \<noteq> intendedD then None
      else let availableTB = actualTB - int (length leaving) in
        if availableTB > intendedTB then None
        else
          let subject = (if length leaving > 1 then ''tie-breakers '' @ join '', '' leaving @ '' are terminating''
                         else ''tie-breaker '' @ join '', '' leaving @ '' is terminating'');
              layouts = ''have '' @ actualLayout @ '', want '' @ intendedLayout
          in if availableTB = intendedTB then
               let waiting = (if length leaving > 1 then ''waiting for them to leave the datamesh''
                              else if intendedTB > 0 then ''its replacement joined the datamesh, waiting for it to leave''
                              else ''waiting for it to leave the datamesh'')
               in Some (layoutActionNone, converging (subject @ '': '' @ waiting @ '' ('' @ layouts @ '')''))
             else
               let deficit = intendedTB - availableTB in
               if countPendingTieBreakerCreations rv rvrs \<ge> deficit then
                 let failure = computeActualPendingTieBreakerSchedulingFailure rv rvrs in
                 if failure \<noteq> [] then Some (layoutActionNone,
                   cannotConverge (subject @ '': cannot place a replacement ('' @ layouts @ ''): '' @ failure))
                 else Some (layoutActionNone,
                   converging (subject @ '': replacement tie-breaker creation pending ('' @ layouts @ '')''))
               else Some (layoutActionCreateTieBreaker, converging (subject @ '': creating a replacement ('' @ layouts @ '')'')))"

definition pendingRetypeMessage :: "int \<Rightarrow> int \<Rightarrow> int \<Rightarrow> int \<Rightarrow> string list \<Rightarrow> string" where
  "pendingRetypeMessage actualD actualTB intendedD intendedTB pending =
     (let actualLayout = formatLayout actualD actualTB; intendedLayout = formatLayout intendedD intendedTB in
      if actualTB < intendedTB
      then ''retype to tie-breaker requested: have '' @ actualLayout @ '', want '' @ intendedLayout
      else if actualD = intendedD \<and> actualTB = intendedTB
      then ''retype to tie-breaker pending on '' @ join '', '' pending @ '': the layout already matches the intended one (''
         @ actualLayout @ ''); likely a reverted configuration change, and the retype is not rolled back automatically''
      else ''retype to tie-breaker pending on '' @ join '', '' pending @ '': have '' @ actualLayout @ '', want '' @ intendedLayout)"

definition volumeDeletingReport :: membershipLayoutConvergedReport where
  "volumeDeletingReport = \<lparr> lr_status = ConditionUnknown, lr_reason = ''VolumeDeleting'',
     lr_message = ''volume is being deleted; layout convergence suspended'' \<rparr>"

text \<open>The whitelist: the last switch of \<open>computeTargetLayoutAction\<close>.\<close>

definition whitelistDecision :: "RV \<Rightarrow> ReplicatedVolumeConfiguration \<Rightarrow> RVR list \<Rightarrow> RVA list \<Rightarrow> int \<Rightarrow> int \<Rightarrow> int \<Rightarrow> int \<Rightarrow> layoutDecision" where
  "whitelistDecision rv cfg rvrs rvas actualD actualTB intendedD intendedTB =
     (let actualLayout = formatLayout actualD actualTB; intendedLayout = formatLayout intendedD intendedTB;
          layouts = ''have '' @ actualLayout @ '', want '' @ intendedLayout in
      if actualD > intendedD \<and> actualTB < intendedTB then
        (case selectRetypeCandidate rv cfg rvrs rvas of (name, noCandidateReason) \<Rightarrow>
           if name = [] then (layoutActionNone,
             cannotConverge (''cannot retype Diskful replica to tie-breaker ('' @ layouts @ ''): '' @ noCandidateReason))
           else (layoutActionRetypeToTieBreaker name,
             converging (''retyping Diskful replica '' @ name @ '' to tie-breaker: '' @ layouts)))
      else if actualD = intendedD \<and> actualTB < intendedTB then
        if countPendingTieBreakerCreations rv rvrs \<ge> intendedTB - actualTB then
          let failure = computeActualPendingTieBreakerSchedulingFailure rv rvrs in
          if failure \<noteq> [] then (layoutActionNone,
            cannotConverge (''cannot place tie-breaker replica ('' @ layouts @ ''): '' @ failure))
          else (layoutActionNone, converging (''tie-breaker creation pending: '' @ layouts))
        else (layoutActionCreateTieBreaker, converging (''creating tie-breaker replica: '' @ layouts))
      else (layoutActionNone, \<lparr> lr_status = ConditionFalse, lr_reason = ''TransitionUnsupported'',
        lr_message = ''layout mismatch: '' @ layouts @ ''; automatic transition is not supported, manual intervention required'' \<rparr>))"

definition computeTargetLayoutAction :: "RV \<Rightarrow> RVR list \<Rightarrow> RVA list \<Rightarrow> layoutDecision option" where
  "computeTargetLayoutAction rv rvrs rvas =
     (if rv_DeletionTimestamp rv \<noteq> None then Some (layoutActionNone, volumeDeletingReport)
      else do {
        cfg \<leftarrow> rv_Configuration rv;
        let (intendedD, intendedTB) = IntendedLayout cfg;
        let (actualD, actualTB) = computeActualLayout rv;
        let actualLayout = formatLayout actualD actualTB;
        let intendedLayout = formatLayout intendedD intendedTB;
        let pending = pendingRetypeToTieBreakerMemberNames rv rvrs;
        Some (if hasLayoutChangingTransition rv
              then (layoutActionNone, converging (''layout transition in progress: have '' @ actualLayout @ '', want '' @ intendedLayout))
              else if pending \<noteq> []
              then (layoutActionNone, converging (pendingRetypeMessage actualD actualTB intendedD intendedTB pending))
              else (case computeTargetTieBreakerReplacement rv rvrs actualD actualTB intendedD intendedTB actualLayout intendedLayout of
                 Some d \<Rightarrow> d
               | None \<Rightarrow>
                   if actualD = intendedD \<and> actualTB = intendedTB
                   then (layoutActionNone, \<lparr> lr_status = ConditionTrue, lr_reason = ''Converged'',
                           lr_message = ''layout converged: '' @ actualLayout \<rparr>)
                   else whitelistDecision rv cfg rvrs rvas actualD actualTB intendedD intendedTB)) })"

definition computeLayoutReport :: "RV \<Rightarrow> RVR list \<Rightarrow> RVA list \<Rightarrow> (string option \<times> membershipLayoutConvergedReport) option" where
  "computeLayoutReport rv rvrs rvas = do {
     let (actualD, actualTB) = computeActualLayout rv;
     (_, report) \<leftarrow> computeTargetLayoutAction rv rvrs rvas;
     Some (Some (formatLayout actualD actualTB), report) }"

definition applyMembershipLayout :: "RV \<Rightarrow> string option \<Rightarrow> bool \<times> RV" where
  "applyMembershipLayout rv layout =
     (if rv_MembershipLayout rv = layout then (False, rv) else (True, rv \<lparr> rv_MembershipLayout := layout \<rparr>))"

definition applyRVRRetypeToTieBreaker :: "RVR \<Rightarrow> RVR" where
  "applyRVRRetypeToTieBreaker rvr = rvr \<lparr> rvr_Type := RT_TieBreaker, rvr_LVMVolumeGroupName := [],
     rvr_LVMVolumeGroupThinPoolName := [] \<rparr>"

subsection \<open>Lemmas\<close>

lemma length_filter_conj_le: "length (filter (\<lambda>x. P x \<and> Q x) xs) \<le> length (filter P xs)"
  by (induction xs) auto

lemma intendedTB_le_1: "IntendedLayout cfg = (d, tb) \<Longrightarrow> 0 \<le> tb \<and> tb \<le> 1"
  by (auto simp: IntendedLayout_def TieBreakersForDiskful_def Let_def split: if_splits)

text \<open>Leaving tie-breakers are tie-breakers of the layout.\<close>

lemma leaving_le_actual:
  "computeActualLayout rv = (d, tb) \<Longrightarrow> int (length (deletingTieBreakerMemberNames rv rvrs)) \<le> tb"
  using length_filter_conj_le [of isTieBreakerMember _ "rv_Members rv"]
  by (auto simp: computeActualLayout_def deletingTieBreakerMemberNames_def)

lemma foldl_max_name:
  "foldl (\<lambda>chosen m. if m_Name m > chosen then m_Name m else chosen) c ms = c
   \<or> (\<exists>m \<in> set ms. foldl (\<lambda>chosen m. if m_Name m > chosen then m_Name m else chosen) c ms = m_Name m)"
  by (induction ms arbitrary: c) auto

text \<open>The candidate is one of the admissible members.\<close>

lemma selectRetypeCandidate_admissible:
  assumes "selectRetypeCandidate rv cfg rvrs rvas = (name, why)" and "name \<noteq> []"
  shows "\<exists>m \<in> set (rv_Members rv). m_Name m = name
    \<and> admissibleRetype (retypeZonesOf (cfg_Topology cfg) (rv_Members rv)) rvrs rvas m"
proof -
  let ?z = "retypeZonesOf (cfg_Topology cfg) (rv_Members rv)"
  let ?safe = "filter (zoneQuorumSafe ?z) (filter (zonePlacementOK ?z) (filter (\<lambda>m. \<not> isMemberAttached m rvas)
      (filter (specDiskful rvrs) (filter (\<lambda>m. m_Type m = MT_Diskful) (rv_Members rv)))))"
  have "name = foldl (\<lambda>chosen m. if m_Name m > chosen then m_Name m else chosen) [] ?safe"
    using assms by (auto simp: selectRetypeCandidate_def Let_def split: if_splits)
  then obtain m where "m \<in> set ?safe" "m_Name m = name"
    using foldl_max_name [of "[]" ?safe] assms(2) by auto
  then show ?thesis by (auto simp: admissibleRetype_def)
qed

text \<open>The decision, by cases.\<close>

lemma whitelist_cases:
  assumes "whitelistDecision rv cfg rvrs rvas aD aTB iD iTB = (act, rep)"
  shows "lr_status rep = ConditionFalse" and "act \<noteq> layoutActionNone \<longrightarrow> lr_reason rep = ''Converging''"
    and "act = layoutActionRetypeToTieBreaker n \<longrightarrow> n \<noteq> [] \<and> (\<exists>why. selectRetypeCandidate rv cfg rvrs rvas = (n, why))
      \<and> aD > iD \<and> aTB < iTB"
    and "act = layoutActionCreateTieBreaker \<longleftrightarrow> aD = iD \<and> aTB < iTB \<and> countPendingTieBreakerCreations rv rvrs < iTB - aTB"
  using assms by (auto simp: whitelistDecision_def converging_def cannotConverge_def Let_def split: if_splits prod.splits)

lemma replacement_cases:
  assumes "computeTargetTieBreakerReplacement rv rvrs aD aTB iD iTB al il = Some (act, rep)"
  shows "lr_status rep = ConditionFalse" and "act \<noteq> layoutActionNone \<longrightarrow> lr_reason rep = ''Converging''"
    and "act \<noteq> layoutActionRetypeToTieBreaker n"
    and "act = layoutActionCreateTieBreaker \<longleftrightarrow> aTB - int (length (deletingTieBreakerMemberNames rv rvrs)) < iTB
       \<and> countPendingTieBreakerCreations rv rvrs < iTB - (aTB - int (length (deletingTieBreakerMemberNames rv rvrs)))"
  using assms by (auto simp: computeTargetTieBreakerReplacement_def converging_def cannotConverge_def Let_def split: if_splits)

lemma replacement_owns:
  "computeTargetTieBreakerReplacement rv rvrs aD aTB iD iTB al il \<noteq> None \<longleftrightarrow>
     deletingTieBreakerMemberNames rv rvrs \<noteq> [] \<and> aD = iD
     \<and> aTB - int (length (deletingTieBreakerMemberNames rv rvrs)) \<le> iTB"
  by (auto simp: computeTargetTieBreakerReplacement_def Let_def)

text \<open>The decision of a volume that is not being deleted, as one equation.\<close>

lemma decision_eq:
  assumes "rv_DeletionTimestamp rv = None" and "rv_Configuration rv = Some cfg"
    and "IntendedLayout cfg = (iD, iTB)" and "computeActualLayout rv = (aD, aTB)"
  shows "computeTargetLayoutAction rv rvrs rvas = Some (
      if hasLayoutChangingTransition rv
      then (layoutActionNone, converging (''layout transition in progress: have '' @ formatLayout aD aTB @ '', want '' @ formatLayout iD iTB))
      else if pendingRetypeToTieBreakerMemberNames rv rvrs \<noteq> []
      then (layoutActionNone, converging (pendingRetypeMessage aD aTB iD iTB (pendingRetypeToTieBreakerMemberNames rv rvrs)))
      else (case computeTargetTieBreakerReplacement rv rvrs aD aTB iD iTB (formatLayout aD aTB) (formatLayout iD iTB) of
         Some d \<Rightarrow> d
       | None \<Rightarrow> if aD = iD \<and> aTB = iTB
           then (layoutActionNone, \<lparr> lr_status = ConditionTrue, lr_reason = ''Converged'', lr_message = ''layout converged: '' @ formatLayout aD aTB \<rparr>)
           else whitelistDecision rv cfg rvrs rvas aD aTB iD iTB))"
  using assms by (simp add: computeTargetLayoutAction_def Let_def)

subsection \<open>Properties\<close>

text \<open>C23: the published report is honest. \<open>MembershipLayoutConverged\<close> is True exactly if the volume is not
  being deleted, the datamesh has the intended numbers of diskful members and tie-breakers, and nothing
  is moving: no transition that changes the layout, no replica already asked to become a tie-breaker,
  no tie-breaker on its way out. Whenever an action is taken the report says Converging, and a volume
  being deleted gets no action.\<close>

theorem layout_report_honest:
  assumes "computeTargetLayoutAction rv rvrs rvas = Some (act, rep)" and "rv_Configuration rv = Some cfg"
  shows "(lr_status rep = ConditionTrue \<longleftrightarrow> rv_DeletionTimestamp rv = None
      \<and> computeActualLayout rv = IntendedLayout cfg \<and> \<not> hasLayoutChangingTransition rv
      \<and> pendingRetypeToTieBreakerMemberNames rv rvrs = [] \<and> deletingTieBreakerMemberNames rv rvrs = [])
    \<and> (act \<noteq> layoutActionNone \<longrightarrow> rv_DeletionTimestamp rv = None \<and> lr_reason rep = ''Converging'')"
proof (cases "rv_DeletionTimestamp rv")
  case (Some t)
  then show ?thesis using assms(1) by (auto simp: computeTargetLayoutAction_def volumeDeletingReport_def)
next
  case None
  obtain iD iTB aD aTB where l: "IntendedLayout cfg = (iD, iTB)" "computeActualLayout rv = (aD, aTB)"
    by (metis surj_pair)
  let ?r = "computeTargetTieBreakerReplacement rv rvrs aD aTB iD iTB (formatLayout aD aTB) (formatLayout iD iTB)"
  show ?thesis
  proof (cases ?r)
    case None
    then have "deletingTieBreakerMemberNames rv rvrs = [] \<or> (aD, aTB) \<noteq> (iD, iTB)"
      using replacement_owns [of rv rvrs aD aTB iD iTB "formatLayout aD aTB" "formatLayout iD iTB"] by auto
    then show ?thesis
      using assms(1) None whitelist_cases [of rv cfg rvrs rvas aD aTB iD iTB act rep]
      by (auto simp: decision_eq [OF \<open>rv_DeletionTimestamp rv = None\<close> assms(2) l] l converging_def \<open>rv_DeletionTimestamp rv = None\<close>
          split: if_splits)
  next
    case (Some d)
    then have "deletingTieBreakerMemberNames rv rvrs \<noteq> []"
      using replacement_owns [of rv rvrs aD aTB iD iTB "formatLayout aD aTB" "formatLayout iD iTB"] by auto
    then show ?thesis
      using assms(1) Some None replacement_cases [of rv rvrs aD aTB iD iTB "formatLayout aD aTB" "formatLayout iD iTB" act rep]
      by (auto simp: decision_eq [OF None assms(2) l] l converging_def split: if_splits)
  qed
qed

theorem layout_report_honest_witness:
  "\<exists>act rep. computeTargetLayoutAction (exRV 1 1 [exMember 0 MT_Diskful] [] []) [] [] = Some (act, rep)
     \<and> lr_status rep = ConditionTrue"
proof -
  let ?rv = "exRV 1 1 [exMember 0 MT_Diskful] [] []"
  obtain act rep where d: "computeTargetLayoutAction ?rv [] [] = Some (act, rep)"
    by (cases "computeTargetLayoutAction ?rv [] []") (auto simp: computeTargetLayoutAction_def exRV_def Let_def split: prod.splits)
  have l: "computeActualLayout ?rv = IntendedLayout exConfig"
    "\<not> hasLayoutChangingTransition ?rv" "pendingRetypeToTieBreakerMemberNames ?rv [] = []" "deletingTieBreakerMemberNames ?rv [] = []"
    by code_simp+
  have "rv_Configuration ?rv = Some exConfig" by (simp add: exRV_def)
  from layout_report_honest [OF d this] l d show ?thesis by (auto simp: exRV_def)
qed

end
