(* ===== verification/Obj_Util.thy ===== *)
theory Obj_Util
  imports Api_Types
begin

text \<open>
  The object helpers of \<open>api/objutilv1\<close>: finalizers, labels and annotations, and the status conditions. A
  finalizer list is a list, a label or annotation map an association list that is only looked up by key.

  \<open>meta.SetStatusCondition\<close> and \<open>meta.RemoveStatusCondition\<close> belong to the Kubernetes API machinery and are
  parameters; what is used of them is the locale \<open>condition_api\<close>.
\<close>

subsection \<open>Finalizers\<close>

definition HasFinalizer :: "string list \<Rightarrow> string \<Rightarrow> bool" where
  "HasFinalizer finalizers f \<longleftrightarrow> f \<in> set finalizers"

definition AddFinalizer :: "string list \<Rightarrow> string \<Rightarrow> bool \<times> string list" where
  "AddFinalizer finalizers f = (if f \<in> set finalizers then (False, finalizers) else (True, finalizers @ [f]))"

definition RemoveFinalizer :: "string list \<Rightarrow> string \<Rightarrow> bool \<times> string list" where
  "RemoveFinalizer finalizers f = (if f \<in> set finalizers then (True, remove1 f finalizers) else (False, finalizers))"

definition HasFinalizersOtherThan :: "string list \<Rightarrow> string list \<Rightarrow> bool" where
  "HasFinalizersOtherThan finalizers allowed = list_ex (\<lambda>f. f \<notin> set allowed) finalizers"

subsection \<open>Labels and annotations\<close>

type_synonym smap = "(string \<times> string) list"

definition smap_set :: "string \<Rightarrow> string \<Rightarrow> smap \<Rightarrow> smap" where
  "smap_set key value m = (key, value) # filter (\<lambda>kv. fst kv \<noteq> key) m"

definition smap_delete :: "string \<Rightarrow> smap \<Rightarrow> smap" where
  "smap_delete key m = filter (\<lambda>kv. fst kv \<noteq> key) m"

definition HasLabel :: "smap \<Rightarrow> string \<Rightarrow> bool" where
  "HasLabel labels key \<longleftrightarrow> map_of labels key \<noteq> None"

text \<open>A missing key reads as the empty string, except in a nil map.\<close>

definition HasLabelValue :: "smap option \<Rightarrow> string \<Rightarrow> string \<Rightarrow> bool" where
  "HasLabelValue labels key value = (case labels of
     None \<Rightarrow> False
   | Some m \<Rightarrow> (case map_of m key of None \<Rightarrow> value = [] | Some v \<Rightarrow> v = value))"

definition SetLabel :: "smap \<Rightarrow> string \<Rightarrow> string \<Rightarrow> bool \<times> smap" where
  "SetLabel labels key value = (if map_of labels key = Some value then (False, labels) else (True, smap_set key value labels))"

definition RemoveLabel :: "smap \<Rightarrow> string \<Rightarrow> bool \<times> smap" where
  "RemoveLabel labels key = (if map_of labels key = None then (False, labels) else (True, smap_delete key labels))"

text \<open>The annotation helpers are the same code on the other map.\<close>

definition HasAnnotation :: "smap \<Rightarrow> string \<Rightarrow> bool" where
  "HasAnnotation annotations key \<longleftrightarrow> map_of annotations key \<noteq> None"

definition HasAnnotationValue :: "smap option \<Rightarrow> string \<Rightarrow> string \<Rightarrow> bool" where
  "HasAnnotationValue annotations key value = (case annotations of
     None \<Rightarrow> False
   | Some m \<Rightarrow> (case map_of m key of None \<Rightarrow> value = [] | Some v \<Rightarrow> v = value))"

definition SetAnnotation :: "smap \<Rightarrow> string \<Rightarrow> string \<Rightarrow> bool \<times> smap" where
  "SetAnnotation annotations key value =
     (if map_of annotations key = Some value then (False, annotations) else (True, smap_set key value annotations))"

definition RemoveAnnotation :: "smap \<Rightarrow> string \<Rightarrow> bool \<times> smap" where
  "RemoveAnnotation annotations key =
     (if map_of annotations key = None then (False, annotations) else (True, smap_delete key annotations))"

subsection \<open>Status conditions\<close>

definition ConditionEqualByStatus :: "Condition option \<Rightarrow> Condition option \<Rightarrow> bool" where
  "ConditionEqualByStatus a b = (case (a, b) of
       (Some x, Some y) \<Rightarrow> c_Type x = c_Type y \<and> c_Status x = c_Status y
     | (None, None) \<Rightarrow> True
     | _ \<Rightarrow> False)"

text \<open>The types to compare: the caller's, without duplicates, or all types of either object.\<close>

definition conditionTypes :: "Condition list \<Rightarrow> Condition list \<Rightarrow> string list \<Rightarrow> string list" where
  "conditionTypes aConds bConds condTypes =
     (if condTypes \<noteq> [] then foldl (\<lambda>ts t. if t \<in> set ts then ts else ts @ [t]) [] condTypes
      else remdups_adj (sort (map c_Type aConds @ map c_Type bConds)))"

definition areConditionsEqual :: "(Condition option \<Rightarrow> Condition option \<Rightarrow> bool) \<Rightarrow> Condition list \<Rightarrow> Condition list \<Rightarrow> string list \<Rightarrow> bool" where
  "areConditionsEqual cmp aConds bConds condTypes =
     list_all (\<lambda>t. case (findCondition aConds t, findCondition bConds t) of
         (None, None) \<Rightarrow> True
       | (Some x, Some y) \<Rightarrow> cmp (Some x) (Some y)
       | _ \<Rightarrow> False) (conditionTypes aConds bConds condTypes)"

definition AreConditionsSemanticallyEqual :: "Condition list \<Rightarrow> Condition list \<Rightarrow> string list \<Rightarrow> bool" where
  "AreConditionsSemanticallyEqual = areConditionsEqual ConditionSemanticallyEqual"

definition AreConditionsEqualByStatus :: "Condition list \<Rightarrow> Condition list \<Rightarrow> string list \<Rightarrow> bool" where
  "AreConditionsEqualByStatus = areConditionsEqual ConditionEqualByStatus"

definition isStatusConditionPresentAndStatusEqual :: "Condition list \<Rightarrow> string \<Rightarrow> ConditionStatus \<Rightarrow> bool" where
  "isStatusConditionPresentAndStatusEqual conds condType condStatus =
     (case findCondition conds condType of None \<Rightarrow> False | Some c \<Rightarrow> c_Status c = condStatus)"

definition HasStatusCondition :: "Condition list \<Rightarrow> string \<Rightarrow> bool" where
  "HasStatusCondition conds condType \<longleftrightarrow> findCondition conds condType \<noteq> None"

type_synonym metaSet = "Condition list \<Rightarrow> Condition \<Rightarrow> bool \<times> Condition list"

text \<open>\<open>metaSet\<close> stands for \<open>meta.SetStatusCondition\<close>, \<open>now\<close> for \<open>metav1.Now()\<close>. The conditions are written
  back only if they changed.\<close>

definition SetStatusCondition :: "metaSet \<Rightarrow> int \<Rightarrow> int \<Rightarrow> Condition list \<Rightarrow> Condition \<Rightarrow> bool \<times> Condition list" where
  "SetStatusCondition setc now generation conds cond =
     (let cond1 = cond \<lparr> c_ObservedGeneration := generation \<rparr>;
          cond2 = (case findCondition conds (c_Type cond) of
                     None \<Rightarrow> cond1 \<lparr> c_LastTransitionTime := Some now \<rparr>
                   | Some old \<Rightarrow> if c_Status old \<noteq> c_Status cond then cond1 \<lparr> c_LastTransitionTime := Some now \<rparr>
                                 else cond1 \<lparr> c_LastTransitionTime := None \<rparr>)
      in case setc conds cond2 of (changed, conds') \<Rightarrow> (changed, if changed then conds' else conds))"

type_synonym metaRemove = "Condition list \<Rightarrow> string \<Rightarrow> bool \<times> Condition list"

definition RemoveStatusCondition :: "metaRemove \<Rightarrow> Condition list \<Rightarrow> string \<Rightarrow> bool \<times> Condition list" where
  "RemoveStatusCondition rmc conds condType =
     (case rmc conds condType of (changed, conds') \<Rightarrow> (changed, if changed then conds' else conds))"

text \<open>The documented behaviour of \<open>meta.SetStatusCondition\<close>: it changes only the condition of the given
  type, which afterwards has the given status, reason, message and generation; it keeps the transition
  time when the status stays, and sets the given one when it is new or the status changed; it reports
  whether it changed anything.\<close>

definition condKey :: "Condition \<Rightarrow> string \<times> ConditionStatus \<times> string \<times> string \<times> int" where
  "condKey c = (c_Type c, c_Status c, c_Reason c, c_Message c, c_ObservedGeneration c)"

locale condition_api =
  fixes setc :: metaSet
  assumes set_same: "setc conds c = (ch, conds') \<Longrightarrow>
      map_option condKey (findCondition conds' (c_Type c)) = Some (condKey c)"
    and set_other: "setc conds c = (ch, conds') \<Longrightarrow> t \<noteq> c_Type c \<Longrightarrow> findCondition conds' t = findCondition conds t"
    and set_time: "setc conds c = (ch, conds') \<Longrightarrow> findCondition conds (c_Type c) = Some old \<Longrightarrow> c_Status old = c_Status c \<Longrightarrow>
      map_option c_LastTransitionTime (findCondition conds' (c_Type c)) = Some (c_LastTransitionTime old)"
    and set_new_time: "setc conds c = (ch, conds') \<Longrightarrow>
      (case findCondition conds (c_Type c) of None \<Rightarrow> True | Some old \<Rightarrow> c_Status old \<noteq> c_Status c) \<Longrightarrow>
      c_LastTransitionTime c \<noteq> None \<Longrightarrow>
      map_option c_LastTransitionTime (findCondition conds' (c_Type c)) = Some (c_LastTransitionTime c)"
    and set_unchanged: "setc conds c = (False, conds') \<Longrightarrow> conds' = conds"
begin

text \<open>Setting a condition.\<close>

lemma SetStatusCondition_spec:
  assumes "SetStatusCondition setc now generation conds c = (ch, conds')"
  shows "map_option condKey (findCondition conds' (c_Type c)) = Some (condKey (c \<lparr> c_ObservedGeneration := generation \<rparr>))"
    and "t \<noteq> c_Type c \<Longrightarrow> findCondition conds' t = findCondition conds t"
    and "map_option c_LastTransitionTime (findCondition conds' (c_Type c)) =
      (case findCondition conds (c_Type c) of
         Some old \<Rightarrow> if c_Status old = c_Status c then Some (c_LastTransitionTime old) else Some (Some now)
       | None \<Rightarrow> Some (Some now))"
    and "\<not> ch \<Longrightarrow> conds' = conds"
proof -
  let ?c2 = "case findCondition conds (c_Type c) of
      None \<Rightarrow> (c \<lparr> c_ObservedGeneration := generation \<rparr>) \<lparr> c_LastTransitionTime := Some now \<rparr>
    | Some old \<Rightarrow> if c_Status old \<noteq> c_Status c then (c \<lparr> c_ObservedGeneration := generation \<rparr>) \<lparr> c_LastTransitionTime := Some now \<rparr>
        else (c \<lparr> c_ObservedGeneration := generation \<rparr>) \<lparr> c_LastTransitionTime := None \<rparr>"
  obtain cs where s: "setc conds ?c2 = (ch, cs)" "conds' = (if ch then cs else conds)"
    using assms by (auto simp: SetStatusCondition_def Let_def split: prod.splits)
  have eq: "conds' = cs" using s set_unchanged [of conds ?c2 cs] by (cases ch) auto
  have k: "c_Type ?c2 = c_Type c" "c_Status ?c2 = c_Status c"
    "condKey ?c2 = condKey (c \<lparr> c_ObservedGeneration := generation \<rparr>)"
    by (auto simp: condKey_def split: option.splits)
  show "map_option condKey (findCondition conds' (c_Type c)) = Some (condKey (c \<lparr> c_ObservedGeneration := generation \<rparr>))"
    using set_same [OF s(1)] unfolding k eq by simp
  show "t \<noteq> c_Type c \<Longrightarrow> findCondition conds' t = findCondition conds t"
    using set_other [OF s(1), of t] unfolding k eq by simp
  show "map_option c_LastTransitionTime (findCondition conds' (c_Type c)) =
      (case findCondition conds (c_Type c) of
         Some old \<Rightarrow> if c_Status old = c_Status c then Some (c_LastTransitionTime old) else Some (Some now)
       | None \<Rightarrow> Some (Some now))"
    using set_time [OF s(1)] set_new_time [OF s(1)] unfolding k eq
    by (auto split: option.splits if_splits)
  show "\<not> ch \<Longrightarrow> conds' = conds" using s(2) by simp
qed

end

text \<open>A function with this behaviour: replace the first condition of the type in place, or append.\<close>

fun setFirst :: "Condition list \<Rightarrow> Condition \<Rightarrow> Condition list" where
  "setFirst [] c = [c]"
| "setFirst (x # xs) c = (if c_Type x = c_Type c
     then c \<lparr> c_LastTransitionTime := (if c_Status x = c_Status c then c_LastTransitionTime x else c_LastTransitionTime c) \<rparr> # xs
     else x # setFirst xs c)"

definition upsertCondition :: metaSet where
  "upsertCondition conds c = (setFirst conds c \<noteq> conds, setFirst conds c)"

lemma find_setFirst: "findCondition (setFirst conds c) t = (if t = c_Type c then
    Some (case findCondition conds t of None \<Rightarrow> c | Some x \<Rightarrow>
      c \<lparr> c_LastTransitionTime := (if c_Status x = c_Status c then c_LastTransitionTime x else c_LastTransitionTime c) \<rparr>)
    else findCondition conds t)"
  by (induction conds) (auto simp: findCondition_def)

interpretation cond_upsert: condition_api upsertCondition
  by unfold_locales (auto simp: upsertCondition_def find_setFirst condKey_def split: option.splits if_splits)

subsection \<open>Lemmas\<close>

lemma map_of_smap [simp]:
  "map_of (smap_set k v m) k' = (if k' = k then Some v else map_of m k')"
  "map_of (smap_delete k m) k' = (if k' = k then None else map_of m k')"
  by (induction m) (auto simp: smap_set_def smap_delete_def)

lemma label_laws:
  "SetLabel m k v = (ch, m') \<Longrightarrow> map_of m' = (map_of m)(k \<mapsto> v) \<and> (ch \<longleftrightarrow> map_of m k \<noteq> Some v)"
  "RemoveLabel m k = (ch, m') \<Longrightarrow> map_of m' = (map_of m)(k := None) \<and> (ch \<longleftrightarrow> map_of m k \<noteq> None)"
  by (auto simp: SetLabel_def RemoveLabel_def fun_eq_iff split: if_splits)

lemma finalizer_laws:
  "AddFinalizer fs f = (ch, fs') \<Longrightarrow> set fs' = insert f (set fs) \<and> (ch \<longleftrightarrow> f \<notin> set fs) \<and> (distinct fs \<longrightarrow> distinct fs')"
  "RemoveFinalizer fs f = (ch, fs') \<Longrightarrow> distinct fs \<Longrightarrow> set fs' = set fs - {f} \<and> (ch \<longleftrightarrow> f \<in> set fs) \<and> distinct fs'"
  by (auto simp: AddFinalizer_def RemoveFinalizer_def split: if_splits)

end
