(* ===== verification/Rv_Objects.thy ===== *)
theory Rv_Objects
  imports Obj_Util Datamesh_Context Flow
begin

text \<open>
  What the volume reconciler builds on (\<open>rv_controller/reconciler.go\<close>): the binary search of Go's
  \<open>slices\<close> package, new replica objects, keeping a replica slice sorted, and the API client.

  The client is a parameter: a record with one field per call the reconciler makes, which returns an
  error or, where the call returns one, the object as the server stored it. What a reconciler does to the cluster is
  the list of calls it made, in order.
\<close>

subsection \<open>Binary search\<close>

text \<open>\<open>cmp.Compare\<close>.\<close>

definition cmpCompare :: "'a :: linorder \<Rightarrow> 'a \<Rightarrow> int" where
  "cmpCompare a b = (if a < b then -1 else if b < a then 1 else 0)"

lemma cmpCompare_simps [simp]:
  "cmpCompare a b < 0 \<longleftrightarrow> a < b" "cmpCompare a b > 0 \<longleftrightarrow> b < a" "cmpCompare a b = 0 \<longleftrightarrow> a = b"
  by (auto simp: cmpCompare_def)

text \<open>The loop of \<open>slices.BinarySearchFunc\<close>; the comparison with the target may panic.\<close>

function bsLoop :: "('a \<Rightarrow> int option) \<Rightarrow> 'a list \<Rightarrow> nat \<Rightarrow> nat \<Rightarrow> nat option" where
  "bsLoop cmp xs i j =
     (if i < j then
        (case cmp (xs ! ((i + j) div 2)) of
           None \<Rightarrow> None
         | Some c \<Rightarrow> if c < 0 then bsLoop cmp xs ((i + j) div 2 + 1) j else bsLoop cmp xs i ((i + j) div 2))
      else Some i)"
  by pat_completeness auto

termination by (relation "measure (\<lambda>(cmp, xs, i, j). j - i)") auto

declare bsLoop.simps [simp del]

definition BinarySearchFunc :: "('a \<Rightarrow> int option) \<Rightarrow> 'a list \<Rightarrow> (nat \<times> bool) option" where
  "BinarySearchFunc cmp xs = do {
     i \<leftarrow> bsLoop cmp xs 0 (length xs);
     if i < length xs then do { c \<leftarrow> cmp (xs ! i); Some (i, c = 0) } else Some (i, False) }"

text \<open>On a list in which the elements below the target come first, the search ends at the first element
  that is not below it.\<close>

lemma bsLoop_partition:
  assumes "i \<le> j" "j \<le> length xs" "\<forall>k < length xs. cmp (xs ! k) = Some (f (xs ! k))"
    and "\<forall>k < i. f (xs ! k) < 0" "\<forall>k. j \<le> k \<longrightarrow> k < length xs \<longrightarrow> \<not> f (xs ! k) < 0"
    and "\<forall>k l. k \<le> l \<longrightarrow> l < length xs \<longrightarrow> f (xs ! l) < 0 \<longrightarrow> f (xs ! k) < 0"
  shows "\<exists>n. bsLoop cmp xs i j = Some n \<and> n \<le> length xs \<and> (\<forall>k < n. f (xs ! k) < 0)
    \<and> (\<forall>k. n \<le> k \<longrightarrow> k < length xs \<longrightarrow> \<not> f (xs ! k) < 0)"
  using assms(1,2,4,5)
proof (induction "j - i" arbitrary: i j rule: less_induct)
  case less
  show ?case
  proof (cases "i < j")
    case False
    then have "bsLoop cmp xs i j = Some i" by (subst bsLoop.simps) simp
    moreover have "i = j" using False less.prems(1) by simp
    ultimately show ?thesis using less.prems by auto
  next
    case True
    let ?h = "(i + j) div 2"
    have h: "?h < length xs" "i \<le> ?h" "?h < j" using True less.prems by auto
    then have c: "cmp (xs ! ?h) = Some (f (xs ! ?h))" using assms(3) by blast
    show ?thesis
    proof (cases "f (xs ! ?h) < 0")
      case lt: True
      have "\<forall>k < ?h + 1. f (xs ! k) < 0" using assms(6) lt h(1) by (metis less_Suc_eq_le Suc_eq_plus1)
      then show ?thesis
        using less.hyps [of j "?h + 1"] less.prems h True c lt by (simp add: bsLoop.simps [of cmp xs i j])
    next
      case ge: False
      have "\<forall>k. ?h \<le> k \<longrightarrow> k < length xs \<longrightarrow> \<not> f (xs ! k) < 0" using assms(6) ge by metis
      then show ?thesis
        using less.hyps [of ?h i] less.prems h True c ge by (simp add: bsLoop.simps [of cmp xs i j])
    qed
  qed
qed

lemma BinarySearchFunc_sorted:
  assumes "sorted (map key xs)"
  shows "\<exists>n. BinarySearchFunc (\<lambda>x. Some (cmpCompare (key x) t)) xs = Some (n, t \<in> key ` set xs) \<and> n \<le> length xs
    \<and> (\<forall>k < n. key (xs ! k) < t) \<and> (\<forall>k. n \<le> k \<longrightarrow> k < length xs \<longrightarrow> t \<le> key (xs ! k))
    \<and> (t \<in> key ` set xs \<longrightarrow> n < length xs \<and> key (xs ! n) = t)"
proof -
  have mono: "\<forall>k l. k \<le> l \<longrightarrow> l < length xs \<longrightarrow> key (xs ! k) \<le> key (xs ! l)"
    using sorted_nth_mono [OF assms] by simp
  have part: "\<forall>k l. k \<le> l \<longrightarrow> l < length xs \<longrightarrow> cmpCompare (key (xs ! l)) t < 0 \<longrightarrow> cmpCompare (key (xs ! k)) t < 0"
    using mono by (auto intro: order_le_less_trans)
  have "\<exists>n. bsLoop (\<lambda>x. Some (cmpCompare (key x) t)) xs 0 (length xs) = Some n \<and> n \<le> length xs
      \<and> (\<forall>k < n. cmpCompare (key (xs ! k)) t < 0) \<and> (\<forall>k. n \<le> k \<longrightarrow> k < length xs \<longrightarrow> \<not> cmpCompare (key (xs ! k)) t < 0)"
    using part by (intro bsLoop_partition) auto
  then obtain n where n: "bsLoop (\<lambda>x. Some (cmpCompare (key x) t)) xs 0 (length xs) = Some n" "n \<le> length xs"
    "\<forall>k < n. key (xs ! k) < t" "\<forall>k. n \<le> k \<longrightarrow> k < length xs \<longrightarrow> t \<le> key (xs ! k)"
    by (auto simp: not_less)
  have mem: "t \<in> key ` set xs \<longleftrightarrow> n < length xs \<and> key (xs ! n) = t"
  proof
    assume "t \<in> key ` set xs"
    then obtain k where k: "k < length xs" "key (xs ! k) = t" by (metis image_iff in_set_conv_nth)
    then have "n \<le> k" using n(3) by (metis less_irrefl not_less)
    then show "n < length xs \<and> key (xs ! n) = t" using k mono n(4) by (metis antisym order_le_less_trans order_refl)
  next
    assume "n < length xs \<and> key (xs ! n) = t"
    then show "t \<in> key ` set xs" by (metis image_eqI nth_mem)
  qed
  then show ?thesis using n by (auto simp: BinarySearchFunc_def)
qed

subsection \<open>New replicas\<close>

definition RVControllerFinalizer :: string where
  "RVControllerFinalizer = ''sds-replicated-volume.deckhouse.io/rv-controller''"

abbreviation rvrID :: "RVR \<Rightarrow> u8 option" where
  "rvrID r \<equiv> idFromName (rvr_Name r)"

definition errorf :: "string \<Rightarrow> goErr" where
  "errorf msg = ErrLeaf EK_Other msg None"

text \<open>A constructor that may fail; \<open>None\<close> is a panic on the name of another replica.\<close>

definition newRVR :: "RV \<Rightarrow> RVR list \<Rightarrow> ReplicaType \<Rightarrow> string \<Rightarrow> (goErr + RVR) option" where
  "newRVR rv rvrs typ nodeName = do {
     (ok, rvr) \<leftarrow> ChooseNewName (emptyRVR \<lparr> rvr_ReplicatedVolumeName := rv_Name rv, rvr_Type := typ, rvr_NodeName := nodeName \<rparr>) rvrs;
     Some (if \<not> ok then Inl (errorf ''no available ID for new RVR'')
           else Inr (rvr \<lparr> rvr_Finalizers := snd (AddFinalizer (rvr_Finalizers rvr) RVControllerFinalizer) \<rparr>)) }"

definition insertRVRSorted :: "RVR list \<Rightarrow> RVR \<Rightarrow> RVR list option" where
  "insertRVRSorted rvrs rvr = do {
     t \<leftarrow> rvrID rvr;
     (idx, _) \<leftarrow> BinarySearchFunc (\<lambda>r. map_option (\<lambda>i. cmpCompare i t) (rvrID r)) rvrs;
     Some (take idx rvrs @ rvr # drop idx rvrs) }"

subsection \<open>Sets of replica IDs\<close>

text \<open>\<open>idset.FromWhere\<close> over objects whose ID comes from the name: an ID that cannot be read is a panic, and so
  is one that the predicate itself reads.\<close>

fun idsWhere :: "('a \<Rightarrow> u8 option) \<Rightarrow> ('a \<Rightarrow> bool option) \<Rightarrow> 'a list \<Rightarrow> IDSet \<Rightarrow> IDSet option" where
  "idsWhere idOf P [] acc = Some acc"
| "idsWhere idOf P (x # xs) acc = do {
     p \<leftarrow> P x;
     if p then do { i \<leftarrow> idOf x; idsWhere idOf P xs (IDSet_Add i acc) } else idsWhere idOf P xs acc }"

definition rvrsWhere :: "(RVR \<Rightarrow> bool) \<Rightarrow> RVR list \<Rightarrow> IDSet option" where
  "rvrsWhere P rvrs = idsWhere rvrID (\<lambda>r. Some (P r)) rvrs 0"

text \<open>With a predicate \<open>S.Contains(rvr.ID()) && P(rvr)\<close>.\<close>

definition rvrsIn :: "IDSet \<Rightarrow> (RVR \<Rightarrow> bool) \<Rightarrow> RVR list \<Rightarrow> IDSet option" where
  "rvrsIn S P rvrs = idsWhere rvrID (\<lambda>r. do { i \<leftarrow> rvrID r; Some (IDSet_Contains S i \<and> P r) }) rvrs 0"

definition membersWhere :: "(DatameshMember \<Rightarrow> bool) \<Rightarrow> DatameshMember list \<Rightarrow> IDSet option" where
  "membersWhere P ms = idsWhere (\<lambda>m. idFromName (m_Name m)) (\<lambda>m. Some (P m)) ms 0"

definition peersWhere :: "(PeerStatus \<Rightarrow> bool) \<Rightarrow> PeerStatus list \<Rightarrow> IDSet option" where
  "peersWhere P ps = idsWhere (\<lambda>p. idFromName (p_Name p)) (\<lambda>p. Some (P p)) ps 0"

lemma ids_Add_any: "ids (IDSet_Add i s) = (if unat i < 32 then insert (unat i) (ids s) else ids s)"
proof (cases "unat i < 32")
  case False
  then have "bit (IDSet_Add i s) n = bit s n" for n by (auto simp: IDSet_Add_def bit_simps)
  then show ?thesis using False by (auto simp: ids_def)
qed simp

lemma idsWhere_ids:
  assumes "idsWhere idOf P xs acc = Some s"
  shows "ids s = ids acc \<union> {unat i | x i. x \<in> set xs \<and> P x = Some True \<and> idOf x = Some i \<and> unat i < 32}"
  using assms
proof (induction xs arbitrary: acc)
  case (Cons x xs)
  then obtain p where p: "P x = Some p" by (auto simp: res_simps)
  show ?case
  proof (cases p)
    case True
    then obtain i where i: "idOf x = Some i" "idsWhere idOf P xs (IDSet_Add i acc) = Some s"
      using Cons.prems p by (auto simp: res_simps)
    then show ?thesis using Cons.IH [OF i(2)] p True by (auto simp: ids_Add_any)
  next
    case False
    then show ?thesis using Cons.IH [of acc] Cons.prems p by auto
  qed
qed auto

lemma rvrsWhere_ids: "rvrsWhere P rvrs = Some s \<Longrightarrow>
    ids s = {unat i | r i. r \<in> set rvrs \<and> P r \<and> rvrID r = Some i \<and> unat i < 32}"
  by (auto simp: rvrsWhere_def dest!: idsWhere_ids)

lemma rvrsIn_ids:
  assumes "rvrsIn S P rvrs = Some s"
  shows "ids s = {unat i | r i. r \<in> set rvrs \<and> P r \<and> rvrID r = Some i \<and> unat i \<in> ids S}"
proof -
  have "(do { i \<leftarrow> rvrID r; Some (IDSet_Contains S i \<and> P r) }) = Some True \<and> rvrID r = Some i \<and> unat i < 32
      \<longleftrightarrow> P r \<and> rvrID r = Some i \<and> unat i \<in> ids S" for r i
    using ids_bounded [of "unat i" S] by (auto simp: res_simps)
  then show ?thesis using idsWhere_ids [OF assms [unfolded rvrsIn_def]] by simp
qed

lemma membersWhere_ids: "membersWhere P ms = Some s \<Longrightarrow>
    ids s = {unat i | m i. m \<in> set ms \<and> P m \<and> idFromName (m_Name m) = Some i \<and> unat i < 32}"
  by (auto simp: membersWhere_def dest!: idsWhere_ids)

subsection \<open>The pool\<close>

datatype PoolType = PoolTypeLVM | PoolTypeLVMThin | PoolType_Other string

text \<open>The pre-fetched view of the storage pool; its lookup relies on the order by node name.\<close>

record rspView =
  view_Type :: PoolType
  view_Zones :: "string list"
  view_SystemNetworkNames :: "string list"
  view_EligibleNodes :: "EligibleNode list"

definition view_FindEligibleNode :: "rspView \<Rightarrow> string \<Rightarrow> EligibleNode option" where
  "view_FindEligibleNode v nodeName =
     (case BinarySearchFunc (\<lambda>en. Some (cmpCompare (en_NodeName en) nodeName)) (view_EligibleNodes v) of
        Some (idx, True) \<Rightarrow> Some (view_EligibleNodes v ! idx)
      | _ \<Rightarrow> None)"

text \<open>The view as the interface the datamesh package reads.\<close>

definition asRSP :: "rspView \<Rightarrow> RSP" where
  "asRSP v = \<lparr> FindEligibleNode = view_FindEligibleNode v, GetSystemNetworkNames = view_SystemNetworkNames v \<rparr>"

subsection \<open>Operations on a DRBD resource\<close>

record CreateNewUUIDParams =
  ClearBitmap :: bool
  ForceResync :: bool

record DRBDROp =
  op_Name :: string
  op_CreationTimestamp :: int
  op_Deleting :: bool
  op_NodeName :: string
  op_DRBDResourceName :: string
  op_Type :: string
  op_CreateNewUUID :: "CreateNewUUIDParams option"
  op_Phase :: string
  op_Message :: string

subsection \<open>The API client\<close>

datatype apiCall =
    CallCreateRVR RVR
  | CallPatchRVR RVR
  | CallDeleteRVR RVR
  | CallPatchRV RV
  | CallPatchRVStatus RV
  | CallPatchRVA RVA
  | CallPatchRVAStatus RVA
  | CallCreateOp DRBDROp
  | CallDeleteOp DRBDROp

text \<open>\<open>cl_GetOp\<close> reads from the cache; what it finds may depend on the calls made before.\<close>

record Client =
  cl_CreateRVR :: "RVR \<Rightarrow> goErr + RVR"
  cl_PatchRVR :: "RVR \<Rightarrow> RVR \<Rightarrow> goErr + RVR"
  cl_DeleteRVR :: "RVR \<Rightarrow> goErr option"
  cl_PatchRV :: "RV \<Rightarrow> RV \<Rightarrow> goErr + RV"
  cl_PatchRVStatus :: "RV \<Rightarrow> RV \<Rightarrow> goErr + RV"
  cl_PatchRVA :: "RVA \<Rightarrow> RVA \<Rightarrow> goErr + RVA"
  cl_PatchRVAStatus :: "RVA \<Rightarrow> RVA \<Rightarrow> goErr + RVA"
  cl_GetOp :: "apiCall list \<Rightarrow> string \<Rightarrow> goErr + DRBDROp"
  cl_CreateOp :: "DRBDROp \<Rightarrow> goErr + DRBDROp"
  cl_DeleteOp :: "DRBDROp \<Rightarrow> goErr option"
  cl_SetControllerRef :: "string \<Rightarrow> RV \<Rightarrow> goErr option"
  cl_SetStatusCondition :: metaSet
  cl_RemoveStatusCondition :: metaRemove

text \<open>What a reconciliation works on: the volume, its replicas and attachments, and the calls made so far.\<close>

record rstate =
  st_rv :: RV
  st_rvrs :: "RVR list"
  st_rvas :: "RVA list"
  st_calls :: "apiCall list"

text \<open>\<open>apierrors.IsNotFound\<close> and \<open>IsAlreadyExists\<close> look through wrapping. The calls themselves never return
  joined errors.\<close>

fun hasKind :: "ErrKind \<Rightarrow> goErr \<Rightarrow> bool" where
  "hasKind k (ErrLeaf k' msg d) \<longleftrightarrow> k' = k"
| "hasKind k (ErrWrap msg e) \<longleftrightarrow> hasKind k e"
| "hasKind k (ErrJoin es) \<longleftrightarrow> list_ex (hasKind k) es"

abbreviation IsNotFound :: "goErr \<Rightarrow> bool" where
  "IsNotFound \<equiv> hasKind EK_NotFound"

abbreviation IsAlreadyExists :: "goErr \<Rightarrow> bool" where
  "IsAlreadyExists \<equiv> hasKind EK_AlreadyExists"

text \<open>\<open>client.IgnoreNotFound\<close>.\<close>

definition IgnoreNotFound :: "goErr option \<Rightarrow> goErr option" where
  "IgnoreNotFound err = (case err of Some e \<Rightarrow> if IsNotFound e then None else Some e | None \<Rightarrow> None)"

text \<open>Deleting a replica: the error, the object (marked as deleting) and the calls made.\<close>

definition deleteRVR :: "Client \<Rightarrow> RVR \<Rightarrow> goErr option \<times> RVR \<times> apiCall list" where
  "deleteRVR cl obj =
     (if rvr_Deleting obj then (None, obj, [])
      else case IgnoreNotFound (cl_DeleteRVR cl obj) of
        Some e \<Rightarrow> (Some e, obj, [CallDeleteRVR obj])
      | None \<Rightarrow> (None, obj \<lparr> rvr_Deleting := True \<rparr>, [CallDeleteRVR obj]))"

definition deleteRVRWithForcedFinalizerRemoval :: "Client \<Rightarrow> RVR \<Rightarrow> goErr option \<times> RVR \<times> apiCall list" where
  "deleteRVRWithForcedFinalizerRemoval cl obj =
     (if HasFinalizer (rvr_Finalizers obj) RVControllerFinalizer
      then let obj1 = obj \<lparr> rvr_Finalizers := snd (RemoveFinalizer (rvr_Finalizers obj) RVControllerFinalizer) \<rparr>
           in case cl_PatchRVR cl obj1 obj of
             Inl e \<Rightarrow> if IsNotFound e then (None, obj1 \<lparr> rvr_Deleting := True \<rparr>, [CallPatchRVR obj1])
                     else (Wrapf (Some e) ''removing finalizer'', obj1, [CallPatchRVR obj1])
           | Inr obj2 \<Rightarrow> (case deleteRVR cl obj2 of (err, obj3, calls) \<Rightarrow> (err, obj3, CallPatchRVR obj1 # calls))
      else deleteRVR cl obj)"

text \<open>The operations: not found is nil, and deleting one that is gone succeeds.\<close>

definition getDRBDROp :: "Client \<Rightarrow> apiCall list \<Rightarrow> string \<Rightarrow> goErr + DRBDROp option" where
  "getDRBDROp cl calls name = (case cl_GetOp cl calls name of
     Inr op \<Rightarrow> Inr (Some op)
   | Inl e \<Rightarrow> (case IgnoreNotFound (Some e) of Some e' \<Rightarrow> Inl e' | None \<Rightarrow> Inr None))"

definition createDRBDROp :: "Client \<Rightarrow> RV \<Rightarrow> DRBDROp \<Rightarrow> (goErr + DRBDROp) \<times> apiCall list" where
  "createDRBDROp cl rv obj = (case cl_SetControllerRef cl (op_Name obj) rv of
     Some e \<Rightarrow> (Inl e, [])
   | None \<Rightarrow> (cl_CreateOp cl obj, [CallCreateOp obj]))"

definition deleteDRBDROp :: "Client \<Rightarrow> DRBDROp \<Rightarrow> goErr option \<times> apiCall list" where
  "deleteDRBDROp cl obj = (if op_Deleting obj then (None, []) else (IgnoreNotFound (cl_DeleteOp cl obj), [CallDeleteOp obj]))"

text \<open>The construction of a replica as the reconcilers repeat it: build it, set the owner, create it, insert
  it in the slice. Either an error of one of these, with the object created by another worker told apart
  (\<open>CreateExists\<close>), or the object and the new slice.\<close>

datatype createResult = CreateFailed goErr | CreateExists | Created RVR "RVR list"

definition createReplica :: "Client \<Rightarrow> RV \<Rightarrow> RVR list \<Rightarrow> ReplicaType \<Rightarrow> string \<Rightarrow> (createResult \<times> apiCall list) option" where
  "createReplica cl rv rvrs typ nodeName = do {
     n \<leftarrow> newRVR rv rvrs typ nodeName;
     case n of
       Inl e \<Rightarrow> Some (CreateFailed e, [])
     | Inr rvr \<Rightarrow> (case cl_SetControllerRef cl (rvr_Name rvr) rv of
         Some e \<Rightarrow> Some (CreateFailed e, [])
       | None \<Rightarrow> (case cl_CreateRVR cl rvr of
           Inl e \<Rightarrow> Some (if IsAlreadyExists e then CreateExists else CreateFailed e, [CallCreateRVR rvr])
         | Inr obj \<Rightarrow> do {
             rvrs' \<leftarrow> insertRVRSorted rvrs obj;
             Some (Created obj rvrs', [CallCreateRVR rvr]) })) }"

text \<open>Deleting some of the replicas of a slice, in order, up to the first error.\<close>

fun deleteWhere :: "string \<Rightarrow> (RVR \<Rightarrow> goErr option \<times> RVR \<times> apiCall list) \<Rightarrow> (RVR \<Rightarrow> bool option) \<Rightarrow> RVR list
    \<Rightarrow> (goErr option \<times> RVR list \<times> apiCall list) option" where
  "deleteWhere what del P [] = Some (None, [], [])"
| "deleteWhere what del P (r # rs) = do {
     p \<leftarrow> P r;
     if \<not> p then do { (err, rs', calls) \<leftarrow> deleteWhere what del P rs; Some (err, r # rs', calls) }
     else case del r of
       (Some e, r', calls) \<Rightarrow> Some (Some (ErrWrap (what @ rvr_Name r') e), r' # rs, calls)
     | (None, r', calls) \<Rightarrow> do { (err, rs', calls') \<leftarrow> deleteWhere what del P rs; Some (err, r' # rs', calls @ calls') } }"

end
