(* ===== verification/Rv_Requests.thy ===== *)
theory Rv_Requests
  imports Rv_Objects Datamesh_Examples "HOL-Library.Multiset"
begin

text \<open>
  Preparatory steps of the volume reconciler (\<open>rv_controller/reconciler.go\<close>): the order in which replicas
  are listed, the two-pointer merge that keeps \<open>status.datameshReplicaRequests\<close> in step with the requests
  of the replicas, and the reported size.
\<close>

subsection \<open>Listing replicas\<close>

text \<open>\<open>getRVRsSorted\<close>: by node name, then by ID. A list of fewer than two elements is not compared at all, so
  no ID is read.\<close>

definition rvrSortKey :: "RVR \<Rightarrow> string \<times> nat" where
  "rvrSortKey r = (rvr_NodeName r, case rvrID r of None \<Rightarrow> 0 | Some i \<Rightarrow> unat i)"

fun sortLe :: "string \<times> nat \<Rightarrow> string \<times> nat \<Rightarrow> bool" where
  "sortLe (n, i) (n', i') \<longleftrightarrow> n < n' \<or> (n = n' \<and> i \<le> i')"

fun insertRVR :: "RVR \<Rightarrow> RVR list \<Rightarrow> RVR list" where
  "insertRVR r [] = [r]"
| "insertRVR r (x # xs) = (if sortLe (rvrSortKey r) (rvrSortKey x) then r # x # xs else x # insertRVR r xs)"

definition getRVRsSorted :: "RVR list \<Rightarrow> RVR list" where
  "getRVRsSorted rvrs = foldr insertRVR rvrs []"

subsection \<open>Replica requests\<close>

definition freshRequest :: "int \<Rightarrow> string \<Rightarrow> MembershipRequest \<Rightarrow> ReplicaRequest" where
  "freshRequest now name req = \<lparr> rr_Name = name, rr_Message = [], rr_Request = req, rr_FirstObservedAt = now \<rparr>"

text \<open>Sorting the existing entries by ID panics on a name that is too short, once there is something to
  compare.\<close>

definition requestID :: "ReplicaRequest \<Rightarrow> u8 option" where
  "requestID q = idFromName (rr_Name q)"

definition sortRequests :: "ReplicaRequest list \<Rightarrow> ReplicaRequest list option" where
  "sortRequests existing =
     (if length existing < 2 then Some existing
      else if list_ex (\<lambda>q. requestID q = None) existing then None
      else Some (sort_key (\<lambda>q. the (requestID q)) existing))"

text \<open>The merge loop and the two drains: whether anything changed, and the result.\<close>

fun mergeRequests :: "int \<Rightarrow> ReplicaRequest list \<Rightarrow> RVR list \<Rightarrow> bool \<times> ReplicaRequest list" where
  "mergeRequests now [] [] = (False, [])"
| "mergeRequests now [] (r # rs) =
     (case rvr_DatameshRequest r of
        None \<Rightarrow> mergeRequests now [] rs
      | Some req \<Rightarrow> (True, freshRequest now (rvr_Name r) req # snd (mergeRequests now [] rs)))"
| "mergeRequests now (e # es) [] = (True, [])"
| "mergeRequests now (e # es) (r # rs) =
     (case rvr_DatameshRequest r of
        None \<Rightarrow> mergeRequests now (e # es) rs
      | Some req \<Rightarrow>
          if cmpCompare (rr_Name e) (rvr_Name r) = -1 then (True, snd (mergeRequests now es (r # rs)))
          else if cmpCompare (rr_Name e) (rvr_Name r) = 1
          then (True, freshRequest now (rvr_Name r) req # snd (mergeRequests now (e # es) rs))
          else case mergeRequests now es rs of (ch, result) \<Rightarrow>
            if MembershipRequest_Equals (Some (rr_Request e)) (Some req) then (ch, e # result)
            else (True, freshRequest now (rvr_Name r) req # result))"

definition ensureDatameshReplicaRequests :: "int \<Rightarrow> RV \<Rightarrow> RVR list \<Rightarrow> (EnsureOutcome \<times> RV) option" where
  "ensureDatameshReplicaRequests now rv rvrs = do {
     existing \<leftarrow> sortRequests (rv_DatameshReplicaRequests rv);
     let (changed, result) = mergeRequests now existing rvrs;
     Some (ensure_ReportChangedIf changed ef_Ok,
           rv \<lparr> rv_DatameshReplicaRequests := (if changed then result else existing) \<rparr>) }"

subsection \<open>Reported size\<close>

text \<open>Reading the IDs of the members and, in order, of the replicas may panic.\<close>

fun minDiskfulSize :: "IDSet \<Rightarrow> RVR list \<Rightarrow> u64 option \<Rightarrow> u64 option option" where
  "minDiskfulSize diskful [] acc = Some acc"
| "minDiskfulSize diskful (r # rs) acc = do {
     i \<leftarrow> rvrID r;
     minDiskfulSize diskful rs
       (if \<not> IDSet_Contains diskful i then acc
        else case rvr_Size r of
          None \<Rightarrow> acc
        | Some s \<Rightarrow> (case acc of None \<Rightarrow> Some s | Some m \<Rightarrow> if s < m then Some s else acc)) }"

fun memberIDsWhere :: "(DatameshMember \<Rightarrow> bool) \<Rightarrow> DatameshMember list \<Rightarrow> IDSet \<Rightarrow> IDSet option" where
  "memberIDsWhere P [] acc = Some acc"
| "memberIDsWhere P (m # ms) acc =
     (if P m then do { i \<leftarrow> idFromName (m_Name m); memberIDsWhere P ms (IDSet_Add i acc) }
      else memberIDsWhere P ms acc)"

definition ensureStatusSize :: "RV \<Rightarrow> RVR list \<Rightarrow> (EnsureOutcome \<times> RV) option" where
  "ensureStatusSize rv rvrs = do {
     diskfulMembers \<leftarrow> memberIDsWhere (\<lambda>m. HasBackingVolume (m_Type m)) (ds_Members (rv_Datamesh rv)) 0;
     minSize \<leftarrow> minDiskfulSize diskfulMembers rvrs None;
     let changed = (rv_Size rv \<noteq> minSize);
     Some (ensure_ReportChangedIf changed ef_Ok, if changed then rv \<lparr> rv_Size := minSize \<rparr> else rv) }"

subsection \<open>The merge keeps the content in step\<close>

definition requested :: "RVR list \<Rightarrow> (string \<times> MembershipRequest) list" where
  "requested rvrs = List.map_filter (\<lambda>r. map_option (Pair (rvr_Name r)) (rvr_DatameshRequest r)) rvrs"

definition content :: "ReplicaRequest list \<Rightarrow> (string \<times> MembershipRequest) list" where
  "content qs = map (\<lambda>q. (rr_Name q, rr_Request q)) qs"

lemma requested_simps [simp]:
  "requested [] = []"
  "requested (r # rs) = (case rvr_DatameshRequest r of None \<Rightarrow> [] | Some req \<Rightarrow> [(rvr_Name r, req)]) @ requested rs"
  by (auto simp: requested_def map_filter_simps split: option.splits)

lemma content_simps [simp]: "content [] = []" "content (q # qs) = (rr_Name q, rr_Request q) # content qs"
  by (simp_all add: content_def)

lemma Equals_eq [simp]: "MembershipRequest_Equals (Some a) (Some b) \<longleftrightarrow> a = b"
  by (cases a; cases b) (auto simp: MembershipRequest_Equals_def)

lemma cmpCompare_values [simp]:
  "cmpCompare a b = -1 \<longleftrightarrow> a < b" "cmpCompare a b = 1 \<longleftrightarrow> b < a"
  by (auto simp: cmpCompare_def)

lemma merge_content: "content (snd (mergeRequests now es rs)) = requested rs"
  by (induction now es rs rule: mergeRequests.induct)
    (auto simp: freshRequest_def split: option.splits prod.splits if_splits)

lemma merge_unchanged: "\<not> fst (mergeRequests now es rs) \<Longrightarrow> snd (mergeRequests now es rs) = es"
  by (induction now es rs rule: mergeRequests.induct) (auto split: option.splits prod.splits if_splits)

text \<open>The reference: every request of a replica keeps the entry of its name if the request is the same,
  and gets a fresh one otherwise.\<close>

definition keepOrFresh :: "int \<Rightarrow> ReplicaRequest list \<Rightarrow> string \<times> MembershipRequest \<Rightarrow> ReplicaRequest" where
  "keepOrFresh now existing nr = (case find (\<lambda>q. rr_Name q = fst nr) existing of
     Some q \<Rightarrow> if rr_Request q = snd nr then q else freshRequest now (fst nr) (snd nr)
   | None \<Rightarrow> freshRequest now (fst nr) (snd nr))"

lemma find_above: "\<forall>q \<in> set es. n < rr_Name q \<Longrightarrow> find (\<lambda>q. rr_Name q = n) es = None"
  by (induction es) auto

lemma keepOrFresh_drop:
  "\<forall>nr \<in> set ns. rr_Name e < fst nr \<Longrightarrow> map (keepOrFresh now (e # es)) ns = map (keepOrFresh now es) ns"
  by (auto simp: keepOrFresh_def)

lemma requested_names: "nr \<in> set (requested rs) \<Longrightarrow> fst nr \<in> rvr_Name ` set rs"
  by (induction rs) (auto split: option.splits)

lemma merge_reference:
  assumes "sorted_wrt (<) (map rr_Name es)" and "sorted_wrt (<) (map rvr_Name rs)"
  shows "snd (mergeRequests now es rs) = map (keepOrFresh now es) (requested rs)"
  using assms
proof (induction now es rs rule: mergeRequests.induct)
  case (2 now r rs)
  then show ?case by (auto simp: keepOrFresh_def split: option.splits)
next
  case (4 now e es r rs)
  have above: "\<forall>nr \<in> set (requested rs). rvr_Name r < fst nr"
    using requested_names [of _ rs] "4.prems"(2) by fastforce
  show ?case
  proof (cases "rvr_DatameshRequest r")
    case None
    then show ?thesis using 4 by simp
  next
    case (Some req)
    consider "rr_Name e < rvr_Name r" | "rvr_Name r < rr_Name e" | "rr_Name e = rvr_Name r" by (meson linorder_less_linear)
    then show ?thesis
    proof cases
      case 1
      then have "map (keepOrFresh now (e # es)) (requested (r # rs)) = map (keepOrFresh now es) (requested (r # rs))"
        using above Some by (intro keepOrFresh_drop) auto
      then show ?thesis using 1 Some "4.IH"(2) [OF Some] "4.prems" by simp
    next
      case 2
      then have "find (\<lambda>q. rr_Name q = rvr_Name r) (e # es) = None"
        using "4.prems"(1) by (intro find_above) auto
      then have "keepOrFresh now (e # es) (rvr_Name r, req) = freshRequest now (rvr_Name r) req"
        by (simp add: keepOrFresh_def)
      then show ?thesis using 2 Some "4.IH"(3) [OF Some] "4.prems" by auto
    next
      case 3
      have "map (keepOrFresh now (e # es)) (requested rs) = map (keepOrFresh now es) (requested rs)"
        using above 3 by (intro keepOrFresh_drop) auto
      moreover have "keepOrFresh now (e # es) (rvr_Name r, req)
          = (if rr_Request e = req then e else freshRequest now (rvr_Name r) req)"
        using 3 by (simp add: keepOrFresh_def)
      ultimately show ?thesis using 3 Some "4.IH"(4) [OF Some] "4.prems" by (auto split: prod.splits)
    qed
  qed
qed (simp_all)

lemma ensure_cases:
  assumes "ensureDatameshReplicaRequests now rv rvrs = Some (eo, rv')"
  obtains existing where "sortRequests (rv_DatameshReplicaRequests rv) = Some existing"
    "e_changed eo = fst (mergeRequests now existing rvrs)"
    "rv_DatameshReplicaRequests rv' = snd (mergeRequests now existing rvrs)"
proof -
  obtain existing where x: "sortRequests (rv_DatameshReplicaRequests rv) = Some existing"
    using assms by (auto simp: ensureDatameshReplicaRequests_def res_simps)
  then show ?thesis
    using that assms merge_unchanged [of now existing rvrs]
    by (auto simp: ensureDatameshReplicaRequests_def ensure_ReportChangedIf_def ef_Ok_def split: prod.splits if_splits)
qed

lemma ensure_total:
  "sortRequests (rv_DatameshReplicaRequests rv) = Some existing \<Longrightarrow>
     \<exists>eo rv'. ensureDatameshReplicaRequests now rv rvrs = Some (eo, rv')"
  by (cases "mergeRequests now existing rvrs") (simp add: ensureDatameshReplicaRequests_def)

lemma mset_sortRequests: "sortRequests qs = Some qs' \<Longrightarrow> mset qs' = mset qs"
  by (auto simp: sortRequests_def split: if_splits)

subsection \<open>Properties\<close>

text \<open>After \<open>ensureDatameshReplicaRequests\<close> the volume lists exactly the requests of its replicas, one
  entry per replica that has a request, in the order of the replicas, whatever order both lists were in.
  If it reports no change, the entries are the ones the volume had.\<close>

theorem replica_requests_in_step:
  assumes "ensureDatameshReplicaRequests now rv rvrs = Some (eo, rv')"
  shows "content (rv_DatameshReplicaRequests rv') = requested rvrs
    \<and> (\<not> e_changed eo \<longrightarrow> mset (rv_DatameshReplicaRequests rv') = mset (rv_DatameshReplicaRequests rv))"
  using assms
proof (cases rule: ensure_cases)
  case (1 existing)
  then show ?thesis
    using merge_unchanged [of now existing rvrs] mset_sortRequests [OF 1(1)] by (auto simp: merge_content)
qed

definition exRequest :: MembershipRequest where
  "exRequest = \<lparr> rq_Operation = Join, rq_Type = RT_Diskful, rq_LVMVolumeGroupName = ''lvg'', rq_ThinPoolName = [] \<rparr>"

definition exEntry :: "nat \<Rightarrow> string \<Rightarrow> int \<Rightarrow> ReplicaRequest" where
  "exEntry i msg t = \<lparr> rr_Name = exName i, rr_Message = msg, rr_Request = exRequest, rr_FirstObservedAt = t \<rparr>"

definition exAsking :: "nat \<Rightarrow> string \<Rightarrow> RVR" where
  "exAsking i node = (exRVR i 7) \<lparr> rvr_NodeName := node, rvr_DatameshRequest := Some exRequest \<rparr>"

abbreviation exAskingRV :: "ReplicaRequest list \<Rightarrow> RV" where
  "exAskingRV qs \<equiv> exRV 1 1 [] [] qs"

lemma ex_names [simp]: "exName 0 = ''vol-0''" "exName (Suc 0) = ''vol-1''"
  "idFromName ''vol-0'' = Some 0" "idFromName ''vol-1'' = Some 1"
  by code_simp+

lemma ex_order [simp]: "(''vol-0'' :: string) < ''vol-1''" "\<not> (''vol-1'' :: string) < ''vol-0''"
  by code_simp+

theorem replica_requests_in_step_witness:
  "\<exists>eo rv'. ensureDatameshReplicaRequests 9 (exAskingRV []) [exAsking 0 ''a''] = Some (eo, rv')
     \<and> content (rv_DatameshReplicaRequests rv') = [(''vol-0'', exRequest)]"
proof -
  have s: "sortRequests (rv_DatameshReplicaRequests (exAskingRV [])) = Some []"
    by (simp add: sortRequests_def exRV_def)
  obtain eo rv' where e: "ensureDatameshReplicaRequests 9 (exAskingRV []) [exAsking 0 ''a''] = Some (eo, rv')"
    using ensure_total [OF s] by blast
  from replica_requests_in_step [OF e] e show ?thesis
    by (auto simp: exAsking_def exRVR_def emptyRVR_def)
qed

text \<open>The merge is exact when both lists are in name order. A request that a replica still has keeps
  its entry, with its message and the time it was first observed, and only a new or changed request
  gets a fresh entry: the two-pointer merge is the lookup by name.\<close>

theorem merge_is_lookup_by_name:
  assumes "ensureDatameshReplicaRequests now rv rvrs = Some (eo, rv')"
    and "sortRequests (rv_DatameshReplicaRequests rv) = Some existing"
    and "sorted_wrt (<) (map rr_Name existing)" and "sorted_wrt (<) (map rvr_Name rvrs)"
  shows "rv_DatameshReplicaRequests rv' = map (keepOrFresh now existing) (requested rvrs)"
  using assms(1)
proof (cases rule: ensure_cases)
  case (1 ex)
  then show ?thesis using assms(2) merge_reference [OF assms(3,4)] by simp
qed

theorem merge_is_lookup_by_name_witness:
  "\<exists>eo rv'. ensureDatameshReplicaRequests 9 (exAskingRV [exEntry 0 ''waiting'' 3]) [exAsking 0 ''b'', exAsking 1 ''a''] = Some (eo, rv')
     \<and> rv_DatameshReplicaRequests rv' = [exEntry 0 ''waiting'' 3, exEntry 1 [] 9]"
proof -
  let ?rv = "exAskingRV [exEntry 0 ''waiting'' 3]" and ?rs = "[exAsking 0 ''b'', exAsking 1 ''a'']"
  have s: "sortRequests (rv_DatameshReplicaRequests ?rv) = Some [exEntry 0 ''waiting'' 3]"
    by (simp add: sortRequests_def exRV_def)
  obtain eo rv' where e: "ensureDatameshReplicaRequests 9 ?rv ?rs = Some (eo, rv')"
    using ensure_total [OF s] by blast
  have "sorted_wrt (<) (map rvr_Name ?rs)" by (simp add: exAsking_def exRVR_def emptyRVR_def)
  from merge_is_lookup_by_name [OF e s _ this] e show ?thesis
    by (auto simp: exAsking_def exRVR_def emptyRVR_def keepOrFresh_def exEntry_def freshRequest_def)
qed

text \<open>The listing order breaks the merge. Replicas are listed by node name first, so replica 1 on node
  a comes before replica 0 on node b, while the entries are sorted by ID. With entries that match both
  replicas the merge still reports a change, drops the entry of replica 0 and makes a fresh one with an
  empty message and the current time. Its result is again such a pair, so this happens on every pass.\<close>

theorem listing_by_node_never_settles:
  "ensureDatameshReplicaRequests now (exAskingRV [exEntry 0 m0 t0, exEntry 1 m1 t1]) (getRVRsSorted [exAsking 0 ''b'', exAsking 1 ''a''])
     = Some (ensure_ReportChangedIf True ef_Ok, exAskingRV [exEntry 1 m1 t1, exEntry 0 [] now])
   \<and> ensureDatameshReplicaRequests now (exAskingRV [exEntry 1 m1 t1, exEntry 0 m0 t0]) (getRVRsSorted [exAsking 0 ''b'', exAsking 1 ''a''])
     = Some (ensure_ReportChangedIf True ef_Ok, exAskingRV [exEntry 1 m1 t1, exEntry 0 [] now])"
proof -
  have l: "getRVRsSorted [exAsking 0 ''b'', exAsking 1 ''a''] = [exAsking 1 ''a'', exAsking 0 ''b'']"
    by code_simp
  have s: "sortRequests [exEntry 0 m0 t0, exEntry 1 m1 t1] = Some [exEntry 0 m0 t0, exEntry 1 m1 t1]"
    "sortRequests [exEntry 1 m1 t1, exEntry 0 m0 t0] = Some [exEntry 0 m0 t0, exEntry 1 m1 t1]"
    by (auto simp: sortRequests_def requestID_def exEntry_def)
  show ?thesis
    unfolding l using s
    by (auto simp: ensureDatameshReplicaRequests_def exRV_def ensure_ReportChangedIf_def ef_Ok_def exAsking_def
        exRVR_def emptyRVR_def exEntry_def freshRequest_def)
qed

end
