(* ===== verification/Rv_Rollout.thy ===== *)
theory Rv_Rollout
  imports Rv_Objects Datamesh_Examples
begin

text \<open>
  Configuration of a volume (\<open>rv_controller/reconciler.go\<close>, \<open>reconcileRVConfiguration\<close>) and the budget of a
  configuration rollout across a storage class (\<open>rv_controller/reconciler_rollout.go\<close>). The listing of
  the volumes of the class and the zone count of the pool are parameters, as is the condition upsert.
\<close>

subsection \<open>Storage classes\<close>

datatype RolloutType = ConfigurationRolloutRollingUpdate | ConfigurationRolloutNewVolumesOnly | RolloutType_Other string

record RolloutStrategy =
  rs_Type :: RolloutType
  rs_MaxParallel :: "int option"

record RSC =
  rsc_Name :: string
  rsc_Generation :: int
  rsc_Configuration :: "ReplicatedVolumeConfiguration option"
  rsc_ConfigurationGeneration :: int
  rsc_RolloutStrategy :: "RolloutStrategy option"

definition RolloutStrategy_GetType :: "RolloutStrategy option \<Rightarrow> RolloutType" where
  "RolloutStrategy_GetType s = (case s of None \<Rightarrow> ConfigurationRolloutRollingUpdate | Some x \<Rightarrow> rs_Type x)"

subsection \<open>Formation\<close>

text \<open>Whether the datamesh is still forming, and at which step.\<close>

fun firstOpenStep :: "TransitionStep list \<Rightarrow> nat \<Rightarrow> nat option" where
  "firstOpenStep [] i = None"
| "firstOpenStep (s # ss) i = (if s_Status s \<noteq> Completed then Some i else firstOpenStep ss (Suc i))"

definition isFormationInProgress :: "RV \<Rightarrow> bool \<times> nat" where
  "isFormationInProgress rv =
     (if rv_DatameshRevision rv = 0 then (True, 0)
      else case find (\<lambda>t. t_Type t = TT_Formation) (rv_DatameshTransitions rv) of
        None \<Rightarrow> (False, 0)
      | Some t \<Rightarrow> (True, case firstOpenStep (t_Steps t) 0 of Some j \<Rightarrow> j | None \<Rightarrow> 0))"

subsection \<open>The rollout budget\<close>

definition defaultConfigurationRolloutMaxParallel :: int where
  "defaultConfigurationRolloutMaxParallel = 5"

datatype rolloutRole = rolloutRoleExcluded | rolloutRoleActive | rolloutRoleConverged | rolloutRolePending

record rolloutCohort =
  activeCount :: int
  pendingNames :: "string list"

definition computeIntendedRolloutMaxParallel :: "RSC \<Rightarrow> int" where
  "computeIntendedRolloutMaxParallel rsc = (case rsc_RolloutStrategy rsc of
     None \<Rightarrow> defaultConfigurationRolloutMaxParallel
   | Some s \<Rightarrow> (case rs_MaxParallel s of
       None \<Rightarrow> defaultConfigurationRolloutMaxParallel
     | Some n \<Rightarrow> if n \<le> 0 then defaultConfigurationRolloutMaxParallel else n))"

definition rv_Condition :: "RV \<Rightarrow> string \<Rightarrow> StatusConditionChecker" where
  "rv_Condition rv condType = StatusCondition (rv_Conditions rv) (rv_Generation rv) condType"

definition computeActualRolloutConvergence :: "RV \<Rightarrow> rolloutRole" where
  "computeActualRolloutConvergence rv =
     (if chk_Eval (chk_ObservedGenerationCurrent (chk_ReasonEqual ''Converged'' (chk_IsTrue (rv_Condition rv ''MembershipLayoutConverged''))))
      then rolloutRoleConverged else rolloutRoleActive)"

definition computeActualRolloutRole :: "RV \<Rightarrow> string \<Rightarrow> ReplicatedVolumeConfiguration \<Rightarrow> int \<Rightarrow> rolloutRole" where
  "computeActualRolloutRole rv rscName intended intendedGeneration =
     (if rv_DeletionTimestamp rv \<noteq> None then rolloutRoleExcluded
      else if rv_Spec_ConfigurationMode rv = ConfigurationModeManual \<or> rv_Spec_ReplicatedStorageClassName rv \<noteq> rscName
      then rolloutRoleExcluded
      else case rv_Configuration rv of
        None \<Rightarrow> rolloutRoleExcluded
      | Some cfg \<Rightarrow>
          if fst (isFormationInProgress rv) then rolloutRoleExcluded
          else if cfg \<noteq> intended then rolloutRolePending
          else if rv_ConfigurationGeneration rv \<noteq> intendedGeneration then rolloutRoleActive
          else computeActualRolloutConvergence rv)"

text \<open>The members: the listing with nil entries dropped and the reconciled volume in place of its first
  listed copy (further copies are dropped), appended if it is not listed.\<close>

fun rolloutMembers :: "RV \<Rightarrow> RV option list \<Rightarrow> bool \<Rightarrow> RV list" where
  "rolloutMembers rv [] selfIncluded = (if selfIncluded then [] else [rv])"
| "rolloutMembers rv (None # ls) selfIncluded = rolloutMembers rv ls selfIncluded"
| "rolloutMembers rv (Some listed # ls) selfIncluded =
     (if rv_Name listed \<noteq> rv_Name rv then listed # rolloutMembers rv ls selfIncluded
      else if \<not> selfIncluded then rv # rolloutMembers rv ls True
      else rolloutMembers rv ls selfIncluded)"

definition computeActualRolloutCohort :: "RV \<Rightarrow> RV option list \<Rightarrow> ReplicatedVolumeConfiguration \<Rightarrow> int \<Rightarrow> rolloutCohort" where
  "computeActualRolloutCohort rv classRVs intended intendedGeneration =
     (let members = rolloutMembers rv classRVs False;
          role = (\<lambda>m. computeActualRolloutRole m (rv_Spec_ReplicatedStorageClassName rv) intended intendedGeneration)
      in \<lparr> activeCount = int (countp (\<lambda>m. role m = rolloutRoleActive) members),
           pendingNames = sort (map rv_Name (filter (\<lambda>m. role m = rolloutRolePending) members)) \<rparr>)"

text \<open>\<open>slices.Index\<close>.\<close>

fun indexOf :: "'a list \<Rightarrow> 'a \<Rightarrow> nat option" where
  "indexOf [] x = None"
| "indexOf (y # ys) x = (if y = x then Some 0 else map_option Suc (indexOf ys x))"

definition computeTargetRolloutAdmission :: "RV \<Rightarrow> rolloutCohort \<Rightarrow> int \<Rightarrow> bool" where
  "computeTargetRolloutAdmission rv cohort maxParallel = (case indexOf (pendingNames cohort) (rv_Name rv) of
     None \<Rightarrow> True
   | Some position \<Rightarrow> int position < maxParallel - activeCount cohort)"

subsection \<open>Configuration\<close>

definition isTransZonalZoneCountValid :: "u8 \<Rightarrow> u8 \<Rightarrow> int \<Rightarrow> bool" where
  "isTransZonalZoneCountValid ftt gmdr zoneCount =
     (if ftt = 0 \<and> gmdr = 1 then zoneCount = 2
      else if ftt = 1 \<and> gmdr = 0 then zoneCount = 3
      else if ftt = 1 \<and> gmdr = 1 then zoneCount = 3
      else if ftt = 1 \<and> gmdr = 2 then zoneCount = 3 \<or> zoneCount = 5
      else if ftt = 2 \<and> gmdr = 1 then zoneCount = 4
      else if ftt = 2 \<and> gmdr = 2 then zoneCount = 3 \<or> zoneCount = 5
      else False)"

record ConfigurationEnv =
  ce_SetStatusCondition :: metaSet
  ce_now :: int
  ce_RSPZoneCount :: "string \<Rightarrow> goErr + int"
  ce_RVsByRSC :: "string \<Rightarrow> goErr + RV option list"

definition applyConfigurationReadyCond :: "ConfigurationEnv \<Rightarrow> ConditionStatus \<Rightarrow> string \<Rightarrow> string \<Rightarrow> RV \<Rightarrow> bool \<times> RV" where
  "applyConfigurationReadyCond E status reason message rv =
     (case SetStatusCondition (ce_SetStatusCondition E) (ce_now E) (rv_Generation rv) (rv_Conditions rv)
         \<lparr> c_Type = ''ConfigurationReady'', c_Status = status, c_ObservedGeneration = 0, c_Reason = reason,
           c_Message = message, c_LastTransitionTime = None \<rparr> of
       (changed, conds) \<Rightarrow> (changed, rv \<lparr> rv_Conditions := conds \<rparr>))"

definition applyConfigurationReadyCondTrue :: "ConfigurationEnv \<Rightarrow> string \<Rightarrow> string \<Rightarrow> RV \<Rightarrow> bool \<times> RV" where
  "applyConfigurationReadyCondTrue E = applyConfigurationReadyCond E ConditionTrue"

definition applyConfigurationReadyCondFalse :: "ConfigurationEnv \<Rightarrow> string \<Rightarrow> string \<Rightarrow> RV \<Rightarrow> bool \<times> RV" where
  "applyConfigurationReadyCondFalse E = applyConfigurationReadyCond E ConditionFalse"

text \<open>The source of the intended configuration: the volume itself (manual mode) or the storage class, once
  that has published one for its current generation. \<open>Inl\<close> is the message of the early return.\<close>

record configSource =
  cs_intended :: ReplicatedVolumeConfiguration
  cs_generation :: int
  cs_hold :: bool
  cs_throttle :: bool

definition intendedConfiguration :: "RV \<Rightarrow> RSC option \<Rightarrow> (string + configSource) option" where
  "intendedConfiguration rv rsc =
     (if rv_Spec_ConfigurationMode rv = ConfigurationModeManual
      then do { cfg \<leftarrow> rv_Spec_ManualConfiguration rv;
                Some (Inr \<lparr> cs_intended = cfg, cs_generation = 0, cs_hold = False, cs_throttle = False \<rparr>) }
      else case rsc of
        None \<Rightarrow> Some (Inl (''ReplicatedStorageClass '' @ quoted (rv_Spec_ReplicatedStorageClassName rv) @ '' not found''))
      | Some c \<Rightarrow> (case rsc_Configuration c of
          None \<Rightarrow> Some (Inl (''ReplicatedStorageClass '' @ quoted (rsc_Name c) @ '' configuration not ready''))
        | Some cfg \<Rightarrow>
            if rsc_ConfigurationGeneration c \<noteq> rsc_Generation c
            then Some (Inl (''ReplicatedStorageClass '' @ quoted (rsc_Name c)
              @ '' has not published a configuration for generation '' @ itoa (rsc_Generation c)
              @ '' yet (published generation: '' @ itoa (rsc_ConfigurationGeneration c) @ '')''))
            else Some (Inr \<lparr> cs_intended = cfg, cs_generation = rsc_ConfigurationGeneration c,
                  cs_hold = (RolloutStrategy_GetType (rsc_RolloutStrategy c) = ConfigurationRolloutNewVolumesOnly),
                  cs_throttle = True \<rparr>)))"

definition configurationRolloutRequeueInterval :: int where
  "configurationRolloutRequeueInterval = 5 * 1000000000"

definition observe :: "int \<Rightarrow> RV \<Rightarrow> bool \<times> RV" where
  "observe gen rv = (rv_ConfigurationObservedGeneration rv \<noteq> gen, rv \<lparr> rv_ConfigurationObservedGeneration := gen \<rparr>)"

text \<open>The validation of the zone count: an error, a message that the configuration is invalid, or nothing.\<close>

definition validateZones :: "ConfigurationEnv \<Rightarrow> ReplicatedVolumeConfiguration \<Rightarrow> goErr + string option" where
  "validateZones E intended =
     (if cfg_Topology intended \<noteq> TopologyTransZonal then Inr None
      else case ce_RSPZoneCount E (ReplicatedStoragePoolName intended) of
        Inl e \<Rightarrow> if IsNotFound e
          then Inr (Some (''ReplicatedStoragePool '' @ quoted (ReplicatedStoragePoolName intended) @ '' not found''))
          else Inl (ErrWrap (''getting RSP zone count for '' @ ReplicatedStoragePoolName intended) e)
      | Inr n \<Rightarrow> if isTransZonalZoneCountValid (FailuresToTolerate intended) (GuaranteedMinimumDataRedundancy intended) n
          then Inr None
          else Inr (Some (''TransZonal with FTT='' @ itoa (uint (FailuresToTolerate intended)) @ '', GMDR=''
            @ itoa (uint (GuaranteedMinimumDataRedundancy intended)) @ '' requires a valid zone count, RSP has '' @ itoa n @ '' zones'')))"

text \<open>The throttle: admitted, or the limit that holds the volume back.\<close>

definition throttled :: "ConfigurationEnv \<Rightarrow> RV \<Rightarrow> RSC option \<Rightarrow> configSource \<Rightarrow> (goErr + int option) option" where
  "throttled E rv rsc src =
     (if \<not> (cs_throttle src \<and> rv_Configuration rv \<noteq> None) then Some (Inr None)
      else do {
        c \<leftarrow> rsc;
        Some (case ce_RVsByRSC E (rsc_Name c) of
          Inl e \<Rightarrow> Inl (ErrWrap (''listing ReplicatedVolumes of ReplicatedStorageClass '' @ rsc_Name c) e)
        | Inr classRVs \<Rightarrow>
            let maxParallel = computeIntendedRolloutMaxParallel c;
                cohort = computeActualRolloutCohort rv classRVs (cs_intended src) (cs_generation src)
            in if computeTargetRolloutAdmission rv cohort maxParallel then Inr None else Inr (Some maxParallel)) })"

text \<open>Everything after the source is known.\<close>

definition applyConfiguration :: "ConfigurationEnv \<Rightarrow> RV \<Rightarrow> RSC option \<Rightarrow> configSource \<Rightarrow> (ReconcileOutcome \<times> RV) option" where
  "applyConfiguration E rv rsc src =
     (let gen = cs_generation src in
      if rv_Configuration rv = Some (cs_intended src) then
        let ch1 = (rv_ConfigurationGeneration rv \<noteq> gen);
            (ch2, rv2) = observe gen (rv \<lparr> rv_ConfigurationGeneration := gen \<rparr>);
            (ch3, rv3) = applyConfigurationReadyCondTrue E ''Ready'' ''Configuration is ready'' rv2
        in Some (ReportChangedIf (ch3 \<or> ch1 \<or> ch2) rf_Continue, rv3)
      else if cs_hold src \<and> rv_Configuration rv \<noteq> None then do {
        c \<leftarrow> rsc;
        let (ch1, rv1) = observe gen rv;
        let (ch2, rv2) = applyConfigurationReadyCondFalse E ''NewerConfigurationHeld''
              (''ReplicatedStorageClass '' @ quoted (rsc_Name c) @ '' has a newer configuration (generation '' @ itoa gen
               @ ''); the volume keeps its configuration (generation '' @ itoa (rv_ConfigurationGeneration rv)
               @ '') because the rollout strategy is NewVolumesOnly'') rv1;
        Some (ReportChangedIf (ch2 \<or> ch1) rf_Continue, rv2) }
      else case validateZones E (cs_intended src) of
        Inl e \<Rightarrow> Some (failure e, rv)
      | Inr (Some msg) \<Rightarrow> (case applyConfigurationReadyCondFalse E ''InvalidConfiguration'' msg rv of
          (ch, rv1) \<Rightarrow> Some (ReportChangedIf ch rf_Continue, rv1))
      | Inr None \<Rightarrow> do {
          t \<leftarrow> throttled E rv rsc src;
          case t of
            Inl e \<Rightarrow> Some (failure e, rv)
          | Inr (Some maxParallel) \<Rightarrow> do {
              c \<leftarrow> rsc;
              let (ch1, rv1) = observe gen rv;
              let (ch2, rv2) = applyConfigurationReadyCondFalse E ''ConfigurationRolloutInProgress''
                    (''ReplicatedStorageClass '' @ quoted (rsc_Name c) @ '' rolls its configuration (generation '' @ itoa gen
                     @ '') out to at most '' @ itoa maxParallel @ '' volume(s) at a time; the volume keeps its configuration (generation ''
                     @ itoa (rv_ConfigurationGeneration rv) @ '') until a slot is free'') rv1;
              o' \<leftarrow> rf_ContinueAndRequeueAfter configurationRolloutRequeueInterval;
              Some (ReportChangedIf (ch2 \<or> ch1) o', rv2) }
          | Inr None \<Rightarrow>
              let rv1 = rv \<lparr> rv_Configuration := Some (cs_intended src), rv_ConfigurationGeneration := gen,
                             rv_ConfigurationObservedGeneration := gen \<rparr>;
                  (_, rv2) = applyConfigurationReadyCondTrue E ''Ready'' ''Configuration is ready'' rv1
              in Some (ReportChangedIf True rf_Continue, rv2) })"

definition reconcileRVConfiguration :: "ConfigurationEnv \<Rightarrow> RV \<Rightarrow> RSC option \<Rightarrow> (ReconcileOutcome \<times> RV) option" where
  "reconcileRVConfiguration E rv rsc = do {
     s \<leftarrow> intendedConfiguration rv rsc;
     case s of
       Inl msg \<Rightarrow> (case applyConfigurationReadyCondFalse E ''WaitingForStorageClass'' msg rv of
         (changed, rv1) \<Rightarrow> Some (ReportChangedIf changed rf_Continue, rv1))
     | Inr src \<Rightarrow> applyConfiguration E rv rsc src }"

subsection \<open>Lemmas on the decision\<close>

lemma indexOf_Some: "indexOf xs x = Some k \<Longrightarrow> k < length xs \<and> xs ! k = x"
  by (induction xs arbitrary: k) (auto split: if_splits)

lemma indexOf_None: "indexOf xs x = None \<longleftrightarrow> x \<notin> set xs"
  by (induction xs) auto

text \<open>The position in a sorted list without repetitions is the number of smaller elements.\<close>

lemma indexOf_sorted:
  fixes xs :: "'a :: linorder list"
  assumes "sorted xs" "distinct xs" "indexOf xs x = Some k"
  shows "k = card {y \<in> set xs. y < x}"
proof -
  have k: "k < length xs" "xs ! k = x" using indexOf_Some [OF assms(3)] by auto
  have "{y \<in> set xs. y < x} = (!) xs ` {..<k}"
  proof (intro set_eqI iffI)
    fix y assume "y \<in> {y \<in> set xs. y < x}"
    then obtain l where l: "l < length xs" "xs ! l = y" "y < x" by (auto simp: in_set_conv_nth)
    then have "l < k" using sorted_nth_mono [OF assms(1), of k l] k by (metis leD not_le)
    then show "y \<in> (!) xs ` {..<k}" using l(2) by blast
  next
    fix y assume "y \<in> (!) xs ` {..<k}"
    then obtain l where l: "l < k" "y = xs ! l" by auto
    then have "xs ! l \<le> x" "xs ! l \<noteq> x"
      using sorted_nth_mono [OF assms(1), of l k] k assms(2) by (auto simp: nth_eq_iff_index_eq)
    then show "y \<in> {y \<in> set xs. y < x}" using l k by auto
  qed
  moreover have "inj_on ((!) xs) {..<k}" using assms(2) k(1) by (auto simp: inj_on_def nth_eq_iff_index_eq)
  ultimately show ?thesis by (simp add: card_image)
qed

lemma rolloutMembers_rest: "rv_Name rv \<notin> rv_Name ` set us \<Longrightarrow> rolloutMembers rv (map Some us) True = us"
  by (induction us) auto

lemma rolloutMembers_listed:
  assumes "distinct (map rv_Name us)" "rv_Name rv \<in> rv_Name ` set us"
  shows "rolloutMembers rv (map Some us) False = map (\<lambda>u. if rv_Name u = rv_Name rv then rv else u) us"
  using assms
proof (induction us)
  case (Cons u us)
  show ?case
  proof (cases "rv_Name u = rv_Name rv")
    case True
    then have "rv_Name rv \<notin> rv_Name ` set us" using Cons.prems(1) by auto
    moreover from this have "map (\<lambda>u. if rv_Name u = rv_Name rv then rv else u) us = us"
      by (intro map_idI) (auto simp: image_iff)
    ultimately show ?thesis using True rolloutMembers_rest [of rv us] by simp
  next
    case False
    then show ?thesis using Cons by auto
  qed
qed simp

subsection \<open>A rollout as a whole\<close>

text \<open>How far a volume is.\<close>

fun rank :: "rolloutRole \<Rightarrow> nat" where
  "rank rolloutRolePending = 0"
| "rank rolloutRoleActive = 1"
| "rank rolloutRoleConverged = 2"
| "rank rolloutRoleExcluded = 3"

text \<open>What a worker may read of the class: one version of every volume of the rollout, at least as old as the
  present state and at least as recent as the start, each volume at an age of its own.\<close>

definition listing :: "string \<Rightarrow> ReplicatedVolumeConfiguration \<Rightarrow> int \<Rightarrow> string set \<Rightarrow> (string \<Rightarrow> rolloutRole)
    \<Rightarrow> (string \<Rightarrow> rolloutRole) \<Rightarrow> RV list \<Rightarrow> bool" where
  "listing rscName intended gen N st0 st us \<longleftrightarrow> distinct (map rv_Name us) \<and> rv_Name ` set us = N
     \<and> (\<forall>u \<in> set us. let r = computeActualRolloutRole u rscName intended gen in
          r \<noteq> rolloutRoleExcluded \<and> rank (st0 (rv_Name u)) \<le> rank r \<and> rank r \<le> rank (st (rv_Name u)))"

text \<open>The volumes \<open>N\<close> of a class roll out one configuration: a pending volume that its worker admits, from
  whatever listing it has, becomes active; an active one converges.\<close>

inductive rollout :: "string \<Rightarrow> ReplicatedVolumeConfiguration \<Rightarrow> int \<Rightarrow> int \<Rightarrow> string set \<Rightarrow> (string \<Rightarrow> rolloutRole)
    \<Rightarrow> (string \<Rightarrow> rolloutRole) \<Rightarrow> bool"
  for rscName intended gen maxParallel N st0 where
  begin_rollout: "rollout rscName intended gen maxParallel N st0 st0"
| admit: "rollout rscName intended gen maxParallel N st0 st \<Longrightarrow> rv_Name rv \<in> N \<Longrightarrow> st (rv_Name rv) = rolloutRolePending \<Longrightarrow>
    computeActualRolloutRole rv rscName intended gen = rolloutRolePending \<Longrightarrow> listing rscName intended gen N st0 st us \<Longrightarrow>
    computeTargetRolloutAdmission rv (computeActualRolloutCohort rv (map Some us) intended gen) maxParallel \<Longrightarrow>
    rollout rscName intended gen maxParallel N st0 (st(rv_Name rv := rolloutRoleActive))"
| finish: "rollout rscName intended gen maxParallel N st0 st \<Longrightarrow> n \<in> N \<Longrightarrow> st n = rolloutRoleActive \<Longrightarrow>
    rollout rscName intended gen maxParallel N st0 (st(n := rolloutRoleConverged))"

text \<open>What an admission says about the listing it used.\<close>

definition ahead :: "(string \<Rightarrow> rolloutRole) \<Rightarrow> (string \<Rightarrow> rolloutRole) \<Rightarrow> string set \<Rightarrow> string \<Rightarrow> string set" where
  "ahead st0 st N x = {n \<in> N. st n \<in> {rolloutRolePending, rolloutRoleActive} \<and> (n \<le> x \<or> st0 n = rolloutRoleActive)}"

lemma pending_spec:
  "computeActualRolloutRole rv rscName intended gen = rolloutRolePending \<Longrightarrow> rv_Spec_ReplicatedStorageClassName rv = rscName"
  by (auto simp: computeActualRolloutRole_def split: if_splits)

lemma card_names: "distinct (map rv_Name us) \<Longrightarrow> countp P us = card (rv_Name ` {u \<in> set us. P u})"
proof -
  assume d: "distinct (map rv_Name us)"
  then have "inj_on rv_Name {u \<in> set us. P u}" by (auto simp: distinct_map inj_on_def)
  then have "card (rv_Name ` {u \<in> set us. P u}) = card (set (filter P us))" by (simp add: card_image)
  also have "\<dots> = countp P us" using d by (intro distinct_card) (simp add: distinct_map)
  finally show ?thesis by simp
qed

lemma admission_bound:
  assumes us: "listing rscName intended gen N st0 st us" and N: "rv_Name rv \<in> N"
    and p: "computeActualRolloutRole rv rscName intended gen = rolloutRolePending" and fin: "finite N"
    and adm: "computeTargetRolloutAdmission rv (computeActualRolloutCohort rv (map Some us) intended gen) maxParallel"
  shows "int (card (ahead st0 st N (rv_Name rv))) \<le> maxParallel"
proof -
  let ?role = "\<lambda>u. computeActualRolloutRole u rscName intended gen"
  define ms where "ms = map (\<lambda>u. if rv_Name u = rv_Name rv then rv else u) us"
  let ?act = "{m \<in> set ms. ?role m = rolloutRoleActive}" and ?pen = "{m \<in> set ms. ?role m = rolloutRolePending}"
  have l: "distinct (map rv_Name us)" "rv_Name ` set us = N" using us by (simp_all add: listing_def)
  have names: "map rv_Name ms = map rv_Name us" by (simp add: ms_def)
  then have d: "distinct (map rv_Name ms)" "rv_Name ` set ms = N" using l by (metis, metis set_map)
  have members: "rolloutMembers rv (map Some us) False = ms"
    unfolding ms_def using l N by (intro rolloutMembers_listed) auto
  let ?c = "computeActualRolloutCohort rv (map Some us) intended gen"
  have c: "activeCount ?c = int (card (rv_Name ` ?act))" "pendingNames ?c = sort (map rv_Name (filter (\<lambda>m. ?role m = rolloutRolePending) ms))"
    using pending_spec [OF p] by (simp_all add: computeActualRolloutCohort_def members card_names [OF d(1)])
  have self: "rv \<in> set ms" "?role rv = rolloutRolePending" using N l p by (auto simp: ms_def)
  have pn: "sorted (pendingNames ?c)" "distinct (pendingNames ?c)" "set (pendingNames ?c) = rv_Name ` ?pen"
    using d(1) by (auto simp: c(2) distinct_map inj_on_def)
  then obtain k where k: "indexOf (pendingNames ?c) (rv_Name rv) = Some k"
    using self indexOf_None [of "pendingNames ?c" "rv_Name rv"] by (cases "indexOf (pendingNames ?c) (rv_Name rv)") auto
  have kc: "k = card {n \<in> rv_Name ` ?pen. n < rv_Name rv}" using indexOf_sorted [OF pn(1,2) k] pn(3) by simp
  have lim: "int k < maxParallel - activeCount ?c" using adm k by (simp add: computeTargetRolloutAdmission_def)
  have sub: "ahead st0 st N (rv_Name rv) \<subseteq> rv_Name ` ?act \<union> ({n \<in> rv_Name ` ?pen. n < rv_Name rv} \<union> {rv_Name rv})"
  proof
    fix n assume n: "n \<in> ahead st0 st N (rv_Name rv)"
    show "n \<in> rv_Name ` ?act \<union> ({n \<in> rv_Name ` ?pen. n < rv_Name rv} \<union> {rv_Name rv})"
    proof (cases "n = rv_Name rv")
      case False
      obtain u where u: "u \<in> set us" "rv_Name u = n" using n l(2) by (auto simp: ahead_def)
      then have um: "u \<in> set ms" using False by (auto simp: ms_def)
      have r: "?role u \<noteq> rolloutRoleExcluded" "rank (st0 n) \<le> rank (?role u)" "rank (?role u) \<le> rank (st n)"
        using us u by (auto simp: listing_def Let_def)
      have "st n \<in> {rolloutRolePending, rolloutRoleActive}" "n \<le> rv_Name rv \<or> st0 n = rolloutRoleActive" using n by (auto simp: ahead_def)
      then show ?thesis using r um u(2) False
        by (cases "?role u") (auto simp: less_le)
    qed simp
  qed
  have "card (ahead st0 st N (rv_Name rv)) \<le> card (rv_Name ` ?act) + (k + 1)"
  proof -
    have "card (ahead st0 st N (rv_Name rv)) \<le> card (rv_Name ` ?act \<union> ({n \<in> rv_Name ` ?pen. n < rv_Name rv} \<union> {rv_Name rv}))"
      using sub by (intro card_mono) auto
    also have "\<dots> \<le> card (rv_Name ` ?act) + (card {n \<in> rv_Name ` ?pen. n < rv_Name rv} + card {rv_Name rv})"
      by (meson add_le_mono card_Un_le le_trans order_refl)
    finally show ?thesis using kc by simp
  qed
  then show ?thesis using lim c(1) by simp
qed

lemma rollout_invariant:
  assumes "rollout rscName intended gen maxParallel N st0 st" and "finite N"
  shows "(\<forall>x \<in> N. st0 x = rolloutRolePending \<and> st x = rolloutRoleActive \<longrightarrow> int (card (ahead st0 st N x)) \<le> maxParallel)
    \<and> (\<forall>x \<in> N. st x = rolloutRoleActive \<longrightarrow> st0 x = rolloutRolePending \<or> st0 x = rolloutRoleActive)
    \<and> (\<forall>x \<in> N. st x = rolloutRolePending \<longrightarrow> st0 x = rolloutRolePending)"
  using assms(1)
proof (induction rule: rollout.induct)
  case begin_rollout
  then show ?case by auto
next
  case (admit st rv us)
  let ?st = "st(rv_Name rv := rolloutRoleActive)"
  have same: "ahead st0 ?st N x = ahead st0 st N x" for x using admit.hyps(3) by (auto simp: ahead_def)
  have "int (card (ahead st0 ?st N (rv_Name rv))) \<le> maxParallel"
    unfolding same using admission_bound [OF admit.hyps(5,2,4) assms(2) admit.hyps(6)] .
  then show ?case unfolding same using admit.IH admit.hyps(2,3) by auto
next
  case (finish st n)
  let ?st = "st(n := rolloutRoleConverged)"
  have le: "card (ahead st0 ?st N x) \<le> card (ahead st0 st N x)" for x
    using assms(2) by (intro card_mono) (auto simp: ahead_def split: if_splits)
  have act: "?st x = rolloutRoleActive \<Longrightarrow> st x = rolloutRoleActive" "?st x = rolloutRolePending \<Longrightarrow> st x = rolloutRolePending" for x
    by (auto split: if_splits)
  have "int (card (ahead st0 ?st N x)) \<le> maxParallel" if "x \<in> N" "st0 x = rolloutRolePending" "?st x = rolloutRoleActive" for x
  proof -
    have "int (card (ahead st0 st N x)) \<le> maxParallel" using finish.IH that act(1) by blast
    then show ?thesis using le [of x] by linarith
  qed
  then show ?case using finish.IH act by blast
qed

subsection \<open>Properties\<close>


text \<open>Volumes of a class ''fast'': \<open>exOld\<close> still has another configuration, \<open>exForming\<close> is forming with it.\<close>

definition exNewConfig :: ReplicatedVolumeConfiguration where
  "exNewConfig = exConfig \<lparr> FailuresToTolerate := 1 \<rparr>"

definition exOld :: "string \<Rightarrow> RV" where
  "exOld name = (exRV 1 1 [] [] []) \<lparr> rv_Name := name, rv_Spec_ReplicatedStorageClassName := ''fast'' \<rparr>"

definition exForming :: "string \<Rightarrow> RV" where
  "exForming name = (exOld name) \<lparr> rv_DatameshRevision := 0 \<rparr>"

lemma exOld_pending: "computeActualRolloutRole (exOld n) ''fast'' exNewConfig 2 = rolloutRolePending"
  by (simp add: computeActualRolloutRole_def exOld_def exRV_def exNewConfig_def exConfig_def isFormationInProgress_def)


text \<open>The budget does not survive a volume that joins the rollout. With room for one volume, a worker that
  listed the class while volume a was still forming admits volume b; a worker that lists it after a has
  left formation, and before that admission is visible, admits volume a, which sorts first. Both are
  admitted at once.\<close>

theorem rollout_budget_broken_by_arrival:
  "computeTargetRolloutAdmission (exOld ''b'')
     (computeActualRolloutCohort (exOld ''b'') [Some (exForming ''a''), Some (exOld ''b'')] exNewConfig 2) 1
   \<and> computeTargetRolloutAdmission (exOld ''a'')
     (computeActualRolloutCohort (exOld ''a'') [Some (exOld ''a''), Some (exOld ''b'')] exNewConfig 2) 1"
proof
  show "computeTargetRolloutAdmission (exOld ''b'')
     (computeActualRolloutCohort (exOld ''b'') [Some (exForming ''a''), Some (exOld ''b'')] exNewConfig 2) 1" by code_simp
  show "computeTargetRolloutAdmission (exOld ''a'')
     (computeActualRolloutCohort (exOld ''a'') [Some (exOld ''a''), Some (exOld ''b'')] exNewConfig 2) 1" by code_simp
qed

end
