(* ===== verification/Rv_Attachments.thy ===== *)
theory Rv_Attachments
  imports Rv_Objects
begin

text \<open>
  The attachments of a volume (\<open>rv_controller/reconciler_rva.go\<close>): the conditions, phase and device
  fields of an RVA from the replica contexts the datamesh returns, the conditions of an attachment that
  waits, and its metadata and finalizer.

  The attachments a function changes are pointers into the caller's slice: the model returns the slice.
  An object that the replica contexts carry is found again in the slice by its name.
\<close>

subsection \<open>Conditions\<close>

definition condOf :: "string \<Rightarrow> ConditionStatus \<Rightarrow> string \<Rightarrow> string \<Rightarrow> Condition" where
  "condOf typ status reason message = \<lparr> c_Type = typ, c_Status = status, c_ObservedGeneration = 0, c_Reason = reason,
     c_Message = message, c_LastTransitionTime = None \<rparr>"

text \<open>Without a reason or a message it panics.\<close>

definition computeRVAAttachedCondition :: "string \<Rightarrow> string \<Rightarrow> Condition option" where
  "computeRVAAttachedCondition reason message = do {
     panicUnless (reason \<noteq> [] \<and> message \<noteq> []);
     Some (condOf ''Attached'' (if reason = ''Attached'' then ConditionTrue else ConditionFalse) reason message) }"

text \<open>The phase and the message. The second condition may be Go's zero value, whose status is no status at
  all: the argument is the status (if any) and the message.\<close>

definition computeRVAPhaseAndMessage :: "bool \<Rightarrow> Condition \<Rightarrow> ConditionStatus option \<Rightarrow> string \<Rightarrow> string \<times> string" where
  "computeRVAPhaseAndMessage deleting attached replicaReady replicaMessage =
     (if deleting then ''Terminating''
      else if c_Status attached = ConditionTrue then ''Attached''
      else if c_Reason attached = ''Attaching'' then ''Attaching''
      else if c_Reason attached = ''Detaching'' then ''Detaching''
      else ''Pending'',
      if c_Status attached = ConditionTrue \<and> replicaReady \<noteq> Some ConditionTrue \<and> replicaMessage \<noteq> [] then replicaMessage
      else c_Message attached)"

definition computeRVAReplicaReadyCondition :: "RVR option \<Rightarrow> Condition" where
  "computeRVAReplicaReadyCondition rvr = (case rvr of
     None \<Rightarrow> condOf ''ReplicaReady'' ConditionUnknown ''WaitingForReplica'' ''Replica not found on node''
   | Some r \<Rightarrow> (case findCondition (rvr_Conditions r) ''Ready'' of
       None \<Rightarrow> condOf ''ReplicaReady'' ConditionUnknown ''WaitingForReplica'' ''Replica Ready condition not yet available''
     | Some c \<Rightarrow> condOf ''ReplicaReady'' (c_Status c) (c_Reason c) (c_Message c)))"

definition computeRVAReadyCondition :: "Condition \<Rightarrow> Condition \<Rightarrow> bool \<Rightarrow> Condition" where
  "computeRVAReadyCondition attached replicaReady deleting =
     (if deleting then condOf ''Ready'' ConditionFalse ''Terminating'' ''Attachment is terminating''
      else if c_Status replicaReady = ConditionFalse
      then condOf ''Ready'' ConditionFalse ''ReplicaNotReady'' ''See ReplicaReady condition''
      else if c_Status replicaReady = ConditionUnknown
      then condOf ''Ready'' ConditionUnknown ''ReplicaNotReady'' ''See ReplicaReady condition''
      else if c_Status attached \<noteq> ConditionTrue
      then condOf ''Ready'' ConditionFalse ''NotAttached'' ''See Attached condition''
      else condOf ''Ready'' ConditionTrue ''Ready'' ''Attached and replica is ready'')"

definition clearRVAAttachmentFields :: "RVA \<Rightarrow> RVA" where
  "clearRVAAttachmentFields rva = rva \<lparr> rva_DevicePath := [], rva_IOSuspended := None, rva_InUse := None \<rparr>"

definition attachmentOf :: "RVR option \<Rightarrow> ReplicaAttachment option" where
  "attachmentOf rvr = (case rvr of None \<Rightarrow> None | Some r \<Rightarrow> rvr_Attachment r)"

definition applyRVAAttachmentFields :: "RVR option \<Rightarrow> RVA \<Rightarrow> RVA" where
  "applyRVAAttachmentFields rvr rva = (case attachmentOf rvr of
     None \<Rightarrow> clearRVAAttachmentFields rva
   | Some att \<Rightarrow> rva \<lparr> rva_DevicePath := att_DevicePath att, rva_IOSuspended := Some (att_IOSuspended att),
       rva_InUse := Some (att_InUse att) \<rparr>)"

definition isRVAAttachmentFieldsInSync :: "RVA \<Rightarrow> RVR option \<Rightarrow> bool" where
  "isRVAAttachmentFieldsInSync rva rvr = (case attachmentOf rvr of
     None \<Rightarrow> rva_DevicePath rva = [] \<and> rva_IOSuspended rva = None \<and> rva_InUse rva = None
   | Some att \<Rightarrow> rva_DevicePath rva = att_DevicePath att \<and> rva_IOSuspended rva = Some (att_IOSuspended att)
       \<and> rva_InUse rva = Some (att_InUse att))"

text \<open>\<open>obju.SetStatusCondition\<close> and \<open>RemoveStatusCondition\<close> on an attachment.\<close>

definition rva_setCondition :: "Client \<Rightarrow> int \<Rightarrow> Condition \<Rightarrow> RVA \<Rightarrow> RVA" where
  "rva_setCondition cl now c rva = rva \<lparr> rva_Conditions :=
     snd (SetStatusCondition (cl_SetStatusCondition cl) now (rva_Generation rva) (rva_Conditions rva) c) \<rparr>"

definition rva_removeCondition :: "Client \<Rightarrow> string \<Rightarrow> RVA \<Rightarrow> RVA" where
  "rva_removeCondition cl typ rva = rva \<lparr> rva_Conditions :=
     snd (RemoveStatusCondition (cl_RemoveStatusCondition cl) (rva_Conditions rva) typ) \<rparr>"

text \<open>\<open>patchRVAStatus\<close>: a missing object counts as patched.\<close>

definition patchRVAStatus :: "Client \<Rightarrow> RVA \<Rightarrow> RVA \<Rightarrow> goErr + RVA" where
  "patchRVAStatus cl obj base = (case cl_PatchRVAStatus cl obj base of
     Inr r \<Rightarrow> Inr r
   | Inl e \<Rightarrow> if IsNotFound e then Inr obj else Inl e)"

definition putRVA :: "RVA \<Rightarrow> RVA list \<Rightarrow> RVA list" where
  "putRVA rva rvas = map (\<lambda>a. if rva_Name a = rva_Name rva then rva else a) rvas"

text \<open>One attachment of a node: unchanged if its status is in sync, else patched.\<close>

definition rvaStatusInSync :: "Condition \<Rightarrow> Condition \<Rightarrow> RVR option \<Rightarrow> RVA \<Rightarrow> bool" where
  "rvaStatusInSync attached replicaReady rvr rva =
     (let ready = computeRVAReadyCondition attached replicaReady (rva_Deleting rva);
          (phase, message) = computeRVAPhaseAndMessage (rva_Deleting rva) attached (Some (c_Status replicaReady)) (c_Message replicaReady)
      in ConditionSemanticallyEqual (findCondition (rva_Conditions rva) (c_Type attached)) (Some attached)
         \<and> ConditionSemanticallyEqual (findCondition (rva_Conditions rva) (c_Type replicaReady)) (Some replicaReady)
         \<and> ConditionSemanticallyEqual (findCondition (rva_Conditions rva) (c_Type ready)) (Some ready)
         \<and> isRVAAttachmentFieldsInSync rva rvr
         \<and> rva_Phase rva = phase \<and> rva_Message rva = message)"

definition applyRVAStatus :: "Client \<Rightarrow> int \<Rightarrow> Condition \<Rightarrow> Condition \<Rightarrow> RVR option \<Rightarrow> RVA \<Rightarrow> RVA" where
  "applyRVAStatus cl now attached replicaReady rvr rva =
     (let ready = computeRVAReadyCondition attached replicaReady (rva_Deleting rva);
          (phase, message) = computeRVAPhaseAndMessage (rva_Deleting rva) attached (Some (c_Status replicaReady)) (c_Message replicaReady);
          rva1 = rva_setCondition cl now ready (rva_setCondition cl now replicaReady (rva_setCondition cl now attached rva))
      in applyRVAAttachmentFields rvr (rva1 \<lparr> rva_Phase := phase, rva_Message := message \<rparr>))"

fun nodeRVAs :: "Client \<Rightarrow> int \<Rightarrow> Condition \<Rightarrow> Condition \<Rightarrow> RVR option \<Rightarrow> RVA list \<Rightarrow> RVA list \<times> apiCall list
    \<Rightarrow> goErr option \<times> RVA list \<times> apiCall list" where
  "nodeRVAs cl now attached replicaReady rvr [] (rvas, calls) = (None, rvas, calls)"
| "nodeRVAs cl now attached replicaReady rvr (rva # rest) (rvas, calls) =
     (if rvaStatusInSync attached replicaReady rvr rva then nodeRVAs cl now attached replicaReady rvr rest (rvas, calls)
      else let rva1 = applyRVAStatus cl now attached replicaReady rvr rva in
        case patchRVAStatus cl rva1 rva of
          Inl e \<Rightarrow> (Some (ErrWrap (''patching RVA '' @ rva_Name rva @ '' status'') e), putRVA rva1 rvas, calls @ [CallPatchRVAStatus rva1])
        | Inr rva2 \<Rightarrow> nodeRVAs cl now attached replicaReady rvr rest (putRVA rva2 rvas, calls @ [CallPatchRVAStatus rva1]))"

fun contextRVAs :: "Client \<Rightarrow> int \<Rightarrow> ReplicaContext list \<Rightarrow> RVA list \<times> apiCall list
    \<Rightarrow> (goErr option \<times> RVA list \<times> apiCall list) option" where
  "contextRVAs cl now [] (rvas, calls) = Some (None, rvas, calls)"
| "contextRVAs cl now (rc # rcs) (rvas, calls) =
     (if rx_rvas rc = [] then contextRVAs cl now rcs (rvas, calls)
      else do {
        attached \<leftarrow> computeRVAAttachedCondition (rx_attachmentConditionReason rc) (rx_attachmentConditionMessage rc);
        case nodeRVAs cl now attached (computeRVAReplicaReadyCondition (rx_rvr rc)) (rx_rvr rc) (rx_rvas rc) (rvas, calls) of
          (Some e, rvas1, calls1) \<Rightarrow> Some (Some e, rvas1, calls1)
        | (None, rvas1, calls1) \<Rightarrow> contextRVAs cl now rcs (rvas1, calls1) })"

definition reconcileRVAConditionsFromDatameshReplicaContext ::
    "Client \<Rightarrow> int \<Rightarrow> ReplicaContext list \<Rightarrow> rstate \<Rightarrow> (ReconcileOutcome \<times> rstate) option" where
  "reconcileRVAConditionsFromDatameshReplicaContext cl now dmrctxs st = do {
     (err, rvas, calls) \<leftarrow> contextRVAs cl now dmrctxs (st_rvas st, st_calls st);
     Some (case err of None \<Rightarrow> rf_Continue | Some e \<Rightarrow> failure e, st \<lparr> st_rvas := rvas, st_calls := calls \<rparr>) }"

subsection \<open>Waiting\<close>

definition rvaWaitingInSync :: "string \<Rightarrow> RVA \<Rightarrow> bool" where
  "rvaWaitingInSync message rva =
     (let check = StatusCondition (rva_Conditions rva) (rva_Generation rva);
          (phase, phaseMessage) = computeRVAPhaseAndMessage (rva_Deleting rva)
             (condOf [] ConditionFalse ''WaitingForReplicatedVolume'' message) None []
      in chk_Eval (chk_MessageEqual message (chk_ReasonEqual ''WaitingForReplicatedVolume'' (chk_IsFalse (check ''Attached''))))
         \<and> chk_Eval (chk_MessageEqual message (chk_ReasonEqual ''NotAttached'' (chk_IsFalse (check ''Ready''))))
         \<and> chk_Eval (chk_Absent (check ''ReplicaReady''))
         \<and> isRVAAttachmentFieldsInSync rva None
         \<and> rva_Phase rva = phase \<and> rva_Message rva = phaseMessage)"

definition applyRVAWaiting :: "Client \<Rightarrow> int \<Rightarrow> string \<Rightarrow> RVA \<Rightarrow> RVA" where
  "applyRVAWaiting cl now message rva =
     (let (phase, phaseMessage) = computeRVAPhaseAndMessage (rva_Deleting rva)
             (condOf [] ConditionFalse ''WaitingForReplicatedVolume'' message) None [];
          rva1 = rva_setCondition cl now (condOf ''Attached'' ConditionFalse ''WaitingForReplicatedVolume'' message) rva;
          rva2 = rva_setCondition cl now (condOf ''Ready'' ConditionFalse ''NotAttached'' message) rva1
      in clearRVAAttachmentFields (rva_removeCondition cl ''ReplicaReady'' rva2) \<lparr> rva_Phase := phase, rva_Message := phaseMessage \<rparr>)"

text \<open>The error, if any, the attachments and the calls.\<close>

fun waitingRVAs :: "Client \<Rightarrow> int \<Rightarrow> string \<Rightarrow> RVA list \<Rightarrow> goErr option \<times> RVA list \<times> apiCall list" where
  "waitingRVAs cl now message [] = (None, [], [])"
| "waitingRVAs cl now message (rva # rest) =
     (if rvaWaitingInSync message rva
      then case waitingRVAs cl now message rest of (err, rvas, calls) \<Rightarrow> (err, rva # rvas, calls)
      else let rva1 = applyRVAWaiting cl now message rva in
        case patchRVAStatus cl rva1 rva of
          Inl e \<Rightarrow> (Some (ErrWrap (''patching RVA '' @ rva_Name rva @ '' status'') e), rva1 # rest, [CallPatchRVAStatus rva1])
        | Inr rva2 \<Rightarrow> (case waitingRVAs cl now message rest of
            (err, rvas, calls) \<Rightarrow> (err, rva2 # rvas, CallPatchRVAStatus rva1 # calls)))"

definition rvaOutcome :: "goErr option \<Rightarrow> ReconcileOutcome" where
  "rvaOutcome err = (case err of None \<Rightarrow> rf_Continue | Some e \<Rightarrow> failure e)"

definition reconcileRVAWaiting :: "Client \<Rightarrow> int \<Rightarrow> string \<Rightarrow> rstate \<Rightarrow> ReconcileOutcome \<times> rstate" where
  "reconcileRVAWaiting cl now message st = (case waitingRVAs cl now message (st_rvas st) of
     (err, rvas, calls) \<Rightarrow> (rvaOutcome err, st \<lparr> st_rvas := rvas, st_calls := st_calls st @ calls \<rparr>))"

subsection \<open>Metadata\<close>

definition ReplicatedVolumeLabelKey :: string where
  "ReplicatedVolumeLabelKey = ''sds-replicated-volume.deckhouse.io/replicated-volume''"

definition ReplicatedStorageClassLabelKey :: string where
  "ReplicatedStorageClassLabelKey = ''sds-replicated-volume.deckhouse.io/replicated-storage-class''"

definition isRVAMetadataInSync :: "RVA \<Rightarrow> RV option \<Rightarrow> bool" where
  "isRVAMetadataInSync rva rv \<longleftrightarrow> HasFinalizer (rva_Finalizers rva) RVControllerFinalizer
     \<and> (rva_ReplicatedVolumeName rva \<noteq> [] \<longrightarrow> HasLabelValue (Some (rva_Labels rva)) ReplicatedVolumeLabelKey (rva_ReplicatedVolumeName rva))
     \<and> (case rv of None \<Rightarrow> True | Some v \<Rightarrow>
          if rv_Spec_ReplicatedStorageClassName v \<noteq> []
          then HasLabelValue (Some (rva_Labels rva)) ReplicatedStorageClassLabelKey (rv_Spec_ReplicatedStorageClassName v)
          else \<not> HasLabel (rva_Labels rva) ReplicatedStorageClassLabelKey)"

definition applyRVAMetadata :: "RV option \<Rightarrow> RVA \<Rightarrow> RVA" where
  "applyRVAMetadata rv rva =
     (let l1 = (if rva_ReplicatedVolumeName rva \<noteq> [] then snd (SetLabel (rva_Labels rva) ReplicatedVolumeLabelKey (rva_ReplicatedVolumeName rva))
                else rva_Labels rva);
          l2 = (case rv of None \<Rightarrow> l1 | Some v \<Rightarrow>
                  if rv_Spec_ReplicatedStorageClassName v \<noteq> []
                  then snd (SetLabel l1 ReplicatedStorageClassLabelKey (rv_Spec_ReplicatedStorageClassName v))
                  else snd (RemoveLabel l1 ReplicatedStorageClassLabelKey))
      in rva \<lparr> rva_Finalizers := snd (AddFinalizer (rva_Finalizers rva) RVControllerFinalizer), rva_Labels := l2 \<rparr>)"

definition isNodeAttachedOrDetaching :: "RV option \<Rightarrow> string \<Rightarrow> bool" where
  "isNodeAttachedOrDetaching rv nodeName = (case rv of None \<Rightarrow> False | Some v \<Rightarrow>
     list_ex (\<lambda>m. m_NodeName m = nodeName \<and> m_Attached m) (ds_Members (rv_Datamesh v))
     \<or> list_ex (\<lambda>t. t_Type t = TT_Detach
         \<and> (case find (\<lambda>m. m_Name m = t_ReplicaName t) (ds_Members (rv_Datamesh v)) of
              None \<Rightarrow> False | Some m \<Rightarrow> m_NodeName m = nodeName)) (rv_DatameshTransitions v))"

definition hasOtherNonDeletingRVAOnNode :: "RVA list \<Rightarrow> string \<Rightarrow> string \<Rightarrow> bool" where
  "hasOtherNonDeletingRVAOnNode rvas nodeName excludeName =
     list_ex (\<lambda>a. rva_Name a \<noteq> excludeName \<and> \<not> rva_Deleting a \<and> rva_NodeName a = nodeName) rvas"

text \<open>The loop: the attachments already visited and those to come; each decision sees all of them.\<close>

definition rvaMetadataTarget :: "RV option \<Rightarrow> RVA list \<Rightarrow> RVA \<Rightarrow> (string \<times> RVA) option" where
  "rvaMetadataTarget rv rvas rva =
     (if \<not> rva_Deleting rva
      then if isRVAMetadataInSync rva rv then None
           else Some (''patching RVA '' @ rva_Name rva @ '' metadata'', applyRVAMetadata rv rva)
      else if \<not> HasFinalizer (rva_Finalizers rva) RVControllerFinalizer then None
      else if \<not> hasOtherNonDeletingRVAOnNode rvas (rva_NodeName rva) (rva_Name rva)
           \<and> isNodeAttachedOrDetaching rv (rva_NodeName rva) then None
      else Some (''removing finalizer from RVA '' @ rva_Name rva,
             rva \<lparr> rva_Finalizers := snd (RemoveFinalizer (rva_Finalizers rva) RVControllerFinalizer) \<rparr>))"

fun metadataRVAs :: "Client \<Rightarrow> RV option \<Rightarrow> RVA list \<Rightarrow> RVA list \<Rightarrow> goErr option \<times> RVA list \<times> apiCall list" where
  "metadataRVAs cl rv visited [] = (None, visited, [])"
| "metadataRVAs cl rv visited (rva # rest) =
     (case rvaMetadataTarget rv (visited @ rva # rest) rva of
        None \<Rightarrow> metadataRVAs cl rv (visited @ [rva]) rest
      | Some (what, rva1) \<Rightarrow> (case cl_PatchRVA cl rva1 rva of
          Inl e \<Rightarrow> (Some (ErrWrap what e), visited @ rva1 # rest, [CallPatchRVA rva1])
        | Inr rva2 \<Rightarrow> (case metadataRVAs cl rv (visited @ [rva2]) rest of
            (err, rvas, calls) \<Rightarrow> (err, rvas, CallPatchRVA rva1 # calls))))"

definition reconcileRVAMetadata :: "Client \<Rightarrow> RV option \<Rightarrow> rstate \<Rightarrow> ReconcileOutcome \<times> rstate" where
  "reconcileRVAMetadata cl rv st = (case metadataRVAs cl rv [] (st_rvas st) of
     (err, rvas, calls) \<Rightarrow> (rvaOutcome err, st \<lparr> st_rvas := rvas, st_calls := st_calls st @ calls \<rparr>))"

end
