(* ===== verification/Rv_Formation.thy ===== *)
theory Rv_Formation
  imports Rv_Rollout Rv_Requests Rv_Layout Rv_Attachments "HOL-Library.Signed_Division"
begin

text \<open>
  Formation of a datamesh (\<open>rv_controller/reconciler_formation.go\<close>): the plan \<open>create/v1\<close>, which creates the
  replicas of the intended layout, adds them to the datamesh and bootstraps the data, and the plan
  \<open>adopt/v1\<close>, which takes over replicas that exist; the restart of a formation that takes too long.

  The transition \<open>t\<close> the steps write through is a pointer into \<open>rv.Status.DatameshTransitions\<close>: here its
  index. A step function takes and returns the state of the reconciliation. One reconciliation reads the
  clock once. The random bytes of the shared secret are a parameter.
\<close>

subsection \<open>Durations\<close>

definition second :: int where "second = 1000000000"

text \<open>\<open>time.Time.Sub\<close> saturates; the zero time is the year 1, far enough from every clock reading.\<close>

definition maxDuration :: int where "maxDuration = 2 ^ 63 - 1"

definition timeSince :: "int \<Rightarrow> int option \<Rightarrow> int" where
  "timeSince now t = (case t of None \<Rightarrow> maxDuration | Some s \<Rightarrow> max (- maxDuration - 1) (min maxDuration (now - s)))"

text \<open>64-bit wrap-around of a signed product or sum.\<close>

definition wrapDuration :: "int \<Rightarrow> int" where
  "wrapDuration x = (x + 2 ^ 63) mod 2 ^ 64 - 2 ^ 63"

text \<open>\<open>time.Duration.String\<close>: the fraction without trailing zeros, then the units.\<close>

definition padDigits :: "nat \<Rightarrow> nat \<Rightarrow> string" where
  "padDigits w n = (let ds = nat_digits n in replicate (w - length ds) (CHR ''0'') @ ds)"

definition fracString :: "nat \<Rightarrow> nat \<Rightarrow> string" where
  "fracString v w = (let ds = rev (dropWhile (\<lambda>c. c = CHR ''0'') (rev (padDigits w (v mod 10 ^ w))))
     in if ds = [] then [] else CHR ''.'' # ds)"

definition durationUnits :: "nat \<Rightarrow> string" where
  "durationUnits u =
     (if u = 0 then ''0s''
      else if u < 1000 then nat_digits u @ ''ns''
      else if u < 1000000 then nat_digits (u div 1000) @ fracString u 3 @ [CHR 0xC2, CHR 0xB5] @ ''s''
      else if u < 1000000000 then nat_digits (u div 1000000) @ fracString u 6 @ ''ms''
      else let s = u div 1000000000; frac = fracString u 9 in
        (if s div 60 = 0 then [] else (if s div 3600 = 0 then [] else nat_digits (s div 3600) @ ''h'')
           @ nat_digits (s div 60 mod 60) @ ''m'')
        @ nat_digits (s mod 60) @ frac @ ''s'')"

definition durationString :: "int \<Rightarrow> string" where
  "durationString d = (if d < 0 then ''-'' @ durationUnits (nat (- d)) else durationUnits (nat d))"

subsection \<open>Plans and steps\<close>

definition formationPlanCreate :: string where "formationPlanCreate = ''create/v1''"
definition formationPlanAdopt :: string where "formationPlanAdopt = ''adopt/v1''"

definition formationStepNames :: "string list" where
  "formationStepNames = [''Preconfigure'', ''Establish connectivity'', ''Bootstrap data'']"

definition adoptStepNames :: "string list" where
  "adoptStepNames = [''Verify prerequisites'', ''Populate and verify datamesh'', ''Exit maintenance'']"

definition AdoptRVRAnnotationKey :: string where
  "AdoptRVRAnnotationKey = ''sds-replicated-volume.deckhouse.io/adopt-rvr''"

definition AdoptSharedSecretAnnotationKey :: string where
  "AdoptSharedSecretAnnotationKey = ''sds-replicated-volume.deckhouse.io/adopt-shared-secret''"

text \<open>The index of the first transition of type Formation.\<close>

fun formationIndex :: "Transition list \<Rightarrow> nat option" where
  "formationIndex [] = None"
| "formationIndex (t # ts) = (if t_Type t = TT_Formation then Some 0 else map_option Suc (formationIndex ts))"

definition newFormationSteps :: "int \<Rightarrow> string list \<Rightarrow> TransitionStep list" where
  "newFormationSteps now names =
     (let steps = map (\<lambda>n. emptyStep \<lparr> s_Name := n, s_Status := Pending \<rparr>) names
      in steps[0 := (steps ! 0) \<lparr> s_Status := Active, s_StartedAt := Some now \<rparr>])"

text \<open>The index, whether it is new, and the volume.\<close>

definition ensureFormationTransition :: "int \<Rightarrow> string \<Rightarrow> RV \<Rightarrow> nat \<times> bool \<times> RV" where
  "ensureFormationTransition now planID rv = (case formationIndex (rv_DatameshTransitions rv) of
     Some i \<Rightarrow> (i, False, rv)
   | None \<Rightarrow>
       let names = (if planID = formationPlanAdopt then adoptStepNames else formationStepNames);
           t = emptyTransition \<lparr> t_Type := TT_Formation, t_Group := G_Formation, t_PlanID := planID,
                 t_Steps := newFormationSteps now names \<rparr>
       in (length (rv_DatameshTransitions rv), True,
           rv \<lparr> rv_DatameshTransitions := rv_DatameshTransitions rv @ [t] \<rparr>))"

text \<open>Writing through the pointers \<open>t\<close> and \<open>&t.Steps[k]\<close>.\<close>

definition onFormation :: "nat \<Rightarrow> (Transition \<Rightarrow> Transition) \<Rightarrow> RV \<Rightarrow> RV" where
  "onFormation ti f rv = rv \<lparr> rv_DatameshTransitions :=
     (rv_DatameshTransitions rv)[ti := f (rv_DatameshTransitions rv ! ti)] \<rparr>"

definition onStep :: "nat \<Rightarrow> nat \<Rightarrow> (TransitionStep \<Rightarrow> TransitionStep) \<Rightarrow> RV \<Rightarrow> RV" where
  "onStep ti k f rv = onFormation ti (setStep k f) rv"

definition stepAt :: "nat \<Rightarrow> nat \<Rightarrow> RV \<Rightarrow> TransitionStep option" where
  "stepAt ti k rv = do { t \<leftarrow> index (rv_DatameshTransitions rv) ti; index (t_Steps t) k }"

text \<open>Advancing to the step after \<open>fromIdx\<close>.\<close>

definition advanceFormationStep :: "int \<Rightarrow> nat \<Rightarrow> nat \<Rightarrow> RV \<Rightarrow> RV option" where
  "advanceFormationStep now ti fromIdx rv = do {
     stepAt ti fromIdx rv;
     stepAt ti (fromIdx + 1) rv;
     Some (onStep ti (fromIdx + 1) (\<lambda>s. s \<lparr> s_Status := Active, s_StartedAt := Some now \<rparr>)
       (onStep ti fromIdx (\<lambda>s. s \<lparr> s_Status := Completed, s_CompletedAt := Some now, s_Message := [] \<rparr>) rv)) }"

definition applyFormationTransitionAbsent :: "RV \<Rightarrow> bool \<times> RV" where
  "applyFormationTransitionAbsent rv = (case formationIndex (rv_DatameshTransitions rv) of
     None \<Rightarrow> (False, rv)
   | Some i \<Rightarrow> (True, rv \<lparr> rv_DatameshTransitions := delete_at i (rv_DatameshTransitions rv) \<rparr>))"

definition applyDatameshTransitionStepMessage :: "nat \<Rightarrow> nat \<Rightarrow> string \<Rightarrow> RV \<Rightarrow> (bool \<times> RV) option" where
  "applyDatameshTransitionStepMessage ti k msg rv = do {
     s \<leftarrow> stepAt ti k rv;
     Some (if s_Message s = msg then (False, rv) else (True, onStep ti k (\<lambda>s. s \<lparr> s_Message := msg \<rparr>) rv)) }"

fun requestMessages :: "IDSet \<Rightarrow> string \<Rightarrow> ReplicaRequest list \<Rightarrow> (bool \<times> ReplicaRequest list) option" where
  "requestMessages repIDs message [] = Some (False, [])"
| "requestMessages repIDs message (r # rs) = do {
     i \<leftarrow> requestID r;
     (ch, rs') \<leftarrow> requestMessages repIDs message rs;
     Some (if IDSet_Contains repIDs i \<and> rr_Message r \<noteq> message then (True, r \<lparr> rr_Message := message \<rparr> # rs')
           else (ch, r # rs')) }"

definition applyDatameshReplicaRequestMessages :: "IDSet \<Rightarrow> string \<Rightarrow> RV \<Rightarrow> (bool \<times> RV) option" where
  "applyDatameshReplicaRequestMessages repIDs message rv = do {
     (ch, rs) \<leftarrow> requestMessages repIDs message (rv_DatameshReplicaRequests rv);
     Some (ch, rv \<lparr> rv_DatameshReplicaRequests := rs \<rparr>) }"

subsection \<open>Quorum and members\<close>

definition computeTargetQuorum :: "RV \<Rightarrow> (u8 \<times> u8) option" where
  "computeTargetQuorum rv = do {
     cfg \<leftarrow> rv_Configuration rv;
     let minD = (of_int (fst (IntendedLayout cfg)) :: u8);
     let minQ = minD div 2 + 1;
     voters \<leftarrow> membersWhere (\<lambda>m. IsVoter (m_Type m)) (rv_Members rv);
     let quorum = (of_nat (IDSet_Len voters div 2 + 1) :: u8);
     Some (max quorum minQ, cfg_QuorumMinimumRedundancy cfg) }"

definition updateMember :: "DatameshMember \<Rightarrow> DatameshMember \<Rightarrow> bool \<times> DatameshMember" where
  "updateMember member m =
     (let m' = m \<lparr> m_Type := m_Type member, m_NodeName := m_NodeName member, m_Zone := m_Zone member,
            m_Addresses := m_Addresses member, m_LVMVolumeGroupName := m_LVMVolumeGroupName member,
            m_LVMVolumeGroupThinPoolName := m_LVMVolumeGroupThinPoolName member, m_Attached := m_Attached member \<rparr>
      in (m' \<noteq> m, m'))"

fun putMember :: "DatameshMember \<Rightarrow> DatameshMember list \<Rightarrow> (bool \<times> DatameshMember list) option" where
  "putMember member [] = Some (True, [member])"
| "putMember member (m # ms) = do {
     i \<leftarrow> idFromName (m_Name m);
     j \<leftarrow> idFromName (m_Name member);
     if i = j then (case updateMember member m of (ch, m') \<Rightarrow> Some (ch, m' # ms))
     else do { (ch, ms') \<leftarrow> putMember member ms; Some (ch, m # ms') } }"

definition setMembers :: "DatameshMember list \<Rightarrow> RV \<Rightarrow> RV" where
  "setMembers ms rv = rv \<lparr> rv_Datamesh := (rv_Datamesh rv) \<lparr> ds_Members := ms \<rparr> \<rparr>"

definition applyDatameshMember :: "DatameshMember \<Rightarrow> RV \<Rightarrow> (bool \<times> RV) option" where
  "applyDatameshMember member rv = do {
     (ch, ms) \<leftarrow> putMember member (rv_Members rv);
     Some (ch, setMembers ms rv) }"

definition syncAddresses :: "RVR list \<Rightarrow> DatameshMember \<Rightarrow> DatameshMember" where
  "syncAddresses rvrs m = (case find (\<lambda>r. rvr_Name r = m_Name m) rvrs of
     None \<Rightarrow> m
   | Some r \<Rightarrow> if rvr_Addresses r = [] then m else m \<lparr> m_Addresses := rvr_Addresses r \<rparr>)"

definition ensureDatameshMemberAddresses :: "RVR list \<Rightarrow> RV \<Rightarrow> bool \<times> RV" where
  "ensureDatameshMemberAddresses rvrs rv =
     (let ms = map (syncAddresses rvrs) (rv_Members rv);
          changed = (ms \<noteq> rv_Members rv)
      in (changed, if changed then (setMembers ms rv) \<lparr> rv_DatameshRevision := rv_DatameshRevision rv + 1 \<rparr> else rv))"

subsection \<open>Messages\<close>

text \<open>\<open>%v\<close> of a slice of strings.\<close>

definition sliceString :: "string list \<Rightarrow> string" where
  "sliceString xs = ''['' @ join '' '' xs @ '']''"

definition bracketed :: "IDSet \<Rightarrow> string" where
  "bracketed s = ''['' @ IDSet_String s @ '']''"

fun schedulingMessages :: "IDSet \<Rightarrow> RVR list \<Rightarrow> string list \<Rightarrow> string list option" where
  "schedulingMessages S [] msgs = Some msgs"
| "schedulingMessages S (r # rs) msgs = do {
     i \<leftarrow> rvrID r;
     schedulingMessages S rs
       (if \<not> IDSet_Contains S i then msgs
        else case findCondition (rvr_Conditions r) ''Scheduled'' of
          None \<Rightarrow> msgs
        | Some c \<Rightarrow> if c_Status c \<noteq> ConditionFalse \<or> c_Message c = [] then msgs
                    else if c_Message c \<in> set msgs then msgs else msgs @ [c_Message c]) }"

definition computeActualSchedulingFailureMessages :: "RVR list \<Rightarrow> IDSet \<Rightarrow> string list option" where
  "computeActualSchedulingFailureMessages rvrs S = map_option sort (schedulingMessages S rvrs [])"

definition schedulingFailedPart :: "RVR list \<Rightarrow> IDSet \<Rightarrow> string option" where
  "schedulingFailedPart rvrs failed = do {
     msgs \<leftarrow> computeActualSchedulingFailureMessages rvrs failed;
     Some (''scheduling failed '' @ bracketed failed
       @ (if msgs = [] then [] else '' ('' @ join '' | '' msgs @ '')'')) }"

definition computeFormationPreconfigureWaitMessage :: "RVR list \<Rightarrow> u8 \<Rightarrow> IDSet \<Rightarrow> IDSet \<Rightarrow> IDSet \<Rightarrow> string option" where
  "computeFormationPreconfigureWaitMessage rvrs targetReplicaCount pendingScheduling schedulingFailed waitingPreconfiguration = do {
     failedPart \<leftarrow> (if IDSet_IsEmpty schedulingFailed then Some [] else map_option (\<lambda>p. [p]) (schedulingFailedPart rvrs schedulingFailed));
     let reasons = (if IDSet_IsEmpty pendingScheduling then [] else [''pending scheduling '' @ bracketed pendingScheduling])
           @ failedPart
           @ (if IDSet_IsEmpty waitingPreconfiguration then [] else [''preconfiguring '' @ bracketed waitingPreconfiguration]);
     Some (''Waiting for '' @ nat_digits (IDSet_Len pendingScheduling + IDSet_Len schedulingFailed + IDSet_Len waitingPreconfiguration)
       @ ''/'' @ nat_digits (unat targetReplicaCount) @ '' replicas: '' @ join '', '' reasons) }"

subsection \<open>Readiness of the tie-breakers\<close>

fun tieBreakerPeers :: "RVR list \<Rightarrow> DatameshMember list \<Rightarrow> TieBreakerPeer list option" where
  "tieBreakerPeers rvrs [] = Some []"
| "tieBreakerPeers rvrs (m # ms) =
     (if \<not> ConnectsToAllPeers (m_Type m) then tieBreakerPeers rvrs ms
      else do {
        i \<leftarrow> idFromName (m_Name m);
        ps \<leftarrow> tieBreakerPeers rvrs ms;
        Some (\<lparr> tp_ID = i, tp_Name = m_Name m, tp_RVR = findRVRByName rvrs (m_Name m) \<rparr> # ps) })"

fun readinessLoop :: "IDSet \<Rightarrow> TieBreakerPeer list \<Rightarrow> int \<Rightarrow> RVR list \<Rightarrow> IDSet \<Rightarrow> string list \<Rightarrow> (IDSet \<times> string list) option" where
  "readinessLoop active peers rev' [] notReady diagnostics = Some (notReady, diagnostics)"
| "readinessLoop active peers rev' (r # rs) notReady diagnostics = do {
     i \<leftarrow> rvrID r;
     if \<not> IDSet_Contains active i then readinessLoop active peers rev' rs notReady diagnostics
     else do {
       (ok, why) \<leftarrow> IsTieBreakerOperational (Some r) peers rev';
       if ok then readinessLoop active peers rev' rs notReady diagnostics
       else readinessLoop active peers rev' rs (IDSet_Add i notReady) (diagnostics @ [rvr_Name r @ '': '' @ why]) } }"

definition isActive :: "ReplicaType \<Rightarrow> RVR \<Rightarrow> bool" where
  "isActive typ r \<longleftrightarrow> rvr_Type r = typ \<and> \<not> rvr_Deleting r"

text \<open>The message is empty exactly when the tie-breakers are ready.\<close>

definition computeActualTieBreakerReadiness :: "RV \<Rightarrow> RVR list \<Rightarrow> (IDSet \<times> string) option" where
  "computeActualTieBreakerReadiness rv rvrs = do {
     active \<leftarrow> rvrsWhere (isActive RT_TieBreaker) rvrs;
     members \<leftarrow> membersWhere (\<lambda>m. m_Type m = MT_TieBreaker) (rv_Members rv);
     if members \<noteq> active
     then Some (IDSet_Union members active, ''Datamesh tie-breaker members mismatch: datamesh has '' @ bracketed members
            @ '', but active tie-breaker replicas are '' @ bracketed active)
     else if IDSet_IsEmpty active then Some (0, [])
     else do {
       peers \<leftarrow> tieBreakerPeers rvrs (rv_Members rv);
       (notReady, diagnostics) \<leftarrow> readinessLoop active peers (rv_DatameshRevision rv) rvrs 0 [];
       Some (if IDSet_IsEmpty notReady then (0, [])
             else (notReady, ''Waiting for tie-breakers '' @ bracketed notReady @ '' to become operational: ''
                    @ join ''; '' (sort diagnostics))) } }"

subsection \<open>The shared secret\<close>

definition base64Char :: "int \<Rightarrow> char" where
  "base64Char n = ''ABCDEFGHIJKLMNOPQRSTUVWXYZabcdefghijklmnopqrstuvwxyz0123456789+/'' ! nat (n mod 64)"

text \<open>\<open>base64.RawStdEncoding\<close>: no padding.\<close>

fun base64Raw :: "u8 list \<Rightarrow> string" where
  "base64Raw [] = []"
| "base64Raw [a] = (let n = uint a * 16 in [base64Char (n div 64), base64Char n])"
| "base64Raw [a, b] = (let n = uint a * 1024 + uint b * 4 in [base64Char (n div 4096), base64Char (n div 64), base64Char n])"
| "base64Raw (a # b # c # bs) = (let n = uint a * 65536 + uint b * 256 + uint c in
     [base64Char (n div 262144), base64Char (n div 4096), base64Char (n div 64), base64Char n] @ base64Raw bs)"

text \<open>The random source either fills the 32 bytes or fails.\<close>

definition generateSharedSecret :: "goErr + u8 list \<Rightarrow> goErr + string" where
  "generateSharedSecret r = (case r of Inl e \<Rightarrow> Inl (ErrWrap ''generate shared secret'' e) | Inr bytes \<Rightarrow> Inr (base64Raw bytes))"

definition maxSharedSecretLen :: nat where "maxSharedSecretLen = 64"

definition resolveAdoptSharedSecret :: "goErr + u8 list \<Rightarrow> RV \<Rightarrow> goErr + string" where
  "resolveAdoptSharedSecret r rv = (case map_of (rv_Annotations rv) AdoptSharedSecretAnnotationKey of
     None \<Rightarrow> generateSharedSecret r
   | Some secret \<Rightarrow>
       if secret = [] then Inl (errorf (''annotation '' @ AdoptSharedSecretAnnotationKey @ '' is set but empty''))
       else if length secret > maxSharedSecretLen
       then Inl (errorf (''annotation '' @ AdoptSharedSecretAnnotationKey @ '' value exceeds ''
              @ nat_digits maxSharedSecretLen @ '' characters''))
       else Inr secret)"

subsection \<open>Restart\<close>

record FormationEnv =
  fe_Client :: Client
  fe_Config :: ConfigurationEnv
  fe_now :: int
  fe_rand :: "goErr + u8 list"
  fe_QuantityString :: "u64 \<Rightarrow> string"

definition emptyDatamesh :: Datamesh where
  "emptyDatamesh = \<lparr> ds_Quorum = 0, ds_QuorumMinimumRedundancy = 0, ds_Multiattach = False, ds_SystemNetworkNames = [],
     ds_Size = 0, ds_Members = [], ds_SharedSecret = [], ds_SharedSecretAlg = [] \<rparr>"

definition resetDatamesh :: "RV \<Rightarrow> RV" where
  "resetDatamesh rv = rv \<lparr> rv_DatameshRevision := 0, rv_Datamesh := emptyDatamesh, rv_BaselineGMDR := 0,
     rv_DatameshTransitions := [], rv_DatameshReplicaRequests := [] \<rparr>"

definition formationOpName :: "RV \<Rightarrow> string" where
  "formationOpName rv = rv_Name rv @ ''-formation''"

text \<open>Deleting the formation operation if there is one.\<close>

definition deleteFormationOp :: "FormationEnv \<Rightarrow> rstate \<Rightarrow> goErr option \<times> rstate" where
  "deleteFormationOp E st =
     (let name = formationOpName (st_rv st) in
      case getDRBDROp (fe_Client E) (st_calls st) name of
        Inl e \<Rightarrow> (Some (ErrWrap (''getting DRBDResourceOperation '' @ name) e), st)
      | Inr None \<Rightarrow> (None, st)
      | Inr (Some op) \<Rightarrow> (case deleteDRBDROp (fe_Client E) op of
          (err, calls) \<Rightarrow> (Wrapf err (''deleting DRBDResourceOperation '' @ name), st \<lparr> st_calls := st_calls st @ calls \<rparr>)))"

definition restartFormation :: "FormationEnv \<Rightarrow> RSC option \<Rightarrow> rstate \<Rightarrow> (ReconcileOutcome \<times> rstate) option" where
  "restartFormation E rsc st = (case deleteFormationOp E st of
     (Some e, st1) \<Rightarrow> Some (failure e, st1)
   | (None, st1) \<Rightarrow> do {
       (err, rvrs, calls) \<leftarrow> deleteWhere ''deleting RVR '' (deleteRVRWithForcedFinalizerRemoval (fe_Client E)) (\<lambda>_. Some True) (st_rvrs st1);
       let st2 = st1 \<lparr> st_rvrs := rvrs, st_calls := st_calls st1 @ calls \<rparr>;
       case err of
         Some e \<Rightarrow> Some (failure e, st2)
       | None \<Rightarrow> do {
           (out, rv) \<leftarrow> reconcileRVConfiguration (fe_Config E) (resetDatamesh (st_rv st2)) rsc;
           Some (if ShouldReturn out then out else ReportChanged rf_ContinueAndRequeue, st2 \<lparr> st_rv := rv \<rparr>) } })"

definition reconcileFormationRestartIfTimeoutPassed :: "FormationEnv \<Rightarrow> RSC option \<Rightarrow> nat \<Rightarrow> int \<Rightarrow> rstate
    \<Rightarrow> (ReconcileOutcome \<times> rstate) option" where
  "reconcileFormationRestartIfTimeoutPassed E rsc ti timeout st = do {
     t \<leftarrow> index (rv_DatameshTransitions (st_rv st)) ti;
     let elapsed = timeSince (fe_now E) (StartedAt t);
     if elapsed < timeout then do { out \<leftarrow> rf_ContinueAndRequeueAfter (timeout - elapsed); Some (out, st) }
     else restartFormation E rsc st }"

text \<open>The messages a waiting step writes: its own, then those of requests, in order.\<close>

fun applyMessages :: "(IDSet \<times> string) list \<Rightarrow> RV \<Rightarrow> (bool \<times> RV) option" where
  "applyMessages [] rv = Some (False, rv)"
| "applyMessages ((S, msg) # ms) rv = do {
     (ch, rv1) \<leftarrow> applyDatameshReplicaRequestMessages S msg rv;
     (ch', rv2) \<leftarrow> applyMessages ms rv1;
     Some (ch \<or> ch', rv2) }"

definition stepMessages :: "nat \<Rightarrow> nat \<Rightarrow> string \<Rightarrow> (IDSet \<times> string) list \<Rightarrow> RV \<Rightarrow> (bool \<times> RV) option" where
  "stepMessages ti k msg reqs rv = do {
     (ch, rv1) \<leftarrow> applyDatameshTransitionStepMessage ti k msg rv;
     (ch', rv2) \<leftarrow> applyMessages reqs rv1;
     Some (ch \<or> ch', rv2) }"

text \<open>The end of a step of \<open>create/v1\<close> that has to wait: write the messages, restart if the time is up.\<close>

definition waitOrRestart :: "FormationEnv \<Rightarrow> RSC option \<Rightarrow> nat \<Rightarrow> nat \<Rightarrow> int \<Rightarrow> bool \<Rightarrow> string \<Rightarrow> (IDSet \<times> string) list \<Rightarrow> rstate
    \<Rightarrow> (ReconcileOutcome \<times> rstate) option" where
  "waitOrRestart E rsc ti k timeout changed msg reqs st = do {
     (ch, rv) \<leftarrow> stepMessages ti k msg reqs (st_rv st);
     (out, st') \<leftarrow> reconcileFormationRestartIfTimeoutPassed E rsc ti timeout (st \<lparr> st_rv := rv \<rparr>);
     Some (ReportChangedIf (ch \<or> changed) out, st') }"

text \<open>The end of a step that waits and never restarts.\<close>

definition waitOnly :: "nat \<Rightarrow> nat \<Rightarrow> bool \<Rightarrow> string \<Rightarrow> (IDSet \<times> string) list \<Rightarrow> rstate \<Rightarrow> (ReconcileOutcome \<times> rstate) option" where
  "waitOnly ti k changed msg reqs st = do {
     (ch, rv) \<leftarrow> stepMessages ti k msg reqs (st_rv st);
     Some (ReportChangedIf (ch \<or> changed) rf_ContinueAndRequeue, st \<lparr> st_rv := rv \<rparr>) }"

subsection \<open>create/v1: bootstrapping the data\<close>

definition isDiskfulMember :: "DatameshMember \<Rightarrow> bool" where
  "isDiskfulMember m \<longleftrightarrow> m_Type m = MT_Diskful"

text \<open>The operation that exists, unless it is older than this formation: then it is deleted.\<close>

definition currentFormationOp :: "FormationEnv \<Rightarrow> nat \<Rightarrow> rstate \<Rightarrow> ((goErr + DRBDROp option) \<times> rstate) option" where
  "currentFormationOp E ti st = do {
     t \<leftarrow> index (rv_DatameshTransitions (st_rv st)) ti;
     let name = formationOpName (st_rv st);
     Some (case getDRBDROp (fe_Client E) (st_calls st) name of
       Inl e \<Rightarrow> (Inl (ErrWrap (''getting DRBDResourceOperation '' @ name) e), st)
     | Inr None \<Rightarrow> (Inr None, st)
     | Inr (Some op) \<Rightarrow>
         if (case StartedAt t of None \<Rightarrow> False | Some s \<Rightarrow> op_CreationTimestamp op < s)
         then (case deleteDRBDROp (fe_Client E) op of
             (Some e, calls) \<Rightarrow> (Inl (ErrWrap (''deleting stale DRBDResourceOperation '' @ name) e), st \<lparr> st_calls := st_calls st @ calls \<rparr>)
           | (None, calls) \<Rightarrow> (Inr None, st \<lparr> st_calls := st_calls st @ calls \<rparr>))
         else (Inr (Some op), st)) }"

definition formationParams :: "PoolType \<Rightarrow> bool \<Rightarrow> CreateNewUUIDParams" where
  "formationParams typ singleReplica = \<lparr> ClearBitmap = (singleReplica \<or> typ = PoolTypeLVMThin),
     ForceResync = (\<not> singleReplica \<and> typ = PoolTypeLVM) \<rparr>"

fun findRVRByID :: "u8 \<Rightarrow> RVR list \<Rightarrow> RVR option option" where
  "findRVRByID i [] = Some None"
| "findRVRByID i (r # rs) = do { j \<leftarrow> rvrID r; if j = i then Some (Some r) else findRVRByID i rs }"

text \<open>Creating the operation on the replica with the lowest ID.\<close>

definition createFormationOp :: "FormationEnv \<Rightarrow> CreateNewUUIDParams \<Rightarrow> IDSet \<Rightarrow> rstate \<Rightarrow> ((ReconcileOutcome + DRBDROp) \<times> rstate) option" where
  "createFormationOp E params dmDiskful st = do {
     let name = formationOpName (st_rv st);
     let sourceID = IDSet_Min dmDiskful;
     source \<leftarrow> findRVRByID sourceID (st_rvrs st);
     case source of
       None \<Rightarrow> Some (Inl (failure (ErrWrap (''resolving source replica for DRBDResourceOperation '' @ name)
                 (errorf (''RVR for diskful member id='' @ nat_digits (unat sourceID) @ '' not found'')))), st)
     | Some r \<Rightarrow>
         (case createDRBDROp (fe_Client E) (st_rv st)
             \<lparr> op_Name = name, op_CreationTimestamp = 0, op_Deleting = False, op_NodeName = rvr_NodeName r,
               op_DRBDResourceName = rvr_Name r, op_Type = ''CreateNewUUID'', op_CreateNewUUID = Some params,
               op_Phase = [], op_Message = [] \<rparr> of
            (Inl e, calls) \<Rightarrow> Some (Inl (if IsAlreadyExists e then rf_DoneAndRequeue
                  else failure (ErrWrap (''creating DRBDResourceOperation '' @ name) e)), st \<lparr> st_calls := st_calls st @ calls \<rparr>)
          | (Inr op, calls) \<Rightarrow> Some (Inr op, st \<lparr> st_calls := st_calls st @ calls \<rparr>)) }"

text \<open>Whether an existing operation is the one this formation needs.\<close>

definition isFormationOp :: "string \<Rightarrow> CreateNewUUIDParams \<Rightarrow> IDSet \<Rightarrow> DRBDROp \<Rightarrow> bool" where
  "isFormationOp rvName params dmDiskful op \<longleftrightarrow> op_Type op = ''CreateNewUUID''
     \<and> list_ex (\<lambda>i. FormatReplicatedVolumeReplicaName rvName i = Some (op_DRBDResourceName op)) (IDSet_All dmDiskful)
     \<and> op_CreateNewUUID op = Some params"

definition dataBootstrapTimeout :: "PoolType \<Rightarrow> bool \<Rightarrow> u64 \<Rightarrow> int" where
  "dataBootstrapTimeout typ singleReplica sz =
     (if \<not> singleReplica \<and> typ = PoolTypeLVM
      then wrapDuration (60 * second + wrapDuration ((sint sz sdiv (100 * 1000 * 1000 div 8)) * second))
      else 60 * second)"

definition dataBootstrapModeMsg :: "PoolType \<Rightarrow> bool \<Rightarrow> DRBDROp \<Rightarrow> int \<Rightarrow> string" where
  "dataBootstrapModeMsg typ singleReplica op timeout =
     (if \<not> singleReplica \<and> typ = PoolTypeLVM
      then ''Full data synchronization from source replica '' @ op_DRBDResourceName op @ ''. Timeout: '' @ durationString timeout
      else ''Fast mode: data is assumed identical, no synchronization required'')"

definition isUpToDate :: "RVR \<Rightarrow> bool" where
  "isUpToDate r = (case rvr_BackingVolume r of None \<Rightarrow> False | Some bv \<Rightarrow> bv_State bv = DiskStateUpToDate)"

text \<open>Once the operation is there: wait for it, for the disks and for the tie-breakers, then finish.\<close>

definition awaitBootstrap :: "FormationEnv \<Rightarrow> rspView \<Rightarrow> RSC option \<Rightarrow> nat \<Rightarrow> IDSet \<Rightarrow> DRBDROp \<Rightarrow> rstate \<Rightarrow> (ReconcileOutcome \<times> rstate) option" where
  "awaitBootstrap E rsp rsc ti dmDiskful op st =
     (let singleReplica = (IDSet_Len dmDiskful = 1);
          timeout = dataBootstrapTimeout (view_Type rsp) singleReplica (ds_Size (rv_Datamesh (st_rv st)));
          mode = dataBootstrapModeMsg (view_Type rsp) singleReplica op timeout
      in if op_Phase op = ''Failed''
         then waitOrRestart E rsc ti 2 (30 * second) False ''Data bootstrap operation failed, restarting formation''
                [(dmDiskful, ''Datamesh is forming, restarting due to failed data bootstrap operation'')] st
         else if op_Phase op \<noteq> ''Succeeded''
         then waitOrRestart E rsc ti 2 timeout False (''Data bootstrap initiated, waiting for operation to complete. '' @ mode)
                [(dmDiskful, ''Datamesh is forming, waiting for data bootstrap to complete'')] st
         else do {
           upToDate \<leftarrow> rvrsIn dmDiskful isUpToDate (st_rvrs st);
           if upToDate \<noteq> dmDiskful
           then let notUpToDate = IDSet_Difference dmDiskful upToDate in
             waitOrRestart E rsc ti 2 timeout False
               (''Data bootstrap in progress, waiting for replicas '' @ bracketed notUpToDate @ '' to reach UpToDate state. '' @ mode)
               [(notUpToDate, ''Datamesh is forming, data bootstrap in progress, waiting for backing volume to become UpToDate''),
                (upToDate, ''Datamesh is forming, data bootstrap in progress, replica is UpToDate, waiting for remaining replicas'')] st
           else do {
             (notReady, msg) \<leftarrow> computeActualTieBreakerReadiness (st_rv st) (st_rvrs st);
             if msg \<noteq> []
             then waitOnly ti 2 False msg
                    [(notReady, ''Tie-breaker is not operational, blocking datamesh formation completion''),
                     (dmDiskful, ''Datamesh is forming, waiting for the tie-breaker to become operational'')] st
             else case applyFormationTransitionAbsent (st_rv st) of
               (changed, rv) \<Rightarrow> Some (ReportChangedIf changed rf_ContinueAndRequeue, st \<lparr> st_rv := rv \<rparr>) } })"

definition reconcileFormationStepBootstrapData :: "FormationEnv \<Rightarrow> rspView \<Rightarrow> RSC option \<Rightarrow> nat \<Rightarrow> rstate
    \<Rightarrow> (ReconcileOutcome \<times> rstate) option" where
  "reconcileFormationStepBootstrapData E rsp rsc ti st = do {
     stepAt ti 2 (st_rv st);
     dmDiskful \<leftarrow> membersWhere isDiskfulMember (rv_Members (st_rv st));
     let params = formationParams (view_Type rsp) (IDSet_Len dmDiskful = 1);
     (r, st1) \<leftarrow> currentFormationOp E ti st;
     case r of
       Inl e \<Rightarrow> Some (failure e, st1)
     | Inr None \<Rightarrow> do {
         (c, st2) \<leftarrow> createFormationOp E params dmDiskful st1;
         case c of Inl out \<Rightarrow> Some (out, st2) | Inr op \<Rightarrow> awaitBootstrap E rsp rsc ti dmDiskful op st2 }
     | Inr (Some op) \<Rightarrow>
         if \<not> isFormationOp (rv_Name (st_rv st1)) params dmDiskful op
         then waitOrRestart E rsc ti 2 (30 * second) False ''Existing DRBDResourceOperation has unexpected parameters, restarting formation''
                [(dmDiskful, ''Datamesh is forming, restarting due to data bootstrap operation parameter mismatch'')] st1
         else awaitBootstrap E rsp rsc ti dmDiskful op st1 }"

subsection \<open>create/v1: establishing connectivity\<close>

definition zoneOfNode :: "rspView \<Rightarrow> string \<Rightarrow> string" where
  "zoneOfNode rsp nodeName = (case view_FindEligibleNode rsp nodeName of None \<Rightarrow> [] | Some en \<Rightarrow> en_ZoneName en)"

text \<open>The member a replica becomes: type and backing volume from its request.\<close>

definition requestedMember :: "rspView \<Rightarrow> RVR \<Rightarrow> DatameshMember option" where
  "requestedMember rsp r = do {
     req \<leftarrow> rvr_DatameshRequest r;
     Some \<lparr> m_Name = rvr_Name r, m_Type = memberTypeOf (rq_Type req), m_NodeName = rvr_NodeName r,
            m_Zone = zoneOfNode rsp (rvr_NodeName r), m_Addresses = rvr_Addresses r,
            m_LVMVolumeGroupName = rq_LVMVolumeGroupName req, m_LVMVolumeGroupThinPoolName = rq_ThinPoolName req,
            m_Attached = False \<rparr> }"

fun addMembers :: "(RVR \<Rightarrow> DatameshMember option) \<Rightarrow> IDSet \<Rightarrow> RVR list \<Rightarrow> RV \<Rightarrow> RV option" where
  "addMembers mk members [] rv = Some rv"
| "addMembers mk members (r # rs) rv = do {
     i \<leftarrow> rvrID r;
     if \<not> IDSet_Contains members i then addMembers mk members rs rv
     else do {
       m \<leftarrow> mk r;
       (_, rv1) \<leftarrow> applyDatameshMember m rv;
       addMembers mk members rs rv1 } }"

definition setSecret :: "string \<Rightarrow> RV \<Rightarrow> RV" where
  "setSecret secret rv = rv \<lparr> rv_Datamesh := (rv_Datamesh rv) \<lparr> ds_SharedSecretAlg := ''SHA256'', ds_SharedSecret := secret \<rparr> \<rparr>"

definition setQuorum :: "u8 \<Rightarrow> u8 \<Rightarrow> RV \<Rightarrow> RV" where
  "setQuorum q qmr rv = rv \<lparr> rv_Datamesh := (rv_Datamesh rv) \<lparr> ds_Quorum := q, ds_QuorumMinimumRedundancy := qmr \<rparr> \<rparr>"

text \<open>The next revision, recorded in the step.\<close>

definition bumpRevision :: "nat \<Rightarrow> nat \<Rightarrow> RV \<Rightarrow> RV" where
  "bumpRevision ti k rv = (let rv1 = rv \<lparr> rv_DatameshRevision := rv_DatameshRevision rv + 1 \<rparr>
     in onStep ti k (\<lambda>s. s \<lparr> s_DatameshRevision := rv_DatameshRevision rv1 \<rparr>) rv1)"

text \<open>The bulk add of all members.\<close>

definition populateDatamesh :: "FormationEnv \<Rightarrow> rspView \<Rightarrow> nat \<Rightarrow> IDSet \<Rightarrow> rstate \<Rightarrow> (ReconcileOutcome \<times> rstate) option" where
  "populateDatamesh E rsp ti members st = (case generateSharedSecret (fe_rand E) of
     Inl e \<Rightarrow> Some (failure e, st)
   | Inr secret \<Rightarrow> do {
       rv1 \<leftarrow> addMembers (requestedMember rsp) members (st_rvrs st) (setSecret secret (st_rv st));
       cfg \<leftarrow> rv_Configuration rv1;
       let rv2 = rv1 \<lparr> rv_BaselineGMDR := GuaranteedMinimumDataRedundancy cfg \<rparr>;
       (q, qmr) \<leftarrow> computeTargetQuorum rv2;
       let rv3 = bumpRevision ti 1 (setQuorum q qmr rv2);
       (_, rv4) \<leftarrow> applyDatameshReplicaRequestMessages members ''Datamesh is forming, waiting for replica to apply new configuration'' rv3;
       (_, rv5) \<leftarrow> applyDatameshTransitionStepMessage ti 1
         (''Replicas '' @ bracketed members @ '' preconfigured and added to datamesh. Waiting for them to establish connections'') rv4;
       Some (ReportChanged rf_Continue, st \<lparr> st_rv := rv5 \<rparr>) })"

text \<open>The peers of a replica in a given state are exactly the other diskful replicas.\<close>

fun peersComplete :: "(PeerStatus \<Rightarrow> bool) \<Rightarrow> IDSet \<Rightarrow> RVR list \<Rightarrow> (RVR \<Rightarrow> bool) \<Rightarrow> IDSet \<Rightarrow> IDSet option" where
  "peersComplete P diskful [] Q acc = Some acc"
| "peersComplete P diskful (r # rs) Q acc = do {
     i \<leftarrow> rvrID r;
     if \<not> IDSet_Contains diskful i \<or> \<not> Q r then peersComplete P diskful rs Q acc
     else do {
       actual \<leftarrow> peersWhere (\<lambda>p. p_Type p = RT_Diskful \<and> P p) (rvr_Peers r);
       peersComplete P diskful rs Q
         (if actual = IDSet_Difference diskful (IDSet_Of [i]) then IDSet_Add i acc else acc) } }"

definition isConfiguredFor :: "int \<Rightarrow> RVR \<Rightarrow> bool" where
  "isConfiguredFor rev' r \<longleftrightarrow> rvr_DatameshRevision r = rev'
     \<and> chk_Eval (chk_ObservedGenerationCurrent (chk_IsTrue (rvr_Condition r ''DRBDConfigured'')))"

definition isInconsistent :: "RVR \<Rightarrow> bool" where
  "isInconsistent r = (case rvr_BackingVolume r of None \<Rightarrow> False | Some bv \<Rightarrow> bv_State bv = ''Inconsistent'')"

text \<open>The checks once the members are there.\<close>

definition verifyConnectivity :: "FormationEnv \<Rightarrow> rspView \<Rightarrow> RSC option \<Rightarrow> nat \<Rightarrow> IDSet \<Rightarrow> IDSet \<Rightarrow> rstate \<Rightarrow> (ReconcileOutcome \<times> rstate) option" where
  "verifyConnectivity E rsp rsc ti diskful members st = do {
     let rv = st_rv st;
     let wait = waitOrRestart E rsc ti 1 (30 * second) False;
     dmDiskful \<leftarrow> membersWhere isDiskfulMember (rv_Members rv);
     if dmDiskful \<noteq> diskful then
       let msg = ''Datamesh members mismatch: datamesh has '' @ bracketed dmDiskful @ '', but active RVRs are '' @ bracketed diskful
             @ ''. This may be caused by manual intervention during formation. If not resolved automatically, formation will be restarted''
       in wait msg [(diskful, msg)] st
     else do {
       configured \<leftarrow> rvrsIn diskful (isConfiguredFor (rv_DatameshRevision rv)) (st_rvrs st);
       if configured \<noteq> diskful then
         let notConfigured = IDSet_Difference diskful configured in
         wait (''Waiting for replicas '' @ bracketed notConfigured @ '' to be fully configured for datamesh revision '' @ itoa (rv_DatameshRevision rv))
           [(notConfigured, ''Datamesh is forming, waiting for DRBD configuration to continue''),
            (configured, ''Datamesh is forming, DRBD configured, waiting for other replicas'')] st
       else do {
         connected \<leftarrow> peersComplete (\<lambda>p. p_ConnectionState p = ConnectionStateConnected) diskful (st_rvrs st) (\<lambda>_. True) 0;
         if connected \<noteq> diskful then
           wait (''Waiting for replicas '' @ bracketed (IDSet_Difference diskful connected) @ '' to establish connections with all peers'')
             [(diskful, ''Datamesh is forming, waiting for all replicas to connect to each other'')] st
         else do {
           (notReadyTB, msg) \<leftarrow> computeActualTieBreakerReadiness rv (st_rvrs st);
           if msg \<noteq> [] then
             wait msg
               [(notReadyTB, ''Tie-breaker is not operational yet, blocking datamesh formation''),
                (IDSet_Difference members notReadyTB, ''Datamesh is forming, waiting for the tie-breaker to become operational'')] st
           else do {
             ready \<leftarrow> peersComplete (\<lambda>p. p_ReplicationState p = ''Established'') diskful (st_rvrs st) isInconsistent 0;
             if ready \<noteq> diskful then
               let notReady = IDSet_Difference diskful ready in
               wait (''Waiting for replicas '' @ bracketed notReady @ '' to be ready for data bootstrap (backing volume Inconsistent + Established replication with all peers)'')
                 [(notReady, ''Datamesh is forming, waiting for data bootstrap readiness (requires backing volume Inconsistent and replication Established with all peers)''),
                  (ready, ''Datamesh is forming, ready for data bootstrap, waiting for other replicas'')] st
             else do {
               rv1 \<leftarrow> advanceFormationStep (fe_now E) ti 1 rv;
               reconcileFormationStepBootstrapData E rsp rsc ti (st \<lparr> st_rv := rv1 \<rparr>) } } } } } }"

definition reconcileFormationStepEstablishConnectivity :: "FormationEnv \<Rightarrow> rspView \<Rightarrow> RSC option \<Rightarrow> nat \<Rightarrow> rstate
    \<Rightarrow> (ReconcileOutcome \<times> rstate) option" where
  "reconcileFormationStepEstablishConnectivity E rsp rsc ti st = do {
     stepAt ti 1 (st_rv st);
     diskful \<leftarrow> rvrsWhere (isActive RT_Diskful) (st_rvrs st);
     tiebreakers \<leftarrow> rvrsWhere (isActive RT_TieBreaker) (st_rvrs st);
     let members = IDSet_Union diskful tiebreakers;
     if rv_Members (st_rv st) = [] then do {
       missingRequest \<leftarrow> rvrsIn members (\<lambda>r. rvr_DatameshRequest r = None) (st_rvrs st);
       if \<not> IDSet_IsEmpty missingRequest
       then waitOrRestart E rsc ti 1 (30 * second) False
              (''Waiting for replicas '' @ bracketed missingRequest @ '' to report a datamesh membership request before joining the datamesh. If not resolved automatically, formation will be restarted'')
              [] st
       else populateDatamesh E rsp ti members st }
     else verifyConnectivity E rsp rsc ti diskful members st }"

subsection \<open>create/v1: preconfiguring\<close>

definition initDatamesh :: "rspView \<Rightarrow> nat \<Rightarrow> string \<Rightarrow> RV \<Rightarrow> RV" where
  "initDatamesh rsp ti msg rv =
     onStep ti 0 (\<lambda>s. s \<lparr> s_DatameshRevision := 1, s_Message := msg \<rparr>)
       (rv \<lparr> rv_DatameshRevision := 1,
             rv_Datamesh := (rv_Datamesh rv) \<lparr> ds_SystemNetworkNames := view_SystemNetworkNames rsp,
                                               ds_Size := AlignTo4Ki (rv_Spec_Size rv) \<rparr> \<rparr>)"

definition isMisplaced :: "RVR \<Rightarrow> bool" where
  "isMisplaced r \<longleftrightarrow> \<not> rvr_Deleting r
     \<and> chk_Eval (chk_ObservedGenerationCurrent (chk_IsFalse (rvr_Condition r ''SatisfyEligibleNodes'')))"

definition isScheduled :: "RVR \<Rightarrow> bool" where
  "isScheduled r = chk_Eval (chk_ObservedGenerationCurrent (chk_IsTrue (rvr_Condition r ''Scheduled'')))"

definition isPreconfigured :: "RVR \<Rightarrow> bool" where
  "isPreconfigured r \<longleftrightarrow> (case rvr_DatameshRequest r of None \<Rightarrow> False | Some req \<Rightarrow> rq_Operation req = Join)
     \<and> chk_Eval (chk_ObservedGenerationCurrent (chk_ReasonEqual ''PendingDatameshJoin'' (rvr_Condition r ''DRBDConfigured'')))"

text \<open>The creation loop. Every round takes an ID of the 32, so 33 rounds see its end.\<close>

fun createMissing :: "nat \<Rightarrow> FormationEnv \<Rightarrow> ReplicaType \<Rightarrow> string \<Rightarrow> nat \<Rightarrow> IDSet \<Rightarrow> rstate
    \<Rightarrow> (ReconcileOutcome option \<times> IDSet \<times> rstate) option" where
  "createMissing 0 E typ what target S st = None"
| "createMissing (Suc n) E typ what target S st =
     (if \<not> IDSet_Len S < target then Some (None, S, st)
      else do {
        (r, calls) \<leftarrow> createReplica (fe_Client E) (st_rv st) (st_rvrs st) typ [];
        let st1 = st \<lparr> st_calls := st_calls st @ calls \<rparr>;
        case r of
          CreateFailed e \<Rightarrow> Some (Some (failure (ErrWrap what e)), S, st1)
        | CreateExists \<Rightarrow> Some (Some rf_DoneAndRequeue, S, st1)
        | Created obj rvrs \<Rightarrow> do {
            i \<leftarrow> rvrID obj;
            createMissing n E typ what target (IDSet_Add i S) (st1 \<lparr> st_rvrs := rvrs \<rparr>) } })"

definition createBound :: nat where "createBound = 33"

text \<open>Both loops, when nothing is being deleted or misplaced.\<close>

definition createMissingReplicas :: "FormationEnv \<Rightarrow> bool \<Rightarrow> u8 \<Rightarrow> u8 \<Rightarrow> IDSet \<Rightarrow> IDSet \<Rightarrow> rstate
    \<Rightarrow> (ReconcileOutcome option \<times> IDSet \<times> IDSet \<times> rstate) option" where
  "createMissingReplicas E clean targetD targetTB diskful tiebreakers st =
     (if \<not> clean then Some (None, diskful, tiebreakers, st)
      else do {
        (r1, diskful1, st1) \<leftarrow> createMissing createBound E RT_Diskful ''creating diskful RVR'' (unat targetD) diskful st;
        case r1 of
          Some out \<Rightarrow> Some (Some out, diskful1, tiebreakers, st1)
        | None \<Rightarrow> do {
            (r2, tiebreakers1, st2) \<leftarrow> createMissing createBound E RT_TieBreaker ''creating tie-breaker RVR'' (unat targetTB) tiebreakers st1;
            Some (r2, diskful1, tiebreakers1, st2) } })"

text \<open>Trimming: the candidates of one round, then the loop.\<close>

definition trimCandidates :: "IDSet \<Rightarrow> IDSet \<Rightarrow> IDSet \<Rightarrow> IDSet" where
  "trimCandidates scheduled preconfigured S =
     (let ns = IDSet_Difference S scheduled; np = IDSet_Difference S preconfigured
      in if \<not> IDSet_IsEmpty ns then ns else if \<not> IDSet_IsEmpty np then np else S)"

lemma trimCandidates_ids:
  "ids (trimCandidates scheduled preconfigured S) =
     (if \<not> ids S \<subseteq> ids scheduled then ids S - ids scheduled
      else if \<not> ids S \<subseteq> ids preconfigured then ids S - ids preconfigured else ids S)"
  by (auto simp: trimCandidates_def Let_def simp del: in_ids)

lemma trim_round:
  assumes "S \<noteq> 0"
  shows "unat (IDSet_Max (trimCandidates scheduled preconfigured S)) \<in> ids S"
    and "IDSet_Len (IDSet_Remove (IDSet_Max (trimCandidates scheduled preconfigured S)) S) < IDSet_Len S"
proof -
  let ?C = "trimCandidates scheduled preconfigured S"
  have ne: "ids S \<noteq> {}" using assms ids_inject [of S 0] by simp
  then have C: "ids ?C \<noteq> {}" "ids ?C \<subseteq> ids S" by (auto simp: trimCandidates_ids simp del: in_ids)
  then have "unat (IDSet_Max ?C) = Max (ids ?C)" by (intro IDSet_Max_nonempty)
  then show m: "unat (IDSet_Max ?C) \<in> ids S" using C Max_in [of "ids ?C"] by auto
  then show "IDSet_Len (IDSet_Remove (IDSet_Max ?C) S) < IDSet_Len S"
    by (simp only: Len_card ids_Remove card_Diff1_less finite_ids)
qed

function trimExcess :: "IDSet \<Rightarrow> IDSet \<Rightarrow> nat \<Rightarrow> IDSet \<Rightarrow> IDSet" where
  "trimExcess scheduled preconfigured target S =
     (if IDSet_Len S > target
      then trimExcess scheduled preconfigured target (IDSet_Remove (IDSet_Max (trimCandidates scheduled preconfigured S)) S)
      else S)"
  by pat_completeness auto

termination
proof (relation "measure (\<lambda>(_, _, _, S). IDSet_Len S)")
  show "wf (measure (\<lambda>(_ :: IDSet, _ :: IDSet, _ :: nat, S). IDSet_Len S))" by simp
next
  fix scheduled preconfigured S :: IDSet and target :: nat
  assume "target < IDSet_Len S"
  then have "S \<noteq> 0" by (auto simp: Len_card)
  then show "((scheduled, preconfigured, target, IDSet_Remove (IDSet_Max (trimCandidates scheduled preconfigured S)) S),
      scheduled, preconfigured, target, S) \<in> measure (\<lambda>(_, _, _, S). IDSet_Len S)"
    using trim_round(2) by simp
qed

declare trimExcess.simps [simp del]

definition matchingAddresses :: "string list \<Rightarrow> RVR \<Rightarrow> nat" where
  "matchingAddresses networks r = countp (\<lambda>a. SystemNetworkName a \<in> set networks) (rvr_Addresses r)"

definition specMismatches :: "RVR \<Rightarrow> bool" where
  "specMismatches r = (case rvr_DatameshRequest r of
     None \<Rightarrow> False
   | Some req \<Rightarrow> rvr_Type r \<noteq> rq_Type req \<or> rvr_LVMVolumeGroupName r \<noteq> rq_LVMVolumeGroupName req
       \<or> rvr_LVMVolumeGroupThinPoolName r \<noteq> rq_ThinPoolName req)"

definition tooSmall :: "u64 \<Rightarrow> RVR \<Rightarrow> bool" where
  "tooSmall sz r = (case rvr_BackingVolume r of
     None \<Rightarrow> False
   | Some bv \<Rightarrow> (case bv_Size bv of None \<Rightarrow> False | Some s \<Rightarrow> UsableSize s < sz))"

text \<open>The safety checks on the replicas of the formation, each with what it tells the others and the culprits.\<close>

definition verifyPreconfigured :: "FormationEnv \<Rightarrow> rspView \<Rightarrow> RSC option \<Rightarrow> nat \<Rightarrow> bool \<Rightarrow> IDSet \<Rightarrow> IDSet \<Rightarrow> rstate
    \<Rightarrow> (ReconcileOutcome \<times> rstate) option" where
  "verifyPreconfigured E rsp rsc ti changed diskful formationReplicas st = do {
     let rv = st_rv st;
     let wait = waitOrRestart E rsc ti 0 (30 * second) changed;
     let networks = ds_SystemNetworkNames (rv_Datamesh rv);
     missing \<leftarrow> rvrsIn formationReplicas (\<lambda>r. matchingAddresses networks r \<noteq> length networks) (st_rvrs st);
     if \<not> IDSet_IsEmpty missing then
       wait (''Address configuration mismatch: replicas '' @ bracketed missing @ '' do not have addresses for all required networks ''
           @ sliceString networks @ ''. This should not happen during normal formation. If not resolved automatically, formation will be restarted'')
         [(IDSet_Difference formationReplicas missing, ''Datamesh is forming, waiting for other replicas to report required addresses''),
          (missing, ''Replica addresses do not match required network configuration, blocking datamesh formation'')] st
     else do {
       notEligible \<leftarrow> rvrsIn formationReplicas (\<lambda>r. view_FindEligibleNode rsp (rvr_NodeName r) = None) (st_rvrs st);
       if \<not> IDSet_IsEmpty notEligible then
         wait (''Replicas '' @ bracketed notEligible @ '' are placed on nodes not in eligible nodes list. This should not happen during normal formation. If not resolved automatically, formation will be restarted'')
           [(IDSet_Difference formationReplicas notEligible, ''Datamesh is forming, waiting for other replicas to be on eligible nodes''),
            (notEligible, ''Replica is placed on a node not in the eligible nodes list, blocking datamesh formation'')] st
       else do {
         mismatch \<leftarrow> rvrsIn formationReplicas specMismatches (st_rvrs st);
         if \<not> IDSet_IsEmpty mismatch then
           wait (''Replicas '' @ bracketed mismatch @ '' have spec changes that don'' @ [CHR 0x27] @ ''t match pending transition. This may indicate spec changed during formation. If not resolved automatically, formation will be restarted'')
             [(IDSet_Difference formationReplicas mismatch, ''Datamesh is forming, waiting for other replicas to resolve spec mismatch''),
              (mismatch, ''Replica spec does not match pending transition, blocking datamesh formation'')] st
         else do {
           insufficient \<leftarrow> rvrsIn diskful (tooSmall (ds_Size (rv_Datamesh rv))) (st_rvrs st);
           if \<not> IDSet_IsEmpty insufficient then
             wait (''Replicas '' @ bracketed insufficient @ '' have insufficient backing volume size for datamesh (required: ''
                 @ fe_QuantityString E (ds_Size (rv_Datamesh rv)) @ ''). This should not happen during normal formation. If not resolved automatically, formation will be restarted'')
               [(IDSet_Difference diskful insufficient, ''Datamesh is forming, waiting for other replicas to resolve backing volume size issue''),
                (insufficient, ''Replica backing volume size is insufficient for datamesh, blocking formation'')] st
           else do {
             rv1 \<leftarrow> advanceFormationStep (fe_now E) ti 0 rv;
             reconcileFormationStepEstablishConnectivity E rsp rsc ti (st \<lparr> st_rv := rv1 \<rparr>) } } } } }"

text \<open>What follows the creation of replicas: trim, delete what takes no part, wait for deletions, for the
  scheduler and for the agents.\<close>

definition settleReplicas :: "FormationEnv \<Rightarrow> rspView \<Rightarrow> RSC option \<Rightarrow> nat \<Rightarrow> bool \<Rightarrow> u8 \<Rightarrow> u8 \<Rightarrow> IDSet \<Rightarrow> IDSet \<Rightarrow> rstate
    \<Rightarrow> (ReconcileOutcome \<times> rstate) option" where
  "settleReplicas E rsp rsc ti changed targetD targetTB diskful0 tiebreakers0 st = do {
     scheduled \<leftarrow> rvrsWhere isScheduled (st_rvrs st);
     preconfigured \<leftarrow> rvrsWhere isPreconfigured (st_rvrs st);
     let diskful = trimExcess scheduled preconfigured (unat targetD) diskful0;
     let tiebreakers = trimExcess scheduled preconfigured (unat targetTB) tiebreakers0;
     let formationReplicas = IDSet_Union diskful tiebreakers;
     (err, rvrs, calls) \<leftarrow> deleteWhere ''deleting RVR '' (deleteRVRWithForcedFinalizerRemoval (fe_Client E))
       (\<lambda>r. do { i \<leftarrow> rvrID r; Some (\<not> IDSet_Contains formationReplicas i) }) (st_rvrs st);
     let st1 = st \<lparr> st_rvrs := rvrs, st_calls := st_calls st @ calls \<rparr>;
     case err of
       Some e \<Rightarrow> Some (failure e, st1)
     | None \<Rightarrow> do {
         deleting \<leftarrow> rvrsWhere rvr_Deleting rvrs;
         if \<not> IDSet_IsEmpty deleting then
           waitOrRestart E rsc ti 0 (30 * second) changed
             (''Waiting for '' @ nat_digits (IDSet_Len deleting) @ '' deleting replicas '' @ bracketed deleting
              @ '' to be fully removed before proceeding with formation'')
             [(diskful, ''Datamesh is forming, waiting for replica cleanup to complete'')] st1
         else do {
           let waitingScheduling = IDSet_Difference formationReplicas scheduled;
           schedulingFailed \<leftarrow> rvrsIn waitingScheduling (\<lambda>r. chk_Eval (chk_IsFalse (rvr_Condition r ''Scheduled''))) rvrs;
           let pendingScheduling = IDSet_Difference waitingScheduling schedulingFailed;
           let waitingPreconfiguration = IDSet_Difference (IDSet_Intersect scheduled formationReplicas) preconfigured;
           if \<not> IDSet_IsEmpty waitingScheduling \<or> \<not> IDSet_IsEmpty waitingPreconfiguration then do {
             msg \<leftarrow> computeFormationPreconfigureWaitMessage rvrs (targetD + targetTB) pendingScheduling schedulingFailed waitingPreconfiguration;
             waitOrRestart E rsc ti 0 (30 * second) changed msg
               [(preconfigured, ''Datamesh is forming, waiting for other replicas to become preconfigured'')] st1 }
           else verifyPreconfigured E rsp rsc ti changed diskful formationReplicas st1 } } }"

definition reconcileFormationStepPreconfigure :: "FormationEnv \<Rightarrow> rspView \<Rightarrow> RSC option \<Rightarrow> nat \<Rightarrow> bool \<Rightarrow> rstate
    \<Rightarrow> (ReconcileOutcome \<times> rstate) option" where
  "reconcileFormationStepPreconfigure E rsp rsc ti created st = do {
     stepAt ti 0 (st_rv st);
     let st0 = (if created then st \<lparr> st_rv := initDatamesh rsp ti ''Starting preconfigure'' (st_rv st) \<rparr> else st);
     misplaced \<leftarrow> rvrsWhere isMisplaced (st_rvrs st0);
     deleting \<leftarrow> rvrsWhere rvr_Deleting (st_rvrs st0);
     allDiskful \<leftarrow> rvrsWhere (\<lambda>r. rvr_Type r = RT_Diskful) (st_rvrs st0);
     allTB \<leftarrow> rvrsWhere (\<lambda>r. rvr_Type r = RT_TieBreaker) (st_rvrs st0);
     let diskful = IDSet_Difference (IDSet_Difference allDiskful misplaced) deleting;
     let tiebreakers = IDSet_Difference (IDSet_Difference allTB misplaced) deleting;
     cfg \<leftarrow> rv_Configuration (st_rv st0);
     let targetD = (of_int (fst (IntendedLayout cfg)) :: u8);
     let targetTB = (of_int (snd (IntendedLayout cfg)) :: u8);
     (r, diskful1, tiebreakers1, st1) \<leftarrow> createMissingReplicas E (IDSet_IsEmpty deleting \<and> IDSet_IsEmpty misplaced)
       targetD targetTB diskful tiebreakers st0;
     case r of
       Some out \<Rightarrow> Some (out, st1)
     | None \<Rightarrow> settleReplicas E rsp rsc ti created targetD targetTB diskful1 tiebreakers1 st1 }"

subsection \<open>adopt/v1\<close>

definition isAdopted :: "DatameshMember \<Rightarrow> bool" where
  "isAdopted m \<longleftrightarrow> m_Type m = MT_Diskful \<or> m_Type m = MT_TieBreaker \<or> m_Type m = MT_Access"

definition inMaintenance :: "RVR \<Rightarrow> bool" where
  "inMaintenance r = chk_Eval (chk_ReasonEqual ''InMaintenance'' (rvr_Condition r ''DRBDConfigured''))"

definition reconcileAdoptStepExitMaintenance :: "nat \<Rightarrow> rstate \<Rightarrow> (ReconcileOutcome \<times> rstate) option" where
  "reconcileAdoptStepExitMaintenance ti st = do {
     stepAt ti 2 (st_rv st);
     dmAll \<leftarrow> membersWhere isAdopted (rv_Members (st_rv st));
     still \<leftarrow> rvrsIn dmAll inMaintenance (st_rvrs st);
     if \<not> IDSet_IsEmpty still
     then waitOnly ti 2 False (''Waiting for replicas '' @ bracketed still @ '' to exit maintenance mode'') [] st
     else case applyFormationTransitionAbsent (st_rv st) of
       (changed, rv) \<Rightarrow> Some (ReportChangedIf changed rf_ContinueAndRequeue, st \<lparr> st_rv := rv \<rparr>) }"

definition adoptedMember :: "rspView \<Rightarrow> RVR \<Rightarrow> DatameshMember option" where
  "adoptedMember rsp r = Some \<lparr> m_Name = rvr_Name r, m_Type = memberTypeOf (rvr_Type r), m_NodeName = rvr_NodeName r,
     m_Zone = zoneOfNode rsp (rvr_NodeName r), m_Addresses = rvr_Addresses r, m_LVMVolumeGroupName = rvr_LVMVolumeGroupName r,
     m_LVMVolumeGroupThinPoolName = rvr_LVMVolumeGroupThinPoolName r, m_Attached = (rvr_Attachment r \<noteq> None) \<rparr>"

text \<open>Replicas with an attachment among those adopted.\<close>

definition attachedCount :: "IDSet \<Rightarrow> RVR list \<Rightarrow> nat" where
  "attachedCount S rvrs = countp (\<lambda>r. (case rvrID r of None \<Rightarrow> False | Some i \<Rightarrow> IDSet_Contains S i) \<and> rvr_Attachment r \<noteq> None) rvrs"

definition adoptSecret :: "FormationEnv \<Rightarrow> RV \<Rightarrow> goErr + RV" where
  "adoptSecret E rv = (if ds_SharedSecret (rv_Datamesh rv) \<noteq> [] then Inr rv
     else case resolveAdoptSharedSecret (fe_rand E) rv of Inl e \<Rightarrow> Inl e | Inr secret \<Rightarrow> Inr (setSecret secret rv))"

definition adoptMembers :: "FormationEnv \<Rightarrow> rspView \<Rightarrow> nat \<Rightarrow> IDSet \<Rightarrow> rstate \<Rightarrow> (ReconcileOutcome \<times> rstate) option" where
  "adoptMembers E rsp ti all st = (case adoptSecret E (st_rv st) of
     Inl e \<Rightarrow> Some (failure e, st)
   | Inr rv0 \<Rightarrow> do {
       rv1 \<leftarrow> addMembers (adoptedMember rsp) all (st_rvrs st) rv0;
       let rv2 = rv1 \<lparr> rv_Datamesh := (rv_Datamesh rv1) \<lparr> ds_Multiattach := (attachedCount all (st_rvrs st) > 1) \<rparr>, rv_BaselineGMDR := 0 \<rparr>;
       voters \<leftarrow> membersWhere (\<lambda>m. IsVoter (m_Type m)) (rv_Members rv2);
       let rv3 = bumpRevision ti 1 (setQuorum (of_nat (IDSet_Len voters div 2 + 1)) 1 rv2);
       (_, rv4) \<leftarrow> applyDatameshReplicaRequestMessages all ''Datamesh is forming (adopt), waiting for replica to apply new configuration'' rv3;
       (_, rv5) \<leftarrow> applyDatameshTransitionStepMessage ti 1
         (''Replicas '' @ bracketed all @ '' added to datamesh. Verifying configuration consistency'') rv4;
       Some (ReportChanged rf_Continue, st \<lparr> st_rv := rv5 \<rparr>) })"

definition reconcileAdoptStepPopulateAndVerifyDatamesh :: "FormationEnv \<Rightarrow> rspView \<Rightarrow> nat \<Rightarrow> rstate
    \<Rightarrow> (ReconcileOutcome \<times> rstate) option" where
  "reconcileAdoptStepPopulateAndVerifyDatamesh E rsp ti st = do {
     stepAt ti 1 (st_rv st);
     diskful \<leftarrow> rvrsWhere (isActive RT_Diskful) (st_rvrs st);
     tiebreakers \<leftarrow> rvrsWhere (isActive RT_TieBreaker) (st_rvrs st);
     access \<leftarrow> rvrsWhere (isActive RT_Access) (st_rvrs st);
     let all = IDSet_Union (IDSet_Union diskful tiebreakers) access;
     if rv_Members (st_rv st) = [] then adoptMembers E rsp ti all st
     else case ensureDatameshMemberAddresses (st_rvrs st) (st_rv st) of
       (True, rv) \<Rightarrow> Some (ReportChanged rf_Continue, st \<lparr> st_rv := rv \<rparr>)
     | (False, rv) \<Rightarrow> do {
         observed \<leftarrow> rvrsIn all (\<lambda>r. rvr_DatameshRevisionObservedByAgent r \<ge> rv_DatameshRevision rv) (st_rvrs st);
         if observed \<noteq> all then
           let notObserved = IDSet_Difference all observed in
           waitOnly ti 1 False (''Waiting for replicas '' @ bracketed notObserved @ '' to observe datamesh revision '' @ itoa (rv_DatameshRevision rv))
             [(notObserved, ''Datamesh is forming (adopt), waiting for agent to process new configuration'')] st
         else do {
           dmAll \<leftarrow> membersWhere isAdopted (rv_Members rv);
           if dmAll \<noteq> all then
             waitOnly ti 1 False (''Datamesh members mismatch: datamesh has '' @ bracketed dmAll @ '', but active RVRs are '' @ bracketed all)
               [(all, ''Datamesh members mismatch, blocking formation'')] st
           else do {
             rv1 \<leftarrow> advanceFormationStep (fe_now E) ti 1 rv;
             reconcileAdoptStepExitMaintenance ti (st \<lparr> st_rv := rv1 \<rparr>) } } } }"

definition isAdoptScheduled :: "RVR \<Rightarrow> bool" where
  "isAdoptScheduled r = (if rvr_Type r = RT_Access then rvr_NodeName r \<noteq> [] else isScheduled r)"

definition reconcileAdoptStepVerifyPrerequisites :: "FormationEnv \<Rightarrow> rspView \<Rightarrow> nat \<Rightarrow> bool \<Rightarrow> rstate
    \<Rightarrow> (ReconcileOutcome \<times> rstate) option" where
  "reconcileAdoptStepVerifyPrerequisites E rsp ti created st = do {
     stepAt ti 0 (st_rv st);
     let st0 = (if created then st \<lparr> st_rv := initDatamesh rsp ti ''Starting adopt: waiting for pre-existing replicas'' (st_rv st) \<rparr> else st);
     let rvrs = st_rvrs st0;
     let wait = waitOnly ti 0 created;
     diskful \<leftarrow> rvrsWhere (isActive RT_Diskful) rvrs;
     tiebreakers \<leftarrow> rvrsWhere (isActive RT_TieBreaker) rvrs;
     access \<leftarrow> rvrsWhere (isActive RT_Access) rvrs;
     let all = IDSet_Union (IDSet_Union diskful tiebreakers) access;
     scheduled \<leftarrow> rvrsWhere isAdoptScheduled rvrs;
     let waitingScheduling = IDSet_Difference all scheduled;
     if \<not> IDSet_IsEmpty waitingScheduling then do {
       failed \<leftarrow> rvrsIn waitingScheduling (\<lambda>r. chk_Eval (chk_IsFalse (rvr_Condition r ''Scheduled''))) rvrs;
       let pending = IDSet_Difference waitingScheduling failed;
       failedPart \<leftarrow> (if IDSet_IsEmpty failed then Some [] else map_option (\<lambda>p. [p]) (schedulingFailedPart rvrs failed));
       let parts = (if IDSet_IsEmpty pending then [] else [''pending scheduling '' @ bracketed pending]) @ failedPart;
       wait (''Waiting for '' @ nat_digits (IDSet_Len waitingScheduling) @ ''/'' @ nat_digits (IDSet_Len all)
           @ '' replicas to be scheduled: '' @ join '', '' parts)
         [(IDSet_Intersect scheduled all, ''Datamesh is forming (adopt), waiting for other replicas to be scheduled'')] st0 }
     else do {
       maintained \<leftarrow> rvrsIn all inMaintenance rvrs;
       let waitingMaintenance = IDSet_Difference all maintained;
       if \<not> IDSet_IsEmpty waitingMaintenance then
         wait (''Waiting for '' @ nat_digits (IDSet_Len waitingMaintenance) @ ''/'' @ nat_digits (IDSet_Len all)
             @ '' replicas to enter maintenance mode: '' @ bracketed waitingMaintenance)
           [(maintained, ''Datamesh is forming (adopt), waiting for other replicas to enter maintenance mode'')] st0
       else do {
         let networks = ds_SystemNetworkNames (rv_Datamesh (st_rv st0));
         missing \<leftarrow> rvrsIn all (\<lambda>r. matchingAddresses networks r \<noteq> length networks) rvrs;
         if \<not> IDSet_IsEmpty missing then
           wait (''Address configuration mismatch: replicas '' @ bracketed missing @ '' do not have addresses for all required networks ''
               @ sliceString networks)
             [(IDSet_Difference all missing, ''Datamesh is forming (adopt), waiting for other replicas to report required addresses''),
              (missing, ''Replica addresses do not match required network configuration, blocking datamesh formation'')] st0
         else do {
           insufficient \<leftarrow> rvrsIn diskful (tooSmall (ds_Size (rv_Datamesh (st_rv st0)))) rvrs;
           if \<not> IDSet_IsEmpty insufficient then
             wait (''Replicas '' @ bracketed insufficient @ '' have insufficient backing volume size for the requested volume size (required: ''
                 @ fe_QuantityString E (ds_Size (rv_Datamesh (st_rv st0))) @ '')'')
               [(IDSet_Difference diskful insufficient, ''Datamesh is forming (adopt), waiting for other replicas to resolve backing volume size issue''),
                (insufficient, ''Replica backing volume size is insufficient for the requested volume size, blocking formation'')] st0
           else do {
             rv1 \<leftarrow> advanceFormationStep (fe_now E) ti 0 (st_rv st0);
             reconcileAdoptStepPopulateAndVerifyDatamesh E rsp ti (st0 \<lparr> st_rv := rv1 \<rparr>) } } } } }"

subsection \<open>The formation\<close>

definition formationStep :: "FormationEnv \<Rightarrow> rspView \<Rightarrow> RSC option \<Rightarrow> nat \<Rightarrow> nat \<Rightarrow> bool \<Rightarrow> string \<Rightarrow> rstate
    \<Rightarrow> (bool \<times> ReconcileOutcome \<times> rstate) option" where
  "formationStep E rsp rsc stepIdx ti created planID st =
     (let run = map_option (Pair True); invalid = (\<lambda>msg. Some (False, failure (errorf msg), st)) in
      if planID = formationPlanAdopt then
        (if stepIdx = 0 then run (reconcileAdoptStepVerifyPrerequisites E rsp ti created st)
         else if stepIdx = 1 then run (reconcileAdoptStepPopulateAndVerifyDatamesh E rsp ti st)
         else if stepIdx = 2 then run (reconcileAdoptStepExitMaintenance ti st)
         else invalid (''invalid adopt formation step index: '' @ nat_digits stepIdx))
      else if planID = formationPlanCreate \<or> planID = [] then
        (if stepIdx = 0 then run (reconcileFormationStepPreconfigure E rsp rsc ti created st)
         else if stepIdx = 1 then run (reconcileFormationStepEstablishConnectivity E rsp rsc ti st)
         else if stepIdx = 2 then run (reconcileFormationStepBootstrapData E rsp rsc ti st)
         else invalid (''invalid formation step index: '' @ nat_digits stepIdx))
      else invalid (''unknown formation plan: '' @ planID))"

definition reconcileFormation :: "FormationEnv \<Rightarrow> rspView \<Rightarrow> RSC option \<Rightarrow> nat \<Rightarrow> rstate \<Rightarrow> (ReconcileOutcome \<times> rstate) option" where
  "reconcileFormation E rsp rsc stepIdx st = do {
     let planID = (if map_of (rv_Annotations (st_rv st)) AdoptRVRAnnotationKey \<noteq> None then formationPlanAdopt else formationPlanCreate);
     let (ti, created, rv) = ensureFormationTransition (fe_now E) planID (st_rv st);
     t \<leftarrow> index (rv_DatameshTransitions rv) ti;
     (valid, out, st1) \<leftarrow> formationStep E rsp rsc stepIdx ti created (t_PlanID t) (st \<lparr> st_rv := rv \<rparr>);
     if \<not> valid then Some (out, st1)
     else case reconcileRVAWaiting (fe_Client E) (fe_now E) ''Datamesh formation is in progress'' st1 of
       (out2, st2) \<Rightarrow> Some (outcome_Merge out [out2], st2) }"

end
