(* ===== verification/Rv_Reconcile.thy ===== *)
theory Rv_Reconcile
  imports Rv_Formation Datamesh_Process
begin

text \<open>
  The volume reconciler as a whole (\<open>rv_controller/reconciler.go\<close> and \<open>reconciler_access_replicas.go\<close>):
  Access replicas, the layout convergence action and its report, metadata and finalizers, deletion, normal
  operation around \<open>ProcessTransitions\<close>, orphans, and \<open>Reconcile\<close> itself with its reads, early returns and
  the final status patch. Logging and metrics are left out.
\<close>

subsection \<open>Access replicas\<close>

definition RVRMaxID :: nat where "RVRMaxID = 31"

text \<open>The nodes that have a replica, the attachments to come, and the state.\<close>

fun createAccessReplicas :: "Client \<Rightarrow> rspView \<Rightarrow> string list \<Rightarrow> RVA list \<Rightarrow> rstate \<Rightarrow> (ReconcileOutcome \<times> rstate) option" where
  "createAccessReplicas cl rsp rvrNodes [] st = Some (rf_Continue, st)"
| "createAccessReplicas cl rsp rvrNodes (rva # rvas) st =
     (let nodeName = rva_NodeName rva; continue = createAccessReplicas cl rsp rvrNodes rvas st in
      if rva_Deleting rva \<or> nodeName \<in> set rvrNodes then continue
      else case view_FindEligibleNode rsp nodeName of
        None \<Rightarrow> continue
      | Some en \<Rightarrow>
          if \<not> en_NodeReady en \<or> \<not> en_AgentReady en then continue
          else if length (st_rvrs st) \<ge> RVRMaxID + 1 then Some (rf_Continue, st)
          else do {
            (r, calls) \<leftarrow> createReplica cl (st_rv st) (st_rvrs st) RT_Access nodeName;
            let st1 = st \<lparr> st_calls := st_calls st @ calls \<rparr>;
            case r of
              CreateFailed e \<Rightarrow> Some (failure (ErrWrap (''creating Access RVR for node '' @ nodeName) e), st1)
            | CreateExists \<Rightarrow> Some (rf_DoneAndRequeue, st1)
            | Created obj rvrs \<Rightarrow> createAccessReplicas cl rsp (nodeName # rvrNodes) rvas (st1 \<lparr> st_rvrs := rvrs \<rparr>) })"

definition reconcileCreateAccessReplicas :: "Client \<Rightarrow> rspView option \<Rightarrow> rstate \<Rightarrow> (ReconcileOutcome \<times> rstate) option" where
  "reconcileCreateAccessReplicas cl rsp st =
     (if rv_DeletionTimestamp (st_rv st) \<noteq> None then Some (rf_Continue, st)
      else do {
        cfg \<leftarrow> rv_Configuration (st_rv st);
        if cfg_VolumeAccess cfg = VolumeAccessLocal then Some (rf_Continue, st)
        else case rsp of
          None \<Rightarrow> Some (rf_Continue, st)
        | Some view \<Rightarrow>
            createAccessReplicas cl view (filter (\<lambda>n. n \<noteq> []) (map rvr_NodeName (st_rvrs st))) (st_rvas st) st })"

text \<open>Which Access replicas are deleted; reading an ID may panic.\<close>

definition isUnneededAccess :: "RV \<Rightarrow> RVA list \<Rightarrow> IDSet \<Rightarrow> IDSet \<Rightarrow> RVR \<Rightarrow> bool option" where
  "isUnneededAccess rv rvas attached transitions r =
     (if rvr_Type r \<noteq> RT_Access \<or> rvr_Deleting r then Some False
      else do {
        i \<leftarrow> rvrID r;
        let redundant = list_ex (\<lambda>m. m_NodeName m = rvr_NodeName r \<and> m_Name m \<noteq> rvr_Name r) (rv_Members rv);
        let hasActiveRVA = list_ex (\<lambda>a. \<not> rva_Deleting a \<and> rva_NodeName a = rvr_NodeName r) rvas;
        Some (\<not> IDSet_Contains attached i \<and> \<not> IDSet_Contains transitions i \<and> (redundant \<or> \<not> hasActiveRVA)) })"

definition joinsOrDetaches :: "Transition \<Rightarrow> bool" where
  "joinsOrDetaches t \<longleftrightarrow> t_Type t = TT_Detach \<or> t_Type t = TT_AddReplica"

definition reconcileDeleteAccessReplicas :: "Client \<Rightarrow> rstate \<Rightarrow> (ReconcileOutcome \<times> rstate) option" where
  "reconcileDeleteAccessReplicas cl st = do {
     let rv = st_rv st;
     attached \<leftarrow> membersWhere m_Attached (rv_Members rv);
     transitions \<leftarrow> idsWhere ReplicaID (\<lambda>t. Some (joinsOrDetaches t)) (rv_DatameshTransitions rv) 0;
     (err, rvrs, calls) \<leftarrow> deleteWhere ''deleting Access RVR '' (deleteRVR cl) (isUnneededAccess rv (st_rvas st) attached transitions) (st_rvrs st);
     Some (case err of Some e \<Rightarrow> failure e | None \<Rightarrow> rf_Continue, st \<lparr> st_rvrs := rvrs, st_calls := st_calls st @ calls \<rparr>) }"

subsection \<open>Layout\<close>

definition putRVR :: "RVR \<Rightarrow> RVR list \<Rightarrow> RVR list" where
  "putRVR r rvrs = map (\<lambda>x. if rvr_Name x = rvr_Name r then r else x) rvrs"

definition retypeReplica :: "Client \<Rightarrow> RVR \<Rightarrow> rstate \<Rightarrow> ReconcileOutcome \<times> rstate" where
  "retypeReplica cl rvr st =
     (let rvr1 = applyRVRRetypeToTieBreaker rvr; calls = st_calls st @ [CallPatchRVR rvr1] in
      case cl_PatchRVR cl rvr1 rvr of
        Inl e \<Rightarrow> (failure (ErrWrap (''retyping Diskful RVR '' @ rvr_Name rvr @ '' to TieBreaker'') e),
                 st \<lparr> st_rvrs := putRVR rvr1 (st_rvrs st), st_calls := calls \<rparr>)
      | Inr rvr2 \<Rightarrow> (rf_ContinueAndRequeue, st \<lparr> st_rvrs := putRVR rvr2 (st_rvrs st), st_calls := calls \<rparr>))"

definition createTieBreaker :: "Client \<Rightarrow> rstate \<Rightarrow> (ReconcileOutcome \<times> rstate) option" where
  "createTieBreaker cl st = do {
     (r, calls) \<leftarrow> createReplica cl (st_rv st) (st_rvrs st) RT_TieBreaker [];
     let st1 = st \<lparr> st_calls := st_calls st @ calls \<rparr>;
     Some (case r of
       CreateFailed e \<Rightarrow> (failure (ErrWrap ''creating tie-breaker RVR'' e), st1)
     | CreateExists \<Rightarrow> (rf_ContinueAndRequeue, st1)
     | Created obj rvrs \<Rightarrow> (rf_ContinueAndRequeue, st1 \<lparr> st_rvrs := rvrs \<rparr>)) }"

definition reconcileLayoutConvergence :: "Client \<Rightarrow> rstate \<Rightarrow> (ReconcileOutcome \<times> rstate) option" where
  "reconcileLayoutConvergence cl st =
     (if rv_Configuration (st_rv st) = None \<or> rv_DeletionTimestamp (st_rv st) \<noteq> None then Some (rf_Continue, st)
      else do {
        (action, _) \<leftarrow> computeTargetLayoutAction (st_rv st) (st_rvrs st) (st_rvas st);
        case action of
          layoutActionRetypeToTieBreaker name \<Rightarrow>
            (case findRVRByName (st_rvrs st) name of
               None \<Rightarrow> Some (rf_Continue, st)
             | Some rvr \<Rightarrow> Some (retypeReplica cl rvr st))
        | layoutActionCreateTieBreaker \<Rightarrow> createTieBreaker cl st
        | layoutActionNone \<Rightarrow> Some (rf_Continue, st) })"

definition applyMembershipLayoutConvergedCond :: "Client \<Rightarrow> int \<Rightarrow> membershipLayoutConvergedReport \<Rightarrow> RV \<Rightarrow> bool \<times> RV" where
  "applyMembershipLayoutConvergedCond cl now report rv =
     (case SetStatusCondition (cl_SetStatusCondition cl) now (rv_Generation rv) (rv_Conditions rv)
         (condOf ''MembershipLayoutConverged'' (lr_status report) (lr_reason report) (lr_message report)) of
       (changed, conds) \<Rightarrow> (changed, rv \<lparr> rv_Conditions := conds \<rparr>))"

definition reconcileLayoutStatus :: "Client \<Rightarrow> int \<Rightarrow> rstate \<Rightarrow> (ReconcileOutcome \<times> rstate) option" where
  "reconcileLayoutStatus cl now st =
     (if rv_Configuration (st_rv st) = None then Some (rf_Continue, st)
      else do {
        (layout, report) \<leftarrow> computeLayoutReport (st_rv st) (st_rvrs st) (st_rvas st);
        let (ch1, rv1) = applyMembershipLayout (st_rv st) layout;
        let (ch2, rv2) = applyMembershipLayoutConvergedCond cl now report rv1;
        Some (ReportChangedIf (ch2 \<or> ch1) rf_Continue, st \<lparr> st_rv := rv2 \<rparr>) })"

subsection \<open>Metadata and finalizers\<close>

definition isRVMetadataInSync :: "RV \<Rightarrow> bool \<Rightarrow> bool" where
  "isRVMetadataInSync rv targetFinalizerPresent \<longleftrightarrow>
     HasFinalizer (rv_Finalizers rv) RVControllerFinalizer = targetFinalizerPresent
     \<and> (if rv_Spec_ReplicatedStorageClassName rv \<noteq> []
        then HasLabelValue (Some (rv_Labels rv)) ReplicatedStorageClassLabelKey (rv_Spec_ReplicatedStorageClassName rv)
        else \<not> HasLabel (rv_Labels rv) ReplicatedStorageClassLabelKey)"

definition applyRVMetadata :: "RV \<Rightarrow> bool \<Rightarrow> bool \<times> RV" where
  "applyRVMetadata rv targetFinalizerPresent =
     (let (ch1, fs) = (if targetFinalizerPresent then AddFinalizer (rv_Finalizers rv) RVControllerFinalizer
                       else RemoveFinalizer (rv_Finalizers rv) RVControllerFinalizer);
          (ch2, ls) = (if rv_Spec_ReplicatedStorageClassName rv \<noteq> []
                       then SetLabel (rv_Labels rv) ReplicatedStorageClassLabelKey (rv_Spec_ReplicatedStorageClassName rv)
                       else RemoveLabel (rv_Labels rv) ReplicatedStorageClassLabelKey)
      in (ch2 \<or> ch1, rv \<lparr> rv_Finalizers := fs, rv_Labels := ls \<rparr>))"

definition reconcileMetadata :: "Client \<Rightarrow> rstate \<Rightarrow> ReconcileOutcome \<times> rstate" where
  "reconcileMetadata cl st =
     (let rv = st_rv st;
          target = (rv_DeletionTimestamp rv = None \<or> st_rvrs st \<noteq> []) in
      if isRVMetadataInSync rv target then (rf_Continue, st)
      else let rv1 = snd (applyRVMetadata rv target); calls = st_calls st @ [CallPatchRV rv1] in
        case cl_PatchRV cl rv1 rv of
          Inl e \<Rightarrow> (failure e, st \<lparr> st_rv := rv1, st_calls := calls \<rparr>)
        | Inr rv2 \<Rightarrow> (if target then rf_Continue else rf_Done, st \<lparr> st_rv := rv2, st_calls := calls \<rparr>))"

definition isRVRMemberOrLeavingDatamesh :: "RV option \<Rightarrow> string \<Rightarrow> bool" where
  "isRVRMemberOrLeavingDatamesh rv rvrName = (case rv of None \<Rightarrow> False | Some v \<Rightarrow>
     FindMemberByName (rv_Datamesh v) rvrName \<noteq> None
     \<or> list_ex (\<lambda>t. t_Type t = TT_RemoveReplica \<and> t_ReplicaName t = rvrName) (rv_DatameshTransitions v))"

text \<open>The patch a replica needs, if any, with the text of its error.\<close>

definition rvrFinalizerTarget :: "RV option \<Rightarrow> RVR \<Rightarrow> (string \<times> RVR) option" where
  "rvrFinalizerTarget rv r =
     (if \<not> rvr_Deleting r
      then if HasFinalizer (rvr_Finalizers r) RVControllerFinalizer then None
           else Some (''adding finalizer to RVR '' @ rvr_Name r,
                  r \<lparr> rvr_Finalizers := snd (AddFinalizer (rvr_Finalizers r) RVControllerFinalizer) \<rparr>)
      else if \<not> HasFinalizer (rvr_Finalizers r) RVControllerFinalizer then None
      else if isRVRMemberOrLeavingDatamesh rv (rvr_Name r) then None
      else Some (''removing finalizer from RVR '' @ rvr_Name r,
             r \<lparr> rvr_Finalizers := snd (RemoveFinalizer (rvr_Finalizers r) RVControllerFinalizer) \<rparr>))"

fun finalizeRVRs :: "Client \<Rightarrow> RV option \<Rightarrow> RVR list \<Rightarrow> goErr option \<times> RVR list \<times> apiCall list" where
  "finalizeRVRs cl rv [] = (None, [], [])"
| "finalizeRVRs cl rv (r # rs) = (case rvrFinalizerTarget rv r of
     None \<Rightarrow> (case finalizeRVRs cl rv rs of (err, rs', calls) \<Rightarrow> (err, r # rs', calls))
   | Some (what, r1) \<Rightarrow> (case cl_PatchRVR cl r1 r of
       Inl e \<Rightarrow> (Some (ErrWrap what e), r1 # rs, [CallPatchRVR r1])
     | Inr r2 \<Rightarrow> (case finalizeRVRs cl rv rs of (err, rs', calls) \<Rightarrow> (err, r2 # rs', CallPatchRVR r1 # calls))))"

definition reconcileRVRFinalizers :: "Client \<Rightarrow> rstate \<Rightarrow> ReconcileOutcome \<times> rstate" where
  "reconcileRVRFinalizers cl st = (case finalizeRVRs cl (Some (st_rv st)) (st_rvrs st) of
     (err, rvrs, calls) \<Rightarrow> (rvaOutcome err, st \<lparr> st_rvrs := rvrs, st_calls := st_calls st @ calls \<rparr>))"

subsection \<open>Deletion\<close>

definition rvShouldNotExist :: "RV option \<Rightarrow> bool" where
  "rvShouldNotExist rvOpt = (case rvOpt of None \<Rightarrow> True | Some rv \<Rightarrow>
     rv_DeletionTimestamp rv \<noteq> None
     \<and> \<not> HasFinalizersOtherThan (rv_Finalizers rv) [RVControllerFinalizer]
     \<and> (fst (isFormationInProgress rv)
        \<or> \<not> list_ex m_Attached (rv_Members rv) \<and> \<not> list_ex (\<lambda>t. t_Type t = TT_Detach) (rv_DatameshTransitions rv)))"

text \<open>The last step: the report of a deleting volume, and no members.\<close>

definition publishDeletion :: "Client \<Rightarrow> int \<Rightarrow> rstate \<Rightarrow> ReconcileOutcome \<times> rstate" where
  "publishDeletion cl now st =
     (let base = st_rv st;
          (ch, rv1) = applyMembershipLayoutConvergedCond cl now volumeDeletingReport base;
          rv2 = (if rv_Members rv1 \<noteq> [] then setMembers [] rv1 else rv1) in
      if \<not> ch \<and> rv_Members rv1 = [] then (rf_Done, st \<lparr> st_rv := rv2 \<rparr>)
      else case cl_PatchRVStatus cl rv2 base of
        Inl e \<Rightarrow> (failure (ErrWrap ''publishing deletion layout status'' e),
                 st \<lparr> st_rv := rv2, st_calls := st_calls st @ [CallPatchRVStatus rv2] \<rparr>)
      | Inr rv3 \<Rightarrow> (rf_Done, st \<lparr> st_rv := rv3, st_calls := st_calls st @ [CallPatchRVStatus rv2] \<rparr>))"

definition reconcileDeletion :: "Client \<Rightarrow> int \<Rightarrow> rstate \<Rightarrow> (ReconcileOutcome \<times> rstate) option" where
  "reconcileDeletion cl now st = (case reconcileRVAWaiting cl now ''ReplicatedVolume is being deleted'' st of
     (outcome, st1) \<Rightarrow>
       if ShouldReturn outcome then Some (outcome, st1)
       else do {
         (err, rvrs, calls) \<leftarrow> deleteWhere ''deleting RVR '' (deleteRVRWithForcedFinalizerRemoval cl) (\<lambda>_. Some True) (st_rvrs st1);
         let st2 = st1 \<lparr> st_rvrs := rvrs, st_calls := st_calls st1 @ calls \<rparr>;
         Some (case err of Some e \<Rightarrow> (failure e, st2) | None \<Rightarrow> publishDeletion cl now st2) })"

subsection \<open>Reads\<close>

text \<open>The order of attachments: node, creation time, name.\<close>

definition rvaLe :: "RVA \<Rightarrow> RVA \<Rightarrow> bool" where
  "rvaLe a b \<longleftrightarrow> rva_NodeName a < rva_NodeName b
     \<or> rva_NodeName a = rva_NodeName b \<and> (rva_CreationTimestamp a < rva_CreationTimestamp b
        \<or> rva_CreationTimestamp a = rva_CreationTimestamp b \<and> rva_Name a \<le> rva_Name b)"

fun insertRVA :: "RVA \<Rightarrow> RVA list \<Rightarrow> RVA list" where
  "insertRVA a [] = [a]"
| "insertRVA a (x # xs) = (if rvaLe a x then a # x # xs else x # insertRVA a xs)"

definition getRVAsSorted :: "RVA list \<Rightarrow> RVA list" where
  "getRVAsSorted rvas = foldr insertRVA rvas []"

text \<open>The view of the pool: the eligible nodes that a replica or an active attachment names. The argument has the
  fields of the pool that are read, with all its eligible nodes.\<close>

definition viewNodeNames :: "RVR list \<Rightarrow> RVA list \<Rightarrow> string list" where
  "viewNodeNames rvrs rvas = remdups_adj (sort (filter (\<lambda>n. n \<noteq> []) (map rvr_NodeName rvrs)
     @ map rva_NodeName (filter (\<lambda>a. \<not> rva_Deleting a) rvas)))"

definition viewOf :: "rspView \<Rightarrow> RVR list \<Rightarrow> RVA list \<Rightarrow> rspView" where
  "viewOf pool rvrs rvas =
     (let nodeNames = viewNodeNames rvrs rvas;
          found = (\<lambda>en. case BinarySearchFunc (\<lambda>n. Some (cmpCompare n (en_NodeName en))) nodeNames of
                     Some (_, True) \<Rightarrow> True | _ \<Rightarrow> False)
      in pool \<lparr> view_EligibleNodes := sort_key en_NodeName (filter found (view_EligibleNodes pool)) \<rparr>)"

subsection \<open>Normal operation\<close>

record ReconcileEnv =
  re_Formation :: FormationEnv
  re_registry :: dregistry
  re_clock :: "nat \<Rightarrow> int"
  re_realloc :: bool
  re_GetRSP :: "string \<Rightarrow> goErr + rspView"

abbreviation re_Client :: "ReconcileEnv \<Rightarrow> Client" where
  "re_Client E \<equiv> fe_Client (re_Formation E)"

abbreviation re_now :: "ReconcileEnv \<Rightarrow> int" where
  "re_now E \<equiv> fe_now (re_Formation E)"

definition reconcileNormalOperation :: "ReconcileEnv \<Rightarrow> rspView \<Rightarrow> rstate \<Rightarrow> (ReconcileOutcome \<times> rstate) option" where
  "reconcileNormalOperation E rsp st = do {
     (o1, st1) \<leftarrow> reconcileCreateAccessReplicas (re_Client E) (Some rsp) st;
     if ShouldReturn o1 then Some (o1, st1)
     else do {
       (changed, dmrctxs, rv) \<leftarrow> ProcessTransitions (re_registry E) (re_clock E) (re_realloc E) (st_rv st1) (Some (asRSP rsp))
         (st_rvrs st1) (st_rvas st1) \<lparr> ff_ShadowDiskful = False \<rparr>;
       let o2 = (if changed then ReportChanged o1 else o1);
       let st2 = st1 \<lparr> st_rv := rv \<rparr>;
       (o3, st3) \<leftarrow> reconcileRVAConditionsFromDatameshReplicaContext (re_Client E) (re_now E) dmrctxs st2;
       (o4, st4) \<leftarrow> reconcileDeleteAccessReplicas (re_Client E) st3;
       let o5 = outcome_Merge o2 [o3, o4];
       if ShouldReturn o5 then Some (o5, st4)
       else do {
         (o6, st5) \<leftarrow> reconcileLayoutConvergence (re_Client E) st4;
         Some (outcome_Merge o5 [o6], st5) } } }"

subsection \<open>Reconcile\<close>

text \<open>The stages of \<open>Reconcile\<close>. An early return is a terminal outcome: what the caller returns to the runtime does
  not depend on what a failure discards.\<close>

definition configureVolume :: "ReconcileEnv \<Rightarrow> RSC option \<Rightarrow> ReconcileOutcome \<Rightarrow> rstate \<Rightarrow> (ReconcileOutcome \<times> rstate) option" where
  "configureVolume E rsc outcome st =
     (if rv_Configuration (st_rv st) \<noteq> None then Some (outcome, st)
      else do {
        (o1, rv) \<leftarrow> reconcileRVConfiguration (fe_Config (re_Formation E)) (st_rv st) rsc;
        Some (outcome_Merge outcome [o1], st \<lparr> st_rv := rv \<rparr>) })"

definition prepareVolume :: "ReconcileEnv \<Rightarrow> ReconcileOutcome \<Rightarrow> rstate \<Rightarrow> (ReconcileOutcome \<times> rstate) option" where
  "prepareVolume E outcome st = do {
     (eo1, rv1) \<leftarrow> ensureDatameshReplicaRequests (re_now E) (st_rv st) (st_rvrs st);
     (eo2, rv2) \<leftarrow> ensureStatusSize rv1 (st_rvrs st);
     let eo = MergeEnsures [eo1, eo2];
     Some (case e_err eo of Some e \<Rightarrow> failure e | None \<Rightarrow> WithChangeFrom eo outcome, st \<lparr> st_rv := rv2 \<rparr>) }"

definition processVolume :: "ReconcileEnv \<Rightarrow> RSC option \<Rightarrow> ReconcileOutcome \<Rightarrow> rstate \<Rightarrow> (ReconcileOutcome \<times> rstate) option" where
  "processVolume E rsc outcome st = (case rv_Configuration (st_rv st) of
     None \<Rightarrow> Some (outcome, st)
   | Some cfg \<Rightarrow> (case re_GetRSP E (ReplicatedStoragePoolName cfg) of
       Inl e \<Rightarrow> Some (failure (ErrWrap ''getting RSP'' e), st)
     | Inr pool \<Rightarrow>
         let rsp = viewOf pool (st_rvrs st) (st_rvas st) in
         case isFormationInProgress (st_rv st) of
           (True, k) \<Rightarrow> do {
             (o1, st1) \<leftarrow> reconcileFormation (re_Formation E) rsp rsc k st;
             Some (outcome_Merge outcome [o1], st1) }
         | (False, _) \<Rightarrow> do {
             (o1, rv1) \<leftarrow> reconcileRVConfiguration (fe_Config (re_Formation E)) (st_rv st) rsc;
             (o2, st2) \<leftarrow> reconcileNormalOperation E rsp (st \<lparr> st_rv := rv1 \<rparr>);
             (o3, st3) \<leftarrow> reconcileLayoutStatus (re_Client E) (re_now E) st2;
             Some (MergeReconciles [outcome, o1, o2, o3], st3) }))"

definition finishVolume :: "ReconcileEnv \<Rightarrow> RV \<Rightarrow> ReconcileOutcome \<Rightarrow> rstate \<Rightarrow> ReconcileOutcome \<times> rstate" where
  "finishVolume E base outcome st =
     (let o1 = (if rv_DeletionTimestamp (st_rv st) \<noteq> None \<and> rvShouldNotExist (Some (st_rv st))
                then outcome_Merge outcome [rf_ContinueAndRequeue] else outcome) in
      case reconcileRVAMetadata (re_Client E) (Some (st_rv st)) st of
        (o2, st2) \<Rightarrow> (case reconcileRVRFinalizers (re_Client E) st2 of
          (o3, st3) \<Rightarrow>
            let o4 = MergeReconciles [o1, o2, o3] in
            if ShouldReturn o4 \<or> \<not> o_changed o4 then (o4, st3)
            else let calls = st_calls st3 @ [CallPatchRVStatus (st_rv st3)] in
              case cl_PatchRVStatus (re_Client E) (st_rv st3) base of
                Inl e \<Rightarrow> (failure e, st3 \<lparr> st_calls := calls \<rparr>)
              | Inr rv \<Rightarrow> (o4, st3 \<lparr> st_rv := rv, st_calls := calls \<rparr>)))"

definition andThen :: "(ReconcileOutcome \<times> rstate) option \<Rightarrow> (ReconcileOutcome \<Rightarrow> rstate \<Rightarrow> (ReconcileOutcome \<times> rstate) option)
    \<Rightarrow> (ReconcileOutcome \<times> rstate) option" where
  "andThen m k = do { (outcome, st) \<leftarrow> m; if ShouldReturn outcome then Some (outcome, st) else k outcome st }"

definition reconcileVolume :: "ReconcileEnv \<Rightarrow> RSC option \<Rightarrow> rstate \<Rightarrow> (ReconcileOutcome \<times> rstate) option" where
  "reconcileVolume E rsc st =
     (if rvShouldNotExist (Some (st_rv st)) then do {
        (o1, st1) \<leftarrow> reconcileDeletion (re_Client E) (re_now E) st;
        let (o2, st2) = reconcileRVAMetadata (re_Client E) (Some (st_rv st1)) st1;
        let (o3, st3) = reconcileMetadata (re_Client E) st2;
        Some (MergeReconciles [o1, o2, o3], st3) }
      else andThen (Some (reconcileMetadata (re_Client E) st)) (\<lambda>o1 st1.
        andThen (configureVolume E rsc o1 st1) (\<lambda>o2 st2.
          andThen (prepareVolume E o2 st2) (\<lambda>o3 st3.
            andThen (processVolume E rsc o3 st3) (\<lambda>o4 st4.
              Some (finishVolume E (st_rv st1) o4 st4))))))"

text \<open>Objects whose volume is gone. An empty listing ends with Done.\<close>

definition reconcileOrphanedRVAs :: "Client \<Rightarrow> int \<Rightarrow> goErr + RVA list \<Rightarrow> ReconcileOutcome \<times> apiCall list" where
  "reconcileOrphanedRVAs cl now listed = (case listed of
     Inl e \<Rightarrow> (failure (ErrWrap ''listing RVAs for deleted RV'' e), [])
   | Inr items \<Rightarrow>
       let rvas = getRVAsSorted items in
       if rvas = [] then (rf_Done, [])
       else case waitingRVAs cl now ''ReplicatedVolume not found; waiting for it to appear'' rvas of
         (err1, rvas1, calls1) \<Rightarrow> (case metadataRVAs cl None [] rvas1 of
           (err2, _, calls2) \<Rightarrow> (MergeReconciles [rvaOutcome err1, rvaOutcome err2], calls1 @ calls2)))"

definition reconcileOrphanedRVRs :: "Client \<Rightarrow> goErr + RVR list \<Rightarrow> ReconcileOutcome \<times> apiCall list" where
  "reconcileOrphanedRVRs cl listed = (case listed of
     Inl e \<Rightarrow> (failure (ErrWrap ''listing RVRs for deleted RV'' e), [])
   | Inr items \<Rightarrow>
       let rvrs = getRVRsSorted items in
       if rvrs = [] then (rf_Done, [])
       else case finalizeRVRs cl None rvrs of (err, _, calls) \<Rightarrow> (rvaOutcome err, calls))"

record ReconcileReads =
  rd_RV :: "goErr + RV"
  rd_RSC :: "string \<Rightarrow> goErr + RSC"
  rd_RVAs :: "goErr + RVA list"
  rd_RVRs :: "goErr + RVR list"

text \<open>\<open>Get\<close> with \<open>client.IgnoreNotFound\<close>: a missing object is nil.\<close>

definition getOrNil :: "goErr + 'a \<Rightarrow> goErr + 'a option" where
  "getOrNil r = (case r of
     Inr x \<Rightarrow> Inr (Some x)
   | Inl e \<Rightarrow> (case IgnoreNotFound (Some e) of Some e' \<Rightarrow> Inl e' | None \<Rightarrow> Inr None))"

definition getRSC :: "ReconcileReads \<Rightarrow> RV \<Rightarrow> goErr + RSC option" where
  "getRSC R rv = (if rv_Spec_ReplicatedStorageClassName rv = [] then Inr None
     else getOrNil (rd_RSC R (rv_Spec_ReplicatedStorageClassName rv)))"

definition rv_Reconcile :: "ReconcileEnv \<Rightarrow> ReconcileReads \<Rightarrow> ((ctrlResult \<times> goErr option) \<times> apiCall list) option" where
  "rv_Reconcile E R = (case getOrNil (rd_RV R) of
     Inl e \<Rightarrow> Some (ToCtrl (failure (ErrWrap ''getting ReplicatedVolume'' e)), [])
   | Inr None \<Rightarrow>
       (case reconcileOrphanedRVAs (re_Client E) (re_now E) (rd_RVAs R) of
          (o1, calls1) \<Rightarrow> (case reconcileOrphanedRVRs (re_Client E) (rd_RVRs R) of
            (o2, calls2) \<Rightarrow> Some (ToCtrl (MergeReconciles [o1, o2]), calls1 @ calls2)))
   | Inr (Some rv) \<Rightarrow> (case getRSC R rv of
       Inl e \<Rightarrow> Some (ToCtrl (failure (ErrWrap ''getting ReplicatedStorageClass'' e)), [])
     | Inr rsc \<Rightarrow> (case rd_RVAs R of
         Inl e \<Rightarrow> Some (ToCtrl (failure (ErrWrap ''listing ReplicatedVolumeAttachments'' e)), [])
       | Inr rvas \<Rightarrow> (case rd_RVRs R of
           Inl e \<Rightarrow> Some (ToCtrl (failure (ErrWrap ''listing ReplicatedVolumeReplicas'' e)), [])
         | Inr rvrs \<Rightarrow> do {
             (outcome, st) \<leftarrow> reconcileVolume E rsc \<lparr> st_rv = rv, st_rvrs = getRVRsSorted rvrs, st_rvas = getRVAsSorted rvas, st_calls = [] \<rparr>;
             Some (ToCtrl outcome, st_calls st) }))))"

end
