(* ===== verification/Rv_Formation_Laws.thy ===== *)
theory Rv_Formation_Laws
  imports Rv_Formation Dmte_Invariant
begin

text \<open>
  What the formation of a datamesh guarantees: which replicas survive trimming, when a formation is
  complete, how the first members and the quorum are chosen, that data is not thrown away by a late
  restart, and that every reconciliation is a run of the abstract state machine of a formation.
\<close>

subsection \<open>Following a run\<close>

text \<open>How a computation that did not panic got to its result, statement by statement.\<close>

lemma bindE: "Option.bind m f = Some y \<Longrightarrow> (\<And>x. m = Some x \<Longrightarrow> f x = Some y \<Longrightarrow> P) \<Longrightarrow> P"
  by (cases m) auto

lemma bindPairE: "Option.bind m (\<lambda>(a, b). f a b) = Some y \<Longrightarrow> (\<And>a b. m = Some (a, b) \<Longrightarrow> f a b = Some y \<Longrightarrow> P) \<Longrightarrow> P"
  by (cases m) auto

lemma bindTripleE: "Option.bind m (\<lambda>(a, b, c). f a b c) = Some y
    \<Longrightarrow> (\<And>a b c. m = Some (a, b, c) \<Longrightarrow> f a b c = Some y \<Longrightarrow> P) \<Longrightarrow> P"
  by (cases m) auto

lemma ifE: "(if c then a else b) = Some y \<Longrightarrow> (c \<Longrightarrow> a = Some y \<Longrightarrow> P) \<Longrightarrow> (\<not> c \<Longrightarrow> b = Some y \<Longrightarrow> P) \<Longrightarrow> P"
  by (cases c) auto

lemma pairE: "(case p of (a, b) \<Rightarrow> f a b) = Some y \<Longrightarrow> (\<And>a b. p = (a, b) \<Longrightarrow> f a b = Some y \<Longrightarrow> P) \<Longrightarrow> P"
  by (cases p) auto

lemma optionE: "(case m of None \<Rightarrow> a | Some x \<Rightarrow> f x) = Some y \<Longrightarrow> (m = None \<Longrightarrow> a = Some y \<Longrightarrow> P)
    \<Longrightarrow> (\<And>x. m = Some x \<Longrightarrow> f x = Some y \<Longrightarrow> P) \<Longrightarrow> P"
  by (cases m) auto

lemma sumE: "(case s of Inl a \<Rightarrow> f a | Inr b \<Rightarrow> g b) = Some y \<Longrightarrow> (\<And>a. s = Inl a \<Longrightarrow> f a = Some y \<Longrightarrow> P)
    \<Longrightarrow> (\<And>b. s = Inr b \<Longrightarrow> g b = Some y \<Longrightarrow> P) \<Longrightarrow> P"
  by (cases s) auto

lemma boolE: "(case c of True \<Rightarrow> a | False \<Rightarrow> b) = Some y \<Longrightarrow> (c \<Longrightarrow> a = Some y \<Longrightarrow> P) \<Longrightarrow> (\<not> c \<Longrightarrow> b = Some y \<Longrightarrow> P) \<Longrightarrow> P"
  by (cases c) auto

lemmas runE = boolE bindTripleE bindPairE bindE ifE pairE optionE sumE

subsection \<open>What writing messages leaves alone\<close>

definition eraseStep :: "TransitionStep \<Rightarrow> TransitionStep" where
  "eraseStep s = s \<lparr> s_Message := [] \<rparr>"

definition eraseT :: "Transition \<Rightarrow> Transition" where
  "eraseT t = t \<lparr> t_Steps := map eraseStep (t_Steps t) \<rparr>"

definition erase :: "RV \<Rightarrow> RV" where
  "erase rv = rv \<lparr> rv_DatameshTransitions := map eraseT (rv_DatameshTransitions rv), rv_DatameshReplicaRequests := [] \<rparr>"

lemma eraseT_setMessage: "k < length (t_Steps t) \<Longrightarrow> eraseT (setStep k (\<lambda>s. s \<lparr> s_Message := msg \<rparr>) t) = eraseT t"
  by (simp add: eraseT_def setStep_def map_update) (simp add: list_update_same_conv eraseStep_def)

lemma stepAt_SomeD: "stepAt ti k rv = Some s \<Longrightarrow> ti < length (rv_DatameshTransitions rv)
    \<and> k < length (t_Steps (rv_DatameshTransitions rv ! ti)) \<and> s = t_Steps (rv_DatameshTransitions rv ! ti) ! k"
  by (auto simp: stepAt_def res_simps)

lemma erase_stepMessage:
  assumes "applyDatameshTransitionStepMessage ti k msg rv = Some (ch, rv')"
  shows "erase rv' = erase rv"
proof -
  obtain s where s: "stepAt ti k rv = Some s" "rv' = (if s_Message s = msg then rv else onStep ti k (\<lambda>s. s \<lparr> s_Message := msg \<rparr>) rv)"
    using assms by (auto simp: applyDatameshTransitionStepMessage_def res_simps split: if_splits)
  show ?thesis
    using s(2) stepAt_SomeD [OF s(1)]
    by (auto simp: erase_def onStep_def onFormation_def map_update eraseT_setMessage list_update_same_conv)
qed

lemma erase_requestMessages: "applyDatameshReplicaRequestMessages S msg rv = Some (ch, rv') \<Longrightarrow> erase rv' = erase rv"
  by (auto simp: applyDatameshReplicaRequestMessages_def res_simps erase_def)

lemma erase_applyMessages: "applyMessages reqs rv = Some (ch, rv') \<Longrightarrow> erase rv' = erase rv"
  by (induction reqs rv arbitrary: ch rv' rule: applyMessages.induct) (auto simp: res_simps dest: erase_requestMessages)

lemma erase_stepMessages: "stepMessages ti k msg reqs rv = Some (ch, rv') \<Longrightarrow> erase rv' = erase rv"
  by (auto simp: stepMessages_def res_simps dest!: erase_stepMessage erase_applyMessages)

text \<open>What the volume says but for messages.\<close>

lemma eraseT_fields [simp]:
  "statuses (eraseT t) = statuses t" "t_Type (eraseT t) = t_Type t" "t_PlanID (eraseT t) = t_PlanID t"
  "StartedAt (eraseT t) = StartedAt t" "revs_le n (eraseT t) = revs_le n t"
  by (auto simp: eraseT_def statuses_def StartedAt_def revs_le_def eraseStep_def split: list.splits)

lemma erase_transitions: "rv_DatameshTransitions (erase rv) = map eraseT (rv_DatameshTransitions rv)"
  by (simp add: erase_def)

lemma erase_eqD:
  assumes "erase rv' = erase rv"
  shows "rv_DatameshRevision rv' = rv_DatameshRevision rv" "rv_Datamesh rv' = rv_Datamesh rv"
    "rv_Configuration rv' = rv_Configuration rv" "rv_Name rv' = rv_Name rv" "rv_BaselineGMDR rv' = rv_BaselineGMDR rv"
    "map eraseT (rv_DatameshTransitions rv') = map eraseT (rv_DatameshTransitions rv)"
proof -
  show "rv_DatameshRevision rv' = rv_DatameshRevision rv" using arg_cong [OF assms, of rv_DatameshRevision] by (simp add: erase_def)
  show "rv_Datamesh rv' = rv_Datamesh rv" using arg_cong [OF assms, of rv_Datamesh] by (simp add: erase_def)
  show "rv_Configuration rv' = rv_Configuration rv" using arg_cong [OF assms, of rv_Configuration] by (simp add: erase_def)
  show "rv_Name rv' = rv_Name rv" using arg_cong [OF assms, of rv_Name] by (simp add: erase_def)
  show "rv_BaselineGMDR rv' = rv_BaselineGMDR rv" using arg_cong [OF assms, of rv_BaselineGMDR] by (simp add: erase_def)
  show "map eraseT (rv_DatameshTransitions rv') = map eraseT (rv_DatameshTransitions rv)"
    using assms by (simp only: erase_transitions [symmetric])
qed

lemma formationIndex_cong: "map eraseT ts' = map eraseT ts \<Longrightarrow> formationIndex ts' = formationIndex ts"
proof (induction ts arbitrary: ts')
  case (Cons t ts)
  then have "map eraseT ts' = eraseT t # map eraseT ts" by simp
  then obtain t' us where "ts' = t' # us" "eraseT t' = eraseT t" "map eraseT us = map eraseT ts"
    unfolding map_eq_Cons_conv by blast
  moreover from this(2) have "t_Type t' = t_Type t" by (metis eraseT_fields(2))
  moreover have "formationIndex us = formationIndex ts" by (rule Cons.IH) fact
  ultimately show ?case by simp
qed simp

subsection \<open>What the configuration leaves alone\<close>

definition meshOf :: "RV \<Rightarrow> int \<times> Datamesh \<times> u8 \<times> Transition list \<times> ReplicaRequest list \<times> string" where
  "meshOf rv = (rv_DatameshRevision rv, rv_Datamesh rv, rv_BaselineGMDR rv, rv_DatameshTransitions rv,
     rv_DatameshReplicaRequests rv, rv_Name rv)"

lemma meshOf_simps [simp]:
  "meshOf (rv \<lparr> rv_ConfigurationGeneration := g \<rparr>) = meshOf rv"
  "meshOf (rv \<lparr> rv_ConfigurationObservedGeneration := g \<rparr>) = meshOf rv"
  "meshOf (rv \<lparr> rv_Configuration := c \<rparr>) = meshOf rv"
  "meshOf (snd (applyConfigurationReadyCond E s r m rv)) = meshOf rv"
  "meshOf (snd (observe g rv)) = meshOf rv"
  by (simp_all add: meshOf_def applyConfigurationReadyCond_def observe_def split: prod.splits)

lemma meshOf_applyConfiguration:
  assumes "applyConfiguration E rv rsc src = Some (out, rv')"
  shows "meshOf rv' = meshOf rv"
proof (cases "rv_Configuration rv = Some (cs_intended src) \<or> (cs_hold src \<and> rv_Configuration rv \<noteq> None)")
  case True
  then show ?thesis
    using assms unfolding applyConfiguration_def applyConfigurationReadyCondTrue_def applyConfigurationReadyCondFalse_def
    by (auto simp: Let_def case_prod_beta res_simps split: if_splits)
next
  case False
  note run = assms [unfolded applyConfiguration_def applyConfigurationReadyCondTrue_def applyConfigurationReadyCondFalse_def]
  consider e where "validateZones E (cs_intended src) = Inl e" | m where "validateZones E (cs_intended src) = Inr (Some m)"
    | e where "validateZones E (cs_intended src) = Inr None" "throttled E rv rsc src = Some (Inl e)"
    | n where "validateZones E (cs_intended src) = Inr None" "throttled E rv rsc src = Some (Inr (Some n))"
    | "validateZones E (cs_intended src) = Inr None" "throttled E rv rsc src = Some (Inr None)"
    | "validateZones E (cs_intended src) = Inr None" "throttled E rv rsc src = None"
    by (metis option.exhaust sum.exhaust)
  then show ?thesis
    using False run by cases (auto simp: Let_def case_prod_beta res_simps split: if_splits)
qed

lemma meshOf_configuration:
  assumes "reconcileRVConfiguration E rv rsc = Some (out, rv')"
  shows "meshOf rv' = meshOf rv"
proof -
  obtain s where s: "intendedConfiguration rv rsc = Some s"
    using assms by (auto simp: reconcileRVConfiguration_def res_simps)
  then show ?thesis
    using assms unfolding reconcileRVConfiguration_def applyConfigurationReadyCondFalse_def
    by (cases s) (auto simp: case_prod_beta dest: meshOf_applyConfiguration)
qed

subsection \<open>Trimming\<close>

text \<open>How far a replica is from taking part: not scheduled, scheduled, preconfigured; among equals the ID
  decides. The key orders the replicas by the wish to keep them.\<close>

definition keepKey :: "IDSet \<Rightarrow> IDSet \<Rightarrow> nat \<Rightarrow> nat" where
  "keepKey scheduled preconfigured i =
     32 * (if i \<notin> ids scheduled then 2 else if i \<notin> ids preconfigured then 1 else 0) + i"

definition keepOrder :: "IDSet \<Rightarrow> IDSet \<Rightarrow> IDSet \<Rightarrow> nat list" where
  "keepOrder scheduled preconfigured S = sort_key (keepKey scheduled preconfigured) (sorted_list_of_set (ids S))"

lemma keepOrder_facts [simp]:
  "set (keepOrder sc pc S) = ids S" "distinct (keepOrder sc pc S)" "length (keepOrder sc pc S) = IDSet_Len S"
  "sorted (map (keepKey sc pc) (keepOrder sc pc S))"
  by (simp_all add: keepOrder_def Len_card)

lemma keepKey_inj: "i < 32 \<Longrightarrow> j < 32 \<Longrightarrow> keepKey sc pc i = keepKey sc pc j \<Longrightarrow> i = j"
  by (simp add: keepKey_def split: if_splits)

text \<open>The replica removed in a round is the one least worth keeping.\<close>

lemma trim_victim:
  assumes "ids S \<noteq> {}" "j \<in> ids S"
  shows "keepKey sc pc j \<le> keepKey sc pc (unat (IDSet_Max (trimCandidates sc pc S)))"
proof -
  let ?C = "trimCandidates sc pc S" and ?v = "unat (IDSet_Max (trimCandidates sc pc S))"
  have C: "ids ?C \<noteq> {}" using assms(1) by (auto simp: trimCandidates_ids simp del: in_ids)
  then have v: "?v = Max (ids ?C)" by (rule IDSet_Max_nonempty)
  then have v': "?v \<in> ids ?C" using C by (simp add: Max_in del: in_ids)
  have le: "k \<le> ?v" if "k \<in> ids ?C" for k using v that by simp
  have b: "j < 32" "?v < 32" using assms(2) v' ids_bounded by auto
  show ?thesis
  proof (cases "j \<in> ids ?C")
    case True
    then show ?thesis using le [OF True] v' unfolding trimCandidates_ids keepKey_def
      by (auto split: if_splits simp del: in_ids)
  next
    case False
    then show ?thesis using assms(2) v' b unfolding trimCandidates_ids keepKey_def
      by (auto split: if_splits simp del: in_ids)
  qed
qed

lemma keepOrder_last:
  assumes "ids S \<noteq> {}"
  shows "keepOrder sc pc S = keepOrder sc pc (IDSet_Remove (IDSet_Max (trimCandidates sc pc S)) S)
    @ [unat (IDSet_Max (trimCandidates sc pc S))]"
proof -
  let ?v = "unat (IDSet_Max (trimCandidates sc pc S))" and ?S' = "IDSet_Remove (IDSet_Max (trimCandidates sc pc S)) S"
  let ?L = "keepOrder sc pc ?S' @ [?v]"
  have v: "?v \<in> ids S" using assms by (intro trim_round(1)) auto
  have "sorted (map (keepKey sc pc) ?L)" using trim_victim [OF assms] by (auto simp: sorted_append simp del: in_ids)
  moreover have "set ?L = set (sorted_list_of_set (ids S))" using v by (auto simp del: in_ids)
  then have "mset ?L = mset (sorted_list_of_set (ids S))"
    by (subst set_eq_iff_mset_eq_distinct [symmetric]) (simp_all del: in_ids)
  moreover have "inj_on (keepKey sc pc) (set (sorted_list_of_set (ids S)))"
    using keepKey_inj ids_bounded by (auto simp: inj_on_def simp del: in_ids)
  ultimately show ?thesis unfolding keepOrder_def [of sc pc S] by (intro sort_key_inj_key_eq) simp_all
qed

lemma trimExcess_keeps: "ids (trimExcess sc pc target S) = set (take target (keepOrder sc pc S))"
proof (induction sc pc target S rule: trimExcess.induct)
  case (1 sc pc target S)
  show ?case
  proof (cases "IDSet_Len S > target")
    case True
    then have ne: "ids S \<noteq> {}" by (auto simp: Len_card)
    have "target \<le> length (keepOrder sc pc (IDSet_Remove (IDSet_Max (trimCandidates sc pc S)) S))"
      using True arg_cong [OF keepOrder_last [OF ne, of sc pc], of length] by simp
    then show ?thesis
      using 1 [OF True] True keepOrder_last [OF ne, of sc pc] by (simp add: trimExcess.simps [of sc pc target S] del: keepOrder_facts)
  next
    case False
    then show ?thesis by (simp add: trimExcess.simps [of sc pc target S] del: in_ids)
  qed
qed

subsection \<open>The abstract machine\<close>

text \<open>Where a volume is: without a datamesh, at a step of its formation, or formed.\<close>

datatype phase = Unformed | Forming nat | Formed

definition phaseOf :: "RV \<Rightarrow> phase" where
  "phaseOf rv = (if rv_DatameshRevision rv = 0 then Unformed
     else case formationIndex (rv_DatameshTransitions rv) of
       None \<Rightarrow> Formed
     | Some i \<Rightarrow> Forming (case findCurrentStepIdx (rv_DatameshTransitions rv ! i) of Some k \<Rightarrow> k | None \<Rightarrow> 0))"

inductive phase_step :: "phase \<Rightarrow> phase \<Rightarrow> bool" where
  start: "phase_step Unformed (Forming 0)"
| advance: "k < 2 \<Longrightarrow> phase_step (Forming k) (Forming (Suc k))"
| finish: "phase_step (Forming 2) Formed"
| restart: "phase_step (Forming k) Unformed"

inductive_simps phase_step_simps: "phase_step p q"

definition isFormation :: "Transition \<Rightarrow> bool" where
  "isFormation t \<longleftrightarrow> t_Type t = TT_Formation"

text \<open>What every transition of a volume satisfies: the life cycle of its steps, no revision from the future,
  one formation at most, of three steps; a volume without a revision has no transitions.\<close>

definition formationOK :: "RV \<Rightarrow> bool" where
  "formationOK rv \<longleftrightarrow> 0 \<le> rv_DatameshRevision rv
     \<and> (rv_DatameshRevision rv = 0 \<longrightarrow> rv_DatameshTransitions rv = [])
     \<and> (\<forall>t \<in> set (rv_DatameshTransitions rv). steps_ok t \<and> revs_le (rv_DatameshRevision rv) t
          \<and> (isFormation t \<longrightarrow> length (t_Steps t) = 3))
     \<and> length (filter isFormation (rv_DatameshTransitions rv)) \<le> 1"

definition formingAt :: "nat \<Rightarrow> nat \<Rightarrow> RV \<Rightarrow> bool" where
  "formingAt ti k rv \<longleftrightarrow> rv_DatameshRevision rv \<noteq> 0 \<and> formationIndex (rv_DatameshTransitions rv) = Some ti
     \<and> findCurrentStepIdx (rv_DatameshTransitions rv ! ti) = Some k"

lemma formationIndex_Some: "formationIndex ts = Some i \<Longrightarrow> i < length ts \<and> isFormation (ts ! i)"
  by (induction ts arbitrary: i) (auto simp: isFormation_def split: if_splits)

lemma formationIndex_None: "formationIndex ts = None \<longleftrightarrow> (\<forall>t \<in> set ts. \<not> isFormation t)"
  by (induction ts) (auto simp: isFormation_def)

lemma formingAt_phase: "formingAt ti k rv \<Longrightarrow> phaseOf rv = Forming k"
  by (simp add: formingAt_def phaseOf_def)

text \<open>All of this depends on the revision and on the transitions without their messages.\<close>

definition lview :: "RV \<Rightarrow> int \<times> Transition list" where
  "lview rv = (rv_DatameshRevision rv, map eraseT (rv_DatameshTransitions rv))"

lemma lview_erase: "erase rv' = erase rv \<Longrightarrow> lview rv' = lview rv"
  using erase_eqD(1,6) [of rv' rv] unfolding lview_def by (intro prod_eqI) (simp_all only: fst_conv snd_conv)

lemma eraseT_more [simp]: "isFormation (eraseT t) = isFormation t" "steps_ok (eraseT t) = steps_ok t"
  "length (t_Steps (eraseT t)) = length (t_Steps t)" "findCurrentStepIdx (eraseT t) = findCurrentStepIdx t"
  by (simp_all add: isFormation_def steps_ok_def eraseT_def statuses_def findCurrentStepIdx_def takeWhile_map o_def eraseStep_def)

lemma lview_forms:
  "formationOK rv \<longleftrightarrow> (case lview rv of (n, ts) \<Rightarrow> 0 \<le> n \<and> (n = 0 \<longrightarrow> ts = [])
     \<and> (\<forall>t \<in> set ts. steps_ok t \<and> revs_le n t \<and> (isFormation t \<longrightarrow> length (t_Steps t) = 3))
     \<and> length (filter isFormation ts) \<le> 1)"
  "formingAt ti k rv \<longleftrightarrow> (case lview rv of (n, ts) \<Rightarrow> n \<noteq> 0 \<and> formationIndex ts = Some ti \<and> findCurrentStepIdx (ts ! ti) = Some k)"
  "phaseOf rv = (case lview rv of (n, ts) \<Rightarrow> if n = 0 then Unformed
     else case formationIndex ts of None \<Rightarrow> Formed
       | Some i \<Rightarrow> Forming (case findCurrentStepIdx (ts ! i) of Some k \<Rightarrow> k | None \<Rightarrow> 0))"
proof -
  have idx: "formationIndex (map eraseT ts) = formationIndex ts" for ts
    by (rule formationIndex_cong) (simp add: eraseT_def eraseStep_def o_def)
  note len = formationIndex_Some
  show "formationOK rv \<longleftrightarrow> (case lview rv of (n, ts) \<Rightarrow> 0 \<le> n \<and> (n = 0 \<longrightarrow> ts = [])
     \<and> (\<forall>t \<in> set ts. steps_ok t \<and> revs_le n t \<and> (isFormation t \<longrightarrow> length (t_Steps t) = 3))
     \<and> length (filter isFormation ts) \<le> 1)"
    by (simp add: formationOK_def lview_def filter_map o_def)
  show "formingAt ti k rv \<longleftrightarrow> (case lview rv of (n, ts) \<Rightarrow> n \<noteq> 0 \<and> formationIndex ts = Some ti \<and> findCurrentStepIdx (ts ! ti) = Some k)"
    using len [of "rv_DatameshTransitions rv" ti] by (auto simp: formingAt_def lview_def idx)
  show "phaseOf rv = (case lview rv of (n, ts) \<Rightarrow> if n = 0 then Unformed
     else case formationIndex ts of None \<Rightarrow> Formed
       | Some i \<Rightarrow> Forming (case findCurrentStepIdx (ts ! i) of Some k \<Rightarrow> k | None \<Rightarrow> 0))"
    by (auto simp: phaseOf_def lview_def idx dest: len split: option.splits)
qed

lemma lview_cong: "lview rv' = lview rv \<Longrightarrow> formationOK rv' = formationOK rv \<and> formingAt ti k rv' = formingAt ti k rv \<and> phaseOf rv' = phaseOf rv"
  by (simp only: lview_forms)

subsection \<open>The actions of a formation\<close>

lemma restarted_phase:
  assumes "rv_DatameshRevision rv = 0" "rv_DatameshTransitions rv = []"
  shows "formationOK rv" "phaseOf rv = Unformed"
  using assms by (simp_all add: formationOK_def phaseOf_def)

text \<open>Replacing the formation by a transition of the same shape.\<close>

lemma formationIndex_update: "formationIndex ts = Some ti \<Longrightarrow> isFormation t \<Longrightarrow> formationIndex (ts[ti := t]) = Some ti"
  by (induction ts arbitrary: ti) (auto simp: isFormation_def nth_Cons split: if_splits nat.splits)

lemma filter_update_same: "P (xs ! i) = P y \<Longrightarrow> length (filter P (xs[i := y])) = length (filter P xs)"
proof (induction xs arbitrary: i)
  case (Cons x xs)
  then show ?case by (cases i) auto
qed simp

lemma replace_formation:
  assumes ok: "formationOK rv" and at: "formingAt ti k rv" and n: "rv_DatameshRevision rv \<le> n"
    and t: "steps_ok t" "revs_le n t" "isFormation t" "length (t_Steps t) = 3" "findCurrentStepIdx t = Some k'"
    and rv': "rv_DatameshRevision rv' = n" "rv_DatameshTransitions rv' = (rv_DatameshTransitions rv)[ti := t]"
  shows "formationOK rv' \<and> formingAt ti k' rv'"
proof -
  have ti: "ti < length (rv_DatameshTransitions rv)" "isFormation (rv_DatameshTransitions rv ! ti)"
    using at formationIndex_Some by (auto simp: formingAt_def)
  have pos: "rv_DatameshRevision rv \<noteq> 0" "0 \<le> rv_DatameshRevision rv" using at ok by (auto simp: formingAt_def formationOK_def)
  have "\<forall>u \<in> set (rv_DatameshTransitions rv'). steps_ok u \<and> revs_le n u \<and> (isFormation u \<longrightarrow> length (t_Steps u) = 3)"
    using ok t n unfolding rv'(2) formationOK_def
    by (auto dest!: subsetD [OF set_update_subset_insert] intro: revs_le_mono)
  moreover have "length (filter isFormation (rv_DatameshTransitions rv')) \<le> 1"
    using ok t(3) ti(2) filter_update_same [of isFormation "rv_DatameshTransitions rv" ti t]
    by (simp add: rv'(2) formationOK_def)
  ultimately show ?thesis
    using at t pos n ti rv' formationIndex_update [of "rv_DatameshTransitions rv" ti t]
    by (auto simp: formationOK_def formingAt_def)
qed

lemma formation_at:
  assumes "formationOK rv" "formingAt ti k rv"
  shows "steps_ok (rv_DatameshTransitions rv ! ti)" "revs_le (rv_DatameshRevision rv) (rv_DatameshTransitions rv ! ti)"
    "isFormation (rv_DatameshTransitions rv ! ti)" "length (t_Steps (rv_DatameshTransitions rv ! ti)) = 3"
    "findCurrentStepIdx (rv_DatameshTransitions rv ! ti) = Some k" "k < 3"
proof -
  have ti: "ti < length (rv_DatameshTransitions rv)" "isFormation (rv_DatameshTransitions rv ! ti)"
    using assms(2) formationIndex_Some by (auto simp: formingAt_def)
  then have mem: "rv_DatameshTransitions rv ! ti \<in> set (rv_DatameshTransitions rv)" by simp
  then show "steps_ok (rv_DatameshTransitions rv ! ti)" "revs_le (rv_DatameshRevision rv) (rv_DatameshTransitions rv ! ti)"
    "isFormation (rv_DatameshTransitions rv ! ti)" "length (t_Steps (rv_DatameshTransitions rv ! ti)) = 3"
    using assms(1) ti by (auto simp: formationOK_def)
  moreover show "findCurrentStepIdx (rv_DatameshTransitions rv ! ti) = Some k" using assms(2) by (simp add: formingAt_def)
  ultimately show "k < 3" by (auto simp: findCurrentStepIdx_def Let_def split: if_splits)
qed

lemma setStep_fields [simp]: "isFormation (setStep k f t) = isFormation t" "length (t_Steps (setStep k f t)) = length (t_Steps t)"
  by (simp_all add: setStep_def isFormation_def)

lemma onStep_fields [simp]:
  "rv_DatameshRevision (onStep ti k f rv) = rv_DatameshRevision rv" "rv_Datamesh (onStep ti k f rv) = rv_Datamesh rv"
  "rv_Configuration (onStep ti k f rv) = rv_Configuration rv" "rv_Name (onStep ti k f rv) = rv_Name rv"
  "rv_DatameshTransitions (onStep ti k f rv) = (rv_DatameshTransitions rv)[ti := setStep k f (rv_DatameshTransitions rv ! ti)]"
  by (simp_all add: onStep_def onFormation_def)

lemma advance_ok:
  assumes ok: "formationOK rv" and at: "formingAt ti k rv" and adv: "advanceFormationStep now ti k rv = Some rv'"
  shows "formationOK rv' \<and> formingAt ti (Suc k) rv' \<and> rv_Datamesh rv' = rv_Datamesh rv \<and> rv_Configuration rv' = rv_Configuration rv"
proof -
  let ?t = "rv_DatameshTransitions rv ! ti"
  let ?f = "\<lambda>s. s \<lparr> s_Status := Completed, s_CompletedAt := Some now, s_Message := [] \<rparr>"
  let ?g = "\<lambda>s. s \<lparr> s_Status := Active, s_StartedAt := Some now \<rparr>"
  note t = formation_at [OF ok at]
  have l: "Suc k < length (t_Steps ?t)" "ti < length (rv_DatameshTransitions rv)"
    and rv': "rv' = onStep ti (Suc k) ?g (onStep ti k ?f rv)"
    using adv by (auto simp: advanceFormationStep_def res_simps dest!: stepAt_SomeD)
  let ?t' = "setStep (Suc k) ?g (setStep k ?f ?t)"
  have st: "statuses ?t' = (statuses ?t)[k := Completed, Suc k := Active]"
    using l by (simp add: statuses_setStep)
  have ok': "steps_ok ?t'" by (rule steps_ok_advance [OF t(1) t(5) l(1) st])
  have r: "revs_le (rv_DatameshRevision rv) ?t'" using t(2) by (intro revs_le_setStep) auto
  have cur: "findCurrentStepIdx ?t' = Some (Suc k)"
  proof -
    obtain m where "statuses ?t = replicate k Completed @ Active # replicate m Pending"
      using steps_ok_current [OF t(1) t(5)] by blast
    moreover then have "length (t_Steps ?t) = k + Suc m" by (metis length_append length_Cons length_replicate length_statuses)
    ultimately show ?thesis using l st
      by (cases m) (auto simp: findCurrentStepIdx_statuses list_update_append replicate_app_Cons_same takeWhile_append)
  qed
  have "formationOK rv' \<and> formingAt ti (Suc k) rv'"
    by (rule replace_formation [OF ok at order_refl ok' r _ _ cur]) (use t l in \<open>simp_all add: rv'\<close>)
  then show ?thesis by (simp add: rv')
qed

lemma bump_ok:
  assumes ok: "formationOK rv" and at: "formingAt ti k rv" and l: "j < 3"
  shows "formationOK (bumpRevision ti j rv) \<and> formingAt ti k (bumpRevision ti j rv)"
proof -
  let ?t = "rv_DatameshTransitions rv ! ti" and ?n = "rv_DatameshRevision rv + 1"
  let ?t' = "setStep j (\<lambda>s. s \<lparr> s_DatameshRevision := ?n \<rparr>) ?t"
  note t = formation_at [OF ok at]
  have st: "statuses ?t' = statuses ?t" using t(4) l by (intro statuses_setStep_same) simp
  have "revs_le ?n ?t'" using revs_le_mono [OF t(2), of ?n] by (intro revs_le_setStep) auto
  moreover have "findCurrentStepIdx ?t' = Some k" using t(5) st by (simp add: findCurrentStepIdx_statuses)
  ultimately show ?thesis
    by (intro replace_formation [OF ok at _ steps_ok_statuses [OF st t(1)]])
      (use t in \<open>simp_all add: bumpRevision_def Let_def\<close>)
qed

text \<open>Removing the formation.\<close>

lemma absent_ok:
  assumes ok: "formationOK rv" and at: "formingAt ti k rv" and ab: "applyFormationTransitionAbsent rv = (ch, rv')"
  shows "formationOK rv' \<and> phaseOf rv' = Formed \<and> rv_Datamesh rv' = rv_Datamesh rv \<and> rv_DatameshRevision rv' = rv_DatameshRevision rv"
proof -
  let ?ts = "rv_DatameshTransitions rv"
  have i: "formationIndex ?ts = Some ti" "rv_DatameshRevision rv \<noteq> 0" using at by (auto simp: formingAt_def)
  then have rv': "rv' = rv \<lparr> rv_DatameshTransitions := delete_at ti ?ts \<rparr>"
    using ab by (simp add: applyFormationTransitionAbsent_def)
  note ti = formationIndex_Some [OF i(1)]
  have "filter isFormation ?ts = filter isFormation (take ti ?ts @ ?ts ! ti # drop (Suc ti) ?ts)"
    using ti by (simp only: id_take_nth_drop [symmetric])
  then have "length (filter isFormation ?ts) = Suc (length (filter isFormation (delete_at ti ?ts)))"
    using ti by (simp only: delete_at_def filter_append filter.simps length_append if_True list.size)
  then have "filter isFormation (delete_at ti ?ts) = []" using ok by (simp add: formationOK_def)
  then have "formationIndex (delete_at ti ?ts) = None" by (simp add: formationIndex_None filter_empty_conv)
  moreover have "set (delete_at ti ?ts) \<subseteq> set ?ts" by (rule set_delete_at)
  ultimately show ?thesis
    using ok i \<open>filter isFormation (delete_at ti ?ts) = []\<close> by (auto simp: rv' formationOK_def phaseOf_def)
qed

text \<open>Waiting: nothing but messages, or a restart.\<close>

lemma restart_cases:
  assumes "restartFormation E rsc st = Some (out, st')"
  shows "st_rv st' = st_rv st \<or> meshOf (st_rv st') = meshOf (resetDatamesh (st_rv st))"
proof -
  obtain err st1 where d: "deleteFormationOp E st = (err, st1)" by (cases "deleteFormationOp E st")
  then have "st_rv st1 = st_rv st" by (auto simp: deleteFormationOp_def Let_def split: sum.splits option.splits prod.splits)
  then show ?thesis
    using assms d
    by (cases err) (auto simp: restartFormation_def res_simps Let_def split: option.splits dest!: meshOf_configuration)
qed

lemma waitOrRestart_cases:
  assumes "waitOrRestart E rsc ti k timeout ch msg reqs st = Some (out, st')"
  shows "erase (st_rv st') = erase (st_rv st) \<or> (rv_DatameshRevision (st_rv st') = 0 \<and> rv_DatameshTransitions (st_rv st') = []
    \<and> rv_Members (st_rv st') = [])"
proof -
  obtain c rv o1 where m: "stepMessages ti k msg reqs (st_rv st) = Some (c, rv)"
    "reconcileFormationRestartIfTimeoutPassed E rsc ti timeout (st \<lparr> st_rv := rv \<rparr>) = Some (o1, st')"
    using assms by (auto simp: waitOrRestart_def res_simps)
  then have "st' = st \<lparr> st_rv := rv \<rparr> \<or> (\<exists>o2. restartFormation E rsc (st \<lparr> st_rv := rv \<rparr>) = Some (o2, st'))"
    by (auto simp: reconcileFormationRestartIfTimeoutPassed_def res_simps Let_def split: if_splits)
  then have "st_rv st' = rv \<or> meshOf (st_rv st') = meshOf (resetDatamesh rv)" using restart_cases by fastforce
  then show ?thesis
    using erase_stepMessages [OF m(1)] by (auto simp: meshOf_def resetDatamesh_def emptyDatamesh_def)
qed

subsection \<open>The steps follow the machine\<close>

text \<open>A run of the machine from a step, and what holds of the state it ends in if the volume is formed.\<close>

definition goodRun :: "(RV \<Rightarrow> RVR list \<Rightarrow> bool) \<Rightarrow> nat \<Rightarrow> rstate \<Rightarrow> bool" where
  "goodRun C k st \<longleftrightarrow> formationOK (st_rv st) \<and> phase_step\<^sup>*\<^sup>* (Forming k) (phaseOf (st_rv st))
     \<and> (phaseOf (st_rv st) = Formed \<longrightarrow> C (st_rv st) (st_rvrs st))"

lemma goodRun_stay: "formationOK (st_rv st) \<Longrightarrow> formingAt ti k (st_rv st) \<Longrightarrow> goodRun C k st"
  by (simp add: goodRun_def formingAt_phase)

lemma goodRun_reset: "rv_DatameshRevision (st_rv st) = 0 \<Longrightarrow> rv_DatameshTransitions (st_rv st) = [] \<Longrightarrow> goodRun C k st"
  by (auto simp: goodRun_def restarted_phase intro: phase_step.restart)

lemma goodRun_finish: "formationOK (st_rv st) \<Longrightarrow> phaseOf (st_rv st) = Formed \<Longrightarrow> C (st_rv st) (st_rvrs st) \<Longrightarrow> goodRun C 2 st"
  by (auto simp: goodRun_def intro: phase_step.finish)

lemma goodRun_advance: "goodRun C (Suc k) st \<Longrightarrow> k < 2 \<Longrightarrow> goodRun C k st"
  by (auto simp: goodRun_def intro: converse_rtranclp_into_rtranclp phase_step.advance)

lemma goodRun_lview: "formationOK rv \<Longrightarrow> formingAt ti k rv \<Longrightarrow> lview (st_rv st) = lview rv \<Longrightarrow> goodRun C k st"
  using lview_cong [of "st_rv st" rv] by (intro goodRun_stay) blast+

lemma goodRun_wait:
  assumes "formationOK (st_rv st)" "formingAt ti k (st_rv st)" "waitOrRestart E rsc ti j timeout ch msg reqs st = Some (out, st')"
  shows "goodRun C k st'"
  using waitOrRestart_cases [OF assms(3)] goodRun_lview [OF assms(1,2) lview_erase] goodRun_reset by blast

lemma goodRun_waitOnly:
  assumes "formationOK (st_rv st)" "formingAt ti k (st_rv st)" "waitOnly ti j ch msg reqs st = Some (out, st')"
  shows "goodRun C k st'"
proof -
  have "erase (st_rv st') = erase (st_rv st)"
    using assms(3) by (auto simp: waitOnly_def res_simps dest: erase_stepMessages)
  then show ?thesis using goodRun_lview [OF assms(1,2) lview_erase] by blast
qed

text \<open>What a formed volume has: every diskful member is up to date, and the tie-breakers are ready.\<close>

definition bootstrapped :: "RV \<Rightarrow> RVR list \<Rightarrow> bool" where
  "bootstrapped rv rvrs \<longleftrightarrow>
     (\<forall>m i. m \<in> set (rv_Members rv) \<and> isDiskfulMember m \<and> idFromName (m_Name m) = Some i \<and> unat i < 32
        \<longrightarrow> (\<exists>r \<in> set rvrs. rvrID r = Some i \<and> isUpToDate r))
     \<and> (\<exists>s. computeActualTieBreakerReadiness rv rvrs = Some (s, []))"

lemma readiness_cong:
  assumes "rv_Datamesh rv' = rv_Datamesh rv" "rv_DatameshRevision rv' = rv_DatameshRevision rv"
  shows "computeActualTieBreakerReadiness rv' = computeActualTieBreakerReadiness rv"
  unfolding computeActualTieBreakerReadiness_def assms ..

lemma awaitBootstrap_good:
  assumes ok: "formationOK (st_rv st)" and at: "formingAt ti 2 (st_rv st)"
    and dm: "membersWhere isDiskfulMember (rv_Members (st_rv st)) = Some dm"
    and run: "awaitBootstrap E rsp rsc ti dm op st = Some (out, st')"
  shows "goodRun bootstrapped 2 st'"
proof (cases "op_Phase op = ''Succeeded''")
  case False
  then show ?thesis
    using run goodRun_wait [OF ok at] by (auto simp: awaitBootstrap_def Let_def split: if_splits)
next
  case True
  then obtain up where up: "rvrsIn dm isUpToDate (st_rvrs st) = Some up"
    using run by (auto simp: awaitBootstrap_def Let_def res_simps)
  show ?thesis
  proof (cases "up = dm")
    case False
    then show ?thesis using run True up goodRun_wait [OF ok at] by (auto simp: awaitBootstrap_def Let_def)
  next
    case eq: True
    obtain n msg where tb: "computeActualTieBreakerReadiness (st_rv st) (st_rvrs st) = Some (n, msg)"
      using run True up eq by (auto simp: awaitBootstrap_def Let_def res_simps)
    show ?thesis
    proof (cases "msg = []")
      case False
      then show ?thesis using run True up eq tb goodRun_waitOnly [OF ok at] by (auto simp: awaitBootstrap_def Let_def)
    next
      case m: True
      obtain ch rv' where ab: "applyFormationTransitionAbsent (st_rv st) = (ch, rv')" by fastforce
      then have st': "st' = st \<lparr> st_rv := rv' \<rparr>" using run True up eq tb m by (auto simp: awaitBootstrap_def Let_def)
      note fin = absent_ok [OF ok at ab]
      have utd: "\<exists>r \<in> set (st_rvrs st). rvrID r = Some i \<and> isUpToDate r"
        if "m \<in> set (rv_Members (st_rv st))" "isDiskfulMember m" "idFromName (m_Name m) = Some i" "unat i < 32" for m i
      proof -
        have "unat i \<in> ids up" using membersWhere_ids [OF dm] that eq by (auto simp del: in_ids)
        then obtain r j where "r \<in> set (st_rvrs st)" "isUpToDate r" "rvrID r = Some j" "unat j = unat i"
          unfolding rvrsIn_ids [OF up] by (auto simp del: in_ids)
        then show ?thesis using word_unat_eq_iff [of j i] by auto
      qed
      have "bootstrapped rv' (st_rvrs st)"
        using fin tb m utd readiness_cong [of rv' "st_rv st"] unfolding bootstrapped_def by metis
      then show ?thesis using fin by (intro goodRun_finish) (simp_all add: st')
    qed
  qed
qed

lemma currentFormationOp_frame: "currentFormationOp E ti st = Some (r, st') \<Longrightarrow> st_rv st' = st_rv st \<and> st_rvrs st' = st_rvrs st"
  by (auto simp: currentFormationOp_def res_simps Let_def split: sum.splits option.splits if_splits prod.splits)

lemma createFormationOp_frame:
  assumes "createFormationOp E params dm st = Some (r, st')"
  shows "st_rv st' = st_rv st \<and> st_rvrs st' = st_rvrs st"
proof -
  obtain src where "findRVRByID (IDSet_Min dm) (st_rvrs st) = Some src"
    using assms by (auto simp: createFormationOp_def res_simps Let_def)
  then show ?thesis
    using assms by (cases src) (auto simp: createFormationOp_def Let_def split: sum.splits prod.splits)
qed

lemma bootstrap_good:
  assumes ok: "formationOK (st_rv st)" and at: "formingAt ti 2 (st_rv st)"
    and run: "reconcileFormationStepBootstrapData E rsp rsc ti st = Some (out, st')"
  shows "goodRun bootstrapped 2 st'"
proof -
  obtain dm r st1 where dm: "membersWhere isDiskfulMember (rv_Members (st_rv st)) = Some dm"
    and cur: "currentFormationOp E ti st = Some (r, st1)"
    using run by (auto simp: reconcileFormationStepBootstrapData_def res_simps Let_def)
  have same: "st_rv st1 = st_rv st" using currentFormationOp_frame [OF cur] by simp
  consider e where "r = Inl e" | "r = Inr None" | op where "r = Inr (Some op)" by (metis option.exhaust sum.exhaust)
  then show ?thesis
  proof cases
    case 1
    then show ?thesis using run dm cur same goodRun_stay [of st1, OF _ at [folded same]] ok
      by (auto simp: reconcileFormationStepBootstrapData_def res_simps Let_def)
  next
    case 2
    then obtain c st2 where c: "createFormationOp E (formationParams (view_Type rsp) (IDSet_Len dm = 1)) dm st1 = Some (c, st2)"
      using run dm cur by (auto simp: reconcileFormationStepBootstrapData_def res_simps Let_def)
    have same2: "st_rv st2 = st_rv st" using createFormationOp_frame [OF c] same by simp
    show ?thesis
    proof (cases c)
      case (Inl o')
      then show ?thesis using run dm cur 2 c same2 ok goodRun_stay [of st2 ti 2] at
        by (auto simp: reconcileFormationStepBootstrapData_def res_simps Let_def)
    next
      case (Inr op)
      then have "awaitBootstrap E rsp rsc ti dm op st2 = Some (out, st')"
        using run dm cur 2 c by (auto simp: reconcileFormationStepBootstrapData_def res_simps Let_def)
      then show ?thesis by (intro awaitBootstrap_good [of st2]) (simp_all add: same2 ok at dm)
    qed
  next
    case 3
    then show ?thesis
      using run dm cur goodRun_wait [of st1 ti 2] awaitBootstrap_good [of st1 ti dm] ok at
      by (auto simp: reconcileFormationStepBootstrapData_def res_simps Let_def same split: if_splits)
  qed
qed

lemma setMembers_setMembers [simp]: "setMembers ms' (setMembers ms rv) = setMembers ms' rv"
  by (simp add: setMembers_def)

lemma setMembers_id: "setMembers (rv_Members rv) rv = rv"
  by (simp add: setMembers_def)

lemma rv_Members_setMembers [simp]: "rv_Members (setMembers ms rv) = ms"
  by (simp add: setMembers_def)

lemma addMembers_frame: "addMembers mk S rvrs rv = Some rv' \<Longrightarrow> rv' = setMembers (rv_Members rv') rv"
proof (induction mk S rvrs rv rule: addMembers.induct)
  case (1 mk S rv)
  then show ?case by (simp add: setMembers_id)
next
  case (2 mk S r rs rv)
  obtain i where i: "rvrID r = Some i" using 2(3) by (auto simp: res_simps)
  show ?case
  proof (cases "IDSet_Contains S i")
    case False
    then show ?thesis using 2 i by simp
  next
    case True
    then obtain m ch rv1 where m: "mk r = Some m" "applyDatameshMember m rv = Some (ch, rv1)" "addMembers mk S rs rv1 = Some rv'"
      using 2(3) i by (auto simp: res_simps)
    have "rv' = setMembers (rv_Members rv') rv1" by (rule 2(2)) (use i True m in auto)
    moreover have "rv1 = setMembers (rv_Members rv1) rv" using m(2) by (auto simp: applyDatameshMember_def res_simps)
    ultimately show ?thesis by (metis setMembers_setMembers)
  qed
qed

lemma lview_simps [simp]:
  "lview (setMembers ms rv) = lview rv" "lview (setSecret s rv) = lview rv" "lview (setQuorum q qmr rv) = lview rv"
  "lview (rv \<lparr> rv_BaselineGMDR := b \<rparr>) = lview rv" "lview (rv \<lparr> rv_Datamesh := d \<rparr>) = lview rv"
  "lview (rv \<lparr> rv_Datamesh := d, rv_BaselineGMDR := b \<rparr>) = lview rv"
  by (simp_all add: lview_def setMembers_def setSecret_def setQuorum_def)

text \<open>What the bulk add did: an error before any change, or members, quorum, revision and messages.\<close>

lemma populate_cases:
  assumes "populateDatamesh E rsp ti members st = Some (out, st')"
  obtains e where "generateSharedSecret (fe_rand E) = Inl e" "st' = st" "out = failure e"
  | secret rv1 cfg q qmr where "generateSharedSecret (fe_rand E) = Inr secret"
    "addMembers (requestedMember rsp) members (st_rvrs st) (setSecret secret (st_rv st)) = Some rv1"
    "rv_Configuration rv1 = Some cfg"
    "computeTargetQuorum (rv1 \<lparr> rv_BaselineGMDR := GuaranteedMinimumDataRedundancy cfg \<rparr>) = Some (q, qmr)"
    "erase (st_rv st') = erase (bumpRevision ti 1 (setQuorum q qmr (rv1 \<lparr> rv_BaselineGMDR := GuaranteedMinimumDataRedundancy cfg \<rparr>)))"
    "st_rvrs st' = st_rvrs st" "st_calls st' = st_calls st"
proof (cases "generateSharedSecret (fe_rand E)")
  case (Inl e)
  then show ?thesis using assms that(1) by (simp add: populateDatamesh_def)
next
  case (Inr secret)
  note run = assms [unfolded populateDatamesh_def Let_def Inr sum.case]
  obtain rv1 where a: "addMembers (requestedMember rsp) members (st_rvrs st) (setSecret secret (st_rv st)) = Some rv1"
    using run by (elim bindE)
  obtain cfg where cfg: "rv_Configuration rv1 = Some cfg" using run unfolding a by (elim bindE) simp
  obtain q qmr where q: "computeTargetQuorum (rv1 \<lparr> rv_BaselineGMDR := GuaranteedMinimumDataRedundancy cfg \<rparr>) = Some (q, qmr)"
    using run unfolding a bind.bind_lunit cfg by (elim bindPairE)
  let ?x = "bumpRevision ti 1 (setQuorum q qmr (rv1 \<lparr> rv_BaselineGMDR := GuaranteedMinimumDataRedundancy cfg \<rparr>))"
  have "erase (st_rv st') = erase ?x \<and> st_rvrs st' = st_rvrs st \<and> st_calls st' = st_calls st"
    using run unfolding a bind.bind_lunit cfg q prod.case
    by (elim bindPairE) (drule erase_requestMessages, drule erase_stepMessage, auto)
  then show ?thesis using that(2) Inr a cfg q by blast
qed

lemma populate_good:
  assumes ok: "formationOK (st_rv st)" and at: "formingAt ti 1 (st_rv st)"
    and run: "populateDatamesh E rsp ti members st = Some (out, st')"
  shows "goodRun C 1 st'"
  using run
proof (cases rule: populate_cases)
  case (1 e)
  then show ?thesis using goodRun_stay [OF ok at] by simp
next
  case (2 secret rv1 cfg q qmr)
  let ?x = "setQuorum q qmr (rv1 \<lparr> rv_BaselineGMDR := GuaranteedMinimumDataRedundancy cfg \<rparr>)"
  have "lview ?x = lview rv1" by simp
  also have "\<dots> = lview (st_rv st)" using addMembers_frame [OF 2(2)] by (metis lview_simps(1,2))
  finally have "formationOK ?x" "formingAt ti 1 ?x" using ok at lview_cong by blast+
  then have "formationOK (bumpRevision ti 1 ?x)" "formingAt ti 1 (bumpRevision ti 1 ?x)" using bump_ok [of ?x ti 1 1] by simp_all
  then show ?thesis using lview_erase [OF 2(5)] by (rule goodRun_lview)
qed

lemma verifyConnectivity_good:
  assumes ok: "formationOK (st_rv st)" and at: "formingAt ti 1 (st_rv st)"
    and run: "verifyConnectivity E rsp rsc ti diskful members st = Some (out, st')"
  shows "goodRun bootstrapped 1 st'"
proof -
  have adv: "goodRun bootstrapped 1 st'"
    if "advanceFormationStep (fe_now E) ti 1 (st_rv st) = Some rv1"
      "reconcileFormationStepBootstrapData E rsp rsc ti (st \<lparr> st_rv := rv1 \<rparr>) = Some (out, st')" for rv1
  proof -
    have "formationOK rv1" "formingAt ti 2 rv1" using advance_ok [OF ok at that(1)] by (simp_all add: numeral_2_eq_2)
    then have "goodRun bootstrapped (Suc 1) st'" using bootstrap_good [OF _ _ that(2)] by (simp add: numeral_2_eq_2)
    then show ?thesis by (rule goodRun_advance) simp
  qed
  note wait = goodRun_wait [OF ok at, where C = bootstrapped]
  show ?thesis
    using run unfolding verifyConnectivity_def Let_def
    by (elim runE) (erule wait | erule (1) adv)+
qed

lemma establish_good:
  assumes ok: "formationOK (st_rv st)" and at: "formingAt ti 1 (st_rv st)"
    and run: "reconcileFormationStepEstablishConnectivity E rsp rsc ti st = Some (out, st')"
  shows "goodRun bootstrapped 1 st'"
  using run unfolding reconcileFormationStepEstablishConnectivity_def Let_def
  by (elim bindE ifE) (erule goodRun_wait [OF ok at] populate_good [OF ok at] verifyConnectivity_good [OF ok at])+

lemma verifyPreconfigured_good:
  assumes ok: "formationOK (st_rv st)" and at: "formingAt ti 0 (st_rv st)"
    and run: "verifyPreconfigured E rsp rsc ti ch diskful formationReplicas st = Some (out, st')"
  shows "goodRun bootstrapped 0 st'"
proof -
  have adv: "goodRun bootstrapped 0 st'"
    if "advanceFormationStep (fe_now E) ti 0 (st_rv st) = Some rv1"
      "reconcileFormationStepEstablishConnectivity E rsp rsc ti (st \<lparr> st_rv := rv1 \<rparr>) = Some (out, st')" for rv1
  proof -
    have "formationOK rv1" "formingAt ti 1 rv1" using advance_ok [OF ok at that(1)] by simp_all
    then have "goodRun bootstrapped (Suc 0) st'" using establish_good [OF _ _ that(2)] by simp
    then show ?thesis by (rule goodRun_advance) simp
  qed
  note wait = goodRun_wait [OF ok at, where C = bootstrapped]
  show ?thesis
    using run unfolding verifyPreconfigured_def Let_def
    by (elim runE) (erule wait | erule (1) adv)+
qed

lemma settleReplicas_good:
  assumes ok: "formationOK (st_rv st)" and at: "formingAt ti 0 (st_rv st)"
    and run: "settleReplicas E rsp rsc ti ch targetD targetTB diskful tiebreakers st = Some (out, st')"
  shows "goodRun bootstrapped 0 st'"
proof -
  have stay: "goodRun bootstrapped 0 st'" if "Some (o', st \<lparr> st_rvrs := rvrs, st_calls := calls \<rparr>) = Some (out, st')" for o' rvrs calls
    using that goodRun_stay [OF ok at] by (auto simp: goodRun_def formingAt_phase [OF at])
  have wait: "waitOrRestart E rsc ti j timeout ch' msg reqs (st \<lparr> st_rvrs := rvrs, st_calls := calls \<rparr>) = Some (out, st')
      \<Longrightarrow> goodRun bootstrapped 0 st'" for j timeout ch' msg reqs rvrs calls
    by (rule goodRun_wait [of "st \<lparr> st_rvrs := rvrs, st_calls := calls \<rparr>"]) (simp_all add: ok at)
  have verify: "verifyPreconfigured E rsp rsc ti ch d f (st \<lparr> st_rvrs := rvrs, st_calls := calls \<rparr>) = Some (out, st')
      \<Longrightarrow> goodRun bootstrapped 0 st'" for d f rvrs calls
    by (rule verifyPreconfigured_good [of "st \<lparr> st_rvrs := rvrs, st_calls := calls \<rparr>"]) (simp_all add: ok at)
  show ?thesis
    using run unfolding settleReplicas_def Let_def
    by (elim runE) (erule stay | erule wait | erule verify)+
qed

lemma createMissing_frame: "createMissing n E ty what target S st = Some (r, S', st') \<Longrightarrow> st_rv st' = st_rv st"
proof (induction n arbitrary: S st)
  case (Suc n)
  show ?case
  proof (cases "IDSet_Len S < target")
    case False
    then show ?thesis using Suc.prems by simp
  next
    case True
    then obtain c calls where c: "createReplica (fe_Client E) (st_rv st) (st_rvrs st) ty [] = Some (c, calls)"
      using Suc.prems by (auto simp: res_simps)
    show ?thesis
    proof (cases c)
      case (Created obj rvrs)
      then obtain i where "createMissing n E ty what target (IDSet_Add i S) (st \<lparr> st_calls := st_calls st @ calls, st_rvrs := rvrs \<rparr>)
          = Some (r, S', st')"
        using Suc.prems True c by (auto simp: res_simps)
      from Suc.IH [OF this] show ?thesis by simp
    qed (use Suc.prems True c in \<open>auto\<close>)
  qed
qed simp

lemma createMissingReplicas_frame:
  assumes "createMissingReplicas E clean d t D T st = Some (r, D', T', st')"
  shows "st_rv st' = st_rv st"
proof (cases clean)
  case True
  then obtain r1 D1 st1 where 1: "createMissing createBound E RT_Diskful ''creating diskful RVR'' (unat d) D st = Some (r1, D1, st1)"
    using assms by (auto simp: createMissingReplicas_def res_simps)
  note f = createMissing_frame [OF 1]
  show ?thesis
  proof (cases r1)
    case None
    then show ?thesis using assms True 1 f
      by (auto simp: createMissingReplicas_def res_simps dest!: createMissing_frame)
  qed (use assms True 1 f in \<open>auto simp: createMissingReplicas_def\<close>)
qed (use assms in \<open>auto simp: createMissingReplicas_def\<close>)

lemma preconfigure_good:
  assumes ok: "formationOK (st_rv (if created then st \<lparr> st_rv := initDatamesh rsp ti ''Starting preconfigure'' (st_rv st) \<rparr> else st))"
    and at: "formingAt ti 0 (st_rv (if created then st \<lparr> st_rv := initDatamesh rsp ti ''Starting preconfigure'' (st_rv st) \<rparr> else st))"
    and run: "reconcileFormationStepPreconfigure E rsp rsc ti created st = Some (out, st')"
  shows "goodRun bootstrapped 0 st'"
proof -
  let ?st = "if created then st \<lparr> st_rv := initDatamesh rsp ti ''Starting preconfigure'' (st_rv st) \<rparr> else st"
  obtain clean tD tTB D T r D' T' st1
    where c: "createMissingReplicas E clean tD tTB D T ?st = Some (r, D', T', st1)"
      and k: "(case r of Some o' \<Rightarrow> Some (o', st1)
        | None \<Rightarrow> settleReplicas E rsp rsc ti created tD tTB D' T' st1) = Some (out, st')"
    using run unfolding reconcileFormationStepPreconfigure_def Let_def by (elim bindE pairE) blast
  have same: "st_rv st1 = st_rv ?st" by (rule createMissingReplicas_frame [OF c])
  show ?thesis
  proof (cases r)
    case None
    then have "settleReplicas E rsp rsc ti created tD tTB D' T' st1 = Some (out, st')" using k by simp
    then show ?thesis by (rule settleReplicas_good [rotated 2]) (simp_all only: same ok at)
  next
    case (Some o')
    then have "st1 = st'" using k by simp
    then show ?thesis using goodRun_stay [of st1 ti 0] same ok at by metis
  qed
qed

abbreviation anyway :: "RV \<Rightarrow> RVR list \<Rightarrow> bool" where
  "anyway \<equiv> \<lambda>_ _. True"

lemma exitMaintenance_good:
  assumes ok: "formationOK (st_rv st)" and at: "formingAt ti 2 (st_rv st)"
    and run: "reconcileAdoptStepExitMaintenance ti st = Some (out, st')"
  shows "goodRun anyway 2 st'"
proof -
  have fin: "goodRun anyway 2 st'" if "applyFormationTransitionAbsent (st_rv st) = (ch, rv)"
      "Some (ReportChangedIf ch rf_ContinueAndRequeue, st \<lparr> st_rv := rv \<rparr>) = Some (out, st')" for ch rv
    using absent_ok [OF ok at that(1)] that(2) by (intro goodRun_finish) auto
  show ?thesis
    using run unfolding reconcileAdoptStepExitMaintenance_def Let_def
    by (elim runE) (erule goodRun_waitOnly [OF ok at] | erule (1) fin)+
qed

lemma adoptMembers_good:
  assumes ok: "formationOK (st_rv st)" and at: "formingAt ti 1 (st_rv st)"
    and run: "adoptMembers E rsp ti all st = Some (out, st')"
  shows "goodRun anyway 1 st'"
proof (cases "adoptSecret E (st_rv st)")
  case (Inl e)
  then show ?thesis using run goodRun_stay [OF ok at] by (simp add: adoptMembers_def)
next
  case (Inr rv0)
  have l0: "lview rv0 = lview (st_rv st)" using Inr by (auto simp: adoptSecret_def split: if_splits sum.splits)
  note run' = run [unfolded adoptMembers_def Let_def Inr sum.case]
  obtain rv1 where a: "addMembers (adoptedMember rsp) all (st_rvrs st) rv0 = Some rv1" using run' by (elim bindE)
  let ?rv2 = "rv1 \<lparr> rv_Datamesh := (rv_Datamesh rv1) \<lparr> ds_Multiattach := (attachedCount all (st_rvrs st) > 1) \<rparr>, rv_BaselineGMDR := 0 \<rparr>"
  obtain v where v: "membersWhere (\<lambda>m. IsVoter (m_Type m)) (rv_Members ?rv2) = Some v"
    using run' unfolding a bind.bind_lunit by (elim bindE)
  let ?x = "setQuorum (of_nat (IDSet_Len v div 2 + 1)) 1 ?rv2"
  have e: "erase (st_rv st') = erase (bumpRevision ti 1 ?x)"
    using run' unfolding a bind.bind_lunit v prod.case
    by (elim bindPairE) (drule erase_requestMessages, drule erase_stepMessage, auto)
  have "lview ?x = lview rv1" by simp
  also have "\<dots> = lview (st_rv st)" using addMembers_frame [OF a] l0 by (metis lview_simps(1))
  finally have "formationOK ?x" "formingAt ti 1 ?x" using ok at lview_cong by blast+
  then have "formationOK (bumpRevision ti 1 ?x)" "formingAt ti 1 (bumpRevision ti 1 ?x)" using bump_ok [of ?x ti 1 1] by simp_all
  then show ?thesis using lview_erase [OF e] by (rule goodRun_lview)
qed

lemma addresses_ok:
  assumes ok: "formationOK rv" and at: "formingAt ti k rv" and e: "ensureDatameshMemberAddresses rvrs rv = (ch, rv')"
  shows "formationOK rv' \<and> formingAt ti k rv' \<and> (\<not> ch \<longrightarrow> rv' = rv)"
proof (cases ch)
  case False
  then show ?thesis using e ok at by (auto simp: ensureDatameshMemberAddresses_def Let_def split: if_splits)
next
  case True
  then have rv': "rv_DatameshRevision rv' = rv_DatameshRevision rv + 1" "rv_DatameshTransitions rv' = rv_DatameshTransitions rv"
    using e by (auto simp: ensureDatameshMemberAddresses_def Let_def setMembers_def split: if_splits)
  note t = formation_at [OF ok at]
  have n: "revs_le (rv_DatameshRevision rv + 1) (rv_DatameshTransitions rv ! ti)" by (rule revs_le_mono [OF t(2)]) simp
  show ?thesis using replace_formation [OF ok at _ t(1) n t(3,4,5) rv'(1)] rv' True by simp
qed

lemma populateVerify_good:
  assumes ok: "formationOK (st_rv st)" and at: "formingAt ti 1 (st_rv st)"
    and run: "reconcileAdoptStepPopulateAndVerifyDatamesh E rsp ti st = Some (out, st')"
  shows "goodRun anyway 1 st'"
proof -
  obtain ch rv where sync: "ensureDatameshMemberAddresses (st_rvrs st) (st_rv st) = (ch, rv)" by fastforce
  note same = addresses_ok [OF ok at sync]
  have moved: "goodRun anyway 1 st'" if "Some (ReportChanged rf_Continue, st \<lparr> st_rv := rv \<rparr>) = Some (out, st')"
    using that same goodRun_stay [of "st \<lparr> st_rv := rv \<rparr>" ti 1] by auto
  have adv: "goodRun anyway 1 st'"
    if "advanceFormationStep (fe_now E) ti 1 rv = Some rv1" "reconcileAdoptStepExitMaintenance ti (st \<lparr> st_rv := rv1 \<rparr>) = Some (out, st')"
    for rv1
  proof -
    have "formationOK rv1" "formingAt ti 2 rv1" using advance_ok [OF _ _ that(1)] same by (simp_all add: numeral_2_eq_2)
    then have "goodRun anyway (Suc 1) st'" using exitMaintenance_good [OF _ _ that(2)] by (simp add: numeral_2_eq_2)
    then show ?thesis by (rule goodRun_advance) simp
  qed
  note wait = goodRun_waitOnly [OF ok at, where C = anyway]
  show ?thesis
    using run unfolding reconcileAdoptStepPopulateAndVerifyDatamesh_def Let_def sync prod.case
    by (elim boolE bindE ifE) (erule adoptMembers_good [OF ok at] | erule moved | erule wait | erule (1) adv)+
qed

lemma verifyPrerequisites_good:
  assumes ok: "formationOK (st_rv (if created then st \<lparr> st_rv := initDatamesh rsp ti msg (st_rv st) \<rparr> else st))"
    and at: "formingAt ti 0 (st_rv (if created then st \<lparr> st_rv := initDatamesh rsp ti msg (st_rv st) \<rparr> else st))"
    and msg: "msg = ''Starting adopt: waiting for pre-existing replicas''"
    and run: "reconcileAdoptStepVerifyPrerequisites E rsp ti created st = Some (out, st')"
  shows "goodRun anyway 0 st'"
proof -
  let ?st = "if created then st \<lparr> st_rv := initDatamesh rsp ti msg (st_rv st) \<rparr> else st"
  have adv: "goodRun anyway 0 st'"
    if "advanceFormationStep (fe_now E) ti 0 (st_rv ?st) = Some rv1"
      "reconcileAdoptStepPopulateAndVerifyDatamesh E rsp ti (?st \<lparr> st_rv := rv1 \<rparr>) = Some (out, st')" for rv1
  proof -
    have "formationOK rv1" "formingAt ti 1 rv1" using advance_ok [OF ok at that(1)] by simp_all
    then have "goodRun anyway (Suc 0) st'" using populateVerify_good [OF _ _ that(2)] by simp
    then show ?thesis by (rule goodRun_advance) simp
  qed
  note wait = goodRun_waitOnly [OF ok at, where C = anyway]
  show ?thesis
    using run unfolding reconcileAdoptStepVerifyPrerequisites_def Let_def msg [symmetric]
    by (elim bindE) (erule ifE, elim bindE, erule wait, elim bindE, erule ifE, erule wait, elim bindE, erule ifE,
        erule wait, elim bindE, erule ifE, erule wait, elim bindE, erule (1) adv)
qed

subsection \<open>The start of a formation\<close>

lemma firstOpenStep_current: "firstOpenStep (t_Steps t) 0 = findCurrentStepIdx t"
proof -
  have "firstOpenStep ss i = (let k = length (takeWhile (\<lambda>s. s_Status s = Completed) ss) in if k < length ss then Some (i + k) else None)" for ss i
    by (induction ss arbitrary: i) (auto simp: Let_def)
  then show ?thesis by (simp add: findCurrentStepIdx_def Let_def)
qed

lemma find_formation: "find (\<lambda>t. t_Type t = TT_Formation) ts = map_option (\<lambda>i. ts ! i) (formationIndex ts)"
  by (induction ts) (auto simp: option.map_comp o_def)

text \<open>A volume that is forming is at the step \<open>isFormationInProgress\<close> names, or has no datamesh at all.\<close>

lemma inProgress_cases:
  assumes ok: "formationOK rv" and prog: "isFormationInProgress rv = (True, k)"
  obtains "rv_DatameshRevision rv = 0" "rv_DatameshTransitions rv = []" "k = 0"
  | ti where "formingAt ti k rv"
proof (cases "rv_DatameshRevision rv = 0")
  case True
  then show ?thesis using ok prog that(1) by (simp add: formationOK_def isFormationInProgress_def)
next
  case False
  then obtain ti where ti: "formationIndex (rv_DatameshTransitions rv) = Some ti"
    and k: "k = (case findCurrentStepIdx (rv_DatameshTransitions rv ! ti) of Some j \<Rightarrow> j | None \<Rightarrow> 0)"
    using prog by (auto simp: isFormationInProgress_def find_formation firstOpenStep_current split: option.splits)
  have "rv_DatameshTransitions rv ! ti \<in> set (rv_DatameshTransitions rv)" using formationIndex_Some [OF ti] by simp
  then have "steps_ok (rv_DatameshTransitions rv ! ti)" using ok by (simp add: formationOK_def)
  then obtain a b where "statuses (rv_DatameshTransitions rv ! ti) = replicate a Completed @ Active # replicate b Pending"
    by (auto simp: steps_ok_def)
  then have "findCurrentStepIdx (rv_DatameshTransitions rv ! ti) = Some a"
    by (simp add: findCurrentStepIdx_statuses takeWhile_append)
  then show ?thesis using that(2) [of ti] ti k False by (simp add: formingAt_def)
qed

lemma init_ok:
  assumes "rv_DatameshTransitions rv = []"
    and "ensureFormationTransition now planID rv = (ti, created, rv1)"
  shows "created" "ti = 0" "t_PlanID (rv_DatameshTransitions rv1 ! 0) = planID" "length (rv_DatameshTransitions rv1) = 1"
    "formationOK (initDatamesh rsp 0 msg rv1)" "formingAt 0 0 (initDatamesh rsp 0 msg rv1)"
proof -
  let ?names = "if planID = formationPlanAdopt then adoptStepNames else formationStepNames"
  let ?t = "emptyTransition \<lparr> t_Type := TT_Formation, t_Group := G_Formation, t_PlanID := planID, t_Steps := newFormationSteps now ?names \<rparr>"
  have eq: "created" "ti = 0" "rv1 = rv \<lparr> rv_DatameshTransitions := [?t] \<rparr>"
    using assms by (auto simp: ensureFormationTransition_def Let_def)
  have st: "statuses ?t = [Active, Pending, Pending]" "\<forall>s \<in> set (t_Steps ?t). s_DatameshRevision s = 0" "length (t_Steps ?t) = 3"
    by (simp_all add: statuses_def newFormationSteps_def adoptStepNames_def formationStepNames_def emptyStep_def)
  let ?t' = "setStep 0 (\<lambda>s. s \<lparr> s_DatameshRevision := 1, s_Message := msg \<rparr>) ?t"
  have st': "statuses ?t' = [Active, Pending, Pending]" by (subst statuses_setStep_same) (simp_all add: st)
  have "steps_ok ?t'" unfolding steps_ok_def st' by (intro exI [of _ 0] exI [of _ 2]) (simp add: numeral_2_eq_2)
  moreover have "revs_le 1 ?t'" using st(2) by (intro revs_le_setStep) (auto simp: revs_le_def)
  moreover have "findCurrentStepIdx ?t' = Some 0" by (simp only: findCurrentStepIdx_statuses st') simp
  moreover have "isFormation ?t'" by (simp add: isFormation_def setStep_def)
  moreover have "rv_DatameshTransitions (initDatamesh rsp 0 msg rv1) = [?t']" "rv_DatameshRevision (initDatamesh rsp 0 msg rv1) = 1"
    by (simp_all add: initDatamesh_def eq(3))
  moreover have "formationIndex [?t'] = Some 0" by (simp add: setStep_def)
  ultimately show "formationOK (initDatamesh rsp 0 msg rv1)" "formingAt 0 0 (initDatamesh rsp 0 msg rv1)"
    using st(3) by (simp_all add: formationOK_def formingAt_def)
  show "created" "ti = 0" "t_PlanID (rv_DatameshTransitions rv1 ! 0) = planID" "length (rv_DatameshTransitions rv1) = 1"
    using eq by simp_all
qed

subsection \<open>The whole formation\<close>

lemma waitingRVAs_calls: "waitingRVAs cl now msg rvas = (err, rvas', calls) \<Longrightarrow> \<exists>cs. calls = map CallPatchRVAStatus cs"
proof (induction rvas arbitrary: err rvas' calls)
  case (Cons a rvas)
  obtain err1 rvas1 calls1 where w: "waitingRVAs cl now msg rvas = (err1, rvas1, calls1)" by (metis prod_cases3)
  then obtain cs where "calls1 = map CallPatchRVAStatus cs" using Cons.IH by blast
  then have "calls = map CallPatchRVAStatus cs \<or> calls = map CallPatchRVAStatus [applyRVAWaiting cl now msg a]
      \<or> calls = map CallPatchRVAStatus (applyRVAWaiting cl now msg a # cs)"
    using Cons.prems w by (auto simp: Let_def split: if_splits sum.splits)
  then show ?case by blast
qed (auto intro: exI [of _ "[]"])

lemma rvaWaiting_frame:
  assumes "reconcileRVAWaiting cl now msg st = (out, st')"
  shows "st_rv st' = st_rv st \<and> st_rvrs st' = st_rvrs st \<and> (\<exists>cs. st_calls st' = st_calls st @ map CallPatchRVAStatus cs)"
  using assms by (auto simp: reconcileRVAWaiting_def split: prod.splits dest!: waitingRVAs_calls)

lemma reconcileFormation_cases:
  assumes run: "reconcileFormation E rsp rsc k st = Some (out, st')"
  obtains ti created rv t valid o1 st1
  where "ensureFormationTransition (fe_now E) (if map_of (rv_Annotations (st_rv st)) AdoptRVRAnnotationKey \<noteq> None
      then formationPlanAdopt else formationPlanCreate) (st_rv st) = (ti, created, rv)"
    "index (rv_DatameshTransitions rv) ti = Some t"
    "formationStep E rsp rsc k ti created (t_PlanID t) (st \<lparr> st_rv := rv \<rparr>) = Some (valid, o1, st1)"
    "st_rv st' = st_rv st1" "st_rvrs st' = st_rvrs st1" "\<exists>cs. st_calls st' = st_calls st1 @ map CallPatchRVAStatus cs"
proof -
  let ?plan = "if map_of (rv_Annotations (st_rv st)) AdoptRVRAnnotationKey \<noteq> None then formationPlanAdopt else formationPlanCreate"
  obtain ti created rv where e: "ensureFormationTransition (fe_now E) ?plan (st_rv st) = (ti, created, rv)"
    by (cases "ensureFormationTransition (fe_now E) ?plan (st_rv st)")
  note run' = run [unfolded reconcileFormation_def Let_def e prod.case]
  obtain t where t: "index (rv_DatameshTransitions rv) ti = Some t" using run' by (elim bindE)
  obtain valid o1 st1 where f: "formationStep E rsp rsc k ti created (t_PlanID t) (st \<lparr> st_rv := rv \<rparr>) = Some (valid, o1, st1)"
    using run' unfolding t bind.bind_lunit by (elim bindTripleE)
  note run1 = run' [unfolded t bind.bind_lunit f prod.case]
  show ?thesis
  proof (cases valid)
    case True
    obtain o2 st2 where w: "reconcileRVAWaiting (fe_Client E) (fe_now E) ''Datamesh formation is in progress'' st1 = (o2, st2)" by fastforce
    then have "st' = st2" using run1 True by simp
    then show ?thesis using that [OF e t f] rvaWaiting_frame [OF w] by blast
  next
    case False
    then have "st' = st1" using run1 by simp
    then show ?thesis using that [OF e t f] by (metis append_Nil2 list.map(1))
  qed
qed

text \<open>Whether a formation runs, or would start, as \<open>create/v1\<close>.\<close>

definition creating :: "RV \<Rightarrow> bool" where
  "creating rv \<longleftrightarrow> (case formationIndex (rv_DatameshTransitions rv) of
     Some i \<Rightarrow> t_PlanID (rv_DatameshTransitions rv ! i) \<noteq> formationPlanAdopt
   | None \<Rightarrow> map_of (rv_Annotations rv) AdoptRVRAnnotationKey = None)"

lemma goodRun_anyway: "goodRun C k st \<Longrightarrow> goodRun anyway k st"
  by (simp add: goodRun_def)

lemma formationStep_good:
  assumes run: "formationStep E rsp rsc k ti created planID st = Some (valid, out, st')" and k: "k < 3"
    and at: "if created then k = 0 \<and> (\<forall>msg. formationOK (initDatamesh rsp ti msg (st_rv st)) \<and> formingAt ti 0 (initDatamesh rsp ti msg (st_rv st)))
        \<and> (planID = formationPlanAdopt \<or> planID = formationPlanCreate)
      else formationOK (st_rv st) \<and> formingAt ti k (st_rv st)"
  shows "goodRun anyway k st' \<and> (planID \<noteq> formationPlanAdopt \<longrightarrow> goodRun bootstrapped k st')"
proof -
  have pre: "formationOK (st_rv (if created then st \<lparr> st_rv := initDatamesh rsp ti msg (st_rv st) \<rparr> else st))"
    "k = 0 \<Longrightarrow> formingAt ti 0 (st_rv (if created then st \<lparr> st_rv := initDatamesh rsp ti msg (st_rv st) \<rparr> else st))"
    "k \<noteq> 0 \<Longrightarrow> formationOK (st_rv st) \<and> formingAt ti k (st_rv st)" for msg
    using at by (auto split: if_splits)
  consider "planID = formationPlanAdopt" | "planID = formationPlanCreate \<or> planID = []" "planID \<noteq> formationPlanAdopt"
    | "planID \<noteq> formationPlanAdopt" "planID \<noteq> formationPlanCreate" "planID \<noteq> []" by blast
  then show ?thesis
  proof cases
    case 1
    have "goodRun anyway k st'"
    proof -
      consider "k = 0" | "k = 1" | "k = 2" using k by linarith
      then show ?thesis
      proof cases
        assume k0: "k = 0"
        then have "reconcileAdoptStepVerifyPrerequisites E rsp ti created st = Some (out, st')"
          using run 1 by (auto simp: formationStep_def Let_def)
        then show ?thesis using verifyPrerequisites_good [OF pre(1) pre(2) refl] k0 by blast
      next
        assume k1: "k = 1"
        then have "reconcileAdoptStepPopulateAndVerifyDatamesh E rsp ti st = Some (out, st')"
          using run 1 by (auto simp: formationStep_def Let_def)
        then show ?thesis using populateVerify_good pre(3) k1 by blast
      next
        assume k2: "k = 2"
        then have "reconcileAdoptStepExitMaintenance ti st = Some (out, st')"
          using run 1 by (auto simp: formationStep_def Let_def)
        then show ?thesis using exitMaintenance_good pre(3) k2 by (metis zero_neq_numeral)
      qed
    qed
    then show ?thesis using 1 by simp
  next
    case 2
    have "goodRun bootstrapped k st'"
    proof -
      consider "k = 0" | "k = 1" | "k = 2" using k by linarith
      then show ?thesis
      proof cases
        assume k0: "k = 0"
        then have "reconcileFormationStepPreconfigure E rsp rsc ti created st = Some (out, st')"
          using run 2 by (auto simp: formationStep_def Let_def)
        then show ?thesis using preconfigure_good [OF pre(1) pre(2)] k0 by blast
      next
        assume k1: "k = 1"
        then have "reconcileFormationStepEstablishConnectivity E rsp rsc ti st = Some (out, st')"
          using run 2 by (auto simp: formationStep_def Let_def)
        then show ?thesis using establish_good pre(3) k1 by blast
      next
        assume k2: "k = 2"
        then have "reconcileFormationStepBootstrapData E rsp rsc ti st = Some (out, st')"
          using run 2 by (auto simp: formationStep_def Let_def)
        then show ?thesis using bootstrap_good pre(3) k2 by (metis zero_neq_numeral)
      qed
    qed
    then show ?thesis using goodRun_anyway by blast
  next
    case 3
    then have "\<not> created" "st' = st" using run at by (auto simp: formationStep_def Let_def split: if_splits)
    then show ?thesis using at goodRun_stay by auto
  qed
qed

lemma creating_plan:
  assumes "ensureFormationTransition now (if map_of (rv_Annotations rv0) AdoptRVRAnnotationKey \<noteq> None
      then formationPlanAdopt else formationPlanCreate) rv0 = (ti, created, rv)"
    and "index (rv_DatameshTransitions rv) ti = Some t" and "creating rv0"
  shows "t_PlanID t \<noteq> formationPlanAdopt"
  using assms
  by (auto simp: ensureFormationTransition_def creating_def Let_def formationPlanAdopt_def formationPlanCreate_def split: option.splits if_splits)

lemma reconcileFormation_good:
  assumes ok: "formationOK (st_rv st)" and prog: "isFormationInProgress (st_rv st) = (True, k)"
    and run: "reconcileFormation E rsp rsc k st = Some (out, st')"
  shows "formationOK (st_rv st') \<and> phase_step\<^sup>*\<^sup>* (phaseOf (st_rv st)) (phaseOf (st_rv st'))
    \<and> (phaseOf (st_rv st') = Formed \<and> creating (st_rv st) \<longrightarrow> bootstrapped (st_rv st') (st_rvrs st'))"
proof -
  let ?plan = "if map_of (rv_Annotations (st_rv st)) AdoptRVRAnnotationKey \<noteq> None then formationPlanAdopt else formationPlanCreate"
  obtain ti created rv t valid o1 st1 where e: "ensureFormationTransition (fe_now E) ?plan (st_rv st) = (ti, created, rv)"
    and t: "index (rv_DatameshTransitions rv) ti = Some t"
    and f: "formationStep E rsp rsc k ti created (t_PlanID t) (st \<lparr> st_rv := rv \<rparr>) = Some (valid, o1, st1)"
    and st': "st_rv st' = st_rv st1" "st_rvrs st' = st_rvrs st1"
    using reconcileFormation_cases [OF run] by metis
  have main: "formationOK (st_rv st') \<and> phase_step\<^sup>*\<^sup>* p (phaseOf (st_rv st')) \<and> (phaseOf (st_rv st') = Formed \<and> creating (st_rv st)
        \<longrightarrow> bootstrapped (st_rv st') (st_rvrs st'))"
    if "goodRun anyway k st1 \<and> (t_PlanID t \<noteq> formationPlanAdopt \<longrightarrow> goodRun bootstrapped k st1)"
      "phase_step\<^sup>*\<^sup>* p (Forming k)" "creating (st_rv st) \<longrightarrow> t_PlanID t \<noteq> formationPlanAdopt" for p
    using that unfolding goodRun_def st' by (blast intro: rtranclp_trans)
  from ok prog show ?thesis
  proof (cases rule: inProgress_cases)
    case 1
    note i = init_ok [OF 1(2) e]
    have pl: "t_PlanID t = ?plan" using t i by auto
    have "phase_step\<^sup>*\<^sup>* (phaseOf (st_rv st)) (Forming k)"
      using 1 by (auto simp: phaseOf_def intro: phase_step.start)
    moreover have "goodRun anyway k st1 \<and> (t_PlanID t \<noteq> formationPlanAdopt \<longrightarrow> goodRun bootstrapped k st1)"
      by (rule formationStep_good [OF f]) (use i 1 pl in auto)
    ultimately show ?thesis using main creating_plan [OF e t] by blast
  next
    case (2 ti')
    then have idx: "formationIndex (rv_DatameshTransitions (st_rv st)) = Some ti'" by (simp add: formingAt_def)
    then have eq: "ti = ti'" "\<not> created" "rv = st_rv st" using e by (auto simp: ensureFormationTransition_def)
    have "goodRun anyway k st1 \<and> (t_PlanID t \<noteq> formationPlanAdopt \<longrightarrow> goodRun bootstrapped k st1)"
      by (rule formationStep_good [OF f]) (use eq 2 ok formation_at(6) [OF ok 2] in auto)
    then show ?thesis using main [of "Forming k"] formingAt_phase [OF 2] creating_plan [OF e t] by simp
  qed
qed

end
