(* ===== verification/Rv_Formation_Props.thy ===== *)
theory Rv_Formation_Props
  imports Rv_Formation_Laws
begin

text \<open>
  The properties of a formation, with concrete formations that satisfy their hypotheses: a volume with two
  diskful replicas and a tie-breaker whose data is bootstrapped, and a volume about to get its members.
\<close>

subsection \<open>Tie-breakers of a formed volume\<close>

lemma readinessLoop_ready:
  assumes "readinessLoop active peers rev' rs nr ds = Some (nr', ds')"
  shows "ids nr \<subseteq> ids nr' \<and> (\<forall>r \<in> set rs. \<forall>i. rvrID r = Some i \<and> unat i \<in> ids active \<and> unat i \<notin> ids nr'
    \<longrightarrow> (\<exists>why. IsTieBreakerOperational (Some r) peers rev' = Some (True, why)))"
  using assms
proof (induction rs arbitrary: nr ds)
  case (Cons r rs)
  obtain i where i: "rvrID r = Some i" using Cons.prems by (auto simp: res_simps)
  show ?case
  proof (cases "unat i \<in> ids active")
    case False
    then show ?thesis using Cons.IH [of nr ds] Cons.prems i by auto
  next
    case True
    then obtain okay why where o: "IsTieBreakerOperational (Some r) peers rev' = Some (okay, why)"
      using Cons.prems i by (auto simp: res_simps)
    show ?thesis
    proof (cases okay)
      case t: True
      then have "readinessLoop active peers rev' rs nr ds = Some (nr', ds')" using Cons.prems i o True by simp
      from Cons.IH [OF this] show ?thesis using o t i by auto
    next
      case False
      then have "readinessLoop active peers rev' rs (IDSet_Add i nr) (ds @ [rvr_Name r @ '': '' @ why]) = Some (nr', ds')"
        using Cons.prems i o True by simp
      from Cons.IH [OF this] have "insert (unat i) (ids nr) \<subseteq> ids nr'" "\<forall>r \<in> set rs. \<forall>i. rvrID r = Some i \<and> unat i \<in> ids active
          \<and> unat i \<notin> ids nr' \<longrightarrow> (\<exists>why. IsTieBreakerOperational (Some r) peers rev' = Some (True, why))"
        using ids_bounded [OF True] by (auto simp del: in_ids)
      then show ?thesis using i by (auto simp del: in_ids)
    qed
  qed
qed simp

lemma readiness_spec:
  assumes r: "computeActualTieBreakerReadiness rv rvrs = Some (s, [])"
    and m: "m \<in> set (rv_Members rv)" "m_Type m = MT_TieBreaker" "idFromName (m_Name m) = Some i" "unat i < 32"
  shows "\<exists>r \<in> set rvrs. rvrID r = Some i \<and> isActive RT_TieBreaker r \<and> (\<exists>peers why. tieBreakerPeers rvrs (rv_Members rv) = Some peers
    \<and> IsTieBreakerOperational (Some r) peers (rv_DatameshRevision rv) = Some (True, why))"
proof -
  obtain active members where a: "rvrsWhere (isActive RT_TieBreaker) rvrs = Some active"
    and ms: "membersWhere (\<lambda>m. m_Type m = MT_TieBreaker) (rv_Members rv) = Some members"
    using r unfolding computeActualTieBreakerReadiness_def by (elim bindE)
  have eq: "members = active" using r a ms by (auto simp: computeActualTieBreakerReadiness_def split: if_splits)
  have mem: "unat i \<in> ids active" using membersWhere_ids [OF ms] m eq by (auto simp del: in_ids)
  then have ne: "\<not> IDSet_IsEmpty active" by (auto simp del: in_ids)
  then obtain peers nr ds where p: "tieBreakerPeers rvrs (rv_Members rv) = Some peers"
    and l: "readinessLoop active peers (rv_DatameshRevision rv) rvrs 0 [] = Some (nr, ds)" and z: "IDSet_IsEmpty nr"
    using r a ms eq by (auto simp: computeActualTieBreakerReadiness_def res_simps split: if_splits)
  obtain r j where rj: "r \<in> set rvrs" "isActive RT_TieBreaker r" "rvrID r = Some j" "unat j = unat i"
    using mem unfolding rvrsWhere_ids [OF a] by (auto simp del: in_ids)
  then have "j = i" using word_unat_eq_iff by blast
  then show ?thesis using readinessLoop_ready [OF l] rj p z mem by (metis IsEmpty_iff empty_iff)
qed

subsection \<open>The first members\<close>

text \<open>Adding members with new IDs appends them in order.\<close>

lemma putMember_new:
  assumes "putMember m ms = Some (ch, ms')" "idFromName (m_Name m) \<notin> (\<lambda>x. idFromName (m_Name x)) ` set ms"
  shows "ms' = ms @ [m]"
  using assms by (induction ms arbitrary: ch ms') (auto simp: res_simps split: if_splits)

definition inSet :: "IDSet \<Rightarrow> RVR \<Rightarrow> bool" where
  "inSet S r \<longleftrightarrow> (\<exists>i. rvrID r = Some i \<and> IDSet_Contains S i)"

lemma addMembers_new:
  assumes "addMembers mk S rs rv = Some rv'" "distinct (map rvrID rs)"
    and "\<And>r m. mk r = Some m \<Longrightarrow> m_Name m = rvr_Name r"
    and "\<forall>r \<in> set rs. rvrID r \<notin> (\<lambda>x. idFromName (m_Name x)) ` set (rv_Members rv)"
  shows "map Some (rv_Members rv') = map Some (rv_Members rv) @ map mk (filter (inSet S) rs)"
  using assms(1,2,4)
proof (induction rs arbitrary: rv)
  case (Cons r rs)
  obtain i where i: "rvrID r = Some i" using Cons.prems(1) by (auto simp: res_simps)
  show ?case
  proof (cases "IDSet_Contains S i")
    case False
    then show ?thesis using Cons i by (auto simp: inSet_def)
  next
    case True
    then obtain m ch rv1 where m: "mk r = Some m" "applyDatameshMember m rv = Some (ch, rv1)" "addMembers mk S rs rv1 = Some rv'"
      using Cons.prems(1) i by (auto simp: res_simps)
    have name: "m_Name m = rvr_Name r" by (rule assms(3) [OF m(1)])
    obtain ms where "putMember m (rv_Members rv) = Some (ch, ms)" "rv1 = setMembers ms rv"
      using m(2) by (auto simp: applyDatameshMember_def res_simps)
    then have rv1: "rv_Members rv1 = rv_Members rv @ [m]" using putMember_new Cons.prems(3) name by auto
    have "map Some (rv_Members rv') = map Some (rv_Members rv1) @ map mk (filter (inSet S) rs)"
    proof (rule Cons.IH [OF m(3)])
      show "distinct (map rvrID rs)" using Cons.prems(2) by simp
      have "\<forall>r' \<in> set rs. rvrID r' \<noteq> rvrID r" using Cons.prems(2) by (force simp: image_iff)
      then show "\<forall>r' \<in> set rs. rvrID r' \<notin> (\<lambda>x. idFromName (m_Name x)) ` set (rv_Members rv1)"
        using Cons.prems(3) by (simp add: rv1 name)
    qed
    moreover have "inSet S r" using True i by (simp add: inSet_def)
    ultimately show ?thesis using rv1 m(1) by simp
  qed
qed simp

lemma requestedMember_name: "requestedMember rsp r = Some m \<Longrightarrow> m_Name m = rvr_Name r"
  by (auto simp: requestedMember_def res_simps)

lemma members_ids:
  assumes "map Some ms = map mk rs" "\<And>r m. mk r = Some m \<Longrightarrow> m_Name m = rvr_Name r"
  shows "map (\<lambda>m. idFromName (m_Name m)) ms = map rvrID rs"
  using assms(1)
proof (induction rs arbitrary: ms)
  case (Cons r rs)
  then show ?case using assms(2) [of r] by (cases ms) auto
qed simp

lemma addMembers_secret:
  assumes "addMembers mk S rs rv = Some rv'"
  shows "ds_SharedSecret (rv_Datamesh rv') = ds_SharedSecret (rv_Datamesh rv)"
  using assms by (induction rs arbitrary: rv) (auto simp: applyDatameshMember_def setMembers_def res_simps split: if_splits)

text \<open>Counting the voters.\<close>

lemma voters_count:
  assumes "membersWhere P ms = Some s" "distinct (map (\<lambda>m. idFromName (m_Name m)) ms)"
    "\<forall>m \<in> set ms. \<exists>i. idFromName (m_Name m) = Some i \<and> i \<le> 31"
  shows "IDSet_Len s = length (filter P ms)"
proof -
  let ?f = "\<lambda>m. unat (the (idFromName (m_Name m)))"
  have "ids s = ?f ` set (filter P ms)"
    unfolding membersWhere_ids [OF assms(1)] using assms(3) by (fastforce simp: word_le_nat_alt image_iff)
  moreover have "inj_on ?f (set (filter P ms))"
  proof (rule inj_onI)
    fix a b assume ab: "a \<in> set (filter P ms)" "b \<in> set (filter P ms)" "?f a = ?f b"
    then have "idFromName (m_Name a) = idFromName (m_Name b)" using assms(3) by (auto simp: word_unat_eq_iff) (metis option.sel word_unat_eq_iff)
    then show "a = b" using ab assms(2) by (auto simp: distinct_map inj_on_def)
  qed
  ultimately have "IDSet_Len s = card (set (filter P ms))" by (simp only: Len_card card_image)
  also have "\<dots> = length (filter P ms)" using assms(2) by (intro distinct_card) (simp add: distinct_map)
  finally show ?thesis .
qed

lemma byte_max: "unat (max a b :: u8) = max (unat a) (unat b)"
  by (simp add: max_def word_le_nat_alt)

lemma computeTargetQuorum_majority:
  assumes "computeTargetQuorum rv = Some (q, qmr)" "membersWhere (\<lambda>m. IsVoter (m_Type m)) (rv_Members rv) = Some v"
  shows "IDSet_Len v < 2 * unat q"
proof -
  have "card (ids v) \<le> card {..<32 :: nat}" by (intro card_mono) (auto dest: ids_bounded simp del: in_ids)
  then have "IDSet_Len v \<le> 32" by (simp add: Len_card)
  then have "unat (of_nat (IDSet_Len v div 2 + 1) :: u8) = IDSet_Len v div 2 + 1" by (simp only: unat_u8_of_nat) simp
  then have "IDSet_Len v div 2 + 1 \<le> unat q"
    using assms by (auto simp: computeTargetQuorum_def res_simps Let_def byte_max simp del: of_nat_add of_nat_Suc of_nat_1)
  then show ?thesis by linarith
qed

text \<open>The members come from the bulk add, and from nowhere else.\<close>

lemma wait_members: "waitOrRestart E rsc ti k timeout ch msg reqs st = Some (out, st') \<Longrightarrow> rv_Members (st_rv st) = []
    \<Longrightarrow> rv_Members (st_rv st') = []"
  by (drule waitOrRestart_cases) (metis erase_eqD(2))

lemma establish_populates:
  assumes "reconcileFormationStepEstablishConnectivity E rsp rsc ti st = Some (out, st')"
    and "rv_Members (st_rv st) = []" "rv_Members (st_rv st') \<noteq> []"
  obtains D T where "rvrsWhere (isActive RT_Diskful) (st_rvrs st) = Some D" "rvrsWhere (isActive RT_TieBreaker) (st_rvrs st) = Some T"
    "populateDatamesh E rsp ti (IDSet_Union D T) st = Some (out, st')"
  using assms unfolding reconcileFormationStepEstablishConnectivity_def Let_def
  by (elim bindE ifE) (auto dest: wait_members)

lemma advance_members: "advanceFormationStep now ti k rv = Some rv1 \<Longrightarrow> rv_Datamesh rv1 = rv_Datamesh rv \<and> rv_Configuration rv1 = rv_Configuration rv"
  by (auto simp: advanceFormationStep_def res_simps)

lemma verifyPreconfigured_establishes:
  assumes "verifyPreconfigured E rsp rsc ti ch d f st = Some (out, st')"
    and "rv_Members (st_rv st) = []" "rv_Members (st_rv st') \<noteq> []"
  shows "\<exists>stm. rv_Members (st_rv stm) = [] \<and> reconcileFormationStepEstablishConnectivity E rsp rsc ti stm = Some (out, st')"
proof -
  have adv: "\<exists>stm. rv_Members (st_rv stm) = [] \<and> reconcileFormationStepEstablishConnectivity E rsp rsc ti stm = Some (out, st')"
    if "advanceFormationStep (fe_now E) ti 0 (st_rv st) = Some rv1"
      "reconcileFormationStepEstablishConnectivity E rsp rsc ti (st \<lparr> st_rv := rv1 \<rparr>) = Some (out, st')" for rv1
    using that advance_members [OF that(1)] assms(2) by (intro exI [of _ "st \<lparr> st_rv := rv1 \<rparr>"]) simp
  show ?thesis
    using assms(1) unfolding verifyPreconfigured_def Let_def
    by (elim runE) ((drule wait_members [OF _ assms(2)], use assms(3) in simp) | erule (1) adv)+
qed

lemma preconfigure_establishes:
  assumes "reconcileFormationStepPreconfigure E rsp rsc ti created st = Some (out, st')"
    and "rv_Members (st_rv st) = []" "rv_Members (st_rv st') \<noteq> []"
  shows "\<exists>stm. rv_Members (st_rv stm) = [] \<and> reconcileFormationStepEstablishConnectivity E rsp rsc ti stm = Some (out, st')"
proof -
  let ?st = "if created then st \<lparr> st_rv := initDatamesh rsp ti ''Starting preconfigure'' (st_rv st) \<rparr> else st"
  obtain clean tD tTB D T r D' T' st1
    where c: "createMissingReplicas E clean tD tTB D T ?st = Some (r, D', T', st1)"
      and k: "(case r of Some o' \<Rightarrow> Some (o', st1)
        | None \<Rightarrow> settleReplicas E rsp rsc ti created tD tTB D' T' st1) = Some (out, st')"
    using assms(1) unfolding reconcileFormationStepPreconfigure_def Let_def by (elim bindE pairE) blast
  have e: "rv_Members (st_rv st1) = []"
    using createMissingReplicas_frame [OF c] assms(2) by (simp add: initDatamesh_def)
  have e': "rv_Members (st_rv (st1 \<lparr> st_rvrs := rvrs, st_calls := calls \<rparr>)) = []" for rvrs calls using e by simp
  show ?thesis
  proof (cases r)
    case (Some o')
    then show ?thesis using k e assms(3) by auto
  next
    case None
    have stay: "Some (o', st1 \<lparr> st_rvrs := rvrs, st_calls := calls \<rparr>) = Some (out, st') \<Longrightarrow> ?thesis" for o' rvrs calls
      using e assms(3) by auto
    have "settleReplicas E rsp rsc ti created tD tTB D' T' st1 = Some (out, st')" using k None by simp
    then show ?thesis unfolding settleReplicas_def Let_def
      by (elim runE) (erule stay | (drule wait_members [OF _ e'], use assms(3) in simp)
        | erule verifyPreconfigured_establishes [OF _ e' assms(3)])+
  qed
qed

lemma ensure_members: "ensureFormationTransition now planID rv = (ti, created, rv') \<Longrightarrow> rv_Datamesh rv' = rv_Datamesh rv"
  by (auto simp: ensureFormationTransition_def Let_def split: option.splits)

lemma awaitBootstrap_members:
  assumes "awaitBootstrap E rsp rsc ti dm op st = Some (out, st')" "rv_Members (st_rv st) = []"
  shows "rv_Members (st_rv st') = []"
proof -
  have fin: "rv_Members (st_rv st') = []" if "applyFormationTransitionAbsent (st_rv st) = (ch, rv)"
      "Some (o', st \<lparr> st_rv := rv \<rparr>) = Some (out, st')" for ch rv o'
    using that assms(2) by (auto simp: applyFormationTransitionAbsent_def split: option.splits)
  have wait: "rv_Members (st_rv st') = []" if "waitOnly ti j ch msg reqs st = Some (out, st')" for j ch msg reqs
  proof -
    have "erase (st_rv st') = erase (st_rv st)" using that by (auto simp: waitOnly_def res_simps dest: erase_stepMessages)
    then show ?thesis using assms(2) erase_eqD(2) by metis
  qed
  show ?thesis
    using assms(1) unfolding awaitBootstrap_def Let_def
    by (elim runE) (erule wait | erule wait_members [OF _ assms(2)] | erule (1) fin)+
qed

lemma bootstrap_members:
  assumes "reconcileFormationStepBootstrapData E rsp rsc ti st = Some (out, st')" "rv_Members (st_rv st) = []"
  shows "rv_Members (st_rv st') = []"
proof -
  obtain r st1 where c: "currentFormationOp E ti st = Some (r, st1)"
    using assms(1) by (auto simp: reconcileFormationStepBootstrapData_def res_simps Let_def)
  have e1: "rv_Members (st_rv st1) = []" using currentFormationOp_frame [OF c] assms(2) by simp
  have e2: "rv_Members (st_rv st2) = []" if "createFormationOp E params dm st1 = Some (x, st2)" for params dm x st2
    using createFormationOp_frame [OF that] e1 by simp
  show ?thesis
    using assms(1) unfolding reconcileFormationStepBootstrapData_def Let_def c bind.bind_lunit prod.case
    using e1 by (elim runE) (auto dest: e2 intro: awaitBootstrap_members wait_members)
qed

lemma formationStep_populates:
  assumes f: "formationStep E rsp rsc k ti created planID st = Some (valid, out, st')" and plan: "planID \<noteq> formationPlanAdopt"
    and m: "rv_Members (st_rv st) = []" "rv_Members (st_rv st') \<noteq> []"
  obtains stm D T where "rv_Members (st_rv stm) = []" "rvrsWhere (isActive RT_Diskful) (st_rvrs stm) = Some D"
    "rvrsWhere (isActive RT_TieBreaker) (st_rvrs stm) = Some T" "populateDatamesh E rsp ti (IDSet_Union D T) stm = Some (out, st')"
proof -
  have "reconcileFormationStepPreconfigure E rsp rsc ti created st = Some (out, st')
    \<or> reconcileFormationStepEstablishConnectivity E rsp rsc ti st = Some (out, st')
    \<or> reconcileFormationStepBootstrapData E rsp rsc ti st = Some (out, st') \<or> st' = st"
    using f plan by (auto simp: formationStep_def Let_def split: if_splits)
  then obtain stm where "rv_Members (st_rv stm) = []" "reconcileFormationStepEstablishConnectivity E rsp rsc ti stm = Some (out, st')"
    using m preconfigure_establishes bootstrap_members by metis
  then show ?thesis using establish_populates m(2) that by metis
qed

lemma populated_spec:
  assumes pop: "populateDatamesh E rsp ti (IDSet_Union D T) stm = Some (out, st')"
    and D: "rvrsWhere (isActive RT_Diskful) (st_rvrs stm) = Some D" and T: "rvrsWhere (isActive RT_TieBreaker) (st_rvrs stm) = Some T"
    and e: "rv_Members (st_rv stm) = []" and m: "rv_Members (st_rv st') \<noteq> []"
    and valid: "\<forall>r \<in> set (st_rvrs st'). \<exists>i. rvrID r = Some i \<and> i \<le> 31" and dist: "distinct (map rvrID (st_rvrs st'))"
  shows "map Some (rv_Members (st_rv st')) =
      map (requestedMember rsp) (filter (\<lambda>r. isActive RT_Diskful r \<or> isActive RT_TieBreaker r) (st_rvrs st'))
    \<and> length (filter (\<lambda>m. IsVoter (m_Type m)) (rv_Members (st_rv st'))) < 2 * unat (ds_Quorum (rv_Datamesh (st_rv st')))
    \<and> (\<exists>cfg. rv_Configuration (st_rv st') = Some cfg
         \<and> ds_QuorumMinimumRedundancy (rv_Datamesh (st_rv st')) = GuaranteedMinimumDataRedundancy cfg + 1)
    \<and> Inr (ds_SharedSecret (rv_Datamesh (st_rv st'))) = generateSharedSecret (fe_rand E)"
  using pop
proof (cases rule: populate_cases)
  case (1 err)
  then show ?thesis using e m by simp
next
  case (2 secret rv1 cfg q qmr)
  let ?x = "setQuorum q qmr (rv1 \<lparr> rv_BaselineGMDR := GuaranteedMinimumDataRedundancy cfg \<rparr>)"
  note same = erase_eqD [OF 2(5)]
  have dm: "rv_Datamesh (st_rv st') = rv_Datamesh ?x" "rv_Configuration (st_rv st') = Some cfg"
    using same(2,3) 2(3) by (simp_all add: bumpRevision_def Let_def setQuorum_def)
  have ms: "rv_Members (st_rv st') = rv_Members rv1" using dm by (simp add: setQuorum_def)
  have union: "inSet (IDSet_Union D T) r \<longleftrightarrow> isActive RT_Diskful r \<or> isActive RT_TieBreaker r" if "r \<in> set (st_rvrs stm)" for r
  proof -
    obtain i where i: "rvrID r = Some i" "unat i < 32" using bspec [OF valid, of r] \<open>r \<in> set (st_rvrs stm)\<close> 2(6) by (auto simp: word_le_nat_alt)
    have uniq: "r' = r" if "r' \<in> set (st_rvrs stm)" "rvrID r' = Some j" "unat j = unat i" for r' j
      using that i dist 2(6) \<open>r \<in> set (st_rvrs stm)\<close> word_unat_eq_iff [of j i] by (auto simp: distinct_map inj_on_def)
    have sel: "unat i \<in> ids s \<longleftrightarrow> P r" if s: "rvrsWhere P (st_rvrs stm) = Some s" for P s
    proof
      assume "unat i \<in> ids s"
      then obtain r' j where "r' \<in> set (st_rvrs stm)" "P r'" "rvrID r' = Some j" "unat j = unat i"
        unfolding rvrsWhere_ids [OF s] mem_Collect_eq by metis
      then show "P r" using uniq by simp
    next
      assume "P r"
      then show "unat i \<in> ids s"
        unfolding rvrsWhere_ids [OF s] mem_Collect_eq using i \<open>r \<in> set (st_rvrs stm)\<close> by metis
    qed
    have "inSet (IDSet_Union D T) r \<longleftrightarrow> unat i \<in> ids D \<union> ids T" using i by (simp add: inSet_def)
    also have "\<dots> \<longleftrightarrow> isActive RT_Diskful r \<or> isActive RT_TieBreaker r"
      by (simp only: Un_iff sel [OF D] sel [OF T])
    finally show ?thesis .
  qed
  have "map Some (rv_Members rv1) = map (requestedMember rsp) (filter (inSet (IDSet_Union D T)) (st_rvrs stm))"
    using addMembers_new [OF 2(2) _ requestedMember_name] dist e 2(6) by (simp add: setSecret_def)
  also have "filter (inSet (IDSet_Union D T)) (st_rvrs stm) = filter (\<lambda>r. isActive RT_Diskful r \<or> isActive RT_TieBreaker r) (st_rvrs stm)"
    using union by (rule filter_cong [OF refl])
  finally have mem: "map Some (rv_Members rv1) = map (requestedMember rsp) (filter (\<lambda>r. isActive RT_Diskful r \<or> isActive RT_TieBreaker r) (st_rvrs stm))" .
  have idq: "map (\<lambda>m. idFromName (m_Name m)) (rv_Members rv1)
      = map rvrID (filter (\<lambda>r. isActive RT_Diskful r \<or> isActive RT_TieBreaker r) (st_rvrs stm))"
    by (rule members_ids [OF mem]) (rule requestedMember_name)
  have "distinct (map (\<lambda>m. idFromName (m_Name m)) (rv_Members rv1))"
    using dist 2(6) by (simp add: idq distinct_map_filter)
  moreover have "\<forall>m \<in> set (rv_Members rv1). \<exists>i. idFromName (m_Name m) = Some i \<and> i \<le> 31"
  proof
    fix m assume "m \<in> set (rv_Members rv1)"
    then have "idFromName (m_Name m) \<in> rvrID ` set (st_rvrs stm)"
      using imageI [of m "set (rv_Members rv1)" "\<lambda>m. idFromName (m_Name m)"] arg_cong [OF idq, of set] by auto
    then show "\<exists>i. idFromName (m_Name m) = Some i \<and> i \<le> 31" using valid 2(6) by auto
  qed
  moreover obtain v where v: "membersWhere (\<lambda>m. IsVoter (m_Type m)) (rv_Members rv1) = Some v"
    using 2(4) by (auto simp: computeTargetQuorum_def res_simps Let_def)
  ultimately have "length (filter (\<lambda>m. IsVoter (m_Type m)) (rv_Members rv1)) < 2 * unat q"
    using computeTargetQuorum_majority [OF 2(4)] voters_count [OF v] by simp
  moreover have "qmr = GuaranteedMinimumDataRedundancy cfg + 1"
    using 2(3,4) by (auto simp: computeTargetQuorum_def res_simps Let_def cfg_QuorumMinimumRedundancy_def)
  moreover have "ds_SharedSecret (rv_Datamesh rv1) = secret"
    using addMembers_secret [OF 2(2)] by (simp add: setSecret_def)
  ultimately show ?thesis using dm mem ms 2(1,6) by (simp add: setQuorum_def)
qed

subsection \<open>Once the data is there\<close>

lemma awaitBootstrap_keeps:
  assumes run: "awaitBootstrap E rsp rsc ti diskful op st = Some (out, st')" and "op_Phase op = ''Succeeded''"
    and "rvrsIn diskful isUpToDate (st_rvrs st) = Some diskful"
  shows "rv_Datamesh (st_rv st') = rv_Datamesh (st_rv st) \<and> st_rvrs st' = st_rvrs st \<and> st_calls st' = st_calls st"
proof -
  have fin: "rv_Datamesh (snd (applyFormationTransitionAbsent (st_rv st))) = rv_Datamesh (st_rv st)"
    by (auto simp: applyFormationTransitionAbsent_def split: option.splits)
  have wait: "rv_Datamesh (st_rv st1) = rv_Datamesh (st_rv st) \<and> st_rvrs st1 = st_rvrs st \<and> st_calls st1 = st_calls st"
    if "waitOnly ti 2 ch msg reqs st = Some (o', st1)" for ch msg reqs o' st1
    using that by (auto simp: waitOnly_def res_simps dest!: erase_stepMessages intro: erase_eqD(2))
  show ?thesis
    using run assms(2,3) fin
    by (auto simp: awaitBootstrap_def Let_def res_simps dest: wait split: if_splits prod.splits)
qed

subsection \<open>Formations to evaluate\<close>

text \<open>An API server that stores what it is given and has one bootstrap operation, which has succeeded, and the
  zoneless pool of two nodes.\<close>

definition exOp :: DRBDROp where
  "exOp = \<lparr> op_Name = ''vol-formation'', op_CreationTimestamp = 5, op_Deleting = False, op_NodeName = ''node-0'',
     op_DRBDResourceName = ''vol-0'', op_Type = ''CreateNewUUID'', op_CreateNewUUID = Some (formationParams PoolTypeLVMThin False),
     op_Phase = ''Succeeded'', op_Message = [] \<rparr>"

definition exClient :: Client where
  "exClient = \<lparr> cl_CreateRVR = Inr, cl_PatchRVR = (\<lambda>obj _. Inr obj), cl_DeleteRVR = (\<lambda>_. None), cl_PatchRV = (\<lambda>obj _. Inr obj),
     cl_PatchRVStatus = (\<lambda>obj _. Inr obj), cl_PatchRVA = (\<lambda>obj _. Inr obj), cl_PatchRVAStatus = (\<lambda>obj _. Inr obj), cl_GetOp = (\<lambda>_ _. Inr exOp),
     cl_CreateOp = Inr, cl_DeleteOp = (\<lambda>_. None), cl_SetControllerRef = (\<lambda>_ _. None),
     cl_SetStatusCondition = (\<lambda>cs c. (True, cs @ [c])), cl_RemoveStatusCondition = (\<lambda>cs _. (False, cs)) \<rparr>"

definition exEnv :: "int \<Rightarrow> FormationEnv" where
  "exEnv now = \<lparr> fe_Client = exClient,
     fe_Config = \<lparr> ce_SetStatusCondition = (\<lambda>cs c. (True, cs @ [c])), ce_now = now, ce_RSPZoneCount = (\<lambda>_. Inr 0),
       ce_RVsByRSC = (\<lambda>_. Inr []) \<rparr>,
     fe_now = now, fe_rand = Inr (replicate 32 7), fe_QuantityString = (\<lambda>_. []) \<rparr>"

definition exView :: rspView where
  "exView = \<lparr> view_Type = PoolTypeLVMThin, view_Zones = [], view_SystemNetworkNames = [], view_EligibleNodes = [] \<rparr>"

definition exPeer :: "nat \<Rightarrow> PeerStatus" where
  "exPeer i = \<lparr> p_Name = exName i, p_Type = RT_Diskful, p_ConnectionEstablishedOn = [], p_ConnectionState = ConnectionStateConnected,
     p_BackingVolumeState = DiskStateUpToDate, p_ReplicationState = ''Established'', p_Attached = False \<rparr>"

definition exReplica :: "nat \<Rightarrow> ReplicaType \<Rightarrow> RVR" where
  "exReplica i typ = (exRVR i 7) \<lparr> rvr_Type := typ, rvr_Peers := [exPeer 0, exPeer 1],
     rvr_Conditions := [\<lparr> c_Type = ''DRBDConfigured'', c_Status = ConditionTrue, c_ObservedGeneration = 0, c_Reason = ''Configured'',
       c_Message = [], c_LastTransitionTime = None \<rparr>],
     rvr_DatameshRequest := Some \<lparr> rq_Operation = Join, rq_Type = typ, rq_LVMVolumeGroupName = [], rq_ThinPoolName = [] \<rparr> \<rparr>"

abbreviation exReplicas :: "RVR list" where
  "exReplicas \<equiv> [exReplica 0 RT_Diskful, exReplica 1 RT_Diskful, exReplica 2 RT_TieBreaker]"

text \<open>The formation transition with the given statuses of its steps.\<close>

definition exFormation :: "StepStatus list \<Rightarrow> Transition" where
  "exFormation ss = emptyTransition \<lparr> t_Type := TT_Formation, t_Group := G_Formation, t_PlanID := formationPlanCreate,
     t_Steps := map (\<lambda>s. emptyStep \<lparr> s_Status := s, s_StartedAt := Some 1, s_DatameshRevision := 1 \<rparr>) ss \<rparr>"

definition exMembers :: "DatameshMember list" where
  "exMembers = [exMember 0 MT_Diskful, exMember 1 MT_Diskful, exMember 2 MT_TieBreaker]"

definition exBootstrapping :: rstate where
  "exBootstrapping = \<lparr> st_rv = exRV 2 1 exMembers [exFormation [Completed, Completed, Active]] [], st_rvrs = exReplicas,
     st_rvas = [], st_calls = [] \<rparr>"

definition exConnecting :: rstate where
  "exConnecting = \<lparr> st_rv = exRV 0 0 [] [exFormation [Completed, Active, Pending]] [], st_rvrs = exReplicas, st_rvas = [], st_calls = [] \<rparr>"

lemma exForming_ok:
  "formationOK (st_rv exBootstrapping)" "formationOK (st_rv exConnecting)"
  "creating (st_rv exBootstrapping)" "creating (st_rv exConnecting)"
  "isFormationInProgress (st_rv exBootstrapping) = (True, 2)" "isFormationInProgress (st_rv exConnecting) = (True, 1)"
proof -
  have s: "steps_ok (exFormation [Completed, Completed, Active])" "steps_ok (exFormation [Completed, Active, Pending])"
    unfolding steps_ok_def
    by (rule exI [of _ 2], rule exI [of _ 0], simp add: statuses_def exFormation_def numeral_2_eq_2)
       (rule exI [of _ 1], rule exI [of _ 1], simp add: statuses_def exFormation_def)
  have r: "revs_le 7 (exFormation ss)" for ss by (auto simp: revs_le_def exFormation_def)
  show "formationOK (st_rv exBootstrapping)" "formationOK (st_rv exConnecting)"
    using s r by (simp_all add: formationOK_def exBootstrapping_def exConnecting_def exRV_def) (simp_all add: exFormation_def)
  show "creating (st_rv exBootstrapping)" "creating (st_rv exConnecting)"
    "isFormationInProgress (st_rv exBootstrapping) = (True, 2)" "isFormationInProgress (st_rv exConnecting) = (True, 1)"
    by code_simp+
qed

lemma exBootstrapping_run: "\<exists>out st'. reconcileFormation (exEnv 1000000000000) exView None 2 exBootstrapping = Some (out, st')
   \<and> rv_DatameshRevision (st_rv st') = 7 \<and> formationIndex (rv_DatameshTransitions (st_rv st')) = None
   \<and> rv_Members (st_rv st') = exMembers \<and> st_rvrs st' = exReplicas"
proof -
  let ?x = "reconcileFormation (exEnv 1000000000000) exView None 2 exBootstrapping"
  have "?x \<noteq> None" "map_option (\<lambda>(out, st'). (rv_DatameshRevision (st_rv st'), formationIndex (rv_DatameshTransitions (st_rv st')),
      rv_Members (st_rv st'), st_rvrs st')) ?x = Some (7, None, exMembers, exReplicas)"
    by code_simp+
  then show ?thesis by (cases ?x) auto
qed

lemma exConnecting_run: "\<exists>out st'. reconcileFormation (exEnv 1000000000000) exView None 1 exConnecting = Some (out, st')
   \<and> rv_Members (st_rv st') \<noteq> [] \<and> length (filter (\<lambda>m. IsVoter (m_Type m)) (rv_Members (st_rv st'))) = 2 \<and> st_rvrs st' = exReplicas"
proof -
  let ?x = "reconcileFormation (exEnv 1000000000000) exView None 1 exConnecting"
  have "map_option (\<lambda>(out, st'). (rv_Members (st_rv st') \<noteq> [], length (filter (\<lambda>m. IsVoter (m_Type m)) (rv_Members (st_rv st'))),
      st_rvrs st')) ?x = Some (True, 2, exReplicas)"
    by code_simp
  then show ?thesis by (cases ?x) auto
qed

lemma exReplicas_ids: "\<forall>r \<in> set exReplicas. \<exists>i. rvrID r = Some i \<and> i \<le> 31" "distinct (map rvrID exReplicas)"
proof -
  have "map rvrID exReplicas = [Some 0, Some 1, Some 2]" by code_simp
  then show "\<forall>r \<in> set exReplicas. \<exists>i. rvrID r = Some i \<and> i \<le> 31" "distinct (map rvrID exReplicas)" by auto
qed

subsection \<open>Properties\<close>

text \<open>C18: A formation under \<open>create/v1\<close> completes only at full redundancy. If a reconciliation of a forming
  volume ends with a datamesh and without a formation transition (so it has completed, not restarted), then
  every diskful member has a replica whose disk is up to date, and every tie-breaker member has an active
  replica that is operational towards the full-mesh members: it applied the current revision, its DRBD is
  configured and its connections are confirmed.\<close>

theorem formation_completes_redundant:
  assumes "formationOK (st_rv st)" and "isFormationInProgress (st_rv st) = (True, k)" and "creating (st_rv st)"
    and "reconcileFormation E rsp rsc k st = Some (out, st')"
    and "rv_DatameshRevision (st_rv st') \<noteq> 0" and "formationIndex (rv_DatameshTransitions (st_rv st')) = None"
    and "\<forall>m \<in> set (rv_Members (st_rv st')). \<exists>i. idFromName (m_Name m) = Some i \<and> i \<le> 31"
  shows "(\<forall>m \<in> set (rv_Members (st_rv st')). m_Type m = MT_Diskful \<longrightarrow>
      (\<exists>r \<in> set (st_rvrs st'). rvrID r = idFromName (m_Name m) \<and> isUpToDate r))
    \<and> (\<forall>m \<in> set (rv_Members (st_rv st')). m_Type m = MT_TieBreaker \<longrightarrow>
      (\<exists>r \<in> set (st_rvrs st'). rvrID r = idFromName (m_Name m) \<and> isActive RT_TieBreaker r
         \<and> (\<exists>peers why. tieBreakerPeers (st_rvrs st') (rv_Members (st_rv st')) = Some peers
              \<and> IsTieBreakerOperational (Some r) peers (rv_DatameshRevision (st_rv st')) = Some (True, why))))"
proof -
  have "phaseOf (st_rv st') = Formed" using assms(5,6) by (simp add: phaseOf_def)
  then have b: "bootstrapped (st_rv st') (st_rvrs st')" using reconcileFormation_good [OF assms(1,2,4)] assms(3) by blast
  then obtain s where s: "computeActualTieBreakerReadiness (st_rv st') (st_rvrs st') = Some (s, [])" by (auto simp: bootstrapped_def)
  have valid: "\<exists>i. idFromName (m_Name m) = Some i \<and> unat i < 32" if "m \<in> set (rv_Members (st_rv st'))" for m
    using assms(7) that by (fastforce simp: word_le_nat_alt)
  show ?thesis
    using b readiness_spec [OF s] valid unfolding bootstrapped_def isDiskfulMember_def by metis
qed

theorem formation_completes_redundant_witness:
  "\<exists>r \<in> set exReplicas. rvrID r = Some 2 \<and> isActive RT_TieBreaker r
     \<and> (\<exists>peers why. tieBreakerPeers exReplicas exMembers = Some peers \<and> IsTieBreakerOperational (Some r) peers 7 = Some (True, why))"
proof -
  obtain out st' where run: "reconcileFormation (exEnv 1000000000000) exView None 2 exBootstrapping = Some (out, st')"
    "rv_DatameshRevision (st_rv st') = 7" "formationIndex (rv_DatameshTransitions (st_rv st')) = None"
    "rv_Members (st_rv st') = exMembers" "st_rvrs st' = exReplicas"
    using exBootstrapping_run by blast
  have m: "exMember 2 MT_TieBreaker \<in> set exMembers" "m_Type (exMember 2 MT_TieBreaker) = MT_TieBreaker"
      "idFromName (m_Name (exMember 2 MT_TieBreaker)) = Some 2"
    by code_simp+
  have "\<forall>m \<in> set exMembers. \<exists>i. idFromName (m_Name m) = Some i \<and> i \<le> 31"
    unfolding exMembers_def by (simp add: exMember_def) code_simp
  then show ?thesis
    using formation_completes_redundant [OF exForming_ok(1,5,3) run(1)] m run(2-5) by fastforce
qed

text \<open>C20: The first members and the first quorum. When a reconciliation under \<open>create/v1\<close> gives a datamesh its
  first members, these are exactly the active diskful and tie-breaker replicas, in order, each as its own
  membership request says, on its node, in the zone of that node; the quorum is a strict majority of the
  voters among them, so that two quorums always meet, the minimum redundancy is the configured one, and
  the shared secret is that of this formation.\<close>

theorem first_members_and_quorum:
  assumes "formationOK (st_rv st)" and "isFormationInProgress (st_rv st) = (True, k)" and "creating (st_rv st)"
    and "reconcileFormation E rsp rsc k st = Some (out, st')"
    and "rv_Members (st_rv st) = []" and "rv_Members (st_rv st') \<noteq> []"
    and "\<forall>r \<in> set (st_rvrs st'). \<exists>i. rvrID r = Some i \<and> i \<le> 31" and "distinct (map rvrID (st_rvrs st'))"
  shows "map Some (rv_Members (st_rv st')) =
      map (requestedMember rsp) (filter (\<lambda>r. isActive RT_Diskful r \<or> isActive RT_TieBreaker r) (st_rvrs st'))
    \<and> length (filter (\<lambda>m. IsVoter (m_Type m)) (rv_Members (st_rv st'))) < 2 * unat (ds_Quorum (rv_Datamesh (st_rv st')))
    \<and> (\<exists>cfg. rv_Configuration (st_rv st') = Some cfg
         \<and> ds_QuorumMinimumRedundancy (rv_Datamesh (st_rv st')) = GuaranteedMinimumDataRedundancy cfg + 1)
    \<and> Inr (ds_SharedSecret (rv_Datamesh (st_rv st'))) = generateSharedSecret (fe_rand E)"
proof -
  obtain ti created rv t valid o1 st1
    where en: "ensureFormationTransition (fe_now E) (if map_of (rv_Annotations (st_rv st)) AdoptRVRAnnotationKey \<noteq> None
        then formationPlanAdopt else formationPlanCreate) (st_rv st) = (ti, created, rv)"
      and t: "index (rv_DatameshTransitions rv) ti = Some t"
      and f: "formationStep E rsp rsc k ti created (t_PlanID t) (st \<lparr> st_rv := rv \<rparr>) = Some (valid, o1, st1)"
      and st': "st_rv st' = st_rv st1" "st_rvrs st' = st_rvrs st1"
    by (rule reconcileFormation_cases [OF assms(4)]) blast
  have plan: "t_PlanID t \<noteq> formationPlanAdopt" by (rule creating_plan [OF en t assms(3)])
  have rv: "rv_Members rv = []" using ensure_members [OF en] assms(5) by simp
  obtain stm D T where e: "rv_Members (st_rv stm) = []"
    and D: "rvrsWhere (isActive RT_Diskful) (st_rvrs stm) = Some D" and T: "rvrsWhere (isActive RT_TieBreaker) (st_rvrs stm) = Some T"
    and pop: "populateDatamesh E rsp ti (IDSet_Union D T) stm = Some (o1, st1)"
    using formationStep_populates [OF f plan] rv assms(6) st'(1) by auto
  from populated_spec [OF pop D T e] assms(6,7,8) show ?thesis unfolding st' by blast
qed

theorem first_members_and_quorum_witness:
  "\<exists>out st'. reconcileFormation (exEnv 1000000000000) exView None 1 exConnecting = Some (out, st')
     \<and> length (filter (\<lambda>m. IsVoter (m_Type m)) (rv_Members (st_rv st'))) = 2 \<and> 2 < 2 * unat (ds_Quorum (rv_Datamesh (st_rv st')))"
proof -
  obtain out st' where run: "reconcileFormation (exEnv 1000000000000) exView None 1 exConnecting = Some (out, st')"
    "rv_Members (st_rv st') \<noteq> []" "length (filter (\<lambda>m. IsVoter (m_Type m)) (rv_Members (st_rv st'))) = 2" "st_rvrs st' = exReplicas"
    using exConnecting_run by blast
  have "rv_Members (st_rv exConnecting) = []" by code_simp
  then show ?thesis
    using first_members_and_quorum [OF exForming_ok(2,6,4) run(1)] run exReplicas_ids by auto
qed

text \<open>Trimming keeps the most progressed replicas. Of a set of replicas, \<open>trimExcess\<close> keeps exactly as many as
  wanted (all, if there are fewer), and each one it keeps is ahead of each one it drops: a scheduled replica
  before one that is not, among those a preconfigured one before one that is not, and otherwise the lower
  ID.\<close>

theorem trim_keeps_most_progressed:
  "IDSet_Len (trimExcess scheduled preconfigured target S) = min target (IDSet_Len S)
   \<and> ids (trimExcess scheduled preconfigured target S) \<subseteq> ids S
   \<and> (\<forall>i j. i \<in> ids (trimExcess scheduled preconfigured target S) \<and> j \<in> ids S - ids (trimExcess scheduled preconfigured target S)
        \<longrightarrow> keepKey scheduled preconfigured i < keepKey scheduled preconfigured j)"
proof -
  let ?L = "keepOrder scheduled preconfigured S" and ?key = "keepKey scheduled preconfigured"
  have kept: "ids (trimExcess scheduled preconfigured target S) = set (take target ?L)" by (rule trimExcess_keeps)
  have "IDSet_Len (trimExcess scheduled preconfigured target S) = min target (IDSet_Len S)"
    using distinct_card [of "take target ?L"] by (simp add: Len_card kept del: in_ids)
  moreover have "set (take target ?L) \<subseteq> ids S" by (metis keepOrder_facts(1) set_take_subset)
  moreover have "?key i < ?key j" if "i \<in> set (take target ?L)" "j \<in> ids S - set (take target ?L)" for i j
  proof -
    have "j \<in> set (drop target ?L)" using that(2) by (metis DiffE Un_iff append_take_drop_id keepOrder_facts(1) set_append)
    moreover have "sorted (map ?key (take target ?L) @ map ?key (drop target ?L))"
      using keepOrder_facts(4) by (metis append_take_drop_id map_append)
    ultimately have "?key i \<le> ?key j" using that(1) by (auto simp: sorted_append)
    moreover have "i \<in> ids S" "j \<in> ids S" "i \<noteq> j" using that \<open>set (take target ?L) \<subseteq> ids S\<close> by auto
    ultimately show ?thesis using keepKey_inj ids_bounded by (metis le_neq_implies_less)
  qed
  ultimately show ?thesis unfolding kept by blast
qed

theorem trim_keeps_most_progressed_witness:
  "keepKey (IDSet_Of [2, 5]) (IDSet_Of [5]) 5 < keepKey (IDSet_Of [2, 5]) (IDSet_Of [5]) 1
   \<and> IDSet_Len (trimExcess (IDSet_Of [2, 5]) (IDSet_Of [5]) 2 (IDSet_Of [1, 2, 5])) = 2"
proof -
  have ids: "ids (IDSet_Of [1, 2, 5]) = {1, 2, 5}" by (subst ids_Of) auto
  have "trimExcess (IDSet_Of [2, 5]) (IDSet_Of [5]) 2 (IDSet_Of [1, 2, 5]) = IDSet_Of [2, 5]" by code_simp
  then have t: "ids (trimExcess (IDSet_Of [2, 5]) (IDSet_Of [5]) 2 (IDSet_Of [1, 2, 5])) = {2, 5}" by (simp only:) (subst ids_Of, auto)
  have l: "IDSet_Len (IDSet_Of [1, 2, 5]) = 3" by (simp add: Len_card ids del: in_ids)
  show ?thesis
    using trim_keeps_most_progressed [of "IDSet_Of [2, 5]" "IDSet_Of [5]" 2 "IDSet_Of [1, 2, 5]"] unfolding t ids l by auto
qed



text \<open>C19: Bootstrapped data is never thrown away. Once the bootstrap operation of this formation has succeeded and
  every diskful member is up to date, a reconciliation of the last step leaves the members and the replicas
  alone: it may finish the formation or go on waiting for a tie-breaker, but whatever the clock says and
  whatever else is wrong, it does not restart, and deletes no replica and no operation.\<close>

theorem bootstrapped_data_survives:
  assumes "isFormationInProgress (st_rv st) = (True, 2)" and "creating (st_rv st)"
    and "formationIndex (rv_DatameshTransitions (st_rv st)) = Some ti"
    and "getDRBDROp (fe_Client E) (st_calls st) (formationOpName (st_rv st)) = Inr (Some op)"
    and "\<forall>started. StartedAt (rv_DatameshTransitions (st_rv st) ! ti) = Some started \<longrightarrow> started \<le> op_CreationTimestamp op"
    and "membersWhere isDiskfulMember (rv_Members (st_rv st)) = Some diskful"
    and "isFormationOp (rv_Name (st_rv st)) (formationParams (view_Type rsp) (IDSet_Len diskful = 1)) diskful op"
    and "op_Phase op = ''Succeeded''" and "rvrsIn diskful isUpToDate (st_rvrs st) = Some diskful"
    and "reconcileFormation E rsp rsc 2 st = Some (out, st')"
  shows "rv_Datamesh (st_rv st') = rv_Datamesh (st_rv st) \<and> st_rvrs st' = st_rvrs st
    \<and> (\<exists>cs. st_calls st' = st_calls st @ map CallPatchRVAStatus cs)"
proof -
  obtain j created rv t valid o1 st1
    where en: "ensureFormationTransition (fe_now E) (if map_of (rv_Annotations (st_rv st)) AdoptRVRAnnotationKey \<noteq> None
        then formationPlanAdopt else formationPlanCreate) (st_rv st) = (j, created, rv)"
      and t: "index (rv_DatameshTransitions rv) j = Some t"
      and f: "formationStep E rsp rsc 2 j created (t_PlanID t) (st \<lparr> st_rv := rv \<rparr>) = Some (valid, o1, st1)"
      and st': "st_rv st' = st_rv st1" "st_rvrs st' = st_rvrs st1" "\<exists>cs. st_calls st' = st_calls st1 @ map CallPatchRVAStatus cs"
    by (rule reconcileFormation_cases [OF assms(10)]) blast
  have j: "j = ti" "rv = st_rv st" using en assms(3) by (auto simp: ensureFormationTransition_def)
  have tt: "t = rv_DatameshTransitions (st_rv st) ! ti" "index (rv_DatameshTransitions (st_rv st)) ti = Some t" using t j by (auto simp: index_def split: if_splits)
  have c: "currentFormationOp E ti st = Some (Inr (Some op), st)"
    using assms(4,5) tt by (auto simp: currentFormationOp_def index_def split: option.splits)
  have a: "awaitBootstrap E rsp rsc ti diskful op st = Some (o1, st1) \<Longrightarrow> rv_Datamesh (st_rv st1) = rv_Datamesh (st_rv st)
      \<and> st_rvrs st1 = st_rvrs st \<and> st_calls st1 = st_calls st"
    by (rule awaitBootstrap_keeps [OF _ assms(8,9)])
  have "rv_Datamesh (st_rv st1) = rv_Datamesh (st_rv st) \<and> st_rvrs st1 = st_rvrs st \<and> st_calls st1 = st_calls st"
    using f creating_plan [OF en t assms(2)] a assms(7) c assms(6)
    by (auto simp: formationStep_def j reconcileFormationStepBootstrapData_def Let_def res_simps split: if_splits)
  then show ?thesis using st' by simp
qed

theorem bootstrapped_data_survives_witness:
  "\<exists>out st'. reconcileFormation (exEnv 1000000000000) exView None 2 exBootstrapping = Some (out, st') \<and> st_rvrs st' = exReplicas"
proof -
  obtain out st' where run: "reconcileFormation (exEnv 1000000000000) exView None 2 exBootstrapping = Some (out, st')"
    using exBootstrapping_run by blast
  have h: "formationIndex (rv_DatameshTransitions (st_rv exBootstrapping)) = Some 0"
    "getDRBDROp (fe_Client (exEnv 1000000000000)) (st_calls exBootstrapping) (formationOpName (st_rv exBootstrapping)) = Inr (Some exOp)"
    "StartedAt (rv_DatameshTransitions (st_rv exBootstrapping) ! 0) = Some 1" "op_CreationTimestamp exOp = 5"
    "membersWhere isDiskfulMember (rv_Members (st_rv exBootstrapping)) = Some 3"
    "isFormationOp (rv_Name (st_rv exBootstrapping)) (formationParams (view_Type exView) (IDSet_Len 3 = 1)) 3 exOp"
    "op_Phase exOp = ''Succeeded''" "rvrsIn 3 isUpToDate (st_rvrs exBootstrapping) = Some 3"
    by code_simp+
  have "st_rvrs st' = st_rvrs exBootstrapping"
    using bootstrapped_data_survives [OF exForming_ok(5,3) h(1,2) _ h(5-8) run] h(3,4) by simp
  then show ?thesis using run by (simp add: exBootstrapping_def)
qed

end
