(* ===== verification/Rv_Reconcile_Laws.thy ===== *)
theory Rv_Reconcile_Laws
  imports Rv_Reconcile Rv_Formation_Props Datamesh_Build
begin

text \<open>
  What a pass of \<open>Reconcile\<close> over a formed volume does to its replicas: which objects it creates and
  deletes, which finalizers it takes away, and what it publishes. The stages of the pass are related by
  \<open>safeStep\<close>, which composes; each stage is shown to keep the datamesh, except for \<open>ProcessTransitions\<close>.
\<close>

subsection \<open>Calls\<close>

text \<open>The part of the status that decides on members and transitions.\<close>

definition core :: "RV \<Rightarrow> int \<times> Datamesh \<times> Transition list" where
  "core rv = (rv_DatameshRevision rv, rv_Datamesh rv, rv_DatameshTransitions rv)"

definition attachedAs :: "Datamesh \<Rightarrow> RVR \<Rightarrow> bool" where
  "attachedAs D r \<longleftrightarrow> (\<exists>m \<in> set (ds_Members D). m_Attached m \<and> m_Name m = rvr_Name r)"

text \<open>What the API server answers with: the object it was sent, with the fields that matter here.\<close>

definition echoes :: "Client \<Rightarrow> bool" where
  "echoes cl \<longleftrightarrow> (\<forall>obj obj'. cl_CreateRVR cl obj = Inr obj' \<longrightarrow> rvr_Name obj' = rvr_Name obj \<and> rvr_Finalizers obj' = rvr_Finalizers obj)
     \<and> (\<forall>obj base obj'. cl_PatchRVR cl obj base = Inr obj' \<longrightarrow> rvr_Name obj' = rvr_Name obj \<and> rvr_Finalizers obj' = rvr_Finalizers obj)
     \<and> (\<forall>obj base obj'. cl_PatchRV cl obj base = Inr obj' \<longrightarrow> core obj' = core obj)
     \<and> (\<forall>obj base obj'. cl_PatchRVStatus cl obj base = Inr obj' \<longrightarrow> core obj' = core obj)"

lemma echoesD:
  assumes "echoes cl"
  shows "cl_CreateRVR cl obj = Inr obj' \<Longrightarrow> rvr_Name obj' = rvr_Name obj \<and> rvr_Finalizers obj' = rvr_Finalizers obj"
    and "cl_PatchRVR cl obj base = Inr obj' \<Longrightarrow> rvr_Name obj' = rvr_Name obj \<and> rvr_Finalizers obj' = rvr_Finalizers obj"
    and "cl_PatchRV cl rv rv0 = Inr rv' \<Longrightarrow> core rv' = core rv"
    and "cl_PatchRVStatus cl rv rv0 = Inr rv' \<Longrightarrow> core rv' = core rv"
  using assms by (auto simp: echoes_def)

text \<open>A call that a pass may make while the datamesh ends up as \<open>D\<close> and the replicas named in \<open>H\<close> have to keep
  their finalizer.\<close>

fun safeCall :: "int \<times> Datamesh \<times> Transition list \<Rightarrow> string set \<Rightarrow> apiCall \<Rightarrow> bool" where
  "safeCall K H (CallCreateRVR r) \<longleftrightarrow> rvr_Type r = RT_Access \<or> rvr_Type r = RT_TieBreaker"
| "safeCall K H (CallPatchRVR r) \<longleftrightarrow> (rvr_Name r \<in> H \<longrightarrow> HasFinalizer (rvr_Finalizers r) RVControllerFinalizer)"
| "safeCall K H (CallDeleteRVR r) \<longleftrightarrow> rvr_Type r = RT_Access \<and> \<not> rvr_Deleting r
     \<and> (\<forall>i. rvrID r = Some i \<and> unat i < 32 \<longrightarrow> \<not> attachedAs (fst (snd K)) r)"
| "safeCall K H (CallPatchRVStatus rv) \<longleftrightarrow> core rv = K"
| "safeCall K H (CallCreateOp op) \<longleftrightarrow> False"
| "safeCall K H (CallDeleteOp op) \<longleftrightarrow> False"
| "safeCall K H c \<longleftrightarrow> True"

definition held :: "string set \<Rightarrow> RVR list \<Rightarrow> bool" where
  "held H rvrs \<longleftrightarrow> (\<forall>r \<in> set rvrs. rvr_Name r \<in> H \<longrightarrow> HasFinalizer (rvr_Finalizers r) RVControllerFinalizer)"

definition safeStep :: "int \<times> Datamesh \<times> Transition list \<Rightarrow> string set \<Rightarrow> rstate \<Rightarrow> rstate \<Rightarrow> bool" where
  "safeStep K H st st' \<longleftrightarrow> (held H (st_rvrs st) \<longrightarrow> held H (st_rvrs st')
     \<and> (\<exists>new. st_calls st' = st_calls st @ new \<and> (\<forall>c \<in> set new. safeCall K H c)))"

lemma safeStep_refl [simp]: "safeStep K H st st"
  by (auto simp: safeStep_def)

lemma safeStep_trans [trans]: "safeStep K H st st1 \<Longrightarrow> safeStep K H st1 st2 \<Longrightarrow> safeStep K H st st2"
  unfolding safeStep_def by (metis append_assoc in_set_conv_decomp append_Cons Un_iff set_append)

lemma safeStep_rv [simp]: "safeStep K H (st \<lparr> st_rv := rv \<rparr>) st' = safeStep K H st st'"
    "safeStep K H st (st' \<lparr> st_rv := rv \<rparr>) = safeStep K H st st'"
  by (auto simp: safeStep_def)

lemma safeStepI:
  assumes "st_calls st' = st_calls st @ new" "held H (st_rvrs st) \<Longrightarrow> held H (st_rvrs st')"
    "held H (st_rvrs st) \<Longrightarrow> \<forall>c \<in> set new. safeCall K H c"
  shows "safeStep K H st st'"
  using assms by (auto simp: safeStep_def)

lemma held_simps [simp]: "held H []" "held H (r # rs) \<longleftrightarrow> (rvr_Name r \<in> H \<longrightarrow> HasFinalizer (rvr_Finalizers r) RVControllerFinalizer) \<and> held H rs"
  by (auto simp: held_def)

lemma Has_Add [simp]: "HasFinalizer (snd (AddFinalizer fs f)) f"
  by (simp add: HasFinalizer_def AddFinalizer_def)

subsection \<open>Creating replicas\<close>

lemma createReplica_safe:
  assumes "createReplica cl rv rvrs ty node = Some (c, calls)" and cl: "echoes cl" and ty: "ty = RT_Access \<or> ty = RT_TieBreaker"
  shows "(\<forall>c \<in> set calls. safeCall K H c) \<and> (\<forall>obj rvrs'. c = Created obj rvrs' \<longrightarrow> held H rvrs \<longrightarrow> held H rvrs')"
proof -
  have new: "rvr_Type r = ty \<and> HasFinalizer (rvr_Finalizers r) RVControllerFinalizer" if "newRVR rv rvrs ty node = Some (Inr r)" for r
    using that by (auto simp: newRVR_def ChooseNewName_def res_simps Let_def split: if_splits)
  have ins: "set rvrs' = insert obj (set rvrs)" if "insertRVRSorted rvrs obj = Some rvrs'" for obj rvrs'
    using that by (auto simp: insertRVRSorted_def res_simps dest: in_set_takeD in_set_dropD) (metis Un_iff append_take_drop_id set_append)
  show ?thesis
    using assms(1) ty unfolding createReplica_def
    by (elim runE) (auto simp: held_def dest!: new ins echoesD(1) [OF cl] split: if_splits)
qed

lemma createAccess_safe:
  "createAccessReplicas cl rsp nodes rvas st = Some (out, st') \<Longrightarrow> echoes cl \<Longrightarrow> safeStep K H st st' \<and> st_rv st' = st_rv st"
proof (induction rvas arbitrary: nodes st)
  case (Cons rva rvas)
  show ?case
  proof (cases "createAccessReplicas cl rsp nodes rvas st = Some (out, st') \<or> (out, st') = (rf_Continue, st)")
    case True
    then show ?thesis using Cons.IH Cons.prems(2) by auto
  next
    case False
    obtain en where en: "\<not> (rva_Deleting rva \<or> rva_NodeName rva \<in> set nodes)" "view_FindEligibleNode rsp (rva_NodeName rva) = Some en"
      "\<not> (\<not> en_NodeReady en \<or> \<not> en_AgentReady en)" "\<not> length (st_rvrs st) \<ge> RVRMaxID + 1"
      using False Cons.prems(1) by (auto simp: Let_def split: option.splits if_splits)
    obtain c calls where c: "createReplica cl (st_rv st) (st_rvrs st) RT_Access (rva_NodeName rva) = Some (c, calls)"
      using Cons.prems(1) en by (auto simp: Let_def res_simps)
    note s = createReplica_safe [OF c Cons.prems(2), of K H]
    let ?st1 = "st \<lparr> st_calls := st_calls st @ calls \<rparr>"
    have st1: "safeStep K H st ?st1" using s by (intro safeStepI [where new = calls]) auto
    show ?thesis
    proof (cases c)
      case (Created obj rvrs)
      have "createAccessReplicas cl rsp (rva_NodeName rva # nodes) rvas (?st1 \<lparr> st_rvrs := rvrs \<rparr>) = Some (out, st')"
        using Cons.prems(1) en c Created by (simp add: Let_def)
      from Cons.IH [OF this Cons.prems(2)]
      have "safeStep K H (?st1 \<lparr> st_rvrs := rvrs \<rparr>) st' \<and> st_rv st' = st_rv st" by simp
      moreover have "safeStep K H st (?st1 \<lparr> st_rvrs := rvrs \<rparr>)"
        using s Created by (intro safeStepI [where new = calls]) auto
      ultimately show ?thesis using safeStep_trans by blast
    qed (use Cons.prems(1) en c st1 in \<open>auto simp: Let_def\<close>)
  qed
qed simp

lemma reconcileCreateAccess_safe:
  assumes "reconcileCreateAccessReplicas cl rsp st = Some (out, st')" "echoes cl"
  shows "safeStep K H st st' \<and> st_rv st' = st_rv st"
  using assms unfolding reconcileCreateAccessReplicas_def by (elim runE) (auto dest: createAccess_safe)

subsection \<open>Deleting Access replicas\<close>

lemma deleteWhere_access:
  assumes "deleteWhere what (deleteRVR cl) P rvrs = Some (err, rvrs', calls)"
    and "\<And>r. P r = Some True \<Longrightarrow> safeCall K H (CallDeleteRVR r)"
  shows "(\<forall>c \<in> set calls. safeCall K H c) \<and> (held H rvrs \<longrightarrow> held H rvrs')"
  using assms(1)
proof (induction rvrs arbitrary: err rvrs' calls)
  case (Cons r rs)
  have kept: "deleteRVR cl r = (e, r', cs) \<Longrightarrow> rvr_Name r' = rvr_Name r \<and> rvr_Finalizers r' = rvr_Finalizers r" for e r' cs
    by (auto simp: deleteRVR_def split: if_splits option.splits)
  have safe: "P r = Some True \<Longrightarrow> deleteRVR cl r = (e, r', cs) \<Longrightarrow> c \<in> set cs \<Longrightarrow> safeCall K H c" for e r' cs c
    using assms(2) [of r] by (auto simp: deleteRVR_def simp del: safeCall.simps split: if_splits option.splits)
  show ?case
    using Cons.prems unfolding deleteWhere.simps
    by (elim runE) (auto simp del: safeCall.simps split: option.splits prod.splits dest!: Cons.IH elim!: runE dest: kept safe)
qed simp

lemma unneeded_safe:
  assumes "isUnneededAccess rv rvas attached trs r = Some True" and "membersWhere m_Attached (rv_Members rv) = Some attached"
    and K: "core rv = K"
  shows "safeCall K H (CallDeleteRVR r)"
proof -
  have r: "rvr_Type r = RT_Access" "\<not> rvr_Deleting r"
    using assms(1) by (auto simp: isUnneededAccess_def split: if_splits)
  then obtain i where i: "rvrID r = Some i" "unat i \<notin> ids attached"
    using assms(1) by (auto simp: isUnneededAccess_def res_simps Let_def simp del: in_ids)
  have "\<not> attachedAs (rv_Datamesh rv) r" if "unat i < 32"
    using i that membersWhere_ids [OF assms(2)] by (fastforce simp: attachedAs_def simp del: in_ids)
  then show ?thesis using r i K by (auto simp: core_def)
qed

lemma reconcileDeleteAccess_safe:
  assumes "reconcileDeleteAccessReplicas cl st = Some (out, st')" "core (st_rv st) = K"
  shows "safeStep K H st st' \<and> st_rv st' = st_rv st"
proof -
  obtain attached trs err rvrs calls where d: "membersWhere m_Attached (rv_Members (st_rv st)) = Some attached"
    "deleteWhere ''deleting Access RVR '' (deleteRVR cl) (isUnneededAccess (st_rv st) (st_rvas st) attached trs) (st_rvrs st)
       = Some (err, rvrs, calls)" "st' = st \<lparr> st_rvrs := rvrs, st_calls := st_calls st @ calls \<rparr>"
    using assms(1) unfolding reconcileDeleteAccessReplicas_def Let_def by (elim runE) auto
  have "(\<forall>c \<in> set calls. safeCall K H c) \<and> (held H (st_rvrs st) \<longrightarrow> held H rvrs)"
    by (rule deleteWhere_access [OF d(2)]) (rule unneeded_safe [OF _ d(1) assms(2)])
  then show ?thesis using d(3) by (auto intro: safeStepI [where new = calls])
qed

subsection \<open>Layout\<close>

lemma retype_safe:
  assumes "retypeReplica cl rvr st = (out, st')" "rvr \<in> set (st_rvrs st)" "echoes cl"
  shows "safeStep K H st st' \<and> st_rv st' = st_rv st"
proof -
  let ?r = "applyRVRRetypeToTieBreaker rvr"
  have f: "rvr_Name ?r = rvr_Name rvr" "rvr_Finalizers ?r = rvr_Finalizers rvr" by (simp_all add: applyRVRRetypeToTieBreaker_def)
  have put: "held H (putRVR r rvrs)" if "held H rvrs" "rvr \<in> set rvrs" "rvr_Name r = rvr_Name rvr" "rvr_Finalizers r = rvr_Finalizers rvr" for r rvrs
    using that by (auto simp: held_def putRVR_def)
  show ?thesis
    using assms f put [of _ ?r] put unfolding retypeReplica_def Let_def
    by (auto split: sum.splits intro!: safeStepI [where new = "[CallPatchRVR ?r]"] dest!: echoesD(2) [OF assms(3)] simp: held_def)
qed

lemma layoutConvergence_safe:
  assumes "reconcileLayoutConvergence cl st = Some (out, st')" "echoes cl"
  shows "safeStep K H st st' \<and> st_rv st' = st_rv st"
proof -
  have tb: "safeStep K H st st' \<and> st_rv st' = st_rv st" if run: "createTieBreaker cl st = Some (out, st')"
  proof -
    obtain c calls where c: "createReplica cl (st_rv st) (st_rvrs st) RT_TieBreaker [] = Some (c, calls)"
      using run unfolding createTieBreaker_def by (elim runE)
    from createReplica_safe [OF c assms(2), of K H] run c show ?thesis
      by (cases c) (auto simp: createTieBreaker_def intro!: safeStepI [where new = calls])
  qed
  have found: "r \<in> set rvrs" if "findRVRByName rvrs n = Some r" for rvrs n r
    using that by (auto simp: findRVRByName_def find_Some_iff)
  show ?thesis
    using assms unfolding reconcileLayoutConvergence_def
    by (elim runE) (auto split: targetLayoutAction.splits elim!: runE dest!: retype_safe found tb)
qed

subsection \<open>Stages that only make calls on attachments, or none\<close>

lemma rvaCalls_safe: "\<forall>c \<in> set cs. (\<exists>a. c = CallPatchRVA a) \<or> (\<exists>a. c = CallPatchRVAStatus a) \<Longrightarrow> c \<in> set cs \<Longrightarrow> safeCall K H c"
  by (cases c) auto

lemma nodeRVAs_calls:
  "nodeRVAs cl now a b rvr rs (rvas, calls) = (err, rvas', calls') \<Longrightarrow> \<exists>cs. calls' = calls @ map CallPatchRVAStatus cs"
proof (induction rs arbitrary: rvas calls)
  case (Cons r rs)
  let ?r = "applyRVAStatus cl now a b rvr r"
  show ?case
  proof (cases "rvaStatusInSync a b rvr r")
    case False
    then show ?thesis
    proof (cases "patchRVAStatus cl ?r r")
      case (Inr r2)
      then obtain cs where "calls' = (calls @ [CallPatchRVAStatus ?r]) @ map CallPatchRVAStatus cs"
        using Cons.IH Cons.prems False by (fastforce simp: Let_def)
      then show ?thesis by (intro exI [of _ "?r # cs"]) simp
    qed (use Cons.prems in \<open>auto simp: Let_def intro: exI [of _ "[?r]"]\<close>)
  qed (use Cons in auto)
qed (simp add: exI [of _ "[]"])

lemma contextRVAs_calls:
  "contextRVAs cl now rcs (rvas, calls) = Some (err, rvas', calls') \<Longrightarrow> \<exists>cs. calls' = calls @ map CallPatchRVAStatus cs"
proof (induction rcs arbitrary: rvas calls)
  case (Cons rc rcs)
  show ?case
  proof (cases "rx_rvas rc = []")
    case False
    obtain a where a: "computeRVAAttachedCondition (rx_attachmentConditionReason rc) (rx_attachmentConditionMessage rc) = Some a"
      using Cons.prems False by (auto simp: res_simps)
    obtain e rvas1 calls1 where n: "nodeRVAs cl now a (computeRVAReplicaReadyCondition (rx_rvr rc)) (rx_rvr rc) (rx_rvas rc) (rvas, calls)
        = (e, rvas1, calls1)" by (metis prod_cases3)
    then obtain cs where cs: "calls1 = calls @ map CallPatchRVAStatus cs" using nodeRVAs_calls by blast
    show ?thesis
    proof (cases e)
      case None
      then obtain cs' where "calls' = calls1 @ map CallPatchRVAStatus cs'" using Cons False a n by fastforce
      then show ?thesis using cs by (intro exI [of _ "cs @ cs'"]) simp
    qed (use Cons.prems False a n cs in auto)
  qed (use Cons in auto)
qed (simp add: exI [of _ "[]"])

lemma rvaConditions_safe:
  assumes "reconcileRVAConditionsFromDatameshReplicaContext cl now rcs st = Some (out, st')"
  shows "safeStep K H st st' \<and> st_rv st' = st_rv st"
proof -
  obtain err rvas calls where c: "contextRVAs cl now rcs (st_rvas st, st_calls st) = Some (err, rvas, calls)"
    "st' = st \<lparr> st_rvas := rvas, st_calls := calls \<rparr>"
    using assms by (auto simp: reconcileRVAConditionsFromDatameshReplicaContext_def res_simps)
  then obtain cs where "calls = st_calls st @ map CallPatchRVAStatus cs" using contextRVAs_calls by blast
  then show ?thesis using c by (auto intro!: safeStepI [where new = "map CallPatchRVAStatus cs"])
qed

lemma metadataRVAs_calls:
  "metadataRVAs cl rv visited rs = (err, rvas, calls) \<Longrightarrow> \<exists>cs. calls = map CallPatchRVA cs"
proof (induction rs arbitrary: visited rvas err calls)
  case (Cons r rs)
  show ?case
  proof (cases "rvaMetadataTarget rv (visited @ r # rs) r")
    case (Some wr)
    then obtain w r1 where wr: "wr = (w, r1)" by (cases wr)
    show ?thesis
    proof (cases "cl_PatchRVA cl r1 r")
      case (Inr r2)
      obtain e rvas1 calls1 where m: "metadataRVAs cl rv (visited @ [r2]) rs = (e, rvas1, calls1)" by (metis prod_cases3)
      then obtain cs where "calls1 = map CallPatchRVA cs" using Cons.IH by blast
      then show ?thesis using Cons.prems Some wr Inr m by (intro exI [of _ "r1 # cs"]) simp
    qed (use Cons.prems Some wr in \<open>auto intro: exI [of _ "[r1]"]\<close>)
  qed (use Cons in auto)
qed (simp add: exI [of _ "[]"])

lemma rvaMetadata_safe:
  assumes "reconcileRVAMetadata cl rv st = (out, st')"
  shows "safeStep K H st st' \<and> st_rv st' = st_rv st \<and> st_rvrs st' = st_rvrs st"
proof -
  obtain err rvas calls where m: "metadataRVAs cl rv [] (st_rvas st) = (err, rvas, calls)" by (metis prod_cases3)
  then obtain cs where "calls = map CallPatchRVA cs" using metadataRVAs_calls by blast
  then show ?thesis using assms m by (auto simp: reconcileRVAMetadata_def intro!: safeStepI [where new = "map CallPatchRVA cs"])
qed

subsection \<open>Finalizers\<close>

lemma rvrFinalizerTarget_safe:
  assumes "rvrFinalizerTarget (Some rv) r = Some (what, r1)" and "\<forall>n \<in> H. isRVRMemberOrLeavingDatamesh (Some rv) n"
  shows "rvr_Name r1 = rvr_Name r \<and> (rvr_Name r \<in> H \<longrightarrow> HasFinalizer (rvr_Finalizers r1) RVControllerFinalizer)"
  using assms by (auto simp: rvrFinalizerTarget_def split: if_splits)

lemma finalizeRVRs_safe:
  assumes "finalizeRVRs cl (Some rv) rvrs = (err, rvrs', calls)" and "\<forall>n \<in> H. isRVRMemberOrLeavingDatamesh (Some rv) n"
    and "echoes cl" "held H rvrs"
  shows "held H rvrs' \<and> (\<forall>c \<in> set calls. safeCall K H c)"
  using assms(1,4)
proof (induction rvrs arbitrary: err rvrs' calls)
  case (Cons r rs)
  note [dest!] = rvrFinalizerTarget_safe [OF _ assms(2)] echoesD(2) [OF assms(3)] Cons.IH
  show ?case using Cons.prems by (auto split: option.splits sum.splits prod.splits)
qed simp

lemma rvrFinalizers_safe:
  assumes "reconcileRVRFinalizers cl st = (out, st')" and "\<forall>n \<in> H. isRVRMemberOrLeavingDatamesh (Some (st_rv st)) n" and "echoes cl"
  shows "safeStep K H st st' \<and> st_rv st' = st_rv st"
proof -
  obtain err rvrs calls where f: "finalizeRVRs cl (Some (st_rv st)) (st_rvrs st) = (err, rvrs, calls)" by (metis prod_cases3)
  then show ?thesis
    using assms(1) finalizeRVRs_safe [OF f assms(2,3), of K]
    by (auto simp: reconcileRVRFinalizers_def intro!: safeStepI [where new = calls])
qed

subsection \<open>The stages of a pass\<close>

lemma metadata_safe:
  assumes "reconcileMetadata cl st = (out, st')" "echoes cl"
  shows "safeStep K H st st' \<and> core (st_rv st') = core (st_rv st)"
proof -
  have "core (snd (applyRVMetadata rv t)) = core rv" for rv t
    by (simp add: applyRVMetadata_def core_def split: prod.splits)
  then show ?thesis
    using assms(1) echoesD(3) [OF assms(2)] unfolding reconcileMetadata_def Let_def
    by (auto split: if_splits sum.splits intro!: safeStepI [where new = "[CallPatchRV (snd (applyRVMetadata (st_rv st) t))]" for t])
qed

lemma core_mesh: "meshOf rv' = meshOf rv \<Longrightarrow> core rv' = core rv"
  by (simp add: core_def meshOf_def)

lemma configure_safe:
  assumes "configureVolume E rsc out st = Some (out', st')"
  shows "safeStep K H st st' \<and> core (st_rv st') = core (st_rv st)"
  using assms unfolding configureVolume_def
  by (elim runE) (auto dest!: meshOf_configuration core_mesh)

lemma prepare_safe:
  assumes "prepareVolume E out st = Some (out', st')"
  shows "safeStep K H st st' \<and> core (st_rv st') = core (st_rv st)"
proof -
  have "core rv' = core rv" if "ensureDatameshReplicaRequests now rv rvrs = Some (eo, rv')" for now rv rvrs eo rv'
    using that unfolding ensureDatameshReplicaRequests_def Let_def by (elim runE) (auto simp: core_def)
  moreover have "core rv' = core rv" if "ensureStatusSize rv rvrs = Some (eo, rv')" for rv rvrs eo rv'
    using that by (auto simp: ensureStatusSize_def res_simps core_def Let_def)
  ultimately show ?thesis using assms unfolding prepareVolume_def Let_def by (elim runE) auto
qed

lemma layoutStatus_safe:
  assumes "reconcileLayoutStatus cl now st = Some (out, st')"
  shows "safeStep K H st st' \<and> core (st_rv st') = core (st_rv st)"
proof -
  have "core (snd (applyMembershipLayout rv l)) = core rv" "core (snd (applyMembershipLayoutConvergedCond cl now rep rv)) = core rv" for rv l rep
    by (auto simp: applyMembershipLayout_def applyMembershipLayoutConvergedCond_def core_def split: prod.splits)
  then show ?thesis
    using assms unfolding reconcileLayoutStatus_def Let_def by (elim runE) (auto, metis snd_conv)
qed

text \<open>The datamesh a pass ends up with: that of the volume, or what \<open>ProcessTransitions\<close> makes of it.\<close>

definition processed :: "ReconcileEnv \<Rightarrow> int \<times> Datamesh \<times> Transition list \<Rightarrow> int \<times> Datamesh \<times> Transition list \<Rightarrow> bool" where
  "processed E K0 K \<longleftrightarrow> K = K0 \<or> (\<exists>rv rsp rvrs rvas ch rcs rv'. core rv = K0 \<and> core rv' = K
     \<and> ProcessTransitions (re_registry E) (re_clock E) (re_realloc E) rv (Some rsp) rvrs rvas \<lparr> ff_ShadowDiskful = False \<rparr> = Some (ch, rcs, rv'))"

lemma normalOperation_safe:
  assumes "reconcileNormalOperation E rsp st = Some (out, st')" "echoes (re_Client E)"
  shows "safeStep (core (st_rv st')) H st st' \<and> processed E (core (st_rv st)) (core (st_rv st'))"
proof -
  obtain o1 st1 where c: "reconcileCreateAccessReplicas (re_Client E) (Some rsp) st = Some (o1, st1)"
    using assms(1) unfolding reconcileNormalOperation_def by (elim bindPairE)
  note s1 = reconcileCreateAccess_safe [OF c assms(2)]
  show ?thesis
  proof (cases "ShouldReturn o1")
    case True
    then show ?thesis using assms(1) c s1 by (auto simp: reconcileNormalOperation_def processed_def)
  next
    case False
    obtain ch rcs rv where pt: "ProcessTransitions (re_registry E) (re_clock E) (re_realloc E) (st_rv st1) (Some (asRSP rsp))
         (st_rvrs st1) (st_rvas st1) \<lparr> ff_ShadowDiskful = False \<rparr> = Some (ch, rcs, rv)"
      using assms(1) c False by (auto simp: reconcileNormalOperation_def elim!: bindTripleE)
    obtain o3 st3 where r3: "reconcileRVAConditionsFromDatameshReplicaContext (re_Client E) (re_now E) rcs (st1 \<lparr> st_rv := rv \<rparr>) = Some (o3, st3)"
      using assms(1) c False pt by (auto simp: reconcileNormalOperation_def Let_def elim!: bindPairE)
    obtain o4 st4 where r4: "reconcileDeleteAccessReplicas (re_Client E) st3 = Some (o4, st4)"
      using assms(1) c False pt r3 by (auto simp: reconcileNormalOperation_def Let_def elim!: bindPairE)
    have s3: "safeStep K H st1 st3 \<and> st_rv st3 = rv" for K using rvaConditions_safe [OF r3, of K H] by simp
    have s4: "safeStep (core rv) H st3 st4 \<and> st_rv st4 = rv" using reconcileDeleteAccess_safe [OF r4] s3 by simp
    have s5: "safeStep (core rv) H st4 st' \<and> st_rv st' = rv"
    proof (cases "ShouldReturn (outcome_Merge (if ch then ReportChanged o1 else o1) [o3, o4])")
      case True
      then show ?thesis using assms(1) c False pt r3 r4 s4 by (auto simp: reconcileNormalOperation_def Let_def)
    next
      case f: False
      then obtain o6 where "reconcileLayoutConvergence (re_Client E) st4 = Some (o6, st')"
        using assms(1) c False pt r3 r4 by (auto simp: reconcileNormalOperation_def Let_def elim!: bindPairE)
      from layoutConvergence_safe [OF this assms(2)] show ?thesis using s4 by simp
    qed
    have "processed E (core (st_rv st)) (core rv)" unfolding processed_def using pt s1 by metis
    then show ?thesis using s1 s3 s4 s5 safeStep_trans by metis
  qed
qed

lemma process_safe:
  assumes "processVolume E rsc out st = Some (out', st')" "echoes (re_Client E)" "isFormationInProgress (st_rv st) = (False, k)"
  shows "safeStep (core (st_rv st')) H st st' \<and> processed E (core (st_rv st)) (core (st_rv st'))"
proof (cases "st' = st")
  case True
  then show ?thesis by (simp add: processed_def)
next
  case False
  then obtain rsp o1 rv1 o2 st2 o3 where r: "reconcileRVConfiguration (fe_Config (re_Formation E)) (st_rv st) rsc = Some (o1, rv1)"
    "reconcileNormalOperation E rsp (st \<lparr> st_rv := rv1 \<rparr>) = Some (o2, st2)"
    "reconcileLayoutStatus (re_Client E) (re_now E) st2 = Some (o3, st')"
    using assms(1,3) unfolding processVolume_def Let_def by (elim runE) (auto elim!: runE)
  show ?thesis
    using core_mesh [OF meshOf_configuration [OF r(1)]] normalOperation_safe [OF r(2) assms(2), of H]
      layoutStatus_safe [OF r(3), of "core (st_rv st')" H]
    by (auto intro: safeStep_trans)
qed

definition protectedNames :: "int \<times> Datamesh \<times> Transition list \<Rightarrow> string set" where
  "protectedNames K = {n. FindMemberByName (fst (snd K)) n \<noteq> None
     \<or> list_ex (\<lambda>t. t_Type t = TT_RemoveReplica \<and> t_ReplicaName t = n) (snd (snd K))}"

lemma protected_iff: "isRVRMemberOrLeavingDatamesh (Some rv) n \<longleftrightarrow> n \<in> protectedNames (core rv)"
  by (simp add: isRVRMemberOrLeavingDatamesh_def protectedNames_def core_def)

lemma finish_safe:
  assumes "finishVolume E base out st = (out', st')" "echoes (re_Client E)" "H \<subseteq> protectedNames (core (st_rv st))"
  shows "safeStep (core (st_rv st)) H st st' \<and> core (st_rv st') = core (st_rv st)"
proof -
  let ?K = "core (st_rv st)"
  obtain o2 st2 where m: "reconcileRVAMetadata (re_Client E) (Some (st_rv st)) st = (o2, st2)" by fastforce
  obtain o3 st3 where f: "reconcileRVRFinalizers (re_Client E) st2 = (o3, st3)" by fastforce
  note s2 = rvaMetadata_safe [OF m, of ?K H]
  have s3: "safeStep ?K H st2 st3 \<and> st_rv st3 = st_rv st"
    using rvrFinalizers_safe [OF f _ assms(2), where K = ?K and H = H] assms(3) s2 by (auto simp: protected_iff)
  have "st' = st3 \<or> (st' = st3 \<lparr> st_calls := st_calls st3 @ [CallPatchRVStatus (st_rv st3)] \<rparr>
     \<or> (\<exists>rv. cl_PatchRVStatus (re_Client E) (st_rv st3) base = Inr rv
          \<and> st' = st3 \<lparr> st_rv := rv, st_calls := st_calls st3 @ [CallPatchRVStatus (st_rv st3)] \<rparr>))"
    using assms(1) m f by (auto simp: finishVolume_def Let_def split: if_splits sum.splits)
  then have "safeStep ?K H st3 st' \<and> core (st_rv st') = ?K"
    using s3 by (auto intro: safeStepI [where new = "[CallPatchRVStatus (st_rv st3)]"] dest: echoesD(4) [OF assms(2)])
  then show ?thesis using s2 s3 safeStep_trans by blast
qed

lemma andThenE:
  assumes "andThen m k = Some (out, st')"
  obtains "m = Some (out, st')" "ShouldReturn out" | o1 st1 where "m = Some (o1, st1)" "\<not> ShouldReturn o1" "k o1 st1 = Some (out, st')"
  using assms unfolding andThen_def by (elim bindPairE) (auto split: if_splits)

text \<open>A pass over a volume that is formed and is not to be removed.\<close>

lemma formed_core: "core rv' = core rv \<Longrightarrow> isFormationInProgress rv' = isFormationInProgress rv"
  by (simp add: core_def isFormationInProgress_def)

lemma pass_safe:
  assumes "reconcileVolume E rsc st = Some (out, st')" "echoes (re_Client E)" "\<not> rvShouldNotExist (Some (st_rv st))"
    and "isFormationInProgress (st_rv st) = (False, k)" and H: "H \<subseteq> protectedNames (core (st_rv st'))"
  shows "safeStep (core (st_rv st')) H st st' \<and> processed E (core (st_rv st)) (core (st_rv st'))"
proof -
  let ?K = "core (st_rv st')"
  note run = assms(1) [unfolded reconcileVolume_def if_not_P [OF assms(3)]]
  have same: "processed E (core (st_rv st)) (core (st_rv st))" by (simp add: processed_def)
  obtain o1 st1 where m: "reconcileMetadata (re_Client E) st = (o1, st1)" by fastforce
  note s1 = metadata_safe [OF m assms(2), of ?K H]
  show ?thesis
    using run
  proof (cases rule: andThenE)
    case 1
    then have "st1 = st'" using m by simp
    then show ?thesis using s1 same by metis
  next
    case (2 o1' st1')
    then have e: "o1' = o1" "st1' = st1" using m by simp_all
    show ?thesis
      using 2(3) unfolding e
    proof (cases rule: andThenE)
      case 1
      then show ?thesis using s1 configure_safe [OF 1(1), of ?K H] same by (auto intro: safeStep_trans)
    next
      case (2 o2 st2)
      note s2 = configure_safe [OF 2(1), of ?K H]
      show ?thesis
        using 2(3)
      proof (cases rule: andThenE)
        case 1
        then show ?thesis using s1 s2 prepare_safe [OF 1(1), of ?K H] same by (metis safeStep_trans)
      next
        case (2 o3 st3)
        note s3 = prepare_safe [OF 2(1), of ?K H]
        have c3: "core (st_rv st3) = core (st_rv st)" "safeStep ?K H st st3" using s1 s2 s3 by (auto intro: safeStep_trans)
        then have formed: "isFormationInProgress (st_rv st3) = (False, k)" using assms(4) formed_core by metis
        show ?thesis
          using 2(3)
        proof (cases rule: andThenE)
          case 1
          from process_safe [OF this(1) assms(2) formed, of H] show ?thesis using c3 by (auto intro: safeStep_trans)
        next
          case (2 o4 st4)
          then have f: "finishVolume E (st_rv st1) o4 st4 = (out, st')" by simp
          have s5: "core (st_rv st') = core (st_rv st4)" using finish_safe [OF f assms(2), of "{}"] by simp
          then show ?thesis
            using finish_safe [OF f assms(2), of H] H process_safe [OF 2(1) assms(2) formed, of H] c3 by (auto intro: safeStep_trans)
        qed
      qed
    qed
  qed
qed

end
