(* ===== verification/Rv_Reconcile_Props.thy ===== *)
theory Rv_Reconcile_Props
  imports Rv_Reconcile_Laws
begin

text \<open>
  The properties of a whole pass of the volume reconciler, with a concrete pass that satisfies their
  hypotheses: a formed volume with one diskful member, and an Access replica that nothing needs.
\<close>

subsection \<open>From the reads to the pass\<close>

lemma Reconcile_pass:
  assumes "rv_Reconcile E R = Some (res, calls)" "rd_RV R = Inr rv"
  obtains "calls = []" | rsc rvas rvrs out st' where "rd_RVRs R = Inr rvrs"
    "reconcileVolume E rsc \<lparr> st_rv = rv, st_rvrs = getRVRsSorted rvrs, st_rvas = getRVAsSorted rvas, st_calls = [] \<rparr> = Some (out, st')"
    "calls = st_calls st'"
  using assms by (auto simp: rv_Reconcile_def getOrNil_def res_simps split: sum.splits)

lemma undeleted_exists: "rv_DeletionTimestamp rv = None \<Longrightarrow> \<not> rvShouldNotExist (Some rv)"
  by (simp add: rvShouldNotExist_def)

lemma Reconcile_safe:
  assumes "rv_Reconcile E R = Some (res, calls)" "rd_RV R = Inr rv" "rv_DeletionTimestamp rv = None"
    and "isFormationInProgress rv = (False, k)" "echoes (re_Client E)"
  obtains K where "processed E (core rv) K" "\<And>c. c \<in> set calls \<Longrightarrow> safeCall K {} c"
  using assms(1,2)
proof (cases rule: Reconcile_pass)
  case 1
  then show ?thesis using that [of "core rv"] by (simp add: processed_def)
next
  case (2 rvrs rsc rvas out st')
  from pass_safe [OF 2(2) assms(5), of k "{}"] show ?thesis
    using that [of "core (st_rv st')"] 2(3) assms(3,4) undeleted_exists by (auto simp: safeStep_def held_def)
qed

lemma ProcessTransitions_compatible:
  assumes "BuildRegistry qs None = Some reg"
    and "ProcessTransitions reg now realloc rv rsp rvrs rvas feat = Some (ch, rcs, rv')"
    and "0 \<le> rv_DatameshRevision rv"
    and "\<forall>t \<in> set (rv_DatameshTransitions rv). steps_ok t \<and> revs_le (rv_DatameshRevision rv) t"
    and "compatible (mset (map view (rv_DatameshTransitions rv)))"
    and "\<forall>t \<in> set (rv_DatameshTransitions rv). replicaGroup t \<longrightarrow> validID t"
  shows "rv_DatameshRevision rv \<le> rv_DatameshRevision rv'
    \<and> (\<forall>t \<in> set (rv_DatameshTransitions rv'). steps_ok t \<and> revs_le (rv_DatameshRevision rv') t)
    \<and> compatible (mset (map view (rv_DatameshTransitions rv')))
    \<and> (\<forall>t \<in> set (rv_DatameshTransitions rv'). replicaGroup t \<longrightarrow> validID t)"
proof -
  have reg: "reg = datameshRegistry qs" using assms(1) by (simp add: BuildRegistry_eq)
  have adm: "\<forall>t N. add_mset t N \<subseteq># mset (map view (rv_DatameshTransitions rv)) \<longrightarrow> admissible t N"
    using sub_admissible [OF assms(5)] assms(6) by auto
  from assms(2)[unfolded reg] show ?thesis
  proof (cases rule: ProcessTransitions_SomeD)
    case (1 g e0 c e1 result e2)
    from dmx.lifecycle_tracked [OF 1(2,3,4) assms(3,4) initial_tracks [OF 1(1)] adm] dm.lifecycle [OF 1(2,3,4) assms(3,4)]
    show ?thesis using 1(5,6) by (auto simp: tracks_def)
  qed
qed

subsection \<open>A pass to evaluate\<close>

definition exPass :: "dregistry \<Rightarrow> ReconcileEnv" where
  "exPass reg = \<lparr> re_Formation = exEnv 1000, re_registry = reg, re_clock = exNow, re_realloc = False, re_GetRSP = (\<lambda>_. Inr exView) \<rparr>"

abbreviation exFormed :: RV where
  "exFormed \<equiv> exRV 1 1 [exMember 0 MT_Diskful] [] []"

definition exListed :: "RVR list" where
  "exListed = [exRVR 0 7 \<lparr> rvr_Finalizers := [RVControllerFinalizer] \<rparr>, exRVR 1 7 \<lparr> rvr_Type := RT_Access \<rparr>]"

definition exReads :: ReconcileReads where
  "exReads = \<lparr> rd_RV = Inr exFormed, rd_RSC = (\<lambda>_. Inl (errorf [])), rd_RVAs = Inr [], rd_RVRs = Inr exListed \<rparr>"

definition exState :: rstate where
  "exState = \<lparr> st_rv = exFormed, st_rvrs = exListed, st_rvas = [], st_calls = [] \<rparr>"

text \<open>The pass adds the finalizer of the volume, deletes the Access replica and publishes the status.\<close>

definition deletedIn :: "apiCall list \<Rightarrow> RVR list" where
  "deletedIn calls = List.map_filter (\<lambda>c. case c of CallDeleteRVR r \<Rightarrow> Some r | _ \<Rightarrow> None) calls"

definition publishedIn :: "apiCall list \<Rightarrow> RV list" where
  "publishedIn calls = List.map_filter (\<lambda>c. case c of CallPatchRVStatus rv \<Rightarrow> Some rv | _ \<Rightarrow> None) calls"

definition exOutline :: "apiCall list \<Rightarrow> bool" where
  "exOutline calls \<longleftrightarrow> length calls = 3 \<and> map rvr_Name (deletedIn calls) = [''vol-1'']
     \<and> map rv_Members (publishedIn calls) = [[exMember 0 MT_Diskful]]"

lemma exPass_runs: "\<exists>res calls. rv_Reconcile (exPass reg) exReads = Some (res, calls) \<and> exOutline calls"
proof -
  have "map_option (\<lambda>(res, calls). exOutline calls) (rv_Reconcile (exPass reg) exReads) = Some True" by code_simp
  then show ?thesis by auto
qed

lemma exState_runs: "\<exists>out st'. reconcileVolume (exPass reg) None exState = Some (out, st') \<and> exOutline (st_calls st')
   \<and> rv_Members (st_rv st') = [exMember 0 MT_Diskful]"
proof -
  have "map_option (\<lambda>(out, st'). (exOutline (st_calls st'), rv_Members (st_rv st'))) (reconcileVolume (exPass reg) None exState)
      = Some (True, [exMember 0 MT_Diskful])" by code_simp
  then show ?thesis by auto
qed

lemma exOutlineE:
  assumes "exOutline calls"
  obtains r rv where "CallDeleteRVR r \<in> set calls" "CallPatchRVStatus rv \<in> set calls"
proof -
  have "r \<in> set (deletedIn calls) \<Longrightarrow> CallDeleteRVR r \<in> set calls" "rv \<in> set (publishedIn calls) \<Longrightarrow> CallPatchRVStatus rv \<in> set calls" for r rv
    by (auto simp: deletedIn_def publishedIn_def List.map_filter_def split: apiCall.splits)
  moreover obtain r rv where "r \<in> set (deletedIn calls)" "rv \<in> set (publishedIn calls)"
    using assms by (cases "deletedIn calls"; cases "publishedIn calls") (auto simp: exOutline_def)
  ultimately show ?thesis using that by blast
qed

lemma exPass_ok:
  "echoes (re_Client (exPass reg))" "isFormationInProgress exFormed = (False, 0)" "rd_RV exReads = Inr exFormed"
  "rv_DeletionTimestamp exFormed = None" "re_registry (exPass reg) = reg"
  by (simp_all add: echoes_def exPass_def exEnv_def exClient_def exReads_def exRV_def) (simp add: isFormationInProgress_def exRV_def)

subsection \<open>Properties\<close>

text \<open>C11: a pass over a formed volume that is not being deleted never touches its data. Whatever it creates is an Access
  replica or a tie-breaker; whatever it deletes is an Access replica that is not deleting yet and, in the
  datamesh it publishes, is not attached; and it starts no DRBD operation.\<close>

theorem reconcile_spares_data:
  assumes "rv_Reconcile E R = Some (res, calls)" "rd_RV R = Inr rv" "rv_DeletionTimestamp rv = None"
    and "isFormationInProgress rv = (False, k)" "echoes (re_Client E)"
  shows "(\<forall>r. CallCreateRVR r \<in> set calls \<longrightarrow> rvr_Type r = RT_Access \<or> rvr_Type r = RT_TieBreaker)
    \<and> (\<forall>r. CallDeleteRVR r \<in> set calls \<longrightarrow> rvr_Type r = RT_Access \<and> \<not> rvr_Deleting r
         \<and> (\<forall>rv' i. CallPatchRVStatus rv' \<in> set calls \<and> rvrID r = Some i \<and> i \<le> 31 \<longrightarrow> \<not> attachedAs (rv_Datamesh rv') r))
    \<and> (\<forall>op. CallCreateOp op \<notin> set calls \<and> CallDeleteOp op \<notin> set calls)"
proof -
  obtain K where "\<And>c. c \<in> set calls \<Longrightarrow> safeCall K {} c" using Reconcile_safe [OF assms] by blast
  then have s: "\<forall>c \<in> set calls. safeCall K {} c" by blast
  have "rv_Datamesh rv' = fst (snd K)" if "CallPatchRVStatus rv' \<in> set calls" for rv'
    using bspec [OF s that] by (auto simp: core_def)
  then show ?thesis using s by (fastforce simp: word_le_nat_alt)
qed

theorem reconcile_spares_data_witness:
  "\<exists>reg res calls r. BuildRegistry (\<lambda>_. []) None = Some reg \<and> rv_Reconcile (exPass reg) exReads = Some (res, calls)
     \<and> CallDeleteRVR r \<in> set calls \<and> rvr_Type r = RT_Access"
proof -
  obtain reg where reg: "BuildRegistry (\<lambda>_. []) None = Some reg" by (simp add: BuildRegistry_eq)
  obtain res calls where run: "rv_Reconcile (exPass reg) exReads = Some (res, calls)" "exOutline calls" using exPass_runs by blast
  from run(2) obtain r where "CallDeleteRVR r \<in> set calls" by (elim exOutlineE) auto
  then show ?thesis using reconcile_spares_data [OF run(1) exPass_ok(3,4,2,1)] reg run(1) by blast
qed

text \<open>C12: a pass over a formed volume keeps the finalizer of a replica in use. If every replica of a name has the
  controller's finalizer, and at the end of the pass the name is that of a datamesh member or of a replica
  that is leaving the datamesh, then no patch of the pass takes the finalizer away.\<close>

theorem reconcile_keeps_finalizers:
  assumes "reconcileVolume E rsc st = Some (out, st')" "st_calls st = []" "echoes (re_Client E)"
    and "\<not> rvShouldNotExist (Some (st_rv st))" "isFormationInProgress (st_rv st) = (False, k)"
    and "isRVRMemberOrLeavingDatamesh (Some (st_rv st')) n"
    and "\<forall>r \<in> set (st_rvrs st). rvr_Name r = n \<longrightarrow> HasFinalizer (rvr_Finalizers r) RVControllerFinalizer"
  shows "\<forall>r. CallPatchRVR r \<in> set (st_calls st') \<and> rvr_Name r = n \<longrightarrow> HasFinalizer (rvr_Finalizers r) RVControllerFinalizer"
proof -
  have "{n} \<subseteq> protectedNames (core (st_rv st'))" using assms(6) by (simp add: protected_iff)
  from pass_safe [OF assms(1,3,4,5) this] show ?thesis
    using assms(2,7) by (fastforce simp: safeStep_def held_def)
qed

theorem reconcile_keeps_finalizers_witness:
  "\<exists>reg out st'. reconcileVolume (exPass reg) None exState = Some (out, st') \<and> exOutline (st_calls st')
     \<and> (\<forall>r. CallPatchRVR r \<in> set (st_calls st') \<and> rvr_Name r = exName 0 \<longrightarrow> HasFinalizer (rvr_Finalizers r) RVControllerFinalizer)"
proof -
  obtain reg where reg: "BuildRegistry (\<lambda>_. []) None = Some reg" by (simp add: BuildRegistry_eq)
  obtain out st' where run: "reconcileVolume (exPass reg) None exState = Some (out, st')" "exOutline (st_calls st')"
    "rv_Members (st_rv st') = [exMember 0 MT_Diskful]" using exState_runs by blast
  have names: "exName 0 \<noteq> exName 1" by code_simp
  have h: "isFormationInProgress (st_rv exState) = (False, 0)" "\<not> rvShouldNotExist (Some (st_rv exState))" "st_calls exState = []"
    "isRVRMemberOrLeavingDatamesh (Some (st_rv st')) (exName 0)"
    "\<forall>r \<in> set (st_rvrs exState). rvr_Name r = exName 0 \<longrightarrow> HasFinalizer (rvr_Finalizers r) RVControllerFinalizer"
    using exPass_ok(2,4) run(3) names
    by (auto simp: exState_def undeleted_exists isRVRMemberOrLeavingDatamesh_def FindMemberByName_def exMember_def exListed_def
        exRVR_def HasFinalizer_def)
  show ?thesis using reconcile_keeps_finalizers [OF run(1) h(3) exPass_ok(1) h(2,1,4,5)] run by blast
qed



end
