(* ===== verification/Sched_Pipeline.thy ===== *)
theory Sched_Pipeline
  imports Api_Types Flow
begin

text \<open>
  The candidate pipeline of the scheduling controller (\<open>rvr_scheduling_controller/scheduling_pipeline.go\<close>).

  A pipeline is an iterator together with the diagnostic summary it has produced once it was consumed.
  The controller consumes every step exactly once and to the end, so a pipeline is modelled by the
  entries it yields and the summary afterwards. Go's \<open>int\<close> has 64 bits: score arithmetic wraps around.
\<close>

subsection \<open>Candidates\<close>

record CandidateEntry =
  cd_Node :: EligibleNode
  cd_LVG :: "EligibleNodeLVG option"
  cd_ThinPool :: "string option"
  cd_Score :: int

definition LVGName :: "CandidateEntry \<Rightarrow> string" where
  "LVGName e = (case cd_LVG e of None \<Rightarrow> [] | Some l \<Rightarrow> lvg_Name l)"

definition ThinPoolName :: "CandidateEntry \<Rightarrow> string" where
  "ThinPoolName e = (case cd_ThinPool e of None \<Rightarrow> [] | Some s \<Rightarrow> s)"

definition wrap64 :: "int \<Rightarrow> int" where
  "wrap64 x = sint (word_of_int x :: u64)"

definition addScore :: "int \<Rightarrow> CandidateEntry \<Rightarrow> CandidateEntry" where
  "addScore k e = e \<lparr> cd_Score := wrap64 (cd_Score e + k) \<rparr>"

type_synonym CandidateFilterFn = "CandidateEntry \<Rightarrow> CandidateEntry option"
type_synonym CandidateCompareFn = "CandidateEntry \<Rightarrow> CandidateEntry \<Rightarrow> bool"

record SchedulingPipeline =
  pl_Seq :: "CandidateEntry list"
  pl_Summary :: string

subsection \<open>Sources\<close>

definition lvgCandidate :: "EligibleNode \<Rightarrow> EligibleNodeLVG \<Rightarrow> CandidateEntry" where
  "lvgCandidate node lvg = \<lparr> cd_Node = node, cd_LVG = Some lvg,
     cd_ThinPool = (if lvg_ThinPoolName lvg \<noteq> [] then Some (lvg_ThinPoolName lvg) else None), cd_Score = 0 \<rparr>"

definition nodeCandidate :: "EligibleNode \<Rightarrow> CandidateEntry" where
  "nodeCandidate node = \<lparr> cd_Node = node, cd_LVG = None, cd_ThinPool = None, cd_Score = 0 \<rparr>"

definition TakeLVGsFromEligibleNodes :: "EligibleNode list \<Rightarrow> SchedulingPipeline" where
  "TakeLVGsFromEligibleNodes nodes =
     (let es = concat (map (\<lambda>n. map (lvgCandidate n) (en_LVMVolumeGroups n)) nodes)
      in \<lparr> pl_Seq = es, pl_Summary = itoa (int (length es)) @ '' candidates (node'' @ [CHR 0xC3, CHR 0x97] @ ''LVG) from ''
             @ itoa (int (length nodes)) @ '' eligible nodes'' \<rparr>)"

definition TakeOnlyNodesFromEligibleNodes :: "EligibleNode list \<Rightarrow> SchedulingPipeline" where
  "TakeOnlyNodesFromEligibleNodes nodes =
     (let es = map nodeCandidate nodes
      in \<lparr> pl_Seq = es, pl_Summary = itoa (int (length es)) @ '' candidates from '' @ itoa (int (length nodes)) @ '' eligible nodes'' \<rparr>)"

subsection \<open>Predicates\<close>

definition excludedSummary :: "string \<Rightarrow> nat \<Rightarrow> string \<Rightarrow> string" where
  "excludedSummary upstream excluded name =
     (if excluded = 0 then upstream
      else let own = itoa (int excluded) @ '' excluded: '' @ name
           in if upstream = [] then own else upstream @ ''; '' @ own)"

definition WithPredicate :: "SchedulingPipeline \<Rightarrow> string \<Rightarrow> CandidateFilterFn \<Rightarrow> SchedulingPipeline" where
  "WithPredicate upstream name fn =
     \<lparr> pl_Seq = List.map_filter fn (pl_Seq upstream),
       pl_Summary = excludedSummary (pl_Summary upstream) (countp (\<lambda>e. fn e = None) (pl_Seq upstream)) name \<rparr>"

text \<open>A predicate that only excludes.\<close>

definition keepIf :: "(CandidateEntry \<Rightarrow> bool) \<Rightarrow> CandidateFilterFn" where
  "keepIf P e = (if P e then Some e else None)"

subsection \<open>Scores of the scheduler extender\<close>

text \<open>A query is a pair of volume group and thin pool, a scored group such a pair with its score.\<close>

type_synonym lvgKey = "string \<times> string"

record Extender =
  ext_FilterAndScore :: "string \<Rightarrow> int \<Rightarrow> int \<Rightarrow> lvgKey list \<Rightarrow> goErr + (lvgKey \<times> int) list"
  ext_NarrowReservation :: "string \<Rightarrow> int \<Rightarrow> lvgKey \<Rightarrow> goErr option"

definition entryKey :: "CandidateEntry \<Rightarrow> lvgKey" where
  "entryKey e = (LVGName e, ThinPoolName e)"

fun keyLess :: "lvgKey \<Rightarrow> lvgKey \<Rightarrow> bool" where
  "keyLess (a, b) (c, d) \<longleftrightarrow> a < c \<or> (a = c \<and> b < d)"

text \<open>Stable sorting by key. The scored groups are sorted with an unstable sort, which may order equal keys
  either way; the extender answers each query once.\<close>

fun insertBy :: "('a \<Rightarrow> lvgKey) \<Rightarrow> 'a \<Rightarrow> 'a list \<Rightarrow> 'a list" where
  "insertBy k x [] = [x]"
| "insertBy k x (y # ys) = (if keyLess (k y) (k x) then y # insertBy k x ys else x # y # ys)"

definition sortBy :: "('a \<Rightarrow> lvgKey) \<Rightarrow> 'a list \<Rightarrow> 'a list" where
  "sortBy k xs = foldr (insertBy k) xs []"

text \<open>The merge join driven by the scored groups: the entries kept, with their scores, and the number
  excluded.\<close>

fun mergeJoin :: "(lvgKey \<times> int) list \<Rightarrow> CandidateEntry list \<Rightarrow> CandidateEntry list \<times> nat" where
  "mergeJoin [] es = ([], length es)"
| "mergeJoin (s # ss) [] = mergeJoin ss []"
| "mergeJoin (s # ss) (e # es) =
     (if keyLess (entryKey e) (fst s) then (case mergeJoin (s # ss) es of (r, x) \<Rightarrow> (r, Suc x))
      else if entryKey e \<noteq> fst s then mergeJoin ss (e # es)
      else if snd s > 0 then (case mergeJoin ss es of (r, x) \<Rightarrow> (e \<lparr> cd_Score := snd s \<rparr> # r, x))
      else (case mergeJoin ss es of (r, x) \<Rightarrow> (r, Suc x)))"

definition scoringQueries :: "CandidateEntry list \<Rightarrow> lvgKey list" where
  "scoringQueries es = map entryKey (filter (\<lambda>e. cd_LVG e \<noteq> None) es)"

definition FilteredAndScoredBySchedulerExtender ::
  "SchedulingPipeline \<Rightarrow> Extender \<Rightarrow> string \<Rightarrow> int \<Rightarrow> int \<Rightarrow> goErr + SchedulingPipeline" where
  "FilteredAndScoredBySchedulerExtender upstream client reservationID reservationTTL volumeSize =
     (let entries = pl_Seq upstream; queries = scoringQueries entries;
          done = (\<lambda>es excluded. \<lparr> pl_Seq = es, pl_Summary = excludedSummary (pl_Summary upstream) excluded ''scoring (no capacity)'' \<rparr>)
      in if queries = [] then Inr (done [] (length entries))
         else case ext_FilterAndScore client reservationID reservationTTL volumeSize queries of
           Inl e \<Rightarrow> Inl e
         | Inr scored \<Rightarrow> (case mergeJoin (sortBy fst scored) (sortBy entryKey entries) of
             (result, excluded) \<Rightarrow> Inr (done result excluded)))"

subsection \<open>Group scores\<close>

type_synonym GroupScoreFn = "string \<Rightarrow> CandidateEntry list \<Rightarrow> int"

text \<open>Groups in the order their keys are first seen.\<close>

fun addToGroup :: "string \<Rightarrow> CandidateEntry \<Rightarrow> (string \<times> CandidateEntry list) list \<Rightarrow> (string \<times> CandidateEntry list) list" where
  "addToGroup k e [] = [(k, [e])]"
| "addToGroup k e ((k', es) # gs) = (if k' = k then (k', es @ [e]) # gs else (k', es) # addToGroup k e gs)"

definition groupBy :: "(CandidateEntry \<Rightarrow> string) \<Rightarrow> CandidateEntry list \<Rightarrow> (string \<times> CandidateEntry list) list" where
  "groupBy keyFn es = foldl (\<lambda>gs e. addToGroup (keyFn e) e gs) [] es"

text \<open>The entries are pointers: adding the score of a group to its entries changes them in the collected
  list. Every entry belongs to one group, so what a score function reads of its group is not yet changed.\<close>

definition groupScore :: "GroupScoreFn \<Rightarrow> (string \<times> CandidateEntry list) list \<Rightarrow> string \<Rightarrow> int" where
  "groupScore scoreFn groups k = (case map_of groups k of Some es \<Rightarrow> scoreFn k es | None \<Rightarrow> 0)"

definition WithGroupScore :: "SchedulingPipeline \<Rightarrow> (CandidateEntry \<Rightarrow> string) \<Rightarrow> GroupScoreFn \<Rightarrow> SchedulingPipeline" where
  "WithGroupScore upstream keyFn scoreFn =
     (let groups = groupBy keyFn (pl_Seq upstream)
      in \<lparr> pl_Seq = map (\<lambda>e. let score = groupScore scoreFn groups (keyFn e)
                            in if score \<noteq> 0 then addScore score e else e) (pl_Seq upstream),
           pl_Summary = pl_Summary upstream \<rparr>)"

definition WithZoneScore :: "SchedulingPipeline \<Rightarrow> GroupScoreFn \<Rightarrow> SchedulingPipeline" where
  "WithZoneScore upstream = WithGroupScore upstream (\<lambda>e. en_ZoneName (cd_Node e))"

definition WithNodeScore :: "SchedulingPipeline \<Rightarrow> GroupScoreFn \<Rightarrow> SchedulingPipeline" where
  "WithNodeScore upstream = WithGroupScore upstream (\<lambda>e. en_NodeName (cd_Node e))"

subsection \<open>Selection\<close>

definition SelectBest :: "SchedulingPipeline \<Rightarrow> CandidateCompareFn \<Rightarrow> CandidateEntry option \<times> string" where
  "SelectBest p isBetter =
     (foldl (\<lambda>best e. case best of None \<Rightarrow> Some e | Some b \<Rightarrow> if isBetter e b then Some e else best) None (pl_Seq p),
      pl_Summary p)"

subsection \<open>Sorting and merging\<close>

lemma keyLess_irrefl [simp]: "\<not> keyLess a a"
  by (cases a) auto

lemma keyLess_trans: "keyLess a b \<Longrightarrow> keyLess b c \<Longrightarrow> keyLess a c"
  by (cases a; cases b; cases c) auto

lemma keyLess_total: "keyLess a b \<or> a = b \<or> keyLess b a"
  by (cases a; cases b) (auto dest: le_neq_trans simp: neq_iff)

lemma keyLess_asym: "keyLess a b \<Longrightarrow> \<not> keyLess b a"
  using keyLess_trans keyLess_irrefl by blast

lemma mset_insertBy [simp]: "set (insertBy k x xs) = insert x (set xs)" "length (insertBy k x xs) = Suc (length xs)"
  "distinct (map k (insertBy k x xs)) \<longleftrightarrow> distinct (map k (x # xs))"
  by (induction xs) auto

lemma sorted_insertBy:
  "sorted_wrt (\<lambda>a b. \<not> keyLess (k b) (k a)) xs \<Longrightarrow> sorted_wrt (\<lambda>a b. \<not> keyLess (k b) (k a)) (insertBy k x xs)"
proof (induction xs)
  case (Cons y ys)
  then show ?case
    using keyLess_trans [of _ "k y" "k x"] keyLess_asym [of "k y" "k x"] keyLess_total [of "k y" "k x"]
    by (auto intro: keyLess_trans)
qed simp

lemma sortBy_props:
  "set (sortBy k xs) = set xs" "length (sortBy k xs) = length xs"
  "distinct (map k (sortBy k xs)) \<longleftrightarrow> distinct (map k xs)"
  "sorted_wrt (\<lambda>a b. \<not> keyLess (k b) (k a)) (sortBy k xs)"
proof -
  show s: "set (sortBy k xs) = set xs" for xs by (induction xs) (auto simp: sortBy_def)
  show "length (sortBy k xs) = length xs" by (induction xs) (auto simp: sortBy_def)
  have "set (foldr (insertBy k) xs []) = set xs" for xs using s by (simp add: sortBy_def)
  then show "distinct (map k (sortBy k xs)) \<longleftrightarrow> distinct (map k xs)" by (induction xs) (auto simp: sortBy_def)
  show "sorted_wrt (\<lambda>a b. \<not> keyLess (k b) (k a)) (sortBy k xs)"
    by (induction xs) (auto simp: sortBy_def intro: sorted_insertBy)
qed

text \<open>The sorted lists are strictly increasing when keys are distinct.\<close>

lemma strict_if_distinct:
  "distinct (map k xs) \<Longrightarrow> sorted_wrt (\<lambda>a b. \<not> keyLess (k b) (k a)) xs \<Longrightarrow> sorted_wrt (\<lambda>a b. keyLess (k a) (k b)) xs"
proof (induction xs)
  case (Cons x xs)
  then have "keyLess (k x) (k y)" if "y \<in> set xs" for y using that keyLess_total [of "k x" "k y"] by auto
  then show ?case using Cons by auto
qed simp

lemma mergeJoin_count: "length (fst (mergeJoin ss es)) + snd (mergeJoin ss es) = length es"
proof (induction ss es rule: mergeJoin.induct)
  case (3 s ss e es)
  then show ?case by (cases "snd s > 0") (auto split: prod.splits)
qed simp_all

definition scoredEntry :: "(lvgKey \<times> int) list \<Rightarrow> CandidateEntry \<Rightarrow> CandidateEntry option" where
  "scoredEntry scored e = (case map_of scored (entryKey e) of
     Some n \<Rightarrow> if n > 0 then Some (e \<lparr> cd_Score := n \<rparr>) else None | None \<Rightarrow> None)"

lemma map_of_above: "\<forall>s \<in> set ss. keyLess k (fst s) \<Longrightarrow> map_of ss k = None"
  by (induction ss) auto

lemma mergeJoin_lookup:
  "sorted_wrt (\<lambda>a b. keyLess (fst a) (fst b)) ss \<Longrightarrow> sorted_wrt (\<lambda>a b. keyLess (entryKey a) (entryKey b)) es \<Longrightarrow>
     fst (mergeJoin ss es) = List.map_filter (scoredEntry ss) es"
proof (induction ss es rule: mergeJoin.induct)
  case (1 es)
  then show ?case by (induction es) (auto simp: map_filter_simps scoredEntry_def)
next
  case (2 s ss)
  then show ?case by (simp add: map_filter_simps)
next
  case (3 s ss e es)
  have drop: "List.map_filter (scoredEntry (s # ss)) xs = List.map_filter (scoredEntry ss) xs"
    if "\<forall>x \<in> set xs. entryKey x \<noteq> fst s" for xs
  proof -
    have "scoredEntry (s # ss) x = scoredEntry ss x" if "x \<in> set xs" for x
      using that \<open>\<forall>x \<in> set xs. entryKey x \<noteq> fst s\<close> by (cases s) (auto simp: scoredEntry_def)
    then show ?thesis by (auto simp: List.map_filter_def intro!: map_cong filter_cong)
  qed
  consider "keyLess (entryKey e) (fst s)" | "keyLess (fst s) (entryKey e)" | "entryKey e = fst s"
    using keyLess_total by blast
  then show ?case
  proof cases
    case 1
    have "map_of (s # ss) (entryKey e) = None"
      using 1 "3.prems"(1) keyLess_trans by (intro map_of_above) auto
    then have "scoredEntry (s # ss) e = None" by (simp add: scoredEntry_def)
    moreover have "fst (mergeJoin (s # ss) es) = List.map_filter (scoredEntry (s # ss)) es"
      using "3.IH"(1) [OF 1] "3.prems" by simp
    ultimately show ?thesis using 1 by (auto simp: map_filter_simps split: prod.splits)
  next
    case 2
    then have "keyLess (fst s) (entryKey x)" if "x \<in> set (e # es)" for x
      using that "3.prems"(2) keyLess_trans [of "fst s" "entryKey e" "entryKey x"] by auto
    then have "\<forall>x \<in> set (e # es). entryKey x \<noteq> fst s" by (metis keyLess_irrefl)
    moreover have "\<not> keyLess (entryKey e) (fst s)" "entryKey e \<noteq> fst s" using 2 keyLess_asym by auto
    ultimately show ?thesis using "3.IH"(2) "3.prems" drop [of "e # es"] by simp
  next
    case 3
    then have n: "\<forall>x \<in> set es. entryKey x \<noteq> fst s" using "3.prems"(2) by (metis keyLess_irrefl sorted_wrt.simps(2))
    have "map_of (s # ss) (entryKey e) = Some (snd s)" using 3 by (cases s) auto
    then have m: "scoredEntry (s # ss) e = (if snd s > 0 then Some (e \<lparr> cd_Score := snd s \<rparr>) else None)"
      by (simp add: scoredEntry_def)
    have sd: "sorted_wrt (\<lambda>a b. keyLess (fst a) (fst b)) ss" "sorted_wrt (\<lambda>a b. keyLess (entryKey a) (entryKey b)) es"
      using "3.prems" by auto
    show ?thesis
    proof (cases "snd s > 0")
      case True
      then show ?thesis
        using 3 m drop [OF n] "3.IH"(3) [OF _ _ True sd]
        by (auto simp: map_filter_simps split: prod.splits)
    next
      case False
      then show ?thesis
        using 3 m drop [OF n] "3.IH"(4) [OF _ _ False sd]
        by (auto simp: map_filter_simps split: prod.splits)
    qed
  qed
qed

lemma set_map_filter: "set (List.map_filter f xs) = {y. \<exists>x \<in> set xs. f x = Some y}"
  by (force simp: List.map_filter_def image_iff)

lemma map_of_sortBy: "distinct (map fst ss) \<Longrightarrow> map_of (sortBy fst ss) = map_of ss"
  by (rule map_of_eqI) (auto simp: sortBy_props image_iff intro!: map_of_is_SomeI dest: map_of_SomeD)

subsection \<open>Groups\<close>

lemma map_of_addToGroup:
  "map_of (addToGroup k e gs) k' = (if k' = k then Some (case map_of gs k of None \<Rightarrow> [e] | Some es \<Rightarrow> es @ [e]) else map_of gs k')"
  by (induction gs rule: addToGroup.induct [where ?a0.0 = k and ?a1.0 = e]) auto

lemma map_of_groupBy:
  "map_of (groupBy keyFn es) k = (let g = filter (\<lambda>e. keyFn e = k) es in if g = [] then None else Some g)"
proof -
  have "map_of (foldl (\<lambda>gs e. addToGroup (keyFn e) e gs) [] es) k
      = (let g = filter (\<lambda>e. keyFn e = k) es in if g = [] then None else Some g)" for es
  proof (induction es arbitrary: k rule: rev_induct)
    case (snoc e es)
    show ?case using snoc [of k] snoc [of "keyFn e"]
      by (cases "filter (\<lambda>x. keyFn x = keyFn e) es = []") (auto simp: map_of_addToGroup Let_def)
  qed simp
  then show ?thesis by (simp add: groupBy_def)
qed

lemma groupScore_member:
  "e \<in> set es \<Longrightarrow> groupScore scoreFn (groupBy keyFn es) (keyFn e) = scoreFn (keyFn e) (filter (\<lambda>x. keyFn x = keyFn e) es)"
  by (auto simp: groupScore_def map_of_groupBy Let_def filter_empty_conv)

subsection \<open>Selecting the best\<close>

text \<open>A comparison that is a strict weak order picks a candidate that no other one beats.\<close>

locale candidate_order =
  fixes isBetter :: CandidateCompareFn
  assumes asym: "isBetter a b \<Longrightarrow> \<not> isBetter b a"
    and neg_trans: "\<not> isBetter a b \<Longrightarrow> \<not> isBetter b c \<Longrightarrow> \<not> isBetter a c"
begin

lemma select_fold:
  "foldl (\<lambda>best e. case best of None \<Rightarrow> Some e | Some b \<Rightarrow> if isBetter e b then Some e else best) (Some b0) es = Some b
   \<Longrightarrow> b \<in> insert b0 (set es) \<and> (\<forall>e \<in> insert b0 (set es). \<not> isBetter e b)"
proof (induction es arbitrary: b0)
  case Nil
  then show ?case using asym by auto
next
  case (Cons e es)
  show ?case
  proof (cases "isBetter e b0")
    case True
    then have "b \<in> insert e (set es) \<and> (\<forall>x \<in> insert e (set es). \<not> isBetter x b)" using Cons by simp
    moreover from this True have "\<not> isBetter b0 b" using neg_trans asym by blast
    ultimately show ?thesis by auto
  next
    case False
    then have "b \<in> insert b0 (set es) \<and> (\<forall>x \<in> insert b0 (set es). \<not> isBetter x b)" using Cons by simp
    moreover from this False have "\<not> isBetter e b" using neg_trans by blast
    ultimately show ?thesis by auto
  qed
qed

lemma select_None: "fst (SelectBest p isBetter) = None \<longleftrightarrow> pl_Seq p = []"
proof -
  have "foldl (\<lambda>best e. case best of None \<Rightarrow> Some e | Some b \<Rightarrow> if isBetter e b then Some e else best) (Some b) es \<noteq> None" for b es
    by (induction es arbitrary: b) auto
  then show ?thesis by (cases "pl_Seq p") (auto simp: SelectBest_def)
qed

lemma select_best:
  assumes "fst (SelectBest p isBetter) = Some b"
  shows "b \<in> set (pl_Seq p)" and "\<forall>e \<in> set (pl_Seq p). \<not> isBetter e b"
  using assms select_fold by (cases "pl_Seq p"; auto simp: SelectBest_def)+

end

end
