(* ===== verification/Rvr_Objects.thy ===== *)
theory Rvr_Objects
  imports Rv_Layout Rv_Attachments Sched_Context Drbd_Size
begin

text \<open>
  What the reconciler of a single replica builds on (\<open>rvr_controller/reconciler.go\<close>,
  \<open>api/v1alpha1/drbdr_types.go\<close>): logical volumes and DRBD resources, the fields of a replica that only
  this controller reads, eligibility of storage, and the API client.

  As in the volume reconciler, the client is a record of functions, and the effect of a reconciliation is
  the list of the calls it made. The fields of \<open>LVMLogicalVolume\<close> are those of sds-node-configurator's API.
\<close>

subsection \<open>Logical volumes\<close>

record LLVStatus =
  ls_Phase :: string
  ls_ActualSize :: u64

record LLV =
  llv_Name :: string
  llv_Deleting :: bool
  llv_Finalizers :: "string list"
  llv_Labels :: smap
  llv_Controller :: "string option"
  llv_ActualLVNameOnTheNode :: string
  llv_LVMVolumeGroupName :: string
  llv_Size :: string
  llv_Type :: string
  llv_Thin :: "string option"
  llv_Status :: "LLVStatus option"

subsection \<open>DRBD resources\<close>

datatype DRBDType = DRBDDiskful | DRBDDiskless | DRBDTypeNone

datatype DRBDRole = RolePrimary | RoleSecondary | RoleNone

record DRBDPeer =
  dp_Name :: string
  dp_Type :: DRBDType
  dp_AllowRemoteRead :: bool
  dp_NodeID :: u8
  dp_Protocol :: string
  dp_SharedSecret :: string
  dp_SharedSecretAlg :: string
  dp_PauseSync :: bool
  dp_Paths :: "AddressStatus list"

record DRBDSpec =
  drs_ActualNameOnTheNode :: string
  drs_State :: string
  drs_NodeName :: string
  drs_SystemNetworks :: "string list"
  drs_Quorum :: u8
  drs_QuorumMinimumRedundancy :: u8
  drs_Size :: "u64 option"
  drs_Role :: DRBDRole
  drs_AllowTwoPrimaries :: bool
  drs_NonVoting :: bool
  drs_Type :: DRBDType
  drs_LVMLogicalVolumeName :: string
  drs_NodeID :: u8
  drs_Peers :: "DRBDPeer list"
  drs_Maintenance :: string

definition emptySpec :: DRBDSpec where
  "emptySpec = \<lparr> drs_ActualNameOnTheNode = [], drs_State = [], drs_NodeName = [], drs_SystemNetworks = [], drs_Quorum = 0,
     drs_QuorumMinimumRedundancy = 0, drs_Size = None, drs_Role = RoleNone, drs_AllowTwoPrimaries = False,
     drs_NonVoting = False, drs_Type = DRBDTypeNone, drs_LVMLogicalVolumeName = [], drs_NodeID = 0, drs_Peers = [],
     drs_Maintenance = [] \<rparr>"

record DRBDActive =
  da_Quorum :: "u8 option"
  da_QuorumMinimumRedundancy :: "u8 option"
  da_Role :: DRBDRole
  da_Type :: DRBDType
  da_LVMLogicalVolumeName :: string

text \<open>The paths of a peer: network and whether it is established.\<close>

record DRBDPeerStatus =
  ps_Name :: string
  ps_Type :: DRBDType
  ps_Paths :: "(string \<times> bool) list"
  ps_ConnectionState :: ConnectionState
  ps_DiskState :: DiskState
  ps_ReplicationState :: ReplicationState
  ps_Role :: DRBDRole

record DRBDResource =
  dr_Name :: string
  dr_Generation :: int
  dr_Deleting :: bool
  dr_Finalizers :: "string list"
  dr_Labels :: smap
  dr_Controller :: "string option"
  dr_Spec :: DRBDSpec
  dr_Device :: string
  dr_DeviceIOSuspended :: "bool option"
  dr_DeviceOpen :: "bool option"
  dr_Size :: "u64 option"
  dr_Addresses :: "AddressStatus list"
  dr_ActiveConfiguration :: "DRBDActive option"
  dr_Peers :: "DRBDPeerStatus list"
  dr_DiskState :: DiskState
  dr_Quorum :: "bool option"
  dr_Conditions :: "Condition list"

subsection \<open>The replica\<close>

record ReconciliationCache =
  rc_DatameshRevision :: int
  rc_DRBDRGeneration :: int
  rc_TargetType :: DatameshMemberType

record QuorumSummary =
  qs_ConnectedDiskfulPeers :: int
  qs_ConnectedTieBreakerPeers :: int
  qs_ConnectedUpToDatePeers :: int
  qs_Quorum :: "int option"
  qs_QuorumMinimumRedundancy :: "int option"

record Replica = RVR +
  rvr_UID :: string
  rvr_Labels :: smap
  rvr_StatusType :: DRBDType
  rvr_QuorumSummary :: "QuorumSummary option"
  rvr_InitialQuorumReachedAt :: "int option"
  rvr_Phase :: string
  rvr_Message :: string
  rvr_Cache :: ReconciliationCache

definition RVRControllerFinalizer :: string where
  "RVRControllerFinalizer = ''sds-replicated-volume.deckhouse.io/rvr-controller''"

definition LVMVolumeGroupLabelKey :: string where
  "LVMVolumeGroupLabelKey = ''sds-replicated-volume.deckhouse.io/lvm-volume-group''"

definition rvrShouldNotExist :: "Replica \<Rightarrow> bool" where
  "rvrShouldNotExist rvr \<longleftrightarrow> rvr_Deleting rvr \<and> \<not> HasFinalizersOtherThan (rvr_Finalizers rvr) [RVRControllerFinalizer]"

subsection \<open>Eligibility of storage\<close>

record rspEligibilityView =
  ev_EligibleNode :: "EligibleNode option"
  ev_Type :: PoolType

datatype storageEligibilityCode =
    storageEligibilityOK | storageEligibilityRSPNotAvailable | storageEligibilityNodeNotEligible
  | storageEligibilityTypeMismatch | storageEligibilityLVGNotEligible | storageEligibilityThinPoolNotEligible

definition isStorageEligible :: "rspEligibilityView option \<Rightarrow> string \<Rightarrow> string \<Rightarrow> storageEligibilityCode \<times> string" where
  "isStorageEligible view lvgName thinPool = (case view of
     None \<Rightarrow> (storageEligibilityRSPNotAvailable, ''ReplicatedStoragePool not found; waiting for it to be present'')
   | Some v \<Rightarrow> (case ev_EligibleNode v of
       None \<Rightarrow> (storageEligibilityNodeNotEligible, ''Node is not eligible in RSP'')
     | Some node \<Rightarrow>
         if ev_Type v = PoolTypeLVM \<and> thinPool \<noteq> []
         then (storageEligibilityTypeMismatch, ''ThinPool '' @ quoted thinPool
                 @ '' specified but RSP type is LVM (thick); waiting for correct storage assignment'')
         else if ev_Type v = PoolTypeLVMThin \<and> thinPool = []
         then (storageEligibilityTypeMismatch, ''ThinPool not specified but RSP type is LVMThin; waiting for correct storage assignment'')
         else case find (\<lambda>lvg. lvg_Name lvg = lvgName) (en_LVMVolumeGroups node) of
           Some lvg \<Rightarrow>
             if ev_Type v = PoolTypeLVM \<or> lvg_ThinPoolName lvg = thinPool then (storageEligibilityOK, [])
             else (storageEligibilityThinPoolNotEligible,
                     ''LVG '' @ quoted lvgName @ '' found but ThinPool '' @ quoted thinPool @ '' is not eligible on node'')
         | None \<Rightarrow>
             (storageEligibilityLVGNotEligible,
              if ev_Type v = PoolTypeLVMThin then ''LVG '' @ quoted lvgName @ '' with ThinPool '' @ quoted thinPool @ '' is not eligible on node''
              else ''LVG '' @ quoted lvgName @ '' is not eligible on node'')))"

subsection \<open>The client\<close>

datatype childCall =
    CallCreateLLV LLV | CallPatchLLV LLV | CallDeleteLLV LLV
  | CallCreateDRBDR DRBDResource | CallPatchDRBDR DRBDResource | CallDeleteDRBDR DRBDResource
  | CallPatchReplica Replica | CallPatchReplicaStatus Replica

text \<open>\<open>rc_SetControllerReference\<close> stands for the function of controllerutil on the controller of an object and the
  UID of the owner, \<open>rc_IsInvalid\<close> and \<open>rc_Causes\<close> for the classification and the causes of an API error,
  \<open>rc_AgentPods\<close> for the conditions (type and status) of the agent's pods on a node, \<open>rc_NodeReady\<close> for the
  status of a node's Ready condition.\<close>

record RvrClient =
  rc_CreateLLV :: "LLV \<Rightarrow> goErr + LLV"
  rc_PatchLLV :: "LLV \<Rightarrow> LLV \<Rightarrow> goErr + LLV"
  rc_DeleteLLV :: "LLV \<Rightarrow> goErr option"
  rc_CreateDRBDR :: "DRBDResource \<Rightarrow> goErr + DRBDResource"
  rc_PatchDRBDR :: "DRBDResource \<Rightarrow> DRBDResource \<Rightarrow> goErr + DRBDResource"
  rc_DeleteDRBDR :: "DRBDResource \<Rightarrow> goErr option"
  rc_PatchRVR :: "Replica \<Rightarrow> Replica \<Rightarrow> goErr + Replica"
  rc_PatchRVRStatus :: "Replica \<Rightarrow> Replica \<Rightarrow> goErr + Replica"
  rc_SetControllerReference :: "string option \<Rightarrow> string \<Rightarrow> goErr + string option"
  rc_SetStatusCondition :: metaSet
  rc_RemoveStatusCondition :: metaRemove
  rc_IsInvalid :: "goErr \<Rightarrow> bool"
  rc_Causes :: "goErr \<Rightarrow> (string \<times> string) list"
  rc_QuantityString :: "u64 \<Rightarrow> string"
  rc_AgentPods :: "string \<Rightarrow> goErr + (string \<times> ConditionStatus) list list"
  rc_NodeReady :: "string \<Rightarrow> goErr + ConditionStatus option"
  rc_now :: int

record replicaState =
  rs_rvr :: "Replica option"
  rs_llvs :: "LLV list"
  rs_drbdr :: "DRBDResource option"
  rs_calls :: "childCall list"

definition HasControllerRef :: "string option \<Rightarrow> string \<Rightarrow> bool" where
  "HasControllerRef controller owner \<longleftrightarrow> controller = Some owner"

definition SetControllerRef :: "RvrClient \<Rightarrow> string option \<Rightarrow> string \<Rightarrow> goErr + bool \<times> string option" where
  "SetControllerRef cl controller owner =
     (if HasControllerRef controller owner then Inr (False, controller)
      else case rc_SetControllerReference cl controller owner of
        Inl e \<Rightarrow> Inl (ErrWrap ''setting controller reference'' e)
      | Inr c \<Rightarrow> Inr (True, c))"

definition getAgentReady :: "RvrClient \<Rightarrow> string \<Rightarrow> goErr + bool" where
  "getAgentReady cl nodeName = (case rc_AgentPods cl nodeName of
     Inl e \<Rightarrow> Inl e
   | Inr pods \<Rightarrow> Inr (list_ex (list_ex (\<lambda>(typ, status). typ = ''Ready'' \<and> status = ConditionTrue)) pods))"

definition getNodeReady :: "RvrClient \<Rightarrow> string \<Rightarrow> goErr + bool" where
  "getNodeReady cl nodeName = (case rc_NodeReady cl nodeName of
     Inl e \<Rightarrow> Inl e
   | Inr status \<Rightarrow> Inr (status = Some ConditionTrue))"

text \<open>\<open>obju.SetStatusCondition\<close>, \<open>RemoveStatusCondition\<close> and \<open>GetStatusCondition\<close> on a replica.\<close>

definition setCond :: "RvrClient \<Rightarrow> string \<Rightarrow> ConditionStatus \<Rightarrow> string \<Rightarrow> string \<Rightarrow> Replica \<Rightarrow> bool \<times> Replica" where
  "setCond cl typ status reason message rvr =
     (case SetStatusCondition (rc_SetStatusCondition cl) (rc_now cl) (rvr_Generation rvr) (rvr_Conditions rvr)
         (condOf typ status reason message) of
       (changed, conds) \<Rightarrow> (changed, rvr \<lparr> rvr_Conditions := conds \<rparr>))"

definition removeCond :: "RvrClient \<Rightarrow> string \<Rightarrow> Replica \<Rightarrow> bool \<times> Replica" where
  "removeCond cl typ rvr = (case RemoveStatusCondition (rc_RemoveStatusCondition cl) (rvr_Conditions rvr) typ of
     (changed, conds) \<Rightarrow> (changed, rvr \<lparr> rvr_Conditions := conds \<rparr>))"

abbreviation getCond :: "Replica \<Rightarrow> string \<Rightarrow> Condition option" where
  "getCond rvr typ \<equiv> findCondition (rvr_Conditions rvr) typ"

text \<open>Deleting a child object: the error, the object (marked as deleting) and the calls made.\<close>

definition deleteLLV :: "RvrClient \<Rightarrow> LLV \<Rightarrow> goErr option \<times> LLV \<times> childCall list" where
  "deleteLLV cl llv =
     (if llv_Deleting llv then (None, llv, [])
      else case IgnoreNotFound (rc_DeleteLLV cl llv) of
        Some e \<Rightarrow> (Some e, llv, [CallDeleteLLV llv])
      | None \<Rightarrow> (None, llv \<lparr> llv_Deleting := True \<rparr>, [CallDeleteLLV llv]))"

definition deleteDRBDR :: "RvrClient \<Rightarrow> DRBDResource \<Rightarrow> goErr option \<times> DRBDResource \<times> childCall list" where
  "deleteDRBDR cl drbdr =
     (if dr_Deleting drbdr then (None, drbdr, [])
      else case IgnoreNotFound (rc_DeleteDRBDR cl drbdr) of
        Some e \<Rightarrow> (Some e, drbdr, [CallDeleteDRBDR drbdr])
      | None \<Rightarrow> (None, drbdr \<lparr> dr_Deleting := True \<rparr>, [CallDeleteDRBDR drbdr]))"

text \<open>Releasing a child object: our finalizer is removed if it is there.\<close>

definition releaseLLV :: "RvrClient \<Rightarrow> LLV \<Rightarrow> goErr option \<times> LLV \<times> childCall list" where
  "releaseLLV cl llv =
     (if HasFinalizer (llv_Finalizers llv) RVRControllerFinalizer
      then let llv1 = llv \<lparr> llv_Finalizers := snd (RemoveFinalizer (llv_Finalizers llv) RVRControllerFinalizer) \<rparr>
           in case rc_PatchLLV cl llv1 llv of
             Inl e \<Rightarrow> (Some e, llv1, [CallPatchLLV llv1])
           | Inr llv2 \<Rightarrow> (None, llv2, [CallPatchLLV llv1])
      else (None, llv, []))"

definition releaseDRBDR :: "RvrClient \<Rightarrow> DRBDResource \<Rightarrow> goErr option \<times> DRBDResource \<times> childCall list" where
  "releaseDRBDR cl drbdr =
     (if HasFinalizer (dr_Finalizers drbdr) RVRControllerFinalizer
      then let drbdr1 = drbdr \<lparr> dr_Finalizers := snd (RemoveFinalizer (dr_Finalizers drbdr) RVRControllerFinalizer) \<rparr>
           in case rc_PatchDRBDR cl drbdr1 drbdr of
             Inl e \<Rightarrow> (Some e, drbdr1, [CallPatchDRBDR drbdr1])
           | Inr drbdr2 \<Rightarrow> (None, drbdr2, [CallPatchDRBDR drbdr1])
      else (None, drbdr, []))"

text \<open>The labels that every child object of a replica carries.\<close>

definition labelsInSync :: "Replica \<Rightarrow> RV option \<Rightarrow> smap \<Rightarrow> bool" where
  "labelsInSync rvr rv labels \<longleftrightarrow>
     (rvr_ReplicatedVolumeName rvr \<noteq> [] \<longrightarrow> HasLabelValue (Some labels) ReplicatedVolumeLabelKey (rvr_ReplicatedVolumeName rvr))
     \<and> (case rv of None \<Rightarrow> True | Some v \<Rightarrow>
          if rv_Spec_ReplicatedStorageClassName v \<noteq> []
          then HasLabelValue (Some labels) ReplicatedStorageClassLabelKey (rv_Spec_ReplicatedStorageClassName v)
          else \<not> HasLabel labels ReplicatedStorageClassLabelKey)"

definition applyLabels :: "Replica \<Rightarrow> RV option \<Rightarrow> smap \<Rightarrow> bool \<times> smap" where
  "applyLabels rvr rv labels =
     (let (ch1, l1) = (if rvr_ReplicatedVolumeName rvr \<noteq> [] then SetLabel labels ReplicatedVolumeLabelKey (rvr_ReplicatedVolumeName rvr)
                       else (False, labels));
          (ch2, l2) = (case rv of None \<Rightarrow> (False, l1) | Some v \<Rightarrow>
                         if rv_Spec_ReplicatedStorageClassName v \<noteq> []
                         then SetLabel l1 ReplicatedStorageClassLabelKey (rv_Spec_ReplicatedStorageClassName v)
                         else RemoveLabel l1 ReplicatedStorageClassLabelKey)
      in (ch1 \<or> ch2, l2))"

definition newLabels :: "Replica \<Rightarrow> RV option \<Rightarrow> smap" where
  "newLabels rvr rv =
     (if rvr_ReplicatedVolumeName rvr \<noteq> [] then [(ReplicatedVolumeLabelKey, rvr_ReplicatedVolumeName rvr)] else [])
     @ (case rv of None \<Rightarrow> [] | Some v \<Rightarrow>
          if rv_Spec_ReplicatedStorageClassName v \<noteq> [] then [(ReplicatedStorageClassLabelKey, rv_Spec_ReplicatedStorageClassName v)] else [])"

end
