(* ===== verification/Rvr_Backing.thy ===== *)
theory Rvr_Backing
  imports Rvr_Objects
begin

text \<open>
  The backing volume of a replica (\<open>rvr_controller/reconciler_backing_volume.go\<close>): which logical volume
  the replica has, which one it should have, and the reconciliation that creates, resizes, replaces and
  deletes logical volumes.

  The result of \<open>reconcileBackingVolume\<close> is the volume DRBD is to use (the target), the intended one and the
  outcome. A panic of the size computation is \<open>None\<close>.
\<close>

subsection \<open>Actual and intended volume\<close>

record backingVolume =
  bw_LLVName :: string
  bw_LVMVolumeGroupName :: string
  bw_ThinPoolName :: string
  bw_Size :: u64

definition LLVNameOrEmpty :: "backingVolume option \<Rightarrow> string" where
  "LLVNameOrEmpty bv = (case bv of None \<Rightarrow> [] | Some b \<Rightarrow> bw_LLVName b)"

definition backingVolume_Equal :: "backingVolume option \<Rightarrow> backingVolume option \<Rightarrow> bool" where
  "backingVolume_Equal bv other = (case (bv, other) of
     (None, None) \<Rightarrow> True
   | (Some a, Some b) \<Rightarrow> bw_LLVName a = bw_LLVName b \<and> bw_LVMVolumeGroupName a = bw_LVMVolumeGroupName b
       \<and> bw_ThinPoolName a = bw_ThinPoolName b \<and> bw_Size a = bw_Size b
   | _ \<Rightarrow> False)"

definition findLLVByName :: "LLV list \<Rightarrow> string \<Rightarrow> LLV option" where
  "findLLVByName llvs name = find (\<lambda>l. llv_Name l = name) llvs"

definition isLLVReady :: "LLV option \<Rightarrow> bool" where
  "isLLVReady llv = (case llv of None \<Rightarrow> False | Some l \<Rightarrow> (case llv_Status l of None \<Rightarrow> False | Some s \<Rightarrow> ls_Phase s = ''Created''))"

definition computeActualBackingVolume :: "DRBDResource option \<Rightarrow> LLV list \<Rightarrow> backingVolume option" where
  "computeActualBackingVolume drbdr llvs = (case drbdr of
     None \<Rightarrow> None
   | Some d \<Rightarrow>
       let llvName = drs_LVMLogicalVolumeName (dr_Spec d) in
       if llvName = [] then None
       else case findLLVByName llvs llvName of
         None \<Rightarrow> None
       | Some llv \<Rightarrow> Some \<lparr> bw_LLVName = llvName, bw_LVMVolumeGroupName = llv_LVMVolumeGroupName llv,
           bw_ThinPoolName = (case llv_Thin llv of None \<Rightarrow> [] | Some p \<Rightarrow> p),
           bw_Size = (case llv_Status llv of None \<Rightarrow> 0 | Some s \<Rightarrow> ls_ActualSize s) \<rparr>)"

text \<open>Where the volume is to be: a reason and a message why there is none, or volume group and thin pool.\<close>

definition intendedPlace :: "Replica \<Rightarrow> RV \<Rightarrow> rspEligibilityView option \<Rightarrow> string \<times> string + string \<times> string" where
  "intendedPlace rvr rv rspView = (case FindMemberByName (rv_Datamesh rv) (rvr_Name rvr) of
     Some m \<Rightarrow>
       if \<not> NeedsBackingVolume (m_Type m) then
         if \<not> NeedsBackingVolume (memberTypeOf (rvr_Type rvr))
         then Inl (''NotApplicable'', ''Backing volume is not applicable for diskless replica type'')
         else Inr (rvr_LVMVolumeGroupName rvr, rvr_LVMVolumeGroupThinPoolName rvr)
       else if m_LVMVolumeGroupName m = [] then Inl (''PendingScheduling'', ''Waiting for storage assignment'')
       else Inr (m_LVMVolumeGroupName m, m_LVMVolumeGroupThinPoolName m)
   | None \<Rightarrow>
       if rvr_Deleting rvr then Inl (''NotApplicable'', ''Backing volume is not applicable for deleting replica'')
       else if rvr_Type rvr \<noteq> RT_Diskful then Inl (''NotApplicable'', ''Backing volume is not applicable for diskless replica type'')
       else if rvr_NodeName rvr = [] then Inl (''PendingScheduling'', ''Waiting for node assignment'')
       else if rvr_LVMVolumeGroupName rvr = [] then Inl (''PendingScheduling'', ''Waiting for storage assignment'')
       else case isStorageEligible rspView (rvr_LVMVolumeGroupName rvr) (rvr_LVMVolumeGroupThinPoolName rvr) of
         (storageEligibilityOK, _) \<Rightarrow> Inr (rvr_LVMVolumeGroupName rvr, rvr_LVMVolumeGroupThinPoolName rvr)
       | (storageEligibilityRSPNotAvailable, msg) \<Rightarrow> Inl (''WaitingForReplicatedVolume'', msg)
       | (_, msg) \<Rightarrow> Inl (''PendingScheduling'', msg))"

definition intendedUsableSize :: "RV \<Rightarrow> u64" where
  "intendedUsableSize rv =
     (let alignedSpecSize = AlignTo4Ki (rv_Spec_Size rv); size = AlignTo4Ki (ds_Size (rv_Datamesh rv))
      in if alignedSpecSize > size then alignedSpecSize else size)"

definition computeIntendedBackingVolume :: "Replica \<Rightarrow> RV \<Rightarrow> backingVolume option \<Rightarrow> rspEligibilityView option
    \<Rightarrow> (string \<times> string + backingVolume) option" where
  "computeIntendedBackingVolume rvr rv actual rspView = (case intendedPlace rvr rv rspView of
     Inl why \<Rightarrow> Some (Inl why)
   | Inr (lvg, thinPool) \<Rightarrow> do {
       size \<leftarrow> LowerVolumeSize (intendedUsableSize rv);
       Some (Inr \<lparr> bw_LLVName =
           (case actual of
              Some a \<Rightarrow> if bw_LVMVolumeGroupName a = lvg \<and> bw_ThinPoolName a = thinPool then bw_LLVName a
                        else ComputeLLVName (rvr_Name rvr) lvg thinPool
            | None \<Rightarrow> ComputeLLVName (rvr_Name rvr) lvg thinPool),
         bw_LVMVolumeGroupName = lvg, bw_ThinPoolName = thinPool, bw_Size = size \<rparr>) })"

definition newLLV :: "RvrClient \<Rightarrow> Replica \<Rightarrow> RV \<Rightarrow> backingVolume \<Rightarrow> goErr + LLV" where
  "newLLV cl rvr rv bv = (case SetControllerRef cl None (rvr_UID rvr) of
     Inl e \<Rightarrow> Inl (ErrWrap ''setting controller reference'' e)
   | Inr (_, controller) \<Rightarrow> Inr \<lparr> llv_Name = bw_LLVName bv, llv_Deleting = False, llv_Finalizers = [RVRControllerFinalizer],
       llv_Labels = newLabels rvr (Some rv), llv_Controller = controller, llv_ActualLVNameOnTheNode = bw_LLVName bv,
       llv_LVMVolumeGroupName = bw_LVMVolumeGroupName bv, llv_Size = rc_QuantityString cl (bw_Size bv),
       llv_Type = (if bw_ThinPoolName bv = [] then ''Thick'' else ''Thin''),
       llv_Thin = (if bw_ThinPoolName bv = [] then None else Some (bw_ThinPoolName bv)), llv_Status = None \<rparr>)"

definition computeAPIValidationErrorCauses :: "RvrClient \<Rightarrow> goErr \<Rightarrow> string" where
  "computeAPIValidationErrorCauses cl err =
     (let parts = List.map_filter (\<lambda>(field, message).
            if field \<noteq> [] \<and> message \<noteq> [] then Some (field @ '': '' @ message)
            else if message \<noteq> [] then Some message
            else if field \<noteq> [] then Some field else None) (rc_Causes cl err)
      in if parts = [] then err_Error err else join ''; '' parts)"

definition isLLVMetadataInSync :: "Replica \<Rightarrow> RV option \<Rightarrow> LLV \<Rightarrow> bool" where
  "isLLVMetadataInSync rvr rv llv \<longleftrightarrow> HasFinalizer (llv_Finalizers llv) RVRControllerFinalizer
     \<and> HasControllerRef (llv_Controller llv) (rvr_UID rvr) \<and> labelsInSync rvr rv (llv_Labels llv)"

definition applyLLVMetadata :: "RvrClient \<Rightarrow> Replica \<Rightarrow> RV option \<Rightarrow> LLV \<Rightarrow> goErr option \<times> LLV" where
  "applyLLVMetadata cl rvr rv llv =
     (let llv1 = llv \<lparr> llv_Finalizers := snd (AddFinalizer (llv_Finalizers llv) RVRControllerFinalizer),
            llv_Labels := snd (applyLabels rvr rv (llv_Labels llv)) \<rparr>
      in case SetControllerRef cl (llv_Controller llv1) (rvr_UID rvr) of
        Inl e \<Rightarrow> (Some (ErrWrap ''setting controller reference'' e), llv1)
      | Inr (_, controller) \<Rightarrow> (None, llv1 \<lparr> llv_Controller := controller \<rparr>))"

subsection \<open>Deleting logical volumes\<close>

text \<open>The loop runs from the last volume to the first: the error, what is left of the slice, and the calls. The list
  argument is the reversed slice.\<close>

fun deleteLLVs :: "RvrClient \<Rightarrow> string list \<Rightarrow> LLV list \<Rightarrow> goErr option \<times> LLV list \<times> childCall list" where
  "deleteLLVs cl keep [] = (None, [], [])"
| "deleteLLVs cl keep (llv # earlier) =
     (if llv_Name llv \<in> set keep
      then case deleteLLVs cl keep earlier of (err, left, calls) \<Rightarrow> (err, left @ [llv], calls)
      else case releaseLLV cl llv of
        (Some e, llv1, calls) \<Rightarrow> (Some (ErrWrap (''patching LLV '' @ llv_Name llv) e), rev earlier @ [llv1], calls)
      | (None, llv1, calls) \<Rightarrow> (case deleteLLV cl llv1 of
          (Some e, llv2, calls2) \<Rightarrow> (Some (ErrWrap (''deleting LLV '' @ llv_Name llv1) e), rev earlier @ [llv2], calls @ calls2)
        | (None, _, calls2) \<Rightarrow> (case deleteLLVs cl keep earlier of
            (err, left, calls3) \<Rightarrow> (err, left, calls @ calls2 @ calls3))))"

definition reconcileLLVsDeletion :: "RvrClient \<Rightarrow> string list \<Rightarrow> replicaState \<Rightarrow> string list \<times> ReconcileOutcome \<times> replicaState" where
  "reconcileLLVsDeletion cl keep st =
     (let deletingNames = filter (\<lambda>n. n \<notin> set keep) (map llv_Name (rs_llvs st)) in
      case deleteLLVs cl keep (rev (rs_llvs st)) of
        (err, left, calls) \<Rightarrow> (deletingNames, rvaOutcome err, st \<lparr> rs_llvs := left, rs_calls := rs_calls st @ calls \<rparr>))"

subsection \<open>Reconciliation\<close>

type_synonym bvResult = "backingVolume option \<times> backingVolume option \<times> ReconcileOutcome \<times> replicaState"

text \<open>The condition, and the state with the changed replica.\<close>

definition report :: "RvrClient \<Rightarrow> string \<Rightarrow> ConditionStatus \<Rightarrow> string \<Rightarrow> string \<Rightarrow> Replica \<Rightarrow> replicaState \<Rightarrow> ReconcileOutcome \<times> replicaState" where
  "report cl typ status reason message rvr st = (case setCond cl typ status reason message rvr of
     (changed, rvr1) \<Rightarrow> (ReportChangedIf changed rf_Continue, st \<lparr> rs_rvr := Some rvr1 \<rparr>))"

definition reportAbsent :: "RvrClient \<Rightarrow> string \<Rightarrow> Replica \<Rightarrow> replicaState \<Rightarrow> ReconcileOutcome \<times> replicaState" where
  "reportAbsent cl typ rvr st = (case removeCond cl typ rvr of
     (changed, rvr1) \<Rightarrow> (ReportChangedIf changed rf_Continue, st \<lparr> rs_rvr := Some rvr1 \<rparr>))"

abbreviation bvReady :: string where "bvReady \<equiv> ''BackingVolumeReady''"

text \<open>Without the replica: only volumes that are being deleted are released, up to the first error.\<close>

fun releaseDeleting :: "RvrClient \<Rightarrow> LLV list \<Rightarrow> goErr option \<times> LLV list \<times> childCall list" where
  "releaseDeleting cl [] = (None, [], [])"
| "releaseDeleting cl (llv # llvs) =
     (if \<not> llv_Deleting llv then case releaseDeleting cl llvs of (err, rest, calls) \<Rightarrow> (err, llv # rest, calls)
      else case releaseLLV cl llv of
        (Some e, llv1, calls) \<Rightarrow> (Some (ErrWrap (''removing finalizer from deleting LLV '' @ llv_Name llv) e), llv1 # llvs, calls)
      | (None, llv1, calls) \<Rightarrow> (case releaseDeleting cl llvs of (err, rest, calls2) \<Rightarrow> (err, llv1 # rest, calls @ calls2)))"

text \<open>No volume is wanted: the volumes are deleted, and the condition says why.\<close>

definition discardVolumes :: "RvrClient \<Rightarrow> ConditionStatus \<Rightarrow> string \<Rightarrow> string \<Rightarrow> Replica \<Rightarrow> replicaState \<Rightarrow> bvResult" where
  "discardVolumes cl status reason message rvr st =
     (case reconcileLLVsDeletion cl [] st of (deletingNames, ro, st1) \<Rightarrow>
        if ShouldReturn ro then (None, None, ro, st1)
        else (None, None, report cl bvReady status reason (message @ ''; deleting backing volumes: '' @ join '', '' deletingNames) rvr st1))"

text \<open>The slice with one volume replaced.\<close>

fun putLLV :: "LLV \<Rightarrow> LLV list \<Rightarrow> LLV list" where
  "putLLV l [] = []"
| "putLLV l (x # xs) = (if llv_Name x = llv_Name l then l # xs else x # putLLV l xs)"

definition awaitOldVolume :: "RvrClient \<Rightarrow> Replica \<Rightarrow> backingVolume option \<Rightarrow> backingVolume \<Rightarrow> LLV \<Rightarrow> replicaState \<Rightarrow> bvResult" where
  "awaitOldVolume cl rvr actual intended llv st = (case releaseLLV cl llv of
     (Some e, llv1, calls) \<Rightarrow> (None, None, failure (ErrWrap (''removing finalizer from deleting LLV '' @ llv_Name llv) e),
        st \<lparr> rs_llvs := putLLV llv1 (rs_llvs st), rs_calls := rs_calls st @ calls \<rparr>)
   | (None, llv1, calls) \<Rightarrow> (actual, Some intended,
        report cl bvReady ConditionFalse ''Provisioning''
          (''Waiting for old backing volume '' @ bw_LLVName intended @ '' to be fully deleted'') rvr
          (st \<lparr> rs_llvs := putLLV llv1 (rs_llvs st), rs_calls := rs_calls st @ calls \<rparr>)))"

definition createVolume :: "RvrClient \<Rightarrow> Replica \<Rightarrow> RV \<Rightarrow> backingVolume option \<Rightarrow> backingVolume \<Rightarrow> replicaState \<Rightarrow> bvResult option" where
  "createVolume cl rvr rv actual intended st = (case newLLV cl rvr rv intended of
     Inl e \<Rightarrow> Some (None, None, failure (ErrWrap (''constructing LLV '' @ bw_LLVName intended) e), st)
   | Inr llv \<Rightarrow>
       let st1 = st \<lparr> rs_calls := rs_calls st @ [CallCreateLLV llv] \<rparr> in
       case rc_CreateLLV cl llv of
         Inl e \<Rightarrow>
           if IsAlreadyExists e then Some (None, None, rf_DoneAndRequeue, st1)
           else if rc_IsInvalid cl e then do {
             wait \<leftarrow> rf_ContinueAndRequeueAfter 300000000000;
             let (changed, rvr1) = setCond cl bvReady ConditionFalse ''ProvisioningFailed''
                   (''Failed to create backing volume '' @ bw_LLVName intended @ '': '' @ computeAPIValidationErrorCauses cl e) rvr;
             Some (actual, Some intended, ReportChangedIf changed wait, st1 \<lparr> rs_rvr := Some rvr1 \<rparr>) }
           else Some (None, None, failure (ErrWrap (''creating LLV '' @ bw_LLVName intended) e), st1)
       | Inr llv1 \<Rightarrow> Some (actual, Some intended,
           (case actual of
              Some a \<Rightarrow> report cl bvReady ConditionFalse ''Reprovisioning''
                (''Creating new backing volume '' @ bw_LLVName intended @ '' to replace '' @ bw_LLVName a)
            | None \<Rightarrow> report cl bvReady ConditionFalse ''Provisioning'' (''Creating backing volume '' @ bw_LLVName intended))
           rvr (st1 \<lparr> rs_llvs := rs_llvs st1 @ [llv1] \<rparr>)))"

definition notReadyReport :: "backingVolume option \<Rightarrow> backingVolume \<Rightarrow> string \<times> string" where
  "notReadyReport actual intended = (case actual of
     Some a \<Rightarrow> if bw_LLVName a = bw_LLVName intended
       then (''NotReady'', ''Waiting for backing volume '' @ bw_LLVName intended @ '' to become ready'')
       else (''Reprovisioning'', ''Waiting for new backing volume '' @ bw_LLVName intended @ '' to become ready (replacing '' @ bw_LLVName a @ '')'')
   | None \<Rightarrow> (''Provisioning'', ''Waiting for backing volume '' @ bw_LLVName intended @ '' to become ready''))"

definition resizeLLV :: "RvrClient \<Rightarrow> Replica \<Rightarrow> backingVolume option \<Rightarrow> backingVolume \<Rightarrow> LLV \<Rightarrow> u64 \<Rightarrow> replicaState \<Rightarrow> bvResult option" where
  "resizeLLV cl rvr actual intended llv actualSize st =
     (let wanted = rc_QuantityString cl (bw_Size intended);
          resizing = (\<lambda>st'. (actual, Some intended, report cl bvReady ConditionFalse ''Resizing''
             (''Resizing backing volume '' @ bw_LLVName intended @ '' from '' @ rc_QuantityString cl actualSize @ '' to '' @ wanted) rvr st'))
      in if llv_Size llv = wanted then Some (resizing st)
         else let llv1 = llv \<lparr> llv_Size := wanted \<rparr>; calls = rs_calls st @ [CallPatchLLV llv1] in
           case rc_PatchLLV cl llv1 llv of
             Inr llv2 \<Rightarrow> Some (resizing (st \<lparr> rs_llvs := putLLV llv2 (rs_llvs st), rs_calls := calls \<rparr>))
           | Inl e \<Rightarrow>
               let st1 = st \<lparr> rs_llvs := putLLV llv1 (rs_llvs st), rs_calls := calls \<rparr> in
               if rc_IsInvalid cl e then do {
                 wait \<leftarrow> rf_ContinueAndRequeueAfter 300000000000;
                 let (changed, rvr1) = setCond cl bvReady ConditionFalse ''ResizeFailed''
                       (''Failed to resize backing volume '' @ bw_LLVName intended @ '': '' @ computeAPIValidationErrorCauses cl e) rvr;
                 Some (actual, Some intended, ReportChangedIf changed wait, st1 \<lparr> rs_rvr := Some rvr1 \<rparr>) }
               else Some (None, None, failure (ErrWrap (''patching LLV '' @ llv_Name llv @ '' size'') e), st1))"

text \<open>Everything is ready: the obsolete volumes are deleted.\<close>

definition volumeReady :: "RvrClient \<Rightarrow> Replica \<Rightarrow> backingVolume \<Rightarrow> replicaState \<Rightarrow> bvResult" where
  "volumeReady cl rvr intended st =
     (case reconcileLLVsDeletion cl [bw_LLVName intended] st of (deletingNames, ro, st1) \<Rightarrow>
        if ShouldReturn ro then (None, None, ro, st1)
        else (Some intended, Some intended, report cl bvReady ConditionTrue ''Ready''
          (''Backing volume '' @ bw_LLVName intended @ '' is ready''
             @ (if deletingNames = [] then [] else ''; deleting obsolete: '' @ join '', '' deletingNames)) rvr st1))"

text \<open>Finalizer, owner and labels of the volume: an error, the volume and the state.\<close>

definition ensureVolumeMetadata :: "RvrClient \<Rightarrow> Replica \<Rightarrow> RV \<Rightarrow> LLV \<Rightarrow> replicaState \<Rightarrow> goErr option \<times> LLV \<times> replicaState" where
  "ensureVolumeMetadata cl rvr rv llv st =
     (if isLLVMetadataInSync rvr (Some rv) llv then (None, llv, st)
      else case applyLLVMetadata cl rvr (Some rv) llv of
        (Some e, llv1) \<Rightarrow> (Some (ErrWrap (''applying LLV '' @ llv_Name llv @ '' metadata'') e), llv1, st \<lparr> rs_llvs := putLLV llv1 (rs_llvs st) \<rparr>)
      | (None, llv1) \<Rightarrow>
          let calls = rs_calls st @ [CallPatchLLV llv1] in
          (case rc_PatchLLV cl llv1 llv of
             Inl e \<Rightarrow> (Some (ErrWrap (''patching LLV '' @ llv_Name llv @ '' metadata'') e), llv1,
                       st \<lparr> rs_llvs := putLLV llv1 (rs_llvs st), rs_calls := calls \<rparr>)
           | Inr llv2 \<Rightarrow> (None, llv2, st \<lparr> rs_llvs := putLLV llv2 (rs_llvs st), rs_calls := calls \<rparr>)))"

definition useVolume :: "RvrClient \<Rightarrow> Replica \<Rightarrow> RV \<Rightarrow> backingVolume option \<Rightarrow> backingVolume \<Rightarrow> LLV \<Rightarrow> replicaState \<Rightarrow> bvResult option" where
  "useVolume cl rvr rv actual intended llv st = (case ensureVolumeMetadata cl rvr rv llv st of
     (Some e, _, st1) \<Rightarrow> Some (None, None, failure e, st1)
   | (None, llv1, st1) \<Rightarrow>
       (case (isLLVReady (Some llv1), llv_Status llv1) of
          (True, Some status) \<Rightarrow>
            if ls_ActualSize status < bw_Size intended then resizeLLV cl rvr actual intended llv1 (ls_ActualSize status) st1
            else Some (volumeReady cl rvr intended st1)
        | _ \<Rightarrow> (case notReadyReport actual intended of
            (reason, message) \<Rightarrow> Some (actual, Some intended, report cl bvReady ConditionFalse reason message rvr st1))))"

definition waitForRV :: "RvrClient \<Rightarrow> string \<Rightarrow> string \<Rightarrow> Replica \<Rightarrow> replicaState \<Rightarrow> ReconcileOutcome \<times> replicaState" where
  "waitForRV cl typ message rvr st = report cl typ ConditionUnknown ''WaitingForReplicatedVolume'' message rvr st"

definition noVolume :: "RvrClient \<Rightarrow> string \<Rightarrow> string \<Rightarrow> Replica \<Rightarrow> replicaState \<Rightarrow> bvResult" where
  "noVolume cl reason message rvr st =
     (let status = (if reason = ''WaitingForReplicatedVolume'' then ConditionUnknown else ConditionFalse) in
      if rs_llvs st \<noteq> [] then discardVolumes cl status reason message rvr st
      else (None, None, if reason = ''NotApplicable'' then reportAbsent cl bvReady rvr st
                        else report cl bvReady status reason message rvr st))"

definition reconcileBackingVolume :: "RvrClient \<Rightarrow> RV option \<Rightarrow> rspEligibilityView option \<Rightarrow> replicaState \<Rightarrow> bvResult option" where
  "reconcileBackingVolume cl rvOpt rspView st = (case rs_rvr st of
     None \<Rightarrow> (case releaseDeleting cl (rs_llvs st) of
       (err, llvs, calls) \<Rightarrow> Some (None, None, rvaOutcome err, st \<lparr> rs_llvs := llvs, rs_calls := rs_calls st @ calls \<rparr>))
   | Some rvr \<Rightarrow>
       if rvrShouldNotExist rvr then
         Some (if rs_llvs st \<noteq> [] then discardVolumes cl ConditionFalse ''NotApplicable'' ''Replica is being deleted'' rvr st
               else (None, None, reportAbsent cl bvReady rvr st))
       else
         let actual = computeActualBackingVolume (rs_drbdr st) (rs_llvs st) in
         case rvOpt of
           None \<Rightarrow> Some (actual, None, waitForRV cl bvReady ''ReplicatedVolume not found; waiting for it to be present'' rvr st)
         | Some rv \<Rightarrow>
             if rv_DatameshRevision rv = 0
             then Some (actual, None, waitForRV cl bvReady ''Datamesh is not initialized yet; waiting for ReplicatedVolume to initialize it'' rvr st)
             else do {
               r \<leftarrow> computeIntendedBackingVolume rvr rv actual rspView;
               case r of
                 Inl (reason, message) \<Rightarrow> Some (noVolume cl reason message rvr st)
               | Inr intended \<Rightarrow> (case findLLVByName (rs_llvs st) (bw_LLVName intended) of
                   None \<Rightarrow> createVolume cl rvr rv actual intended st
                 | Some llv \<Rightarrow>
                     if llv_Deleting llv \<and> FindMemberByName (rv_Datamesh rv) (rvr_Name rvr) = None
                     then Some (awaitOldVolume cl rvr actual intended llv st)
                     else useVolume cl rvr rv actual intended llv st) })"

end
