(* ===== verification/Rvr_Drbd.thy ===== *)
theory Rvr_Drbd
  imports Rvr_Backing
begin

text \<open>
  The DRBD resource of a replica (\<open>rvr_controller/reconciler_drbd_resource.go\<close>): its type, its spec with
  the peers it connects to, and the reconciliation that creates and patches it and reports how far the
  agent has come. A panic is \<open>None\<close>.
\<close>

subsection \<open>Types and peers\<close>

definition computeIntendedType :: "Replica \<Rightarrow> DatameshMember option \<Rightarrow> DatameshMemberType" where
  "computeIntendedType rvr member = (case member of
     None \<Rightarrow> if rvr_Deleting rvr then MT_Access else memberTypeOf (rvr_Type rvr)
   | Some m \<Rightarrow> m_Type m)"

definition computeTargetType :: "DatameshMemberType \<Rightarrow> string \<Rightarrow> DatameshMemberType option" where
  "computeTargetType intendedType targetLLVName =
     (if HasBackingVolume intendedType \<and> targetLLVName = [] then ToLiminal intendedType else Some intendedType)"

definition newDRBDRReconciliationCache :: "int \<Rightarrow> int \<Rightarrow> DatameshMemberType \<Rightarrow> ReconciliationCache" where
  "newDRBDRReconciliationCache rev0 gen0 ty0 =
     \<lparr> rc_DatameshRevision = rev0, rc_DRBDRGeneration = gen0, rc_TargetType = ty0 \<rparr>"

definition computeDRBDRType :: "DatameshMemberType \<Rightarrow> DRBDType" where
  "computeDRBDRType memberType = (if HasBackingVolume memberType then DRBDDiskful else DRBDDiskless)"

text \<open>One peer; reading its ID may panic.\<close>

definition drbdPeer :: "Datamesh \<Rightarrow> DatameshMember \<Rightarrow> DRBDPeer option" where
  "drbdPeer dm m = do {
     i \<leftarrow> idFromName (m_Name m);
     Some \<lparr> dp_Name = m_Name m, dp_Type = (if ConnectsToAllPeers (m_Type m) then DRBDDiskful else DRBDDiskless),
       dp_AllowRemoteRead = (IsVoter (m_Type m) \<or> m_Type m = MT_TieBreaker), dp_NodeID = i, dp_Protocol = ''C'',
       dp_SharedSecret = ds_SharedSecret dm, dp_SharedSecretAlg = ds_SharedSecretAlg dm, dp_PauseSync = False,
       dp_Paths = m_Addresses m \<rparr> }"

definition isPeerOf :: "DatameshMember \<Rightarrow> DatameshMember \<Rightarrow> bool" where
  "isPeerOf self m \<longleftrightarrow> m_Name m \<noteq> m_Name self \<and> (ConnectsToAllPeers (m_Type self) \<or> ConnectsToAllPeers (m_Type m))"

definition computeTargetDRBDRPeers :: "Datamesh \<Rightarrow> DatameshMember \<Rightarrow> DRBDPeer list option" where
  "computeTargetDRBDRPeers dm self =
     (if length (ds_Members dm) \<le> 1 then Some []
      else map_option (sort_key dp_Name) (those (map (drbdPeer dm) (filter (isPeerOf self) (ds_Members dm)))))"

subsection \<open>The spec\<close>

definition startSpec :: "Replica \<Rightarrow> DRBDResource option \<Rightarrow> DRBDSpec option" where
  "startSpec rvr drbdr = (case drbdr of
     Some d \<Rightarrow> Some (dr_Spec d)
   | None \<Rightarrow> do { i \<leftarrow> rvrID (RVR.truncate rvr); Some (emptySpec \<lparr> drs_NodeName := rvr_NodeName rvr, drs_NodeID := i \<rparr>) })"

text \<open>The size never decreases.\<close>

definition targetSize :: "Datamesh \<Rightarrow> u64 option \<Rightarrow> u64 option" where
  "targetSize dm current =
     (let alignedSize = AlignTo4Ki (ds_Size dm) in
      case current of None \<Rightarrow> Some alignedSize | Some s \<Rightarrow> if alignedSize > s then Some alignedSize else Some s)"

definition computeTargetDRBDRSpec :: "Replica \<Rightarrow> DRBDResource option \<Rightarrow> Datamesh \<Rightarrow> DatameshMember option \<Rightarrow> string
    \<Rightarrow> DatameshMemberType \<Rightarrow> DRBDSpec option" where
  "computeTargetDRBDRSpec rvr drbdr dm member targetLLVName targetType = do {
     spec0 \<leftarrow> startSpec rvr drbdr;
     let dty = computeDRBDRType targetType;
     let spec = spec0 \<lparr> drs_Type := dty, drs_SystemNetworks := ds_SystemNetworkNames dm, drs_State := ''Up'',
           drs_LVMLogicalVolumeName := (if dty = DRBDDiskful then targetLLVName else []),
           drs_Size := (if dty = DRBDDiskful then targetSize dm (drs_Size spec0) else None),
           drs_NonVoting := (targetType = MT_ShadowDiskful) \<rparr>;
     case member of
       None \<Rightarrow> Some (spec \<lparr> drs_Role := RoleSecondary, drs_AllowTwoPrimaries := False, drs_Quorum := 32,
                 drs_QuorumMinimumRedundancy := 32, drs_Peers := [] \<rparr>)
     | Some m \<Rightarrow> do {
         peers \<leftarrow> computeTargetDRBDRPeers dm m;
         Some (spec \<lparr> drs_Role := (if m_Attached m then RolePrimary else RoleSecondary),
           drs_AllowTwoPrimaries := ds_Multiattach dm,
           drs_Quorum := (if IsVoter targetType then ds_Quorum dm else 32),
           drs_QuorumMinimumRedundancy := ds_QuorumMinimumRedundancy dm, drs_Peers := peers \<rparr>) } }"

definition newDRBDR :: "RvrClient \<Rightarrow> Replica \<Rightarrow> RV \<Rightarrow> DRBDSpec \<Rightarrow> goErr + DRBDResource" where
  "newDRBDR cl rvr rv spec = (case rc_SetControllerReference cl None (rvr_UID rvr) of
     Inl e \<Rightarrow> Inl e
   | Inr controller \<Rightarrow> Inr \<lparr> dr_Name = rvr_Name rvr, dr_Generation = 0, dr_Deleting = False,
       dr_Finalizers = [RVRControllerFinalizer], dr_Labels = newLabels rvr (Some rv), dr_Controller = controller,
       dr_Spec = spec, dr_Device = [], dr_DeviceIOSuspended = None, dr_DeviceOpen = None, dr_Size = None,
       dr_Addresses = [], dr_ActiveConfiguration = None, dr_Peers = [], dr_DiskState = [], dr_Quorum = None,
       dr_Conditions = [] \<rparr>)"

definition isDRBDRMetadataInSync :: "Replica \<Rightarrow> RV option \<Rightarrow> DRBDResource \<Rightarrow> bool" where
  "isDRBDRMetadataInSync rvr rv drbdr \<longleftrightarrow> HasFinalizer (dr_Finalizers drbdr) RVRControllerFinalizer
     \<and> HasControllerRef (dr_Controller drbdr) (rvr_UID rvr) \<and> labelsInSync rvr rv (dr_Labels drbdr)"

definition applyDRBDRMetadata :: "RvrClient \<Rightarrow> Replica \<Rightarrow> RV option \<Rightarrow> DRBDResource \<Rightarrow> goErr option \<times> DRBDResource" where
  "applyDRBDRMetadata cl rvr rv drbdr =
     (let d1 = drbdr \<lparr> dr_Finalizers := snd (AddFinalizer (dr_Finalizers drbdr) RVRControllerFinalizer),
            dr_Labels := snd (applyLabels rvr rv (dr_Labels drbdr)) \<rparr>
      in case SetControllerRef cl (dr_Controller d1) (rvr_UID rvr) of
        Inl e \<Rightarrow> (Some (ErrWrap ''setting controller reference'' e), d1)
      | Inr (_, controller) \<Rightarrow> (None, d1 \<lparr> dr_Controller := controller \<rparr>))"

subsection \<open>Reconciliation\<close>

abbreviation drbdConfigured :: string where "drbdConfigured \<equiv> ''DRBDConfigured''"

text \<open>Step 1: the replica is to go.\<close>

definition discardDRBDR :: "RvrClient \<Rightarrow> Replica \<Rightarrow> replicaState \<Rightarrow> ReconcileOutcome \<times> replicaState" where
  "discardDRBDR cl rvr st = (case rs_drbdr st of
     None \<Rightarrow> report cl drbdConfigured ConditionFalse ''NotApplicable'' ''Replica is being deleted; DRBD resource has been deleted'' rvr st
   | Some d \<Rightarrow> (case releaseDRBDR cl d of
       (Some e, d1, calls) \<Rightarrow> (failure (ErrWrap (''patching DRBDResource '' @ dr_Name d) e),
          st \<lparr> rs_drbdr := Some d1, rs_calls := rs_calls st @ calls \<rparr>)
     | (None, d1, calls) \<Rightarrow> (case deleteDRBDR cl d1 of
         (Some e, d2, calls2) \<Rightarrow> (failure (ErrWrap (''deleting DRBDResource '' @ dr_Name d1) e),
            st \<lparr> rs_drbdr := Some d2, rs_calls := rs_calls st @ calls @ calls2 \<rparr>)
       | (None, d2, calls2) \<Rightarrow> report cl drbdConfigured ConditionFalse ''NotApplicable''
            (''Replica is being deleted; waiting for DRBD resource '' @ dr_Name d2 @ '' to be deleted'') rvr
            (st \<lparr> rs_drbdr := None, rs_calls := rs_calls st @ calls @ calls2 \<rparr>))))"

text \<open>Step 6: create or update. Either an outcome to return, or the cache entry and the state.\<close>

definition createResource :: "RvrClient \<Rightarrow> Replica \<Rightarrow> RV \<Rightarrow> DatameshMember option \<Rightarrow> string \<Rightarrow> DatameshMemberType \<Rightarrow> replicaState
    \<Rightarrow> ((ReconcileOutcome + ReconciliationCache) \<times> replicaState) option" where
  "createResource cl rvr rv member llvName targetType st = do {
     spec \<leftarrow> computeTargetDRBDRSpec rvr None (rv_Datamesh rv) member llvName targetType;
     Some (case newDRBDR cl rvr rv spec of
       Inl e \<Rightarrow> (Inl (failure (ErrWrap ''constructing DRBDResource'' e)), st)
     | Inr obj \<Rightarrow>
         let st1 = st \<lparr> rs_calls := rs_calls st @ [CallCreateDRBDR obj] \<rparr> in
         (case rc_CreateDRBDR cl obj of
            Inl e \<Rightarrow> (Inl (if IsAlreadyExists e then rf_DoneAndRequeue else failure (ErrWrap ''creating DRBDResource'' e)), st1)
          | Inr d \<Rightarrow> (Inr (newDRBDRReconciliationCache (rv_DatameshRevision rv) (dr_Generation d) targetType),
                     st1 \<lparr> rs_drbdr := Some d \<rparr>))) }"

definition updateResource :: "RvrClient \<Rightarrow> Replica \<Rightarrow> RV \<Rightarrow> DatameshMember option \<Rightarrow> string \<Rightarrow> DatameshMemberType \<Rightarrow> DRBDResource \<Rightarrow> replicaState
    \<Rightarrow> ((ReconcileOutcome + ReconciliationCache) \<times> replicaState) option" where
  "updateResource cl rvr rv member llvName targetType d st =
     (let cache = newDRBDRReconciliationCache (rv_DatameshRevision rv) (dr_Generation d) targetType in
      if rvr_Cache rvr = cache then Some (Inr cache, st)
      else do {
        spec \<leftarrow> computeTargetDRBDRSpec rvr (Some d) (rv_Datamesh rv) member llvName targetType;
        if dr_Spec d = spec then Some (Inr cache, st)
        else let d1 = d \<lparr> dr_Spec := spec \<rparr>; calls = rs_calls st @ [CallPatchDRBDR d1] in
          Some (case rc_PatchDRBDR cl d1 d of
            Inl e \<Rightarrow> (Inl (failure (ErrWrap ''patching DRBDResource'' e)), st \<lparr> rs_drbdr := Some d1, rs_calls := calls \<rparr>)
          | Inr d2 \<Rightarrow> (Inr cache, st \<lparr> rs_drbdr := Some d2, rs_calls := calls \<rparr>)) })"

text \<open>Step 7.\<close>

definition ensureResourceMetadata :: "RvrClient \<Rightarrow> Replica \<Rightarrow> RV \<Rightarrow> DRBDResource \<Rightarrow> replicaState \<Rightarrow> (goErr + DRBDResource) \<times> replicaState" where
  "ensureResourceMetadata cl rvr rv d st =
     (if isDRBDRMetadataInSync rvr (Some rv) d then (Inr d, st)
      else case applyDRBDRMetadata cl rvr (Some rv) d of
        (Some e, d1) \<Rightarrow> (Inl (ErrWrap (''applying DRBDResource '' @ dr_Name d @ '' metadata'') e), st \<lparr> rs_drbdr := Some d1 \<rparr>)
      | (None, d1) \<Rightarrow>
          let calls = rs_calls st @ [CallPatchDRBDR d1] in
          (case rc_PatchDRBDR cl d1 d of
             Inl e \<Rightarrow> (Inl (ErrWrap (''patching DRBDResource '' @ dr_Name d @ '' metadata'') e), st \<lparr> rs_drbdr := Some d1, rs_calls := calls \<rparr>)
           | Inr d2 \<Rightarrow> (Inr d2, st \<lparr> rs_drbdr := Some d2, rs_calls := calls \<rparr>)))"

definition applyRVRDRBDRReconciliationCache :: "ReconciliationCache \<Rightarrow> Replica \<Rightarrow> bool \<times> Replica" where
  "applyRVRDRBDRReconciliationCache target rvr =
     (if rvr_Cache rvr = target then (False, rvr) else (True, rvr \<lparr> rvr_Cache := target \<rparr>))"

text \<open>A condition on top of earlier changes.\<close>

definition settle :: "RvrClient \<Rightarrow> ConditionStatus \<Rightarrow> string \<Rightarrow> string \<Rightarrow> bool \<Rightarrow> Replica \<Rightarrow> replicaState \<Rightarrow> ReconcileOutcome \<times> replicaState" where
  "settle cl status reason message changed rvr st = (case setCond cl drbdConfigured status reason message rvr of
     (ch, rvr1) \<Rightarrow> (ReportChangedIf (ch \<or> changed) rf_Continue, st \<lparr> rs_rvr := Some rvr1 \<rparr>))"

definition formatBV :: "backingVolume \<Rightarrow> string" where
  "formatBV bv = (if bw_ThinPoolName bv = [] then ''LVG '' @ quoted (bw_LVMVolumeGroupName bv) @ '' without thinpool''
     else ''LVG '' @ quoted (bw_LVMVolumeGroupName bv) @ '' with thinpool '' @ quoted (bw_ThinPoolName bv))"

text \<open>Step 13: what DRBD still waits for, with the reason.\<close>

definition pendingVolume :: "RvrClient \<Rightarrow> backingVolume option \<Rightarrow> backingVolume option \<Rightarrow> DRBDResource \<Rightarrow> (string \<times> string) option" where
  "pendingVolume cl targetBV intendedBV d =
     (let replacing = (case (intendedBV, targetBV) of
            (Some i, Some t) \<Rightarrow>
              if bw_LVMVolumeGroupName t \<noteq> bw_LVMVolumeGroupName i \<or> bw_ThinPoolName t \<noteq> bw_ThinPoolName i
              then Some (''WaitingForBackingVolume'', ''Backing volume replacement pending: current '' @ formatBV t @ '', expected '' @ formatBV i)
              else if bw_Size t < bw_Size i
              then Some (''WaitingForBackingVolume'', ''Backing volume resize pending: current size '' @ rc_QuantityString cl (bw_Size t)
                     @ '', expected size '' @ rc_QuantityString cl (bw_Size i))
              else None
          | _ \<Rightarrow> None) in
      if replacing \<noteq> None then replacing
      else case (drs_Type (dr_Spec d), drs_Size (dr_Spec d)) of
        (DRBDDiskful, Some wanted) \<Rightarrow>
          (case dr_Size d of
             None \<Rightarrow> Some (''WaitingForDRBDResize'', ''DRBD resize pending: usable size not yet reported, expected '' @ rc_QuantityString cl wanted)
           | Some s \<Rightarrow> if s < wanted then Some (''WaitingForDRBDResize'', ''DRBD resize pending: usable size '' @ rc_QuantityString cl s
                 @ '', expected '' @ rc_QuantityString cl wanted) else None)
      | _ \<Rightarrow> None)"

text \<open>Steps 14 and 15, with the invariant that panics when it does not hold.\<close>

definition configured :: "RvrClient \<Rightarrow> RV \<Rightarrow> DatameshMember option \<Rightarrow> DatameshMemberType \<Rightarrow> backingVolume option \<Rightarrow> backingVolume option
    \<Rightarrow> bool \<Rightarrow> Replica \<Rightarrow> replicaState \<Rightarrow> (ReconcileOutcome \<times> replicaState) option" where
  "configured cl rv member targetType targetBV intendedBV changed rvr st = (case member of
     None \<Rightarrow> Some (
       if rvr_DatameshRevision rvr \<noteq> 0
       then settle cl ConditionTrue ''Configured'' ''DRBD configured (removed from datamesh)'' True
              (rvr \<lparr> rvr_DatameshRevision := 0, rvr_DatameshRevisionObservedByAgent := 0 \<rparr>) st
       else if rvr_Deleting rvr then settle cl ConditionTrue ''Configured'' ''DRBD configured (replica is being deleted)'' changed rvr st
       else settle cl ConditionFalse ''PendingDatameshJoin'' ''DRBD preconfigured, waiting for datamesh membership'' changed rvr st)
   | Some m \<Rightarrow> do {
       panicUnless (\<not> (HasBackingVolume targetType \<and> \<not> backingVolume_Equal targetBV intendedBV));
       let (ch, rvr1) = (if rvr_DatameshRevision rvr \<noteq> rv_DatameshRevision rv
             then (True, rvr \<lparr> rvr_DatameshRevision := rv_DatameshRevision rv \<rparr>) else (changed, rvr));
       Some (settle cl ConditionTrue ''Configured'' ''DRBD fully configured'' ch rvr1 st) })"

text \<open>Steps 10c to 15: the agent has processed the current generation.\<close>

definition agentResponded :: "RvrClient \<Rightarrow> RV \<Rightarrow> DatameshMember option \<Rightarrow> DatameshMemberType \<Rightarrow> DatameshMemberType
    \<Rightarrow> backingVolume option \<Rightarrow> backingVolume option \<Rightarrow> ReconciliationCache \<Rightarrow> Condition \<Rightarrow> bool \<Rightarrow> Replica \<Rightarrow> DRBDResource \<Rightarrow> replicaState
    \<Rightarrow> (ReconcileOutcome \<times> replicaState) option" where
  "agentResponded cl rv member intendedType targetType targetBV intendedBV cache cond changed0 rvr0 d st =
     (let (changed, rvr) = (if rvr_DatameshRevisionObservedByAgent rvr0 \<noteq> rc_DatameshRevision cache
            then (True, rvr0 \<lparr> rvr_DatameshRevisionObservedByAgent := rc_DatameshRevision cache \<rparr>) else (changed0, rvr0)) in
      if c_Reason cond = ''InMaintenance''
      then Some (settle cl ConditionUnknown ''InMaintenance'' ''DRBD is in maintenance mode'' changed rvr st)
      else if c_Status cond \<noteq> ConditionTrue
      then Some (settle cl ConditionFalse ''ConfigurationFailed'' (''DRBD configuration failed (reason: '' @ c_Reason cond @ '')'') changed rvr st)
      else if dr_Addresses d = []
      then Some (settle cl ConditionUnknown ''ApplyingConfiguration'' ''Waiting for DRBD addresses'' changed rvr st)
      else if targetType \<noteq> intendedType
      then Some (settle cl ConditionFalse ''WaitingForBackingVolume''
             (''DRBD preconfigured as '' @ DatameshMemberType_String targetType @ '', waiting for backing volume to become ready'') changed rvr st)
      else case pendingVolume cl targetBV intendedBV d of
        Some (reason, msg) \<Rightarrow> Some (settle cl ConditionFalse reason msg changed rvr st)
      | None \<Rightarrow> configured cl rv member targetType targetBV intendedBV changed rvr st)"

text \<open>Steps 8 to 10b.\<close>

definition awaitAgent :: "RvrClient \<Rightarrow> RV \<Rightarrow> DatameshMember option \<Rightarrow> DatameshMemberType \<Rightarrow> DatameshMemberType
    \<Rightarrow> backingVolume option \<Rightarrow> backingVolume option \<Rightarrow> ReconciliationCache \<Rightarrow> Replica \<Rightarrow> DRBDResource \<Rightarrow> replicaState
    \<Rightarrow> (ReconcileOutcome \<times> replicaState) option" where
  "awaitAgent cl rv member intendedType targetType targetBV intendedBV cache rvr0 d st0 =
     (let (changed, rvr) = applyRVRDRBDRReconciliationCache cache rvr0;
          st = st0 \<lparr> rs_rvr := Some rvr \<rparr>; nodeName = rvr_NodeName rvr in
      case getAgentReady cl nodeName of
        Inl e \<Rightarrow> Some (failure (ErrWrap (''getting agent readiness for '' @ nodeName) e), st)
      | Inr False \<Rightarrow> (case getNodeReady cl nodeName of
          Inl e \<Rightarrow> Some (failure (ErrWrap (''getting node readiness for '' @ nodeName) e), st)
        | Inr nodeReady \<Rightarrow> Some (settle cl ConditionFalse ''AgentNotReady''
            (''Agent is not ready on node '' @ nodeName @ '' (node status: '' @ (if nodeReady then ''Ready'' else ''NotReady'') @ '')'') changed rvr st))
      | Inr True \<Rightarrow> (case findCondition (dr_Conditions d) ''Configured'' of
          None \<Rightarrow> Some (settle cl ConditionUnknown ''ApplyingConfiguration''
            ''Waiting for agent to respond (Configured condition is not set yet)'' changed rvr st)
        | Some cond \<Rightarrow>
            if c_ObservedGeneration cond \<noteq> dr_Generation d
            then Some (settle cl ConditionUnknown ''ApplyingConfiguration'' (''Waiting for agent to respond (generation: ''
                   @ itoa (dr_Generation d) @ '', observedGeneration: '' @ itoa (c_ObservedGeneration cond) @ '')'') changed rvr st)
            else agentResponded cl rv member intendedType targetType targetBV intendedBV cache cond changed rvr d st))"

text \<open>Steps 6 to 15.\<close>

definition configureResource :: "RvrClient \<Rightarrow> RV \<Rightarrow> backingVolume option \<Rightarrow> backingVolume option \<Rightarrow> Replica \<Rightarrow> replicaState
    \<Rightarrow> (ReconcileOutcome \<times> replicaState) option" where
  "configureResource cl rv targetBV intendedBV rvr st = do {
     let member = FindMemberByName (rv_Datamesh rv) (rvr_Name rvr);
     let intendedType = computeIntendedType rvr member;
     let llvName = LLVNameOrEmpty targetBV;
     targetType \<leftarrow> computeTargetType intendedType llvName;
     (r, st1) \<leftarrow> (case rs_drbdr st of
        None \<Rightarrow> createResource cl rvr rv member llvName targetType st
      | Some d \<Rightarrow> updateResource cl rvr rv member llvName targetType d st);
     case (r, rs_drbdr st1) of
       (Inl out, _) \<Rightarrow> Some (out, st1)
     | (Inr cache, Some d) \<Rightarrow> (case ensureResourceMetadata cl rvr rv d st1 of
         (Inl e, st2) \<Rightarrow> Some (failure e, st2)
       | (Inr d2, st2) \<Rightarrow> awaitAgent cl rv member intendedType targetType targetBV intendedBV cache rvr d2 st2)
     | (Inr cache, None) \<Rightarrow> None }"

definition reconcileDRBDResource :: "RvrClient \<Rightarrow> RV option \<Rightarrow> backingVolume option \<Rightarrow> backingVolume option \<Rightarrow> replicaState
    \<Rightarrow> (ReconcileOutcome \<times> replicaState) option" where
  "reconcileDRBDResource cl rvOpt targetBV intendedBV st = (case rs_rvr st of
     None \<Rightarrow> Some (case rs_drbdr st of
       None \<Rightarrow> (rf_Continue, st)
     | Some d \<Rightarrow>
         if \<not> dr_Deleting d then (rf_Continue, st)
         else case releaseDRBDR cl d of
           (Some e, d1, calls) \<Rightarrow> (failure (ErrWrap (''removing finalizer from deleting DRBDResource '' @ dr_Name d) e),
              st \<lparr> rs_drbdr := Some d1, rs_calls := rs_calls st @ calls \<rparr>)
         | (None, d1, calls) \<Rightarrow> (rf_Continue, st \<lparr> rs_drbdr := Some d1, rs_calls := rs_calls st @ calls \<rparr>))
   | Some rvr \<Rightarrow>
       if rvrShouldNotExist rvr then Some (discardDRBDR cl rvr st)
       else case rvOpt of
         None \<Rightarrow> Some (waitForRV cl drbdConfigured ''ReplicatedVolume not found; waiting for it to be present'' rvr st)
       | Some rv \<Rightarrow>
           if rv_DatameshRevision rv = 0
           then Some (waitForRV cl drbdConfigured ''Datamesh is not initialized yet; waiting for ReplicatedVolume to initialize it'' rvr st)
           else if ds_SystemNetworkNames (rv_Datamesh rv) = []
           then Some (waitForRV cl drbdConfigured ''No system networks in datamesh; waiting for ReplicatedVolume to configure them'' rvr st)
           else if rvr_NodeName rvr = []
           then Some (report cl drbdConfigured ConditionFalse ''PendingScheduling'' ''Waiting for node assignment'' rvr st)
           else configureResource cl rv targetBV intendedBV rvr st)"

end
