(* ===== verification/Rvr_Status.thy ===== *)
theory Rvr_Status
  imports Rvr_Drbd
begin

text \<open>
  The status of a replica (\<open>rvr_controller/reconciler_status.go\<close>): each ensure helper mirrors a part of the
  DRBD resource into the replica, and the last one derives the membership request and the Configured
  condition. A helper gives its outcome and the changed replica. The helpers that update a slice in place
  with a change flag per field are modelled by the slice they leave and whether it differs from the old one.
\<close>

type_synonym ensured = "EnsureOutcome \<times> Replica"

definition okChanged :: "bool \<Rightarrow> Replica \<Rightarrow> ensured" where
  "okChanged changed rvr = (ensure_ReportChangedIf changed ef_Ok, rvr)"

subsection \<open>Attachment, addresses, type and size\<close>

definition isPrimary :: "DRBDResource option \<Rightarrow> bool" where
  "isPrimary drbdr = (case drbdr of None \<Rightarrow> False | Some d \<Rightarrow>
     (case dr_ActiveConfiguration d of None \<Rightarrow> False | Some ac \<Rightarrow> da_Role ac = RolePrimary))"

definition applyRVRAttachment :: "Replica \<Rightarrow> ReplicaAttachment option \<Rightarrow> bool \<times> Replica" where
  "applyRVRAttachment rvr attachment =
     (if rvr_Attachment rvr = attachment then (False, rvr) else (True, rvr \<lparr> rvr_Attachment := attachment \<rparr>))"

definition ensureStatusAttachment :: "DRBDResource option \<Rightarrow> bool \<Rightarrow> bool \<Rightarrow> Replica \<Rightarrow> ensured" where
  "ensureStatusAttachment drbdr agentReady pending rvr =
     (if \<not> agentReady \<or> pending then (ef_Ok, rvr)
      else let attachment = (case drbdr of
             Some d \<Rightarrow> if isPrimary drbdr
               then Some \<lparr> att_DevicePath = dr_Device d, att_IOSuspended = (dr_DeviceIOSuspended d = Some True),
                           att_InUse = (dr_DeviceOpen d = Some True) \<rparr>
               else None
           | None \<Rightarrow> None) in
           case applyRVRAttachment rvr attachment of (changed, rvr1) \<Rightarrow> okChanged changed rvr1)"

definition ensureStatusAddressesAndType :: "DRBDResource option \<Rightarrow> Replica \<Rightarrow> ensured" where
  "ensureStatusAddressesAndType drbdr rvr =
     (let addresses = (case drbdr of None \<Rightarrow> [] | Some d \<Rightarrow> dr_Addresses d);
          ty = (case drbdr of None \<Rightarrow> DRBDTypeNone | Some d \<Rightarrow>
                  (case dr_ActiveConfiguration d of None \<Rightarrow> DRBDTypeNone | Some ac \<Rightarrow> da_Type ac))
      in okChanged (rvr_Addresses rvr \<noteq> addresses \<or> rvr_StatusType rvr \<noteq> ty)
           (rvr \<lparr> rvr_Addresses := addresses, rvr_StatusType := ty \<rparr>))"

definition ensureStatusReplicaSize :: "DRBDResource option \<Rightarrow> Replica \<Rightarrow> ensured" where
  "ensureStatusReplicaSize drbdr rvr =
     (let target = (case drbdr of None \<Rightarrow> None | Some d \<Rightarrow> dr_Size d) in
      if rvr_Size rvr \<noteq> target then okChanged True (rvr \<lparr> rvr_Size := target \<rparr>) else okChanged False rvr)"

subsection \<open>Peers\<close>

definition parseIDSuffix :: "string \<Rightarrow> u8 option" where
  "parseIDSuffix s = (case s of
     [a] \<Rightarrow> (let d = of_char a - (48 :: u8) in if d \<le> 9 then Some d else None)
   | [a, b] \<Rightarrow>
       (let hi = of_char a - (48 :: u8); lo = of_char b - (48 :: u8) in
        if hi \<ge> 1 \<and> hi \<le> 3 \<and> lo \<le> 9
        then let i = hi * 10 + lo in if i \<le> 31 then Some i else None
        else None)
   | _ \<Rightarrow> None)"

definition HasPrefix :: "string \<Rightarrow> string \<Rightarrow> bool" where
  "HasPrefix s p \<longleftrightarrow> take (length p) s = p"

text \<open>The normalized name of a peer; \<open>None\<close> for a foreign one.\<close>

definition peerNameOf :: "string \<Rightarrow> string \<Rightarrow> string option" where
  "peerNameOf rvName name =
     (let rvNamePrefix = rvName @ ''-'';
          suffix = (if HasPrefix name rvNamePrefix then Some (drop (length rvNamePrefix) name)
                    else if HasPrefix name ''peer-'' then Some (drop (length ''peer-'') name) else None)
      in case suffix of
        None \<Rightarrow> None
      | Some s \<Rightarrow> if parseIDSuffix s = None then None else Some (rvNamePrefix @ s))"

definition peerTypeOf :: "Datamesh option \<Rightarrow> string \<Rightarrow> DRBDType \<Rightarrow> ReplicaType" where
  "peerTypeOf dmo peerName ty = (case ty of
     DRBDDiskful \<Rightarrow> RT_Diskful
   | DRBDDiskless \<Rightarrow> (case dmo of
       None \<Rightarrow> RT_Access
     | Some dm \<Rightarrow> (case FindMemberByName dm peerName of
         None \<Rightarrow> RT_Access
       | Some m \<Rightarrow> if m_Type m = MT_TieBreaker then RT_TieBreaker else RT_Access))
   | DRBDTypeNone \<Rightarrow> RT_Other [])"

definition peerStatusOf :: "string \<Rightarrow> Datamesh option \<Rightarrow> DRBDPeerStatus \<Rightarrow> PeerStatus option" where
  "peerStatusOf rvName dmo src = map_option (\<lambda>peerName.
     \<lparr> p_Name = peerName, p_Type = peerTypeOf dmo peerName (ps_Type src),
       p_ConnectionEstablishedOn = map fst (filter snd (ps_Paths src)), p_ConnectionState = ps_ConnectionState src,
       p_BackingVolumeState = ps_DiskState src, p_ReplicationState = ps_ReplicationState src,
       p_Attached = (ps_Role src = RolePrimary) \<rparr>) (peerNameOf rvName (ps_Name src))"

definition ensureStatusPeers :: "DRBDResource option \<Rightarrow> Datamesh option \<Rightarrow> Replica \<Rightarrow> ensured" where
  "ensureStatusPeers drbdr dmo rvr =
     (let peers = (case drbdr of None \<Rightarrow> [] | Some d \<Rightarrow>
            List.map_filter (peerStatusOf (rvr_ReplicatedVolumeName rvr) dmo) (dr_Peers d))
      in okChanged (rvr_Peers rvr \<noteq> peers) (rvr \<lparr> rvr_Peers := peers \<rparr>))"

subsection \<open>Backing volume and quorum\<close>

definition applyBackingVolume :: "BackingVolumeStatus option \<Rightarrow> Replica \<Rightarrow> ensured" where
  "applyBackingVolume target rvr =
     (if rvr_BackingVolume rvr = target then okChanged False rvr else okChanged True (rvr \<lparr> rvr_BackingVolume := target \<rparr>))"

definition activeLLVName :: "DRBDResource \<Rightarrow> string" where
  "activeLLVName d = (case dr_ActiveConfiguration d of None \<Rightarrow> [] | Some ac \<Rightarrow> da_LVMLogicalVolumeName ac)"

definition backingVolumeStatusOf :: "DRBDResource \<Rightarrow> LLV \<Rightarrow> BackingVolumeStatus" where
  "backingVolumeStatusOf d llv =
     \<lparr> bv_Size = (case llv_Status llv of None \<Rightarrow> None | Some s \<Rightarrow> if ls_ActualSize s = 0 then None else Some (ls_ActualSize s)),
       bv_State = dr_DiskState d, bv_LVMVolumeGroupName = llv_LVMVolumeGroupName llv,
       bv_LVMVolumeGroupThinPoolName = (case llv_Thin llv of None \<Rightarrow> [] | Some p \<Rightarrow> p) \<rparr>"

definition ensureStatusBackingVolume :: "DRBDResource option \<Rightarrow> LLV list \<Rightarrow> Replica \<Rightarrow> ensured" where
  "ensureStatusBackingVolume drbdr llvs rvr = (case drbdr of
     None \<Rightarrow> applyBackingVolume None rvr
   | Some d \<Rightarrow>
       let llvName = activeLLVName d in
       if llvName = [] then applyBackingVolume None rvr
       else case findLLVByName llvs llvName of
         None \<Rightarrow> (ef_Err (Some (ErrLeaf EK_Other (''active LLV '' @ quoted llvName @ '' not found'') None)), rvr)
       | Some llv \<Rightarrow> applyBackingVolume (Some (backingVolumeStatusOf d llv)) rvr)"

definition isConnected :: "PeerStatus \<Rightarrow> bool" where
  "isConnected p \<longleftrightarrow> p_ConnectionState p = ConnectionStateConnected"

definition quorumSummaryOf :: "DRBDResource \<Rightarrow> PeerStatus list \<Rightarrow> QuorumSummary" where
  "quorumSummaryOf d peers =
     (let connected = filter isConnected peers; count = (\<lambda>P. int (length (filter P connected)));
          threshold = (\<lambda>f. case dr_ActiveConfiguration d of None \<Rightarrow> None | Some ac \<Rightarrow> map_option uint (f ac))
      in \<lparr> qs_ConnectedDiskfulPeers = count (\<lambda>p. p_Type p = RT_Diskful),
           qs_ConnectedTieBreakerPeers = count (\<lambda>p. p_Type p = RT_TieBreaker),
           qs_ConnectedUpToDatePeers = count (\<lambda>p. p_BackingVolumeState p = DiskStateUpToDate),
           qs_Quorum = threshold da_Quorum, qs_QuorumMinimumRedundancy = threshold da_QuorumMinimumRedundancy \<rparr>)"

definition ensureStatusQuorum :: "DRBDResource option \<Rightarrow> Replica \<Rightarrow> ensured" where
  "ensureStatusQuorum drbdr rvr =
     (let summary = map_option (\<lambda>d. quorumSummaryOf d (rvr_Peers rvr)) drbdr;
          quorum = (case drbdr of None \<Rightarrow> None | Some d \<Rightarrow> dr_Quorum d)
      in okChanged (rvr_QuorumSummary rvr \<noteq> summary \<or> rvr_Quorum rvr \<noteq> quorum)
           (rvr \<lparr> rvr_QuorumSummary := summary, rvr_Quorum := quorum \<rparr>))"

definition ensureStatusInitialQuorumReachedAt :: "RvrClient \<Rightarrow> Replica \<Rightarrow> ensured" where
  "ensureStatusInitialQuorumReachedAt cl rvr =
     (if rvr_DatameshRevision rvr = 0 then
        if rvr_InitialQuorumReachedAt rvr \<noteq> None then okChanged True (rvr \<lparr> rvr_InitialQuorumReachedAt := None \<rparr>)
        else okChanged False rvr
      else if rvr_InitialQuorumReachedAt rvr = None \<and> rvr_Quorum rvr = Some True
      then okChanged True (rvr \<lparr> rvr_InitialQuorumReachedAt := Some (rc_now cl) \<rparr>)
      else okChanged False rvr)"

subsection \<open>The membership request\<close>

abbreviation waitingForRV :: string where "waitingForRV \<equiv> ''WaitingForReplicatedVolume''"

text \<open>Why no request can be made yet: the reason and the message.\<close>

definition requestBlocked :: "Replica \<Rightarrow> RV option \<Rightarrow> rspEligibilityView option \<Rightarrow> (string \<times> string) option" where
  "requestBlocked rvr rvOpt rspView = (case rvOpt of
     None \<Rightarrow> Some (waitingForRV, ''ReplicatedVolume not found; waiting for it to be present'')
   | Some rv \<Rightarrow>
       if rv_DatameshRevision rv = 0
       then Some (waitingForRV, ''Datamesh is not initialized yet; waiting for ReplicatedVolume to initialize it'')
       else if rv_Configuration rv = None
       then Some (waitingForRV, ''ReplicatedVolume has no configuration yet; waiting for it to appear'')
       else if rvr_NodeName rvr = [] then Some (''PendingScheduling'', ''Waiting for node assignment'')
       else if rvr_Type rvr = RT_Diskful \<and> rvr_LVMVolumeGroupName rvr = []
       then Some (''PendingScheduling'', ''Waiting for storage assignment'')
       else case rspView of
         None \<Rightarrow> Some (waitingForRV, ''ReplicatedStoragePool not found; waiting for it to be present'')
       | Some v \<Rightarrow>
           if ev_EligibleNode v = None
           then Some (''NodeNotEligible'', ''Node '' @ quoted (rvr_NodeName rvr) @ '' is not eligible in storage pool'')
           else if rvr_Type rvr \<noteq> RT_Diskful then None
           else case isStorageEligible rspView (rvr_LVMVolumeGroupName rvr) (rvr_LVMVolumeGroupThinPoolName rvr) of
             (storageEligibilityOK, _) \<Rightarrow> None
           | (storageEligibilityRSPNotAvailable, msg) \<Rightarrow> Some (waitingForRV, msg)
           | (storageEligibilityNodeNotEligible, msg) \<Rightarrow> Some (''NodeNotEligible'', msg)
           | (_, msg) \<Rightarrow> Some (''StorageNotEligible'', msg))"

definition requestOf :: "RequestOperation \<Rightarrow> Replica \<Rightarrow> MembershipRequest" where
  "requestOf op rvr = \<lparr> rq_Operation = op, rq_Type = rvr_Type rvr,
     rq_LVMVolumeGroupName = (if rvr_Type rvr = RT_Diskful then rvr_LVMVolumeGroupName rvr else []),
     rq_ThinPoolName = (if rvr_Type rvr = RT_Diskful then rvr_LVMVolumeGroupThinPoolName rvr else []) \<rparr>"

definition typeInSync :: "Replica \<Rightarrow> bool" where
  "typeInSync rvr = (case rvr_Type rvr of
     RT_Diskful \<Rightarrow> rvr_StatusType rvr = DRBDDiskful
   | RT_Access \<Rightarrow> rvr_StatusType rvr = DRBDDiskless
   | RT_TieBreaker \<Rightarrow> rvr_StatusType rvr = DRBDDiskless
   | _ \<Rightarrow> False)"

definition bvInSync :: "Replica \<Rightarrow> bool" where
  "bvInSync rvr = (case rvr_BackingVolume rvr of None \<Rightarrow> False | Some bv \<Rightarrow>
     bv_LVMVolumeGroupName bv = rvr_LVMVolumeGroupName rvr
     \<and> bv_LVMVolumeGroupThinPoolName bv = rvr_LVMVolumeGroupThinPoolName rvr)"

definition computeTargetDatameshRequest :: "Replica \<Rightarrow> RV option \<Rightarrow> rspEligibilityView option
    \<Rightarrow> MembershipRequest option \<times> string \<times> string" where
  "computeTargetDatameshRequest rvr rvOpt rspView =
     (if rvr_Deleting rvr then
        if rvr_DatameshRevision rvr \<noteq> 0
        then (Some \<lparr> rq_Operation = Leave, rq_Type = RT_Other [], rq_LVMVolumeGroupName = [], rq_ThinPoolName = [] \<rparr>,
              ''PendingLeave'', ''Deletion in progress, waiting to leave datamesh'')
        else (None, [], [])
      else case requestBlocked rvr rvOpt rspView of
        Some why \<Rightarrow> (None, why)
      | None \<Rightarrow>
          if rvr_DatameshRevision rvr = 0
          then (Some (requestOf Join rvr), ''PendingJoin'', ''Waiting to join datamesh as '' @ ReplicaType_String (rvr_Type rvr))
          else if \<not> typeInSync rvr
          then (Some (requestOf ChangeRole rvr), ''PendingRoleChange'', ''Waiting to change role to '' @ ReplicaType_String (rvr_Type rvr))
          else if rvr_Type rvr = RT_Diskful \<and> \<not> bvInSync rvr
          then (Some \<lparr> rq_Operation = ChangeBackingVolume, rq_Type = RT_Other [],
                  rq_LVMVolumeGroupName = rvr_LVMVolumeGroupName rvr, rq_ThinPoolName = rvr_LVMVolumeGroupThinPoolName rvr \<rparr>,
                ''PendingBackingVolumeChange'', ''Waiting to change backing volume to '' @ rvr_LVMVolumeGroupName rvr
                  @ (if rvr_LVMVolumeGroupThinPoolName rvr \<noteq> [] then ''/'' @ rvr_LVMVolumeGroupThinPoolName rvr else []))
          else (None, ''Configured'', ''Replica is configured as intended''))"

definition applyDatameshRequest :: "MembershipRequest option \<Rightarrow> Replica \<Rightarrow> bool \<times> Replica" where
  "applyDatameshRequest target rvr =
     (if rvr_DatameshRequest rvr = target then (False, rvr)
      else (True, rvr \<lparr> rvr_DatameshRequest := target \<rparr>))"

text \<open>The message of the volume's queue entry for this replica, if there is one that is not empty.\<close>

definition queueMessage :: "RV option \<Rightarrow> string \<Rightarrow> string \<Rightarrow> string" where
  "queueMessage rvOpt name message = (case rvOpt of None \<Rightarrow> message | Some rv \<Rightarrow>
     (case find (\<lambda>q. rr_Name q = name) (rv_DatameshReplicaRequests rv) of
        None \<Rightarrow> message | Some q \<Rightarrow> if rr_Message q \<noteq> [] then rr_Message q else message))"

definition ensureStatusDatameshRequestAndConfiguredCond :: "RvrClient \<Rightarrow> RV option \<Rightarrow> rspEligibilityView option \<Rightarrow> Replica \<Rightarrow> ensured" where
  "ensureStatusDatameshRequestAndConfiguredCond cl rvOpt rspView rvr =
     (case computeTargetDatameshRequest rvr rvOpt rspView of (target, reason, message0) \<Rightarrow>
        let message = (if target \<noteq> None then queueMessage rvOpt (rvr_Name rvr) message0 else message0);
            (ch1, rvr1) = applyDatameshRequest target rvr;
            (ch2, rvr2) = (if reason = [] then removeCond cl ''Configured'' rvr1
              else setCond cl ''Configured'' (if reason = ''Configured'' then ConditionTrue
                else if reason = waitingForRV then ConditionUnknown else ConditionFalse) reason message rvr1)
        in okChanged (ch2 \<or> ch1) rvr2)"

end
