(* ===== verification/Rvr_Conditions.thy ===== *)
theory Rvr_Conditions
  imports Rvr_Status
begin

text \<open>
  The conditions of a replica and the phase derived from them (\<open>rvr_controller/reconciler_conditions.go\<close>).
  The \<open>applyXCondTrue\<close>, \<open>False\<close>, \<open>Unknown\<close> and \<open>Absent\<close> helpers of the code are \<open>setCond\<close> and \<open>removeCond\<close> on the
  type of the condition; an ensure helper decides on a verdict and applies it.
\<close>

datatype verdict = Absent | Verdict ConditionStatus string string

definition applyVerdict :: "RvrClient \<Rightarrow> string \<Rightarrow> verdict \<Rightarrow> Replica \<Rightarrow> ensured" where
  "applyVerdict cl cty v rvr = (case v of
     Absent \<Rightarrow> (case removeCond cl cty rvr of (changed, rvr1) \<Rightarrow> okChanged changed rvr1)
   | Verdict status reason message \<Rightarrow> (case setCond cl cty status reason message rvr of (changed, rvr1) \<Rightarrow> okChanged changed rvr1))"

subsection \<open>Attached\<close>

definition attachedVerdict :: "DRBDResource option \<Rightarrow> DatameshMember option \<Rightarrow> bool \<Rightarrow> bool \<Rightarrow> verdict" where
  "attachedVerdict drbdr member agentReady pending =
     (let intended = (case member of None \<Rightarrow> False | Some m \<Rightarrow> m_Attached m); actual = isPrimary drbdr in
      case drbdr of
        None \<Rightarrow> Absent
      | Some d \<Rightarrow>
          if \<not> intended \<and> \<not> actual then Absent
          else if \<not> agentReady then Verdict ConditionUnknown ''AgentNotReady'' ''Agent is not ready''
          else if pending then Verdict ConditionUnknown ''ApplyingConfiguration'' ''DRBD configuration is being applied''
          else if intended \<and> \<not> actual then Verdict ConditionFalse ''AttachmentFailed''
            ''Expected to be attached, but not attached; see DRBDConfigured condition''
          else if \<not> intended \<and> actual then Verdict ConditionTrue ''DetachmentFailed''
            ''Expected to be detached, but still attached; see DRBDConfigured condition''
          else if actual \<and> dr_DeviceIOSuspended d = Some True then Verdict ConditionFalse ''IOSuspended''
            ''Attached, but I/O is suspended; see Ready and DRBDConfigured conditions''
          else Verdict ConditionTrue ''Attached'' ''Attached and ready for I/O'')"

definition ensureConditionAttached :: "RvrClient \<Rightarrow> DRBDResource option \<Rightarrow> DatameshMember option \<Rightarrow> bool \<Rightarrow> bool \<Rightarrow> Replica \<Rightarrow> ensured" where
  "ensureConditionAttached cl drbdr member agentReady pending rvr =
     applyVerdict cl ''Attached'' (attachedVerdict drbdr member agentReady pending) rvr"

subsection \<open>FullyConnected\<close>

definition allPathsEstablished :: "AddressStatus list \<Rightarrow> PeerStatus \<Rightarrow> bool" where
  "allPathsEstablished addresses p \<longleftrightarrow> addresses \<noteq> []
     \<and> list_all (\<lambda>a. SystemNetworkName a \<in> set (p_ConnectionEstablishedOn p)) addresses"

definition connectionVerdict :: "bool \<Rightarrow> AddressStatus list \<Rightarrow> PeerStatus list \<Rightarrow> verdict" where
  "connectionVerdict isMember addresses peers =
     (let connected = filter isConnected peers;
          fullyConnected = length (filter (allPathsEstablished addresses) connected);
          partiallyConnected = length (filter (\<lambda>p. \<not> allPathsEstablished addresses p) connected);
          notConnected = length (filter (\<lambda>p. \<not> isConnected p) peers);
          totalPeers = length peers;
          connectedPeers = fullyConnected + partiallyConnected;
          num = (\<lambda>n. itoa (int n))
      in if \<not> isMember \<and> connectedPeers > 0
         then Verdict ConditionFalse ''PartiallyConnected'' (''Connected to '' @ num connectedPeers
                @ '' peers, but should not be connected to any (not a datamesh member)'')
         else if fullyConnected = totalPeers
         then Verdict ConditionTrue ''FullyConnected'' ''Fully connected to all peers on all paths''
         else if notConnected = totalPeers
         then Verdict ConditionFalse ''NotConnected'' ''Not connected to any peer''
         else if notConnected = 0
         then Verdict ConditionTrue ''ConnectedToAllPeers'' (''Connected to all '' @ num totalPeers @ '' peers, but not all paths are established'')
         else Verdict ConditionFalse ''PartiallyConnected'' (''Connected to '' @ num connectedPeers @ '' of '' @ num totalPeers @ '' peers (''
                @ num fullyConnected @ '' fully, '' @ num partiallyConnected @ '' partially, '' @ num notConnected @ '' not connected)''))"

definition fullyConnectedVerdict :: "DRBDResource option \<Rightarrow> Datamesh option \<Rightarrow> bool \<Rightarrow> Replica \<Rightarrow> verdict" where
  "fullyConnectedVerdict drbdr dmo agentReady rvr =
     (let isMember = (case dmo of None \<Rightarrow> False | Some dm \<Rightarrow> FindMemberByName dm (rvr_Name rvr) \<noteq> None) in
      case drbdr of
        None \<Rightarrow> Absent
      | Some d \<Rightarrow>
          if \<not> isMember \<and> dr_Peers d = [] \<or> rvr_Addresses rvr = [] then Absent
          else if \<not> agentReady then Verdict ConditionUnknown ''AgentNotReady'' ''Agent is not ready''
          else if rvr_Peers rvr = []
          then if isMember \<and> (case dmo of None \<Rightarrow> False | Some dm \<Rightarrow> length (ds_Members dm) = 1)
               then Verdict ConditionTrue ''SoleMember'' ''Sole datamesh member, no peers expected''
               else Verdict ConditionFalse ''NoPeers'' ''No peers configured''
          else connectionVerdict isMember (rvr_Addresses rvr) (rvr_Peers rvr))"

definition ensureConditionFullyConnected :: "RvrClient \<Rightarrow> DRBDResource option \<Rightarrow> Datamesh option \<Rightarrow> bool \<Rightarrow> Replica \<Rightarrow> ensured" where
  "ensureConditionFullyConnected cl drbdr dmo agentReady rvr =
     applyVerdict cl ''FullyConnected'' (fullyConnectedVerdict drbdr dmo agentReady rvr) rvr"

subsection \<open>BackingVolumeUpToDate\<close>

text \<open>The reason and the message of a disk that is not up to date.\<close>

definition inconsistentReport :: "bool \<Rightarrow> PeerStatus list \<Rightarrow> string \<times> string" where
  "inconsistentReport servingIO peers =
     (case find (\<lambda>p. p_ReplicationState p = ''SyncTarget'') peers of
        Some p \<Rightarrow> (''Synchronizing'', ''Backing volume is synchronizing from peer '' @ p_Name p
                    @ (if servingIO then ''; application I/O forwarded to peers'' else []))
      | None \<Rightarrow> (case find (\<lambda>p. p_BackingVolumeState p = DiskStateUpToDate \<and> p_ReplicationState p = ''Established'') peers of
          Some p \<Rightarrow> (''Synchronizing'', ''Backing volume synchronized via intermediate peer '' @ p_Name p
                      @ '', but no direct connection to an attached peer; cannot transition to UpToDate until a direct peer connection is established'')
        | None \<Rightarrow>
            if \<not> list_ex (\<lambda>p. p_BackingVolumeState p = DiskStateUpToDate) peers
            then (''RequiresSynchronization'', ''Backing volume requires synchronization, but no up-to-date peers are available'')
            else (''RequiresSynchronization'', ''Backing volume requires synchronization from an up-to-date peer''
                    @ (if servingIO then ''; application I/O forwarded to peers'' else []))))"

definition diskReport :: "bool \<Rightarrow> PeerStatus list \<Rightarrow> DiskState \<Rightarrow> string \<times> string" where
  "diskReport servingIO peers state =
     (let io = (\<lambda>note. if servingIO then note else []) in
      if state = ''Diskless'' then (''Absent'', if servingIO then ''No backing volume; application I/O forwarded to peers'' else ''No backing volume attached'')
      else if state = ''Attaching'' then (''Absent'', ''Backing volume is being attached; reading metadata from local device'' @ io ''; application I/O forwarded to peers'')
      else if state = ''Detaching'' then (''Absent'', ''Backing volume is being detached'' @ io ''; application I/O transitioning to peers'')
      else if state = ''Failed'' then (''Failed'', ''Backing volume failed due to I/O errors'' @ io ''; application I/O transitioning to peers'')
      else if state = ''Negotiating'' then (''Unknown'', ''Backing volume state is not yet determined; negotiating with peers after attach'' @ io ''; application I/O forwarded to peers'')
      else if state = ''Outdated'' then (''RequiresSynchronization'', ''Backing volume data is outdated; awaiting resynchronization from up-to-date peer'' @ io ''; application I/O forwarded to peers'')
      else if state = ''Consistent'' then (''Unknown'', ''Backing volume data was consistent; peer connection required to confirm up-to-date status'')
      else if state = ''Inconsistent'' then inconsistentReport servingIO peers
      else (''Unknown'', ''Unknown backing volume state: '' @ state @ io ''; application I/O forwarded to peers''))"

definition upToDateVerdict :: "DRBDResource option \<Rightarrow> DatameshMember option \<Rightarrow> bool \<Rightarrow> bool \<Rightarrow> Replica \<Rightarrow> goErr + verdict" where
  "upToDateVerdict drbdr member agentReady pending rvr =
     (let relevant = (member \<noteq> None \<and> (NeedsBackingVolume (computeIntendedType rvr member) \<or> rvr_BackingVolume rvr \<noteq> None)) in
      case drbdr of
        None \<Rightarrow> Inr Absent
      | Some d \<Rightarrow>
          if \<not> relevant then Inr Absent
          else if \<not> agentReady then Inr (Verdict ConditionUnknown ''AgentNotReady'' ''Agent is not ready'')
          else if pending then Inr (Verdict ConditionUnknown ''ApplyingConfiguration'' ''DRBD configuration is being applied'')
          else case dr_ActiveConfiguration d of
            None \<Rightarrow> Inl (ErrLeaf EK_Other ''drbdr.Status.ActiveConfiguration is nil after configuration is no longer pending'' None)
          | Some ac \<Rightarrow>
              let servingIO = (da_Role ac = RolePrimary \<and> dr_DeviceIOSuspended d = Some False) in
              if dr_DiskState d = DiskStateUpToDate
              then Inr (Verdict ConditionTrue ''UpToDate'' (''Backing volume is fully up-to-date''
                     @ (if servingIO then ''; application I/O served locally'' else [])))
              else case diskReport servingIO (rvr_Peers rvr) (dr_DiskState d) of (reason, message) \<Rightarrow>
                Inr (Verdict ConditionFalse reason message))"

definition ensureConditionBackingVolumeUpToDate :: "RvrClient \<Rightarrow> DRBDResource option \<Rightarrow> DatameshMember option \<Rightarrow> bool \<Rightarrow> bool \<Rightarrow> Replica \<Rightarrow> ensured" where
  "ensureConditionBackingVolumeUpToDate cl drbdr member agentReady pending rvr =
     (case upToDateVerdict drbdr member agentReady pending rvr of
        Inl e \<Rightarrow> (ef_Err (Some e), rvr)
      | Inr v \<Rightarrow> applyVerdict cl ''BackingVolumeUpToDate'' v rvr)"

subsection \<open>Ready\<close>

definition numOrUnknown :: "int option \<Rightarrow> string" where
  "numOrUnknown v = (case v of None \<Rightarrow> ''unknown'' | Some n \<Rightarrow> itoa n)"

definition disklessQuorumMessage :: "QuorumSummary \<Rightarrow> string" where
  "disklessQuorumMessage qs = ''Diskless replica; quorum via connected peers (data quorum: '' @ itoa (qs_ConnectedUpToDatePeers qs)
     @ ''/'' @ numOrUnknown (qs_QuorumMinimumRedundancy qs) @ '')''"

definition diskfulQuorumMessage :: "QuorumSummary \<Rightarrow> BackingVolumeStatus option \<Rightarrow> string" where
  "diskfulQuorumMessage qs bv =
     (let selfDisk = (case bv of None \<Rightarrow> 0 | Some b \<Rightarrow> if bv_State b \<noteq> ''Diskless'' \<and> bv_State b \<noteq> ''Attaching'' then 1 else 0);
          selfUpToDate = (case bv of None \<Rightarrow> 0 | Some b \<Rightarrow> if bv_State b = DiskStateUpToDate then 1 else 0)
      in ''Quorum: diskful '' @ itoa (qs_ConnectedDiskfulPeers qs + selfDisk) @ ''/'' @ numOrUnknown (qs_Quorum qs)
         @ (if qs_ConnectedTieBreakerPeers qs > 0 then '' + tie-breakers '' @ itoa (qs_ConnectedTieBreakerPeers qs) else [])
         @ '', data quorum: '' @ itoa (qs_ConnectedUpToDatePeers qs + selfUpToDate) @ ''/'' @ numOrUnknown (qs_QuorumMinimumRedundancy qs))"

text \<open>The verdict of a replica whose configuration is applied. \<open>None\<close> is the dereference of a nil quorum summary.\<close>

definition quorumVerdict :: "DatameshMember option \<Rightarrow> DRBDResource \<Rightarrow> Replica \<Rightarrow> verdict option" where
  "quorumVerdict member d rvr = (case member of
     None \<Rightarrow> Some (if rvr_Deleting rvr then Verdict ConditionFalse ''Terminating'' ''Replica is terminating''
       else Verdict ConditionFalse ''PendingDatameshJoin'' ''Waiting to join datamesh'')
   | Some m \<Rightarrow> do {
       qs \<leftarrow> rvr_QuorumSummary rvr;
       let status = (if dr_Quorum d = Some True then ConditionTrue else ConditionFalse);
       Some (if rvr_StatusType rvr = DRBDDiskless
         then Verdict status ''QuorumViaPeers'' (disklessQuorumMessage qs)
         else Verdict status (if dr_Quorum d = Some True then ''Ready'' else ''QuorumLost'')
                (diskfulQuorumMessage qs (rvr_BackingVolume rvr))) })"

text \<open>Without a DRBD resource the code panics.\<close>

definition readyVerdict :: "RV option \<Rightarrow> DRBDResource option \<Rightarrow> DatameshMember option \<Rightarrow> bool \<Rightarrow> bool \<Rightarrow> Replica \<Rightarrow> verdict option" where
  "readyVerdict rvOpt drbdr member agentReady pending rvr =
     (if rvrShouldNotExist rvr then Some (Verdict ConditionFalse ''Terminating'' ''Replica is terminating'')
      else case rvOpt of
        None \<Rightarrow> Some (Verdict ConditionUnknown waitingForRV ''ReplicatedVolume not found; waiting for it to be present'')
      | Some rv \<Rightarrow>
          if rv_DatameshRevision rv = 0
          then Some (Verdict ConditionUnknown waitingForRV ''Datamesh is not initialized yet; waiting for ReplicatedVolume to initialize it'')
          else if ds_SystemNetworkNames (rv_Datamesh rv) = []
          then Some (Verdict ConditionUnknown waitingForRV ''No system networks in datamesh; waiting for ReplicatedVolume to configure them'')
          else if rvr_NodeName rvr = [] then Some (Verdict ConditionFalse ''PendingScheduling'' ''Waiting for node assignment'')
          else do {
            d \<leftarrow> drbdr;
            if \<not> agentReady then Some (Verdict ConditionUnknown ''AgentNotReady'' ''Agent is not ready'')
            else if pending then Some (Verdict ConditionUnknown ''ApplyingConfiguration'' ''DRBD configuration is being applied'')
            else quorumVerdict member d rvr })"

definition ensureConditionReady :: "RvrClient \<Rightarrow> RV option \<Rightarrow> DRBDResource option \<Rightarrow> DatameshMember option \<Rightarrow> bool \<Rightarrow> bool
    \<Rightarrow> Replica \<Rightarrow> ensured option" where
  "ensureConditionReady cl rvOpt drbdr member agentReady pending rvr =
     map_option (\<lambda>v. applyVerdict cl ''Ready'' v rvr) (readyVerdict rvOpt drbdr member agentReady pending rvr)"

subsection \<open>SatisfyEligibleNodes\<close>

definition findLVGInEligibleNodeByName :: "EligibleNode \<Rightarrow> string \<Rightarrow> EligibleNodeLVG option" where
  "findLVGInEligibleNodeByName node lvgName = find (\<lambda>l. lvg_Name l = lvgName) (en_LVMVolumeGroups node)"

definition findLVGInEligibleNode :: "EligibleNode \<Rightarrow> string \<Rightarrow> string \<Rightarrow> EligibleNodeLVG option" where
  "findLVGInEligibleNode node lvgName thinPool =
     find (\<lambda>l. lvg_Name l = lvgName \<and> lvg_ThinPoolName l = thinPool) (en_LVMVolumeGroups node)"

definition thinPoolMismatchMessage :: "PoolType \<Rightarrow> string \<Rightarrow> string \<Rightarrow> string" where
  "thinPoolMismatchMessage rspType lvgName thinPool =
     (if thinPool \<noteq> [] \<and> rspType = PoolTypeLVM
      then ''ThinPool '' @ quoted thinPool @ '' is specified, but ReplicatedStoragePool type is LVM (thick), which does not use ThinPools''
      else if thinPool = [] \<and> rspType = PoolTypeLVMThin
      then ''ThinPool is not specified, but ReplicatedStoragePool type is LVMThin, which requires a ThinPool''
      else if thinPool \<noteq> []
      then ''ThinPool '' @ quoted thinPool @ '' is not in the allowed list for LVMVolumeGroup '' @ quoted lvgName @ '' according to ReplicatedStoragePool''
      else ''Unexpected state: LVMVolumeGroup '' @ quoted lvgName
        @ '' exists in eligible nodes but no entry matches the expected ThinPool configuration for this ReplicatedStoragePool type'')"

definition computeEligibilityWarnings :: "EligibleNode \<Rightarrow> EligibleNodeLVG option \<Rightarrow> string" where
  "computeEligibilityWarnings node lvg =
     (let warnings =
        (if en_Unschedulable node then [''node is unschedulable''] else [])
        @ (if \<not> en_NodeReady node then [''node is not ready''] else [])
        @ (if \<not> en_AgentReady node then [''agent is not ready''] else [])
        @ (case lvg of None \<Rightarrow> [] | Some l \<Rightarrow>
             (if lvg_Unschedulable l then [''LVMVolumeGroup is unschedulable''] else [])
             @ (if \<not> lvg_Ready l then [''LVMVolumeGroup is not ready''] else []))
      in case warnings of
        [] \<Rightarrow> []
      | [a] \<Rightarrow> a
      | [a, b] \<Rightarrow> a @ '' and '' @ b
      | _ \<Rightarrow> join '', '' (butlast warnings) @ '', and '' @ last warnings)"

definition satisfiedVerdict :: "EligibleNode \<Rightarrow> EligibleNodeLVG option \<Rightarrow> verdict" where
  "satisfiedVerdict node lvg =
     (let warnings = computeEligibilityWarnings node lvg in
      Verdict ConditionTrue ''Satisfied'' (''Replica satisfies eligible nodes requirements''
        @ (if warnings \<noteq> [] then '', however note that currently '' @ warnings else [])))"

definition eligibleNodesVerdict :: "RV option \<Rightarrow> rspEligibilityView option \<Rightarrow> Replica \<Rightarrow> verdict" where
  "eligibleNodesVerdict rvOpt rspView rvr =
     (if rvr_NodeName rvr = [] then Absent
      else case rvOpt of
        None \<Rightarrow> Verdict ConditionUnknown waitingForRV ''ReplicatedVolume not found; waiting for it to be present''
      | Some rv \<Rightarrow>
          if rv_Configuration rv = None
          then Verdict ConditionUnknown waitingForRV ''ReplicatedVolume has no configuration yet; waiting for it to appear''
          else case rspView of
            None \<Rightarrow> Verdict ConditionUnknown waitingForRV ''ReplicatedStoragePool not found; waiting for it to be present''
          | Some v \<Rightarrow> (case ev_EligibleNode v of
              None \<Rightarrow> Verdict ConditionFalse ''NodeMismatch'' ''Node is not in the eligible nodes list according to ReplicatedStoragePool''
            | Some node \<Rightarrow>
                if rvr_Type rvr = RT_Diskful \<and> rvr_LVMVolumeGroupName rvr \<noteq> []
                then case findLVGInEligibleNodeByName node (rvr_LVMVolumeGroupName rvr) of
                  None \<Rightarrow> Verdict ConditionFalse ''LVMVolumeGroupMismatch''
                    ''Node is eligible, but LVMVolumeGroup is not in the allowed list for this node according to ReplicatedStoragePool''
                | Some _ \<Rightarrow> (case findLVGInEligibleNode node (rvr_LVMVolumeGroupName rvr) (rvr_LVMVolumeGroupThinPoolName rvr) of
                    None \<Rightarrow> Verdict ConditionFalse ''ThinPoolMismatch''
                      (thinPoolMismatchMessage (ev_Type v) (rvr_LVMVolumeGroupName rvr) (rvr_LVMVolumeGroupThinPoolName rvr))
                  | Some lvg \<Rightarrow> satisfiedVerdict node (Some lvg))
                else satisfiedVerdict node None))"

definition ensureConditionSatisfyEligibleNodes :: "RvrClient \<Rightarrow> RV option \<Rightarrow> rspEligibilityView option \<Rightarrow> Replica \<Rightarrow> ensured" where
  "ensureConditionSatisfyEligibleNodes cl rvOpt rspView rvr =
     applyVerdict cl ''SatisfyEligibleNodes'' (eligibleNodesVerdict rvOpt rspView rvr) rvr"

end
