(* ===== verification/Rvr_Phase.thy ===== *)
theory Rvr_Phase
  imports Rvr_Conditions
begin

text \<open>
  The phase and the message of a replica, the last part of \<open>rvr_controller/reconciler_conditions.go\<close>: the
  lifecycle of a replica that is not a member of the datamesh yet, and the health of a member with the
  priority Critical, Synchronizing, Degraded, PartiallyDegraded, Progressing, Healthy.
\<close>

subsection \<open>Problems and progress of a member\<close>

datatype memberProblemSeverity = severityNone | severityPartiallyDegraded | severityDegraded

definition condIs :: "Condition option \<Rightarrow> ConditionStatus \<Rightarrow> string \<Rightarrow> bool" where
  "condIs c status reason = (case c of None \<Rightarrow> False | Some x \<Rightarrow> c_Status x = status \<and> c_Reason x = reason)"

definition condMessage :: "Condition option \<Rightarrow> string" where
  "condMessage c = (case c of None \<Rightarrow> [] | Some x \<Rightarrow> c_Message x)"

text \<open>The problems in the order of the code, each with its severity.\<close>

definition memberProblems :: "Replica \<Rightarrow> Condition option \<Rightarrow> Condition option \<Rightarrow> (memberProblemSeverity \<times> string) list" where
  "memberProblems rvr bvReadyC drbdC =
     (let att = getCond rvr ''Attached''; fc = getCond rvr ''FullyConnected'';
          bvu = getCond rvr ''BackingVolumeUpToDate''; sen = getCond rvr ''SatisfyEligibleNodes'';
          rep = (\<lambda>c status reason sev text. if condIs c status reason then [(sev, text)] else [])
      in rep att ConditionFalse ''AttachmentFailed'' severityDegraded ''Attachment failed''
       @ rep att ConditionTrue ''DetachmentFailed'' severityPartiallyDegraded ''Detachment failed''
       @ rep fc ConditionFalse ''NotConnected'' severityDegraded ''Not connected to any peer''
       @ rep fc ConditionFalse ''PartiallyConnected'' severityPartiallyDegraded ''Partially connected to peers''
       @ rep bvu ConditionFalse ''Failed'' severityDegraded ''Disk failed''
       @ rep bvu ConditionFalse ''RequiresSynchronization'' severityPartiallyDegraded ''Backing volume requires synchronization''
       @ rep bvu ConditionFalse ''Unknown'' severityPartiallyDegraded ''Backing volume state unknown''
       @ rep bvu ConditionFalse ''Absent'' severityPartiallyDegraded ''Backing volume absent''
       @ rep sen ConditionFalse ''NodeMismatch'' severityNone ''Node not eligible''
       @ rep sen ConditionFalse ''LVMVolumeGroupMismatch'' severityNone ''LVG not eligible''
       @ rep sen ConditionFalse ''ThinPoolMismatch'' severityNone ''ThinPool not eligible''
       @ rep bvReadyC ConditionFalse ''ProvisioningFailed'' severityDegraded ''Provisioning failed''
       @ rep bvReadyC ConditionFalse ''ResizeFailed'' severityDegraded ''Resize failed''
       @ rep drbdC ConditionFalse ''ConfigurationFailed'' severityDegraded ''DRBD configuration failed'')"

definition maxSeverity :: "memberProblemSeverity list \<Rightarrow> memberProblemSeverity" where
  "maxSeverity sevs = (if severityDegraded \<in> set sevs then severityDegraded
     else if severityPartiallyDegraded \<in> set sevs then severityPartiallyDegraded else severityNone)"

definition computeMemberProblemsAndSeverity :: "Replica \<Rightarrow> Condition option \<Rightarrow> Condition option \<Rightarrow> string \<times> memberProblemSeverity" where
  "computeMemberProblemsAndSeverity rvr bvReadyC drbdC =
     (let problems = memberProblems rvr bvReadyC drbdC
      in (concat (map (\<lambda>(_, text). ''. '' @ text) problems), maxSeverity (map fst problems)))"

definition computeMemberProblems :: "Replica \<Rightarrow> Condition option \<Rightarrow> Condition option \<Rightarrow> string" where
  "computeMemberProblems rvr bvReadyC drbdC = fst (computeMemberProblemsAndSeverity rvr bvReadyC drbdC)"

definition computeMemberProgress :: "Condition option \<Rightarrow> Condition option \<Rightarrow> string" where
  "computeMemberProgress bvReadyC drbdC =
     (let part = (\<lambda>c status reason text. if condIs c status reason then [text] else [])
      in join ''. ''
        (part bvReadyC ConditionFalse ''Provisioning'' ''Provisioning backing volume''
         @ part bvReadyC ConditionFalse ''Reprovisioning'' ''Reprovisioning backing volume''
         @ part bvReadyC ConditionFalse ''Resizing'' ''Resizing backing volume''
         @ part bvReadyC ConditionFalse ''NotReady'' ''Backing volume not ready''
         @ part drbdC ConditionUnknown ''ApplyingConfiguration'' ''Applying DRBD configuration''
         @ part drbdC ConditionFalse ''WaitingForBackingVolume'' ''Waiting for backing volume''
         @ part drbdC ConditionFalse ''WaitingForDRBDResize'' ''Waiting for DRBD resize''))"

definition memberEverHadQuorum :: "Replica \<Rightarrow> bool" where
  "memberEverHadQuorum rvr \<longleftrightarrow> rvr_InitialQuorumReachedAt rvr \<noteq> None
     \<or> rvr_Phase rvr \<in> set [''Healthy'', ''PartiallyDegraded'', ''Degraded'', ''Synchronizing'', ''Critical'']"

subsection \<open>Members\<close>

text \<open>A condition that is present, has not the status True and has a message.\<close>

definition notTrueMessage :: "Condition option \<Rightarrow> string option" where
  "notTrueMessage c = (case c of None \<Rightarrow> None | Some x \<Rightarrow>
     if c_Status x \<noteq> ConditionTrue \<and> c_Message x \<noteq> [] then Some (c_Message x) else None)"

definition healthPhase :: "Replica \<Rightarrow> Condition option \<Rightarrow> Condition option \<Rightarrow> Condition option \<Rightarrow> string \<times> string" where
  "healthPhase rvr ready bvReadyC drbdC =
     (case computeMemberProblemsAndSeverity rvr bvReadyC drbdC of (problems, severity) \<Rightarrow>
        let progress = computeMemberProgress bvReadyC drbdC in
        case ready of
          Some r \<Rightarrow>
            if c_Status r = ConditionTrue then
              (case severity of
                 severityDegraded \<Rightarrow> (''Degraded'', c_Message r @ problems)
               | severityPartiallyDegraded \<Rightarrow> (''PartiallyDegraded'', c_Message r @ problems)
               | severityNone \<Rightarrow> if progress \<noteq> [] then (''Progressing'', c_Message r @ ''. '' @ progress @ problems)
                                 else (''Healthy'', c_Message r @ problems))
            else if progress \<noteq> [] then (''Progressing'', progress @ problems)
            else (''PartiallyDegraded'', case notTrueMessage drbdC of Some m \<Rightarrow> m | None \<Rightarrow>
                   (case notTrueMessage bvReadyC of Some m \<Rightarrow> m | None \<Rightarrow>
                      if c_Message r \<noteq> [] then c_Message r else ''Unable to determine health status''))
        | None \<Rightarrow>
            if progress \<noteq> [] then (''Progressing'', progress @ problems)
            else (''PartiallyDegraded'', case notTrueMessage drbdC of Some m \<Rightarrow> m | None \<Rightarrow>
                   (case notTrueMessage bvReadyC of Some m \<Rightarrow> m | None \<Rightarrow> ''Unable to determine health status'')))"

definition computeMemberPhaseAndMessage :: "Replica \<Rightarrow> Condition option \<Rightarrow> Condition option \<Rightarrow> Condition option \<Rightarrow> Condition option
    \<Rightarrow> string \<times> string" where
  "computeMemberPhaseAndMessage rvr ready bvUpToDate bvReadyC drbdC =
     (let problems = computeMemberProblems rvr bvReadyC drbdC; att = getCond rvr ''Attached'' in
      if condIs ready ConditionFalse ''QuorumLost'' \<or> condIs ready ConditionFalse ''QuorumViaPeers''
      then if \<not> memberEverHadQuorum rvr then (''Progressing'', ''Waiting for initial quorum. '' @ condMessage ready @ problems)
           else (''Critical'', condMessage ready @ problems)
      else if condIs att ConditionFalse ''IOSuspended'' then (''Critical'', condMessage att @ problems)
      else if condIs bvUpToDate ConditionFalse ''Synchronizing'' then (''Synchronizing'', condMessage bvUpToDate @ problems)
      else healthPhase rvr ready bvReadyC drbdC)"

subsection \<open>Replicas that are not members\<close>

definition isProvisioning :: "Condition option \<Rightarrow> bool" where
  "isProvisioning c = (case c of None \<Rightarrow> False | Some x \<Rightarrow> c_Status x = ConditionFalse
     \<and> c_Reason x \<in> set [''Provisioning'', ''Reprovisioning'', ''Resizing'', ''ProvisioningFailed'', ''ResizeFailed'', ''NotReady''])"

definition isConfiguring :: "Condition option \<Rightarrow> bool" where
  "isConfiguring c = (case c of None \<Rightarrow> False | Some x \<Rightarrow>
     c_Status x = ConditionUnknown \<and> c_Reason x = ''ApplyingConfiguration''
     \<or> c_Status x = ConditionFalse \<and> c_Reason x \<notin> set [''PendingDatameshJoin'', ''AgentNotReady'', ''NotApplicable''])"

definition preMemberPhase :: "Replica \<Rightarrow> Condition option \<Rightarrow> Condition option \<Rightarrow> Condition option \<Rightarrow> string \<times> string" where
  "preMemberPhase rvr ready bvReadyC drbdC =
     (let scheduled = getCond rvr ''Scheduled'' in
      if rvr_NodeName rvr = [] \<or> (case scheduled of None \<Rightarrow> False | Some s \<Rightarrow> c_Status s \<noteq> ConditionTrue)
      then (''Pending'', if condMessage scheduled \<noteq> [] then condMessage scheduled
              else if condMessage bvReadyC \<noteq> [] then condMessage bvReadyC else ''Waiting for scheduling'')
      else if isProvisioning bvReadyC then (''Provisioning'', condMessage bvReadyC)
      else if isConfiguring drbdC then (''Configuring'', condMessage drbdC)
      else if condIs drbdC ConditionFalse ''PendingDatameshJoin''
      then let configuredC = getCond rvr ''Configured'' in
        (''WaitingForDatamesh'', if condMessage configuredC \<noteq> [] then condMessage configuredC else condMessage drbdC)
      else (''Configuring'', case notTrueMessage drbdC of Some m \<Rightarrow> m | None \<Rightarrow>
             (case notTrueMessage bvReadyC of Some m \<Rightarrow> m | None \<Rightarrow>
                (case notTrueMessage ready of Some m \<Rightarrow> m | None \<Rightarrow> ''Configuring''))))"

subsection \<open>The phase\<close>

definition computeNormalPhaseAndMessage :: "Replica \<Rightarrow> string \<times> string" where
  "computeNormalPhaseAndMessage rvr =
     (let drbdC = getCond rvr ''DRBDConfigured''; bvReadyC = getCond rvr ''BackingVolumeReady'';
          ready = getCond rvr ''Ready''; bvUpToDate = getCond rvr ''BackingVolumeUpToDate'' in
      if (case drbdC of None \<Rightarrow> False | Some x \<Rightarrow> c_Reason x = ''AgentNotReady'') then (''AgentNotReady'', condMessage drbdC)
      else if rvr_Deleting rvr \<and> rvr_DatameshRevision rvr = 0
      then (''Terminating'', if condMessage ready \<noteq> [] then condMessage ready else ''Replica is terminating'')
      else if rvr_DatameshRevision rvr > 0 then computeMemberPhaseAndMessage rvr ready bvUpToDate bvReadyC drbdC
      else preMemberPhase rvr ready bvReadyC drbdC)"

definition computeTerminatingMessage :: "Replica \<Rightarrow> string" where
  "computeTerminatingMessage rvr =
     (let drbdC = getCond rvr ''DRBDConfigured''; bvReadyC = getCond rvr ''BackingVolumeReady'' in
      if (case drbdC of None \<Rightarrow> False | Some x \<Rightarrow> c_Status x = ConditionFalse \<and> c_Reason x \<noteq> ''NotApplicable'' \<and> c_Message x \<noteq> [])
      then condMessage drbdC
      else let parts = filter (\<lambda>m. m \<noteq> []) [condMessage drbdC, condMessage bvReadyC] in
        if parts \<noteq> [] then join ''; '' parts else ''Replica is terminating'')"

definition computeDeletionNote :: "Replica \<Rightarrow> string" where
  "computeDeletionNote rvr =
     (let configuredC = getCond rvr ''Configured'' in
      if condMessage configuredC \<noteq> [] then ''. '' @ condMessage configuredC else ''. Deletion pending'')"

definition computeRVRPhaseAndMessage :: "Replica \<Rightarrow> string \<times> string" where
  "computeRVRPhaseAndMessage rvr =
     (if rvrShouldNotExist rvr then (''Terminating'', computeTerminatingMessage rvr)
      else case computeNormalPhaseAndMessage rvr of (phase, msg) \<Rightarrow>
        (phase, msg @ (if rvr_Deleting rvr then computeDeletionNote rvr else [])))"

definition ensureStatusPhaseAndMessage :: "Replica \<Rightarrow> ensured" where
  "ensureStatusPhaseAndMessage rvr = (case computeRVRPhaseAndMessage rvr of (phase, message) \<Rightarrow>
     okChanged (rvr_Phase rvr \<noteq> phase \<or> rvr_Message rvr \<noteq> message) (rvr \<lparr> rvr_Phase := phase, rvr_Message := message \<rparr>))"

end
