(* ===== verification/Rvr_Reconcile.thy ===== *)
theory Rvr_Reconcile
  imports Rvr_Phase Rv_Reconcile
begin

text \<open>
  The replica reconciler as a whole (\<open>rvr_controller/reconciler.go\<close>): its reads, metadata, the backing
  volume, the DRBD resource, the status helpers in their order, the status patch and the requeue of a
  replica whose children are gone. Logging and metrics are left out. A panic is \<open>None\<close>.
\<close>

subsection \<open>Metadata\<close>

definition isRVRMetadataInSync :: "Replica \<Rightarrow> RV option \<Rightarrow> bool \<Rightarrow> string \<Rightarrow> bool" where
  "isRVRMetadataInSync rvr rvOpt targetFinalizerPresent targetLVGName \<longleftrightarrow>
     targetFinalizerPresent = HasFinalizer (rvr_Finalizers rvr) RVRControllerFinalizer
     \<and> labelsInSync rvr rvOpt (rvr_Labels rvr)
     \<and> (targetLVGName \<noteq> [] \<longrightarrow> HasLabelValue (Some (rvr_Labels rvr)) LVMVolumeGroupLabelKey targetLVGName)"

definition applyRVRMetadata :: "Replica \<Rightarrow> RV option \<Rightarrow> bool \<Rightarrow> string \<Rightarrow> bool \<times> Replica" where
  "applyRVRMetadata rvr rvOpt targetFinalizerPresent targetLVGName =
     (let (ch1, fs) = (if targetFinalizerPresent then AddFinalizer (rvr_Finalizers rvr) RVRControllerFinalizer
                       else RemoveFinalizer (rvr_Finalizers rvr) RVRControllerFinalizer);
          (ch2, ls) = applyLabels rvr rvOpt (rvr_Labels rvr);
          (ch3, ls2) = (if targetLVGName \<noteq> [] then SetLabel ls LVMVolumeGroupLabelKey targetLVGName else (False, ls))
      in (ch3 \<or> ch2 \<or> ch1, rvr \<lparr> rvr_Finalizers := fs, rvr_Labels := ls2 \<rparr>))"

definition targetFinalizer :: "Replica \<Rightarrow> replicaState \<Rightarrow> bool" where
  "targetFinalizer rvr st \<longleftrightarrow> (\<not> rvrShouldNotExist rvr \<or> rs_llvs st \<noteq> [] \<or> rs_drbdr st \<noteq> None)
     \<and> \<not> (rvr_Deleting rvr \<and> \<not> HasFinalizer (rvr_Finalizers rvr) RVRControllerFinalizer)"

definition actualLVGName :: "replicaState \<Rightarrow> string" where
  "actualLVGName st =
     (let referenced = (case rs_drbdr st of None \<Rightarrow> [] | Some d \<Rightarrow>
            if drs_LVMLogicalVolumeName (dr_Spec d) = [] then []
            else (case findLLVByName (rs_llvs st) (drs_LVMLogicalVolumeName (dr_Spec d)) of
                    None \<Rightarrow> [] | Some llv \<Rightarrow> llv_LVMVolumeGroupName llv))
      in if referenced = [] then (case rs_llvs st of [] \<Rightarrow> [] | llv # _ \<Rightarrow> llv_LVMVolumeGroupName llv) else referenced)"

definition reconcileReplicaMetadata :: "RvrClient \<Rightarrow> RV option \<Rightarrow> Replica \<Rightarrow> replicaState \<Rightarrow> ReconcileOutcome \<times> replicaState" where
  "reconcileReplicaMetadata cl rvOpt rvr st =
     (let target = targetFinalizer rvr st; lvg = actualLVGName st in
      if isRVRMetadataInSync rvr rvOpt target lvg then (rf_Continue, st)
      else let rvr1 = snd (applyRVRMetadata rvr rvOpt target lvg); calls = rs_calls st @ [CallPatchReplica rvr1] in
        case rc_PatchRVR cl rvr1 rvr of
          Inl e \<Rightarrow> (failure e, st \<lparr> rs_rvr := Some rvr1, rs_calls := calls \<rparr>)
        | Inr rvr2 \<Rightarrow> (if target then rf_Continue else rf_Done, st \<lparr> rs_rvr := Some rvr2, rs_calls := calls \<rparr>))"

subsection \<open>Status\<close>

text \<open>What the DRBDConfigured condition says of the agent, and the member of the datamesh.\<close>

definition agentIsReady :: "Replica \<Rightarrow> bool" where
  "agentIsReady rvr = (case getCond rvr drbdConfigured of None \<Rightarrow> False | Some c \<Rightarrow> c_Reason c \<noteq> ''AgentNotReady'')"

definition configurationPending :: "Replica \<Rightarrow> bool" where
  "configurationPending rvr = (case getCond rvr drbdConfigured of None \<Rightarrow> False | Some c \<Rightarrow> c_Reason c = ''ApplyingConfiguration'')"

definition memberOf :: "Datamesh option \<Rightarrow> Replica \<Rightarrow> DatameshMember option" where
  "memberOf dmo rvr = (case dmo of None \<Rightarrow> None | Some dm \<Rightarrow> FindMemberByName dm (rvr_Name rvr))"

text \<open>The arguments of \<open>MergeEnsures\<close> are evaluated one after the other, each on the replica the one before left; an
  error does not stop the later ones.\<close>

definition ensureReplicaStatus :: "RvrClient \<Rightarrow> RV option \<Rightarrow> rspEligibilityView option \<Rightarrow> DRBDResource option \<Rightarrow> LLV list \<Rightarrow> Replica
    \<Rightarrow> ensured option" where
  "ensureReplicaStatus cl rvOpt rspView drbdr llvs rvr0 = do {
     let agentReady = agentIsReady rvr0;
     let pending = configurationPending rvr0;
     let dmo = map_option rv_Datamesh rvOpt;
     let member = memberOf dmo rvr0;
     let (e1, r1) = ensureStatusAddressesAndType drbdr rvr0;
     let (e2, r2) = ensureStatusReplicaSize drbdr r1;
     let (e3, r3) = ensureStatusAttachment drbdr agentReady pending r2;
     let (e4, r4) = ensureStatusPeers drbdr dmo r3;
     let (e5, r5) = ensureStatusBackingVolume drbdr llvs r4;
     let (e6, r6) = ensureStatusQuorum drbdr r5;
     let (e7, r7) = ensureStatusInitialQuorumReachedAt cl r6;
     let (e8, r8) = ensureConditionAttached cl drbdr member agentReady pending r7;
     let (e9, r9) = ensureConditionFullyConnected cl drbdr dmo agentReady r8;
     let (e10, r10) = ensureConditionBackingVolumeUpToDate cl drbdr member agentReady pending r9;
     (e11, r11) \<leftarrow> ensureConditionReady cl rvOpt drbdr member agentReady pending r10;
     let (e12, r12) = ensureConditionSatisfyEligibleNodes cl rvOpt rspView r11;
     let (e13, r13) = ensureStatusDatameshRequestAndConfiguredCond cl rvOpt rspView r12;
     let (e14, r14) = ensureStatusPhaseAndMessage r13;
     Some (MergeEnsures [e1, e2, e3, e4, e5, e6, e7, e8, e9, e10, e11, e12, e13, e14], r14) }"

text \<open>The status helpers, the patch and the requeue, for an existing replica. \<open>base\<close> is the replica before the backing
  volume was reconciled.\<close>

definition publishStatus :: "RvrClient \<Rightarrow> RV option \<Rightarrow> rspEligibilityView option \<Rightarrow> Replica \<Rightarrow> ReconcileOutcome \<Rightarrow> Replica \<Rightarrow> replicaState
    \<Rightarrow> (ReconcileOutcome \<times> replicaState) option" where
  "publishStatus cl rvOpt rspView base outcome0 rvr0 st = do {
     (eo, rvr) \<leftarrow> ensureReplicaStatus cl rvOpt rspView (rs_drbdr st) (rs_llvs st) rvr0;
     let outcome = WithChangeFrom eo outcome0;
     let finish = (\<lambda>r st'. (if rvrShouldNotExist r \<and> HasFinalizer (rvr_Finalizers r) RVRControllerFinalizer
           then outcome_Merge outcome [rf_ContinueAndRequeue] else outcome, st' \<lparr> rs_rvr := Some r \<rparr>));
     case e_err eo of
       Some e \<Rightarrow> Some (failure (ErrWrap ''ensuring status'' e), st \<lparr> rs_rvr := Some rvr \<rparr>)
     | None \<Rightarrow>
         if o_changed outcome then
           let calls = rs_calls st @ [CallPatchReplicaStatus rvr] in
           (case rc_PatchRVRStatus cl rvr base of
              Inl e \<Rightarrow> Some (failure e, st \<lparr> rs_rvr := Some rvr, rs_calls := calls \<rparr>)
            | Inr rvr1 \<Rightarrow> Some (finish rvr1 (st \<lparr> rs_calls := calls \<rparr>)))
         else Some (finish rvr st) }"

subsection \<open>Reads\<close>

text \<open>The results of the reads of one reconciliation. A pool is its type with its eligible nodes.\<close>

record ReplicaReads =
  rd_Replica :: "goErr + Replica"
  rd_DRBDResource :: "goErr + DRBDResource"
  rd_LLVsByOwner :: "goErr + LLV list"
  rd_LLV :: "string \<Rightarrow> goErr + LLV"
  rd_Volume :: "string \<Rightarrow> goErr + RV"
  rd_Pool :: "string \<Rightarrow> goErr + PoolType \<times> EligibleNode list"

definition getLLVs :: "ReplicaReads \<Rightarrow> DRBDResource option \<Rightarrow> goErr + LLV list" where
  "getLLVs R drbdr = (case rd_LLVsByOwner R of
     Inl e \<Rightarrow> Inl e
   | Inr llvs \<Rightarrow> (case drbdr of
       None \<Rightarrow> Inr llvs
     | Some d \<Rightarrow>
         let llvName = drs_LVMLogicalVolumeName (dr_Spec d) in
         if llvName = [] \<or> list_ex (\<lambda>l. llv_Name l = llvName) llvs then Inr llvs
         else case getOrNil (rd_LLV R llvName) of
           Inl e \<Rightarrow> Inl e
         | Inr None \<Rightarrow> Inr llvs
         | Inr (Some llv) \<Rightarrow> Inr (llvs @ [llv])))"

definition getRVOfReplica :: "ReplicaReads \<Rightarrow> Replica option \<Rightarrow> goErr + RV option" where
  "getRVOfReplica R rvrOpt = (case rvrOpt of
     None \<Rightarrow> Inr None
   | Some rvr \<Rightarrow> if rvr_ReplicatedVolumeName rvr = [] then Inr None
       else getOrNil (rd_Volume R (rvr_ReplicatedVolumeName rvr)))"

definition getRSPEligibilityView :: "ReplicaReads \<Rightarrow> string \<Rightarrow> string \<Rightarrow> goErr + rspEligibilityView option" where
  "getRSPEligibilityView R rspName nodeName = (case getOrNil (rd_Pool R rspName) of
     Inl e \<Rightarrow> Inl e
   | Inr None \<Rightarrow> Inr None
   | Inr (Some (ty, nodes)) \<Rightarrow>
       Inr (Some \<lparr> ev_EligibleNode = find (\<lambda>n. en_NodeName n = nodeName) nodes, ev_Type = ty \<rparr>))"

definition viewForReplica :: "ReplicaReads \<Rightarrow> Replica option \<Rightarrow> RV option \<Rightarrow> goErr + rspEligibilityView option" where
  "viewForReplica R rvrOpt rvOpt = (case (rvrOpt, rvOpt) of
     (Some rvr, Some rv) \<Rightarrow>
       if rvr_NodeName rvr = [] then Inr None
       else (case rv_Configuration rv of
         None \<Rightarrow> Inr None
       | Some cfg \<Rightarrow> (case getRSPEligibilityView R (ReplicatedStoragePoolName cfg) (rvr_NodeName rvr) of
           Inl e \<Rightarrow> Inl (ErrWrap (''getting RSP eligibility for '' @ ReplicatedStoragePoolName cfg) e)
         | Inr v \<Rightarrow> Inr v))
   | _ \<Rightarrow> Inr None)"

subsection \<open>Reconcile\<close>

text \<open>From the backing volume on.\<close>

definition reconcileChildren :: "RvrClient \<Rightarrow> RV option \<Rightarrow> rspEligibilityView option \<Rightarrow> replicaState \<Rightarrow> (ReconcileOutcome \<times> replicaState) option" where
  "reconcileChildren cl rvOpt rspView st = do {
     (targetBV, intendedBV, o1, st1) \<leftarrow> reconcileBackingVolume cl rvOpt rspView st;
     if ShouldReturn o1 then Some (o1, st1)
     else do {
       (o2, st2) \<leftarrow> reconcileDRBDResource cl rvOpt targetBV intendedBV st1;
       let outcome = outcome_Merge o1 [o2];
       if ShouldReturn outcome then Some (outcome, st2)
       else case (rs_rvr st, rs_rvr st2) of
         (Some base, Some rvr) \<Rightarrow> publishStatus cl rvOpt rspView base outcome rvr st2
       | _ \<Rightarrow> Some (outcome, st2) } }"

definition reconcileReplica :: "RvrClient \<Rightarrow> RV option \<Rightarrow> rspEligibilityView option \<Rightarrow> replicaState \<Rightarrow> (ReconcileOutcome \<times> replicaState) option" where
  "reconcileReplica cl rvOpt rspView st = (case rs_rvr st of
     None \<Rightarrow> reconcileChildren cl rvOpt rspView st
   | Some rvr \<Rightarrow> (case reconcileReplicaMetadata cl rvOpt rvr st of (o1, st1) \<Rightarrow>
       if ShouldReturn o1 then Some (o1, st1) else reconcileChildren cl rvOpt rspView st1))"

definition rvr_Reconcile :: "RvrClient \<Rightarrow> ReplicaReads \<Rightarrow> ((ctrlResult \<times> goErr option) \<times> childCall list) option" where
  "rvr_Reconcile cl R =
     (let stop = (\<lambda>e. Some (ToCtrl (failure e), [])) in
      case getOrNil (rd_Replica R) of
        Inl e \<Rightarrow> stop e
      | Inr rvrOpt \<Rightarrow> (case getOrNil (rd_DRBDResource R) of
          Inl e \<Rightarrow> stop (ErrWrap ''getting DRBDResource'' e)
        | Inr drbdr \<Rightarrow> (case getLLVs R drbdr of
            Inl e \<Rightarrow> stop (ErrWrap ''listing LVMLogicalVolumes'' e)
          | Inr llvs \<Rightarrow> (case getRVOfReplica R rvrOpt of
              Inl e \<Rightarrow> stop (ErrWrap (''getting ReplicatedVolume '' @ (case rvrOpt of None \<Rightarrow> [] | Some r \<Rightarrow> rvr_ReplicatedVolumeName r)) e)
            | Inr rvOpt \<Rightarrow> (case viewForReplica R rvrOpt rvOpt of
                Inl e \<Rightarrow> stop e
              | Inr rspView \<Rightarrow> do {
                  (outcome, st) \<leftarrow> reconcileReplica cl rvOpt rspView
                    \<lparr> rs_rvr = rvrOpt, rs_llvs = llvs, rs_drbdr = drbdr, rs_calls = [] \<rparr>;
                  Some (ToCtrl outcome, rs_calls st) })))))"

end
