(* ===== verification/Rvr_Laws.thy ===== *)
theory Rvr_Laws
  imports Rvr_Reconcile Rv_Formation_Laws
begin

text \<open>
  Lemmas on the replica reconciler: which calls the reconciliation of the backing volume can make, which
  fields of the replica the ensure helpers leave alone, and what the reconciliation of the DRBD resource
  leaves behind.
\<close>

subsection \<open>Calls that delete a volume\<close>

definition deletesLLV :: "childCall \<Rightarrow> string \<Rightarrow> bool" where
  "deletesLLV c name \<longleftrightarrow> (\<exists>l. c = CallDeleteLLV l \<and> llv_Name l = name)"

definition deletedNames :: "childCall list \<Rightarrow> string set" where
  "deletedNames calls = {llv_Name l |l. CallDeleteLLV l \<in> set calls}"

lemma deletedNames_simps [simp]:
  "deletedNames [] = {}"
  "deletedNames (xs @ ys) = deletedNames xs \<union> deletedNames ys"
  "deletedNames (CallDeleteLLV l # xs) = insert (llv_Name l) (deletedNames xs)"
  "deletedNames (CallPatchLLV l # xs) = deletedNames xs"
  "deletedNames (CallCreateLLV l # xs) = deletedNames xs"
  by (auto simp: deletedNames_def)

text \<open>The client gives back the volume it was asked to patch.\<close>

definition patchKeepsName :: "RvrClient \<Rightarrow> bool" where
  "patchKeepsName cl \<longleftrightarrow> (\<forall>obj base obj'. rc_PatchLLV cl obj base = Inr obj' \<longrightarrow> llv_Name obj' = llv_Name obj)"

lemma releaseLLV_calls:
  assumes "releaseLLV cl l = (err, l', calls)"
  shows "deletedNames calls = {}" and "patchKeepsName cl \<Longrightarrow> llv_Name l' = llv_Name l"
  using assms by (auto simp: releaseLLV_def patchKeepsName_def Let_def split: if_splits sum.splits)

lemma deleteLLV_calls: "deleteLLV cl l = (err, l', calls) \<Longrightarrow> deletedNames calls \<subseteq> {llv_Name l}"
  by (auto simp: deleteLLV_def split: if_splits option.splits)

lemma deleteLLVs_calls:
  assumes "patchKeepsName cl" "deleteLLVs cl keep ls = (err, left, calls)"
  shows "deletedNames calls \<subseteq> llv_Name ` set ls - set keep"
  using assms(2)
proof (induction ls arbitrary: err left calls)
  case (Cons l ls)
  show ?case
  proof (cases "llv_Name l \<in> set keep")
    case True
    then show ?thesis using Cons by (auto split: prod.splits)
  next
    case False
    obtain e1 l1 c1 where r: "releaseLLV cl l = (e1, l1, c1)" by (cases "releaseLLV cl l")
    obtain e2 l2 c2 where d: "deleteLLV cl l1 = (e2, l2, c2)" by (cases "deleteLLV cl l1")
    obtain e3 l3 c3 where t: "deleteLLVs cl keep ls = (e3, l3, c3)" by (cases "deleteLLVs cl keep ls")
    have n: "deletedNames c1 = {}" "llv_Name l1 = llv_Name l" using releaseLLV_calls [OF r] assms(1) by auto
    have "deletedNames calls \<subseteq> insert (llv_Name l) (deletedNames c3)"
      using Cons.prems False r d t n deleteLLV_calls [OF d] by (auto split: option.splits)
    then show ?thesis using Cons.IH [OF t] False by auto
  qed
qed simp

lemma reconcileLLVsDeletion_calls:
  assumes "patchKeepsName cl" "reconcileLLVsDeletion cl keep st = (names, ro, st')"
  shows "deletedNames (rs_calls st') \<subseteq> deletedNames (rs_calls st) \<union> (llv_Name ` set (rs_llvs st) - set keep)"
proof -
  obtain err left calls where d: "deleteLLVs cl keep (rev (rs_llvs st)) = (err, left, calls)"
    by (cases "deleteLLVs cl keep (rev (rs_llvs st))")
  have "rs_calls st' = rs_calls st @ calls" using assms(2) d by (auto simp: reconcileLLVsDeletion_def Let_def)
  with deleteLLVs_calls [OF assms(1) d] show ?thesis by auto
qed

lemma report_calls [simp]:
  "rs_calls (snd (report cl cty status reason message rvr st)) = rs_calls st"
  "rs_calls (snd (reportAbsent cl cty rvr st)) = rs_calls st"
  "rs_llvs (snd (report cl cty status reason message rvr st)) = rs_llvs st"
  "rs_llvs (snd (reportAbsent cl cty rvr st)) = rs_llvs st"
  by (simp_all add: report_def reportAbsent_def split: prod.splits)

text \<open>The state a result of \<open>reconcileBackingVolume\<close> carries.\<close>

abbreviation bvState :: "bvResult \<Rightarrow> replicaState" where "bvState r \<equiv> snd (snd (snd r))"

lemma quiet_branches:
  "deletedNames (rs_calls (bvState (awaitOldVolume cl rvr actual intended llv st))) = deletedNames (rs_calls st)"
  "createVolume cl rvr rv actual intended st = Some r \<Longrightarrow> deletedNames (rs_calls (bvState r)) = deletedNames (rs_calls st)"
  "resizeLLV cl rvr actual intended llv n st = Some r \<Longrightarrow> deletedNames (rs_calls (bvState r)) = deletedNames (rs_calls st)"
proof -
  show "deletedNames (rs_calls (bvState (awaitOldVolume cl rvr actual intended llv st))) = deletedNames (rs_calls st)"
    using releaseLLV_calls(1) [of cl llv] by (cases "releaseLLV cl llv") (auto simp: awaitOldVolume_def split: option.splits)
  show "createVolume cl rvr rv actual intended st = Some r \<Longrightarrow> deletedNames (rs_calls (bvState r)) = deletedNames (rs_calls st)"
    unfolding createVolume_def Let_def by (elim runE) (auto split: option.splits)
  show "resizeLLV cl rvr actual intended llv n st = Some r \<Longrightarrow> deletedNames (rs_calls (bvState r)) = deletedNames (rs_calls st)"
    unfolding resizeLLV_def Let_def by (elim runE) auto
qed

lemma discardVolumes_calls:
  assumes "patchKeepsName cl"
  shows "deletedNames (rs_calls (bvState (discardVolumes cl status reason message rvr st)))
    \<subseteq> deletedNames (rs_calls st) \<union> llv_Name ` set (rs_llvs st)"
  using reconcileLLVsDeletion_calls [OF assms, of "[]" st]
  by (auto simp: discardVolumes_def split: prod.splits)

lemma volumeReady_calls:
  assumes "patchKeepsName cl"
  shows "deletedNames (rs_calls (bvState (volumeReady cl rvr intended st)))
    \<subseteq> deletedNames (rs_calls st) \<union> (llv_Name ` set (rs_llvs st) - {bw_LLVName intended})"
  using reconcileLLVsDeletion_calls [OF assms, of "[bw_LLVName intended]" st]
  by (auto simp: volumeReady_def split: prod.splits)

lemma noVolume_quiet: "rs_llvs st = [] \<Longrightarrow> rs_calls (bvState (noVolume cl reason message rvr st)) = rs_calls st"
  by (simp add: noVolume_def Let_def)

text \<open>A volume that can take over: the one of the given name, as read or as the patch of its metadata gave it back, is
  created and large enough.\<close>

definition serves :: "RvrClient \<Rightarrow> LLV list \<Rightarrow> backingVolume \<Rightarrow> bool" where
  "serves cl llvs bv \<longleftrightarrow> (\<exists>found llv s. findLLVByName llvs (bw_LLVName bv) = Some found
     \<and> (llv = found \<or> (\<exists>obj. rc_PatchLLV cl obj found = Inr llv))
     \<and> llv_Status llv = Some s \<and> ls_Phase s = ''Created'' \<and> bw_Size bv \<le> ls_ActualSize s)"

lemma ensureVolumeMetadata_result:
  assumes "ensureVolumeMetadata cl rvr rv found st = (err, llv, st')"
  shows "deletedNames (rs_calls st') = deletedNames (rs_calls st)"
    and "err = None \<Longrightarrow> llv = found \<or> (\<exists>obj. rc_PatchLLV cl obj found = Inr llv)"
  using assms by (auto simp: ensureVolumeMetadata_def Let_def split: if_splits prod.splits option.splits sum.splits)

lemma useVolume_calls:
  assumes "patchKeepsName cl" "findLLVByName (rs_llvs st) (bw_LLVName intended) = Some found"
    "useVolume cl rvr rv actual intended found st = Some r" "n \<in> deletedNames (rs_calls (bvState r))"
  shows "n \<in> deletedNames (rs_calls st) \<or> n \<noteq> bw_LLVName intended \<and> serves cl (rs_llvs st) intended"
proof -
  obtain err llv st1 where prep: "ensureVolumeMetadata cl rvr rv found st = (err, llv, st1)"
    by (cases "ensureVolumeMetadata cl rvr rv found st")
  note meta = ensureVolumeMetadata_result [OF prep]
  note run = assms(3) [unfolded useVolume_def prep]
  show ?thesis
  proof (cases err)
    case (Some e)
    with run have "r = (None, None, failure e, st1)" by simp
    then show ?thesis using assms(4) meta(1) by simp
  next
    case None
    show ?thesis
    proof (cases "isLLVReady (Some llv)")
      case False
      then have "case notReadyReport actual intended of (reason, message) \<Rightarrow>
          r = (actual, Some intended, report cl bvReady ConditionFalse reason message rvr st1)"
        using run None by (simp split: prod.splits)
      then show ?thesis using assms(4) meta(1) by (simp split: prod.splits)
    next
      case True
      then obtain s where s: "llv_Status llv = Some s" "ls_Phase s = ''Created''"
        by (auto simp: isLLVReady_def split: option.splits)
      show ?thesis
      proof (cases "ls_ActualSize s < bw_Size intended")
        case True
        then show ?thesis using run None assms(4) meta(1) s \<open>isLLVReady (Some llv)\<close> quiet_branches(3) by (auto split: prod.splits)
      next
        case False
        then have "r = volumeReady cl rvr intended st1" using run None s \<open>isLLVReady (Some llv)\<close> by (auto split: prod.splits)
        moreover have "serves cl (rs_llvs st) intended"
          using assms(2) meta(2) [OF None] s False unfolding serves_def by (metis linorder_not_le)
        ultimately show ?thesis using volumeReady_calls [OF assms(1), of rvr intended st1] assms(4) meta(1) by auto
      qed
    qed
  qed
qed

text \<open>Why a volume is deleted.\<close>

lemma reconcileBackingVolume_calls:
  assumes "patchKeepsName cl" "rs_rvr st = Some rvr" "rs_calls st = []"
    "reconcileBackingVolume cl rvOpt view st = Some r" "n \<in> deletedNames (rs_calls (bvState r))"
  shows "rvrShouldNotExist rvr \<or> (\<exists>rv. rvOpt = Some rv \<and> rv_DatameshRevision rv \<noteq> 0
    \<and> ((\<exists>why. intendedPlace rvr rv view = Inl why)
       \<or> (\<exists>intended. computeIntendedBackingVolume rvr rv (computeActualBackingVolume (rs_drbdr st) (rs_llvs st)) view = Some (Inr intended)
            \<and> n \<noteq> bw_LLVName intended \<and> serves cl (rs_llvs st) intended)))"
proof (cases "rvrShouldNotExist rvr")
  case False
  note run = assms(4) [unfolded reconcileBackingVolume_def assms(2) Let_def option.case if_not_P [OF False]]
  from run obtain rv where rv: "rvOpt = Some rv" "rv_DatameshRevision rv \<noteq> 0"
    using assms(3,5) by (auto simp: waitForRV_def split: option.splits if_splits)
  from run rv obtain q where q: "computeIntendedBackingVolume rvr rv (computeActualBackingVolume (rs_drbdr st) (rs_llvs st)) view = Some q"
    and rest: "(case q of Inl (reason, message) \<Rightarrow> Some (noVolume cl reason message rvr st)
      | Inr intended \<Rightarrow> (case findLLVByName (rs_llvs st) (bw_LLVName intended) of
          None \<Rightarrow> createVolume cl rvr rv (computeActualBackingVolume (rs_drbdr st) (rs_llvs st)) intended st
        | Some llv \<Rightarrow>
            if llv_Deleting llv \<and> FindMemberByName (rv_Datamesh rv) (rvr_Name rvr) = None
            then Some (awaitOldVolume cl rvr (computeActualBackingVolume (rs_drbdr st) (rs_llvs st)) intended llv st)
            else useVolume cl rvr rv (computeActualBackingVolume (rs_drbdr st) (rs_llvs st)) intended llv st)) = Some r"
    by (auto elim: bindE)
  show ?thesis
  proof (cases q)
    case (Inl why)
    then have "intendedPlace rvr rv view = Inl why"
      using q by (auto simp: computeIntendedBackingVolume_def split: sum.splits elim!: bindE)
    with rv show ?thesis by blast
  next
    case (Inr intended)
    have "n \<noteq> bw_LLVName intended \<and> serves cl (rs_llvs st) intended"
    proof (cases "findLLVByName (rs_llvs st) (bw_LLVName intended)")
      case None
      then show ?thesis using rest Inr assms(3,5) quiet_branches(2) by (auto split: option.splits)
    next
      case (Some llv)
      show ?thesis
      proof (cases "llv_Deleting llv \<and> FindMemberByName (rv_Datamesh rv) (rvr_Name rvr) = None")
        case True
        then show ?thesis using rest Inr Some assms(3,5) quiet_branches(1) by auto
      next
        case False
        then have "useVolume cl rvr rv (computeActualBackingVolume (rs_drbdr st) (rs_llvs st)) intended llv st = Some r"
          using rest Inr Some by auto
        from useVolume_calls [OF assms(1) Some this assms(5)] show ?thesis using assms(3) by simp
      qed
    qed
    with q Inr rv show ?thesis by blast
  qed
qed simp

lemma intended_reuses_actual:
  assumes "computeIntendedBackingVolume rvr rv (Some a) view = Some (Inr intended)"
    "bw_LVMVolumeGroupName a = bw_LVMVolumeGroupName intended" "bw_ThinPoolName a = bw_ThinPoolName intended"
  shows "bw_LLVName intended = bw_LLVName a"
  using assms by (cases intended) (auto simp: computeIntendedBackingVolume_def split: sum.splits elim!: bindE)

subsection \<open>What the DRBD reconciliation leaves\<close>

lemma backingVolume_Equal_iff [simp]: "backingVolume_Equal a b \<longleftrightarrow> a = b"
  by (cases a; cases b) (auto simp: backingVolume_Equal_def)

text \<open>The fields of a replica that the reconciliation of its children does not touch.\<close>

definition kept :: "Replica \<Rightarrow> Replica \<Rightarrow> bool" where
  "kept r r' \<longleftrightarrow> rvr_Name r' = rvr_Name r \<and> rvr_Deleting r' = rvr_Deleting r \<and> rvr_Finalizers r' = rvr_Finalizers r
     \<and> rvr_NodeName r' = rvr_NodeName r"

lemma kept_refl [simp]: "kept r r" by (simp add: kept_def)

lemma kept_trans: "kept a b \<Longrightarrow> kept b c \<Longrightarrow> kept a c" by (simp add: kept_def)

lemma setCond_fields:
  assumes "setCond cl cty status reason message rvr = (ch, rvr')"
  shows "\<exists>conds. rvr' = rvr \<lparr> rvr_Conditions := conds \<rparr>"
  using assms by (auto simp: setCond_def split: prod.splits)

lemma removeCond_fields: "removeCond cl cty rvr = (ch, rvr') \<Longrightarrow> \<exists>conds. rvr' = rvr \<lparr> rvr_Conditions := conds \<rparr>"
  by (auto simp: removeCond_def split: prod.splits)

lemma continue_if [simp]: "\<not> ShouldReturn (ReportChangedIf c rf_Continue)" "\<not> ShouldReturn rf_Continue" "ShouldReturn (failure e)"
  "ShouldReturn rf_DoneAndRequeue"
  by (simp_all add: ShouldReturn_def ReportChangedIf_def rf_Continue_def zeroOutcome_def failure_def rf_DoneAndRequeue_def)

lemma settle_result:
  assumes "settle cl status reason message ch rvr st = (out, st')"
  shows "\<not> ShouldReturn out \<and> rs_drbdr st' = rs_drbdr st \<and> rs_llvs st' = rs_llvs st \<and> rs_calls st' = rs_calls st
    \<and> (\<exists>conds. rs_rvr st' = Some (rvr \<lparr> rvr_Conditions := conds \<rparr>))"
  using assms setCond_fields by (fastforce simp: settle_def split: prod.splits)

text \<open>The agent has applied the current generation: it says so, the resource has addresses, and a disk has the size asked for.\<close>

definition agentConfirmed :: "DRBDResource \<Rightarrow> bool" where
  "agentConfirmed d \<longleftrightarrow> (\<exists>cond. findCondition (dr_Conditions d) ''Configured'' = Some cond
     \<and> c_ObservedGeneration cond = dr_Generation d \<and> c_Status cond = ConditionTrue \<and> c_Reason cond \<noteq> ''InMaintenance'')
     \<and> dr_Addresses d \<noteq> []
     \<and> (\<forall>wanted. drs_Type (dr_Spec d) = DRBDDiskful \<and> drs_Size (dr_Spec d) = Some wanted
          \<longrightarrow> (\<exists>s. dr_Size d = Some s \<and> wanted \<le> s))"

text \<open>The revision is the old one, or the agent confirmed: then it is zero for a replica that is not a member, and the
  revision of the volume for a member, whose disk is the intended one.\<close>

definition revisionJustified :: "RV \<Rightarrow> DatameshMember option \<Rightarrow> backingVolume option \<Rightarrow> backingVolume option \<Rightarrow> DRBDResource
    \<Rightarrow> int \<Rightarrow> int \<Rightarrow> bool" where
  "revisionJustified rv member targetBV intendedBV d old new \<longleftrightarrow> new = old \<or> agentConfirmed d
     \<and> (case member of None \<Rightarrow> new = 0
        | Some m \<Rightarrow> new = rv_DatameshRevision rv \<and> (HasBackingVolume (m_Type m) \<longrightarrow> targetBV \<noteq> None \<and> targetBV = intendedBV))"

lemma settle_kept:
  assumes "settle cl status reason message ch rvr st = (out, st')"
  shows "\<exists>rvr'. \<not> ShouldReturn out \<and> rs_drbdr st' = rs_drbdr st \<and> rs_rvr st' = Some rvr' \<and> kept rvr rvr'
    \<and> rvr_DatameshRevision rvr' = rvr_DatameshRevision rvr"
  using settle_result [OF assms] by (auto simp: kept_def)

lemma pendingVolume_None:
  assumes "pendingVolume cl t i d = None"
  shows "drs_Type (dr_Spec d) = DRBDDiskful \<Longrightarrow> drs_Size (dr_Spec d) = Some wanted \<Longrightarrow> \<exists>s. dr_Size d = Some s \<and> wanted \<le> s"
  using assms by (auto simp: pendingVolume_def Let_def not_less split: if_splits option.splits)

lemma configured_result:
  assumes "configured cl rv member targetType t i ch rvr st = Some (out, st')"
  shows "\<exists>rvr'. \<not> ShouldReturn out \<and> rs_drbdr st' = rs_drbdr st \<and> rs_rvr st' = Some rvr' \<and> kept rvr rvr'
    \<and> (case member of None \<Rightarrow> rvr_DatameshRevision rvr' = 0
       | Some m \<Rightarrow> rvr_DatameshRevision rvr' = rv_DatameshRevision rv \<and> (HasBackingVolume targetType \<longrightarrow> t = i))"
proof (cases member)
  case None
  then show ?thesis using assms settle_kept by (fastforce simp: configured_def kept_def split: if_splits)
next
  case (Some m)
  then obtain ch' rvr0 where "settle cl ConditionTrue ''Configured'' ''DRBD fully configured'' ch' rvr0 st = (out, st')"
      "kept rvr rvr0" "rvr_DatameshRevision rvr0 = rv_DatameshRevision rv" "HasBackingVolume targetType \<longrightarrow> t = i"
    using assms by (auto simp: configured_def panicUnless_def kept_def split: if_splits prod.splits elim!: bindE)
  with settle_kept [OF this(1)] Some show ?thesis by (auto simp: kept_def)
qed

lemma agentResponded_result:
  assumes "agentResponded cl rv member intendedType targetType t i cache cond ch rvr d st = Some (out, st')"
    and cond: "findCondition (dr_Conditions d) ''Configured'' = Some cond" "c_ObservedGeneration cond = dr_Generation d"
  shows "\<exists>rvr'. \<not> ShouldReturn out \<and> rs_drbdr st' = rs_drbdr st \<and> rs_rvr st' = Some rvr' \<and> kept rvr rvr'
    \<and> (rvr_DatameshRevision rvr' = rvr_DatameshRevision rvr \<or> agentConfirmed d \<and> targetType = intendedType
       \<and> (case member of None \<Rightarrow> rvr_DatameshRevision rvr' = 0
          | Some m \<Rightarrow> rvr_DatameshRevision rvr' = rv_DatameshRevision rv \<and> (HasBackingVolume targetType \<longrightarrow> t = i)))"
proof -
  define rvr1 where "rvr1 = (if rvr_DatameshRevisionObservedByAgent rvr \<noteq> rc_DatameshRevision cache
    then rvr \<lparr> rvr_DatameshRevisionObservedByAgent := rc_DatameshRevision cache \<rparr> else rvr)"
  define ch1 where "ch1 = (rvr_DatameshRevisionObservedByAgent rvr \<noteq> rc_DatameshRevision cache \<or> ch)"
  have k: "kept rvr rvr1" "rvr_DatameshRevision rvr1 = rvr_DatameshRevision rvr" by (simp_all add: rvr1_def kept_def)
  have p: "(if rvr_DatameshRevisionObservedByAgent rvr \<noteq> rc_DatameshRevision cache
      then (True, rvr \<lparr> rvr_DatameshRevisionObservedByAgent := rc_DatameshRevision cache \<rparr>) else (ch, rvr)) = (ch1, rvr1)"
    by (simp add: rvr1_def ch1_def)
  note run = assms(1) [unfolded agentResponded_def p Let_def prod.case]
  from run consider
      (waiting) status reason message where "settle cl status reason message ch1 rvr1 st = (out, st')"
    | (ok) "c_Reason cond \<noteq> ''InMaintenance''" "c_Status cond = ConditionTrue" "dr_Addresses d \<noteq> []" "targetType = intendedType"
        "pendingVolume cl t i d = None" "configured cl rv member targetType t i ch1 rvr1 st = Some (out, st')"
    by (elim ifE optionE pairE) auto
  then show ?thesis
  proof cases
    case waiting
    from settle_kept [OF this] k show ?thesis by (auto intro: kept_trans)
  next
    case ok
    have "agentConfirmed d" unfolding agentConfirmed_def using ok(1-3,5) cond pendingVolume_None by blast
    with configured_result [OF ok(6)] k ok(4) show ?thesis by (auto intro: kept_trans)
  qed
qed

lemma awaitAgent_result:
  assumes "awaitAgent cl rv member intendedType targetType t i cache rvr d st = Some (out, st')"
  shows "ShouldReturn out \<or> (\<exists>rvr'. rs_drbdr st' = rs_drbdr st \<and> rs_rvr st' = Some rvr' \<and> kept rvr rvr'
    \<and> (rvr_DatameshRevision rvr' = rvr_DatameshRevision rvr \<or> agentConfirmed d \<and> targetType = intendedType
       \<and> (case member of None \<Rightarrow> rvr_DatameshRevision rvr' = 0
          | Some m \<Rightarrow> rvr_DatameshRevision rvr' = rv_DatameshRevision rv \<and> (HasBackingVolume targetType \<longrightarrow> t = i))))"
proof -
  obtain ch rvr1 where a: "applyRVRDRBDRReconciliationCache cache rvr = (ch, rvr1)"
    by (cases "applyRVRDRBDRReconciliationCache cache rvr")
  have k: "kept rvr rvr1" "rvr_DatameshRevision rvr1 = rvr_DatameshRevision rvr"
    using a by (auto simp: applyRVRDRBDRReconciliationCache_def kept_def split: if_splits)
  let ?st = "st \<lparr> rs_rvr := Some rvr1 \<rparr>"
  note run = assms [unfolded awaitAgent_def a Let_def prod.case]
  from run consider
      (failed) "ShouldReturn out"
    | (waiting) ch' status reason message where "settle cl status reason message ch' rvr1 ?st = (out, st')"
    | (responded) cond where "findCondition (dr_Conditions d) ''Configured'' = Some cond" "c_ObservedGeneration cond = dr_Generation d"
        "agentResponded cl rv member intendedType targetType t i cache cond ch rvr1 d ?st = Some (out, st')"
    by (elim sumE boolE optionE ifE) auto
  then show ?thesis
  proof cases
    case waiting
    from settle_kept [OF this] k show ?thesis by (auto intro: kept_trans)
  next
    case responded
    from agentResponded_result [OF responded(3,1,2)] k show ?thesis by (auto intro: kept_trans)
  qed simp
qed

lemma resource_written:
  assumes "(case rs_drbdr st of None \<Rightarrow> createResource cl rvr rv member llvName targetType st
      | Some d \<Rightarrow> updateResource cl rvr rv member llvName targetType d st) = Some (Inr cache, st1)"
  shows "\<exists>d. rs_drbdr st1 = Some d"
  using assms
  by (auto simp: createResource_def updateResource_def Let_def split: option.splits sum.splits if_splits elim!: bindE)

lemma ensureResourceMetadata_result:
  assumes "ensureResourceMetadata cl rvr rv d st = (Inr d', st')" "rs_drbdr st = Some d"
  shows "rs_drbdr st' = Some d'"
  using assms by (auto simp: ensureResourceMetadata_def Let_def split: if_splits prod.splits option.splits sum.splits)

lemma full_type_has_volume:
  assumes "computeTargetType ty (LLVNameOrEmpty t) = Some ty" "HasBackingVolume ty"
  shows "t \<noteq> None"
  using assms by (cases ty) (auto simp: computeTargetType_def LLVNameOrEmpty_def split: if_splits option.splits)

lemma configureResource_result:
  assumes "configureResource cl rv t i rvr st = Some (out, st')" "\<not> ShouldReturn out"
  shows "\<exists>d rvr'. rs_drbdr st' = Some d \<and> rs_rvr st' = Some rvr' \<and> kept rvr rvr'
    \<and> revisionJustified rv (FindMemberByName (rv_Datamesh rv) (rvr_Name rvr)) t i d (rvr_DatameshRevision rvr) (rvr_DatameshRevision rvr')"
proof -
  let ?member = "FindMemberByName (rv_Datamesh rv) (rvr_Name rvr)"
  let ?intended = "computeIntendedType rvr ?member"
  obtain targetType r st1 where tt: "computeTargetType ?intended (LLVNameOrEmpty t) = Some targetType"
    and w: "(case rs_drbdr st of None \<Rightarrow> createResource cl rvr rv ?member (LLVNameOrEmpty t) targetType st
        | Some d \<Rightarrow> updateResource cl rvr rv ?member (LLVNameOrEmpty t) targetType d st) = Some (r, st1)"
    and rest: "(case (r, rs_drbdr st1) of
       (Inl out, _) \<Rightarrow> Some (out, st1)
     | (Inr cache, Some d) \<Rightarrow> (case ensureResourceMetadata cl rvr rv d st1 of
         (Inl e, st2) \<Rightarrow> Some (failure e, st2)
       | (Inr d2, st2) \<Rightarrow> awaitAgent cl rv ?member ?intended targetType t i cache rvr d2 st2)
     | (Inr cache, None) \<Rightarrow> None) = Some (out, st')"
    using assms(1) unfolding configureResource_def Let_def by (elim bindPairE bindE) blast
  show ?thesis
  proof (cases r)
    case (Inl o')
    then have "st' = st1" "out = o'" using rest by auto
    then show ?thesis
      using w Inl assms(2) by (auto simp: createResource_def updateResource_def Let_def
          split: option.splits sum.splits if_splits elim!: bindE)
  next
    case (Inr cache)
    with w resource_written obtain d where d: "rs_drbdr st1 = Some d" by blast
    obtain q st2 where e: "ensureResourceMetadata cl rvr rv d st1 = (q, st2)" by (cases "ensureResourceMetadata cl rvr rv d st1")
    with rest Inr d assms(2) obtain d2 where q: "q = Inr d2"
      and run: "awaitAgent cl rv ?member ?intended targetType t i cache rvr d2 st2 = Some (out, st')"
      by (cases q) auto
    have d2: "rs_drbdr st2 = Some d2" using ensureResourceMetadata_result [OF e [unfolded q] d] .
    from awaitAgent_result [OF run] assms(2) d2 obtain rvr' where r: "rs_drbdr st' = Some d2" "rs_rvr st' = Some rvr'" "kept rvr rvr'"
      and rev: "rvr_DatameshRevision rvr' = rvr_DatameshRevision rvr \<or> agentConfirmed d2 \<and> targetType = ?intended
       \<and> (case ?member of None \<Rightarrow> rvr_DatameshRevision rvr' = 0
          | Some m \<Rightarrow> rvr_DatameshRevision rvr' = rv_DatameshRevision rv \<and> (HasBackingVolume targetType \<longrightarrow> t = i))"
      by auto
    have "revisionJustified rv ?member t i d2 (rvr_DatameshRevision rvr) (rvr_DatameshRevision rvr')"
      using rev tt full_type_has_volume by (auto simp: revisionJustified_def computeIntendedType_def split: option.splits)
    with r show ?thesis by blast
  qed
qed

lemma report_result:
  "\<exists>rvr'. rs_rvr (snd (report cl cty status reason message rvr st)) = Some rvr' \<and> kept rvr rvr'
     \<and> rvr_DatameshRevision rvr' = rvr_DatameshRevision rvr"
  using setCond_fields by (fastforce simp: report_def kept_def split: prod.splits)

lemma discardDRBDR_result:
  assumes "discardDRBDR cl rvr st = (out, st')" "\<not> ShouldReturn out"
  shows "\<exists>rvr'. rs_rvr st' = Some rvr' \<and> kept rvr rvr' \<and> rvr_DatameshRevision rvr' = rvr_DatameshRevision rvr"
proof -
  from assms obtain message st1 where "report cl drbdConfigured ConditionFalse ''NotApplicable'' message rvr st1 = (out, st')"
    unfolding discardDRBDR_def by (auto split: option.splits prod.splits)
  with report_result [of cl drbdConfigured ConditionFalse "''NotApplicable''" message rvr st1] show ?thesis by simp
qed

text \<open>The resource is there once the volume, its networks and the node are known.\<close>

definition expectsResource :: "RV option \<Rightarrow> Replica \<Rightarrow> bool" where
  "expectsResource rvOpt rvr \<longleftrightarrow> \<not> rvrShouldNotExist rvr \<and> rvr_NodeName rvr \<noteq> []
     \<and> (\<exists>rv. rvOpt = Some rv \<and> rv_DatameshRevision rv \<noteq> 0 \<and> ds_SystemNetworkNames (rv_Datamesh rv) \<noteq> [])"

lemma reconcileDRBDResource_result:
  assumes "reconcileDRBDResource cl rvOpt t i st = Some (out, st')" "\<not> ShouldReturn out" "rs_rvr st = Some rvr"
  shows "\<exists>rvr'. rs_rvr st' = Some rvr' \<and> kept rvr rvr'
    \<and> (rvr_DatameshRevision rvr' = rvr_DatameshRevision rvr \<or> expectsResource rvOpt rvr)
    \<and> (expectsResource rvOpt rvr \<longrightarrow> (\<exists>d. rs_drbdr st' = Some d
        \<and> revisionJustified (the rvOpt) (FindMemberByName (rv_Datamesh (the rvOpt)) (rvr_Name rvr)) t i d
            (rvr_DatameshRevision rvr) (rvr_DatameshRevision rvr')))"
proof (cases "expectsResource rvOpt rvr")
  case True
  then obtain rv where rv: "rvOpt = Some rv" by (auto simp: expectsResource_def)
  with True assms have "configureResource cl rv t i rvr st = Some (out, st')"
    by (auto simp: reconcileDRBDResource_def expectsResource_def)
  from configureResource_result [OF this assms(2)] rv True show ?thesis by auto
next
  case False
  from assms False consider
      (gone) "discardDRBDR cl rvr st = (out, st')"
    | (waiting) status reason message where "report cl drbdConfigured status reason message rvr st = (out, st')"
    by (auto simp: reconcileDRBDResource_def expectsResource_def waitForRV_def split: if_splits option.splits)
  then show ?thesis
  proof cases
    case gone
    from discardDRBDR_result [OF this assms(2)] False show ?thesis by auto
  next
    case waiting
    with report_result [of cl drbdConfigured status reason message rvr st] False show ?thesis by auto
  qed
qed

subsection \<open>What the status helpers leave alone\<close>

lemma applyVerdict_frame:
  assumes "applyVerdict cl cty v rvr = (e, rvr')"
  shows "\<exists>conds. rvr' = rvr \<lparr> rvr_Conditions := conds \<rparr>"
  using assms setCond_fields removeCond_fields by (fastforce simp: applyVerdict_def okChanged_def split: verdict.splits prod.splits)

lemma readyVerdict_defined:
  assumes "expectsResource rvOpt rvr \<Longrightarrow> drbdr \<noteq> None \<and> rvr_QuorumSummary rvr \<noteq> None"
  shows "readyVerdict rvOpt drbdr member agentReady pending rvr \<noteq> None"
  using assms by (auto simp: readyVerdict_def expectsResource_def quorumVerdict_def split: option.splits)

text \<open>Field by field.\<close>

lemma applyVerdict_fields [simp]:
  "rvr_Name (snd (applyVerdict cl cty v rvr)) = rvr_Name rvr"
  "rvr_Deleting (snd (applyVerdict cl cty v rvr)) = rvr_Deleting rvr"
  "rvr_Finalizers (snd (applyVerdict cl cty v rvr)) = rvr_Finalizers rvr"
  "rvr_NodeName (snd (applyVerdict cl cty v rvr)) = rvr_NodeName rvr"
  "rvr_Type (snd (applyVerdict cl cty v rvr)) = rvr_Type rvr"
  "rvr_DatameshRevision (snd (applyVerdict cl cty v rvr)) = rvr_DatameshRevision rvr"
  "rvr_Peers (snd (applyVerdict cl cty v rvr)) = rvr_Peers rvr"
  "rvr_Addresses (snd (applyVerdict cl cty v rvr)) = rvr_Addresses rvr"
  "rvr_BackingVolume (snd (applyVerdict cl cty v rvr)) = rvr_BackingVolume rvr"
  "rvr_StatusType (snd (applyVerdict cl cty v rvr)) = rvr_StatusType rvr"
  "rvr_QuorumSummary (snd (applyVerdict cl cty v rvr)) = rvr_QuorumSummary rvr"
  "rvr_Quorum (snd (applyVerdict cl cty v rvr)) = rvr_Quorum rvr"
  "rvr_InitialQuorumReachedAt (snd (applyVerdict cl cty v rvr)) = rvr_InitialQuorumReachedAt rvr"
  "rvr_Phase (snd (applyVerdict cl cty v rvr)) = rvr_Phase rvr"
  using applyVerdict_frame [of cl cty v rvr] by (cases "applyVerdict cl cty v rvr"; auto)+

lemma upToDate_fields [simp]:
  "rvr_Name (snd (ensureConditionBackingVolumeUpToDate cl drbdr member agentReady pending rvr)) = rvr_Name rvr"
  "rvr_Deleting (snd (ensureConditionBackingVolumeUpToDate cl drbdr member agentReady pending rvr)) = rvr_Deleting rvr"
  "rvr_Finalizers (snd (ensureConditionBackingVolumeUpToDate cl drbdr member agentReady pending rvr)) = rvr_Finalizers rvr"
  "rvr_NodeName (snd (ensureConditionBackingVolumeUpToDate cl drbdr member agentReady pending rvr)) = rvr_NodeName rvr"
  "rvr_Type (snd (ensureConditionBackingVolumeUpToDate cl drbdr member agentReady pending rvr)) = rvr_Type rvr"
  "rvr_DatameshRevision (snd (ensureConditionBackingVolumeUpToDate cl drbdr member agentReady pending rvr)) = rvr_DatameshRevision rvr"
  "rvr_Peers (snd (ensureConditionBackingVolumeUpToDate cl drbdr member agentReady pending rvr)) = rvr_Peers rvr"
  "rvr_Addresses (snd (ensureConditionBackingVolumeUpToDate cl drbdr member agentReady pending rvr)) = rvr_Addresses rvr"
  "rvr_BackingVolume (snd (ensureConditionBackingVolumeUpToDate cl drbdr member agentReady pending rvr)) = rvr_BackingVolume rvr"
  "rvr_StatusType (snd (ensureConditionBackingVolumeUpToDate cl drbdr member agentReady pending rvr)) = rvr_StatusType rvr"
  "rvr_QuorumSummary (snd (ensureConditionBackingVolumeUpToDate cl drbdr member agentReady pending rvr)) = rvr_QuorumSummary rvr"
  "rvr_Quorum (snd (ensureConditionBackingVolumeUpToDate cl drbdr member agentReady pending rvr)) = rvr_Quorum rvr"
  "rvr_InitialQuorumReachedAt (snd (ensureConditionBackingVolumeUpToDate cl drbdr member agentReady pending rvr)) = rvr_InitialQuorumReachedAt rvr"
  "rvr_Phase (snd (ensureConditionBackingVolumeUpToDate cl drbdr member agentReady pending rvr)) = rvr_Phase rvr"
  by (simp_all add: ensureConditionBackingVolumeUpToDate_def split: sum.splits)

lemma addresses_fields [simp]:
  "rvr_Name (snd (ensureStatusAddressesAndType drbdr rvr)) = rvr_Name rvr"
  "rvr_Deleting (snd (ensureStatusAddressesAndType drbdr rvr)) = rvr_Deleting rvr"
  "rvr_Finalizers (snd (ensureStatusAddressesAndType drbdr rvr)) = rvr_Finalizers rvr"
  "rvr_NodeName (snd (ensureStatusAddressesAndType drbdr rvr)) = rvr_NodeName rvr"
  "rvr_Type (snd (ensureStatusAddressesAndType drbdr rvr)) = rvr_Type rvr"
  "rvr_DatameshRevision (snd (ensureStatusAddressesAndType drbdr rvr)) = rvr_DatameshRevision rvr"
  by (simp_all add: ensureStatusAddressesAndType_def okChanged_def Let_def)

lemma size_fields [simp]:
  "rvr_Name (snd (ensureStatusReplicaSize drbdr rvr)) = rvr_Name rvr"
  "rvr_Deleting (snd (ensureStatusReplicaSize drbdr rvr)) = rvr_Deleting rvr"
  "rvr_Finalizers (snd (ensureStatusReplicaSize drbdr rvr)) = rvr_Finalizers rvr"
  "rvr_NodeName (snd (ensureStatusReplicaSize drbdr rvr)) = rvr_NodeName rvr"
  "rvr_Type (snd (ensureStatusReplicaSize drbdr rvr)) = rvr_Type rvr"
  "rvr_DatameshRevision (snd (ensureStatusReplicaSize drbdr rvr)) = rvr_DatameshRevision rvr"
  "rvr_Addresses (snd (ensureStatusReplicaSize drbdr rvr)) = rvr_Addresses rvr"
  by (simp_all add: ensureStatusReplicaSize_def okChanged_def Let_def)

lemma attachment_fields [simp]:
  "rvr_Name (snd (ensureStatusAttachment drbdr agentReady pending rvr)) = rvr_Name rvr"
  "rvr_Deleting (snd (ensureStatusAttachment drbdr agentReady pending rvr)) = rvr_Deleting rvr"
  "rvr_Finalizers (snd (ensureStatusAttachment drbdr agentReady pending rvr)) = rvr_Finalizers rvr"
  "rvr_NodeName (snd (ensureStatusAttachment drbdr agentReady pending rvr)) = rvr_NodeName rvr"
  "rvr_Type (snd (ensureStatusAttachment drbdr agentReady pending rvr)) = rvr_Type rvr"
  "rvr_DatameshRevision (snd (ensureStatusAttachment drbdr agentReady pending rvr)) = rvr_DatameshRevision rvr"
  "rvr_Addresses (snd (ensureStatusAttachment drbdr agentReady pending rvr)) = rvr_Addresses rvr"
  by (simp_all add: ensureStatusAttachment_def applyRVRAttachment_def okChanged_def Let_def)

lemma peers_fields [simp]:
  "rvr_Name (snd (ensureStatusPeers drbdr dmo rvr)) = rvr_Name rvr"
  "rvr_Deleting (snd (ensureStatusPeers drbdr dmo rvr)) = rvr_Deleting rvr"
  "rvr_Finalizers (snd (ensureStatusPeers drbdr dmo rvr)) = rvr_Finalizers rvr"
  "rvr_NodeName (snd (ensureStatusPeers drbdr dmo rvr)) = rvr_NodeName rvr"
  "rvr_Type (snd (ensureStatusPeers drbdr dmo rvr)) = rvr_Type rvr"
  "rvr_DatameshRevision (snd (ensureStatusPeers drbdr dmo rvr)) = rvr_DatameshRevision rvr"
  "rvr_Addresses (snd (ensureStatusPeers drbdr dmo rvr)) = rvr_Addresses rvr"
  by (simp_all add: ensureStatusPeers_def okChanged_def Let_def)

lemma backing_fields [simp]:
  "rvr_Name (snd (ensureStatusBackingVolume drbdr llvs rvr)) = rvr_Name rvr"
  "rvr_Deleting (snd (ensureStatusBackingVolume drbdr llvs rvr)) = rvr_Deleting rvr"
  "rvr_Finalizers (snd (ensureStatusBackingVolume drbdr llvs rvr)) = rvr_Finalizers rvr"
  "rvr_NodeName (snd (ensureStatusBackingVolume drbdr llvs rvr)) = rvr_NodeName rvr"
  "rvr_Type (snd (ensureStatusBackingVolume drbdr llvs rvr)) = rvr_Type rvr"
  "rvr_DatameshRevision (snd (ensureStatusBackingVolume drbdr llvs rvr)) = rvr_DatameshRevision rvr"
  "rvr_Addresses (snd (ensureStatusBackingVolume drbdr llvs rvr)) = rvr_Addresses rvr"
  "rvr_Peers (snd (ensureStatusBackingVolume drbdr llvs rvr)) = rvr_Peers rvr"
  by (simp_all add: ensureStatusBackingVolume_def applyBackingVolume_def okChanged_def Let_def split: option.splits)

lemma quorum_fields [simp]:
  "rvr_Name (snd (ensureStatusQuorum drbdr rvr)) = rvr_Name rvr"
  "rvr_Deleting (snd (ensureStatusQuorum drbdr rvr)) = rvr_Deleting rvr"
  "rvr_Finalizers (snd (ensureStatusQuorum drbdr rvr)) = rvr_Finalizers rvr"
  "rvr_NodeName (snd (ensureStatusQuorum drbdr rvr)) = rvr_NodeName rvr"
  "rvr_Type (snd (ensureStatusQuorum drbdr rvr)) = rvr_Type rvr"
  "rvr_DatameshRevision (snd (ensureStatusQuorum drbdr rvr)) = rvr_DatameshRevision rvr"
  "rvr_Addresses (snd (ensureStatusQuorum drbdr rvr)) = rvr_Addresses rvr"
  "rvr_Peers (snd (ensureStatusQuorum drbdr rvr)) = rvr_Peers rvr"
  "rvr_BackingVolume (snd (ensureStatusQuorum drbdr rvr)) = rvr_BackingVolume rvr"
  "rvr_StatusType (snd (ensureStatusQuorum drbdr rvr)) = rvr_StatusType rvr"
  by (simp_all add: ensureStatusQuorum_def okChanged_def Let_def)

lemma latch_fields [simp]:
  "rvr_Name (snd (ensureStatusInitialQuorumReachedAt cl rvr)) = rvr_Name rvr"
  "rvr_Deleting (snd (ensureStatusInitialQuorumReachedAt cl rvr)) = rvr_Deleting rvr"
  "rvr_Finalizers (snd (ensureStatusInitialQuorumReachedAt cl rvr)) = rvr_Finalizers rvr"
  "rvr_NodeName (snd (ensureStatusInitialQuorumReachedAt cl rvr)) = rvr_NodeName rvr"
  "rvr_Type (snd (ensureStatusInitialQuorumReachedAt cl rvr)) = rvr_Type rvr"
  "rvr_DatameshRevision (snd (ensureStatusInitialQuorumReachedAt cl rvr)) = rvr_DatameshRevision rvr"
  "rvr_Addresses (snd (ensureStatusInitialQuorumReachedAt cl rvr)) = rvr_Addresses rvr"
  "rvr_Peers (snd (ensureStatusInitialQuorumReachedAt cl rvr)) = rvr_Peers rvr"
  "rvr_BackingVolume (snd (ensureStatusInitialQuorumReachedAt cl rvr)) = rvr_BackingVolume rvr"
  "rvr_StatusType (snd (ensureStatusInitialQuorumReachedAt cl rvr)) = rvr_StatusType rvr"
  "rvr_QuorumSummary (snd (ensureStatusInitialQuorumReachedAt cl rvr)) = rvr_QuorumSummary rvr"
  "rvr_Quorum (snd (ensureStatusInitialQuorumReachedAt cl rvr)) = rvr_Quorum rvr"
  by (simp_all add: ensureStatusInitialQuorumReachedAt_def okChanged_def)

lemma addresses_mirrored [simp]:
  "rvr_Addresses (snd (ensureStatusAddressesAndType drbdr rvr)) = (case drbdr of None \<Rightarrow> [] | Some d \<Rightarrow> dr_Addresses d)"
  by (simp add: ensureStatusAddressesAndType_def okChanged_def Let_def)

lemma quorum_mirrored [simp]:
  "rvr_QuorumSummary (snd (ensureStatusQuorum drbdr rvr)) = map_option (\<lambda>d. quorumSummaryOf d (rvr_Peers rvr)) drbdr"
  "rvr_Quorum (snd (ensureStatusQuorum drbdr rvr)) = (case drbdr of None \<Rightarrow> None | Some d \<Rightarrow> dr_Quorum d)"
  by (simp_all add: ensureStatusQuorum_def okChanged_def Let_def)

text \<open>The replica after the helpers that mirror the resource, and after the conditions before Ready.\<close>

definition mirrored :: "RvrClient \<Rightarrow> DRBDResource option \<Rightarrow> LLV list \<Rightarrow> Datamesh option \<Rightarrow> bool \<Rightarrow> bool \<Rightarrow> Replica \<Rightarrow> Replica" where
  "mirrored cl drbdr llvs dmo agentReady pending rvr =
     snd (ensureStatusInitialQuorumReachedAt cl (snd (ensureStatusQuorum drbdr
       (snd (ensureStatusBackingVolume drbdr llvs (snd (ensureStatusPeers drbdr dmo
         (snd (ensureStatusAttachment drbdr agentReady pending (snd (ensureStatusReplicaSize drbdr
           (snd (ensureStatusAddressesAndType drbdr rvr)))))))))))))"

definition beforeReady :: "RvrClient \<Rightarrow> DRBDResource option \<Rightarrow> LLV list \<Rightarrow> Datamesh option \<Rightarrow> DatameshMember option \<Rightarrow> bool \<Rightarrow> bool \<Rightarrow> Replica \<Rightarrow> Replica" where
  "beforeReady cl drbdr llvs dmo member agentReady pending rvr =
     snd (ensureConditionBackingVolumeUpToDate cl drbdr member agentReady pending
       (snd (ensureConditionFullyConnected cl drbdr dmo agentReady
         (snd (ensureConditionAttached cl drbdr member agentReady pending (mirrored cl drbdr llvs dmo agentReady pending rvr))))))"

lemma beforeReady_frame:
  "kept rvr (beforeReady cl drbdr llvs dmo member agentReady pending rvr)"
  "drbdr \<noteq> None \<Longrightarrow> rvr_QuorumSummary (beforeReady cl drbdr llvs dmo member agentReady pending rvr) \<noteq> None"
  by (simp_all add: kept_def beforeReady_def mirrored_def ensureConditionAttached_def ensureConditionFullyConnected_def)

text \<open>The run of the helpers, seen from the Ready condition.\<close>

abbreviation toReady :: "RvrClient \<Rightarrow> RV option \<Rightarrow> DRBDResource option \<Rightarrow> LLV list \<Rightarrow> Replica \<Rightarrow> Replica" where
  "toReady cl rvOpt drbdr llvs rvr \<equiv> beforeReady cl drbdr llvs (map_option rv_Datamesh rvOpt)
     (memberOf (map_option rv_Datamesh rvOpt) rvr) (agentIsReady rvr) (configurationPending rvr) rvr"

abbreviation readyOf :: "RvrClient \<Rightarrow> RV option \<Rightarrow> DRBDResource option \<Rightarrow> LLV list \<Rightarrow> Replica \<Rightarrow> verdict option" where
  "readyOf cl rvOpt drbdr llvs rvr \<equiv> readyVerdict rvOpt drbdr (memberOf (map_option rv_Datamesh rvOpt) rvr)
     (agentIsReady rvr) (configurationPending rvr) (toReady cl rvOpt drbdr llvs rvr)"

lemma ensureReplicaStatus_unfold:
  "map_option snd (ensureReplicaStatus cl rvOpt view drbdr llvs rvr) =
    map_option (\<lambda>v. snd (ensureStatusPhaseAndMessage (snd (ensureStatusDatameshRequestAndConfiguredCond cl rvOpt view
      (snd (ensureConditionSatisfyEligibleNodes cl rvOpt view (snd (applyVerdict cl ''Ready'' v (toReady cl rvOpt drbdr llvs rvr)))))))))
      (readyOf cl rvOpt drbdr llvs rvr)"
  unfolding ensureReplicaStatus_def beforeReady_def mirrored_def ensureConditionReady_def
  by (simp add: Let_def case_prod_unfold option.map_comp comp_def split: option.splits)
    (auto simp: map_option_case Option.bind_def split: option.splits)

lemma expectsResource_kept: "kept rvr rvr' \<Longrightarrow> expectsResource rvOpt rvr' \<longleftrightarrow> expectsResource rvOpt rvr"
  by (auto simp: kept_def expectsResource_def rvrShouldNotExist_def)

lemma ensureReplicaStatus_defined:
  assumes "expectsResource rvOpt rvr \<Longrightarrow> drbdr \<noteq> None"
  shows "ensureReplicaStatus cl rvOpt view drbdr llvs rvr \<noteq> None"
proof -
  have "readyOf cl rvOpt drbdr llvs rvr \<noteq> None"
    using assms beforeReady_frame(2) by (intro readyVerdict_defined) (simp add: expectsResource_kept [OF beforeReady_frame(1)])
  then show ?thesis using ensureReplicaStatus_unfold [of cl rvOpt view drbdr llvs rvr] by force
qed

subsection \<open>Conditions\<close>

text \<open>The documented behaviour of \<open>meta.RemoveStatusCondition\<close> beside that of \<open>SetStatusCondition\<close>.\<close>

locale condition_store = condition_api setc for setc +
  fixes rmc :: metaRemove
  assumes rm_same: "rmc conds cty = (ch, conds') \<Longrightarrow> findCondition conds' cty = None"
    and rm_other: "rmc conds cty = (ch, conds') \<Longrightarrow> t \<noteq> cty \<Longrightarrow> findCondition conds' t = findCondition conds t"
    and rm_unchanged: "rmc conds cty = (False, conds') \<Longrightarrow> conds' = conds"
begin

lemma RemoveStatusCondition_spec:
  assumes "RemoveStatusCondition rmc conds cty = (ch, conds')"
  shows "findCondition conds' cty = None" "t \<noteq> cty \<Longrightarrow> findCondition conds' t = findCondition conds t"
proof -
  obtain cs where r: "rmc conds cty = (ch, cs)" "conds' = (if ch then cs else conds)"
    using assms by (auto simp: RemoveStatusCondition_def split: prod.splits)
  then have "conds' = cs" using rm_unchanged by (cases ch) auto
  with r show "findCondition conds' cty = None" "t \<noteq> cty \<Longrightarrow> findCondition conds' t = findCondition conds t"
    using rm_same rm_other by auto
qed

end

definition dropCondition :: metaRemove where
  "dropCondition conds cty = (list_ex (\<lambda>c. c_Type c = cty) conds, filter (\<lambda>c. c_Type c \<noteq> cty) conds)"

lemma find_drop: "findCondition (filter (\<lambda>c. c_Type c \<noteq> cty) conds) t = (if t = cty then None else findCondition conds t)"
  by (induction conds) (auto simp: findCondition_def)

interpretation cond_drop: condition_store upsertCondition dropCondition
  by unfold_locales (auto simp: dropCondition_def find_drop list_ex_iff filter_id_conv)

abbreviation conditionsStored :: "RvrClient \<Rightarrow> bool" where
  "conditionsStored cl \<equiv> condition_store (rc_SetStatusCondition cl) (rc_RemoveStatusCondition cl)"

text \<open>What a replica says of a condition.\<close>

definition says :: "Replica \<Rightarrow> string \<Rightarrow> verdict \<Rightarrow> bool" where
  "says rvr cty v = (case v of Absent \<Rightarrow> getCond rvr cty = None
     | Verdict status reason message \<Rightarrow> (\<exists>c. getCond rvr cty = Some c \<and> c_Status c = status \<and> c_Reason c = reason \<and> c_Message c = message))"

lemma setCond_spec:
  assumes "conditionsStored cl" "setCond cl cty status reason message rvr = (ch, rvr')"
  shows "says rvr' cty (Verdict status reason message)" "t \<noteq> cty \<Longrightarrow> getCond rvr' t = getCond rvr t"
proof -
  obtain conds where s: "SetStatusCondition (rc_SetStatusCondition cl) (rc_now cl) (rvr_Generation rvr) (rvr_Conditions rvr)
      (condOf cty status reason message) = (ch, conds)" "rvr' = rvr \<lparr> rvr_Conditions := conds \<rparr>"
    using assms(2) by (auto simp: setCond_def split: prod.splits)
  note spec = condition_api.SetStatusCondition_spec [OF condition_store.axioms(1) [OF assms(1)] s(1)]
  show "says rvr' cty (Verdict status reason message)"
    using spec(1) s(2) by (auto simp: says_def condOf_def condKey_def)
  show "t \<noteq> cty \<Longrightarrow> getCond rvr' t = getCond rvr t" using spec(2) [of t] s(2) by (simp add: condOf_def)
qed

lemma removeCond_spec:
  assumes "conditionsStored cl" "removeCond cl cty rvr = (ch, rvr')"
  shows "says rvr' cty Absent" "t \<noteq> cty \<Longrightarrow> getCond rvr' t = getCond rvr t"
proof -
  obtain conds where r: "RemoveStatusCondition (rc_RemoveStatusCondition cl) (rvr_Conditions rvr) cty = (ch, conds)"
      "rvr' = rvr \<lparr> rvr_Conditions := conds \<rparr>"
    using assms(2) by (auto simp: removeCond_def split: prod.splits)
  note spec = condition_store.RemoveStatusCondition_spec [OF assms(1) r(1)]
  show "says rvr' cty Absent" using spec(1) r(2) by (simp add: says_def)
  show "t \<noteq> cty \<Longrightarrow> getCond rvr' t = getCond rvr t" using spec(2) r(2) by simp
qed

lemma applyVerdict_spec:
  assumes "conditionsStored cl"
  shows "says (snd (applyVerdict cl cty v rvr)) cty v" "t \<noteq> cty \<Longrightarrow> getCond (snd (applyVerdict cl cty v rvr)) t = getCond rvr t"
  using setCond_spec [OF assms] removeCond_spec [OF assms]
  by (auto simp: applyVerdict_def okChanged_def split: verdict.splits prod.splits)

subsection \<open>The phase\<close>

lemma condIs_says:
  "says r cty (Verdict status reason message) \<Longrightarrow> condIs (getCond r cty) status' reason' \<longleftrightarrow> status' = status \<and> reason' = reason"
  by (auto simp: says_def condIs_def)

lemma maxSeverity_none: "maxSeverity sevs = severityNone \<Longrightarrow> s \<in> set sevs \<Longrightarrow> s = severityNone"
  by (cases s) (auto simp: maxSeverity_def split: if_splits)

lemma problem_listed:
  "condIs (getCond r ''Attached'') ConditionFalse ''AttachmentFailed'' \<Longrightarrow> (severityDegraded, ''Attachment failed'') \<in> set (memberProblems r bvReadyC drbdC)"
  "condIs (getCond r ''FullyConnected'') ConditionFalse ''NotConnected'' \<Longrightarrow> (severityDegraded, ''Not connected to any peer'') \<in> set (memberProblems r bvReadyC drbdC)"
  "condIs (getCond r ''FullyConnected'') ConditionFalse ''PartiallyConnected'' \<Longrightarrow> (severityPartiallyDegraded, ''Partially connected to peers'') \<in> set (memberProblems r bvReadyC drbdC)"
  "condIs (getCond r ''BackingVolumeUpToDate'') ConditionFalse ''Failed'' \<Longrightarrow> (severityDegraded, ''Disk failed'') \<in> set (memberProblems r bvReadyC drbdC)"
  "condIs (getCond r ''BackingVolumeUpToDate'') ConditionFalse ''RequiresSynchronization'' \<Longrightarrow> (severityPartiallyDegraded, ''Backing volume requires synchronization'') \<in> set (memberProblems r bvReadyC drbdC)"
  "condIs (getCond r ''BackingVolumeUpToDate'') ConditionFalse ''Unknown'' \<Longrightarrow> (severityPartiallyDegraded, ''Backing volume state unknown'') \<in> set (memberProblems r bvReadyC drbdC)"
  "condIs (getCond r ''BackingVolumeUpToDate'') ConditionFalse ''Absent'' \<Longrightarrow> (severityPartiallyDegraded, ''Backing volume absent'') \<in> set (memberProblems r bvReadyC drbdC)"
  by (simp_all add: memberProblems_def Let_def split del: if_split)

lemma no_problem:
  assumes "snd (computeMemberProblemsAndSeverity r bvReadyC drbdC) = severityNone"
  shows "\<not> condIs (getCond r ''Attached'') ConditionFalse ''AttachmentFailed''"
    "\<not> condIs (getCond r ''FullyConnected'') ConditionFalse ''NotConnected''"
    "\<not> condIs (getCond r ''FullyConnected'') ConditionFalse ''PartiallyConnected''"
    "reason \<in> {''Failed'', ''RequiresSynchronization'', ''Unknown'', ''Absent''}
      \<Longrightarrow> \<not> condIs (getCond r ''BackingVolumeUpToDate'') ConditionFalse reason"
proof -
  have none: "sev = severityNone" if "(sev, what) \<in> set (memberProblems r bvReadyC drbdC)" for sev what
  proof (rule maxSeverity_none)
    show "maxSeverity (map fst (memberProblems r bvReadyC drbdC)) = severityNone"
      using assms by (simp add: computeMemberProblemsAndSeverity_def Let_def)
    show "sev \<in> set (map fst (memberProblems r bvReadyC drbdC))" using that by force
  qed
  note absent = problem_listed [where r = r and bvReadyC = bvReadyC and drbdC = drbdC, THEN none]
  show "\<not> condIs (getCond r ''Attached'') ConditionFalse ''AttachmentFailed''"
    "\<not> condIs (getCond r ''FullyConnected'') ConditionFalse ''NotConnected''"
    "\<not> condIs (getCond r ''FullyConnected'') ConditionFalse ''PartiallyConnected''"
    using absent(1-3) by blast+
  show "\<not> condIs (getCond r ''BackingVolumeUpToDate'') ConditionFalse reason"
    if "reason \<in> {''Failed'', ''RequiresSynchronization'', ''Unknown'', ''Absent''}"
    using that absent(4-7) by blast
qed

text \<open>What the conditions of a healthy replica exclude.\<close>

lemma healthy_phase:
  assumes "fst (computeRVRPhaseAndMessage r) = ''Healthy''"
  shows "rvr_DatameshRevision r > 0" "\<exists>c. getCond r ''Ready'' = Some c \<and> c_Status c = ConditionTrue"
    "\<not> condIs (getCond r ''Attached'') ConditionFalse ''AttachmentFailed''"
    "\<not> condIs (getCond r ''Attached'') ConditionFalse ''IOSuspended''"
    "\<not> condIs (getCond r ''FullyConnected'') ConditionFalse ''NotConnected''"
    "\<not> condIs (getCond r ''FullyConnected'') ConditionFalse ''PartiallyConnected''"
    "reason \<in> {''Failed'', ''RequiresSynchronization'', ''Unknown'', ''Absent'', ''Synchronizing''}
      \<Longrightarrow> \<not> condIs (getCond r ''BackingVolumeUpToDate'') ConditionFalse reason"
proof -
  let ?bv = "getCond r ''BackingVolumeReady''" and ?drbd = "getCond r ''DRBDConfigured''"
  have m: "rvr_DatameshRevision r > 0"
    "fst (computeMemberPhaseAndMessage r (getCond r ''Ready'') (getCond r ''BackingVolumeUpToDate'') ?bv ?drbd) = ''Healthy''"
    using assms by (auto simp: computeRVRPhaseAndMessage_def computeNormalPhaseAndMessage_def preMemberPhase_def Let_def
        split: if_splits prod.splits)
  then have h: "fst (healthPhase r (getCond r ''Ready'') ?bv ?drbd) = ''Healthy''"
      "\<not> condIs (getCond r ''Attached'') ConditionFalse ''IOSuspended''"
      "\<not> condIs (getCond r ''BackingVolumeUpToDate'') ConditionFalse ''Synchronizing''"
    by (auto simp: computeMemberPhaseAndMessage_def Let_def split: if_splits)
  then have ready: "\<exists>c. getCond r ''Ready'' = Some c \<and> c_Status c = ConditionTrue"
    and sev: "snd (computeMemberProblemsAndSeverity r ?bv ?drbd) = severityNone"
    by (auto simp: healthPhase_def Let_def split: if_splits prod.splits option.splits memberProblemSeverity.splits)
  note np = no_problem [OF sev]
  show "rvr_DatameshRevision r > 0" "\<exists>c. getCond r ''Ready'' = Some c \<and> c_Status c = ConditionTrue"
    "\<not> condIs (getCond r ''Attached'') ConditionFalse ''AttachmentFailed''"
    "\<not> condIs (getCond r ''Attached'') ConditionFalse ''IOSuspended''"
    "\<not> condIs (getCond r ''FullyConnected'') ConditionFalse ''NotConnected''"
    "\<not> condIs (getCond r ''FullyConnected'') ConditionFalse ''PartiallyConnected''"
    using m ready np h by auto
  show "reason \<in> {''Failed'', ''RequiresSynchronization'', ''Unknown'', ''Absent'', ''Synchronizing''}
      \<Longrightarrow> \<not> condIs (getCond r ''BackingVolumeUpToDate'') ConditionFalse reason"
    using np(4) h(3) by auto
qed

subsection \<open>What a verdict tells\<close>

lemma readyVerdict_true:
  assumes "readyVerdict rvOpt drbdr member agentReady pending rvr = Some (Verdict ConditionTrue reason message)"
  shows "\<exists>d rv m. drbdr = Some d \<and> rvOpt = Some rv \<and> member = Some m \<and> agentReady \<and> \<not> pending \<and> dr_Quorum d = Some True"
  using assms
  by (auto simp: readyVerdict_def quorumVerdict_def Let_def split: if_splits option.splits elim!: bindE)

lemma diskReport_reason: "fst (diskReport io ps state) \<in> {''Failed'', ''RequiresSynchronization'', ''Unknown'', ''Absent'', ''Synchronizing''}"
  by (simp add: diskReport_def inconsistentReport_def Let_def split: option.splits)

lemma upToDateVerdict_cases:
  assumes "upToDateVerdict (Some d) (Some m) True False rvr = Inr v" "NeedsBackingVolume (m_Type m)"
  shows "dr_DiskState d = DiskStateUpToDate
    \<or> (\<exists>reason message. v = Verdict ConditionFalse reason message
        \<and> reason \<in> {''Failed'', ''RequiresSynchronization'', ''Unknown'', ''Absent'', ''Synchronizing''})"
  using assms diskReport_reason [of _ "rvr_Peers rvr" "dr_DiskState d"]
  by (auto simp: upToDateVerdict_def computeIntendedType_def Let_def split: if_splits option.splits prod.splits; (metis fst_conv))

lemma connectionVerdict_Verdict: "\<exists>status reason message. connectionVerdict member addresses ps = Verdict status reason message"
  by (simp add: connectionVerdict_def Let_def)

lemma all_connected:
  assumes "connectionVerdict True addresses ps = Verdict status reason message"
    "\<not> (status = ConditionFalse \<and> (reason = ''NotConnected'' \<or> reason = ''PartiallyConnected''))" "p \<in> set ps"
  shows "isConnected p"
proof -
  have le: "length (filter (allPathsEstablished addresses) (filter isConnected ps)) \<le> length (filter isConnected ps)" by (rule length_filter_le)
  have "length (filter (allPathsEstablished addresses) (filter isConnected ps)) = length ps
      \<or> length (filter (\<lambda>p. \<not> isConnected p) ps) = 0"
    using assms(1,2) by (auto simp: connectionVerdict_def Let_def split: if_splits)
  then have "length (filter isConnected ps) = length ps \<or> filter (\<lambda>p. \<not> isConnected p) ps = []"
    using le length_filter_le [of isConnected ps] by (metis le_antisym length_0_conv)
  then show ?thesis using assms(3) by (auto simp: filter_empty_conv) (metis filter_id_conv length_filter_less less_irrefl)
qed

end
