(* ===== verification/Rvr_Props.thy ===== *)
theory Rvr_Props
  imports Rvr_Laws Datamesh_Examples
begin

text \<open>
  What the replica controller guarantees: when a backing volume is deleted, when a replica reports a
  datamesh revision, that the status helpers never meet a missing DRBD resource, that the two ends of a
  DRBD connection agree, what a healthy replica stands for, and how the checks of eligible storage relate;
  together with the situations in which the controller goes wrong.
\<close>

subsection \<open>The conditions of the final replica\<close>

lemma request_frame:
  assumes "conditionsStored cl" "t \<noteq> ''Configured''"
  shows "getCond (snd (ensureStatusDatameshRequestAndConfiguredCond cl rvOpt view rvr)) t = getCond rvr t"
    "rvr_DatameshRevision (snd (ensureStatusDatameshRequestAndConfiguredCond cl rvOpt view rvr)) = rvr_DatameshRevision rvr"
    "rvr_Peers (snd (ensureStatusDatameshRequestAndConfiguredCond cl rvOpt view rvr)) = rvr_Peers rvr"
    "rvr_InitialQuorumReachedAt (snd (ensureStatusDatameshRequestAndConfiguredCond cl rvOpt view rvr)) = rvr_InitialQuorumReachedAt rvr"
proof -
  obtain target reason message where c: "computeTargetDatameshRequest rvr rvOpt view = (target, reason, message)"
    by (cases "computeTargetDatameshRequest rvr rvOpt view")
  obtain ch1 rvr1 where a: "applyDatameshRequest target rvr = (ch1, rvr1)" by (cases "applyDatameshRequest target rvr")
  have f: "getCond rvr1 t = getCond rvr t" "rvr_DatameshRevision rvr1 = rvr_DatameshRevision rvr" "rvr_Peers rvr1 = rvr_Peers rvr"
    "rvr_InitialQuorumReachedAt rvr1 = rvr_InitialQuorumReachedAt rvr"
    using a by (auto simp: applyDatameshRequest_def split: if_splits)
  define message' where "message' = (if target \<noteq> None then queueMessage rvOpt (rvr_Name rvr) message else message)"
  define status where "status = (if reason = ''Configured'' then ConditionTrue else if reason = waitingForRV then ConditionUnknown else ConditionFalse)"
  obtain ch2 rvr2 where b: "(if reason = [] then removeCond cl ''Configured'' rvr1
      else setCond cl ''Configured'' status reason message' rvr1) = (ch2, rvr2)" (is "?x = _") by (cases ?x)
  have res: "snd (ensureStatusDatameshRequestAndConfiguredCond cl rvOpt view rvr) = rvr2"
    using b by (auto simp: ensureStatusDatameshRequestAndConfiguredCond_def c a okChanged_def Let_def message'_def status_def split: if_splits)
  have "getCond rvr2 t = getCond rvr1 t" "\<exists>conds. rvr2 = rvr1 \<lparr> rvr_Conditions := conds \<rparr>"
    using b setCond_spec(2) [OF assms(1) _ assms(2)] removeCond_spec(2) [OF assms(1) _ assms(2)] setCond_fields removeCond_fields
    by (auto split: if_splits)
  with f show "getCond (snd (ensureStatusDatameshRequestAndConfiguredCond cl rvOpt view rvr)) t = getCond rvr t"
    "rvr_DatameshRevision (snd (ensureStatusDatameshRequestAndConfiguredCond cl rvOpt view rvr)) = rvr_DatameshRevision rvr"
    "rvr_Peers (snd (ensureStatusDatameshRequestAndConfiguredCond cl rvOpt view rvr)) = rvr_Peers rvr"
    "rvr_InitialQuorumReachedAt (snd (ensureStatusDatameshRequestAndConfiguredCond cl rvOpt view rvr)) = rvr_InitialQuorumReachedAt rvr"
    unfolding res by auto
qed

lemma says_cong: "getCond r cty = getCond r' cty \<Longrightarrow> says r' cty v \<Longrightarrow> says r cty v"
  by (auto simp: says_def split: verdict.splits)

lemma ensureReplicaStatus_errors:
  assumes "ensureReplicaStatus cl rvOpt view drbdr llvs rvr = Some (eo, r)" "e_err eo = None"
  shows "\<exists>v. upToDateVerdict drbdr (memberOf (map_option rv_Datamesh rvOpt) rvr) (agentIsReady rvr) (configurationPending rvr)
    (snd (ensureConditionFullyConnected cl drbdr (map_option rv_Datamesh rvOpt) (agentIsReady rvr)
      (snd (ensureConditionAttached cl drbdr (memberOf (map_option rv_Datamesh rvOpt) rvr) (agentIsReady rvr) (configurationPending rvr)
        (mirrored cl drbdr llvs (map_option rv_Datamesh rvOpt) (agentIsReady rvr) (configurationPending rvr) rvr))))) = Inr v"
  using assms unfolding ensureReplicaStatus_def mirrored_def
  by (auto simp: Let_def case_prod_unfold ensureConditionBackingVolumeUpToDate_def ef_Err_def Ensure_fields
      split: sum.splits elim!: bindE)

text \<open>The final replica in terms of the verdicts.\<close>

lemma final_conditions:
  assumes cl: "conditionsStored cl" and run: "ensureReplicaStatus cl rvOpt view drbdr llvs rvr = Some (eo, r)" and ok: "e_err eo = None"
  defines "dmo \<equiv> map_option rv_Datamesh rvOpt" and "member \<equiv> memberOf (map_option rv_Datamesh rvOpt) rvr"
    and "aR \<equiv> agentIsReady rvr" and "pend \<equiv> configurationPending rvr"
  shows "\<exists>r13 v uv r8 r9. readyOf cl rvOpt drbdr llvs rvr = Some v \<and> rvr_Phase r = fst (computeRVRPhaseAndMessage r13)
    \<and> says r13 ''Ready'' v \<and> upToDateVerdict drbdr member aR pend r9 = Inr uv \<and> says r13 ''BackingVolumeUpToDate'' uv
    \<and> says r13 ''FullyConnected'' (fullyConnectedVerdict drbdr dmo aR r8) \<and> says r13 ''Attached'' (attachedVerdict drbdr member aR pend)
    \<and> rvr_Name r8 = rvr_Name rvr \<and> rvr_Peers r = rvr_Peers r8 \<and> rvr_Addresses r8 = (case drbdr of None \<Rightarrow> [] | Some d \<Rightarrow> dr_Addresses d)
    \<and> rvr_DatameshRevision r13 = rvr_DatameshRevision rvr
    \<and> rvr_InitialQuorumReachedAt r = rvr_InitialQuorumReachedAt (mirrored cl drbdr llvs dmo aR pend rvr)"
proof -
  define r7 where "r7 = mirrored cl drbdr llvs dmo aR pend rvr"
  define r8 where "r8 = snd (ensureConditionAttached cl drbdr member aR pend r7)"
  define r9 where "r9 = snd (ensureConditionFullyConnected cl drbdr dmo aR r8)"
  define r10 where "r10 = snd (ensureConditionBackingVolumeUpToDate cl drbdr member aR pend r9)"
  have tr: "toReady cl rvOpt drbdr llvs rvr = r10"
    by (simp add: beforeReady_def r10_def r9_def r8_def r7_def dmo_def member_def aR_def pend_def)
  obtain uv where uv: "upToDateVerdict drbdr member aR pend r9 = Inr uv"
    using ensureReplicaStatus_errors [OF run ok]
    by (auto simp: r9_def r8_def r7_def dmo_def member_def aR_def pend_def)
  have r10: "r10 = snd (applyVerdict cl ''BackingVolumeUpToDate'' uv r9)"
    by (simp add: r10_def ensureConditionBackingVolumeUpToDate_def uv)
  note unf = ensureReplicaStatus_unfold [of cl rvOpt view drbdr llvs rvr, unfolded run tr]
  then obtain v where v: "readyOf cl rvOpt drbdr llvs rvr = Some v" using tr by (auto simp: map_option_case split: option.splits)
  define r11 where "r11 = snd (applyVerdict cl ''Ready'' v r10)"
  define r12 where "r12 = snd (ensureConditionSatisfyEligibleNodes cl rvOpt view r11)"
  define r13 where "r13 = snd (ensureStatusDatameshRequestAndConfiguredCond cl rvOpt view r12)"
  have r: "r = snd (ensureStatusPhaseAndMessage r13)" using unf v tr by (simp add: r13_def r12_def r11_def)
  have c12: "getCond r12 t = getCond r11 t" if "t \<noteq> ''SatisfyEligibleNodes''" for t
    using applyVerdict_spec(2) [OF cl that] by (simp add: r12_def ensureConditionSatisfyEligibleNodes_def)
  have c13: "getCond r13 t = getCond r11 t" if "t \<noteq> ''SatisfyEligibleNodes''" "t \<noteq> ''Configured''" for t
    using request_frame(1) [OF cl that(2)] c12 [OF that(1)] by (simp add: r13_def)
  have c11: "getCond r11 t = getCond r10 t" if "t \<noteq> ''Ready''" for t
    using applyVerdict_spec(2) [OF cl that] by (simp add: r11_def)
  have c10: "getCond r10 t = getCond r9 t" if "t \<noteq> ''BackingVolumeUpToDate''" for t
    using applyVerdict_spec(2) [OF cl that] by (simp add: r10)
  have c9: "getCond r9 t = getCond r8 t" if "t \<noteq> ''FullyConnected''" for t
    using applyVerdict_spec(2) [OF cl that] by (simp add: r9_def ensureConditionFullyConnected_def)
  have keep: "getCond r13 ''Ready'' = getCond r11 ''Ready''" "getCond r13 ''BackingVolumeUpToDate'' = getCond r10 ''BackingVolumeUpToDate''"
    "getCond r13 ''FullyConnected'' = getCond r9 ''FullyConnected''" "getCond r13 ''Attached'' = getCond r8 ''Attached''"
    by (simp_all add: c13 c11 c10 c9)
  have says: "says r13 ''Ready'' v" "says r13 ''BackingVolumeUpToDate'' uv" "says r13 ''FullyConnected'' (fullyConnectedVerdict drbdr dmo aR r8)"
    "says r13 ''Attached'' (attachedVerdict drbdr member aR pend)"
    unfolding atomize_conj
    using says_cong [OF keep(1)] says_cong [OF keep(2)] says_cong [OF keep(3)] says_cong [OF keep(4)] applyVerdict_spec(1) [OF cl]
    by (simp add: r11_def r10 r9_def r8_def ensureConditionFullyConnected_def ensureConditionAttached_def)
  have fields: "rvr_Phase r = fst (computeRVRPhaseAndMessage r13)" "rvr_Name r8 = rvr_Name rvr" "rvr_Peers r = rvr_Peers r8"
    "rvr_Addresses r8 = (case drbdr of None \<Rightarrow> [] | Some d \<Rightarrow> dr_Addresses d)" "rvr_DatameshRevision r13 = rvr_DatameshRevision rvr"
    "rvr_InitialQuorumReachedAt r = rvr_InitialQuorumReachedAt r7"
    using request_frame(2-4) [OF cl, of "''Ready''"]
    by (simp_all add: r ensureStatusPhaseAndMessage_def okChanged_def r13_def r12_def r11_def r10 r9_def r8_def r7_def mirrored_def
        ensureConditionAttached_def ensureConditionFullyConnected_def ensureConditionSatisfyEligibleNodes_def split: prod.splits)
  show ?thesis using v uv says fields unfolding r7_def by blast
qed

subsection \<open>Peers\<close>

lemma those_map_set: "those (map f xs) = Some ys \<Longrightarrow> y \<in> set ys \<longleftrightarrow> (\<exists>x \<in> set xs. f x = Some y)"
  by (induction xs arbitrary: ys) (auto split: option.splits)

lemma peers_set:
  assumes "computeTargetDRBDRPeers dm self = Some ps" "self \<in> set (ds_Members dm)"
  shows "p \<in> set ps \<longleftrightarrow> (\<exists>m \<in> set (ds_Members dm). isPeerOf self m \<and> drbdPeer dm m = Some p)"
proof (cases "length (ds_Members dm) \<le> 1")
  case True
  then have "ds_Members dm = [self]" using assms(2) by (cases "ds_Members dm") auto
  then show ?thesis using assms(1) by (simp add: computeTargetDRBDRPeers_def isPeerOf_def)
next
  case False
  then obtain qs where "those (map (drbdPeer dm) (filter (isPeerOf self) (ds_Members dm))) = Some qs" "ps = sort_key dp_Name qs"
    using assms(1) by (auto simp: computeTargetDRBDRPeers_def)
  with those_map_set [OF this(1), of p] show ?thesis by auto
qed

lemma peers_defined:
  assumes "computeTargetDRBDRPeers dm self = Some ps" "self \<in> set (ds_Members dm)" "m \<in> set (ds_Members dm)" "isPeerOf self m"
  shows "\<exists>p. drbdPeer dm m = Some p"
proof -
  have all: "those (map f xs) = Some ys \<Longrightarrow> x \<in> set xs \<Longrightarrow> \<exists>y. f x = Some y" for f xs ys x
    by (induction xs arbitrary: ys) (auto split: option.splits)
  have "length (ds_Members dm) > 1"
    using assms(2-4) by (cases "ds_Members dm") (auto simp: isPeerOf_def length_pos_if_in_set)
  with assms(1) obtain qs where "those (map (drbdPeer dm) (filter (isPeerOf self) (ds_Members dm))) = Some qs"
    by (auto simp: computeTargetDRBDRPeers_def)
  from all [OF this] assms(3,4) show ?thesis by simp
qed

lemma drbdPeer_fields:
  assumes "drbdPeer dm m = Some p"
  shows "dp_Name p = m_Name m" "dp_Protocol p = ''C''" "dp_SharedSecret p = ds_SharedSecret dm" "dp_SharedSecretAlg p = ds_SharedSecretAlg dm"
    "dp_Paths p = m_Addresses m" "idFromName (m_Name m) = Some (dp_NodeID p)"
  using assms by (auto simp: drbdPeer_def elim!: bindE)

lemma isPeerOf_sym: "isPeerOf a b \<longleftrightarrow> isPeerOf b a"
  by (auto simp: isPeerOf_def)

lemma peer_entry:
  assumes "computeTargetDRBDRPeers dm a = Some pa" "a \<in> set (ds_Members dm)" "b \<in> set (ds_Members dm)"
    "distinct (map m_Name (ds_Members dm))" "p \<in> set pa" "dp_Name p = m_Name b"
  shows "isPeerOf a b \<and> drbdPeer dm b = Some p"
proof -
  from peers_set [OF assms(1,2), of p] assms(5) obtain m where m: "m \<in> set (ds_Members dm)" "isPeerOf a m" "drbdPeer dm m = Some p"
    by auto
  have "m = b" using drbdPeer_fields(1) [OF m(3)] assms(3,4,6) m(1) by (auto simp: distinct_map dest: inj_onD)
  with m show ?thesis by simp
qed

lemma peer_name_iff:
  assumes "computeTargetDRBDRPeers dm a = Some pa" "a \<in> set (ds_Members dm)" "b \<in> set (ds_Members dm)"
    "distinct (map m_Name (ds_Members dm))"
  shows "m_Name b \<in> dp_Name ` set pa \<longleftrightarrow> isPeerOf a b"
proof
  assume "m_Name b \<in> dp_Name ` set pa"
  then obtain p where "p \<in> set pa" "dp_Name p = m_Name b" by auto
  from peer_entry [OF assms(1-4) this] show "isPeerOf a b" by simp
next
  assume "isPeerOf a b"
  moreover from peers_defined [OF assms(1-3) this] obtain p where "drbdPeer dm b = Some p" by auto
  ultimately have "p \<in> set pa" "dp_Name p = m_Name b"
    using peers_set [OF assms(1,2), of p] assms(3) drbdPeer_fields(1) by blast+
  then show "m_Name b \<in> dp_Name ` set pa" by force
qed

text \<open>C16: the DRBD configurations of two members agree on the connection between them. In a datamesh with distinct member
  names whose peers can be computed for two members, either both list the other as a peer or neither does, and they do as
  soon as one of them is of a type that connects to every member. When they do, the two entries have the same protocol,
  secret and algorithm, and each has the addresses and the node ID of the member it names.\<close>

theorem drbd_connections_symmetric:
  assumes "a \<in> set (ds_Members dm)" "b \<in> set (ds_Members dm)" "distinct (map m_Name (ds_Members dm))"
    "computeTargetDRBDRPeers dm a = Some pa" "computeTargetDRBDRPeers dm b = Some pb"
  shows "(m_Name b \<in> dp_Name ` set pa \<longleftrightarrow> m_Name a \<in> dp_Name ` set pb)
    \<and> (m_Name a \<noteq> m_Name b \<and> (ConnectsToAllPeers (m_Type a) \<or> ConnectsToAllPeers (m_Type b)) \<longrightarrow> m_Name b \<in> dp_Name ` set pa)
    \<and> (\<forall>p \<in> set pa. \<forall>q \<in> set pb. dp_Name p = m_Name b \<and> dp_Name q = m_Name a \<longrightarrow>
         dp_Protocol p = dp_Protocol q \<and> dp_SharedSecret p = dp_SharedSecret q \<and> dp_SharedSecretAlg p = dp_SharedSecretAlg q
         \<and> dp_Paths p = m_Addresses b \<and> dp_Paths q = m_Addresses a
         \<and> idFromName (m_Name b) = Some (dp_NodeID p) \<and> idFromName (m_Name a) = Some (dp_NodeID q))"
proof (intro conjI ballI impI)
  note peer = peer_name_iff [OF assms(4,1,2,3)] peer_name_iff [OF assms(5,2,1,3)]
  show "m_Name b \<in> dp_Name ` set pa \<longleftrightarrow> m_Name a \<in> dp_Name ` set pb" using peer isPeerOf_sym by simp
  show "m_Name b \<in> dp_Name ` set pa"
    if "m_Name a \<noteq> m_Name b \<and> (ConnectsToAllPeers (m_Type a) \<or> ConnectsToAllPeers (m_Type b))"
    using that peer(1) by (auto simp: isPeerOf_def)
  fix p q
  assume pq: "p \<in> set pa" "q \<in> set pb" "dp_Name p = m_Name b \<and> dp_Name q = m_Name a"
  note ends = peer_entry [OF assms(4,1,2,3) pq(1)] peer_entry [OF assms(5,2,1,3) pq(2)]
  show "dp_Protocol p = dp_Protocol q" "dp_SharedSecret p = dp_SharedSecret q" "dp_SharedSecretAlg p = dp_SharedSecretAlg q"
    "dp_Paths p = m_Addresses b" "dp_Paths q = m_Addresses a"
    "idFromName (m_Name b) = Some (dp_NodeID p)" "idFromName (m_Name a) = Some (dp_NodeID q)"
    using ends pq(3) drbdPeer_fields by metis+
qed

subsection \<open>Storage checks\<close>

text \<open>The eligible volume groups of a node as the pool's validation has them: thin pools exactly for LVMThin.\<close>

definition poolGroupsValid :: "PoolType \<Rightarrow> EligibleNode \<Rightarrow> bool" where
  "poolGroupsValid ty node \<longleftrightarrow> (case ty of
     PoolTypeLVM \<Rightarrow> list_all (\<lambda>l. lvg_ThinPoolName l = []) (en_LVMVolumeGroups node)
   | PoolTypeLVMThin \<Rightarrow> list_all (\<lambda>l. lvg_ThinPoolName l \<noteq> []) (en_LVMVolumeGroups node)
   | PoolType_Other _ \<Rightarrow> True)"

lemma find_by_name_and_pool:
  assumes "distinct (map lvg_Name ls)"
  shows "find (\<lambda>l. lvg_Name l = n \<and> lvg_ThinPoolName l = tp) ls =
    (case find (\<lambda>l. lvg_Name l = n) ls of None \<Rightarrow> None | Some l \<Rightarrow> if lvg_ThinPoolName l = tp then Some l else None)"
proof -
  have absent: "find (\<lambda>l. lvg_Name l = k \<and> lvg_ThinPoolName l = tp) xs = None" "find (\<lambda>l. lvg_Name l = k) xs = None"
    if "k \<notin> lvg_Name ` set xs" for k xs
    using that by (auto simp: find_None_iff)
  show ?thesis using assms by (induction ls) (auto simp: absent)
qed

text \<open>C29: on a node that lists every volume group once, the check that decides whether a replica may get a volume and join
  (\<open>isStorageEligible\<close>) and the check behind the SatisfyEligibleNodes condition accept the same volume groups and thin
  pools.\<close>

theorem storage_checks_agree:
  assumes "distinct (map lvg_Name (en_LVMVolumeGroups node))" "poolGroupsValid ty node"
  shows "fst (isStorageEligible (Some \<lparr> ev_EligibleNode = Some node, ev_Type = ty \<rparr>) lvg thinPool) = storageEligibilityOK
    \<longleftrightarrow> findLVGInEligibleNode node lvg thinPool \<noteq> None"
proof -
  have "lvg_ThinPoolName l = [] \<longleftrightarrow> ty = PoolTypeLVM" if "find (\<lambda>l. lvg_Name l = lvg) (en_LVMVolumeGroups node) = Some l"
      "ty = PoolTypeLVM \<or> ty = PoolTypeLVMThin" for l
    using that assms(2) by (auto simp: poolGroupsValid_def list_all_iff find_Some_iff)
  then show ?thesis
    unfolding isStorageEligible_def findLVGInEligibleNode_def find_by_name_and_pool [OF assms(1)]
    by (cases ty) (auto split: option.splits)
qed

text \<open>A node with two thin pools of one volume group.\<close>

definition exThinNode :: EligibleNode where
  "exThinNode = \<lparr> en_NodeName = ''n1'', en_ZoneName = [], en_Unschedulable = False, en_NodeReady = True, en_AgentReady = True,
     en_LVMVolumeGroups =
       [\<lparr> lvg_Name = ''vg'', lvg_ThinPoolName = ''fast'', lvg_Unschedulable = False, lvg_Ready = True \<rparr>,
        \<lparr> lvg_Name = ''vg'', lvg_ThinPoolName = ''slow'', lvg_Unschedulable = False, lvg_Ready = True \<rparr>] \<rparr>"

text \<open>There the second pool satisfies the eligible nodes and is refused at the same time: the replica never gets a volume.\<close>

lemma thin_pools_of_one_group_disagree:
  "fst (isStorageEligible (Some \<lparr> ev_EligibleNode = Some exThinNode, ev_Type = PoolTypeLVMThin \<rparr>) ''vg'' ''slow'')
     = storageEligibilityThinPoolNotEligible
   \<and> findLVGInEligibleNode exThinNode ''vg'' ''slow'' \<noteq> None"
  by code_simp

subsection \<open>A small replica\<close>

text \<open>A client that accepts everything, a datamesh with one diskful member on volume group \<open>vg\<close>, its replica, its DRBD resource
  as the agent left it, and its logical volume in a given phase.\<close>

definition exRvrClient :: RvrClient where
  "exRvrClient = \<lparr> rc_CreateLLV = Inr, rc_PatchLLV = (\<lambda>obj _. Inr obj), rc_DeleteLLV = (\<lambda>_. None), rc_CreateDRBDR = Inr,
     rc_PatchDRBDR = (\<lambda>obj _. Inr obj), rc_DeleteDRBDR = (\<lambda>_. None), rc_PatchRVR = (\<lambda>obj _. Inr obj),
     rc_PatchRVRStatus = (\<lambda>obj _. Inr obj), rc_SetControllerReference = (\<lambda>_ owner. Inr (Some owner)),
     rc_SetStatusCondition = (\<lambda>conds c. (True, setFirst conds c)), rc_RemoveStatusCondition = dropCondition,
     rc_IsInvalid = (\<lambda>_. False), rc_Causes = (\<lambda>_. []), rc_QuantityString = (\<lambda>q. itoa (uint q)),
     rc_AgentPods = (\<lambda>_. Inr [[(''Ready'', ConditionTrue)]]), rc_NodeReady = (\<lambda>_. Inr (Some ConditionTrue)), rc_now = 9 \<rparr>"

definition exDiskMember :: DatameshMember where
  "exDiskMember = (exMember 0 MT_Diskful) \<lparr> m_LVMVolumeGroupName := ''vg'' \<rparr>"

definition exDiskRV :: RV where
  "exDiskRV = (exRV 1 1 [exDiskMember] [] []) \<lparr> rv_Datamesh := (exDatamesh 1 1 [exDiskMember]) \<lparr> ds_SystemNetworkNames := [''Internal''] \<rparr> \<rparr>"

definition exDisk :: Replica where
  "exDisk = RVR.extend (emptyRVR \<lparr> rvr_Name := exName 0, rvr_NodeName := ''node-0'', rvr_ReplicatedVolumeName := ''vol'',
       rvr_Type := RT_Diskful, rvr_LVMVolumeGroupName := ''vg'', rvr_Finalizers := [RVRControllerFinalizer] \<rparr>)
     (Replica.fields ''uid'' [] DRBDTypeNone None None [] [] \<lparr> rc_DatameshRevision = 0, rc_DRBDRGeneration = 0, rc_TargetType = MT_Access \<rparr>)"

definition exLLV :: "string \<Rightarrow> string \<Rightarrow> string \<Rightarrow> LLV" where
  "exLLV name lvg phase = \<lparr> llv_Name = name, llv_Deleting = False, llv_Finalizers = [RVRControllerFinalizer],
     llv_Labels = [(ReplicatedVolumeLabelKey, ''vol'')], llv_Controller = Some ''uid'', llv_ActualLVNameOnTheNode = name,
     llv_LVMVolumeGroupName = lvg, llv_Size = [], llv_Type = ''Thick'', llv_Thin = None,
     llv_Status = Some \<lparr> ls_Phase = phase, ls_ActualSize = 4194304 \<rparr> \<rparr>"

definition exResource :: DRBDResource where
  "exResource = \<lparr> dr_Name = exName 0, dr_Generation = 3, dr_Deleting = False, dr_Finalizers = [RVRControllerFinalizer],
     dr_Labels = [(ReplicatedVolumeLabelKey, ''vol'')], dr_Controller = Some ''uid'',
     dr_Spec = emptySpec \<lparr> drs_NodeName := ''node-0'', drs_State := ''Up'', drs_SystemNetworks := [''Internal''], drs_Quorum := 1,
       drs_QuorumMinimumRedundancy := 1, drs_Role := RoleSecondary, drs_Size := Some 4096, drs_Type := DRBDDiskful,
       drs_LVMLogicalVolumeName := ''llv-old'' \<rparr>,
     dr_Device = [], dr_DeviceIOSuspended = None, dr_DeviceOpen = None, dr_Size = Some 4096,
     dr_Addresses = [\<lparr> SystemNetworkName = ''Internal'', Address = \<lparr> IPv4 = ''10.0.0.1'', Port = 7000 \<rparr> \<rparr>],
     dr_ActiveConfiguration = Some \<lparr> da_Quorum = Some 1, da_QuorumMinimumRedundancy = Some 1, da_Role = RoleSecondary, da_Type = DRBDDiskful,
       da_LVMLogicalVolumeName = ''llv-old'' \<rparr>,
     dr_Peers = [], dr_DiskState = DiskStateUpToDate, dr_Quorum = Some True,
     dr_Conditions = [(condOf ''Configured'' ConditionTrue ''Configured'' ''ok'') \<lparr> c_ObservedGeneration := 3 \<rparr>] \<rparr>"

text \<open>The volume is larger than asked for, as logical volumes grow by whole extents.\<close>

definition exDiskState :: "string \<Rightarrow> replicaState" where
  "exDiskState phase = \<lparr> rs_rvr = Some exDisk, rs_llvs = [exLLV ''llv-old'' ''vg'' phase], rs_drbdr = Some exResource, rs_calls = [] \<rparr>"


interpretation cond_write: condition_store "\<lambda>conds c. (True, setFirst conds c)" dropCondition
  by unfold_locales (auto simp: dropCondition_def find_drop list_ex_iff filter_id_conv find_setFirst condKey_def split: option.splits if_splits)

lemma exRvrClient_api: "conditionsStored exRvrClient" "patchKeepsName exRvrClient"
  by (simp_all add: exRvrClient_def patchKeepsName_def cond_write.condition_store_axioms)

text \<open>The definitions a run of the helpers and of the children unfolds, and the objects of the example.\<close>

lemmas status_run = ensureReplicaStatus_def agentIsReady_def configurationPending_def memberOf_def findCondition_def FindMemberByName_def
  ensureStatusAddressesAndType_def okChanged_def ensureStatusReplicaSize_def ensureStatusAttachment_def isPrimary_def applyRVRAttachment_def
  ensureStatusPeers_def ensureStatusBackingVolume_def activeLLVName_def findLLVByName_def applyBackingVolume_def ensureStatusQuorum_def
  quorumSummaryOf_def ensureStatusInitialQuorumReachedAt_def ensureConditionAttached_def attachedVerdict_def applyVerdict_def removeCond_def
  RemoveStatusCondition_def dropCondition_def setCond_def SetStatusCondition_def ensureConditionFullyConnected_def fullyConnectedVerdict_def
  ensureConditionBackingVolumeUpToDate_def upToDateVerdict_def computeIntendedType_def ensureConditionReady_def readyVerdict_def
  rvrShouldNotExist_def quorumVerdict_def ensureConditionSatisfyEligibleNodes_def eligibleNodesVerdict_def
  ensureStatusDatameshRequestAndConfiguredCond_def computeTargetDatameshRequest_def requestBlocked_def applyDatameshRequest_def
  ensureStatusPhaseAndMessage_def computeRVRPhaseAndMessage_def computeNormalPhaseAndMessage_def computeMemberPhaseAndMessage_def condIs_def
  healthPhase_def computeMemberProblemsAndSeverity_def memberProblems_def maxSeverity_def computeMemberProgress_def
  MergeEnsures_def ef_Ok_def ensure_ReportChangedIf_def errors_Join_def

lemmas children_run = reconcileBackingVolume_def rvrShouldNotExist_def computeActualBackingVolume_def findLLVByName_def
  computeIntendedBackingVolume_def intendedPlace_def FindMemberByName_def useVolume_def ensureVolumeMetadata_def isLLVMetadataInSync_def
  HasFinalizer_def HasControllerRef_def labelsInSync_def HasLabelValue_def HasLabel_def isLLVReady_def notReadyReport_def volumeReady_def
  reconcileLLVsDeletion_def releaseLLV_def deleteLLV_def RemoveFinalizer_def report_def setCond_def SetStatusCondition_def findCondition_def
  IgnoreNotFound_def rvaOutcome_def reconcileDRBDResource_def configureResource_def computeIntendedType_def LLVNameOrEmpty_def
  computeTargetType_def updateResource_def newDRBDRReconciliationCache_def computeTargetDRBDRSpec_def startSpec_def computeDRBDRType_def
  targetSize_def computeTargetDRBDRPeers_def ensureResourceMetadata_def isDRBDRMetadataInSync_def awaitAgent_def
  applyRVRDRBDRReconciliationCache_def getAgentReady_def agentResponded_def settle_def pendingVolume_def configured_def backingVolume_Equal_def
  ReportChangedIf_def rf_Continue_def zeroOutcome_def ShouldReturn_def panicUnless_def

lemmas exDisk_defs = exDisk_def emptyRVR_def RVR.defs Replica.defs exDiskMember_def exMember_def exName_def
  exResource_def emptySpec_def exLLV_def condOf_def exRvrClient_def ReplicatedStorageClassLabelKey_def ReplicatedVolumeLabelKey_def

lemma exDiskRV_simps:
  "rv_DatameshRevision exDiskRV = 7" "rv_Spec_ReplicatedStorageClassName exDiskRV = []"
  "ds_SystemNetworkNames (rv_Datamesh exDiskRV) = [''Internal'']" "ds_Members (rv_Datamesh exDiskRV) = [exDiskMember]"
  "ds_Multiattach (rv_Datamesh exDiskRV) = False" "ds_Quorum (rv_Datamesh exDiskRV) = 1" "ds_QuorumMinimumRedundancy (rv_Datamesh exDiskRV) = 1"
  by (simp_all add: exDiskRV_def exRV_def exDatamesh_def)

lemma exDisk_volume: "LowerVolumeSize (intendedUsableSize exDiskRV) = Some 45056" "AlignTo4Ki (ds_Size (rv_Datamesh exDiskRV)) = 4096"
  by code_simp+

lemma ComputeLLVName_Cons: "ComputeLLVName (c # name) lvg thinPool = c # ComputeLLVName name lvg thinPool"
  by (simp add: ComputeLLVName_def)

lemmas exDisk_run = children_run exDisk_defs exDiskRV_simps exDisk_volume ComputeLLVName_Cons Let_def

subsection \<open>Backing volumes\<close>

text \<open>C14: why a logical volume is deleted while the replica exists. A reconciliation of the backing volume deletes a logical
  volume only if nothing but the own finalizer holds the deleted replica, or the datamesh is initialized and either the
  replica is to have no volume, or the intended volume is another one that is created and large enough. In the last case
  the volume in use is not deleted unless it lies elsewhere than intended.\<close>

theorem volume_deleted_only_when_replaced:
  assumes "patchKeepsName cl" "rs_rvr st = Some rvr" "rs_calls st = []"
    "reconcileBackingVolume cl rvOpt view st = Some (targetBV, intendedBV, out, st')" "CallDeleteLLV l \<in> set (rs_calls st')"
  shows "rvrShouldNotExist rvr \<or> (\<exists>rv. rvOpt = Some rv \<and> rv_DatameshRevision rv \<noteq> 0
    \<and> ((\<exists>why. intendedPlace rvr rv view = Inl why)
       \<or> (\<exists>bv. computeIntendedBackingVolume rvr rv (computeActualBackingVolume (rs_drbdr st) (rs_llvs st)) view = Some (Inr bv)
            \<and> llv_Name l \<noteq> bw_LLVName bv \<and> serves cl (rs_llvs st) bv
            \<and> (\<forall>a. computeActualBackingVolume (rs_drbdr st) (rs_llvs st) = Some a
                 \<and> bw_LVMVolumeGroupName a = bw_LVMVolumeGroupName bv \<and> bw_ThinPoolName a = bw_ThinPoolName bv
                 \<longrightarrow> llv_Name l \<noteq> bw_LLVName a))))"
proof -
  have "llv_Name l \<in> deletedNames (rs_calls (bvState (targetBV, intendedBV, out, st')))"
    using assms(5) by (auto simp: deletedNames_def)
  from reconcileBackingVolume_calls [OF assms(1-4) this] show ?thesis
    using intended_reuses_actual by metis
qed

text \<open>A second volume, left over on another volume group.\<close>

definition exExtra :: replicaState where
  "exExtra = exDiskState ''Created'' \<lparr> rs_llvs := [exLLV ''llv-old'' ''vg'' ''Created'', exLLV ''llv-extra'' ''other'' ''Created''] \<rparr>"

lemma exExtra_run:
  "case reconcileBackingVolume exRvrClient (Some exDiskRV) None exExtra of None \<Rightarrow> False
   | Some (targetBV, intendedBV, out, st') \<Rightarrow> list_ex (\<lambda>c. case c of CallDeleteLLV l \<Rightarrow> llv_Name l = ''llv-extra'' | _ \<Rightarrow> False) (rs_calls st')"
  by (simp add: exExtra_def exDiskState_def exDisk_run)

theorem volume_deleted_only_when_replaced_witness:
  "\<exists>l :: LLV. llv_Name l = ''llv-extra'' \<and> (\<exists>bv. computeIntendedBackingVolume exDisk exDiskRV
     (computeActualBackingVolume (rs_drbdr exExtra) (rs_llvs exExtra)) None = Some (Inr bv)
     \<and> llv_Name l \<noteq> bw_LLVName bv \<and> serves exRvrClient (rs_llvs exExtra) bv)"
proof -
  obtain t i out st' where run: "reconcileBackingVolume exRvrClient (Some exDiskRV) None exExtra = Some (t, i, out, st')"
    and calls: "list_ex (\<lambda>c. case c of CallDeleteLLV l \<Rightarrow> llv_Name l = ''llv-extra'' | _ \<Rightarrow> False) (rs_calls st')"
    using exExtra_run by (auto split: option.splits prod.splits)
  from calls obtain l where l: "CallDeleteLLV l \<in> set (rs_calls st')" "llv_Name l = ''llv-extra''"
  proof -
    from calls obtain c where c: "c \<in> set (rs_calls st')" "case c of CallDeleteLLV l \<Rightarrow> llv_Name l = ''llv-extra'' | _ \<Rightarrow> False"
      unfolding list_ex_iff by blast
    from c(2) obtain l where "c = CallDeleteLLV l" "llv_Name l = ''llv-extra''" by (cases c) auto
    with c(1) that show thesis by blast
  qed
  have st: "rs_rvr exExtra = Some exDisk" "rs_calls exExtra = []" by (simp_all add: exExtra_def exDiskState_def)
  have no: "\<not> rvrShouldNotExist exDisk" "intendedPlace exDisk exDiskRV None = Inr (''vg'', [])"
    by code_simp+
  from volume_deleted_only_when_replaced [OF exRvrClient_api(2) st run l(1)] no
  obtain bv where "computeIntendedBackingVolume exDisk exDiskRV (computeActualBackingVolume (rs_drbdr exExtra) (rs_llvs exExtra)) None
      = Some (Inr bv)" "llv_Name l \<noteq> bw_LLVName bv" "serves exRvrClient (rs_llvs exExtra) bv" by auto
  with l(2) show ?thesis by blast
qed


text \<open>The volume of the small replica, and the run of the DRBD reconciliation on it.\<close>

definition exBV :: "backingVolume option" where
  "exBV = Some \<lparr> bw_LLVName = ''llv-old'', bw_LVMVolumeGroupName = ''vg'', bw_ThinPoolName = [], bw_Size = 45056 \<rparr>"

definition exDRBDRun :: "(ReconcileOutcome \<times> replicaState) option" where
  "exDRBDRun = reconcileDRBDResource exRvrClient (Some exDiskRV) exBV exBV (exDiskState ''Created'')"

lemma exDRBDRun_result:
  "case exDRBDRun of None \<Rightarrow> False | Some (out, st') \<Rightarrow> \<not> ShouldReturn out
     \<and> (case rs_rvr st' of None \<Rightarrow> False | Some r \<Rightarrow> rvr_DatameshRevision r = 7)"
  by (simp add: exDRBDRun_def exBV_def exDiskState_def exDisk_run)

lemma exDisk_facts: "rs_rvr (exDiskState ''Created'') = Some exDisk" "rvr_DatameshRevision exDisk = 0"
  "FindMemberByName (rv_Datamesh exDiskRV) (rvr_Name exDisk) = Some exDiskMember" "HasBackingVolume (m_Type exDiskMember)"
  by code_simp+


lemma status_defined:
  assumes "reconcileDRBDResource cl rvOpt targetBV intendedBV st = Some (out, st')" "\<not> ShouldReturn out"
    "rs_rvr st = Some rvr" "rs_rvr st' = Some rvr'"
  shows "\<exists>eo r. ensureReplicaStatus cl rvOpt view (rs_drbdr st') llvs rvr' = Some (eo, r)"
proof -
  from reconcileDRBDResource_result [OF assms(1-3)] assms(4) have "expectsResource rvOpt rvr' \<Longrightarrow> rs_drbdr st' \<noteq> None"
    by (auto simp: expectsResource_kept)
  from ensureReplicaStatus_defined [OF this] show ?thesis by auto
qed

text \<open>C28: the status helpers never meet a missing DRBD resource. After a reconciliation of the DRBD resource that lets the
  reconciliation go on, none of them panics: neither on a resource that is not there although the volume, its networks and
  the node are known, nor on a quorum summary that was not filled in.\<close>

theorem status_helpers_never_panic:
  assumes "reconcileDRBDResource cl rvOpt targetBV intendedBV st = Some (out, st')" "\<not> ShouldReturn out"
    "rs_rvr st = Some rvr" "rs_rvr st' = Some rvr'"
  shows "\<exists>eo r. ensureReplicaStatus cl rvOpt view (rs_drbdr st') llvs rvr' = Some (eo, r)"
  using assms by (rule status_defined)

theorem status_helpers_never_panic_witness:
  "\<exists>out st' rvr' eo r. exDRBDRun = Some (out, st') \<and> rs_rvr st' = Some rvr'
     \<and> ensureReplicaStatus exRvrClient (Some exDiskRV) None (rs_drbdr st') [] rvr' = Some (eo, r)"
proof -
  obtain out st' r where run: "reconcileDRBDResource exRvrClient (Some exDiskRV) exBV exBV (exDiskState ''Created'') = Some (out, st')"
    "\<not> ShouldReturn out" "rs_rvr st' = Some r"
    using exDRBDRun_result unfolding exDRBDRun_def by (auto split: option.splits prod.splits)
  from status_helpers_never_panic [OF run(1,2) exDisk_facts(1) run(3)] run show ?thesis unfolding exDRBDRun_def by blast
qed

text \<open>C17: what a healthy replica stands for. If the status helpers end without an error in the phase Healthy, the replica is a
  member of the datamesh whose DRBD resource has quorum, and has had it recorded; a member that needs a disk has an up-to-date
  one; a member to be attached is attached and its I/O is not suspended; and once there are addresses, every peer is
  connected.\<close>

theorem healthy_replica_serves:
  assumes "conditionsStored cl" "ensureReplicaStatus cl rvOpt view drbdr llvs rvr = Some (eo, r)" "e_err eo = None"
    "rvr_Phase r = ''Healthy''"
  shows "\<exists>d rv m. drbdr = Some d \<and> rvOpt = Some rv \<and> FindMemberByName (rv_Datamesh rv) (rvr_Name rvr) = Some m
    \<and> dr_Quorum d = Some True \<and> rvr_InitialQuorumReachedAt r \<noteq> None
    \<and> (NeedsBackingVolume (m_Type m) \<longrightarrow> dr_DiskState d = DiskStateUpToDate)
    \<and> (m_Attached m \<longrightarrow> isPrimary drbdr \<and> dr_DeviceIOSuspended d \<noteq> Some True)
    \<and> (dr_Addresses d \<noteq> [] \<longrightarrow> (\<forall>p \<in> set (rvr_Peers r). isConnected p))"
proof -
  let ?dmo = "map_option rv_Datamesh rvOpt" and ?member = "memberOf (map_option rv_Datamesh rvOpt) rvr"
  obtain r13 v uv r8 r9 where f: "readyOf cl rvOpt drbdr llvs rvr = Some v" "rvr_Phase r = fst (computeRVRPhaseAndMessage r13)"
    "says r13 ''Ready'' v" "upToDateVerdict drbdr ?member (agentIsReady rvr) (configurationPending rvr) r9 = Inr uv"
    "says r13 ''BackingVolumeUpToDate'' uv" "says r13 ''FullyConnected'' (fullyConnectedVerdict drbdr ?dmo (agentIsReady rvr) r8)"
    "says r13 ''Attached'' (attachedVerdict drbdr ?member (agentIsReady rvr) (configurationPending rvr))"
    "rvr_Name r8 = rvr_Name rvr" "rvr_Peers r = rvr_Peers r8" "rvr_Addresses r8 = (case drbdr of None \<Rightarrow> [] | Some d \<Rightarrow> dr_Addresses d)"
    "rvr_DatameshRevision r13 = rvr_DatameshRevision rvr"
    "rvr_InitialQuorumReachedAt r = rvr_InitialQuorumReachedAt (mirrored cl drbdr llvs ?dmo (agentIsReady rvr) (configurationPending rvr) rvr)"
    using final_conditions [OF assms(1-3)] by metis
  note h = healthy_phase [OF f(2) [unfolded assms(4), symmetric]]
  obtain reason message where v: "v = Verdict ConditionTrue reason message"
    using h(2) f(3) by (cases v) (auto simp: says_def)
  obtain d rv m where d: "drbdr = Some d" "rvOpt = Some rv" "?member = Some m" "agentIsReady rvr" "\<not> configurationPending rvr"
    "dr_Quorum d = Some True" using readyVerdict_true [OF f(1) [unfolded v]] by blast
  have mem: "FindMemberByName (rv_Datamesh rv) (rvr_Name rvr) = Some m" using d(2,3) by (simp add: memberOf_def)
  have u: "upToDateVerdict (Some d) (Some m) True False r9 = Inr uv" using f(4) d by simp
  have disk: "dr_DiskState d = DiskStateUpToDate" if needs: "NeedsBackingVolume (m_Type m)"
  proof (rule ccontr)
    assume "dr_DiskState d \<noteq> DiskStateUpToDate"
    with upToDateVerdict_cases [OF u needs] obtain re msg where uv: "uv = Verdict ConditionFalse re msg"
        and re: "re \<in> {''Failed'', ''RequiresSynchronization'', ''Unknown'', ''Absent'', ''Synchronizing''}"
      by (elim disjE exE conjE) (erule (1) notE, rule that)
    have "condIs (getCond r13 ''BackingVolumeUpToDate'') ConditionFalse re" using condIs_says [OF f(5) [unfolded uv]] by simp
    with h(7) [OF re] show False by (rule notE)
  qed
  have att: "isPrimary drbdr \<and> dr_DeviceIOSuspended d \<noteq> Some True" if "m_Attached m"
    using that f(7) d h(3,4) by (auto simp: attachedVerdict_def condIs_says Let_def split: if_splits)
  have conn: "isConnected p" if "dr_Addresses d \<noteq> []" "p \<in> set (rvr_Peers r)" for p
  proof -
    obtain status re msg where c: "connectionVerdict True (rvr_Addresses r8) (rvr_Peers r8) = Verdict status re msg"
      using connectionVerdict_Verdict by blast
    have "rvr_Peers r8 \<noteq> []" using that f(9) by auto
    with c have "says r13 ''FullyConnected'' (Verdict status re msg)"
      using that(1) f(6,8,10) d mem by (simp add: fullyConnectedVerdict_def)
    with h(5,6) all_connected [OF c] that f(9) show ?thesis by (auto simp: condIs_says)
  qed
  have latch: "rvr_InitialQuorumReachedAt r \<noteq> None"
    using f(11,12) h(1) d by (auto simp: mirrored_def ensureStatusInitialQuorumReachedAt_def okChanged_def)
  show ?thesis using d(1,2,6) mem disk att conn latch by blast
qed

text \<open>The small replica once its DRBD resource is configured.\<close>

definition exConfigured :: Replica where
  "exConfigured = exDisk \<lparr> rvr_DatameshRevision := 7,
     rvr_Conditions := [condOf ''DRBDConfigured'' ConditionTrue ''Configured'' ''DRBD fully configured''] \<rparr>"

definition exHealthyRun :: "ensured option" where
  "exHealthyRun = ensureReplicaStatus exRvrClient (Some exDiskRV) None (Some exResource) [exLLV ''llv-old'' ''vg'' ''Created''] exConfigured"

lemma exHealthyRun_result:
  "case exHealthyRun of None \<Rightarrow> False | Some (eo, r) \<Rightarrow> e_err eo = None \<and> rvr_Phase r = ''Healthy''"
  by (simp add: exHealthyRun_def status_run exConfigured_def exDisk_defs exDiskRV_def exRV_def exDatamesh_def Let_def)

theorem healthy_replica_serves_witness:
  "\<exists>eo r. exHealthyRun = Some (eo, r) \<and> rvr_InitialQuorumReachedAt r \<noteq> None \<and> dr_DiskState exResource = DiskStateUpToDate"
proof -
  obtain eo r where run: "ensureReplicaStatus exRvrClient (Some exDiskRV) None (Some exResource) [exLLV ''llv-old'' ''vg'' ''Created''] exConfigured
      = Some (eo, r)" "e_err eo = None" "rvr_Phase r = ''Healthy''"
    using exHealthyRun_result unfolding exHealthyRun_def by (auto split: option.splits)
  have "NeedsBackingVolume (m_Type exDiskMember)" "FindMemberByName (rv_Datamesh exDiskRV) (rvr_Name exConfigured) = Some exDiskMember"
    by code_simp+
  with healthy_replica_serves [OF exRvrClient_api(1) run] run show ?thesis unfolding exHealthyRun_def by auto
qed

theorem drbd_connections_symmetric_witness:
  "exName 1 \<in> dp_Name ` set (the (computeTargetDRBDRPeers (exDatamesh 1 1 [exMember 0 MT_Diskful, exMember 1 MT_Access]) (exMember 0 MT_Diskful)))"
proof -
  let ?dm = "exDatamesh 1 1 [exMember 0 MT_Diskful, exMember 1 MT_Access]"
  have in_dm: "exMember 0 MT_Diskful \<in> set (ds_Members ?dm)" "exMember 1 MT_Access \<in> set (ds_Members ?dm)"
    by (simp_all add: exDatamesh_def)
  have facts: "distinct (map m_Name (ds_Members ?dm))" "computeTargetDRBDRPeers ?dm (exMember 0 MT_Diskful) \<noteq> None"
    "computeTargetDRBDRPeers ?dm (exMember 1 MT_Access) \<noteq> None"
    by code_simp+
  then obtain pa pb where p: "computeTargetDRBDRPeers ?dm (exMember 0 MT_Diskful) = Some pa"
    "computeTargetDRBDRPeers ?dm (exMember 1 MT_Access) = Some pb" by auto
  have "m_Name (exMember 0 MT_Diskful) \<noteq> m_Name (exMember 1 MT_Access)" "ConnectsToAllPeers (m_Type (exMember 0 MT_Diskful))"
    by code_simp+
  with drbd_connections_symmetric [OF in_dm facts(1) p] p show ?thesis by (auto simp: exMember_def)
qed

theorem storage_checks_agree_witness:
  "fst (isStorageEligible (Some \<lparr> ev_EligibleNode = Some (exThinNode \<lparr> en_LVMVolumeGroups := take 1 (en_LVMVolumeGroups exThinNode) \<rparr>),
     ev_Type = PoolTypeLVMThin \<rparr>) ''vg'' ''fast'') = storageEligibilityOK"
proof -
  let ?node = "exThinNode \<lparr> en_LVMVolumeGroups := take 1 (en_LVMVolumeGroups exThinNode) \<rparr>"
  have "distinct (map lvg_Name (en_LVMVolumeGroups ?node))" "poolGroupsValid PoolTypeLVMThin ?node"
    "findLVGInEligibleNode ?node ''vg'' ''fast'' \<noteq> None" by code_simp+
  with storage_checks_agree [of ?node PoolTypeLVMThin "''vg''" "''fast''"] show ?thesis by blast
qed

subsection \<open>Where the controller goes wrong\<close>

text \<open>The status helpers and the patch add no panic to those of the volume and the DRBD resource.\<close>

lemma reconcileChildren_defined:
  assumes "reconcileBackingVolume cl rvOpt view st = Some (targetBV, intendedBV, o1, st1)"
    "reconcileDRBDResource cl rvOpt targetBV intendedBV st1 = Some (o2, st2)"
  shows "reconcileChildren cl rvOpt view st \<noteq> None"
proof (cases "ShouldReturn o1 \<or> ShouldReturn (outcome_Merge o1 [o2]) \<or> rs_rvr st = None \<or> rs_rvr st2 = None")
  case True
  then show ?thesis using assms by (auto simp: reconcileChildren_def Let_def split: option.splits)
next
  case False
  then obtain base rvr where b: "rs_rvr st = Some base" "rs_rvr st2 = Some rvr" by auto
  then obtain rvr1 where r1: "rs_rvr st1 = Some rvr1"
    using assms(2) by (cases "rs_rvr st1") (auto simp: reconcileDRBDResource_def split: option.splits if_splits prod.splits)
  have "\<not> ShouldReturn o2" using False Merge_fields(3) [of "[o1, o2]"] by (simp add: ShouldReturn_def outcome_Merge_def)
  from status_defined [OF assms(2) this r1 b(2)] obtain eo r
    where "ensureReplicaStatus cl rvOpt view (rs_drbdr st2) (rs_llvs st2) rvr = Some (eo, r)" by blast
  then have "publishStatus cl rvOpt view base (outcome_Merge o1 [o2]) rvr st2 \<noteq> None"
    by (auto simp: publishStatus_def Let_def split: option.splits sum.splits)
  then show ?thesis using assms b False by (auto simp: reconcileChildren_def Let_def)
qed

lemma exDisk_goes_on:
  "case reconcileBackingVolume exRvrClient (Some exDiskRV) None (exDiskState ''Created'') of None \<Rightarrow> False
   | Some (targetBV, intendedBV, out, st') \<Rightarrow>
      reconcileDRBDResource exRvrClient (Some exDiskRV) targetBV intendedBV st' \<noteq> None"
  by (simp add: exDiskState_def exDisk_run)

lemma exDisk_panics:
  "case reconcileBackingVolume exRvrClient (Some exDiskRV) None (exDiskState ''Failed'') of None \<Rightarrow> False
   | Some (targetBV, intendedBV, out, st') \<Rightarrow> \<not> ShouldReturn out
      \<and> reconcileDRBDResource exRvrClient (Some exDiskRV) targetBV intendedBV st' = None"
  by (simp add: exDiskState_def exDisk_run)


text \<open>The member moved to volume group \<open>vg\<close>. The new volume is created; DRBD still uses the old one, on another volume group.
  While the new volume was being created, the reconciliation remembered revision, generation and type.\<close>

definition exMoved :: replicaState where
  "exMoved = \<lparr> rs_rvr = Some (exDisk \<lparr> rvr_Cache := newDRBDRReconciliationCache 7 3 MT_Diskful \<rparr>),
     rs_llvs = [exLLV ''llv-old'' ''gone'' ''Created'', exLLV (ComputeLLVName (exName 0) ''vg'' []) ''vg'' ''Created''],
     rs_drbdr = Some exResource, rs_calls = [] \<rparr>"

definition isDeleteOf :: "string \<Rightarrow> childCall \<Rightarrow> bool" where
  "isDeleteOf name c = (case c of CallDeleteLLV l \<Rightarrow> llv_Name l = name | _ \<Rightarrow> False)"


text \<open>The status of a replica does not tell Access from TieBreaker, so that a change between the two is never requested.\<close>

lemma diskless_retype_not_requested:
  assumes "\<not> rvr_Deleting rvr" "requestBlocked rvr rvOpt view = None" "rvr_DatameshRevision rvr \<noteq> 0"
    "rvr_StatusType rvr = DRBDDiskless" "rvr_Type rvr = RT_Access \<or> rvr_Type rvr = RT_TieBreaker"
  shows "computeTargetDatameshRequest rvr rvOpt view = (None, ''Configured'', ''Replica is configured as intended'')"
  using assms by (auto simp: computeTargetDatameshRequest_def typeInSync_def)

end
