(* ===== verification/Sched_Reconcile.thy ===== *)
theory Sched_Reconcile
  imports Sched_Context
begin

text \<open>
  The reconcile methods of \<open>rvr_scheduling_controller/reconciler.go\<close>: building the pipeline of one replica,
  placing it, and the passes over the replicas of a volume. The API server, the scheduler extender and
  the condition upsert are parameters; every function returns the calls it made, in order.
\<close>

subsection \<open>Environment\<close>

datatype schedCall =
    CallFilterAndScore string "lvgKey list"
  | CallNarrowReservation string lvgKey
  | CallPatchSpec RVR
  | CallPatchStatus RVR

record SchedEnv =
  se_Extender :: Extender
  se_Patch :: "RVR \<Rightarrow> RVR \<Rightarrow> goErr + RVR"
  se_PatchStatus :: "RVR \<Rightarrow> RVR \<Rightarrow> goErr + RVR"
  se_SetStatusCondition :: metaSet
  se_RemoveStatusCondition :: metaRemove
  se_now :: int

text \<open>A patch of an object that is gone succeeds and leaves the local copy.\<close>

definition sched_patchRVR :: "SchedEnv \<Rightarrow> RVR \<Rightarrow> RVR \<Rightarrow> goErr + RVR" where
  "sched_patchRVR E rvr base = (case se_Patch E rvr base of
     Inl e \<Rightarrow> if IsNotFound e then Inr rvr else Inl e | Inr r \<Rightarrow> Inr r)"

definition sched_patchRVRStatus :: "SchedEnv \<Rightarrow> RVR \<Rightarrow> RVR \<Rightarrow> goErr + RVR" where
  "sched_patchRVRStatus E rvr base = (case se_PatchStatus E rvr base of
     Inl e \<Rightarrow> if IsNotFound e then Inr rvr else Inl e | Inr r \<Rightarrow> Inr r)"

subsection \<open>Conditions\<close>

type_synonym rvrStep = "ReconcileOutcome \<times> RVR \<times> schedCall list"

definition reconcileRVRCondition :: "SchedEnv \<Rightarrow> ConditionStatus \<Rightarrow> string \<Rightarrow> string \<Rightarrow> RVR \<Rightarrow> rvrStep" where
  "reconcileRVRCondition E status reason message rvr =
     (if chk_Eval (chk_ObservedGenerationCurrent (chk_MessageEqual message (chk_ReasonEqual reason (chk_StatusEqual status
           (StatusCondition (rvr_Conditions rvr) (rvr_Generation rvr) ''Scheduled'')))))
      then (rf_Continue, rvr, [])
      else let rvr1 = rvr \<lparr> rvr_Conditions := snd (SetStatusCondition (se_SetStatusCondition E) (se_now E) (rvr_Generation rvr)
                 (rvr_Conditions rvr) \<lparr> c_Type = ''Scheduled'', c_Status = status, c_ObservedGeneration = 0, c_Reason = reason,
                   c_Message = message, c_LastTransitionTime = None \<rparr>) \<rparr>
           in case sched_patchRVRStatus E rvr1 rvr of
             Inl e \<Rightarrow> (if IsNotFound e then rf_Continue else failure e, rvr1, [CallPatchStatus rvr1])
           | Inr rvr2 \<Rightarrow> (rf_Continue, rvr2, [CallPatchStatus rvr1]))"

text \<open>A loop over the replicas whose ID is in the given set: the body changes one replica; a terminal
  outcome ends the loop and leaves the rest.\<close>

fun forReplicas :: "IDSet \<Rightarrow> (RVR \<Rightarrow> rvrStep) \<Rightarrow> ReconcileOutcome \<Rightarrow> RVR list \<Rightarrow> (ReconcileOutcome \<times> RVR list \<times> schedCall list) option" where
  "forReplicas rvrIDs body outcome [] = Some (outcome, [], [])"
| "forReplicas rvrIDs body outcome (r # rs) = do {
     i \<leftarrow> rvrID r;
     if \<not> IDSet_Contains rvrIDs i then do {
       (o1, rs', calls) \<leftarrow> forReplicas rvrIDs body outcome rs;
       Some (o1, r # rs', calls) }
     else let (ob, r', calls) = body r; o1 = outcome_Merge outcome [ob]
          in if ShouldReturn o1 then Some (o1, r' # rs, calls)
             else do {
               (o2, rs', calls') \<leftarrow> forReplicas rvrIDs body o1 rs;
               Some (o2, r' # rs', calls @ calls') } }"

definition reconcileRVRsCondition ::
  "SchedEnv \<Rightarrow> IDSet \<Rightarrow> ConditionStatus \<Rightarrow> string \<Rightarrow> string \<Rightarrow> RVR list \<Rightarrow> (ReconcileOutcome \<times> RVR list \<times> schedCall list) option" where
  "reconcileRVRsCondition E rvrIDs status reason message rvrs = do {
     (outcome, rvrs', calls) \<leftarrow> forReplicas rvrIDs
        (\<lambda>r. case reconcileRVRCondition E status reason message r of
           (ob, r', calls) \<Rightarrow> (outcome_Enrichf (''setting condition on rvr '' @ rvr_Name r) ob, r', calls)) zeroOutcome rvrs;
     Some (if ShouldReturn outcome then outcome else rf_Continue, rvrs', calls) }"

definition removeScheduled :: "SchedEnv \<Rightarrow> RVR \<Rightarrow> rvrStep" where
  "removeScheduled E rvr =
     (if \<not> HasStatusCondition (rvr_Conditions rvr) ''Scheduled'' then (rf_Continue, rvr, [])
      else let rvr1 = rvr \<lparr> rvr_Conditions := snd (RemoveStatusCondition (se_RemoveStatusCondition E) (rvr_Conditions rvr) ''Scheduled'') \<rparr>
           in case sched_patchRVRStatus E rvr1 rvr of
             Inl e \<Rightarrow> (if IsNotFound e then rf_Continue else failure e, rvr1, [CallPatchStatus rvr1])
           | Inr rvr2 \<Rightarrow> (rf_Continue, rvr2, [CallPatchStatus rvr1]))"

text \<open>The first failure ends the loop and is returned as it is.\<close>

fun removeLoop :: "SchedEnv \<Rightarrow> IDSet \<Rightarrow> RVR list \<Rightarrow> (ReconcileOutcome \<times> RVR list \<times> schedCall list) option" where
  "removeLoop E rvrIDs [] = Some (rf_Continue, [], [])"
| "removeLoop E rvrIDs (r # rs) = do {
     i \<leftarrow> rvrID r;
     let (ob, r', calls) = (if IDSet_Contains rvrIDs i then removeScheduled E r else (rf_Continue, r, []));
     if ShouldReturn ob then Some (ob, r' # rs, calls)
     else do { (o2, rs', calls') \<leftarrow> removeLoop E rvrIDs rs; Some (o2, r' # rs', calls @ calls') } }"

definition reconcileRVRsConditionAbsent ::
  "SchedEnv \<Rightarrow> IDSet \<Rightarrow> RVR list \<Rightarrow> (ReconcileOutcome \<times> RVR list \<times> schedCall list) option" where
  "reconcileRVRsConditionAbsent E rvrIDs rvrs = removeLoop E rvrIDs rvrs"

subsection \<open>Placement\<close>

definition applyPlacementFromEntry :: "RVR \<Rightarrow> CandidateEntry \<Rightarrow> bool \<times> RVR" where
  "applyPlacementFromEntry rvr entry =
     (rvr_NodeName rvr \<noteq> en_NodeName (cd_Node entry) \<or> rvr_LVMVolumeGroupName rvr \<noteq> LVGName entry
        \<or> rvr_LVMVolumeGroupThinPoolName rvr \<noteq> ThinPoolName entry,
      rvr \<lparr> rvr_NodeName := en_NodeName (cd_Node entry), rvr_LVMVolumeGroupName := LVGName entry,
            rvr_LVMVolumeGroupThinPoolName := ThinPoolName entry \<rparr>)"

definition reconcileRVRPlacement :: "SchedEnv \<Rightarrow> CandidateEntry \<Rightarrow> RVR \<Rightarrow> rvrStep" where
  "reconcileRVRPlacement E entry rvr =
     (let (changed, rvr1) = applyPlacementFromEntry rvr entry;
          status = reconcileRVRCondition E ConditionTrue ''Scheduled'' ''Replica scheduled successfully''
      in if changed
         then (case sched_patchRVR E rvr1 rvr of
             Inl e \<Rightarrow> (failure e, rvr1, [CallPatchSpec rvr1])
           | Inr rvr2 \<Rightarrow> (case status rvr2 of (ob, r', calls) \<Rightarrow> (ob, r', CallPatchSpec rvr1 # calls)))
         else status rvr1)"

subsection \<open>The pipeline of one replica\<close>

definition nodeReady :: "CandidateEntry \<Rightarrow> bool" where
  "nodeReady e \<longleftrightarrow> \<not> (en_Unschedulable (cd_Node e) \<or> \<not> en_NodeReady (cd_Node e) \<or> \<not> en_AgentReady (cd_Node e))"

text \<open>Candidates of a diskful replica always have a volume group.\<close>

definition lvgReady :: "CandidateEntry \<Rightarrow> bool" where
  "lvgReady e \<longleftrightarrow> (case cd_LVG e of Some l \<Rightarrow> \<not> (lvg_Unschedulable l \<or> \<not> lvg_Ready l) | None \<Rightarrow> False)"

definition freeNode :: "schedulingContext \<Rightarrow> RVR \<Rightarrow> CandidateEntry \<Rightarrow> bool" where
  "freeNode sctx rvr e \<longleftrightarrow>
     (if rvr_NodeName rvr = [] then en_NodeName (cd_Node e) \<notin> set (sx_OccupiedNodes sctx)
      else en_NodeName (cd_Node e) = rvr_NodeName rvr)"

definition inZones :: "string list \<Rightarrow> CandidateEntry \<Rightarrow> bool" where
  "inZones zones e \<longleftrightarrow> en_ZoneName (cd_Node e) \<in> set zones"

text \<open>A zone predicate is added only if it excludes a zone.\<close>

definition withZones :: "schedulingContext \<Rightarrow> string \<Rightarrow> string list \<Rightarrow> SchedulingPipeline \<Rightarrow> SchedulingPipeline" where
  "withZones sctx name zones p =
     (if length zones < length (sx_ReplicasByZone sctx) then WithPredicate p name (keepIf (inZones zones)) else p)"

definition placementPipeline :: "schedulingContext \<Rightarrow> RVR \<Rightarrow> SchedulingPipeline" where
  "placementPipeline sctx rvr =
     (let isDiskful = (rvr_Type rvr = RT_Diskful);
          p0 = (if isDiskful then TakeLVGsFromEligibleNodes (sx_EligibleNodes sctx)
                else TakeOnlyNodesFromEligibleNodes (sx_EligibleNodes sctx));
          p1 = WithPredicate p0 ''node not ready'' (keepIf nodeReady);
          p2 = (if isDiskful then WithPredicate p1 ''LVG not ready'' (keepIf lvgReady) else p1);
          p3 = WithPredicate p2 (if rvr_NodeName rvr = [] then ''node occupied'' else ''node mismatch (assigned)'')
                 (keepIf (freeNode sctx rvr));
          p4 = (if sx_Topology sctx = TopologyZonal
                then withZones sctx ''zone (zonal majority)'' (zonalZones sctx) p3 else p3)
      in if sx_Topology sctx = TopologyTransZonal
         then withZones sctx ''zone (transZonal min replicas)'' (transZonalZones isDiskful sctx) p4 else p4)"

definition reservationKey :: "schedulingContext \<Rightarrow> RVR \<Rightarrow> string" where
  "reservationKey sctx rvr = (if sx_ReservationID sctx = []
     then ComputeLLVName (rvr_Name rvr) (rvr_LVMVolumeGroupName rvr) (rvr_LVMVolumeGroupThinPoolName rvr)
     else sx_ReservationID sctx)"

definition attachBonus :: "schedulingContext \<Rightarrow> CandidateFilterFn" where
  "attachBonus sctx e = Some (if en_NodeName (cd_Node e) \<in> set (sx_AttachToNodes sctx) then addScore 1000 e else e)"

definition remainingDemand :: "schedulingContext \<Rightarrow> int" where
  "remainingDemand sctx = max 0 (IntendedDiskfulCount (sx_FailuresToTolerate sctx) (sx_GuaranteedMinimumDataRedundancy sctx)
     - int (IDSet_Len (IDSet_Intersect (sx_Scheduled sctx) (sx_Diskful sctx))))"

text \<open>The score adjustments of a diskful replica, after the extender's scores.\<close>

definition adjustScores :: "schedulingContext \<Rightarrow> SchedulingPipeline \<Rightarrow> SchedulingPipeline" where
  "adjustScores sctx p =
     (let p1 = (if sx_AttachToNodes sctx \<noteq> [] then WithPredicate p ''attach-to bonus'' (attachBonus sctx) else p);
          p2 = (if sx_VolumeAccess sctx \<noteq> VolumeAccessAny
                then WithNodeScore p1 (\<lambda>_ g. if length g > 1 then 2 else 0) else p1)
      in if sx_Topology sctx = TopologyZonal \<and> remainingDemand sctx > 0
         then WithZoneScore p2 (\<lambda>_ g. if int (card (set (map (\<lambda>e. en_NodeName (cd_Node e)) g))) < remainingDemand sctx then -800 else 0)
         else p2)"

definition betterCandidate :: CandidateCompareFn where
  "betterCandidate a b =
     (if cd_Score a \<noteq> cd_Score b then cd_Score a > cd_Score b
      else if en_NodeName (cd_Node a) \<noteq> en_NodeName (cd_Node b) then en_NodeName (cd_Node a) < en_NodeName (cd_Node b)
      else LVGName a < LVGName b)"

text \<open>The pipeline with scores, and the calls made for it.\<close>

definition scoredPipeline :: "SchedEnv \<Rightarrow> schedulingContext \<Rightarrow> RVR \<Rightarrow> (goErr + SchedulingPipeline) \<times> schedCall list" where
  "scoredPipeline E sctx rvr =
     (let p = placementPipeline sctx rvr; rid = reservationKey sctx rvr; qs = scoringQueries (pl_Seq p)
      in if rvr_Type rvr \<noteq> RT_Diskful then (Inr p, [])
         else (case FilteredAndScoredBySchedulerExtender p (se_Extender E) rid (2 * 1000000000) (sx_Size sctx) of
                 Inl e \<Rightarrow> Inl e | Inr p' \<Rightarrow> Inr (adjustScores sctx p'),
               if qs = [] then [] else [CallFilterAndScore rid qs]))"

definition reconcileOneRVRScheduling ::
  "SchedEnv \<Rightarrow> RVR \<Rightarrow> schedulingContext \<Rightarrow> (ReconcileOutcome \<times> RVR \<times> schedulingContext \<times> schedCall list) option" where
  "reconcileOneRVRScheduling E rvr sctx =
     (case scoredPipeline E sctx rvr of
       (Inl err, calls0) \<Rightarrow>
         (case reconcileRVRCondition E ConditionFalse ''ExtenderUnavailable''
             ''Scheduling is temporarily unavailable: capacity scoring service is unreachable'' rvr of
           (ob, r', calls) \<Rightarrow> Some (outcome_Merge ob [failure err], r', sctx, calls0 @ calls))
     | (Inr p, calls0) \<Rightarrow>
         (case SelectBest p betterCandidate of
           (None, summary) \<Rightarrow>
             (case reconcileRVRCondition E ConditionFalse ''SchedulingFailed'' summary rvr of
               (ob, r', calls) \<Rightarrow> Some (ob, r', sctx, calls0 @ calls))
         | (Some best, _) \<Rightarrow>
             let rid = reservationKey sctx rvr; isDiskful = (rvr_Type rvr = RT_Diskful);
                 narrow = (if isDiskful then ext_NarrowReservation (se_Extender E) rid (60 * 1000000000) (entryKey best) else None);
                 calls1 = calls0 @ (if isDiskful then [CallNarrowReservation rid (entryKey best)] else [])
             in case narrow of
               Some err \<Rightarrow>
                 (case reconcileRVRCondition E ConditionFalse ''ExtenderUnavailable''
                     ''Scheduling is temporarily unavailable: failed to confirm capacity reservation'' rvr of
                   (ob, r', calls) \<Rightarrow> Some (outcome_Merge ob [failure err], r', sctx, calls1 @ calls))
             | None \<Rightarrow>
                 (case reconcileRVRPlacement E best rvr of (ob, r', calls) \<Rightarrow>
                   if ShouldReturn ob then Some (ob, r', sctx, calls1 @ calls)
                   else do {
                     sctx' \<leftarrow> sctx_Update r' best sctx;
                     Some (rf_Continue, r', sctx', calls1 @ calls) })))"

subsection \<open>The passes over the replicas\<close>

text \<open>One of the two scheduling phases: the replicas of the set one after another, each in the context the
  previous placements have left.\<close>

fun scheduleReplicas :: "SchedEnv \<Rightarrow> string \<Rightarrow> IDSet \<Rightarrow> ReconcileOutcome \<Rightarrow> schedulingContext \<Rightarrow> RVR list
    \<Rightarrow> (ReconcileOutcome \<times> schedulingContext \<times> RVR list \<times> schedCall list) option" where
  "scheduleReplicas E what rvrIDs outcome sctx [] = Some (outcome, sctx, [], [])"
| "scheduleReplicas E what rvrIDs outcome sctx (r # rs) = do {
     i \<leftarrow> rvrID r;
     if \<not> IDSet_Contains rvrIDs i then do {
       (o1, sctx', rs', calls) \<leftarrow> scheduleReplicas E what rvrIDs outcome sctx rs;
       Some (o1, sctx', r # rs', calls) }
     else do {
       (ob, r', sctx1, calls) \<leftarrow> reconcileOneRVRScheduling E r sctx;
       let o1 = outcome_Merge outcome [outcome_Enrichf what ob];
       if ShouldReturn o1 then Some (o1, sctx1, r' # rs, calls)
       else do {
         (o2, sctx2, rs', calls') \<leftarrow> scheduleReplicas E what rvrIDs o1 sctx1 rs;
         Some (o2, sctx2, r' # rs', calls @ calls') } } }"

text \<open>Everything \<open>Reconcile\<close> does once the volume, its pool and its attachments are read: the controller
  result, the replicas and the calls.\<close>

definition finish :: "ReconcileOutcome \<Rightarrow> RVR list \<Rightarrow> schedCall list \<Rightarrow> ((ctrlResult \<times> goErr option) \<times> RVR list \<times> schedCall list) option" where
  "finish outcome rvrs calls = Some (ToCtrl outcome, rvrs, calls)"

text \<open>The conditions of the replicas that need no scheduling.\<close>

definition markReplicas :: "SchedEnv \<Rightarrow> schedulingContext \<Rightarrow> RVR list \<Rightarrow> (ReconcileOutcome \<times> RVR list \<times> schedCall list) option" where
  "markReplicas E sctx rvrs0 = do {
     (o1, rvrs1, c1) \<leftarrow> (if IDSet_Len (sx_Access sctx) > 0 then reconcileRVRsConditionAbsent E (sx_Access sctx) rvrs0
                         else Some (zeroOutcome, rvrs0, []));
     if ShouldReturn o1 \<or> \<not> IDSet_Len (sx_Scheduled sctx) > 0 then Some (o1, rvrs1, c1)
     else do {
       (ob, rvrs2, c2) \<leftarrow> reconcileRVRsCondition E (sx_Scheduled sctx) ConditionTrue ''Scheduled'' ''Replica scheduled successfully'' rvrs1;
       Some (outcome_Merge o1 [ob], rvrs2, c1 @ c2) } }"

text \<open>The two phases that schedule the others.\<close>

definition scheduleMissing :: "SchedEnv \<Rightarrow> schedulingContext \<Rightarrow> ReconcileOutcome \<Rightarrow> RVR list
    \<Rightarrow> (ReconcileOutcome \<times> RVR list \<times> schedCall list) option" where
  "scheduleMissing E sctx outcome rvrs = do {
     let unscheduled = IDSet_Difference (sx_All sctx) (sx_Scheduled sctx);
     (o3, sctx3, rvrs3, c3) \<leftarrow> scheduleReplicas E ''scheduling Diskful'' (IDSet_Intersect unscheduled (sx_Diskful sctx)) outcome sctx rvrs;
     if ShouldReturn o3 then Some (o3, rvrs3, c3)
     else do {
       (o4, sctx4, rvrs4, c4) \<leftarrow> scheduleReplicas E ''scheduling TieBreaker'' (IDSet_Intersect unscheduled (sx_TieBreaker sctx)) o3 sctx3 rvrs3;
       Some (o4, rvrs4, c3 @ c4) } }"

definition scheduleVolume :: "SchedEnv \<Rightarrow> RV \<Rightarrow> StoragePool \<Rightarrow> string list \<Rightarrow> RVR list
    \<Rightarrow> ((ctrlResult \<times> goErr option) \<times> RVR list \<times> schedCall list) option" where
  "scheduleVolume E rv rsp attachToNodes rvrs = do {
     sctx \<leftarrow> computeSchedulingContext rv rsp rvrs attachToNodes;
     (o1, rvrs1, c1) \<leftarrow> markReplicas E sctx rvrs;
     if ShouldReturn o1 then finish o1 rvrs1 c1
     else if IDSet_Difference (sx_Scheduled sctx) (sx_Access sctx) = IDSet_Difference (sx_All sctx) (sx_Access sctx)
     then finish rf_Done rvrs1 c1
     else do {
       (o2, rvrs2, c2) \<leftarrow> scheduleMissing E sctx o1 rvrs1;
       finish o2 rvrs2 (c1 @ c2) } }"

text \<open>What the controller reads.\<close>

record SchedReads =
  sr_RV :: "goErr + RV option"
  sr_RVRs :: "goErr + RVR list"
  sr_RSP :: "string \<Rightarrow> goErr + StoragePool option"
  sr_RVAs :: "goErr + RVA list"

definition getRVRsByRVName :: "RVR list \<Rightarrow> RVR list" where
  "getRVRsByRVName rvrs = sort_key (\<lambda>r. (rvr_Deleting r, rvr_CreationTimestamp r, rvr_Name r)) rvrs"

definition getIntendedAttachments :: "RVA list \<Rightarrow> string list" where
  "getIntendedAttachments rvas = remdups_adj (sort (map rva_NodeName rvas))"

definition waitForVolume :: "SchedEnv \<Rightarrow> IDSet \<Rightarrow> string \<Rightarrow> string \<Rightarrow> RVR list
    \<Rightarrow> ((ctrlResult \<times> goErr option) \<times> RVR list \<times> schedCall list) option" where
  "waitForVolume E allIDs message enrich rvrs = do {
     (ob, rvrs', calls) \<leftarrow> reconcileRVRsCondition E allIDs ConditionUnknown ''WaitingForReplicatedVolume'' message rvrs;
     finish (outcome_Enrichf enrich ob) rvrs' calls }"

definition allReplicaIDs :: "RVR list \<Rightarrow> IDSet option" where
  "allReplicaIDs rvrs = map_option (FromAll (\<lambda>i. i)) (those (map rvrID rvrs))"

definition sched_Reconcile :: "SchedEnv \<Rightarrow> SchedReads \<Rightarrow> ((ctrlResult \<times> goErr option) \<times> RVR list \<times> schedCall list) option" where
  "sched_Reconcile E R = (case sr_RV R of
     Inl e \<Rightarrow> finish (failure e) [] []
   | Inr rvOpt \<Rightarrow> (case sr_RVRs R of
       Inl e \<Rightarrow> finish (failure e) [] []
     | Inr listed \<Rightarrow> do {
         let rvrs = getRVRsByRVName listed;
         allIDs \<leftarrow> allReplicaIDs rvrs;
         case rvOpt of
           None \<Rightarrow> waitForVolume E allIDs ''ReplicatedVolume not found; waiting for it to be present''
                     ''setting WaitingForReplicatedVolume: RV not found'' rvrs
         | Some rv \<Rightarrow> (case rv_Configuration rv of
             None \<Rightarrow> waitForVolume E allIDs ''ReplicatedVolume has no configuration yet; waiting for it to appear''
                       ''setting WaitingForReplicatedVolume: RV has no configuration'' rvrs
           | Some cfg \<Rightarrow> (case sr_RSP R (ReplicatedStoragePoolName cfg) of
               Inl e \<Rightarrow> finish (failure e) rvrs []
             | Inr None \<Rightarrow> waitForVolume E allIDs ''ReplicatedStoragePool not found; waiting for it to be present''
                 (''setting WaitingForReplicatedVolume: RSP '' @ quoted (ReplicatedStoragePoolName cfg) @ '' not found'') rvrs
             | Inr (Some rsp) \<Rightarrow> (case sr_RVAs R of
                 Inl e \<Rightarrow> finish (failure e) rvrs []
               | Inr rvas \<Rightarrow> scheduleVolume E rv rsp (getIntendedAttachments rvas) rvrs))) }))"

end
