(* ===== verification/Sched_Laws.thy ===== *)
theory Sched_Laws
  imports Sched_Reconcile Datamesh_Examples
begin

text \<open>
  What the scheduler guarantees: scores are looked up, the best admissible candidate is chosen, two
  replicas never share a node, no disk is placed without a confirmed reservation, and replicas stay spread
  evenly across zones.
\<close>

subsection \<open>The order of candidates\<close>

interpretation cands: candidate_order betterCandidate
  by unfold_locales (auto simp: betterCandidate_def split: if_splits)

subsection \<open>What the pipeline steps keep\<close>

lemma map_filter_keepIf [simp]: "List.map_filter (keepIf P) es = filter P es"
  by (induction es) (auto simp: map_filter_simps keepIf_def)

lemma Predicate_Seq [simp]: "pl_Seq (WithPredicate p name (keepIf P)) = filter P (pl_Seq p)"
  by (simp add: WithPredicate_def)

lemma withZones_Seq: "pl_Seq (withZones sctx name zones p) =
    (if length zones < length (sx_ReplicasByZone sctx) then filter (inZones zones) (pl_Seq p) else pl_Seq p)"
  by (simp add: withZones_def)

text \<open>Score adjustments change scores only.\<close>

definition place :: "CandidateEntry \<Rightarrow> EligibleNode \<times> EligibleNodeLVG option \<times> string option" where
  "place e = (cd_Node e, cd_LVG e, cd_ThinPool e)"

lemma place_score [simp]: "place (addScore k e) = place e" "place (e \<lparr> cd_Score := n \<rparr>) = place e"
  by (simp_all add: place_def addScore_def)

lemma place_keys: "place e = place e' \<Longrightarrow> cd_Node e = cd_Node e' \<and> LVGName e = LVGName e' \<and> ThinPoolName e = ThinPoolName e'"
  by (simp add: place_def LVGName_def ThinPoolName_def)

lemma place_GroupScore: "map place (pl_Seq (WithGroupScore p keyFn f)) = map place (pl_Seq p)"
  by (simp add: WithGroupScore_def Let_def)

lemma place_attach: "map place (pl_Seq (WithPredicate p name (attachBonus sctx))) = map place (pl_Seq p)"
proof -
  have "map place (List.map_filter (attachBonus sctx) es) = map place es" for es
    by (induction es) (auto simp: map_filter_simps attachBonus_def)
  then show ?thesis by (simp add: WithPredicate_def)
qed

lemma place_adjust: "map place (pl_Seq (adjustScores sctx p)) = map place (pl_Seq p)"
  by (simp add: adjustScores_def Let_def WithNodeScore_def WithZoneScore_def place_GroupScore place_attach)

lemma mergeJoin_places: "x \<in> set (fst (mergeJoin ss es)) \<Longrightarrow> \<exists>e \<in> set es. place x = place e"
proof (induction ss es rule: mergeJoin.induct)
  case (3 s ss e es)
  then show ?case by (cases "snd s > 0") (auto split: prod.splits if_splits)
qed auto

lemma scoring_cases:
  assumes "FilteredAndScoredBySchedulerExtender p X rid ttl n = Inr p'"
  obtains (no_queries) "scoringQueries (pl_Seq p) = []" "pl_Seq p' = []"
  | (scored) s where "ext_FilterAndScore X rid ttl n (scoringQueries (pl_Seq p)) = Inr s"
      "pl_Seq p' = fst (mergeJoin (sortBy fst s) (sortBy entryKey (pl_Seq p)))"
proof (cases "scoringQueries (pl_Seq p) = []")
  case True
  then show ?thesis using assms no_queries by (auto simp: FilteredAndScoredBySchedulerExtender_def Let_def)
next
  case False
  then obtain s where "ext_FilterAndScore X rid ttl n (scoringQueries (pl_Seq p)) = Inr s"
    using assms by (auto simp: FilteredAndScoredBySchedulerExtender_def Let_def split: sum.splits)
  then show ?thesis
    using assms False scored
    by (cases "mergeJoin (sortBy fst s) (sortBy entryKey (pl_Seq p))")
      (auto simp: FilteredAndScoredBySchedulerExtender_def Let_def)
qed

lemma scored_places:
  assumes "FilteredAndScoredBySchedulerExtender p X rid ttl n = Inr p'" and "x \<in> set (pl_Seq p')"
  shows "\<exists>e \<in> set (pl_Seq p). place x = place e"
  using assms(1)
proof (cases rule: scoring_cases)
  case (scored s)
  then show ?thesis using assms(2) mergeJoin_places by (metis sortBy_props(1))
qed (use assms(2) in simp)

lemma scoredPipeline_places:
  assumes "scoredPipeline E sctx rvr = (Inr p, calls)" and "x \<in> set (pl_Seq p)"
  shows "\<exists>e \<in> set (pl_Seq (placementPipeline sctx rvr)). place x = place e"
proof (cases "rvr_Type rvr = RT_Diskful")
  case True
  then obtain p' where f: "FilteredAndScoredBySchedulerExtender (placementPipeline sctx rvr) (se_Extender E) (reservationKey sctx rvr)
      (2 * 1000000000) (sx_Size sctx) = Inr p'" and p: "p = adjustScores sctx p'"
    using assms(1) by (auto simp: scoredPipeline_def Let_def split: sum.splits)
  have "place x \<in> place ` set (pl_Seq p')"
    using assms(2) unfolding p by (metis place_adjust set_map image_eqI)
  then show ?thesis using scored_places [OF f] by auto
next
  case False
  then show ?thesis using assms by (auto simp: scoredPipeline_def Let_def)
qed

text \<open>The zones a candidate may be in.\<close>

definition allowedZone :: "schedulingContext \<Rightarrow> RVR \<Rightarrow> string \<Rightarrow> bool" where
  "allowedZone sctx rvr z =
     ((sx_Topology sctx = TopologyZonal \<longrightarrow> length (zonalZones sctx) < length (sx_ReplicasByZone sctx) \<longrightarrow> z \<in> set (zonalZones sctx))
    \<and> (sx_Topology sctx = TopologyTransZonal \<longrightarrow>
        length (transZonalZones (rvr_Type rvr = RT_Diskful) sctx) < length (sx_ReplicasByZone sctx)
        \<longrightarrow> z \<in> set (transZonalZones (rvr_Type rvr = RT_Diskful) sctx)))"

lemma placement_Seq:
  "e \<in> set (pl_Seq (placementPipeline sctx rvr)) \<longleftrightarrow>
     nodeReady e \<and> freeNode sctx rvr e \<and> allowedZone sctx rvr (en_ZoneName (cd_Node e))
     \<and> (if rvr_Type rvr = RT_Diskful
        then lvgReady e \<and> (\<exists>n \<in> set (sx_EligibleNodes sctx). \<exists>l \<in> set (en_LVMVolumeGroups n). e = lvgCandidate n l)
        else \<exists>n \<in> set (sx_EligibleNodes sctx). e = nodeCandidate n)"
  by (auto simp: placementPipeline_def Let_def withZones_Seq allowedZone_def inZones_def
      TakeLVGsFromEligibleNodes_def TakeOnlyNodesFromEligibleNodes_def)

text \<open>A selected candidate is admissible, whatever its score.\<close>

lemma selected_admissible:
  assumes "scoredPipeline E sctx rvr = (Inr p, calls)" and "b \<in> set (pl_Seq p)"
  shows "cd_Node b \<in> set (sx_EligibleNodes sctx)" and "nodeReady b" and "freeNode sctx rvr b"
    and "allowedZone sctx rvr (en_ZoneName (cd_Node b))"
    and "rvr_Type rvr = RT_Diskful \<Longrightarrow> lvgReady b \<and> (\<exists>l \<in> set (en_LVMVolumeGroups (cd_Node b)).
           cd_LVG b = Some l \<and> LVGName b = lvg_Name l \<and> ThinPoolName b = lvg_ThinPoolName l)"
proof -
  obtain e where e: "e \<in> set (pl_Seq (placementPipeline sctx rvr))" "place b = place e"
    using scoredPipeline_places [OF assms] by blast
  then have k: "cd_Node b = cd_Node e" "cd_LVG b = cd_LVG e" "cd_ThinPool b = cd_ThinPool e" by (simp_all add: place_def)
  then show "nodeReady b" "freeNode sctx rvr b" "allowedZone sctx rvr (en_ZoneName (cd_Node b))"
    using e(1) by (auto simp: placement_Seq nodeReady_def freeNode_def)
  show "cd_Node b \<in> set (sx_EligibleNodes sctx)"
    using e(1) k by (auto simp: placement_Seq lvgCandidate_def nodeCandidate_def split: if_splits)
  show "rvr_Type rvr = RT_Diskful \<Longrightarrow> lvgReady b \<and> (\<exists>l \<in> set (en_LVMVolumeGroups (cd_Node b)).
           cd_LVG b = Some l \<and> LVGName b = lvg_Name l \<and> ThinPoolName b = lvg_ThinPoolName l)"
    using e(1) k by (auto simp: placement_Seq lvgCandidate_def lvgReady_def LVGName_def ThinPoolName_def)
qed

subsection \<open>One replica\<close>

text \<open>The API server returns the replica it was given: the same name, type and placement.\<close>

definition sameSpec :: "RVR \<Rightarrow> RVR \<Rightarrow> bool" where
  "sameSpec r r' \<longleftrightarrow> rvr_Name r' = rvr_Name r \<and> rvr_Type r' = rvr_Type r \<and> rvr_NodeName r' = rvr_NodeName r
     \<and> rvr_LVMVolumeGroupName r' = rvr_LVMVolumeGroupName r
     \<and> rvr_LVMVolumeGroupThinPoolName r' = rvr_LVMVolumeGroupThinPoolName r"

definition keepsSpec :: "SchedEnv \<Rightarrow> bool" where
  "keepsSpec E \<longleftrightarrow> (\<forall>r b r'. se_Patch E r b = Inr r' \<or> se_PatchStatus E r b = Inr r' \<longrightarrow> sameSpec r r')"

lemma sameSpec_refl [simp]: "sameSpec r r"
  by (simp add: sameSpec_def)

lemma sameSpec_trans: "sameSpec a b \<Longrightarrow> sameSpec b c \<Longrightarrow> sameSpec a c"
  by (simp add: sameSpec_def)

lemma patch_keeps:
  assumes "keepsSpec E"
  shows "sched_patchRVR E r b = Inr r' \<Longrightarrow> sameSpec r r'" and "sched_patchRVRStatus E r b = Inr r' \<Longrightarrow> sameSpec r r'"
  using assms by (auto simp: keepsSpec_def sched_patchRVR_def sched_patchRVRStatus_def split: sum.splits if_splits)

lemma sameSpec_Conditions [simp]:
  "sameSpec (rvr \<lparr> rvr_Conditions := cs \<rparr>) x = sameSpec rvr x" "sameSpec x (rvr \<lparr> rvr_Conditions := cs \<rparr>) = sameSpec x rvr"
  by (simp_all add: sameSpec_def)

lemma condition_keeps:
  assumes "keepsSpec E" and "reconcileRVRCondition E st reason msg rvr = (ob, r', calls)"
  shows "sameSpec rvr r'" and "set calls \<subseteq> range CallPatchStatus"
  using assms(2)
  by (auto simp: reconcileRVRCondition_def Let_def dest!: patch_keeps(2) [OF assms(1)] split: if_splits sum.splits)

definition placedAt :: "CandidateEntry \<Rightarrow> RVR \<Rightarrow> RVR \<Rightarrow> bool" where
  "placedAt b r r' \<longleftrightarrow> rvr_Name r' = rvr_Name r \<and> rvr_Type r' = rvr_Type r \<and> rvr_NodeName r' = en_NodeName (cd_Node b)
     \<and> rvr_LVMVolumeGroupName r' = LVGName b \<and> rvr_LVMVolumeGroupThinPoolName r' = ThinPoolName b"

lemma placement_keeps:
  assumes "keepsSpec E" and "reconcileRVRPlacement E b rvr = (ob, r', calls)"
  shows "placedAt b rvr r'" and "CallPatchSpec r1 \<in> set calls \<Longrightarrow> placedAt b rvr r1"
    and "set calls \<subseteq> range CallPatchSpec \<union> range CallPatchStatus"
proof -
  have s: "placedAt b rvr (snd (applyPlacementFromEntry rvr b))" by (simp add: placedAt_def applyPlacementFromEntry_def)
  have t: "placedAt b rvr x \<Longrightarrow> sameSpec x y \<Longrightarrow> placedAt b rvr y" for x y by (auto simp: placedAt_def sameSpec_def)
  obtain changed r0 where a: "applyPlacementFromEntry rvr b = (changed, r0)" by force
  let ?st = "reconcileRVRCondition E ConditionTrue ''Scheduled'' ''Replica scheduled successfully''"
  have "placedAt b rvr r' \<and> (\<forall>r1. CallPatchSpec r1 \<in> set calls \<longrightarrow> placedAt b rvr r1)
      \<and> set calls \<subseteq> range CallPatchSpec \<union> range CallPatchStatus"
  proof (cases changed)
    case True
    show ?thesis
    proof (cases "sched_patchRVR E r0 rvr")
      case (Inl e)
      then show ?thesis using assms(2) a True s by (auto simp: reconcileRVRPlacement_def)
    next
      case (Inr r2)
      obtain cs where c: "?st r2 = (ob, r', cs)" "calls = CallPatchSpec r0 # cs"
        using assms(2) a True Inr by (auto simp: reconcileRVRPlacement_def split: prod.splits)
      show ?thesis
        using condition_keeps [OF assms(1) c(1)] patch_keeps(1) [OF assms(1) Inr] s t [of r0 r2] t [of r2 r'] a c(2) by auto
    qed
  next
    case False
    then have c: "?st r0 = (ob, r', calls)" using assms(2) a by (auto simp: reconcileRVRPlacement_def)
    show ?thesis using condition_keeps [OF assms(1) c] s t [of r0 r'] a by auto
  qed
  then show "placedAt b rvr r'" "CallPatchSpec r1 \<in> set calls \<Longrightarrow> placedAt b rvr r1"
    "set calls \<subseteq> range CallPatchSpec \<union> range CallPatchStatus" by auto
qed

text \<open>The two ways a scheduling attempt ends: nothing is placed and only conditions are written, or the
  best candidate is placed, after its reservation was confirmed.\<close>

lemma scheduling_cases:
  assumes "keepsSpec E" and "reconcileOneRVRScheduling E rvr sctx = Some (ob, r', sctx', calls)"
  obtains (unplaced) "sameSpec rvr r'" "sctx' = sctx" "\<And>r1. CallPatchSpec r1 \<notin> set calls"
  | (placed) p calls0 b calls2 where "scoredPipeline E sctx rvr = (Inr p, calls0)" "fst (SelectBest p betterCandidate) = Some b"
      "placedAt b rvr r'" "\<And>r1. CallPatchSpec r1 \<in> set calls2 \<Longrightarrow> placedAt b rvr r1"
      "\<And>r1. CallPatchSpec r1 \<notin> set calls0"
      "rvr_Type rvr = RT_Diskful \<Longrightarrow>
         ext_NarrowReservation (se_Extender E) (reservationKey sctx rvr) (60 * 1000000000) (entryKey b) = None"
      "calls = calls0 @ (if rvr_Type rvr = RT_Diskful then [CallNarrowReservation (reservationKey sctx rvr) (entryKey b)] else []) @ calls2"
      "if ShouldReturn ob then sctx' = sctx else sctx_Update r' b sctx = Some sctx'"
proof -
  obtain q calls0 where q: "scoredPipeline E sctx rvr = (q, calls0)" by force
  have n0: "CallPatchSpec r1 \<notin> set calls0" for r1
    using q by (auto simp: scoredPipeline_def Let_def split: if_splits)
  have cond: ?thesis if "reconcileRVRCondition E st reason msg rvr = (ob', r', cs)" "sctx' = sctx"
      "calls = calls0 @ nc @ cs" "\<And>r1. CallPatchSpec r1 \<notin> set nc" for st reason msg ob' cs nc
    using condition_keeps [OF assms(1) that(1)] that n0 by (intro unplaced) auto
  show ?thesis
  proof (cases q)
    case (Inl err)
    then show ?thesis using assms(2) q cond [where nc = "[]"]
      by (auto simp: reconcileOneRVRScheduling_def split: prod.splits)
  next
    case (Inr p)
    obtain best summary where b: "SelectBest p betterCandidate = (best, summary)" by force
    show ?thesis
    proof (cases best)
      case None
      then show ?thesis using assms(2) q Inr b cond [where nc = "[]"]
        by (auto simp: reconcileOneRVRScheduling_def split: prod.splits)
    next
      case (Some e)
      let ?nr = "ext_NarrowReservation (se_Extender E) (reservationKey sctx rvr) (60 * 1000000000) (entryKey e)"
      let ?nc = "if rvr_Type rvr = RT_Diskful then [CallNarrowReservation (reservationKey sctx rvr) (entryKey e)] else []"
      show ?thesis
      proof (cases "rvr_Type rvr = RT_Diskful \<and> ?nr \<noteq> None")
        case True
        then show ?thesis using assms(2) q Inr b Some cond [where nc = ?nc]
          by (auto simp: reconcileOneRVRScheduling_def Let_def split: prod.splits)
      next
        case False
        obtain o2 r2 cs where pl: "reconcileRVRPlacement E e rvr = (o2, r2, cs)" by (metis prod_cases3)
        have r: "r2 = r'" "calls = calls0 @ ?nc @ cs"
          "if ShouldReturn o2 then ob = o2 \<and> sctx' = sctx else ob = rf_Continue \<and> sctx_Update r' e sctx = Some sctx'"
          using assms(2) q Inr b Some False pl
          by (auto simp: reconcileOneRVRScheduling_def Let_def res_simps split: if_splits option.splits)
        then have "if ShouldReturn ob then sctx' = sctx else sctx_Update r' e sctx = Some sctx'"
          by (auto simp: ShouldReturn_def rf_Continue_def zeroOutcome_def split: if_splits)
        then show ?thesis
          using placed [of p calls0 e cs] placement_keeps [OF assms(1) pl] q Inr b Some r n0 False by auto
      qed
    qed
  qed
qed

subsection \<open>Nodes\<close>

definition usedNodes :: "RVR list \<Rightarrow> string list" where
  "usedNodes rvrs = filter (\<lambda>n. n \<noteq> []) (map rvr_NodeName rvrs)"

definition keepsPlaced :: "RVR list \<Rightarrow> RVR list \<Rightarrow> bool" where
  "keepsPlaced = list_all2 (\<lambda>r r'. rvr_Name r' = rvr_Name r \<and> (rvr_NodeName r \<noteq> [] \<longrightarrow> rvr_NodeName r' = rvr_NodeName r))"

lemma usedNodes_simps [simp]:
  "usedNodes [] = []" "usedNodes (r # rs) = (if rvr_NodeName r = [] then [] else [rvr_NodeName r]) @ usedNodes rs"
  "usedNodes (rs @ rs') = usedNodes rs @ usedNodes rs'"
  by (simp_all add: usedNodes_def)

lemma keepsPlaced_refl [simp]: "keepsPlaced rs rs"
  by (simp add: keepsPlaced_def list_all2_refl)

lemma keepsPlaced_Cons [simp]: "keepsPlaced (r # rs) (r' # rs') \<longleftrightarrow>
    rvr_Name r' = rvr_Name r \<and> (rvr_NodeName r \<noteq> [] \<longrightarrow> rvr_NodeName r' = rvr_NodeName r) \<and> keepsPlaced rs rs'"
  by (auto simp: keepsPlaced_def)

lemma keepsPlaced_trans: "keepsPlaced a b \<Longrightarrow> keepsPlaced b c \<Longrightarrow> keepsPlaced a c"
  unfolding keepsPlaced_def by (erule (1) list_all2_trans [rotated 1]) auto

lemma Merge_stops: "ShouldReturn ob \<Longrightarrow> ShouldReturn (outcome_Merge o1 [outcome_Enrichf what ob])"
  by (cases "errsOf [o1, outcome_Enrichf what ob] = []")
    (auto simp: outcome_Merge_def ShouldReturn_def M_fields outcome_Enrichf_def)

lemma step_nodes:
  assumes "keepsSpec E" and "reconcileOneRVRScheduling E rvr sctx = Some (ob, r', sctx', calls)"
  shows "rvr_Name r' = rvr_Name rvr" and "set (sx_OccupiedNodes sctx) \<subseteq> set (sx_OccupiedNodes sctx')"
    and "rvr_NodeName r' = rvr_NodeName rvr \<or> rvr_NodeName rvr = [] \<and> rvr_NodeName r' \<notin> set (sx_OccupiedNodes sctx)"
    and "\<not> ShouldReturn ob \<Longrightarrow> rvr_NodeName r' = rvr_NodeName rvr \<or> rvr_NodeName r' \<in> set (sx_OccupiedNodes sctx')"
  using assms
  by (cases rule: scheduling_cases;
      fastforce simp: sameSpec_def placedAt_def sctx_Update_def res_simps freeNode_def split: if_splits
        dest: cands.select_best(1) selected_admissible(3))+

lemma schedule_loop:
  assumes "keepsSpec E"
  shows "scheduleReplicas E what X o0 sctx rs = Some (o', sctx', rs', calls)
    \<Longrightarrow> distinct (usedNodes (pre @ rs)) \<Longrightarrow> set (usedNodes (pre @ rs)) \<subseteq> set (sx_OccupiedNodes sctx)
    \<Longrightarrow> distinct (usedNodes (pre @ rs')) \<and> keepsPlaced rs rs'
      \<and> (\<not> ShouldReturn o' \<longrightarrow> set (usedNodes (pre @ rs')) \<subseteq> set (sx_OccupiedNodes sctx'))"
proof (induction rs arbitrary: pre o0 sctx rs' calls)
  case Nil
  then show ?case by auto
next
  case (Cons r rs)
  obtain i where i: "rvrID r = Some i" using Cons.prems(1) by (auto simp: res_simps)
  show ?case
  proof (cases "IDSet_Contains X i")
    case False
    then obtain rs1 calls1 where l: "scheduleReplicas E what X o0 sctx rs = Some (o', sctx', rs1, calls1)" "rs' = r # rs1"
      using Cons.prems(1) i by (auto simp: res_simps)
    from Cons.IH [OF l(1), of "pre @ [r]"] Cons.prems(2,3) l(2) show ?thesis by simp
  next
    case True
    obtain ob r1 sctx1 calls1 where s: "reconcileOneRVRScheduling E r sctx = Some (ob, r1, sctx1, calls1)"
      using Cons.prems(1) i True by (auto simp: res_simps)
    note n = step_nodes [OF assms s]
    have d: "distinct (usedNodes ((pre @ [r1]) @ rs))" using n(3) Cons.prems(2,3) by (auto split: if_splits)
    let ?o1 = "outcome_Merge o0 [outcome_Enrichf what ob]"
    show ?thesis
    proof (cases "ShouldReturn ?o1")
      case True
      then have "rs' = r1 # rs" "o' = ?o1" using Cons.prems(1) i \<open>IDSet_Contains X i\<close> s by (auto simp: res_simps)
      then show ?thesis using True d n(1,3) by auto
    next
      case False
      obtain rs1 calls2 where l: "scheduleReplicas E what X ?o1 sctx1 rs = Some (o', sctx', rs1, calls2)" "rs' = r1 # rs1"
        using Cons.prems(1) i \<open>IDSet_Contains X i\<close> s False by (auto simp: res_simps)
      have "set (usedNodes ((pre @ [r1]) @ rs)) \<subseteq> set (sx_OccupiedNodes sctx1)"
        using n(2) n(4) [OF contrapos_nn [OF False Merge_stops]] Cons.prems(3) by (auto split: if_splits)
      from Cons.IH [OF l(1) d this] l(2) n(1,3) show ?thesis by auto
    qed
  qed
qed

text \<open>The passes that only write conditions keep every placement.\<close>

lemma forReplicas_keeps:
  assumes "\<And>r ob r' cs. body r = (ob, r', cs) \<Longrightarrow> sameSpec r r'"
  shows "forReplicas X body o0 rs = Some (o', rs', calls) \<Longrightarrow> list_all2 sameSpec rs rs'"
proof (induction rs arbitrary: o0 rs' calls)
  case (Cons r rs)
  obtain ob r1 cs where b: "body r = (ob, r1, cs)" by (metis prod_cases3)
  then have "sameSpec r r1" using assms by blast
  then show ?case
    using Cons b by (auto simp: res_simps Let_def list_all2_refl split: if_splits)
qed simp

lemma removeLoop_keeps:
  assumes "keepsSpec E"
  shows "removeLoop E X rs = Some (o', rs', calls) \<Longrightarrow> list_all2 sameSpec rs rs'"
proof (induction rs arbitrary: rs' calls)
  case (Cons r rs)
  have "sameSpec r r1" if "removeScheduled E r = (ob, r1, cs)" for ob r1 cs
    using that by (auto simp: removeScheduled_def Let_def dest!: patch_keeps(2) [OF assms] split: if_splits sum.splits)
  then show ?case
    using Cons by (auto simp: res_simps Let_def list_all2_refl split: if_splits prod.splits)
qed simp

lemma sameSpec_lists: "list_all2 sameSpec rs rs' \<Longrightarrow> usedNodes rs' = usedNodes rs \<and> keepsPlaced rs rs'"
  by (induction rs rs' rule: list_all2_induct) (auto simp: sameSpec_def)

lemma classify_occupied:
  "classify_rvrs pt rs s = Some s' \<Longrightarrow> set (sx_OccupiedNodes s') = set (sx_OccupiedNodes s) \<union> set (usedNodes rs)"
proof (induction rs arbitrary: s)
  case (Cons r rs)
  then obtain i where i: "rvrID r = Some i" "classify_rvrs pt rs (classifyOne pt r i s) = Some s'" by (auto simp: res_simps)
  have "set (sx_OccupiedNodes (classifyOne pt r i s)) = set (sx_OccupiedNodes s) \<union> set (usedNodes [r])"
    by (auto simp: classifyOne_def Let_def split: ReplicaType.splits)
  then show ?case using Cons.IH [OF i(2)] by auto
qed simp

subsection \<open>Preferred zones\<close>

text \<open>A comparison by a key: the preferred zones are those with the greatest key, in whatever order the map
  is ranged over.\<close>

locale zone_preference =
  fixes cmp :: "IDSet \<Rightarrow> IDSet \<Rightarrow> int" and key :: "IDSet \<Rightarrow> 'k :: linorder"
  assumes cmp_key: "cmp a b = cmpCompare (key a) (key b)"
begin

lemma best_fold:
  "let b = foldl (\<lambda>best r. if cmp r best > 0 then r else best) s ss
   in b \<in> insert s (set ss) \<and> (\<forall>r \<in> insert s (set ss). key r \<le> key b)"
proof (induction ss arbitrary: s)
  case (Cons r ss)
  show ?case
    using Cons [of r] Cons [of s] by (cases "cmp r s > 0") (auto simp: Let_def cmp_key cmpCompare_def split: if_splits)
qed simp

lemma preferred_iff:
  "z \<in> set (computePreferredZones zs cmp) \<longleftrightarrow> (\<exists>s. (z, s) \<in> set zs \<and> (\<forall>s' \<in> snd ` set zs. key s' \<le> key s))"
proof (cases zs)
  case (Cons zs0 zs1)
  define b where "b = bestSet cmp (map snd zs)"
  have b: "b \<in> snd ` set zs" "\<forall>r \<in> snd ` set zs. key r \<le> key b"
    using best_fold [of "snd zs0" "map snd zs1"] by (auto simp: b_def bestSet_def Cons Let_def)
  have "cmp s b = 0 \<longleftrightarrow> (\<forall>s' \<in> snd ` set zs. key s' \<le> key s)" if "s \<in> snd ` set zs" for s
  proof -
    have "key s \<le> key b" using b(2) that by auto
    then show ?thesis using b by (force simp: cmp_key cmpCompare_def dest: antisym intro: order_trans)
  qed
  moreover have "zs \<noteq> []" by (simp add: Cons)
  then have "z \<in> set (computePreferredZones zs cmp) \<longleftrightarrow> (\<exists>s. (z, s) \<in> set zs \<and> cmp s b = 0)"
    by (auto simp: computePreferredZones_def b_def Let_def image_iff)
  ultimately show ?thesis by (metis image_eqI snd_conv)
qed (simp add: computePreferredZones_def)

lemma all_or_preferred:
  assumes "length (computePreferredZones zs cmp) < length zs \<longrightarrow> z \<in> set (computePreferredZones zs cmp)"
    and "(z, s) \<in> set zs" and "distinct (map fst zs)" and "s' \<in> snd ` set zs"
  shows "key s' \<le> key s"
proof -
  have "z \<in> set (computePreferredZones zs cmp)"
  proof (cases "length (computePreferredZones zs cmp) < length zs")
    case False
    then have "\<forall>x \<in> set zs. (\<lambda>(z, r). cmp r (bestSet cmp (map snd zs)) = 0) x"
      using assms(2) length_filter_less [of _ zs "\<lambda>(z, r). cmp r (bestSet cmp (map snd zs)) = 0"]
      by (fastforce simp: computePreferredZones_def Let_def split: if_splits)
    then show ?thesis using assms(2) by (force simp: computePreferredZones_def Let_def split: if_splits)
  qed (use assms(1) in simp)
  then obtain s1 where "(z, s1) \<in> set zs" "\<forall>s' \<in> snd ` set zs. key s' \<le> key s1" by (auto simp: preferred_iff)
  moreover from this assms(2,3) have "s1 = s" by (meson eq_key_imp_eq_value)
  ultimately show ?thesis using assms(4) by auto
qed

end

definition diskfulIn :: "schedulingContext \<Rightarrow> IDSet \<Rightarrow> nat" where
  "diskfulIn sctx s = card (ids s \<inter> ids (sx_Diskful sctx))"

definition replicasIn :: "schedulingContext \<Rightarrow> IDSet \<Rightarrow> nat" where
  "replicasIn sctx s = card (ids s \<inter> (ids (sx_Diskful sctx) \<union> ids (sx_TieBreaker sctx)))"

interpretation most_diskful: zone_preference "compareDiskful sctx" "diskfulIn sctx" for sctx
  by unfold_locales (simp add: compareDiskful_def diskfulIn_def)

interpretation fewest_diskful: zone_preference "\<lambda>a b. - compareDiskful sctx a b" "\<lambda>s. - int (diskfulIn sctx s)" for sctx
  by unfold_locales (simp add: compareDiskful_def diskfulIn_def cmpCompare_def)

interpretation fewest_replicas: zone_preference "compareFewestReplicas sctx"
    "\<lambda>s. (- int (replicasIn sctx s), - int (card (ids s \<inter> ids (sx_TieBreaker sctx))))" for sctx
  by unfold_locales (auto simp: compareFewestReplicas_def replicasIn_def cmpCompare_def Let_def less_prod_def')

subsection \<open>Even spread\<close>

definition balanced :: "schedulingContext \<Rightarrow> bool" where
  "balanced sctx = (let sets = map snd (sx_ReplicasByZone sctx)
     in list_all (\<lambda>s. list_all (\<lambda>s'. diskfulIn sctx s \<le> Suc (diskfulIn sctx s')) sets) sets)"

definition zonesKnown :: "schedulingContext \<Rightarrow> bool" where
  "zonesKnown sctx \<longleftrightarrow> distinct (map fst (sx_ReplicasByZone sctx))
     \<and> en_ZoneName ` set (sx_EligibleNodes sctx) \<subseteq> fst ` set (sx_ReplicasByZone sctx)"

lemma zs_add_keys: "z \<in> fst ` set zs \<Longrightarrow> map fst (zs_add z i zs) = map fst zs"
  by (induction zs rule: zs_add.induct [where ?a0.0 = z and ?a1.0 = i]) auto

lemma set_zs_add:
  "distinct (map fst zs) \<Longrightarrow> (z, s) \<in> set zs \<Longrightarrow> set (zs_add z i zs) = insert (z, IDSet_Add i s) (set zs - {(z, s)})"
  by (induction zs rule: zs_add.induct [where ?a0.0 = z and ?a1.0 = i]) (auto simp: image_iff)

lemma Add_between: "ids s \<subseteq> ids (IDSet_Add i s)" "ids (IDSet_Add i s) \<subseteq> insert (unat i) (ids s)"
  by (auto simp: IDSet_Add_def bit_or_iff)

lemma diskfulIn_Add: "diskfulIn sctx s \<le> diskfulIn sctx (IDSet_Add i s)" "diskfulIn sctx (IDSet_Add i s) \<le> Suc (diskfulIn sctx s)"
proof -
  show "diskfulIn sctx s \<le> diskfulIn sctx (IDSet_Add i s)"
    unfolding diskfulIn_def using Add_between(1) [of s i] by (intro card_mono) auto
  have "diskfulIn sctx (IDSet_Add i s) \<le> card (insert (unat i) (ids s \<inter> ids (sx_Diskful sctx)))"
    unfolding diskfulIn_def using Add_between(2) [of i s] by (intro card_mono) auto
  also have "\<dots> \<le> Suc (diskfulIn sctx s)" unfolding diskfulIn_def by (rule card_insert_le_m1) simp_all
  finally show "diskfulIn sctx (IDSet_Add i s) \<le> Suc (diskfulIn sctx s)" .
qed

lemma Update_balanced:
  assumes wf: "zonesKnown sctx" and b: "balanced sctx" and u: "sctx_Update r e sctx = Some sctx'"
    and n: "cd_Node e \<in> set (sx_EligibleNodes sctx)" and top: "sx_Topology sctx = TopologyTransZonal"
    and z: "allowedZone sctx rvr (en_ZoneName (cd_Node e))" and d: "rvr_Type rvr = RT_Diskful"
  shows "balanced sctx'" and "zonesKnown sctx'" and "sx_Topology sctx' = TopologyTransZonal"
proof -
  let ?zs = "sx_ReplicasByZone sctx" and ?z = "en_ZoneName (cd_Node e)"
  obtain i where sctx': "sx_ReplicasByZone sctx' = zs_add ?z i ?zs" "sx_Diskful sctx' = sx_Diskful sctx"
    "sx_EligibleNodes sctx' = sx_EligibleNodes sctx" "sx_Topology sctx' = sx_Topology sctx"
    using u by (auto simp: sctx_Update_def res_simps)
  obtain s where s: "(?z, s) \<in> set ?zs" and dis: "distinct (map fst ?zs)" using wf n by (auto simp: zonesKnown_def)
  have least: "diskfulIn sctx s \<le> diskfulIn sctx s'" if "s' \<in> snd ` set ?zs" for s'
    using fewest_diskful.all_or_preferred [where sctx = sctx and zs = ?zs and z = ?z and s = s and s' = s'] z top d s dis that
    by (simp add: allowedZone_def transZonalZones_def)
  have old: "diskfulIn sctx a \<le> Suc (diskfulIn sctx c)" if "a \<in> snd ` set ?zs" "c \<in> snd ` set ?zs" for a c
    using b that by (auto simp: balanced_def list_all_iff)
  have sets: "snd ` set (zs_add ?z i ?zs) \<subseteq> insert (IDSet_Add i s) (snd ` set ?zs)"
    using set_zs_add [OF dis s, of i] by auto
  have eq: "diskfulIn sctx' = diskfulIn sctx" by (simp add: fun_eq_iff diskfulIn_def sctx')
  have "diskfulIn sctx a \<le> Suc (diskfulIn sctx c)"
    if "a \<in> insert (IDSet_Add i s) (snd ` set ?zs)" "c \<in> insert (IDSet_Add i s) (snd ` set ?zs)" for a c
  proof -
    have "s \<in> snd ` set ?zs" using s by force
    then have "diskfulIn sctx a \<le> Suc (diskfulIn sctx s)" "diskfulIn sctx s \<le> diskfulIn sctx c"
      using that old [of a s] least [of c] diskfulIn_Add [where sctx = sctx and s = s and i = i] by auto
    then show ?thesis by simp
  qed
  then have "\<forall>a \<in> snd ` set (zs_add ?z i ?zs). \<forall>c \<in> snd ` set (zs_add ?z i ?zs). diskfulIn sctx a \<le> Suc (diskfulIn sctx c)"
    using sets by (meson subsetD)
  then show "balanced sctx'" by (simp add: balanced_def Let_def list_all_iff sctx'(1) eq)
  show "zonesKnown sctx'"
    using wf s zs_add_keys [of ?z ?zs i] unfolding zonesKnown_def sctx' by (metis image_eqI fst_conv list.set_map)
  show "sx_Topology sctx' = TopologyTransZonal" using top sctx' by simp
qed

lemma schedule_balanced:
  assumes "keepsSpec E"
  shows "scheduleReplicas E what X o0 sctx rs = Some (o', sctx', rs', calls)
    \<Longrightarrow> \<forall>r \<in> set rs. \<forall>i. rvrID r = Some i \<longrightarrow> IDSet_Contains X i \<longrightarrow> rvr_Type r = RT_Diskful
    \<Longrightarrow> zonesKnown sctx \<Longrightarrow> balanced sctx \<Longrightarrow> sx_Topology sctx = TopologyTransZonal \<Longrightarrow> balanced sctx'"
proof (induction rs arbitrary: o0 sctx rs' calls)
  case (Cons r rs)
  obtain i where i: "rvrID r = Some i" using Cons.prems(1) by (auto simp: res_simps)
  show ?case
  proof (cases "IDSet_Contains X i")
    case False
    then show ?thesis using Cons i by (auto simp: res_simps)
  next
    case True
    obtain ob r1 sctx1 calls1 where s: "reconcileOneRVRScheduling E r sctx = Some (ob, r1, sctx1, calls1)"
      using Cons.prems(1) i True by (auto simp: res_simps)
    have "balanced sctx1 \<and> zonesKnown sctx1 \<and> sx_Topology sctx1 = TopologyTransZonal"
      using assms s
    proof (cases rule: scheduling_cases)
      case (placed p calls0 b calls2)
      note sel = selected_admissible [OF placed(1) cands.select_best(1) [OF placed(2)]]
      show ?thesis
        using placed(8) Update_balanced [OF Cons.prems(3,4) _ sel(1) Cons.prems(5) sel(4)] Cons.prems True i
        by (auto split: if_splits)
    qed (use Cons.prems in simp)
    then show ?thesis using Cons i True s by (auto simp: res_simps Let_def split: if_splits)
  qed
qed simp

lemma addPlaced_keys: "addPlaced nodes rs zs = Some zs' \<Longrightarrow> map fst zs' = map fst zs"
proof (induction rs arbitrary: zs)
  case (Cons r rs)
  have "map fst (zs_addKnown z i zs) = map fst zs" for z i
    by (auto simp: zs_addKnown_def map_of_eq_None_iff zs_add_keys)
  then show ?case using Cons by (auto simp: res_simps split: if_splits)
qed simp

lemma context_zones:
  assumes "computeSchedulingContext rv rsp rvrs att = Some sctx"
  shows "zonesKnown sctx" and "set (sx_OccupiedNodes sctx) = set (usedNodes rvrs)"
proof -
  have "sx_EligibleNodes (classifyOne pt r i s) = sx_EligibleNodes s" for pt r i s
    by (cases "rvr_Type r") (auto simp: classifyOne_def Let_def)
  then have c: "classify_rvrs pt rs s = Some s' \<Longrightarrow> sx_EligibleNodes s' = sx_EligibleNodes s" for pt rs s s'
    by (induction rs arbitrary: s) (auto simp: res_simps)
  show "zonesKnown sctx"
    using assms by (auto simp: computeSchedulingContext_def computeReplicasByZone_def res_simps zonesKnown_def Let_def
        emptyZones_def o_def dest!: addPlaced_keys c simp flip: set_map)
  show "set (sx_OccupiedNodes sctx) = set (usedNodes rvrs)"
    using assms by (auto simp: computeSchedulingContext_def res_simps Let_def dest!: classify_occupied)
qed

subsection \<open>Examples\<close>

definition exNode :: "string \<Rightarrow> EligibleNode" where
  "exNode z = \<lparr> en_NodeName = z, en_ZoneName = z, en_Unschedulable = False, en_NodeReady = True, en_AgentReady = True,
     en_LVMVolumeGroups = [\<lparr> lvg_Name = z, lvg_ThinPoolName = [], lvg_Unschedulable = False, lvg_Ready = True \<rparr>] \<rparr>"

definition exPool :: StoragePool where
  "exPool = \<lparr> sp_Type = PoolTypeLVM, sp_EligibleNodes = [exNode ''a'', exNode ''b'', exNode ''c''] \<rparr>"

definition exExtender :: Extender where
  "exExtender = \<lparr> ext_FilterAndScore = (\<lambda>rid ttl n qs. Inr (map (\<lambda>q. (q, 5)) qs)), ext_NarrowReservation = (\<lambda>rid ttl q. None) \<rparr>"

definition exSchedEnv :: SchedEnv where
  "exSchedEnv = \<lparr> se_Extender = exExtender, se_Patch = (\<lambda>r b. Inr r), se_PatchStatus = (\<lambda>r b. Inr r),
     se_SetStatusCondition = upsertCondition, se_RemoveStatusCondition = (\<lambda>cs t. (False, cs)), se_now = 9 \<rparr>"

definition exSchedRV :: RV where
  "exSchedRV = (exRV 0 0 [] [] []) \<lparr> rv_Configuration := Some (exConfig \<lparr> cfg_Topology := TopologyTransZonal \<rparr>),
     rv_Annotations := [(SchedulingReservationIDAnnotationKey, ''p'')] \<rparr>"

definition exFresh :: "nat \<Rightarrow> RVR" where
  "exFresh i = emptyRVR \<lparr> rvr_Name := exName i, rvr_Type := RT_Diskful \<rparr>"

lemma keeps_exSchedEnv: "keepsSpec exSchedEnv"
  by (simp add: keepsSpec_def exSchedEnv_def)

definition exScheduled :: "((ctrlResult \<times> goErr option) \<times> RVR list \<times> schedCall list) option" where
  "exScheduled = scheduleVolume exSchedEnv exSchedRV exPool [] [exFresh 0, exFresh 1]"

lemma exScheduled_runs: "map_option (\<lambda>(_, rs, _). map rvr_NodeName rs) exScheduled = Some [''a'', ''b'']"
  by code_simp

subsection \<open>The whole pass\<close>

lemma reconcileRVRsCondition_keeps:
  assumes "keepsSpec E" and "reconcileRVRsCondition E X st reason msg rs = Some (ob, rs', cs)"
  shows "list_all2 sameSpec rs rs'"
proof -
  let ?body = "\<lambda>r. case reconcileRVRCondition E st reason msg r of
           (ob, r', calls) \<Rightarrow> (outcome_Enrichf (''setting condition on rvr '' @ rvr_Name r) ob, r', calls)"
  have "sameSpec r r'" if "?body r = (ob, r', cs)" for r ob r' cs
    using that condition_keeps(1) [OF assms(1)] by (auto split: prod.splits)
  then show ?thesis
    using assms(2) forReplicas_keeps [of ?body] by (auto simp: reconcileRVRsCondition_def res_simps)
qed

lemma mark_keeps:
  assumes "keepsSpec E" and "markReplicas E sctx rs = Some (o', rs', cs)"
  shows "usedNodes rs' = usedNodes rs" and "keepsPlaced rs rs'"
proof -
  obtain o1 rs1 c1 where m: "(if IDSet_Len (sx_Access sctx) > 0 then reconcileRVRsConditionAbsent E (sx_Access sctx) rs
      else Some (zeroOutcome, rs, [])) = Some (o1, rs1, c1)"
    using assms(2) by (auto simp: markReplicas_def res_simps)
  then have one: "list_all2 sameSpec rs rs1"
    using removeLoop_keeps [OF assms(1)] by (auto simp: reconcileRVRsConditionAbsent_def list_all2_refl split: if_splits)
  have two: "list_all2 sameSpec rs1 rs'"
    using assms(2) m reconcileRVRsCondition_keeps [OF assms(1)]
    by (auto simp: markReplicas_def res_simps list_all2_refl split: if_splits)
  show "usedNodes rs' = usedNodes rs" "keepsPlaced rs rs'"
    using sameSpec_lists [OF one] sameSpec_lists [OF two] keepsPlaced_trans by auto
qed

lemma missing_distinct:
  assumes "keepsSpec E" and "scheduleMissing E sctx o0 rs = Some (o', rs', cs)"
    and "distinct (usedNodes rs)" and "set (usedNodes rs) \<subseteq> set (sx_OccupiedNodes sctx)"
  shows "distinct (usedNodes rs') \<and> keepsPlaced rs rs'"
proof -
  let ?u = "IDSet_Difference (sx_All sctx) (sx_Scheduled sctx)"
  obtain o3 sctx3 rs3 c3 where a: "scheduleReplicas E ''scheduling Diskful'' (IDSet_Intersect ?u (sx_Diskful sctx)) o0 sctx rs = Some (o3, sctx3, rs3, c3)"
    using assms(2) by (auto simp: scheduleMissing_def res_simps Let_def)
  note l = schedule_loop [OF assms(1) a, of "[]", simplified, OF assms(3,4)]
  show ?thesis
  proof (cases "ShouldReturn o3")
    case True
    then show ?thesis using assms(2) a l by (simp add: scheduleMissing_def Let_def)
  next
    case False
    then obtain sctx4 c4 where "scheduleReplicas E ''scheduling TieBreaker'' (IDSet_Intersect ?u (sx_TieBreaker sctx)) o3 sctx3 rs3 = Some (o', sctx4, rs', c4)"
      using assms(2) a by (auto simp: scheduleMissing_def res_simps Let_def)
    from schedule_loop [OF assms(1) this, of "[]"] l False show ?thesis using keepsPlaced_trans by auto
  qed
qed

subsection \<open>Properties\<close>

text \<open>C24: scheduling never puts two replicas on one node. If the placed replicas of a volume are on distinct
  nodes and the API server stores what it is sent, then after a reconcile that schedules the missing ones,
  however it ends, all placed replicas are on distinct nodes and no placed replica has moved.\<close>

theorem replicas_never_share_a_node:
  assumes "keepsSpec E" and "scheduleVolume E rv rsp att rvrs = Some (res, rvrs', calls)" and "distinct (usedNodes rvrs)"
  shows "distinct (usedNodes rvrs') \<and> keepsPlaced rvrs rvrs'"
proof -
  obtain sctx o1 rvrs1 c1 where sctx: "computeSchedulingContext rv rsp rvrs att = Some sctx"
    and m: "markReplicas E sctx rvrs = Some (o1, rvrs1, c1)"
    using assms(2) by (auto simp: scheduleVolume_def res_simps)
  note k = mark_keeps [OF assms(1) m]
  have "rvrs' = rvrs1 \<or> (\<exists>o2 c2. scheduleMissing E sctx o1 rvrs1 = Some (o2, rvrs', c2))"
    using assms(2) sctx m by (auto simp: scheduleVolume_def finish_def res_simps split: if_splits)
  then show ?thesis
    using missing_distinct [OF assms(1)] k assms(3) context_zones(2) [OF sctx] keepsPlaced_trans by auto
qed

theorem replicas_never_share_a_node_witness:
  "\<exists>res rvrs' calls. exScheduled = Some (res, rvrs', calls) \<and> distinct (usedNodes rvrs') \<and> keepsPlaced [exFresh 0, exFresh 1] rvrs'"
proof -
  obtain res rvrs' calls where s: "exScheduled = Some (res, rvrs', calls)" using exScheduled_runs by auto
  have "distinct (usedNodes [exFresh 0, exFresh 1])" by (simp add: exFresh_def emptyRVR_def)
  from replicas_never_share_a_node [OF keeps_exSchedEnv s [unfolded exScheduled_def] this] s show ?thesis by blast
qed

text \<open>C25: no disk is placed without a confirmed reservation. Whenever scheduling a diskful replica writes a
  placement, the extender was asked before to narrow the reservation to exactly that volume group and thin
  pool, and it agreed.\<close>

theorem no_disk_without_reservation:
  assumes "keepsSpec E" and "reconcileOneRVRScheduling E rvr sctx = Some (ob, r', sctx', calls)"
    and "rvr_Type rvr = RT_Diskful" and "CallPatchSpec r1 \<in> set calls"
  shows "\<exists>before after. calls = before @ CallNarrowReservation (reservationKey sctx rvr)
          (rvr_LVMVolumeGroupName r1, rvr_LVMVolumeGroupThinPoolName r1) # after
      \<and> (\<forall>x. CallPatchSpec x \<notin> set before)
      \<and> ext_NarrowReservation (se_Extender E) (reservationKey sctx rvr) (60 * 1000000000)
          (rvr_LVMVolumeGroupName r1, rvr_LVMVolumeGroupThinPoolName r1) = None"
  using assms(1,2)
proof (cases rule: scheduling_cases)
  case (placed p calls0 b calls2)
  have "CallPatchSpec r1 \<in> set calls2" using placed(5,7) assms(3,4) by (auto split: if_splits)
  then have "(rvr_LVMVolumeGroupName r1, rvr_LVMVolumeGroupThinPoolName r1) = entryKey b"
    using placed(4) by (simp add: placedAt_def entryKey_def)
  then show ?thesis using placed(5,6,7) assms(3) by auto
qed (use assms(4) in simp)

definition writtenSpecs :: "schedCall list \<Rightarrow> RVR list" where
  "writtenSpecs calls = List.map_filter (\<lambda>c. case c of CallPatchSpec r \<Rightarrow> Some r | _ \<Rightarrow> None) calls"

lemma set_writtenSpecs: "r \<in> set (writtenSpecs calls) \<longleftrightarrow> CallPatchSpec r \<in> set calls"
proof -
  have "(case c of CallPatchSpec r \<Rightarrow> Some r | _ \<Rightarrow> None) = Some r \<longleftrightarrow> c = CallPatchSpec r" for c by (cases c) auto
  then show ?thesis by (auto simp: writtenSpecs_def set_map_filter)
qed

lemma exOne_runs:
  "map_option (\<lambda>(o1, r, s, calls). map rvr_LVMVolumeGroupName (writtenSpecs calls))
     (computeSchedulingContext exSchedRV exPool [exFresh 0] [] \<bind> reconcileOneRVRScheduling exSchedEnv (exFresh 0)) = Some [''a'']"
  by code_simp

lemma exOne:
  obtains sctx ob r' sctx' calls r1 where "reconcileOneRVRScheduling exSchedEnv (exFresh 0) sctx = Some (ob, r', sctx', calls)"
    "CallPatchSpec r1 \<in> set calls" "rvr_LVMVolumeGroupName r1 = ''a''"
proof -
  obtain sctx ob r' sctx' calls where s: "reconcileOneRVRScheduling exSchedEnv (exFresh 0) sctx = Some (ob, r', sctx', calls)"
    and m: "map rvr_LVMVolumeGroupName (writtenSpecs calls) = [''a'']"
    using exOne_runs by (auto simp: res_simps)
  from m obtain r1 where "writtenSpecs calls = [r1]" and n: "rvr_LVMVolumeGroupName r1 = ''a''" by auto
  then have "CallPatchSpec r1 \<in> set calls" using set_writtenSpecs [of r1 calls] by simp
  from that [OF s this n] show thesis .
qed

theorem no_disk_without_reservation_witness:
  "\<exists>sctx ob r' sctx' calls before after. reconcileOneRVRScheduling exSchedEnv (exFresh 0) sctx = Some (ob, r', sctx', calls)
     \<and> (\<exists>thin. calls = before @ CallNarrowReservation (reservationKey sctx (exFresh 0)) (''a'', thin) # after)"
proof -
  obtain sctx ob r' sctx' calls r1 where s: "reconcileOneRVRScheduling exSchedEnv (exFresh 0) sctx = Some (ob, r', sctx', calls)"
    and c: "CallPatchSpec r1 \<in> set calls" and n: "rvr_LVMVolumeGroupName r1 = ''a''" by (rule exOne)
  have "rvr_Type (exFresh 0) = RT_Diskful" by (simp add: exFresh_def)
  from no_disk_without_reservation [OF keeps_exSchedEnv s this c] s n show ?thesis by metis
qed

text \<open>C26: a placement is the best admissible one. The placement written for a replica is a candidate of its
  pipeline on an eligible, ready, free node in an allowed zone (the replica's own node if it has one), for a
  diskful replica with a ready volume group of that node, and no candidate of the pipeline is better.\<close>

theorem best_candidate_placed:
  assumes "keepsSpec E" and "reconcileOneRVRScheduling E rvr sctx = Some (ob, r', sctx', calls)" and "CallPatchSpec r1 \<in> set calls"
  shows "\<exists>p cs b. scoredPipeline E sctx rvr = (Inr p, cs) \<and> b \<in> set (pl_Seq p) \<and> placedAt b rvr r1
      \<and> cd_Node b \<in> set (sx_EligibleNodes sctx) \<and> nodeReady b \<and> freeNode sctx rvr b
      \<and> allowedZone sctx rvr (en_ZoneName (cd_Node b))
      \<and> (rvr_Type rvr = RT_Diskful \<longrightarrow> lvgReady b \<and> (\<exists>l \<in> set (en_LVMVolumeGroups (cd_Node b)). cd_LVG b = Some l))
      \<and> (\<forall>e \<in> set (pl_Seq p). \<not> betterCandidate e b)"
  using assms(1,2)
proof (cases rule: scheduling_cases)
  case (placed p calls0 b calls2)
  note sel = selected_admissible [OF placed(1) cands.select_best(1) [OF placed(2)]]
  have "CallPatchSpec r1 \<in> set calls2" using placed(5,7) assms(3) by (auto split: if_splits)
  then show ?thesis using placed(1,4) sel cands.select_best [OF placed(2)] by blast
qed (use assms(3) in simp)

theorem best_candidate_placed_witness:
  "\<exists>sctx p cs b. scoredPipeline exSchedEnv sctx (exFresh 0) = (Inr p, cs) \<and> b \<in> set (pl_Seq p)
     \<and> (\<forall>e \<in> set (pl_Seq p). \<not> betterCandidate e b)"
proof -
  obtain sctx ob r' sctx' calls r1 where s: "reconcileOneRVRScheduling exSchedEnv (exFresh 0) sctx = Some (ob, r', sctx', calls)"
    and c: "CallPatchSpec r1 \<in> set calls" by (rule exOne)
  from best_candidate_placed [OF keeps_exSchedEnv s c] show ?thesis by blast
qed

text \<open>Scoring is a lookup. With one candidate per volume group and thin pool and one answer per query,
  the merge join keeps exactly the candidates that the extender gave a positive score, with that score,
  and counts the others as excluded.\<close>

theorem scoring_is_lookup:
  assumes "FilteredAndScoredBySchedulerExtender p X rid ttl n = Inr p'"
    and "ext_FilterAndScore X rid ttl n (scoringQueries (pl_Seq p)) = Inr scored" and "scoringQueries (pl_Seq p) \<noteq> []"
    and "distinct (map entryKey (pl_Seq p))" and "distinct (map fst scored)"
  shows "set (pl_Seq p') = {e \<lparr> cd_Score := k \<rparr> | e k. e \<in> set (pl_Seq p) \<and> map_of scored (entryKey e) = Some k \<and> k > 0}
    \<and> pl_Summary p' = excludedSummary (pl_Summary p) (length (pl_Seq p) - length (pl_Seq p')) ''scoring (no capacity)''"
proof -
  let ?ss = "sortBy fst scored" and ?es = "sortBy entryKey (pl_Seq p)"
  obtain r x where m: "mergeJoin ?ss ?es = (r, x)" by force
  have p': "pl_Seq p' = r" "pl_Summary p' = excludedSummary (pl_Summary p) x ''scoring (no capacity)''"
    using assms(1,2,3) m by (auto simp: FilteredAndScoredBySchedulerExtender_def Let_def)
  have "sorted_wrt (\<lambda>a b. keyLess (fst a) (fst b)) ?ss" "sorted_wrt (\<lambda>a b. keyLess (entryKey a) (entryKey b)) ?es"
    using assms(4,5) by (auto intro!: strict_if_distinct simp: sortBy_props)
  from mergeJoin_lookup [OF this] m have "r = List.map_filter (scoredEntry ?ss) ?es" by simp
  then have "set r = {e'. \<exists>e \<in> set (pl_Seq p). scoredEntry scored e = Some e'}"
    by (simp add: set_map_filter sortBy_props scoredEntry_def map_of_sortBy [OF assms(5)])
  then have "set r = {e \<lparr> cd_Score := k \<rparr> | e k. e \<in> set (pl_Seq p) \<and> map_of scored (entryKey e) = Some k \<and> k > 0}"
    by (auto simp: scoredEntry_def split: option.splits if_splits)
  moreover have "x = length (pl_Seq p) - length r" using mergeJoin_count [of ?ss ?es] m by (simp add: sortBy_props)
  ultimately show ?thesis using p' by simp
qed

theorem scoring_is_lookup_witness:
  "\<exists>p'. FilteredAndScoredBySchedulerExtender (TakeLVGsFromEligibleNodes [exNode ''a'', exNode ''b'']) exExtender ''r'' 1 1 = Inr p'
     \<and> lvgCandidate (exNode ''a'') (hd (en_LVMVolumeGroups (exNode ''a''))) \<lparr> cd_Score := 5 \<rparr> \<in> set (pl_Seq p')"
proof -
  let ?p = "TakeLVGsFromEligibleNodes [exNode ''a'', exNode ''b'']"
  have q: "scoringQueries (pl_Seq ?p) = [(''a'', []), (''b'', [])]" "map entryKey (pl_Seq ?p) = [(''a'', []), (''b'', [])]"
    by (simp_all add: TakeLVGsFromEligibleNodes_def scoringQueries_def exNode_def lvgCandidate_def entryKey_def LVGName_def ThinPoolName_def)
  have s: "ext_FilterAndScore exExtender ''r'' 1 1 (scoringQueries (pl_Seq ?p)) = Inr [((''a'', []), 5), ((''b'', []), 5)]"
    by (simp add: q exExtender_def)
  obtain p' where p': "FilteredAndScoredBySchedulerExtender ?p exExtender ''r'' 1 1 = Inr p'"
    using s q(1)
    by (cases "mergeJoin (sortBy fst [((''a'', []), 5), ((''b'', []), 5)]) (sortBy entryKey (pl_Seq ?p))")
      (auto simp: FilteredAndScoredBySchedulerExtender_def Let_def)
  let ?a = "lvgCandidate (exNode ''a'') (hd (en_LVMVolumeGroups (exNode ''a'')))"
  have a: "?a \<in> set (pl_Seq ?p)" "entryKey ?a = (''a'', [])"
    by (simp_all add: TakeLVGsFromEligibleNodes_def exNode_def lvgCandidate_def entryKey_def LVGName_def ThinPoolName_def)
  have "?a \<lparr> cd_Score := 5 \<rparr> \<in> set (pl_Seq p')"
    using scoring_is_lookup [OF p' s, THEN conjunct1] q a by fastforce
  then show ?thesis using p' by blast
qed


definition exBalance :: "(schedulingContext \<times> ReconcileOutcome \<times> schedulingContext \<times> RVR list \<times> schedCall list) option" where
  "exBalance = do { sctx \<leftarrow> computeSchedulingContext exSchedRV exPool [exFresh 0, exFresh 1] [];
     r \<leftarrow> scheduleReplicas exSchedEnv ''scheduling Diskful'' (IDSet_Of [0, 1]) zeroOutcome sctx [exFresh 0, exFresh 1]; Some (sctx, r) }"

lemma exBalance_runs:
  "map_option (\<lambda>(s, o', s', _). (sx_Topology s, map snd (sx_ReplicasByZone s), map snd (sx_ReplicasByZone s'))) exBalance
     = Some (TopologyTransZonal, [0, 0, 0], [1, 2, 0])"
  by code_simp


text \<open>C40: a replica that already has its node can be stuck. In a trans-zonal volume a diskful replica that has
  a node but no volume group counts in its own zone; as soon as another zone holds fewer diskful
  replicas, the zone filter excludes the replica's own node, no candidate is left, nothing is placed and the
  replica reports SchedulingFailed, on every reconcile.\<close>

theorem assigned_replica_is_stuck:
  assumes "sx_Topology sctx = TopologyTransZonal" and "rvr_Type rvr = RT_Diskful" and "rvr_NodeName rvr \<noteq> []"
    and "\<forall>n \<in> set (sx_EligibleNodes sctx). en_NodeName n = rvr_NodeName rvr \<longrightarrow> en_ZoneName n = z"
    and "zonesKnown sctx" and "(z, s) \<in> set (sx_ReplicasByZone sctx)" and "s' \<in> snd ` set (sx_ReplicasByZone sctx)"
    and "diskfulIn sctx s' < diskfulIn sctx s"
  shows "reconcileOneRVRScheduling E rvr sctx =
    (case reconcileRVRCondition E ConditionFalse ''SchedulingFailed'' (pl_Summary (placementPipeline sctx rvr)) rvr of
       (ob, r', calls) \<Rightarrow> Some (ob, r', sctx, calls))"
proof -
  let ?p = "placementPipeline sctx rvr"
  have "\<not> allowedZone sctx rvr z"
    using assms(1,2,6,7,8) fewest_diskful.all_or_preferred [where sctx = sctx and zs = "sx_ReplicasByZone sctx" and z = z and s = s and s' = s']
      \<open>zonesKnown sctx\<close> by (auto simp: allowedZone_def transZonalZones_def zonesKnown_def)
  then have "e \<notin> set (pl_Seq ?p)" for e
    using assms(2,3,4) by (auto simp: placement_Seq freeNode_def lvgCandidate_def)
  then have e: "pl_Seq ?p = []" by (metis list.set_intros(1) neq_Nil_conv)
  then have "FilteredAndScoredBySchedulerExtender ?p X rid ttl n = Inr \<lparr> pl_Seq = [], pl_Summary = pl_Summary ?p \<rparr>" for X rid ttl n
    by (simp add: FilteredAndScoredBySchedulerExtender_def scoringQueries_def excludedSummary_def)
  then have "scoredPipeline E sctx rvr = (Inr \<lparr> pl_Seq = [], pl_Summary = pl_Summary ?p \<rparr>, [])"
    using assms(1,2) e by (simp add: scoredPipeline_def Let_def scoringQueries_def adjustScores_def WithPredicate_def
        WithNodeScore_def WithGroupScore_def excludedSummary_def map_filter_simps)
  then show ?thesis by (simp add: reconcileOneRVRScheduling_def SelectBest_def)
qed

definition exAssigned :: RVR where
  "exAssigned = exFresh 0 \<lparr> rvr_NodeName := ''a'' \<rparr>"

lemma exAssigned_context:
  "map_option (\<lambda>s. (sx_Topology s, map (\<lambda>n. (en_NodeName n, en_ZoneName n)) (sx_EligibleNodes s), sx_ReplicasByZone s, sx_Diskful s))
     (computeSchedulingContext exSchedRV exPool [exAssigned] [])
   = Some (TopologyTransZonal, [(''a'', ''a''), (''b'', ''b''), (''c'', ''c'')], [(''a'', 1), (''b'', 0), (''c'', 0)], 1)"
  by code_simp

theorem assigned_replica_is_stuck_witness:
  "\<exists>sctx. computeSchedulingContext exSchedRV exPool [exAssigned] [] = Some sctx
     \<and> map_option (\<lambda>(ob, r', sctx', calls). rvr_LVMVolumeGroupName r') (reconcileOneRVRScheduling exSchedEnv exAssigned sctx) = Some []"
proof -
  obtain sctx where s: "computeSchedulingContext exSchedRV exPool [exAssigned] [] = Some sctx"
    and f: "sx_Topology sctx = TopologyTransZonal" "map (\<lambda>n. (en_NodeName n, en_ZoneName n)) (sx_EligibleNodes sctx) = [(''a'', ''a''), (''b'', ''b''), (''c'', ''c'')]"
      "sx_ReplicasByZone sctx = [(''a'', 1), (''b'', 0), (''c'', 0)]" "sx_Diskful sctx = 1"
    using exAssigned_context by auto
  have ids1: "ids (1 :: IDSet) = {0}" using ids_single [of 0] by simp
  have "(en_NodeName n, en_ZoneName n) \<in> {(''a'', ''a''), (''b'', ''b''), (''c'', ''c'')}" if "n \<in> set (sx_EligibleNodes sctx)" for n
    using that f(2) by (metis (no_types, lifting) image_eqI list.set(1) list.set(2) list.set_map)
  then have n: "\<forall>n \<in> set (sx_EligibleNodes sctx). en_NodeName n = rvr_NodeName exAssigned \<longrightarrow> en_ZoneName n = ''a''"
    by (fastforce simp: exAssigned_def)
  have "reconcileOneRVRScheduling exSchedEnv exAssigned sctx =
    (case reconcileRVRCondition exSchedEnv ConditionFalse ''SchedulingFailed'' (pl_Summary (placementPipeline sctx exAssigned)) exAssigned of
       (ob, r', calls) \<Rightarrow> Some (ob, r', sctx, calls))"
    by (rule assigned_replica_is_stuck [OF f(1) _ _ n context_zones(1) [OF s], of 1 0])
      (simp_all add: exAssigned_def exFresh_def f diskfulIn_def ids1)
  moreover obtain ob r' calls where c: "reconcileRVRCondition exSchedEnv ConditionFalse ''SchedulingFailed''
      (pl_Summary (placementPipeline sctx exAssigned)) exAssigned = (ob, r', calls)" by (metis prod_cases3)
  moreover have "rvr_LVMVolumeGroupName r' = []"
    using condition_keeps(1) [OF keeps_exSchedEnv c] by (simp add: sameSpec_def exAssigned_def exFresh_def emptyRVR_def)
  ultimately show ?thesis using s by simp
qed

end
