(* ===== verification/Spec2Isabelle.thy ===== *)
theory Spec2Isabelle
  imports Datamesh_Build Datamesh_Redundancy Datamesh_Types Datamesh_Writeback Datamesh_Converge Dmte_Laws
    Flow Rv_Layout Rv_Requests Rv_Rollout Rv_Reconcile_Props Rvr_Props Sched_Laws
begin

text \<open>
  \<^bold>\<open>Verification of the controllers of sds-replicated-volume.\<close>

  \<^bold>\<open>The program.\<close> A replicated volume (\<open>ReplicatedVolume\<close>, RV) is kept by several replicas
  (\<open>ReplicatedVolumeReplica\<close>, RVR) on different nodes, which DRBD connects. The members of the volume, their
  types and the quorum form its \<^emph>\<open>datamesh\<close>, stored in the status of the volume with a revision. Every change of
  the datamesh is a \<^emph>\<open>transition\<close>, a plan of steps, where a step is applied, published with a new
  revision, and passed when every replica concerned has confirmed that revision. The modelled code is the
  Go code under \<open>src/images/controller/internal\<close>, \<open>src/api\<close> and \<open>src/lib/go/common/reconciliation/flow\<close>:

  \<^item> \<open>rv_controller\<close> reconciles a volume: configuration and its rollout, formation of the datamesh, transitions
    (packages \<open>dmte\<close>, the generic engine, and \<open>datamesh\<close>, its plans, guards and dispatchers), layout
    convergence, Access replicas, attachments, finalizers, deletion.
  \<^item> \<open>rvr_scheduling_controller\<close> chooses the node, volume group and thin pool of each replica.
  \<^item> \<open>rvr_controller\<close> reconciles one replica: its logical volume, its DRBD resource, its status, and the request
    to join, leave or change the datamesh that \<open>rv_controller\<close> acts on. It reports the revision that the
    transitions wait for.
  \<^item> The libraries: \<open>idset\<close>, \<open>drbd_size\<close>, \<open>api/v1alpha1\<close>, \<open>api/objutilv1\<close>, \<open>flow\<close>.

  \<^bold>\<open>How the code is modelled.\<close> Structs are records, enumerations datatypes, machine integers words of their
  width where wrap-around matters. Code that may panic has an \<open>option\<close> as its result, and \<open>None\<close> is the panic. Go errors are
  values of \<open>goErr\<close>, results of fallible calls sums with the error on the left. State is passed explicitly; the transitions
  of the engine live in a store addressed by index, since the source aliases them, and the Members slice is
  written in place as in the source. Calls to the API server are answered by functions in a client record
  (\<open>FormationEnv\<close>, \<open>ReconcileEnv\<close>, \<open>RvrClient\<close>) that every definition takes as an argument, reads by records
  (\<open>ReconcileReads\<close>, \<open>ReplicaReads\<close>), and the reconcilers return the calls they made, in order.

  \<^bold>\<open>Theories.\<close>

  \<^item> \<open>Prelude\<close>: integers, strings, decimal rendering, sorting, the rules for option computations.
  \<^item> \<open>Idset\<close> (\<open>idset/idset.go\<close>): bit sets of replica IDs; the locale \<open>id_collection\<close> is the interface of
    finite sets, interpreted on the words.
  \<^item> \<open>Drbd_Size\<close> (\<open>drbd_size\<close>): size arithmetic on 64-bit words. \<open>Api_Types\<close> (\<open>api/v1alpha1\<close>): types, names and IDs.
  \<^item> \<open>Flow\<close> (\<open>flow.go\<close>): outcomes and their merging; the locale \<open>flat_merge\<close> states that merging
    group by group is merging at once, interpreted for both kinds of outcome. \<open>Obj_Util\<close> (\<open>api/objutilv1\<close>): finalizers, labels,
    conditions; the locale \<open>condition_api\<close> is what is relied on of \<open>meta.SetStatusCondition\<close>.
  \<^item> \<open>Dmte_Plan\<close>, \<open>Dmte_Message\<close>, \<open>Dmte_Engine\<close> (\<open>rv_controller/dmte\<close>): plans and registry, messages, the
    engine. \<open>Dmte_Invariant\<close>, \<open>Dmte_Tracked\<close> and \<open>Dmte_Laws\<close> prove its laws for every registry, context and tracker: the
    locale \<open>init_contract\<close> (what the callbacks have to respect) gives the life cycle of transitions,
    \<open>tracked_engine\<close> extends it by a tracker and gives mutual exclusion.
  \<^item> \<open>Datamesh_Context\<close>, \<open>Datamesh_Tracker\<close>, \<open>Datamesh_Helpers\<close>, \<open>Datamesh_Callbacks\<close>, \<open>Datamesh_Guards\<close>,
    \<open>Datamesh_Attachment\<close>, \<open>Datamesh_Plans\<close>, \<open>Datamesh_Dispatch\<close>, \<open>Datamesh_Process\<close> (\<open>rv_controller/datamesh\<close>): contexts,
    concurrency tracker, callbacks, guards, the sixty plans, the five dispatchers and \<open>ProcessTransitions\<close>. Their laws:
    \<open>Datamesh_Registry\<close> (the registry is complete, dispatchers name registered plans; interprets
    \<open>init_contract\<close>), \<open>Datamesh_Exclusion\<close> (interprets \<open>tracked_engine\<close>), \<open>Datamesh_Build\<close>, \<open>Datamesh_Run\<close>,
    \<open>Datamesh_Quorum\<close> (quorums intersect after every step), \<open>Datamesh_Types\<close> (plans reach their type),
    \<open>Datamesh_Redundancy\<close> (what the guards of leaving voters promise), \<open>Datamesh_Converge\<close> (the quorum
    dispatcher), \<open>Datamesh_Writeback\<close> (the slice that is written in place), \<open>Datamesh_Examples\<close> (volumes for witnesses).
  \<^item> \<open>Rv_Objects\<close>, \<open>Rv_Layout\<close>, \<open>Rv_Requests\<close>, \<open>Rv_Rollout\<close>, \<open>Rv_Formation\<close>, \<open>Rv_Attachments\<close>, \<open>Rv_Reconcile\<close>
    (\<open>rv_controller/reconciler*.go\<close>): the volume reconciler, with \<open>Rv_Formation_Laws\<close>, \<open>Rv_Formation_Props\<close>,
    \<open>Rv_Reconcile_Laws\<close> and \<open>Rv_Reconcile_Props\<close>: a formation is a run of a three-step machine and completes
    redundant, bootstrapped data survives, a pass over a formed volume touches no data and keeps the
    finalizers of members, and what it publishes satisfies the invariants it assumes.
  \<^item> \<open>Sched_Pipeline\<close>, \<open>Sched_Context\<close>, \<open>Sched_Reconcile\<close>, \<open>Sched_Laws\<close> (\<open>rvr_scheduling_controller\<close>): candidates,
    scores, selection and placement. The locales \<open>candidate_order\<close> and \<open>zone_preference\<close> are the contracts of the
    comparison functions of the selection, interpreted on the comparisons of the code.
  \<^item> \<open>Rvr_Objects\<close>, \<open>Rvr_Backing\<close>, \<open>Rvr_Drbd\<close>, \<open>Rvr_Status\<close>, \<open>Rvr_Conditions\<close>, \<open>Rvr_Phase\<close>, \<open>Rvr_Reconcile\<close>
    (\<open>rvr_controller/reconciler*.go\<close>): the replica reconciler, with \<open>Rvr_Laws\<close> and \<open>Rvr_Props\<close>: when a logical
    volume is deleted, when a revision is reported, that connections are configured alike on both ends, what
    a healthy replica stands for, that the status helpers do not panic. The locale \<open>condition_store\<close> extends
    \<open>condition_api\<close> by removal.
  \<^item> This theory joins engine and datamesh: \<open>ProcessTransitions\<close> keeps the life cycle and the mutual exclusion of
    transitions.

  Several theorems show a situation in which the code does not do what it means to: quorums split by
  a force removal, a cancelled transition that nothing replaces, a layout computed from shifted members,
  a replica that is never scheduled, a replica reconciler that panics on an oversized volume, and one that deletes
  a volume DRBD still uses.

  \<^bold>\<open>Bounds.\<close> \<open>Process\<close> alternates settling and dispatch at most \<open>maxOuter\<close> = 10 times, as in the source. The settle loop
  itself terminates; its measure is the number of open steps. \<open>LowerVolumeSize\<close> iterates ten times, as in the
  source, and is shown not to reach its panic up to 4 EiB. The loop that creates missing replicas has
  \<open>createBound\<close> = 33 rounds: every round takes one of 32 IDs or stops. Every other loop is total recursion.

  \<^bold>\<open>Parameters.\<close> Not defined here but arguments with documented behaviour as hypotheses: the API server, the scheduler extender, the
  clock, the random source, \<open>meta.SetStatusCondition\<close> and \<open>meta.RemoveStatusCondition\<close>, \<open>Quantity.String\<close>,
  \<open>controllerutil.SetControllerReference\<close>, the classification of API errors and their causes.

  \<^bold>\<open>Not modelled.\<close> Logging, metrics, watches, predicates and the set-up of the controllers; caches and
  indexes of controller-runtime; \<open>rsc_controller\<close>, \<open>rsp_controller\<close> and \<open>node_controller\<close>, which prepare classes, pools and
  node labels; the agent, which runs the DRBD tools and reads kernel events; the CSI driver, webhooks, hooks and the
  migrator from LINSTOR; deep copies and other generated code.
\<close>

section \<open>ProcessTransitions\<close>



text \<open>C1: mutual exclusion between transitions. If the transitions of the volume are compatible (at most
  one of each serialized group, no quorum change beside a voting membership change, no resize beside a
  transition that brings in a disk, at most one membership and one attachment transition per replica) and
  name replicas with IDs below 32, then the transitions that \<open>ProcessTransitions\<close> returns are compatible,
  too, whatever it settles, cancels and starts.\<close>

theorem ProcessTransitions_exclusion:
  assumes "BuildRegistry qs None = Some reg"
    and "ProcessTransitions reg now realloc rv rsp rvrs rvas feat = Some (ch, rcs, rv')"
    and "0 \<le> rv_DatameshRevision rv"
    and "\<forall>t \<in> set (rv_DatameshTransitions rv). steps_ok t \<and> revs_le (rv_DatameshRevision rv) t"
    and "compatible (mset (map view (rv_DatameshTransitions rv)))"
    and "\<forall>t \<in> set (rv_DatameshTransitions rv). replicaGroup t \<longrightarrow> validID t"
  shows "compatible (mset (map view (rv_DatameshTransitions rv')))
    \<and> (\<forall>t \<in> set (rv_DatameshTransitions rv'). replicaGroup t \<longrightarrow> validID t)"
  using ProcessTransitions_compatible [OF assms] by blast

theorem ProcessTransitions_exclusion_witness:
  "\<exists>reg ch rcs rv'. BuildRegistry (\<lambda>_. []) None = Some reg \<and> exSteady reg = Some (ch, rcs, rv')
     \<and> compatible (mset (map view (rv_DatameshTransitions rv')))"
proof -
  obtain reg where reg: "BuildRegistry (\<lambda>_. []) None = Some reg" by (simp add: BuildRegistry_eq)
  obtain ch rcs rv' where run: "exSteady reg = Some (ch, rcs, rv')" using exSteady_runs [of reg] by auto
  from ProcessTransitions_exclusion [OF reg run] show ?thesis
    using reg run compatible_empty by (auto simp: exRV_def)
qed

end
